(* ===== verification/Prelude.thy ===== *)
theory Prelude
  imports Complex_Main "HOL-Library.List_Lexorder" "HOL-Library.Char_ord"
begin

text \<open>
  The shared ground of the development: the result type of code that raises, the tables of
  the relational store as lists of rows keyed by their primary key, the parts of the Python
  standard library the backend uses on strings, JSON values and time stamps, and the two
  generic contracts (optimistic concurrency, invariants of a step relation) that several
  components instantiate.

  Strings are lists of ASCII characters. Time stamps are microseconds since the epoch in UTC,
  as unbounded integers. Primary keys (random UUIDs in the code) are natural numbers: every
  operation that draws one takes it as an argument, so that the theorems hold for every
  value the generator may return, and an insertion under a key that is already taken fails
  as the database makes it fail.
\<close>

named_theorems run_simps \<open>inversion rules for code that may raise\<close>
named_theorems table_simps \<open>reading a table after a write\<close>

type_synonym uuid = nat
type_synonym timestamp = int
type_synonym decimal = rat

section \<open>Code that may raise\<close>

definition bindE :: "'e + 'a \<Rightarrow> ('a \<Rightarrow> 'e + 'b) \<Rightarrow> 'e + 'b" where
  "bindE m f = (case m of Inl e \<Rightarrow> Inl e | Inr x \<Rightarrow> f x)"

definition requireE :: "bool \<Rightarrow> 'e \<Rightarrow> 'e + unit" where
  "requireE b e = (if b then Inr () else Inl e)"

definition someE :: "'a option \<Rightarrow> 'e \<Rightarrow> 'e + 'a" where
  "someE x e = (case x of None \<Rightarrow> Inl e | Some y \<Rightarrow> Inr y)"

fun foldE :: "('a \<Rightarrow> 's \<Rightarrow> 'e + 's) \<Rightarrow> 'a list \<Rightarrow> 's \<Rightarrow> 'e + 's" where
  "foldE f [] s = Inr s"
| "foldE f (x # xs) s = bindE (f x s) (foldE f xs)"

fun mapE :: "('a \<Rightarrow> 'e + 'b) \<Rightarrow> 'a list \<Rightarrow> 'e + 'b list" where
  "mapE f [] = Inr []"
| "mapE f (x # xs) = bindE (f x) (\<lambda>y. bindE (mapE f xs) (\<lambda>ys. Inr (y # ys)))"

section \<open>Tables\<close>

definition row_get :: "('r \<Rightarrow> uuid) \<Rightarrow> uuid \<Rightarrow> 'r list \<Rightarrow> 'r option" where
  "row_get key i rows = find (\<lambda>r. key r = i) rows"

definition row_put :: "('r \<Rightarrow> uuid) \<Rightarrow> 'r \<Rightarrow> 'r list \<Rightarrow> 'r list" where
  "row_put key r rows = map (\<lambda>x. if key x = key r then r else x) rows"

definition unique_keys :: "('r \<Rightarrow> uuid) \<Rightarrow> 'r list \<Rightarrow> bool" where
  "unique_keys key rows \<longleftrightarrow> distinct (map key rows)"

text \<open>\<open>ORDER BY k DESC LIMIT 1\<close>: a row with the greatest key, the first such in the table.\<close>

fun latest_by :: "('r \<Rightarrow> 'k::linorder) \<Rightarrow> 'r list \<Rightarrow> 'r option" where
  "latest_by k [] = None"
| "latest_by k (x # xs) =
     (case latest_by k xs of None \<Rightarrow> Some x | Some y \<Rightarrow> if k x < k y then Some y else Some x)"

section \<open>Strings, numbers and JSON\<close>

definition upper_char :: "char \<Rightarrow> char" where
  "upper_char c = (if 97 \<le> (of_char c :: nat) \<and> (of_char c :: nat) \<le> 122
                   then char_of ((of_char c :: nat) - 32) else c)"

definition lower_char :: "char \<Rightarrow> char" where
  "lower_char c = (if 65 \<le> (of_char c :: nat) \<and> (of_char c :: nat) \<le> 90
                   then char_of ((of_char c :: nat) + 32) else c)"

definition str_upper :: "string \<Rightarrow> string" where
  "str_upper s = map upper_char s"

definition str_lower :: "string \<Rightarrow> string" where
  "str_lower s = map lower_char s"

definition is_space :: "char \<Rightarrow> bool" where
  "is_space c = ((of_char c :: nat) = 32 \<or> (9 \<le> (of_char c :: nat) \<and> (of_char c :: nat) \<le> 13)
     \<or> (28 \<le> (of_char c :: nat) \<and> (of_char c :: nat) \<le> 31))"

definition str_strip :: "string \<Rightarrow> string" where
  "str_strip s = rev (dropWhile is_space (rev (dropWhile is_space s)))"

definition is_alnum :: "char \<Rightarrow> bool" where
  "is_alnum c = (let n = (of_char c :: nat)
     in (48 \<le> n \<and> n \<le> 57) \<or> (65 \<le> n \<and> n \<le> 90) \<or> (97 \<le> n \<and> n \<le> 122))"

fun str_join :: "string \<Rightarrow> string list \<Rightarrow> string" where
  "str_join sep [] = []"
| "str_join sep [x] = x"
| "str_join sep (x # y # ys) = x @ sep @ str_join sep (y # ys)"

fun str_contains :: "string \<Rightarrow> string \<Rightarrow> bool" where
  "str_contains needle [] = (needle = [])"
| "str_contains needle (c # cs) =
     (take (length needle) (c # cs) = needle \<or> str_contains needle cs)"

fun nat_str :: "nat \<Rightarrow> string" where
  "nat_str n = (if n < 10 then [char_of (48 + n)]
                else nat_str (n div 10) @ [char_of (48 + n mod 10)])"

declare nat_str.simps [simp del]

definition int_str :: "int \<Rightarrow> string" where
  "int_str i = (if i < 0 then CHR ''-'' # nat_str (nat (- i)) else nat_str (nat i))"

definition pad_left :: "nat \<Rightarrow> string \<Rightarrow> string" where
  "pad_left n s = replicate (n - length s) (CHR ''0'') @ s"

datatype json =
    JNull
  | JBool bool
  | JInt int
  | JStr string
  | JList "json list"
  | JObj "(string \<times> json) list"

definition hex_digit :: "nat \<Rightarrow> char" where
  "hex_digit n = (if n < 10 then char_of (48 + n) else char_of (87 + n))"

text \<open>\<open>json.dumps\<close> escapes with \<open>ensure_ascii\<close>: every character outside \<open>' '..'~'\<close>.\<close>

definition json_escape_char :: "char \<Rightarrow> string" where
  "json_escape_char c = (let n = (of_char c :: nat) in
     if n = 34 then [CHR 0x5C, CHR 0x22]
     else if n = 92 then [CHR 0x5C, CHR 0x5C]
     else if n = 10 then [CHR 0x5C, CHR ''n'']
     else if n = 13 then [CHR 0x5C, CHR ''r'']
     else if n = 9 then [CHR 0x5C, CHR ''t'']
     else if n = 12 then [CHR 0x5C, CHR ''f'']
     else if n = 8 then [CHR 0x5C, CHR ''b'']
     else if 32 \<le> n \<and> n \<le> 126 then [c]
     else [CHR 0x5C, CHR ''u'', CHR ''0'', CHR ''0'', hex_digit (n div 16), hex_digit (n mod 16)])"

definition json_string :: "string \<Rightarrow> string" where
  "json_string s = [CHR 0x22] @ concat (map json_escape_char s) @ [CHR 0x22]"

text \<open>\<open>json.dumps(value, sort_keys=True, separators=(",", ":"))\<close>.\<close>

primrec json_dumps :: "json \<Rightarrow> string" where
  "json_dumps JNull = ''null''"
| "json_dumps (JBool b) = (if b then ''true'' else ''false'')"
| "json_dumps (JInt i) = int_str i"
| "json_dumps (JStr s) = json_string s"
| "json_dumps (JList xs) = ''['' @ str_join '','' (map json_dumps xs) @ '']''"
| "json_dumps (JObj kvs) =
     (let entries = sort_key fst (map (map_prod id json_dumps) kvs)
      in ''{'' @ str_join '','' (map (\<lambda>(k, v). json_string k @ '':'' @ v) entries) @ ''}'')"

definition json_opt :: "('a \<Rightarrow> json) \<Rightarrow> 'a option \<Rightarrow> json" where
  "json_opt f x = (case x of None \<Rightarrow> JNull | Some y \<Rightarrow> f y)"

definition json_params :: "(string \<times> string) list \<Rightarrow> json" where
  "json_params ps = JObj (map (map_prod id JStr) ps)"

section \<open>Time\<close>

definition seconds :: "int \<Rightarrow> timestamp" where
  "seconds n = n * 1000000"

definition minutes :: "int \<Rightarrow> timestamp" where
  "minutes n = seconds (n * 60)"

definition hours :: "int \<Rightarrow> timestamp" where
  "hours n = minutes (n * 60)"

text \<open>The proleptic Gregorian date (year, month, day) of a day counted from 1970-01-01.\<close>

definition civil_date :: "int \<Rightarrow> int \<times> int \<times> int" where
  "civil_date days =
     (let z = days + 719468;
          era = z div 146097;
          doe = z mod 146097;
          yoe = (doe - doe div 1460 + doe div 36524 - doe div 146096) div 365;
          doy = doe - (365 * yoe + yoe div 4 - yoe div 100);
          mp = (5 * doy + 2) div 153;
          d = doy - (153 * mp + 2) div 5 + 1;
          m = (if mp < 10 then mp + 3 else mp - 9)
      in (yoe + era * 400 + (if m \<le> 2 then 1 else 0), m, d))"

definition isoformat :: "timestamp \<Rightarrow> string" where
  "isoformat t =
     (let us = t mod 1000000; s = t div 1000000; sod = s mod 86400;
          (y, m, d) = civil_date (s div 86400);
          two = (\<lambda>n. pad_left 2 (int_str n))
      in pad_left 4 (int_str y) @ ''-'' @ two m @ ''-'' @ two d @ ''T''
         @ two (sod div 3600) @ '':'' @ two (sod mod 3600 div 60) @ '':'' @ two (sod mod 60)
         @ (if us = 0 then [] else ''.'' @ pad_left 6 (int_str us)) @ ''+00:00'')"

section \<open>Fingerprints and stable identifiers\<close>

text \<open>
  The digest function (SHA-256 in hexadecimal) is a parameter \<open>sha\<close>: the theorems hold for
  every function from strings to strings, and where one needs more of it that is a hypothesis.
\<close>

definition hash_json :: "(string \<Rightarrow> string) \<Rightarrow> json \<Rightarrow> string" where
  "hash_json sha v = sha (json_dumps v)"

definition stable_public_id :: "(string \<Rightarrow> string) \<Rightarrow> string \<Rightarrow> string list \<Rightarrow> string" where
  "stable_public_id sha prefix parts =
     prefix @ ''-'' @ str_upper (take 16 (sha (str_join ''|'' parts)))"

section \<open>Lemmas on results\<close>

lemma bindE_simps [simp]:
  "bindE (Inl e) f = Inl e" "bindE (Inr x) f = f x"
  by (simp_all add: bindE_def)

lemma bindE_Inr_iff [run_simps]:
  "bindE m f = Inr r \<longleftrightarrow> (\<exists>x. m = Inr x \<and> f x = Inr r)"
  by (cases m) simp_all

lemma mapE_view:
  assumes "mapE f xs = Inr ys" and "\<And>x y. f x = Inr y \<Longrightarrow> g y = x"
  shows "map g ys = xs"
  using assms(1) by (induction xs arbitrary: ys) (auto simp: run_simps assms(2))

lemma bindE_Inl_iff:
  "bindE m f = Inl e \<longleftrightarrow> m = Inl e \<or> (\<exists>x. m = Inr x \<and> f x = Inl e)"
  by (cases m) simp_all

lemma bindE_assoc: "bindE (bindE m f) g = bindE m (\<lambda>x. bindE (f x) g)"
  by (cases m) simp_all

lemma requireE_simps [simp]:
  "requireE True e = Inr ()" "requireE False e = Inl e"
  by (simp_all add: requireE_def)

lemma requireE_Inr_iff [run_simps]: "requireE b e = Inr u \<longleftrightarrow> b"
  by (simp add: requireE_def)

lemma requireE_Inl_iff [run_simps]: "requireE b e = Inl e' \<longleftrightarrow> \<not> b \<and> e' = e"
  by (auto simp: requireE_def)

lemma someE_simps [simp]: "someE None e = Inl e" "someE (Some x) e = Inr x"
  by (simp_all add: someE_def)

lemma someE_Inr_iff [run_simps]: "someE x e = Inr y \<longleftrightarrow> x = Some y"
  by (cases x) simp_all

lemma someE_Inl_iff [run_simps]: "someE x e = Inl e' \<longleftrightarrow> x = None \<and> e' = e"
  by (cases x) auto

lemma foldE_append:
  "foldE f (xs @ ys) s = bindE (foldE f xs s) (foldE f ys)"
  by (induction xs arbitrary: s) (simp_all add: bindE_assoc bindE_def split: sum.split)

lemma foldE_invariant:
  assumes "foldE f xs s = Inr t" and "P s"
    and "\<And>x s t. x \<in> set xs \<Longrightarrow> f x s = Inr t \<Longrightarrow> P s \<Longrightarrow> P t"
  shows "P t"
  using assms
proof (induction xs arbitrary: s)
  case Nil
  then show ?case by simp
next
  case (Cons x xs)
  then obtain u where u: "f x s = Inr u" and rest: "foldE f xs u = Inr t"
    by (auto simp: run_simps)
  have "P u" using Cons.prems(2,3) u by (meson list.set_intros(1))
  then show ?case using Cons.IH [OF rest] Cons.prems(3) by (meson list.set_intros(2))
qed

section \<open>Lemmas on tables\<close>

lemma find_SomeD: "find P xs = Some x \<Longrightarrow> x \<in> set xs \<and> P x"
  by (auto simp: find_Some_iff)

lemma row_get_Some: "row_get key i rows = Some r \<Longrightarrow> r \<in> set rows \<and> key r = i"
  by (auto simp: row_get_def find_Some_iff)

lemma row_get_None: "row_get key i rows = None \<longleftrightarrow> i \<notin> key ` set rows"
  by (auto simp: row_get_def find_None_iff)

lemma row_get_empty [simp]: "row_get key i [] = None"
  by (simp add: row_get_def)

lemma row_get_append [table_simps]:
  "row_get key i (rows @ [r]) =
     (case row_get key i rows of Some x \<Rightarrow> Some x | None \<Rightarrow> if key r = i then Some r else None)"
  by (induction rows) (auto simp: row_get_def)

lemma row_get_put [table_simps]:
  "row_get key i (row_put key r rows) =
     (if i = key r \<and> row_get key i rows \<noteq> None then Some r else row_get key i rows)"
  by (induction rows) (auto simp: row_get_def row_put_def)

lemma keys_row_put [simp]: "map key (row_put key r rows) = map key rows"
  by (simp add: row_put_def)

lemma length_row_put [simp]: "length (row_put key r rows) = length rows"
  by (simp add: row_put_def)

lemma unique_keys_put [simp]: "unique_keys key (row_put key r rows) = unique_keys key rows"
  by (simp add: unique_keys_def)

lemma unique_keys_append:
  "unique_keys key (rows @ [r]) \<longleftrightarrow> unique_keys key rows \<and> row_get key (key r) rows = None"
  by (auto simp: unique_keys_def row_get_None)

lemma set_row_put:
  "set (row_put key r rows) =
     {x \<in> set rows. key x \<noteq> key r} \<union> (if key r \<in> key ` set rows then {r} else {})"
  by (auto simp: row_put_def image_iff)

lemma row_get_unique:
  "unique_keys key rows \<Longrightarrow> r \<in> set rows \<Longrightarrow> row_get key (key r) rows = Some r"
  by (induction rows) (auto simp: unique_keys_def row_get_def image_iff)

text \<open>A write that keeps the foreign key of a row leaves the rows of every other owner alone.\<close>

lemma filter_row_put_other:
  assumes "\<And>x. x \<in> set rows \<Longrightarrow> key x = key r \<Longrightarrow> \<not> P x" and "\<not> P r"
  shows "filter P (row_put key r rows) = filter P rows"
  using assms by (induction rows) (auto simp: row_put_def)

lemma filter_row_put_same:
  assumes "\<And>x. x \<in> set rows \<Longrightarrow> key x = key r \<Longrightarrow> P x" and "P r"
  shows "filter P (row_put key r rows) = row_put key r (filter P rows)"
  using assms by (induction rows) (auto simp: row_put_def)

lemma latest_by_None [simp]: "latest_by k xs = None \<longleftrightarrow> xs = []"
  by (cases xs) (auto split: option.splits)

lemma latest_by_in: "latest_by k xs = Some x \<Longrightarrow> x \<in> set xs"
  by (induction xs arbitrary: x) (auto split: option.splits if_splits)

lemma latest_by_max: "latest_by k xs = Some x \<Longrightarrow> y \<in> set xs \<Longrightarrow> k y \<le> k x"
proof (induction xs arbitrary: x y)
  case Nil
  then show ?case by simp
next
  case (Cons a xs)
  then show ?case
    by (fastforce split: option.splits if_splits)
qed

section \<open>Generic contracts\<close>

text \<open>
  Optimistic concurrency: a command names an object (in the state it meets) and carries the
  version its caller read, and an accepted command leaves the object at a version beyond it.
  The contract is what rules out lost updates: of two commands that carry the same version of
  the same object at most one is accepted, in whatever order and with whatever other accepted
  commands between them.
\<close>

locale version_guarded =
  fixes run :: "'c \<Rightarrow> 's \<Rightarrow> 'e + ('r \<times> 's)"
    and target :: "'c \<Rightarrow> 's \<Rightarrow> 'k option"
    and version_at :: "'k \<Rightarrow> 's \<Rightarrow> int"
    and expected :: "'c \<Rightarrow> int"
    and ok :: "'s \<Rightarrow> bool"
  assumes accepted: "ok s \<Longrightarrow> run c s = Inr (r, t) \<Longrightarrow> \<exists>k. target c s = Some k
    \<and> version_at k s \<le> expected c \<and> expected c < version_at k t"
begin

lemma version_increases:
  "ok s \<Longrightarrow> run c s = Inr (r, t) \<Longrightarrow> target c s = Some k \<Longrightarrow> version_at k s < version_at k t"
  using accepted by fastforce

lemma no_lost_update:
  assumes "ok s" and "ok u" and "run c s = Inr (r, t)" and "target c s = Some k"
    and "version_at k t \<le> version_at k u" and "target d u = Some k" and "expected d \<le> expected c"
  shows "\<exists>e. run d u = Inl e"
proof (cases "run d u")
  case (Inr res)
  then have "version_at k u \<le> expected d"
    using accepted [of u d "fst res" "snd res"] assms(2,6) by simp
  moreover have "expected c < version_at k t"
    using accepted [OF assms(1,3)] assms(4) by simp
  ultimately show ?thesis using assms(5,7) by simp
qed blast

end

text \<open>Invariants of a step relation hold along every run of it.\<close>

locale step_invariant =
  fixes step :: "'s \<Rightarrow> 's \<Rightarrow> bool" and inv :: "'s \<Rightarrow> bool"
  assumes preserved: "step s t \<Longrightarrow> inv s \<Longrightarrow> inv t"
begin

lemma along_run: "rtranclp step s t \<Longrightarrow> inv s \<Longrightarrow> inv t"
  by (induction rule: rtranclp_induct) (auto intro: preserved)

end

end
