(* ===== verification/Domain.thy ===== *)
theory Domain
  imports Prelude
begin

text \<open>
  The vocabulary of \<open>app/domain\<close>: the string enumerations of the backend as datatypes (one
  constructor per member, prefixed where two enumerations share a member name), the stored
  spelling of a member where a payload carries it, the exceptions as constructors of one
  \<open>error\<close> type, and the pure decision functions of \<open>domain/actions.py\<close> and
  \<open>domain/identity.py\<close>.
\<close>

section \<open>Identity\<close>

datatype member_role = SPECIALIST | SUPERVISOR | ADMINISTRATOR | AUDITOR

datatype member_status = MS_ACTIVE | MS_INVITED | MS_DEACTIVATED

datatype invitation_status = INV_PENDING | INV_ACCEPTED | INV_EXPIRED | INV_REVOKED

datatype actor_kind = AK_MEMBER | AK_SERVICE | AK_SYSTEM

datatype authentication_mode = DETERMINISTIC_DEVELOPMENT | PROVIDER

datatype permission =
    SESSION_READ | ORGANIZATION_READ | MEMBER_READ | MEMBER_INVITE | MEMBER_MANAGE
  | CASE_READ | CASE_MANAGE
  | REVIEW_READ | REVIEW_RESERVE | REVIEW_DECIDE
  | ACTION_READ | ACTION_EXECUTE | ACTION_RECONCILE
  | POLICY_READ | POLICY_MANAGE | CONNECTION_READ | CONNECTION_MANAGE
  | QUALITY_READ | AUDIT_READ | SETTINGS_MANAGE

fun member_role_value :: "member_role \<Rightarrow> string" where
  "member_role_value SPECIALIST = ''specialist''"
| "member_role_value SUPERVISOR = ''supervisor''"
| "member_role_value ADMINISTRATOR = ''administrator''"
| "member_role_value AUDITOR = ''auditor''"

fun actor_kind_value :: "actor_kind \<Rightarrow> string" where
  "actor_kind_value AK_MEMBER = ''member''"
| "actor_kind_value AK_SERVICE = ''service''"
| "actor_kind_value AK_SYSTEM = ''system''"

section \<open>Actions\<close>

datatype action_status =
  AS_READY | AS_RUNNING | AS_COMPLETED | AS_FAILED_SAFE | AS_OUTCOME_UNKNOWN | AS_RECOVERY_REQUIRED

datatype action_attempt_outcome =
  AO_RUNNING | AO_SUCCEEDED | AO_FAILED_BEFORE_CHANGE | AO_UNKNOWN

datatype action_side_effect_state = SE_NOT_ATTEMPTED | SE_NONE | SE_CONFIRMED | SE_POSSIBLE

datatype action_execution_blocker =
  BL_PERMISSION | BL_DUPLICATE | BL_EXPIRED_APPROVAL | BL_CONNECTION_UNAVAILABLE | BL_STALE_PROPOSAL

datatype action_command =
  CMD_EXECUTE | CMD_RETRY_SAFE | CMD_RECONCILE | CMD_RECORD_MANUAL_OUTCOME | CMD_ESCALATE

datatype action_attempt_command = AC_EXECUTE | AC_RETRY_SAFE | AC_LEGACY_IMPORT

datatype reconciliation_outcome =
  RO_RUNNING | RO_CONFIRMED_COMPLETED | RO_CONFIRMED_ABSENT | RO_STILL_UNKNOWN

datatype manual_action_outcome = MO_COMPLETED | MO_NOT_COMPLETED

fun action_status_value :: "action_status \<Rightarrow> string" where
  "action_status_value AS_READY = ''ready''"
| "action_status_value AS_RUNNING = ''running''"
| "action_status_value AS_COMPLETED = ''completed''"
| "action_status_value AS_FAILED_SAFE = ''failed_safe''"
| "action_status_value AS_OUTCOME_UNKNOWN = ''outcome_unknown''"
| "action_status_value AS_RECOVERY_REQUIRED = ''recovery_required''"

fun side_effect_value :: "action_side_effect_state \<Rightarrow> string" where
  "side_effect_value SE_NOT_ATTEMPTED = ''not_attempted''"
| "side_effect_value SE_NONE = ''none''"
| "side_effect_value SE_CONFIRMED = ''confirmed''"
| "side_effect_value SE_POSSIBLE = ''possible''"

fun blocker_value :: "action_execution_blocker \<Rightarrow> string" where
  "blocker_value BL_PERMISSION = ''permission''"
| "blocker_value BL_DUPLICATE = ''duplicate''"
| "blocker_value BL_EXPIRED_APPROVAL = ''expired_approval''"
| "blocker_value BL_CONNECTION_UNAVAILABLE = ''connection_unavailable''"
| "blocker_value BL_STALE_PROPOSAL = ''stale_proposal''"

fun action_command_value :: "action_command \<Rightarrow> string" where
  "action_command_value CMD_EXECUTE = ''execute''"
| "action_command_value CMD_RETRY_SAFE = ''retry_safe''"
| "action_command_value CMD_RECONCILE = ''reconcile''"
| "action_command_value CMD_RECORD_MANUAL_OUTCOME = ''record_manual_outcome''"
| "action_command_value CMD_ESCALATE = ''escalate''"

fun reconciliation_outcome_value :: "reconciliation_outcome \<Rightarrow> string" where
  "reconciliation_outcome_value RO_RUNNING = ''running''"
| "reconciliation_outcome_value RO_CONFIRMED_COMPLETED = ''confirmed_completed''"
| "reconciliation_outcome_value RO_CONFIRMED_ABSENT = ''confirmed_absent''"
| "reconciliation_outcome_value RO_STILL_UNKNOWN = ''still_unknown''"

fun manual_outcome_value :: "manual_action_outcome \<Rightarrow> string" where
  "manual_outcome_value MO_COMPLETED = ''completed''"
| "manual_outcome_value MO_NOT_COMPLETED = ''not_completed''"

section \<open>Connections\<close>

datatype connection_environment = DEMO | SANDBOX | PRODUCTION

datatype connection_health = HEALTHY | DEGRADED | UNAVAILABLE | NOT_CONFIGURED

datatype credential_status = CRED_DEMO | CRED_CONNECTED | CRED_MISSING | CRED_EXPIRED

text \<open>
  \<open>_HEALTH_ORDER\<close> and \<open>_ENVIRONMENT_ORDER\<close> rank connections when an action looks for one;
  the ranks make both enumerations linear orders.
\<close>

fun health_order :: "connection_health \<Rightarrow> nat" where
  "health_order HEALTHY = 0"
| "health_order DEGRADED = 1"
| "health_order UNAVAILABLE = 2"
| "health_order NOT_CONFIGURED = 3"

fun environment_order :: "connection_environment \<Rightarrow> nat" where
  "environment_order PRODUCTION = 0"
| "environment_order SANDBOX = 1"
| "environment_order DEMO = 2"

lemma health_order_inj: "health_order x = health_order y \<longleftrightarrow> x = y"
  by (cases x; cases y) simp_all

lemma environment_order_inj: "environment_order x = environment_order y \<longleftrightarrow> x = y"
  by (cases x; cases y) simp_all

instantiation connection_health :: linorder
begin

definition less_eq_connection_health :: "connection_health \<Rightarrow> connection_health \<Rightarrow> bool" where
  "less_eq_connection_health x y = (health_order x \<le> health_order y)"

definition less_connection_health :: "connection_health \<Rightarrow> connection_health \<Rightarrow> bool" where
  "less_connection_health x y = (health_order x < health_order y)"

instance
  by standard (auto simp: less_eq_connection_health_def less_connection_health_def health_order_inj
    intro: antisym)

end

instantiation connection_environment :: linorder
begin

definition less_eq_connection_environment ::
    "connection_environment \<Rightarrow> connection_environment \<Rightarrow> bool" where
  "less_eq_connection_environment x y = (environment_order x \<le> environment_order y)"

definition less_connection_environment ::
    "connection_environment \<Rightarrow> connection_environment \<Rightarrow> bool" where
  "less_connection_environment x y = (environment_order x < environment_order y)"

instance
  by standard (auto simp: less_eq_connection_environment_def less_connection_environment_def
    environment_order_inj intro: antisym)

end

section \<open>Cases\<close>

datatype case_status =
    CS_NEW | CS_INVESTIGATING | CS_INFORMATION_NEEDED | CS_NEEDS_REVIEW | CS_WAITING_CUSTOMER
  | CS_IN_PROGRESS | CS_COMPLETED

datatype case_category = BILLING_DISPUTE | REFUND_REQUEST | ACCOUNT_ACCESS | SERVICE_EXCEPTION

datatype case_urgency = URG_LOW | URG_MEDIUM | URG_HIGH | URG_CRITICAL

datatype case_risk = CRISK_LOW | CRISK_MEDIUM | CRISK_HIGH

datatype source_freshness = SF_CURRENT | SF_STALE | SF_UNAVAILABLE

datatype customer_tier = TIER_STANDARD | TIER_VIP | TIER_ENTERPRISE

datatype business_object_type =
  BO_INVOICE | BO_PAYMENT | BO_SUBSCRIPTION | BO_ACCOUNT | BO_ORDER | BO_DELIVERY | BO_OTHER

datatype message_channel = MC_EMAIL | MC_CHAT | MC_PHONE | MC_WEBHOOK | MC_INTERNAL_NOTE

datatype message_author_type = MA_CUSTOMER | MA_MEMBER | MA_SYSTEM

fun case_category_value :: "case_category \<Rightarrow> string" where
  "case_category_value BILLING_DISPUTE = ''billing_dispute''"
| "case_category_value REFUND_REQUEST = ''refund_request''"
| "case_category_value ACCOUNT_ACCESS = ''account_access''"
| "case_category_value SERVICE_EXCEPTION = ''service_exception''"

fun case_status_value :: "case_status \<Rightarrow> string" where
  "case_status_value CS_NEW = ''new''"
| "case_status_value CS_INVESTIGATING = ''investigating''"
| "case_status_value CS_INFORMATION_NEEDED = ''information_needed''"
| "case_status_value CS_NEEDS_REVIEW = ''needs_review''"
| "case_status_value CS_WAITING_CUSTOMER = ''waiting_customer''"
| "case_status_value CS_IN_PROGRESS = ''in_progress''"
| "case_status_value CS_COMPLETED = ''completed''"

fun source_freshness_value :: "source_freshness \<Rightarrow> string" where
  "source_freshness_value SF_CURRENT = ''current''"
| "source_freshness_value SF_STALE = ''stale''"
| "source_freshness_value SF_UNAVAILABLE = ''unavailable''"

fun business_object_type_value :: "business_object_type \<Rightarrow> string" where
  "business_object_type_value BO_INVOICE = ''invoice''"
| "business_object_type_value BO_PAYMENT = ''payment''"
| "business_object_type_value BO_SUBSCRIPTION = ''subscription''"
| "business_object_type_value BO_ACCOUNT = ''account''"
| "business_object_type_value BO_ORDER = ''order''"
| "business_object_type_value BO_DELIVERY = ''delivery''"
| "business_object_type_value BO_OTHER = ''other''"

fun message_channel_value :: "message_channel \<Rightarrow> string" where
  "message_channel_value MC_EMAIL = ''email''"
| "message_channel_value MC_CHAT = ''chat''"
| "message_channel_value MC_PHONE = ''phone''"
| "message_channel_value MC_WEBHOOK = ''webhook''"
| "message_channel_value MC_INTERNAL_NOTE = ''internal_note''"

section \<open>Reviews and decision briefs\<close>

datatype review_status =
  RS_PENDING | RS_RESERVED | RS_APPROVED | RS_CHANGES_REQUESTED | RS_REJECTED | RS_ESCALATED

datatype review_decision = RD_APPROVE | RD_REQUEST_CHANGES | RD_REJECT | RD_ESCALATE

datatype review_policy_state = PS_SUPPORTED | PS_POSSIBLE_CONFLICT | PS_MISSING

datatype review_uncertainty = UNC_LOW | UNC_MEDIUM | UNC_HIGH

datatype review_freshness = RF_CURRENT | RF_STALE

datatype review_reservation_status = RR_ACTIVE | RR_CONSUMED | RR_EXPIRED

datatype decision_proposal_state =
  DP_DRAFT | DP_INFORMATION_NEEDED | DP_READY_FOR_REVIEW | DP_UNDER_REVIEW | DP_APPROVED | DP_REJECTED

datatype proposal_confidence = CONF_HIGH | CONF_MEDIUM | CONF_LOW

datatype risk_outcome = RISK_PASSED | RISK_REQUIRES_REVIEW | RISK_INFORMATION_NEEDED | RISK_BLOCKED

datatype response_suggestion_status = RSP_DRAFT | RSP_READY | RSP_BLOCKED

datatype evidence_retrieval_status = ER_RELEVANT | ER_MISSING | ER_STALE | ER_CONFLICTING | ER_INAPPLICABLE

datatype policy_version_status = PV_DRAFT | PV_IN_REVIEW | PV_PUBLISHED | PV_SCHEDULED | PV_RETIRED

datatype policy_lifecycle_status =
    PL_DRAFT | PL_IN_REVIEW | PL_PUBLISHED | PL_SCHEDULED | PL_RETIRED | PL_EXPIRED
  | PL_CONFLICTING | PL_PARSING_FAILED

datatype policy_source_kind = PSK_UPLOAD | PSK_URL | PSK_MANUAL

datatype embedding_profile_status = EP_BUILDING | EP_READY | EP_ACTIVE | EP_RETIRED | EP_FAILED

datatype policy_index_job_status = IJ_PENDING | IJ_RUNNING | IJ_COMPLETED | IJ_FAILED | IJ_DEAD

datatype analysis_status = AN_COMPLETED | AN_ABSTAINED

datatype checkpoint_status = CK_COMPLETED | CK_ABSTAINED

datatype decision_generation_status = GEN_RUNNING | GEN_COMPLETED | GEN_FAILED

datatype settings_section = SET_GENERAL | SET_APPROVALS | SET_NOTIFICATIONS | SET_SECURITY | SET_RETENTION

fun review_decision_value :: "review_decision \<Rightarrow> string" where
  "review_decision_value RD_APPROVE = ''approve''"
| "review_decision_value RD_REQUEST_CHANGES = ''request_changes''"
| "review_decision_value RD_REJECT = ''reject''"
| "review_decision_value RD_ESCALATE = ''escalate''"

section \<open>Exceptions\<close>

datatype error =
    PermissionDenied permission
  | ActorMembershipNotFound string
  | ActionNotFound string
  | ActionConflict string
  | ActionExecutionBlocked action_execution_blocker string
  | ActionVersionConflict int int
  | CaseNotFound string
  | CaseConcurrencyConflict int int
  | CaseActorNotAssignable string
  | InvalidCaseTransition string
  | DraftConcurrencyConflict int int
  | BusinessEvidenceConflict string
  | BusinessEvidenceNotAllowed string
  | ReviewNotFound string
  | ReviewConflict string
  | ReviewSubmissionNotAllowed string
  | ReviewDecisionNotAllowed string
  | ReviewAuthorityDenied string
  | ReviewSnapshotStale string
  | ReviewReservationExpired string
  | ReviewVersionConflict int int
  | PolicyNotFound string
  | PolicyConcurrencyConflict int int
  | PolicyVersionConcurrencyConflict int int
  | InvalidPolicyTransition string
  | PolicySourceParseError string
  | PolicyActorNotAssignable string
  | PolicyAlreadyExists string
  | OrganizationNotFound string
  | ActorMembershipAmbiguous string
  | InvitationConflict string
  | InvitationNotFound string
  | InvitationVersionConflict int int
  | MemberNotFound string
  | MemberConflict string
  | MemberVersionConflict int int
  | LookupError string
  | RuntimeError string
  | ProposalNotFound string
  | ProposalConcurrencyConflict int int
  | ProposalSnapshotMismatch string
  | ProposalGenerationNotAllowed string
  | DecisionFingerprintRetryExhausted string
  | SettingsConflict string
  | DecisionGenerationInProgress int
  | DecisionGenerationRetryExhausted string
  | DecisionGenerationLeaseLost string
  | ValueError string
  | IntegrityError string

section \<open>Decision functions of the action domain\<close>

definition reconciliation_outcome_for_lookup :: "bool option \<Rightarrow> bool \<Rightarrow> reconciliation_outcome" where
  "reconciliation_outcome_for_lookup found absence_is_terminal =
     (if found = Some True then RO_CONFIRMED_COMPLETED
      else if found = Some False \<and> absence_is_terminal then RO_CONFIRMED_ABSENT
      else RO_STILL_UNKNOWN)"

definition reconciliation_outcome_for_manual_record ::
    "manual_action_outcome \<Rightarrow> reconciliation_outcome" where
  "reconciliation_outcome_for_manual_record outcome =
     (if outcome = MO_COMPLETED then RO_CONFIRMED_COMPLETED else RO_STILL_UNKNOWN)"

definition retired_action_types :: "string list" where
  "retired_action_types =
     [''correct_billing_address'', ''change_draft_currency'', ''regenerate_invoice_locale'',
      ''credit_removed_seats'', ''attach_purchase_order'', ''refund_course_fee'',
      ''refund_unstarted_premium'', ''rename_account'', ''revoke_compromised_sessions'',
      ''change_recovery_email'']"

section \<open>Roles and permissions\<close>

definition role_satisfies :: "member_role option \<Rightarrow> member_role \<Rightarrow> bool" where
  "role_satisfies actor_role required_role =
     (if actor_role = Some ADMINISTRATOR then True else actor_role = Some required_role)"

definition all_permissions :: "permission list" where
  "all_permissions =
     [SESSION_READ, ORGANIZATION_READ, MEMBER_READ, MEMBER_INVITE, MEMBER_MANAGE, CASE_READ,
      CASE_MANAGE, REVIEW_READ, REVIEW_RESERVE, REVIEW_DECIDE, ACTION_READ, ACTION_EXECUTE,
      ACTION_RECONCILE, POLICY_READ, POLICY_MANAGE, CONNECTION_READ, CONNECTION_MANAGE,
      QUALITY_READ, AUDIT_READ, SETTINGS_MANAGE]"

fun role_permissions :: "member_role \<Rightarrow> permission list" where
  "role_permissions SPECIALIST =
     [SESSION_READ, ORGANIZATION_READ, MEMBER_READ, CASE_READ, CASE_MANAGE, REVIEW_READ,
      ACTION_READ, POLICY_READ, CONNECTION_READ]"
| "role_permissions SUPERVISOR =
     [SESSION_READ, ORGANIZATION_READ, MEMBER_READ, CASE_READ, CASE_MANAGE, REVIEW_READ,
      REVIEW_RESERVE, REVIEW_DECIDE, ACTION_READ, ACTION_EXECUTE, ACTION_RECONCILE, POLICY_READ,
      CONNECTION_READ, QUALITY_READ]"
| "role_permissions ADMINISTRATOR = all_permissions"
| "role_permissions AUDITOR =
     [SESSION_READ, ORGANIZATION_READ, MEMBER_READ, CASE_READ, REVIEW_READ, ACTION_READ,
      POLICY_READ, CONNECTION_READ, QUALITY_READ, AUDIT_READ]"

record actor_context =
  actor_id :: string
  actor_organization_id :: string
  actor_name :: string
  actor_kind :: actor_kind
  actor_role :: "member_role option"
  actor_permissions :: "permission list"
  actor_authentication_mode :: authentication_mode

definition can :: "actor_context \<Rightarrow> permission \<Rightarrow> bool" where
  "can actor p = (p \<in> set (actor_permissions actor))"

definition require_permission :: "actor_context \<Rightarrow> permission \<Rightarrow> error + unit" where
  "require_permission actor p = requireE (can actor p) (PermissionDenied p)"

section \<open>Lemmas\<close>

lemma all_permissions_complete: "set all_permissions = UNIV"
proof -
  have "p \<in> set all_permissions" for p
    by (cases p) (simp_all add: all_permissions_def)
  then show ?thesis by blast
qed

lemma require_permission_Inr_iff [run_simps]:
  "require_permission actor p = Inr u \<longleftrightarrow> can actor p"
  by (simp add: require_permission_def requireE_Inr_iff)

lemma role_satisfies_iff:
  "role_satisfies r q \<longleftrightarrow> r = Some ADMINISTRATOR \<or> r = Some q"
  by (simp add: role_satisfies_def)

text \<open>A role that can decide a review can also read and reserve it, and a deciding role is a
  supervisor's or an administrator's.\<close>

lemma decide_roles:
  "REVIEW_DECIDE \<in> set (role_permissions r) \<longleftrightarrow> r = SUPERVISOR \<or> r = ADMINISTRATOR"
  by (cases r) (simp_all add: all_permissions_def)

lemma execute_roles:
  "ACTION_EXECUTE \<in> set (role_permissions r) \<longleftrightarrow> r = SUPERVISOR \<or> r = ADMINISTRATOR"
  by (cases r) (simp_all add: all_permissions_def)

end
