(* ===== verification/Schema.thy ===== *)
theory Schema
  imports Domain
begin

text \<open>
  The relational store of \<open>app/persistence/models\<close>: one record per ORM class the modelled
  repositories touch, with its columns in the order of the class, and the database as the
  record of the tables. A status column is its enumeration (the \<open>CHECK ... IN\<close> constraint of
  the column); JSON columns are \<open>json\<close> values or the records their readers parse them into;
  floating-point scores, which nothing here computes with, are rational numbers.

  An insertion checks the primary key, the unique constraints (partial unique indexes
  included) and the remaining \<open>CHECK\<close> constraints of the class and raises \<open>IntegrityError\<close>
  as the flush of the session does. Foreign keys are not checked: every reference the
  repositories insert was read in the same transaction. A session is one serial transaction:
  it either returns a result with the new database or raises, and then the database is the
  one it started from.
\<close>

section \<open>Rows\<close>

record verified_fact =
  fact_id :: string
  fact_statement :: string
  fact_source :: string
  fact_verified_at :: timestamp

record information_gap =
  gap_id :: string
  gap_label :: string
  gap_description :: string
  gap_blocking :: bool

record decision_risk_check =
  risk_id :: string
  risk_label :: string
  risk_outcome :: risk_outcome
  risk_explanation :: string

datatype evidence_freshness = EF_CURRENT | EF_STALE

datatype evidence_conflict_state = CF_NONE | CF_POSSIBLE | CF_CONFIRMED

record organization =
  org_id :: uuid
  org_public_id :: string
  org_name :: string
  org_slug :: string
  org_version :: int
  org_created_at :: timestamp
  org_updated_at :: timestamp

record membership =
  mem_id :: uuid
  mem_public_id :: string
  mem_organization_id :: uuid
  mem_subject_id :: string
  mem_name :: string
  mem_email :: string
  mem_role :: member_role
  mem_status :: member_status
  mem_version :: int
  mem_last_active_at :: "timestamp option"
  mem_created_at :: timestamp
  mem_updated_at :: timestamp

record invitation =
  iv_id :: uuid
  iv_public_id :: string
  iv_organization_id :: uuid
  iv_email :: string
  iv_role :: member_role
  iv_status :: invitation_status
  iv_version :: int
  iv_invited_by_id :: uuid
  iv_provider_invitation_id :: "string option"
  iv_expires_at :: timestamp
  iv_accepted_at :: "timestamp option"
  iv_created_at :: timestamp
  iv_updated_at :: timestamp

record case_row =
  cs_id :: uuid
  cs_public_id :: string
  cs_organization_id :: uuid
  cs_legacy_task_id :: "uuid option"
  cs_source_id :: string
  cs_external_reference :: string
  cs_category :: case_category
  cs_issue :: string
  cs_status :: case_status
  cs_owner_id :: "uuid option"
  cs_urgency :: case_urgency
  cs_risk :: case_risk
  cs_due_at :: timestamp
  cs_impact_amount :: "decimal option"
  cs_impact_currency :: "string option"
  cs_source_freshness :: source_freshness
  cs_source_checked_at :: "timestamp option"
  cs_version :: int
  cs_created_at :: timestamp
  cs_updated_at :: timestamp

datatype request_channel = RQ_EMAIL | RQ_CHAT | RQ_PHONE | RQ_WEBHOOK

record case_request =
  crq_id :: uuid
  crq_public_id :: string
  crq_organization_id :: uuid
  crq_case_id :: uuid
  crq_channel :: request_channel
  crq_customer_message :: string
  crq_summary :: string
  crq_received_at :: timestamp

record customer_context =
  cc_id :: uuid
  cc_organization_id :: uuid
  cc_case_id :: uuid
  cc_customer_id :: string
  cc_name :: string
  cc_tier :: customer_tier
  cc_locale :: string
  cc_contact :: string
  cc_captured_at :: timestamp

record business_object_snapshot =
  bo_id :: uuid
  bo_public_id :: string
  bo_organization_id :: uuid
  bo_case_id :: uuid
  bo_object_type :: business_object_type
  bo_label :: string
  bo_source :: string
  bo_source_reference :: string
  bo_status :: string
  bo_fields :: json
  bo_captured_at :: timestamp
  bo_source_freshness :: source_freshness
  bo_source_checked_at :: "timestamp option"
  bo_version :: int

record conversation_thread =
  th_id :: uuid
  th_public_id :: string
  th_organization_id :: uuid
  th_case_id :: uuid
  th_version :: int
  th_updated_at :: timestamp

record conversation_message =
  msg_id :: uuid
  msg_public_id :: string
  msg_organization_id :: uuid
  msg_case_id :: uuid
  msg_thread_id :: uuid
  msg_author_type :: message_author_type
  msg_author_id :: "string option"
  msg_author_name :: string
  msg_channel :: message_channel
  msg_body :: string
  msg_internal :: bool
  msg_source_reference :: "string option"
  msg_version :: int
  msg_created_at :: timestamp

record response_draft =
  rd_id :: uuid
  rd_public_id :: string
  rd_organization_id :: uuid
  rd_case_id :: uuid
  rd_subject :: string
  rd_body :: string
  rd_status :: response_suggestion_status
  rd_version :: int
  rd_updated_at :: timestamp

record analysis_generation =
  gen_id :: uuid
  gen_organization_id :: uuid
  gen_case_id :: uuid
  gen_input_fingerprint :: string
  gen_owner_token :: uuid
  gen_fence_token :: int
  gen_attempt_count :: int
  gen_status :: decision_generation_status
  gen_expires_at :: timestamp
  gen_analysis_run_id :: "uuid option"
  gen_last_error_code :: "string option"
  gen_created_at :: timestamp
  gen_updated_at :: timestamp
  gen_completed_at :: "timestamp option"

record analysis_run =
  ar_id :: uuid
  ar_public_id :: string
  ar_organization_id :: uuid
  ar_case_id :: uuid
  ar_status :: analysis_status
  ar_policy_status :: evidence_retrieval_status
  ar_case_version :: int
  ar_input_fingerprint :: string
  ar_context_fingerprint :: string
  ar_evidence_fingerprint :: string
  ar_initiated_by :: string
  ar_model_version :: string
  ar_prompt_version :: string
  ar_graph_version :: string
  ar_risk_rule_version :: string
  ar_started_at :: timestamp
  ar_completed_at :: timestamp

record analysis_checkpoint =
  ck_id :: uuid
  ck_public_id :: string
  ck_organization_id :: uuid
  ck_case_id :: uuid
  ck_analysis_run_id :: uuid
  ck_sequence :: int
  ck_step :: string
  ck_status :: checkpoint_status
  ck_summary :: string
  ck_input_fingerprint :: string
  ck_output_fingerprint :: string
  ck_created_at :: timestamp

record case_proposal =
  prop_id :: uuid
  prop_public_id :: string
  prop_organization_id :: uuid
  prop_case_id :: uuid
  prop_current_version :: int
  prop_state :: decision_proposal_state
  prop_version :: int
  prop_created_at :: timestamp
  prop_updated_at :: timestamp

record proposal_version =
  pv_id :: uuid
  pv_public_id :: string
  pv_organization_id :: uuid
  pv_case_id :: uuid
  pv_proposal_id :: uuid
  pv_analysis_run_id :: uuid
  pv_legacy_proposal_version_id :: "uuid option"
  pv_version :: int
  pv_immutable :: bool
  pv_outcome :: string
  pv_impact_amount :: "decimal option"
  pv_impact_currency :: "string option"
  pv_confidence :: proposal_confidence
  pv_uncertainty :: string
  pv_rationale :: string
  pv_state :: decision_proposal_state
  pv_facts :: "verified_fact list"
  pv_missing_information :: "information_gap list"
  pv_risks :: "decision_risk_check list"
  pv_evidence_fingerprint :: string
  pv_context_fingerprint :: string
  pv_risk_fingerprint :: string
  pv_risk_rule_version :: string
  pv_model_version :: string
  pv_prompt_version :: string
  pv_graph_version :: string
  pv_created_at :: timestamp

record evidence_binding =
  peb_id :: uuid
  peb_organization_id :: uuid
  peb_case_id :: uuid
  peb_proposal_id :: uuid
  peb_proposal_version_id :: uuid
  peb_evidence_id :: uuid
  peb_evidence_fingerprint :: string

record context_binding =
  pcb_id :: uuid
  pcb_organization_id :: uuid
  pcb_case_id :: uuid
  pcb_proposal_id :: uuid
  pcb_proposal_version_id :: uuid
  pcb_context_id :: uuid
  pcb_snapshot_version :: int
  pcb_context_fingerprint :: string

record proposed_action =
  pa_id :: uuid
  pa_public_id :: string
  pa_organization_id :: uuid
  pa_case_id :: uuid
  pa_proposal_id :: uuid
  pa_proposal_version_id :: uuid
  pa_type :: string
  pa_label :: string
  pa_parameters :: "(string \<times> string) list"
  pa_impact_amount :: "decimal option"
  pa_impact_currency :: "string option"
  pa_expected_outcome :: string
  pa_review_required :: bool
  pa_created_at :: timestamp

record proposal_response_draft =
  prd_id :: uuid
  prd_public_id :: string
  prd_organization_id :: uuid
  prd_case_id :: uuid
  prd_proposal_id :: uuid
  prd_proposal_version_id :: uuid
  prd_subject :: string
  prd_body :: string
  prd_status :: response_suggestion_status
  prd_version :: int
  prd_created_at :: timestamp

record policy_record =
  pol_id :: uuid
  pol_public_id :: string
  pol_organization_id :: uuid
  pol_title :: string
  pol_description :: string
  pol_status :: policy_lifecycle_status
  pol_owner_id :: uuid
  pol_source_kind :: policy_source_kind
  pol_source_name :: string
  pol_source_error :: "string option"
  pol_current_version :: int
  pol_version :: int
  pol_created_at :: timestamp
  pol_updated_at :: timestamp

record policy_version =
  gpv_id :: uuid
  gpv_public_id :: string
  gpv_organization_id :: uuid
  gpv_policy_id :: uuid
  gpv_legacy_policy_version_id :: "uuid option"
  gpv_version :: int
  gpv_record_version :: int
  gpv_status :: policy_version_status
  gpv_immutable :: bool
  gpv_source_text :: string
  gpv_content_hash :: string
  gpv_decision_scope :: string
  gpv_case_categories :: "string list"
  gpv_products :: "string list"
  gpv_regions :: "string list"
  gpv_channels :: "string list"
  gpv_customer_tiers :: "string list"
  gpv_effective_from :: "timestamp option"
  gpv_effective_to :: "timestamp option"
  gpv_created_by :: string
  gpv_created_at :: timestamp
  gpv_submitted_at :: "timestamp option"
  gpv_published_at :: "timestamp option"
  gpv_retired_at :: "timestamp option"

record policy_clause =
  gpc_id :: uuid
  gpc_public_id :: string
  gpc_organization_id :: uuid
  gpc_policy_id :: uuid
  gpc_policy_version_id :: uuid
  gpc_sequence :: int
  gpc_heading :: string
  gpc_text :: string
  gpc_applies_when :: string
  gpc_content_hash :: string
  gpc_chunking_version :: string
  gpc_embedding_version :: string
  gpc_index_version :: string
  gpc_embedding :: "decimal list"
  gpc_search_vector :: string

record embedding_profile =
  ep_id :: uuid
  ep_profile_key :: string
  ep_environment :: string
  ep_provider :: string
  ep_model :: string
  ep_dimensions :: int
  ep_normalization_version :: string
  ep_chunking_version :: string
  ep_index_version :: string
  ep_status :: embedding_profile_status
  ep_expected_clause_count :: int
  ep_indexed_clause_count :: int
  ep_build_fingerprint :: string
  ep_created_at :: timestamp
  ep_ready_at :: "timestamp option"
  ep_activated_by :: "string option"
  ep_retired_at :: "timestamp option"

record clause_embedding =
  ce_id :: uuid
  ce_organization_id :: uuid
  ce_policy_id :: uuid
  ce_policy_version_id :: uuid
  ce_clause_id :: uuid
  ce_profile_id :: uuid
  ce_source_content_hash :: string
  ce_embedding :: "decimal list"
  ce_provider_request_fingerprint :: string
  ce_indexed_at :: timestamp

record policy_index_job =
  ij_id :: uuid
  ij_public_id :: string
  ij_organization_id :: uuid
  ij_policy_id :: uuid
  ij_policy_version_id :: uuid
  ij_profile_id :: uuid
  ij_source_content_fingerprint :: string
  ij_job_key :: string
  ij_status :: policy_index_job_status
  ij_page_budget :: int
  ij_attempt_count :: int
  ij_available_at :: timestamp
  ij_lease_owner :: "string option"
  ij_lease_expires_at :: "timestamp option"
  ij_last_error_code :: "string option"
  ij_indexed_clause_count :: int
  ij_skipped_clause_count :: int
  ij_completed_at :: "timestamp option"
  ij_created_at :: timestamp
  ij_updated_at :: timestamp

record policy_evidence =
  cpe_id :: uuid
  cpe_public_id :: string
  cpe_organization_id :: uuid
  cpe_case_id :: uuid
  cpe_policy_id :: uuid
  cpe_policy_version_id :: uuid
  cpe_clause_id :: uuid
  cpe_citation :: string
  cpe_excerpt :: string
  cpe_applicability :: string
  cpe_fingerprint :: string
  cpe_freshness :: evidence_freshness
  cpe_conflict_state :: evidence_conflict_state
  cpe_retrieval_score :: decimal
  cpe_policy_content_hash :: string
  cpe_clause_content_hash :: string
  cpe_effective_from :: "timestamp option"
  cpe_effective_to :: "timestamp option"
  cpe_corpus_version :: string
  cpe_chunking_version :: string
  cpe_embedding_version :: string
  cpe_index_version :: string
  cpe_embedding_profile_key :: "string option"
  cpe_retrieval_algorithm_version :: "string option"
  cpe_query_fingerprint :: "string option"
  cpe_dense_rank :: "int option"
  cpe_lexical_rank :: "int option"
  cpe_fused_retrieval_score :: "decimal option"
  cpe_retrieval_run_correlation_id :: "string option"
  cpe_recorded_at :: timestamp

record case_review =
  rv_id :: uuid
  rv_public_id :: string
  rv_organization_id :: uuid
  rv_case_id :: uuid
  rv_proposal_id :: uuid
  rv_proposal_version_id :: uuid
  rv_status :: review_status
  rv_review_reason :: string
  rv_policy_state :: review_policy_state
  rv_uncertainty :: review_uncertainty
  rv_impact_amount :: "decimal option"
  rv_impact_currency :: "string option"
  rv_submitted_by_id :: uuid
  rv_submitted_by_public_id :: string
  rv_submitted_by_name :: string
  rv_submitted_by_role :: member_role
  rv_submitted_at :: timestamp
  rv_version :: int
  rv_updated_at :: timestamp

record review_snapshot =
  rs_id :: uuid
  rs_public_id :: string
  rs_organization_id :: uuid
  rs_case_id :: uuid
  rs_review_id :: uuid
  rs_proposal_id :: uuid
  rs_proposal_version_id :: uuid
  rs_case_version :: int
  rs_proposal_version :: int
  rs_proposal_fingerprint :: string
  rs_context_fingerprint :: string
  rs_evidence_fingerprint :: string
  rs_risk_fingerprint :: string
  rs_risk_rule_version :: string
  rs_snapshot_fingerprint :: string
  rs_approval_rule_id :: string
  rs_approval_rule_name :: string
  rs_approval_rule_explanation :: string
  rs_required_role :: member_role
  rs_approval_rule_version :: int
  rs_execution_eligible :: bool
  rs_created_at :: timestamp

record review_reservation =
  rr_id :: uuid
  rr_public_id :: string
  rr_organization_id :: uuid
  rr_case_id :: uuid
  rr_review_id :: uuid
  rr_snapshot_id :: uuid
  rr_reviewer_id :: "uuid option"
  rr_legacy_reservation_id :: "uuid option"
  rr_reviewer_public_id :: string
  rr_reviewer_name :: string
  rr_reviewer_role :: member_role
  rr_snapshot_fingerprint :: string
  rr_status :: review_reservation_status
  rr_reserved_at :: timestamp
  rr_expires_at :: timestamp
  rr_consumed_at :: "timestamp option"

record review_decision_row =
  rvd_id :: uuid
  rvd_public_id :: string
  rvd_organization_id :: uuid
  rvd_case_id :: uuid
  rvd_review_id :: uuid
  rvd_reservation_id :: uuid
  rvd_reviewer_id :: "uuid option"
  rvd_legacy_decision_id :: "uuid option"
  rvd_reviewer_public_id :: string
  rvd_reviewer_name :: string
  rvd_reviewer_role :: member_role
  rvd_decision :: review_decision
  rvd_reason :: string
  rvd_snapshot_fingerprint :: string
  rvd_decided_at :: timestamp

record connection =
  cn_id :: uuid
  cn_public_id :: string
  cn_organization_id :: uuid
  cn_name :: string
  cn_provider_type :: string
  cn_adapter_key :: string
  cn_environment :: connection_environment
  cn_health :: connection_health
  cn_last_checked_at :: "timestamp option"
  cn_credential_status :: credential_status
  cn_read_capabilities :: "string list"
  cn_write_capabilities :: "string list"
  cn_action_types :: "string list"
  cn_affected_work :: "string list"
  cn_runtime_config_fingerprint :: "string option"
  cn_version :: int
  cn_created_at :: timestamp
  cn_updated_at :: timestamp

record case_action =
  act_id :: uuid
  act_public_id :: string
  act_organization_id :: uuid
  act_case_id :: uuid
  act_proposal_id :: uuid
  act_proposal_version_id :: uuid
  act_proposed_action_id :: uuid
  act_review_id :: uuid
  act_review_snapshot_id :: uuid
  act_review_decision_id :: uuid
  act_connection_id :: uuid
  act_legacy_proposal_version_id :: "uuid option"
  act_type :: string
  act_label :: string
  act_target :: string
  act_typed_parameters :: "(string \<times> string) list"
  act_impact_amount :: "decimal option"
  act_impact_currency :: "string option"
  act_expected_outcome :: string
  act_observed_outcome :: "string option"
  act_status :: action_status
  act_execution_blocker :: "action_execution_blocker option"
  act_execution_eligible :: bool
  act_idempotency_key :: string
  act_authorization_expires_at :: timestamp
  act_owner_id :: "uuid option"
  act_owner_public_id :: "string option"
  act_owner_name :: "string option"
  act_attempt_count :: int
  act_version :: int
  act_created_at :: timestamp
  act_updated_at :: timestamp

record action_attempt =
  att_id :: uuid
  att_public_id :: string
  att_organization_id :: uuid
  att_case_id :: uuid
  att_action_id :: uuid
  att_actor_id :: "uuid option"
  att_actor_public_id :: string
  att_actor_name :: string
  att_actor_role :: "member_role option"
  att_legacy_tool_attempt_id :: "uuid option"
  att_number :: int
  att_command :: action_attempt_command
  att_outcome :: action_attempt_outcome
  att_side_effect_state :: action_side_effect_state
  att_detail :: string
  att_error_code :: "string option"
  att_request_fingerprint :: string
  att_response_fingerprint :: "string option"
  att_started_at :: timestamp
  att_finished_at :: "timestamp option"

record action_receipt =
  rcp_id :: uuid
  rcp_public_id :: string
  rcp_organization_id :: uuid
  rcp_case_id :: uuid
  rcp_action_id :: uuid
  rcp_attempt_id :: uuid
  rcp_legacy_external_receipt_id :: "uuid option"
  rcp_provider :: string
  rcp_external_reference :: string
  rcp_idempotency_key :: string
  rcp_status :: string
  rcp_data_fingerprint :: string
  rcp_recorded_at :: timestamp

record action_reconciliation =
  rec_id :: uuid
  rec_public_id :: string
  rec_organization_id :: uuid
  rec_case_id :: uuid
  rec_action_id :: uuid
  rec_actor_id :: uuid
  rec_actor_public_id :: string
  rec_actor_name :: string
  rec_outcome :: reconciliation_outcome
  rec_detail :: string
  rec_external_reference :: "string option"
  rec_checked_at :: timestamp

record organization_setting =
  st_id :: uuid
  st_public_id :: string
  st_organization_id :: uuid
  st_section :: settings_section
  st_configuration :: json
  st_version :: int
  st_created_at :: timestamp
  st_updated_at :: timestamp

record audit_event =
  au_id :: uuid
  au_organization_id :: "uuid option"
  au_task_id :: "uuid option"
  au_run_id :: "uuid option"
  au_event_type :: string
  au_actor_type :: string
  au_actor_id :: "string option"
  au_subject_type :: "string option"
  au_subject_id :: "string option"
  au_summary :: "string option"
  au_data :: json
  au_correlation_id :: string
  au_occurred_at :: timestamp

section \<open>The database\<close>

record database =
  organizations :: "organization list"
  memberships :: "membership list"
  cases :: "case_row list"
  business_objects :: "business_object_snapshot list"
  threads :: "conversation_thread list"
  messages :: "conversation_message list"
  response_drafts :: "response_draft list"
  generations :: "analysis_generation list"
  analysis_runs :: "analysis_run list"
  checkpoints :: "analysis_checkpoint list"
  proposals :: "case_proposal list"
  proposal_versions :: "proposal_version list"
  evidence_bindings :: "evidence_binding list"
  context_bindings :: "context_binding list"
  proposed_actions :: "proposed_action list"
  proposal_response_drafts :: "proposal_response_draft list"
  policy_versions :: "policy_version list"
  policy_clauses :: "policy_clause list"
  policy_evidence_rows :: "policy_evidence list"
  reviews :: "case_review list"
  review_snapshots :: "review_snapshot list"
  reservations :: "review_reservation list"
  review_decisions :: "review_decision_row list"
  connections :: "connection list"
  actions :: "case_action list"
  attempts :: "action_attempt list"
  receipts :: "action_receipt list"
  reconciliations :: "action_reconciliation list"
  settings :: "organization_setting list"
  audit_events :: "audit_event list"
  case_requests :: "case_request list"
  case_customers :: "customer_context list"
  invitations :: "invitation list"
  policies :: "policy_record list"
  embedding_profiles :: "embedding_profile list"
  clause_embeddings :: "clause_embedding list"
  index_jobs :: "policy_index_job list"

end
