(* ===== verification/Store.thy ===== *)
theory Store
  imports Schema
begin

text \<open>
  Insertions into the tables with the constraints of the ORM classes, and the reads the
  repositories share. \<open>*_checks\<close> are the \<open>CHECK\<close> constraints of a class that its column types
  do not already express, \<open>*_clash\<close> says that two rows violate one of its unique constraints,
  and \<open>insert_*\<close> appends a row or raises \<open>IntegrityError\<close>.
\<close>

section \<open>Constraints\<close>

definition insert_row ::
    "('r \<Rightarrow> uuid) \<Rightarrow> ('r \<Rightarrow> bool) \<Rightarrow> ('r \<Rightarrow> 'r \<Rightarrow> bool) \<Rightarrow> string \<Rightarrow> 'r \<Rightarrow> 'r list
     \<Rightarrow> error + 'r list" where
  "insert_row key checks clash table_name r rows =
     bindE (requireE (checks r \<and> row_get key (key r) rows = None \<and> \<not> list_ex (clash r) rows)
              (IntegrityError table_name))
       (\<lambda>_. Inr (rows @ [r]))"

text \<open>
  A \<open>CHECK\<close> constraint rejects a row only when it evaluates to false: a comparison with a null
  operand is unknown, and an unknown check passes. The pairs of impact amount and currency
  are checked by \<open>(amount IS NULL AND currency IS NULL) OR (amount >= 0 AND
  char_length(currency) = 3)\<close>, evaluated here in SQL's three-valued logic (\<open>None\<close> is unknown).
\<close>

type_synonym sql_bool = "bool option"

definition sql_and :: "sql_bool \<Rightarrow> sql_bool \<Rightarrow> sql_bool" where
  "sql_and a b = (if a = Some False \<or> b = Some False then Some False
                  else if a = Some True \<and> b = Some True then Some True else None)"

definition sql_or :: "sql_bool \<Rightarrow> sql_bool \<Rightarrow> sql_bool" where
  "sql_or a b = (if a = Some True \<or> b = Some True then Some True
                 else if a = Some False \<and> b = Some False then Some False else None)"

definition check_passes :: "sql_bool \<Rightarrow> bool" where
  "check_passes b = (b \<noteq> Some False)"

definition impact_pair_check :: "decimal option \<Rightarrow> string option \<Rightarrow> bool" where
  "impact_pair_check amount currency = check_passes
     (sql_or (sql_and (Some (amount = None)) (Some (currency = None)))
             (sql_and (map_option (\<lambda>a. 0 \<le> a) amount) (map_option (\<lambda>c. length c = 3) currency)))"

definition case_action_checks :: "case_action \<Rightarrow> bool" where
  "case_action_checks a \<longleftrightarrow> 0 \<le> act_attempt_count a \<and> 0 < act_version a
     \<and> impact_pair_check (act_impact_amount a) (act_impact_currency a)
     \<and> ((act_owner_id a = None \<and> act_owner_public_id a = None \<and> act_owner_name a = None)
        \<or> (act_owner_id a \<noteq> None \<and> act_owner_public_id a \<noteq> None \<and> act_owner_name a \<noteq> None))"

definition case_action_clash :: "case_action \<Rightarrow> case_action \<Rightarrow> bool" where
  "case_action_clash a b \<longleftrightarrow> act_organization_id a = act_organization_id b
     \<and> (act_public_id a = act_public_id b
        \<or> (act_case_id a = act_case_id b \<and> act_proposed_action_id a = act_proposed_action_id b)
        \<or> act_idempotency_key a = act_idempotency_key b)"

definition action_attempt_checks :: "action_attempt \<Rightarrow> bool" where
  "action_attempt_checks t \<longleftrightarrow> 0 < att_number t
     \<and> ((att_legacy_tool_attempt_id t = None \<and> att_actor_id t \<noteq> None \<and> att_actor_role t \<noteq> None)
        \<or> (att_legacy_tool_attempt_id t \<noteq> None \<and> att_actor_id t = None \<and> att_actor_role t = None))
     \<and> (att_outcome t = AO_RUNNING \<longleftrightarrow> att_finished_at t = None)"

definition action_attempt_clash :: "action_attempt \<Rightarrow> action_attempt \<Rightarrow> bool" where
  "action_attempt_clash a b \<longleftrightarrow>
     (att_organization_id a = att_organization_id b
      \<and> (att_public_id a = att_public_id b
         \<or> (att_case_id a = att_case_id b \<and> att_action_id a = att_action_id b
            \<and> att_number a = att_number b)
         \<or> (att_action_id a = att_action_id b \<and> att_outcome a = AO_RUNNING
            \<and> att_outcome b = AO_RUNNING)))
     \<or> (att_legacy_tool_attempt_id a \<noteq> None
        \<and> att_legacy_tool_attempt_id a = att_legacy_tool_attempt_id b)"

definition action_receipt_clash :: "action_receipt \<Rightarrow> action_receipt \<Rightarrow> bool" where
  "action_receipt_clash a b \<longleftrightarrow>
     (rcp_organization_id a = rcp_organization_id b
      \<and> (rcp_public_id a = rcp_public_id b
         \<or> (rcp_case_id a = rcp_case_id b \<and> rcp_action_id a = rcp_action_id b)
         \<or> (rcp_provider a = rcp_provider b \<and> rcp_idempotency_key a = rcp_idempotency_key b)))
     \<or> (rcp_legacy_external_receipt_id a \<noteq> None
        \<and> rcp_legacy_external_receipt_id a = rcp_legacy_external_receipt_id b)"

definition action_reconciliation_clash ::
    "action_reconciliation \<Rightarrow> action_reconciliation \<Rightarrow> bool" where
  "action_reconciliation_clash a b \<longleftrightarrow> rec_organization_id a = rec_organization_id b
     \<and> (rec_public_id a = rec_public_id b
        \<or> (rec_action_id a = rec_action_id b \<and> rec_outcome a = RO_RUNNING
           \<and> rec_outcome b = RO_RUNNING))"

definition connection_clash :: "connection \<Rightarrow> connection \<Rightarrow> bool" where
  "connection_clash a b \<longleftrightarrow> cn_organization_id a = cn_organization_id b
     \<and> (cn_public_id a = cn_public_id b \<or> cn_name a = cn_name b)"

definition case_review_checks :: "case_review \<Rightarrow> bool" where
  "case_review_checks r \<longleftrightarrow> 0 < rv_version r
     \<and> impact_pair_check (rv_impact_amount r) (rv_impact_currency r)"

definition case_review_clash :: "case_review \<Rightarrow> case_review \<Rightarrow> bool" where
  "case_review_clash a b \<longleftrightarrow> rv_organization_id a = rv_organization_id b
     \<and> (rv_public_id a = rv_public_id b
        \<or> (rv_case_id a = rv_case_id b \<and> rv_proposal_version_id a = rv_proposal_version_id b))"

definition review_snapshot_checks :: "review_snapshot \<Rightarrow> bool" where
  "review_snapshot_checks s \<longleftrightarrow> 0 < rs_case_version s \<and> 0 < rs_proposal_version s
     \<and> 0 < rs_approval_rule_version s \<and> rs_required_role s \<in> {SUPERVISOR, ADMINISTRATOR}"

definition review_snapshot_clash :: "review_snapshot \<Rightarrow> review_snapshot \<Rightarrow> bool" where
  "review_snapshot_clash a b \<longleftrightarrow> rs_organization_id a = rs_organization_id b
     \<and> (rs_public_id a = rs_public_id b
        \<or> (rs_case_id a = rs_case_id b \<and> rs_review_id a = rs_review_id b)
        \<or> rs_snapshot_fingerprint a = rs_snapshot_fingerprint b)"

definition review_reservation_checks :: "review_reservation \<Rightarrow> bool" where
  "review_reservation_checks r \<longleftrightarrow>
     (rr_legacy_reservation_id r = None \<longleftrightarrow> rr_reviewer_id r \<noteq> None)"

definition review_reservation_clash :: "review_reservation \<Rightarrow> review_reservation \<Rightarrow> bool" where
  "review_reservation_clash a b \<longleftrightarrow>
     (rr_organization_id a = rr_organization_id b
      \<and> (rr_public_id a = rr_public_id b
         \<or> (rr_review_id a = rr_review_id b \<and> rr_status a = RR_ACTIVE \<and> rr_status b = RR_ACTIVE)))
     \<or> (rr_legacy_reservation_id a \<noteq> None
        \<and> rr_legacy_reservation_id a = rr_legacy_reservation_id b)"

definition review_decision_checks :: "review_decision_row \<Rightarrow> bool" where
  "review_decision_checks d \<longleftrightarrow>
     (rvd_legacy_decision_id d = None \<longleftrightarrow> rvd_reviewer_id d \<noteq> None)"

definition review_decision_clash :: "review_decision_row \<Rightarrow> review_decision_row \<Rightarrow> bool" where
  "review_decision_clash a b \<longleftrightarrow>
     (rvd_organization_id a = rvd_organization_id b
      \<and> (rvd_public_id a = rvd_public_id b
         \<or> (rvd_case_id a = rvd_case_id b \<and> rvd_review_id a = rvd_review_id b)))
     \<or> (rvd_legacy_decision_id a \<noteq> None \<and> rvd_legacy_decision_id a = rvd_legacy_decision_id b)"

definition response_draft_clash :: "response_draft \<Rightarrow> response_draft \<Rightarrow> bool" where
  "response_draft_clash a b \<longleftrightarrow> rd_organization_id a = rd_organization_id b
     \<and> (rd_case_id a = rd_case_id b \<or> rd_public_id a = rd_public_id b)"

definition conversation_message_checks :: "conversation_message \<Rightarrow> bool" where
  "conversation_message_checks m \<longleftrightarrow> 0 < msg_version m
     \<and> (msg_channel m = MC_INTERNAL_NOTE \<longleftrightarrow> msg_internal m)"

definition conversation_message_clash ::
    "conversation_message \<Rightarrow> conversation_message \<Rightarrow> bool" where
  "conversation_message_clash a b \<longleftrightarrow> msg_organization_id a = msg_organization_id b
     \<and> msg_public_id a = msg_public_id b"

definition business_object_clash ::
    "business_object_snapshot \<Rightarrow> business_object_snapshot \<Rightarrow> bool" where
  "business_object_clash a b \<longleftrightarrow> bo_organization_id a = bo_organization_id b
     \<and> bo_public_id a = bo_public_id b"

definition analysis_generation_checks :: "analysis_generation \<Rightarrow> bool" where
  "analysis_generation_checks g \<longleftrightarrow> 0 < gen_fence_token g \<and> 0 < gen_attempt_count g
     \<and> ((gen_status g = GEN_COMPLETED \<and> gen_analysis_run_id g \<noteq> None \<and> gen_completed_at g \<noteq> None)
        \<or> (gen_status g \<noteq> GEN_COMPLETED \<and> gen_analysis_run_id g = None \<and> gen_completed_at g = None))"

definition analysis_generation_clash :: "analysis_generation \<Rightarrow> analysis_generation \<Rightarrow> bool" where
  "analysis_generation_clash a b \<longleftrightarrow> gen_organization_id a = gen_organization_id b
     \<and> gen_case_id a = gen_case_id b \<and> gen_input_fingerprint a = gen_input_fingerprint b"

section \<open>Insertions\<close>

definition insert_action :: "case_action \<Rightarrow> database \<Rightarrow> error + database" where
  "insert_action r db =
     bindE (insert_row act_id case_action_checks case_action_clash ''case_actions'' r (actions db))
       (\<lambda>rows. Inr (db\<lparr>actions := rows\<rparr>))"

definition insert_attempt :: "action_attempt \<Rightarrow> database \<Rightarrow> error + database" where
  "insert_attempt r db =
     bindE (insert_row att_id action_attempt_checks action_attempt_clash ''case_action_attempts'' r
              (attempts db))
       (\<lambda>rows. Inr (db\<lparr>attempts := rows\<rparr>))"

definition insert_receipt :: "action_receipt \<Rightarrow> database \<Rightarrow> error + database" where
  "insert_receipt r db =
     bindE (insert_row rcp_id (\<lambda>_. True) action_receipt_clash ''case_action_receipts'' r
              (receipts db))
       (\<lambda>rows. Inr (db\<lparr>receipts := rows\<rparr>))"

definition insert_reconciliation :: "action_reconciliation \<Rightarrow> database \<Rightarrow> error + database" where
  "insert_reconciliation r db =
     bindE (insert_row rec_id (\<lambda>_. True) action_reconciliation_clash
              ''case_action_reconciliations'' r (reconciliations db))
       (\<lambda>rows. Inr (db\<lparr>reconciliations := rows\<rparr>))"

definition insert_connection :: "connection \<Rightarrow> database \<Rightarrow> error + database" where
  "insert_connection r db =
     bindE (insert_row cn_id (\<lambda>c. 0 < cn_version c) connection_clash ''connections'' r
              (connections db))
       (\<lambda>rows. Inr (db\<lparr>connections := rows\<rparr>))"

definition insert_review :: "case_review \<Rightarrow> database \<Rightarrow> error + database" where
  "insert_review r db =
     bindE (insert_row rv_id case_review_checks case_review_clash ''case_reviews'' r (reviews db))
       (\<lambda>rows. Inr (db\<lparr>reviews := rows\<rparr>))"

definition insert_review_snapshot :: "review_snapshot \<Rightarrow> database \<Rightarrow> error + database" where
  "insert_review_snapshot r db =
     bindE (insert_row rs_id review_snapshot_checks review_snapshot_clash ''case_review_snapshots''
              r (review_snapshots db))
       (\<lambda>rows. Inr (db\<lparr>review_snapshots := rows\<rparr>))"

definition insert_reservation :: "review_reservation \<Rightarrow> database \<Rightarrow> error + database" where
  "insert_reservation r db =
     bindE (insert_row rr_id review_reservation_checks review_reservation_clash
              ''case_review_reservations'' r (reservations db))
       (\<lambda>rows. Inr (db\<lparr>reservations := rows\<rparr>))"

definition insert_review_decision :: "review_decision_row \<Rightarrow> database \<Rightarrow> error + database" where
  "insert_review_decision r db =
     bindE (insert_row rvd_id review_decision_checks review_decision_clash
              ''case_review_decisions'' r (review_decisions db))
       (\<lambda>rows. Inr (db\<lparr>review_decisions := rows\<rparr>))"

definition insert_response_draft :: "response_draft \<Rightarrow> database \<Rightarrow> error + database" where
  "insert_response_draft r db =
     bindE (insert_row rd_id (\<lambda>d. 0 < rd_version d) response_draft_clash ''response_drafts'' r
              (response_drafts db))
       (\<lambda>rows. Inr (db\<lparr>response_drafts := rows\<rparr>))"

definition insert_message :: "conversation_message \<Rightarrow> database \<Rightarrow> error + database" where
  "insert_message r db =
     bindE (insert_row msg_id conversation_message_checks conversation_message_clash
              ''conversation_messages'' r (messages db))
       (\<lambda>rows. Inr (db\<lparr>messages := rows\<rparr>))"

definition insert_business_object :: "business_object_snapshot \<Rightarrow> database \<Rightarrow> error + database" where
  "insert_business_object r db =
     bindE (insert_row bo_id (\<lambda>b. 0 < bo_version b) business_object_clash
              ''business_object_snapshots'' r (business_objects db))
       (\<lambda>rows. Inr (db\<lparr>business_objects := rows\<rparr>))"

definition insert_generation :: "analysis_generation \<Rightarrow> database \<Rightarrow> error + database" where
  "insert_generation r db =
     bindE (insert_row gen_id analysis_generation_checks analysis_generation_clash
              ''case_analysis_generations'' r (generations db))
       (\<lambda>rows. Inr (db\<lparr>generations := rows\<rparr>))"

definition analysis_run_clash :: "analysis_run \<Rightarrow> analysis_run \<Rightarrow> bool" where
  "analysis_run_clash a b \<longleftrightarrow> ar_organization_id a = ar_organization_id b
     \<and> (ar_public_id a = ar_public_id b
        \<or> (ar_case_id a = ar_case_id b \<and> ar_input_fingerprint a = ar_input_fingerprint b))"

definition insert_analysis_run :: "analysis_run \<Rightarrow> database \<Rightarrow> error + database" where
  "insert_analysis_run r db =
     bindE (insert_row ar_id (\<lambda>a. 0 < ar_case_version a) analysis_run_clash ''case_analysis_runs'' r
              (analysis_runs db))
       (\<lambda>rows. Inr (db\<lparr>analysis_runs := rows\<rparr>))"

definition checkpoint_clash :: "analysis_checkpoint \<Rightarrow> analysis_checkpoint \<Rightarrow> bool" where
  "checkpoint_clash a b \<longleftrightarrow> ck_organization_id a = ck_organization_id b
     \<and> (ck_public_id a = ck_public_id b
        \<or> (ck_case_id a = ck_case_id b \<and> ck_analysis_run_id a = ck_analysis_run_id b
            \<and> ck_sequence a = ck_sequence b))"

definition insert_checkpoint :: "analysis_checkpoint \<Rightarrow> database \<Rightarrow> error + database" where
  "insert_checkpoint r db =
     bindE (insert_row ck_id (\<lambda>c. 0 < ck_sequence c) checkpoint_clash ''case_analysis_checkpoints'' r
              (checkpoints db))
       (\<lambda>rows. Inr (db\<lparr>checkpoints := rows\<rparr>))"

definition proposal_clash :: "case_proposal \<Rightarrow> case_proposal \<Rightarrow> bool" where
  "proposal_clash a b \<longleftrightarrow> prop_organization_id a = prop_organization_id b
     \<and> (prop_public_id a = prop_public_id b \<or> prop_case_id a = prop_case_id b)"

definition insert_proposal :: "case_proposal \<Rightarrow> database \<Rightarrow> error + database" where
  "insert_proposal r db =
     bindE (insert_row prop_id (\<lambda>p. 0 < prop_current_version p \<and> 0 < prop_version p) proposal_clash
              ''case_proposals'' r (proposals db))
       (\<lambda>rows. Inr (db\<lparr>proposals := rows\<rparr>))"

definition proposal_version_checks :: "proposal_version \<Rightarrow> bool" where
  "proposal_version_checks v \<longleftrightarrow> 0 < pv_version v
     \<and> impact_pair_check (pv_impact_amount v) (pv_impact_currency v)"

definition proposal_version_clash :: "proposal_version \<Rightarrow> proposal_version \<Rightarrow> bool" where
  "proposal_version_clash a b \<longleftrightarrow>
     (pv_organization_id a = pv_organization_id b
      \<and> (pv_public_id a = pv_public_id b
         \<or> (pv_case_id a = pv_case_id b \<and> pv_proposal_id a = pv_proposal_id b \<and> pv_version a = pv_version b)))
     \<or> pv_analysis_run_id a = pv_analysis_run_id b
     \<or> (pv_legacy_proposal_version_id a \<noteq> None
         \<and> pv_legacy_proposal_version_id a = pv_legacy_proposal_version_id b)"

definition insert_proposal_version :: "proposal_version \<Rightarrow> database \<Rightarrow> error + database" where
  "insert_proposal_version r db =
     bindE (insert_row pv_id proposal_version_checks proposal_version_clash ''case_proposal_versions'' r
              (proposal_versions db))
       (\<lambda>rows. Inr (db\<lparr>proposal_versions := rows\<rparr>))"

definition evidence_binding_clash :: "evidence_binding \<Rightarrow> evidence_binding \<Rightarrow> bool" where
  "evidence_binding_clash a b \<longleftrightarrow> peb_organization_id a = peb_organization_id b
     \<and> peb_case_id a = peb_case_id b \<and> peb_proposal_version_id a = peb_proposal_version_id b
     \<and> peb_evidence_id a = peb_evidence_id b"

definition insert_evidence_binding :: "evidence_binding \<Rightarrow> database \<Rightarrow> error + database" where
  "insert_evidence_binding r db =
     bindE (insert_row peb_id (\<lambda>_. True) evidence_binding_clash ''proposal_evidence_bindings'' r
              (evidence_bindings db))
       (\<lambda>rows. Inr (db\<lparr>evidence_bindings := rows\<rparr>))"

definition context_binding_clash :: "context_binding \<Rightarrow> context_binding \<Rightarrow> bool" where
  "context_binding_clash a b \<longleftrightarrow> pcb_organization_id a = pcb_organization_id b
     \<and> pcb_case_id a = pcb_case_id b \<and> pcb_proposal_version_id a = pcb_proposal_version_id b
     \<and> pcb_context_id a = pcb_context_id b"

definition insert_context_binding :: "context_binding \<Rightarrow> database \<Rightarrow> error + database" where
  "insert_context_binding r db =
     bindE (insert_row pcb_id (\<lambda>b. 0 < pcb_snapshot_version b) context_binding_clash
              ''proposal_context_bindings'' r (context_bindings db))
       (\<lambda>rows. Inr (db\<lparr>context_bindings := rows\<rparr>))"

definition proposed_action_clash :: "proposed_action \<Rightarrow> proposed_action \<Rightarrow> bool" where
  "proposed_action_clash a b \<longleftrightarrow> pa_organization_id a = pa_organization_id b \<and> pa_public_id a = pa_public_id b"

definition insert_proposed_action :: "proposed_action \<Rightarrow> database \<Rightarrow> error + database" where
  "insert_proposed_action r db =
     bindE (insert_row pa_id (\<lambda>a. impact_pair_check (pa_impact_amount a) (pa_impact_currency a))
              proposed_action_clash ''case_proposed_actions'' r (proposed_actions db))
       (\<lambda>rows. Inr (db\<lparr>proposed_actions := rows\<rparr>))"

definition proposal_draft_clash :: "proposal_response_draft \<Rightarrow> proposal_response_draft \<Rightarrow> bool" where
  "proposal_draft_clash a b \<longleftrightarrow> prd_organization_id a = prd_organization_id b
     \<and> (prd_public_id a = prd_public_id b
        \<or> (prd_case_id a = prd_case_id b \<and> prd_proposal_version_id a = prd_proposal_version_id b))"

definition insert_proposal_draft :: "proposal_response_draft \<Rightarrow> database \<Rightarrow> error + database" where
  "insert_proposal_draft r db =
     bindE (insert_row prd_id (\<lambda>d. 0 < prd_version d) proposal_draft_clash ''proposal_response_drafts'' r
              (proposal_response_drafts db))
       (\<lambda>rows. Inr (db\<lparr>proposal_response_drafts := rows\<rparr>))"

definition insert_audit :: "audit_event \<Rightarrow> database \<Rightarrow> error + database" where
  "insert_audit r db =
     bindE (insert_row au_id (\<lambda>_. True) (\<lambda>_ _. False) ''audit_events'' r (audit_events db))
       (\<lambda>rows. Inr (db\<lparr>audit_events := rows\<rparr>))"

definition membership_clash :: "membership \<Rightarrow> membership \<Rightarrow> bool" where
  "membership_clash a b \<longleftrightarrow> mem_organization_id a = mem_organization_id b
     \<and> (mem_public_id a = mem_public_id b \<or> mem_subject_id a = mem_subject_id b
        \<or> mem_email a = mem_email b)"

definition insert_membership :: "membership \<Rightarrow> database \<Rightarrow> error + database" where
  "insert_membership r db =
     bindE (insert_row mem_id (\<lambda>m. 0 < mem_version m) membership_clash ''memberships'' r (memberships db))
       (\<lambda>rows. Inr (db\<lparr>memberships := rows\<rparr>))"

definition invitation_clash :: "invitation \<Rightarrow> invitation \<Rightarrow> bool" where
  "invitation_clash a b \<longleftrightarrow>
     (iv_organization_id a = iv_organization_id b \<and> iv_public_id a = iv_public_id b)
     \<or> (iv_provider_invitation_id a \<noteq> None
        \<and> iv_provider_invitation_id a = iv_provider_invitation_id b)"

definition insert_invitation :: "invitation \<Rightarrow> database \<Rightarrow> error + database" where
  "insert_invitation r db =
     bindE (insert_row iv_id (\<lambda>i. 0 < iv_version i) invitation_clash ''invitations'' r (invitations db))
       (\<lambda>rows. Inr (db\<lparr>invitations := rows\<rparr>))"

definition policy_clash :: "policy_record \<Rightarrow> policy_record \<Rightarrow> bool" where
  "policy_clash a b \<longleftrightarrow> pol_organization_id a = pol_organization_id b \<and> pol_public_id a = pol_public_id b"

definition insert_policy :: "policy_record \<Rightarrow> database \<Rightarrow> error + database" where
  "insert_policy r db =
     bindE (insert_row pol_id (\<lambda>p. 0 \<le> pol_current_version p \<and> 0 < pol_version p) policy_clash ''policies''
              r (policies db))
       (\<lambda>rows. Inr (db\<lparr>policies := rows\<rparr>))"

text \<open>The CHECK of a version's window applies to updates as well.\<close>

definition policy_version_checks :: "policy_version \<Rightarrow> bool" where
  "policy_version_checks v \<longleftrightarrow> 0 < gpv_version v \<and> 0 < gpv_record_version v
     \<and> (case (gpv_effective_from v, gpv_effective_to v) of
          (Some a, Some b) \<Rightarrow> a < b | _ \<Rightarrow> True)"

definition policy_version_clash :: "policy_version \<Rightarrow> policy_version \<Rightarrow> bool" where
  "policy_version_clash a b \<longleftrightarrow>
     (gpv_organization_id a = gpv_organization_id b
      \<and> ((gpv_policy_id a = gpv_policy_id b \<and> gpv_version a = gpv_version b)
         \<or> gpv_public_id a = gpv_public_id b))
     \<or> (gpv_legacy_policy_version_id a \<noteq> None
        \<and> gpv_legacy_policy_version_id a = gpv_legacy_policy_version_id b)"

definition insert_policy_version :: "policy_version \<Rightarrow> database \<Rightarrow> error + database" where
  "insert_policy_version r db =
     bindE (insert_row gpv_id policy_version_checks policy_version_clash ''governed_policy_versions''
              r (policy_versions db))
       (\<lambda>rows. Inr (db\<lparr>policy_versions := rows\<rparr>))"

definition policy_clause_clash :: "policy_clause \<Rightarrow> policy_clause \<Rightarrow> bool" where
  "policy_clause_clash a b \<longleftrightarrow> gpc_organization_id a = gpc_organization_id b
     \<and> (gpc_public_id a = gpc_public_id b
        \<or> (gpc_policy_version_id a = gpc_policy_version_id b \<and> gpc_sequence a = gpc_sequence b))"

definition insert_policy_clause :: "policy_clause \<Rightarrow> database \<Rightarrow> error + database" where
  "insert_policy_clause r db =
     bindE (insert_row gpc_id (\<lambda>c. 0 < gpc_sequence c) policy_clause_clash ''governed_policy_clauses''
              r (policy_clauses db))
       (\<lambda>rows. Inr (db\<lparr>policy_clauses := rows\<rparr>))"

definition index_job_checks :: "policy_index_job \<Rightarrow> bool" where
  "index_job_checks j \<longleftrightarrow> 1 \<le> ij_page_budget j \<and> ij_page_budget j \<le> 32 \<and> 0 \<le> ij_attempt_count j
     \<and> 0 \<le> ij_indexed_clause_count j \<and> 0 \<le> ij_skipped_clause_count j
     \<and> (ij_status j = IJ_RUNNING \<longrightarrow> ij_lease_owner j \<noteq> None \<and> ij_lease_expires_at j \<noteq> None)"

definition index_job_clash :: "policy_index_job \<Rightarrow> policy_index_job \<Rightarrow> bool" where
  "index_job_clash a b \<longleftrightarrow> ij_job_key a = ij_job_key b
     \<or> (ij_organization_id a = ij_organization_id b \<and> ij_public_id a = ij_public_id b)"

lemmas insert_defs = insert_action_def insert_attempt_def insert_receipt_def
  insert_reconciliation_def insert_connection_def insert_review_def insert_review_snapshot_def
  insert_reservation_def insert_review_decision_def insert_response_draft_def insert_message_def
  insert_business_object_def insert_generation_def insert_audit_def insert_membership_def
  insert_invitation_def insert_policy_def insert_policy_version_def insert_policy_clause_def

section \<open>What an insertion does\<close>

lemma insert_row_Inr_iff [run_simps]:
  "insert_row key checks clash n r rows = Inr rows' \<longleftrightarrow>
     checks r \<and> row_get key (key r) rows = None \<and> \<not> (\<exists>x\<in>set rows. clash r x) \<and> rows' = rows @ [r]"
  by (auto simp: insert_row_def run_simps list_ex_iff)

lemma insert_row_unique:
  "insert_row key checks clash n r rows = Inr rows' \<Longrightarrow> unique_keys key rows \<Longrightarrow> unique_keys key rows'"
  by (auto simp: insert_row_Inr_iff unique_keys_append)

end
