(* ===== verification/Gateway.thy ===== *)
theory Gateway
  imports Store
begin

text \<open>
  The write path to external targets, \<open>integrations/action_gateway.py\<close>: the values that cross
  it, the contract every adapter has to meet (locale \<open>action_gateway\<close>), the router that picks
  an adapter by the key of the connection, and the deterministic adapter, whose private
  dictionary of outcomes is explicit state. The contract is interpreted on the deterministic
  adapter and, through \<open>gateway_router\<close>, on the router above it.
\<close>

section \<open>Requests, receipts and lookups\<close>

datatype gateway_behavior =
    GB_SUCCESS | GB_SAFE_FAILURE | GB_OUTCOME_UNKNOWN_ACCEPTED | GB_OUTCOME_UNKNOWN_ABSENT
  | GB_RECONCILIATION_UNAVAILABLE

record gateway_request =
  gq_action_id :: string
  gq_action_type :: string
  gq_target :: string
  gq_parameters :: "(string \<times> string) list"
  gq_idempotency_key :: string

record gateway_receipt =
  gr_provider :: string
  gr_external_reference :: string
  gr_idempotency_key :: string
  gr_status :: string
  gr_data :: "(string \<times> string) list"
  gr_duplicate :: bool

record lookup_result =
  lr_found :: "bool option"
  lr_receipt :: "gateway_receipt option"
  lr_detail :: string
  lr_absence_is_terminal :: bool

record gateway_error =
  ge_message :: string
  ge_code :: string
  ge_side_effect_state :: action_side_effect_state
  ge_retryable :: bool

text \<open>\<open>validate_lookup_evidence\<close>: building a lookup result that fails it raises.\<close>

definition validate_lookup_evidence :: "lookup_result \<Rightarrow> error + lookup_result" where
  "validate_lookup_evidence l =
     (if lr_found l = Some True \<and> lr_receipt l = None
      then Inl (ValueError ''a confirmed action requires a receipt'')
      else if lr_found l \<noteq> Some True \<and> lr_receipt l \<noteq> None
      then Inl (ValueError ''an unconfirmed action cannot include a receipt'')
      else if lr_absence_is_terminal l \<and> lr_found l \<noteq> Some False
      then Inl (ValueError ''terminal absence evidence requires found=false'')
      else Inr l)"

definition valid_lookup :: "lookup_result \<Rightarrow> bool" where
  "valid_lookup l \<longleftrightarrow> validate_lookup_evidence l = Inr l"

definition not_configured_error :: gateway_error where
  "not_configured_error =
     \<lparr>ge_message = ''No active adapter is configured for this connection.'',
      ge_code = ''connection_not_configured'', ge_side_effect_state = SE_NOT_ATTEMPTED,
      ge_retryable = False\<rparr>"

definition unknown_lookup :: "string \<Rightarrow> lookup_result" where
  "unknown_lookup detail =
     \<lparr>lr_found = None, lr_receipt = None, lr_detail = detail, lr_absence_is_terminal = False\<rparr>"

section \<open>The router\<close>

definition routing_execute ::
    "(string \<Rightarrow> string \<Rightarrow> gateway_request \<Rightarrow> 'g \<Rightarrow> (gateway_error + gateway_receipt) \<times> 'g)
     \<Rightarrow> string \<Rightarrow> string \<Rightarrow> gateway_request \<Rightarrow> (string \<rightharpoonup> 'g)
     \<Rightarrow> (gateway_error + gateway_receipt) \<times> (string \<rightharpoonup> 'g)" where
  "routing_execute exec adapter_key provider_type req gateways =
     (case gateways adapter_key of
        None \<Rightarrow> (Inl not_configured_error, gateways)
      | Some g \<Rightarrow> (case exec adapter_key provider_type req g of
                    (res, g') \<Rightarrow> (res, gateways(adapter_key \<mapsto> g'))))"

definition routing_reconcile ::
    "(string \<Rightarrow> string \<Rightarrow> gateway_request \<Rightarrow> string option \<Rightarrow> 'g \<Rightarrow> gateway_error + lookup_result)
     \<Rightarrow> string \<Rightarrow> string \<Rightarrow> gateway_request \<Rightarrow> string option \<Rightarrow> (string \<rightharpoonup> 'g)
     \<Rightarrow> gateway_error + lookup_result" where
  "routing_reconcile look adapter_key provider_type req external_reference gateways =
     (case gateways adapter_key of
        None \<Rightarrow> Inr (unknown_lookup ''No active adapter is configured for this connection.'')
      | Some g \<Rightarrow> look adapter_key provider_type req external_reference g)"

definition routing_check_health ::
    "(string \<Rightarrow> string \<Rightarrow> 'g \<Rightarrow> connection_health \<times> string)
     \<Rightarrow> string \<Rightarrow> string \<Rightarrow> (string \<rightharpoonup> 'g) \<Rightarrow> connection_health \<times> string" where
  "routing_check_health health adapter_key provider_type gateways =
     (case gateways adapter_key of
        None \<Rightarrow> (NOT_CONFIGURED, ''No active adapter is configured for this connection.'')
      | Some g \<Rightarrow> health adapter_key provider_type g)"

definition routing_changed ::
    "('g \<Rightarrow> string \<Rightarrow> string \<Rightarrow> bool) \<Rightarrow> (string \<rightharpoonup> 'g) \<Rightarrow> string \<Rightarrow> string \<Rightarrow> bool" where
  "routing_changed changed gateways adapter_key key =
     (case gateways adapter_key of None \<Rightarrow> False | Some g \<Rightarrow> changed g adapter_key key)"

section \<open>The deterministic adapter\<close>

record det_gateway =
  dg_behaviors :: "string \<rightharpoonup> gateway_behavior"
  dg_health :: "string \<rightharpoonup> connection_health"
  dg_outcomes :: "string \<rightharpoonup> gateway_receipt"

definition demo_adapter :: string where
  "demo_adapter = ''deterministic_demo''"

definition det_receipt ::
    "(string \<Rightarrow> string) \<Rightarrow> string \<Rightarrow> gateway_request \<Rightarrow> gateway_receipt" where
  "det_receipt sha provider_type req =
     (let suffix = str_upper (take 16 (sha (gq_idempotency_key req)));
          letters = take 6 (filter is_alnum (str_upper provider_type));
          prefix = (if letters = [] then ''ACTION'' else letters)
      in \<lparr>gr_provider = provider_type, gr_external_reference = prefix @ ''-'' @ suffix,
          gr_idempotency_key = gq_idempotency_key req, gr_status = ''accepted'',
          gr_data = [(''action_type'', gq_action_type req), (''target'', gq_target req)],
          gr_duplicate = False\<rparr>)"

definition det_behavior :: "det_gateway \<Rightarrow> gateway_request \<Rightarrow> gateway_behavior" where
  "det_behavior g req =
     (case dg_behaviors g (gq_action_type req) of None \<Rightarrow> GB_SUCCESS | Some b \<Rightarrow> b)"

definition det_store :: "gateway_request \<Rightarrow> gateway_receipt \<Rightarrow> det_gateway \<Rightarrow> det_gateway" where
  "det_store req receipt g =
     g\<lparr>dg_outcomes := (dg_outcomes g)(gq_idempotency_key req \<mapsto> receipt)\<rparr>"

definition det_execute ::
    "(string \<Rightarrow> string) \<Rightarrow> string \<Rightarrow> string \<Rightarrow> gateway_request \<Rightarrow> det_gateway
     \<Rightarrow> (gateway_error + gateway_receipt) \<times> det_gateway" where
  "det_execute sha adapter_key provider_type req g =
     (if adapter_key \<noteq> demo_adapter then (Inl not_configured_error, g)
      else case dg_outcomes g (gq_idempotency_key req) of
        Some existing \<Rightarrow> (Inr (existing\<lparr>gr_duplicate := True\<rparr>), g)
      | None \<Rightarrow>
          (let behavior = det_behavior g req; receipt = det_receipt sha provider_type req in
           if behavior = GB_SAFE_FAILURE
           then (Inl \<lparr>ge_message = ''The demo target rejected the request before any change.'',
                      ge_code = ''target_rejected_before_change'',
                      ge_side_effect_state = SE_NONE, ge_retryable = False\<rparr>, g)
           else if behavior = GB_OUTCOME_UNKNOWN_ACCEPTED
           then (Inl \<lparr>ge_message =
                        ''The demo target accepted the request but did not return a receipt.'',
                      ge_code = ''target_timeout_after_acceptance'',
                      ge_side_effect_state = SE_POSSIBLE, ge_retryable = False\<rparr>,
                 det_store req receipt g)
           else if behavior \<in> {GB_OUTCOME_UNKNOWN_ABSENT, GB_RECONCILIATION_UNAVAILABLE}
           then (Inl \<lparr>ge_message =
                        ''The demo target stopped responding before the outcome was known.'',
                      ge_code = ''target_outcome_unknown'',
                      ge_side_effect_state = SE_POSSIBLE, ge_retryable = False\<rparr>, g)
           else (Inr receipt, det_store req receipt g)))"

definition det_reconcile ::
    "string \<Rightarrow> string \<Rightarrow> gateway_request \<Rightarrow> string option \<Rightarrow> det_gateway
     \<Rightarrow> gateway_error + lookup_result" where
  "det_reconcile adapter_key provider_type req external_reference g =
     (if adapter_key \<noteq> demo_adapter then Inl not_configured_error
      else if det_behavior g req = GB_RECONCILIATION_UNAVAILABLE
      then Inr (unknown_lookup ''The demo target is unavailable; the outcome is still unknown.'')
      else case dg_outcomes g (gq_idempotency_key req) of
        None \<Rightarrow> Inr \<lparr>lr_found = Some False, lr_receipt = None,
                     lr_detail = ''No matching target change was found.'',
                     lr_absence_is_terminal = (det_behavior g req = GB_OUTCOME_UNKNOWN_ABSENT)\<rparr>
      | Some receipt \<Rightarrow>
          (if external_reference \<noteq> None \<and> external_reference \<noteq> Some (gr_external_reference receipt)
           then Inr (unknown_lookup ''The recorded reference does not match the target result.'')
           else Inr \<lparr>lr_found = Some True, lr_receipt = Some receipt,
                     lr_detail = ''The target confirmed the recorded change.'',
                     lr_absence_is_terminal = False\<rparr>))"

definition det_check_health :: "string \<Rightarrow> string \<Rightarrow> det_gateway \<Rightarrow> connection_health \<times> string" where
  "det_check_health adapter_key provider_type g =
     (if adapter_key \<noteq> demo_adapter
      then (NOT_CONFIGURED, ''No active adapter is configured for this connection.'')
      else let health = (case dg_health g provider_type of None \<Rightarrow> HEALTHY | Some h \<Rightarrow> h)
           in (health, case health of
                 HEALTHY \<Rightarrow> ''The deterministic demo connection is ready.''
               | DEGRADED \<Rightarrow> ''The deterministic demo connection is responding slowly.''
               | UNAVAILABLE \<Rightarrow> ''The deterministic demo connection is unavailable.''
               | NOT_CONFIGURED \<Rightarrow> ''The deterministic demo connection is not configured.''))"

definition det_changed :: "det_gateway \<Rightarrow> string \<Rightarrow> string \<Rightarrow> bool" where
  "det_changed g adapter_key key \<longleftrightarrow> adapter_key = demo_adapter \<and> dg_outcomes g key \<noteq> None"

text \<open>Every stored receipt carries the key it is stored under.\<close>

definition det_wf :: "det_gateway \<Rightarrow> bool" where
  "det_wf g \<longleftrightarrow> (\<forall>k r. dg_outcomes g k = Some r \<longrightarrow> gr_idempotency_key r = k)"

section \<open>The contract of an adapter\<close>

text \<open>
  \<open>changed g ak k\<close> says that the target behind the adapter \<open>ak\<close> has performed the change that
  carries the idempotency key \<open>k\<close>. An adapter promises that a receipt means the change is
  there, that an error reported with a side-effect state of \<open>not_attempted\<close> or \<open>none\<close> means it is
  not, that a call touches no other key, and that a lookup is sound evidence both ways.
\<close>

locale action_gateway =
  fixes execute :: "string \<Rightarrow> string \<Rightarrow> gateway_request \<Rightarrow> 'g \<Rightarrow> (gateway_error + gateway_receipt) \<times> 'g"
    and reconcile :: "string \<Rightarrow> string \<Rightarrow> gateway_request \<Rightarrow> string option \<Rightarrow> 'g
      \<Rightarrow> gateway_error + lookup_result"
    and changed :: "'g \<Rightarrow> string \<Rightarrow> string \<Rightarrow> bool"
    and gok :: "'g \<Rightarrow> bool"
  assumes gok_execute: "gok g \<Longrightarrow> execute ak pt req g = (res, g') \<Longrightarrow> gok g'"
    and receipt_changed: "gok g \<Longrightarrow> execute ak pt req g = (Inr r, g')
      \<Longrightarrow> changed g' ak (gq_idempotency_key req) \<and> gr_idempotency_key r = gq_idempotency_key req"
    and safe_error_unchanged: "gok g \<Longrightarrow> execute ak pt req g = (Inl e, g')
      \<Longrightarrow> ge_side_effect_state e \<in> {SE_NOT_ATTEMPTED, SE_NONE}
      \<Longrightarrow> \<not> changed g' ak (gq_idempotency_key req)"
    and execute_frame: "gok g \<Longrightarrow> execute ak pt req g = (res, g')
      \<Longrightarrow> (ak', k) \<noteq> (ak, gq_idempotency_key req) \<Longrightarrow> changed g' ak' k \<longleftrightarrow> changed g ak' k"
    and changed_stays: "gok g \<Longrightarrow> execute ak pt req g = (res, g') \<Longrightarrow> changed g ak' k
      \<Longrightarrow> changed g' ak' k"
    and lookup_is_valid: "gok g \<Longrightarrow> reconcile ak pt req ref g = Inr l \<Longrightarrow> valid_lookup l"
    and confirmed_changed: "gok g \<Longrightarrow> reconcile ak pt req ref g = Inr l \<Longrightarrow> lr_found l = Some True
      \<Longrightarrow> changed g ak (gq_idempotency_key req)"
    and absent_unchanged: "gok g \<Longrightarrow> reconcile ak pt req ref g = Inr l \<Longrightarrow> lr_found l = Some False
      \<Longrightarrow> lr_absence_is_terminal l \<Longrightarrow> \<not> changed g ak (gq_idempotency_key req)"
begin

text \<open>What the outcome of a lookup, as the action domain classifies it, says about the target.\<close>

lemma lookup_outcome_sound:
  assumes "gok g" and "reconcile ak pt req ref g = Inr l"
    and "reconciliation_outcome_for_lookup (lr_found l) (lr_absence_is_terminal l) = out"
  shows "out = RO_CONFIRMED_COMPLETED \<Longrightarrow> changed g ak (gq_idempotency_key req) \<and> lr_receipt l \<noteq> None"
    and "out = RO_CONFIRMED_ABSENT \<Longrightarrow> \<not> changed g ak (gq_idempotency_key req) \<and> lr_receipt l = None"
proof -
  have valid: "valid_lookup l" using assms lookup_is_valid by blast
  show "changed g ak (gq_idempotency_key req) \<and> lr_receipt l \<noteq> None"
    if "out = RO_CONFIRMED_COMPLETED"
    using that assms valid confirmed_changed
    by (auto simp: reconciliation_outcome_for_lookup_def valid_lookup_def
        validate_lookup_evidence_def split: if_splits)
  show "\<not> changed g ak (gq_idempotency_key req) \<and> lr_receipt l = None"
    if "out = RO_CONFIRMED_ABSENT"
    using that assms valid absent_unchanged
    by (auto simp: reconciliation_outcome_for_lookup_def valid_lookup_def
        validate_lookup_evidence_def split: if_splits)
qed

end

section \<open>Routing keeps the contract\<close>

locale gateway_router = action_gateway execute reconcile changed gok
  for execute :: "string \<Rightarrow> string \<Rightarrow> gateway_request \<Rightarrow> 'g \<Rightarrow> (gateway_error + gateway_receipt) \<times> 'g"
    and reconcile :: "string \<Rightarrow> string \<Rightarrow> gateway_request \<Rightarrow> string option \<Rightarrow> 'g
      \<Rightarrow> gateway_error + lookup_result"
    and changed :: "'g \<Rightarrow> string \<Rightarrow> string \<Rightarrow> bool"
    and gok :: "'g \<Rightarrow> bool"

definition routing_wf :: "('g \<Rightarrow> bool) \<Rightarrow> (string \<rightharpoonup> 'g) \<Rightarrow> bool" where
  "routing_wf gok gateways \<longleftrightarrow> (\<forall>ak g. gateways ak = Some g \<longrightarrow> gok g)"

lemma routing_execute_cases:
  assumes "routing_execute exec ak pt req gs = (res, gs')"
  obtains (missing) "gs ak = None" and "res = Inl not_configured_error" and "gs' = gs"
    | (present) g g' where "gs ak = Some g" and "exec ak pt req g = (res, g')"
        and "gs' = gs(ak \<mapsto> g')"
  using assms by (auto simp: routing_execute_def split: option.splits prod.splits)

lemma valid_unknown_lookup: "valid_lookup (unknown_lookup d)"
  by (simp add: unknown_lookup_def valid_lookup_def validate_lookup_evidence_def)

sublocale gateway_router \<subseteq> routed: action_gateway
  "routing_execute execute" "routing_reconcile reconcile" "routing_changed changed" "routing_wf gok"
proof (unfold_locales, goal_cases)
  case (1 gs ak pt req res gs')
  then show ?case
    by (elim routing_execute_cases) (auto simp: routing_wf_def intro: gok_execute)
next
  case (2 gs ak pt req r gs')
  then show ?case
    by (elim routing_execute_cases)
      (auto simp: routing_wf_def routing_changed_def dest: receipt_changed)
next
  case (3 gs ak pt req e gs')
  then show ?case
    by (elim routing_execute_cases)
      (auto simp: routing_wf_def routing_changed_def dest: safe_error_unchanged)
next
  case (4 gs ak pt req res gs' ak' k)
  then show ?case
    by (elim routing_execute_cases)
      (auto simp: routing_wf_def routing_changed_def execute_frame)
next
  case (5 gs ak pt req res gs' ak' k)
  then show ?case
    by (elim routing_execute_cases)
      (auto simp: routing_wf_def routing_changed_def intro: changed_stays [rotated])
next
  case (6 gs ak pt req ref l)
  then show ?case
    by (auto simp: routing_reconcile_def routing_wf_def valid_unknown_lookup
        split: option.splits dest: lookup_is_valid)
next
  case (7 gs ak pt req ref l)
  then show ?case
    by (auto simp: routing_reconcile_def routing_wf_def routing_changed_def unknown_lookup_def
        split: option.splits dest: confirmed_changed)
next
  case (8 gs ak pt req ref l)
  then show ?case
    by (auto simp: routing_reconcile_def routing_wf_def routing_changed_def unknown_lookup_def
        split: option.splits dest: absent_unchanged)
qed

section \<open>The deterministic adapter meets the contract\<close>

lemma det_receipt_key [simp]: "gr_idempotency_key (det_receipt sha pt req) = gq_idempotency_key req"
  by (simp add: det_receipt_def Let_def)

interpretation demo: gateway_router "det_execute sha" det_reconcile det_changed det_wf for sha
proof (unfold_locales, goal_cases)
  case (1 g ak pt req res g')
  then show ?case
    by (auto simp: det_execute_def det_store_def det_wf_def Let_def split: option.splits if_splits)
next
  case (2 g ak pt req r g')
  then show ?case
    by (auto simp: det_execute_def det_store_def det_changed_def det_wf_def Let_def
        split: option.splits if_splits)
next
  case (3 g ak pt req e g')
  then show ?case
    by (auto simp: det_execute_def det_store_def det_changed_def Let_def not_configured_error_def
        split: option.splits if_splits)
next
  case (4 g ak pt req res g' ak' k)
  then show ?case
    by (auto simp: det_execute_def det_store_def det_changed_def Let_def
        split: option.splits if_splits)
next
  case (5 g ak pt req res g' ak' k)
  then show ?case
    by (auto simp: det_execute_def det_store_def det_changed_def Let_def
        split: option.splits if_splits)
next
  case (6 g ak pt req ref l)
  then show ?case
    by (auto simp: det_reconcile_def unknown_lookup_def valid_lookup_def
        validate_lookup_evidence_def split: option.splits if_splits)
next
  case (7 g ak pt req ref l)
  then show ?case
    by (auto simp: det_reconcile_def unknown_lookup_def det_changed_def
        split: option.splits if_splits)
next
  case (8 g ak pt req ref l)
  then show ?case
    by (auto simp: det_reconcile_def unknown_lookup_def det_changed_def
        split: option.splits if_splits)
qed

section \<open>Replays\<close>

text \<open>A request the deterministic target accepted is never performed a second time: a
  later call with the same idempotency key, by whatever provider name and parameters, returns
  the stored receipt marked as a duplicate and leaves the adapter as it was; so does a call
  whose first answer was lost after acceptance.\<close>

theorem det_execute_replay:
  assumes "det_wf g" and "det_execute sha demo_adapter pt req g = (res, g1)"
    and "det_changed g1 demo_adapter (gq_idempotency_key req)"
    and "gq_idempotency_key again = gq_idempotency_key req"
  shows "\<exists>r. det_execute sha demo_adapter pt' again g1 = (Inr (r\<lparr>gr_duplicate := True\<rparr>), g1)
           \<and> dg_outcomes g1 (gq_idempotency_key req) = Some r
           \<and> gr_idempotency_key r = gq_idempotency_key req
           \<and> (\<forall>r0. res = Inr r0 \<longrightarrow> gr_external_reference r0 = gr_external_reference r)"
proof -
  have "det_wf g1" using assms(1,2) by (rule demo.gok_execute)
  moreover obtain r where r: "dg_outcomes g1 (gq_idempotency_key req) = Some r"
    using assms(3) by (auto simp: det_changed_def)
  moreover have "gr_external_reference r0 = gr_external_reference r" if "res = Inr r0" for r0
    using that assms(2) r
    by (auto simp: det_execute_def det_store_def Let_def split: option.splits if_splits)
  moreover have "det_execute sha demo_adapter pt' again g1 = (Inr (r\<lparr>gr_duplicate := True\<rparr>), g1)"
    using r assms(4) by (simp add: det_execute_def)
  ultimately show ?thesis by (auto simp: det_wf_def)
qed

definition demo_request :: gateway_request where
  "demo_request =
     \<lparr>gq_action_id = ''ACT-1'', gq_action_type = ''credit'', gq_target = ''ACCT-218'',
      gq_parameters = [(''amount'', ''10.00'')], gq_idempotency_key = ''case-action-0000000001''\<rparr>"

definition demo_gateway :: det_gateway where
  "demo_gateway = \<lparr>dg_behaviors = Map.empty, dg_health = Map.empty, dg_outcomes = Map.empty\<rparr>"

theorem det_execute_replay_witness:
  "\<exists>r g1. det_execute id demo_adapter ''billing'' demo_request demo_gateway = (Inr r, g1)
     \<and> det_execute id demo_adapter ''crm'' demo_request g1 = (Inr (r\<lparr>gr_duplicate := True\<rparr>), g1)"
proof -
  let ?g1 = "snd (det_execute id demo_adapter ''billing'' demo_request demo_gateway)"
  let ?r = "det_receipt id ''billing'' demo_request"
  have first: "det_execute id demo_adapter ''billing'' demo_request demo_gateway = (Inr ?r, ?g1)"
    and stored: "dg_outcomes ?g1 (gq_idempotency_key demo_request) = Some ?r"
    by (simp_all add: det_execute_def demo_gateway_def det_behavior_def det_store_def Let_def)
  have "det_wf demo_gateway" by (simp add: det_wf_def demo_gateway_def)
  moreover have "det_changed ?g1 demo_adapter (gq_idempotency_key demo_request)"
    using stored by (simp add: det_changed_def)
  ultimately show ?thesis
    using det_execute_replay [of demo_gateway id "''billing''" demo_request "Inr ?r" ?g1
        demo_request "''crm''"] first stored by auto
qed

end
