(* ===== verification/Actions_Base.thy ===== *)
theory Actions_Base
  imports Gateway
begin

text \<open>
  The shared half of the action repository, \<open>persistence/actions/_base.py\<close>: scoped reads, the
  blocker that decides whether an action may be sent, the proof a retry needs, the binding of a
  target receipt, and the recovery of attempts whose process died. The session's identity map
  hands out one object per row, so a method that changed a row through another reference sees
  the change: \<open>refresh_action\<close> reads the row again where the code relies on that.
\<close>

section \<open>Records handed to the services\<close>

record execution_lease =
  el_action_id :: uuid
  el_action_public_id :: string
  el_action_version :: int
  el_attempt_id :: uuid
  el_attempt_public_id :: string
  el_organization_public_id :: string
  el_action_type :: string
  el_target :: string
  el_parameters :: "(string \<times> string) list"
  el_idempotency_key :: string
  el_adapter_key :: string
  el_provider_type :: string

record reconciliation_lease =
  rl_action_id :: uuid
  rl_action_public_id :: string
  rl_action_version :: int
  rl_reconciliation_id :: uuid
  rl_organization_public_id :: string
  rl_action_type :: string
  rl_target :: string
  rl_parameters :: "(string \<times> string) list"
  rl_idempotency_key :: string
  rl_external_reference :: "string option"
  rl_adapter_key :: string
  rl_provider_type :: string

record action_bundle =
  ab_action :: case_action
  ab_case_public_id :: string
  ab_proposal_public_id :: string
  ab_proposal_version :: int
  ab_review_public_id :: string
  ab_review_snapshot_fingerprint :: string
  ab_approved_at :: timestamp
  ab_approved_by_public_id :: string
  ab_approved_by_name :: string
  ab_approved_by_role :: member_role
  ab_approval_rule :: string
  ab_connection :: connection
  ab_attempts :: "action_attempt list"
  ab_receipt :: "action_receipt option"
  ab_reconciliations :: "action_reconciliation list"

record queue_item =
  qi_bundle :: action_bundle
  qi_effective_blocker :: "action_execution_blocker option"
  qi_recovery_required :: bool

section \<open>Constants and pure helpers\<close>

definition action_authorization_hours :: int where
  "action_authorization_hours = 24"

definition abandoned_action_minutes :: int where
  "abandoned_action_minutes = 5"

definition connection_health_max_age_minutes :: int where
  "connection_health_max_age_minutes = 15"

definition recovery_status :: "action_status \<Rightarrow> bool" where
  "recovery_status s \<longleftrightarrow> s \<in> {AS_OUTCOME_UNKNOWN, AS_RECOVERY_REQUIRED}"

definition connection_is_eligible :: "connection \<Rightarrow> timestamp \<Rightarrow> bool" where
  "connection_is_eligible c now \<longleftrightarrow> cn_health c = HEALTHY
     \<and> cn_credential_status c \<notin> {CRED_MISSING, CRED_EXPIRED}
     \<and> cn_adapter_key c \<noteq> ''unconfigured''
     \<and> (case cn_last_checked_at c of None \<Rightarrow> False
        | Some t \<Rightarrow> now - minutes connection_health_max_age_minutes < t)"

definition materialization_blocker ::
    "bool \<Rightarrow> connection \<Rightarrow> timestamp \<Rightarrow> action_execution_blocker option" where
  "materialization_blocker execution_eligible c now =
     (if \<not> execution_eligible then Some BL_STALE_PROPOSAL
      else if \<not> connection_is_eligible c now then Some BL_CONNECTION_UNAVAILABLE
      else None)"

definition action_target_keys :: "string list" where
  "action_target_keys = [''external_reference'', ''payment_id'', ''invoice_id'', ''account_id'',
     ''order_id'', ''case_id'']"

definition action_target :: "proposed_action \<Rightarrow> case_row \<Rightarrow> string" where
  "action_target p c =
     (case find (\<lambda>k. case map_of (pa_parameters p) k of None \<Rightarrow> False | Some v \<Rightarrow> v \<noteq> [])
             action_target_keys of
        Some k \<Rightarrow> the (map_of (pa_parameters p) k)
      | None \<Rightarrow> if cs_external_reference c \<noteq> [] then cs_external_reference c else cs_public_id c)"

fun blocker_message :: "action_execution_blocker \<Rightarrow> string" where
  "blocker_message BL_PERMISSION = ''Your role does not have permission to execute this action.''"
| "blocker_message BL_DUPLICATE =
     ''This action already has a target receipt and cannot be repeated.''"
| "blocker_message BL_EXPIRED_APPROVAL =
     ''The approval expired. Submit the current resolution for review again.''"
| "blocker_message BL_CONNECTION_UNAVAILABLE =
     ''The target connection is not healthy and configured for this action.''"
| "blocker_message BL_STALE_PROPOSAL =
     ''The approved resolution no longer matches the current case.''"

section \<open>Scoped reads\<close>

definition organization_of :: "string \<Rightarrow> database \<Rightarrow> organization option" where
  "organization_of pid db = find (\<lambda>g. org_public_id g = pid) (organizations db)"

definition scoped_action :: "string \<Rightarrow> string \<Rightarrow> database \<Rightarrow> case_action option" where
  "scoped_action org_pid act_pid db =
     find (\<lambda>a. act_public_id a = act_pid
             \<and> list_ex (\<lambda>g. org_id g = act_organization_id a \<and> org_public_id g = org_pid)
                 (organizations db))
       (actions db)"

definition required_action_for_update :: "string \<Rightarrow> string \<Rightarrow> database \<Rightarrow> error + case_action" where
  "required_action_for_update org_pid act_pid db =
     bindE (someE (scoped_action org_pid act_pid db) (ActionNotFound ''The action was not found.''))
       (\<lambda>a. bindE (requireE (act_type a \<notin> set retired_action_types)
                     (ActionConflict
                        ''This historical action is read-only in the current product.''))
              (\<lambda>_. Inr a))"

definition active_member :: "uuid \<Rightarrow> string \<Rightarrow> database \<Rightarrow> error + membership" where
  "active_member organization_id actor db =
     someE (find (\<lambda>m. mem_organization_id m = organization_id \<and> mem_status m = MS_ACTIVE
                   \<and> (mem_public_id m = actor \<or> mem_subject_id m = actor))
              (memberships db))
       (ActorMembershipNotFound ''An active organization membership is required for this action.'')"

definition receipt_of :: "case_action \<Rightarrow> database \<Rightarrow> action_receipt option" where
  "receipt_of a db =
     find (\<lambda>r. rcp_organization_id r = act_organization_id a \<and> rcp_action_id r = act_id a)
       (receipts db)"

definition attempts_of :: "case_action \<Rightarrow> database \<Rightarrow> action_attempt list" where
  "attempts_of a db =
     filter (\<lambda>t. att_organization_id t = act_organization_id a \<and> att_action_id t = act_id a)
       (attempts db)"

definition reconciliations_of :: "case_action \<Rightarrow> database \<Rightarrow> action_reconciliation list" where
  "reconciliations_of a db =
     filter (\<lambda>r. rec_organization_id r = act_organization_id a \<and> rec_action_id r = act_id a)
       (reconciliations db)"

definition latest_attempt :: "case_action \<Rightarrow> database \<Rightarrow> action_attempt option" where
  "latest_attempt a db = latest_by att_number (attempts_of a db)"

definition required_connection :: "case_action \<Rightarrow> database \<Rightarrow> error + connection" where
  "required_connection a db =
     (case row_get cn_id (act_connection_id a) (connections db) of
        None \<Rightarrow> Inl (ActionConflict ''The action target connection is missing.'')
      | Some c \<Rightarrow> if cn_organization_id c \<noteq> act_organization_id a
                  then Inl (ActionConflict ''The action target connection is missing.'') else Inr c)"

definition required_review_snapshot :: "case_review \<Rightarrow> database \<Rightarrow> error + review_snapshot" where
  "required_review_snapshot r db =
     someE (find (\<lambda>s. rs_organization_id s = rv_organization_id r \<and> rs_case_id s = rv_case_id r
                   \<and> rs_review_id s = rv_id r) (review_snapshots db))
       (ActionConflict ''The immutable review snapshot is missing.'')"

definition refresh_action :: "case_action \<Rightarrow> database \<Rightarrow> case_action" where
  "refresh_action a db = (case row_get act_id (act_id a) (actions db) of None \<Rightarrow> a | Some b \<Rightarrow> b)"

section \<open>Writes\<close>

definition put_action :: "case_action \<Rightarrow> database \<Rightarrow> database" where
  "put_action a db = db\<lparr>actions := row_put act_id a (actions db)\<rparr>"

definition put_attempt :: "action_attempt \<Rightarrow> database \<Rightarrow> database" where
  "put_attempt t db = db\<lparr>attempts := row_put att_id t (attempts db)\<rparr>"

definition put_reconciliation :: "action_reconciliation \<Rightarrow> database \<Rightarrow> database" where
  "put_reconciliation r db = db\<lparr>reconciliations := row_put rec_id r (reconciliations db)\<rparr>"

definition put_case :: "case_row \<Rightarrow> database \<Rightarrow> database" where
  "put_case c db = db\<lparr>cases := row_put cs_id c (cases db)\<rparr>"

definition add_action_audit ::
    "uuid \<Rightarrow> case_action \<Rightarrow> string \<Rightarrow> string \<Rightarrow> string \<Rightarrow> string \<Rightarrow> json \<Rightarrow> string \<Rightarrow> timestamp
     \<Rightarrow> database \<Rightarrow> error + database" where
  "add_action_audit uid a event_type actor_type actor summary data correlation_id occurred_at db =
     insert_audit
       \<lparr>au_id = uid, au_organization_id = Some (act_organization_id a), au_task_id = None,
        au_run_id = None, au_event_type = event_type, au_actor_type = actor_type,
        au_actor_id = Some actor, au_subject_type = Some ''action'',
        au_subject_id = Some (act_public_id a), au_summary = Some summary, au_data = data,
        au_correlation_id = correlation_id, au_occurred_at = occurred_at\<rparr> db"

section \<open>The blocker\<close>

definition approval_is_current :: "case_action \<Rightarrow> database \<Rightarrow> bool" where
  "approval_is_current a db =
     (case (row_get rv_id (act_review_id a) (reviews db),
            row_get rs_id (act_review_snapshot_id a) (review_snapshots db),
            row_get rvd_id (act_review_decision_id a) (review_decisions db),
            row_get cs_id (act_case_id a) (cases db),
            row_get prop_id (act_proposal_id a) (proposals db),
            row_get pv_id (act_proposal_version_id a) (proposal_versions db)) of
        (Some review, Some snapshot, Some decision, Some case_, Some proposal, Some version) \<Rightarrow>
          rv_status review = RS_APPROVED
          \<and> rvd_decision decision = RD_APPROVE
          \<and> rvd_snapshot_fingerprint decision = rs_snapshot_fingerprint snapshot
          \<and> rs_execution_eligible snapshot
          \<and> cs_version case_ = rs_case_version snapshot
          \<and> prop_current_version proposal = rs_proposal_version snapshot
          \<and> prop_state proposal = DP_APPROVED
          \<and> pv_version version = rs_proposal_version snapshot
          \<and> pv_legacy_proposal_version_id version = None
      | _ \<Rightarrow> False)"

definition effective_blocker ::
    "case_action \<Rightarrow> timestamp \<Rightarrow> database \<Rightarrow> error + action_execution_blocker option" where
  "effective_blocker a now db =
     (if act_status a = AS_COMPLETED \<or> receipt_of a db \<noteq> None then Inr (Some BL_DUPLICATE)
      else if act_type a \<in> set retired_action_types then Inr (Some BL_CONNECTION_UNAVAILABLE)
      else if \<not> act_execution_eligible a then Inr (Some BL_STALE_PROPOSAL)
      else if act_authorization_expires_at a \<le> now then Inr (Some BL_EXPIRED_APPROVAL)
      else if \<not> approval_is_current a db then Inr (Some BL_STALE_PROPOSAL)
      else bindE (required_connection a db)
             (\<lambda>c. Inr (if \<not> connection_is_eligible c now \<or> act_type a \<notin> set (cn_action_types c)
                       then Some BL_CONNECTION_UNAVAILABLE else None)))"

definition retry_is_safe :: "case_action \<Rightarrow> database \<Rightarrow> bool" where
  "retry_is_safe a db =
     (if (case latest_by rec_checked_at (reconciliations_of a db) of
            None \<Rightarrow> False | Some r \<Rightarrow> rec_outcome r = RO_CONFIRMED_ABSENT)
      then True
      else case latest_attempt a db of
             None \<Rightarrow> False
           | Some t \<Rightarrow> att_outcome t = AO_FAILED_BEFORE_CHANGE
                       \<and> att_side_effect_state t \<in> {SE_NOT_ATTEMPTED, SE_NONE})"

section \<open>Queue items\<close>

definition load_bundle :: "case_action \<Rightarrow> database \<Rightarrow> error + action_bundle" where
  "load_bundle a db =
     (case (row_get cs_id (act_case_id a) (cases db),
            row_get prop_id (act_proposal_id a) (proposals db),
            row_get pv_id (act_proposal_version_id a) (proposal_versions db),
            row_get rv_id (act_review_id a) (reviews db),
            row_get rs_id (act_review_snapshot_id a) (review_snapshots db),
            row_get rvd_id (act_review_decision_id a) (review_decisions db),
            row_get cn_id (act_connection_id a) (connections db)) of
        (Some case_, Some proposal, Some version, Some review, Some snapshot, Some decision,
         Some c) \<Rightarrow>
          Inr \<lparr>ab_action = a, ab_case_public_id = cs_public_id case_,
               ab_proposal_public_id = prop_public_id proposal,
               ab_proposal_version = pv_version version,
               ab_review_public_id = rv_public_id review,
               ab_review_snapshot_fingerprint = rs_snapshot_fingerprint snapshot,
               ab_approved_at = rvd_decided_at decision,
               ab_approved_by_public_id = rvd_reviewer_public_id decision,
               ab_approved_by_name = rvd_reviewer_name decision,
               ab_approved_by_role = rvd_reviewer_role decision,
               ab_approval_rule = rs_approval_rule_name snapshot, ab_connection = c,
               ab_attempts = sort_key att_number (attempts_of a db),
               ab_receipt = receipt_of a db,
               ab_reconciliations = sort_key rec_checked_at (reconciliations_of a db)\<rparr>
      | _ \<Rightarrow> Inl (ActionConflict ''The action lineage is incomplete.''))"

definition queue_item_of :: "case_action \<Rightarrow> timestamp \<Rightarrow> database \<Rightarrow> error + queue_item" where
  "queue_item_of a now db =
     bindE (load_bundle a db) (\<lambda>b.
     bindE (effective_blocker a now db) (\<lambda>blk.
     Inr \<lparr>qi_bundle = b, qi_effective_blocker = blk,
          qi_recovery_required = recovery_status (act_status a)\<rparr>))"

section \<open>Leases and receipts\<close>

definition execution_models ::
    "execution_lease \<Rightarrow> database \<Rightarrow> error + case_action \<times> action_attempt" where
  "execution_models lease db =
     (case (row_get act_id (el_action_id lease) (actions db),
            find (\<lambda>t. att_id t = el_attempt_id lease \<and> att_action_id t = el_action_id lease)
              (attempts db)) of
        (Some a, Some t) \<Rightarrow> Inr (a, t)
      | _ \<Rightarrow> Inl (ActionNotFound ''The action execution lease was not found.''))"

definition record_receipt ::
    "(string \<Rightarrow> string) \<Rightarrow> uuid \<Rightarrow> case_action \<Rightarrow> action_attempt \<Rightarrow> gateway_receipt \<Rightarrow> timestamp
     \<Rightarrow> database \<Rightarrow> error + action_receipt \<times> database" where
  "record_receipt sha uid a t receipt now db =
     (case receipt_of a db of
        Some existing \<Rightarrow>
          (if rcp_idempotency_key existing \<noteq> gr_idempotency_key receipt
              \<or> rcp_external_reference existing \<noteq> gr_external_reference receipt
           then Inl (ActionConflict ''A different target receipt is already bound to this action.'')
           else Inr (existing, db))
      | None \<Rightarrow>
          (let stored =
             \<lparr>rcp_id = uid,
              rcp_public_id =
                stable_public_id sha ''AR'' [act_public_id a, gr_external_reference receipt],
              rcp_organization_id = act_organization_id a, rcp_case_id = act_case_id a,
              rcp_action_id = act_id a, rcp_attempt_id = att_id t,
              rcp_legacy_external_receipt_id = None, rcp_provider = gr_provider receipt,
              rcp_external_reference = gr_external_reference receipt,
              rcp_idempotency_key = gr_idempotency_key receipt, rcp_status = gr_status receipt,
              rcp_data_fingerprint = hash_json sha (json_params (gr_data receipt)),
              rcp_recorded_at = now\<rparr>
           in bindE (insert_receipt stored db) (\<lambda>db1. Inr (stored, db1))))"

definition advance_case_after_completion ::
    "case_action \<Rightarrow> timestamp \<Rightarrow> database \<Rightarrow> error + database" where
  "advance_case_after_completion a now db =
     (case find (\<lambda>c. cs_id c = act_case_id a \<and> cs_organization_id c = act_organization_id a)
             (cases db) of
        None \<Rightarrow> Inl (ActionConflict ''The action case is missing.'')
      | Some c \<Rightarrow>
          (if cs_status c \<noteq> CS_NEEDS_REVIEW then Inr db
           else Inr (put_case (c\<lparr>cs_status := CS_IN_PROGRESS, cs_version := cs_version c + 1,
                                cs_updated_at := now\<rparr>) db)))"

section \<open>Attempts whose process died\<close>

definition abandoned_detail :: string where
  "abandoned_detail = ''The execution process ended before a target outcome was recorded.''"

definition abandoned_attempt :: "(string \<Rightarrow> string) \<Rightarrow> timestamp \<Rightarrow> action_attempt \<Rightarrow> action_attempt" where
  "abandoned_attempt sha now t =
     t\<lparr>att_outcome := AO_UNKNOWN, att_side_effect_state := SE_POSSIBLE,
       att_detail := abandoned_detail, att_error_code := Some ''execution_lease_abandoned'',
       att_response_fingerprint := Some (hash_json sha
         (JObj [(''error_code'', JStr ''execution_lease_abandoned''),
                (''side_effect_state'', JStr (side_effect_value SE_POSSIBLE))])),
       att_finished_at := Some now\<rparr>"

definition abandoned_action :: "timestamp \<Rightarrow> case_action \<Rightarrow> case_action" where
  "abandoned_action now a =
     a\<lparr>act_status := AS_OUTCOME_UNKNOWN, act_observed_outcome := Some abandoned_detail,
       act_version := act_version a + 1, act_updated_at := now\<rparr>"

definition abandon_attempt ::
    "(string \<Rightarrow> string) \<Rightarrow> timestamp \<Rightarrow> (uuid \<Rightarrow> uuid) \<Rightarrow> uuid \<times> uuid \<Rightarrow> database
     \<Rightarrow> error + database" where
  "abandon_attempt sha now audit_ids candidate db =
     (let cutoff = now - minutes abandoned_action_minutes;
          (attempt_id, action_id) = candidate;
          target = row_get act_id action_id (actions db)
      in case find (\<lambda>t. att_id t = attempt_id \<and> att_outcome t = AO_RUNNING
                      \<and> att_started_at t \<le> cutoff) (attempts db) of
        None \<Rightarrow> Inr db
      | Some t \<Rightarrow>
          (let t' = abandoned_attempt sha now t; db1 = put_attempt t' db
           in case target of
                None \<Rightarrow> Inr db1
              | Some a \<Rightarrow>
                  (if act_status a \<noteq> AS_RUNNING then Inr db1
                   else let a' = abandoned_action now a
                        in add_action_audit (audit_ids attempt_id) a'
                             ''case.action_execution_abandoned'' ''system''
                             ''action-lease-reconciler''
                             ''An unfinished action was marked outcome unknown.''
                             (JObj [(''attempt_id'', JStr (att_public_id t')),
                                    (''blind_retry_blocked'', JBool True)])
                             (''action-lease:'' @ att_public_id t') now
                             (put_action a' db1))))"

definition abandoned_candidates ::
    "(action_attempt \<Rightarrow> bool) \<Rightarrow> timestamp \<Rightarrow> database \<Rightarrow> (uuid \<times> uuid) list" where
  "abandoned_candidates scope now db =
     map (\<lambda>t. (att_id t, att_action_id t))
       (sort_key att_action_id (sort_key att_id
         (filter (\<lambda>t. att_outcome t = AO_RUNNING
                    \<and> att_started_at t \<le> now - minutes abandoned_action_minutes \<and> scope t)
           (attempts db))))"

definition reconcile_abandoned ::
    "(string \<Rightarrow> string) \<Rightarrow> timestamp \<Rightarrow> (uuid \<Rightarrow> uuid) \<Rightarrow> (action_attempt \<Rightarrow> bool) \<Rightarrow> database
     \<Rightarrow> error + database" where
  "reconcile_abandoned sha now audit_ids scope db =
     foldE (abandon_attempt sha now audit_ids) (abandoned_candidates scope now db) db"

definition scope_action :: "case_action \<Rightarrow> action_attempt \<Rightarrow> bool" where
  "scope_action a t \<longleftrightarrow>
     att_organization_id t = act_organization_id a \<and> att_action_id t = act_id a"

definition scope_organization :: "uuid \<Rightarrow> action_attempt \<Rightarrow> bool" where
  "scope_organization organization_id t \<longleftrightarrow> att_organization_id t = organization_id"

end
