(* ===== verification/Actions_Exec.thy ===== *)
theory Actions_Exec
  imports Actions_Base
begin

text \<open>
  The commands of the action repository: \<open>persistence/actions/execution.py\<close> (leasing and
  closing an attempt), \<open>recovery.py\<close> (reconciliation, manual outcomes, escalation) and the
  queries that mark abandoned attempts on the way. Every command is one transaction.
\<close>

section \<open>Execution\<close>

definition attempt_command_of :: "action_command \<Rightarrow> action_attempt_command" where
  "attempt_command_of command = (if command = CMD_RETRY_SAFE then AC_RETRY_SAFE else AC_EXECUTE)"

definition require_startable :: "action_command \<Rightarrow> case_action \<Rightarrow> database \<Rightarrow> error + unit" where
  "require_startable command a db =
     (if command = CMD_EXECUTE \<and> act_status a \<noteq> AS_READY
      then Inl (ActionConflict ''Only a ready action can be executed.'')
      else if command = CMD_RETRY_SAFE \<and> act_status a \<noteq> AS_FAILED_SAFE
      then Inl (ActionConflict ''Only an action proven to have made no change can be retried.'')
      else if command = CMD_RETRY_SAFE \<and> \<not> retry_is_safe a db
      then Inl (ActionConflict ''A safe retry requires proof that the target was not changed.'')
      else Inr ())"

definition new_attempt ::
    "(string \<Rightarrow> string) \<Rightarrow> uuid \<Rightarrow> case_action \<Rightarrow> membership \<Rightarrow> action_command \<Rightarrow> timestamp
     \<Rightarrow> action_attempt" where
  "new_attempt sha uid a member command now =
     (let number = act_attempt_count a + 1 in
      \<lparr>att_id = uid,
       att_public_id = stable_public_id sha ''AT'' [act_public_id a, int_str number],
       att_organization_id = act_organization_id a, att_case_id = act_case_id a,
       att_action_id = act_id a, att_actor_id = Some (mem_id member),
       att_actor_public_id = mem_public_id member, att_actor_name = mem_name member,
       att_actor_role = Some (mem_role member), att_legacy_tool_attempt_id = None,
       att_number = number, att_command = attempt_command_of command,
       att_outcome = AO_RUNNING, att_side_effect_state = SE_NOT_ATTEMPTED,
       att_detail = ''The controlled action is being sent to its target.'',
       att_error_code = None,
       att_request_fingerprint = hash_json sha
         (JObj [(''action_id'', JStr (act_public_id a)), (''type'', JStr (act_type a)),
                (''target'', JStr (act_target a)),
                (''parameters'', json_params (act_typed_parameters a)),
                (''idempotency_key'', JStr (act_idempotency_key a)),
                (''command'', JStr (action_command_value command))]),
       att_response_fingerprint = None, att_started_at = now, att_finished_at = None\<rparr>)"

definition started_action :: "timestamp \<Rightarrow> membership \<Rightarrow> case_action \<Rightarrow> case_action" where
  "started_action now member a =
     a\<lparr>act_status := AS_RUNNING, act_execution_blocker := None,
       act_owner_id := Some (mem_id member),
       act_owner_public_id := Some (mem_public_id member),
       act_owner_name := Some (mem_name member),
       act_attempt_count := act_attempt_count a + 1,
       act_version := act_version a + 1, act_updated_at := now\<rparr>"

definition prepare_execution ::
    "(string \<Rightarrow> string) \<Rightarrow> timestamp \<Rightarrow> uuid \<Rightarrow> uuid \<Rightarrow> (uuid \<Rightarrow> uuid) \<Rightarrow> string \<Rightarrow> string \<Rightarrow> string
     \<Rightarrow> int \<Rightarrow> action_command \<Rightarrow> string \<Rightarrow> database \<Rightarrow> error + execution_lease \<times> database" where
  "prepare_execution sha now attempt_uid audit_uid audit_ids org_pid act_pid actor expected_version
     command correlation_id db =
     bindE (requireE (command \<in> {CMD_EXECUTE, CMD_RETRY_SAFE})
              (ActionConflict ''This command cannot create an execution attempt.'')) (\<lambda>_.
     bindE (required_action_for_update org_pid act_pid db) (\<lambda>found.
     bindE (reconcile_abandoned sha now audit_ids (scope_action found) db) (\<lambda>db1.
     let a = refresh_action found db1 in
     bindE (requireE (act_version a = expected_version)
              (ActionVersionConflict expected_version (act_version a))) (\<lambda>_.
     bindE (effective_blocker a now db1) (\<lambda>blocker.
     bindE (case blocker of None \<Rightarrow> Inr ()
            | Some b \<Rightarrow> Inl (ActionExecutionBlocked b (blocker_message b))) (\<lambda>_.
     bindE (require_startable command a db1) (\<lambda>_.
     bindE (active_member (act_organization_id a) actor db1) (\<lambda>member.
     bindE (required_connection a db1) (\<lambda>c.
     let t = new_attempt sha attempt_uid a member command now;
         a' = started_action now member a
     in
     bindE (insert_attempt t (put_action a' db1)) (\<lambda>db2.
     bindE (add_action_audit audit_uid a' ''case.action_started'' ''member''
              (mem_public_id member) ''A controlled action attempt was started.''
              (JObj [(''attempt_id'', JStr (att_public_id t)),
                     (''attempt_number'', JInt (att_number t)),
                     (''command'', JStr (action_command_value command)),
                     (''idempotency_key'', JStr (act_idempotency_key a'))])
              correlation_id now db2) (\<lambda>db3.
     bindE (someE (row_get org_id (act_organization_id a') (organizations db3))
              (ActionConflict ''The action organization is missing.'')) (\<lambda>organization.
     Inr (\<lparr>el_action_id = act_id a', el_action_public_id = act_public_id a',
           el_action_version = act_version a', el_attempt_id = att_id t,
           el_attempt_public_id = att_public_id t,
           el_organization_public_id = org_public_id organization,
           el_action_type = act_type a', el_target = act_target a',
           el_parameters = act_typed_parameters a',
           el_idempotency_key = act_idempotency_key a', el_adapter_key = cn_adapter_key c,
           el_provider_type = cn_provider_type c\<rparr>, db3)))))))))))))"

definition json_receipt :: "gateway_receipt \<Rightarrow> json" where
  "json_receipt r = JObj
     [(''provider'', JStr (gr_provider r)),
      (''external_reference'', JStr (gr_external_reference r)),
      (''idempotency_key'', JStr (gr_idempotency_key r)), (''status'', JStr (gr_status r)),
      (''data'', json_params (gr_data r)), (''duplicate'', JBool (gr_duplicate r))]"

definition succeeded_attempt ::
    "(string \<Rightarrow> string) \<Rightarrow> timestamp \<Rightarrow> gateway_receipt \<Rightarrow> action_attempt \<Rightarrow> action_attempt" where
  "succeeded_attempt sha now receipt t =
     t\<lparr>att_outcome := AO_SUCCEEDED, att_side_effect_state := SE_CONFIRMED,
       att_detail := ''The target confirmed the change and returned an attributable receipt.'',
       att_response_fingerprint := Some (hash_json sha (json_receipt receipt)),
       att_finished_at := Some now\<rparr>"

definition completed_action :: "timestamp \<Rightarrow> action_receipt \<Rightarrow> case_action \<Rightarrow> case_action" where
  "completed_action now stored a =
     a\<lparr>act_status := AS_COMPLETED, act_execution_blocker := None,
       act_observed_outcome := Some (''Target confirmed '' @ rcp_external_reference stored
         @ '' with status '' @ rcp_status stored @ ''.''),
       act_version := act_version a + 1, act_updated_at := now\<rparr>"

definition finish_execution_success ::
    "(string \<Rightarrow> string) \<Rightarrow> timestamp \<Rightarrow> uuid \<Rightarrow> uuid \<Rightarrow> execution_lease \<Rightarrow> gateway_receipt \<Rightarrow> string
     \<Rightarrow> database \<Rightarrow> error + queue_item \<times> database" where
  "finish_execution_success sha now receipt_uid audit_uid lease receipt correlation_id db =
     bindE (execution_models lease db) (\<lambda>(a, t).
     if att_outcome t \<noteq> AO_RUNNING
     then (if act_status a = AS_COMPLETED
           then bindE (queue_item_of a now db) (\<lambda>item. Inr (item, db))
           else Inl (ActionConflict ''This action attempt already has a final outcome.''))
     else
     bindE (requireE (gr_idempotency_key receipt = act_idempotency_key a)
              (ActionConflict
                 ''The target receipt does not match this action's idempotency key.'')) (\<lambda>_.
     bindE (record_receipt sha receipt_uid a t receipt now db) (\<lambda>(stored, db1).
     let t' = succeeded_attempt sha now receipt t; a' = completed_action now stored a
     in
     bindE (advance_case_after_completion a' now (put_action a' (put_attempt t' db1))) (\<lambda>db2.
     bindE (add_action_audit audit_uid a' ''case.action_completed'' ''member''
              (att_actor_public_id t') ''The target confirmed the controlled action.''
              (JObj [(''attempt_id'', JStr (att_public_id t')),
                     (''receipt_id'', JStr (rcp_public_id stored)),
                     (''external_reference'', JStr (rcp_external_reference stored)),
                     (''duplicate_receipt'', JBool (gr_duplicate receipt))])
              correlation_id now db2) (\<lambda>db3.
     bindE (queue_item_of a' now db3) (\<lambda>item. Inr (item, db3)))))))"

definition safe_failure :: "gateway_error \<Rightarrow> bool" where
  "safe_failure e \<longleftrightarrow> ge_side_effect_state e \<in> {SE_NOT_ATTEMPTED, SE_NONE}"

definition failed_attempt ::
    "(string \<Rightarrow> string) \<Rightarrow> timestamp \<Rightarrow> gateway_error \<Rightarrow> action_attempt \<Rightarrow> action_attempt" where
  "failed_attempt sha now e t =
     t\<lparr>att_outcome := (if safe_failure e then AO_FAILED_BEFORE_CHANGE else AO_UNKNOWN),
       att_side_effect_state := ge_side_effect_state e,
       att_detail := ge_message e, att_error_code := Some (ge_code e),
       att_response_fingerprint := Some (hash_json sha
         (JObj [(''code'', JStr (ge_code e)), (''detail'', JStr (ge_message e)),
                (''side_effect_state'', JStr (side_effect_value (ge_side_effect_state e))),
                (''retryable'', JBool (ge_retryable e))])),
       att_finished_at := Some now\<rparr>"

definition failed_action :: "timestamp \<Rightarrow> gateway_error \<Rightarrow> case_action \<Rightarrow> case_action" where
  "failed_action now e a =
     a\<lparr>act_status := (if safe_failure e then AS_FAILED_SAFE else AS_OUTCOME_UNKNOWN),
       act_observed_outcome := Some (ge_message e),
       act_version := act_version a + 1, act_updated_at := now\<rparr>"

definition finish_execution_error ::
    "(string \<Rightarrow> string) \<Rightarrow> timestamp \<Rightarrow> uuid \<Rightarrow> execution_lease \<Rightarrow> gateway_error \<Rightarrow> string
     \<Rightarrow> database \<Rightarrow> error + queue_item \<times> database" where
  "finish_execution_error sha now audit_uid lease e correlation_id db =
     bindE (execution_models lease db) (\<lambda>(a, t).
     if att_outcome t \<noteq> AO_RUNNING
     then bindE (queue_item_of a now db) (\<lambda>item. Inr (item, db))
     else
     let t' = failed_attempt sha now e t; a' = failed_action now e a
     in
     bindE (add_action_audit audit_uid a'
              (if safe_failure e then ''case.action_failed_safe''
               else ''case.action_outcome_unknown'') ''member'' (att_actor_public_id t')
              (if safe_failure e then ''The target made no change.''
               else ''The target outcome could not be confirmed.'')
              (JObj [(''attempt_id'', JStr (att_public_id t')),
                     (''error_code'', JStr (ge_code e)),
                     (''side_effect_state'', JStr (side_effect_value (ge_side_effect_state e))),
                     (''blind_retry_blocked'', JBool (\<not> safe_failure e))])
              correlation_id now (put_action a' (put_attempt t' db))) (\<lambda>db1.
     bindE (queue_item_of a' now db1) (\<lambda>item. Inr (item, db1))))"

section \<open>Recovery\<close>

definition running_reconciliation ::
    "case_action \<Rightarrow> database \<Rightarrow> action_reconciliation option" where
  "running_reconciliation a db =
     find (\<lambda>r. rec_outcome r = RO_RUNNING) (reconciliations_of a db)"

definition new_reconciliation ::
    "uuid \<Rightarrow> string \<Rightarrow> case_action \<Rightarrow> membership \<Rightarrow> reconciliation_outcome \<Rightarrow> string \<Rightarrow> timestamp
     \<Rightarrow> action_reconciliation" where
  "new_reconciliation uid public_id a member outcome detail now =
     \<lparr>rec_id = uid, rec_public_id = public_id,
      rec_organization_id = act_organization_id a, rec_case_id = act_case_id a,
      rec_action_id = act_id a, rec_actor_id = mem_id member,
      rec_actor_public_id = mem_public_id member, rec_actor_name = mem_name member,
      rec_outcome = outcome, rec_detail = detail, rec_external_reference = None,
      rec_checked_at = now\<rparr>"

definition prepare_reconciliation ::
    "(string \<Rightarrow> string) \<Rightarrow> timestamp \<Rightarrow> uuid \<Rightarrow> string \<Rightarrow> uuid \<Rightarrow> (uuid \<Rightarrow> uuid) \<Rightarrow> string \<Rightarrow> string
     \<Rightarrow> string \<Rightarrow> int \<Rightarrow> string \<Rightarrow> database \<Rightarrow> error + reconciliation_lease \<times> database" where
  "prepare_reconciliation sha now rec_uid uuid_text audit_uid audit_ids org_pid act_pid actor
     expected_version correlation_id db =
     bindE (required_action_for_update org_pid act_pid db) (\<lambda>found.
     bindE (reconcile_abandoned sha now audit_ids (scope_action found) db) (\<lambda>db1.
     let a = refresh_action found db1 in
     bindE (requireE (act_version a = expected_version)
              (ActionVersionConflict expected_version (act_version a))) (\<lambda>_.
     bindE (requireE (recovery_status (act_status a)) (ActionConflict
              ''Reconciliation is available only when the target outcome is unknown.'')) (\<lambda>_.
     bindE (required_connection a db1) (\<lambda>c.
     bindE (requireE (cn_adapter_key c \<noteq> ''unconfigured'')
              (ActionExecutionBlocked BL_CONNECTION_UNAVAILABLE
                 ''Configure this connection before checking the target.'')) (\<lambda>_.
     bindE (requireE (case latest_attempt a db1 of None \<Rightarrow> False
                      | Some t \<Rightarrow> att_outcome t = AO_UNKNOWN) (ActionConflict
              ''No unknown execution attempt is available to reconcile.'')) (\<lambda>_.
     bindE (requireE (running_reconciliation a db1 = None)
              (ActionConflict ''A reconciliation check is already running.'')) (\<lambda>_.
     bindE (active_member (act_organization_id a) actor db1) (\<lambda>member.
     let r = new_reconciliation rec_uid
               (stable_public_id sha ''RC'' [act_public_id a, int_str (act_version a), uuid_text])
               a member RO_RUNNING
               ''The target is being checked without issuing another write.'' now;
         a' = a\<lparr>act_version := act_version a + 1, act_updated_at := now\<rparr>
     in
     bindE (insert_reconciliation r (put_action a' db1)) (\<lambda>db2.
     bindE (add_action_audit audit_uid a' ''case.action_reconciliation_started'' ''member''
              (mem_public_id member) ''A read-only target reconciliation was started.''
              (JObj [(''reconciliation_id'', JStr (rec_public_id r))]) correlation_id now db2)
       (\<lambda>db3.
     bindE (someE (row_get org_id (act_organization_id a') (organizations db3))
              (ActionConflict ''The action organization is missing.'')) (\<lambda>organization.
     Inr (\<lparr>rl_action_id = act_id a', rl_action_public_id = act_public_id a',
           rl_action_version = act_version a', rl_reconciliation_id = rec_id r,
           rl_organization_public_id = org_public_id organization,
           rl_action_type = act_type a', rl_target = act_target a',
           rl_parameters = act_typed_parameters a',
           rl_idempotency_key = act_idempotency_key a',
           rl_external_reference = map_option rcp_external_reference (receipt_of a' db3),
           rl_adapter_key = cn_adapter_key c, rl_provider_type = cn_provider_type c\<rparr>,
          db3)))))))))))))"

text \<open>The three ways a lookup closes a reconciliation, before the common tail.\<close>

definition settle_reconciliation ::
    "(string \<Rightarrow> string) \<Rightarrow> timestamp \<Rightarrow> uuid \<Rightarrow> lookup_result \<Rightarrow> case_action \<Rightarrow> action_attempt
     \<Rightarrow> action_reconciliation \<Rightarrow> database
     \<Rightarrow> error + case_action \<times> action_reconciliation \<times> database" where
  "settle_reconciliation sha now receipt_uid result a t r db =
     (case reconciliation_outcome_for_lookup (lr_found result) (lr_absence_is_terminal result) of
        RO_CONFIRMED_COMPLETED \<Rightarrow>
          bindE (someE (lr_receipt result) (ActionConflict
                   ''The target reported a change without an attributable receipt.'')) (\<lambda>receipt.
          bindE (record_receipt sha receipt_uid a t receipt now db) (\<lambda>(stored, db1).
          let a' = a\<lparr>act_status := AS_COMPLETED, act_observed_outcome := Some (lr_detail result)\<rparr>
          in bindE (advance_case_after_completion a' now db1) (\<lambda>db2.
             Inr (a', r\<lparr>rec_outcome := RO_CONFIRMED_COMPLETED,
                        rec_external_reference := Some (rcp_external_reference stored)\<rparr>, db2))))
      | RO_CONFIRMED_ABSENT \<Rightarrow>
          Inr (a\<lparr>act_status := AS_FAILED_SAFE, act_observed_outcome := Some (lr_detail result)\<rparr>,
               r\<lparr>rec_outcome := RO_CONFIRMED_ABSENT\<rparr>, db)
      | _ \<Rightarrow>
          Inr (a\<lparr>act_status := AS_OUTCOME_UNKNOWN, act_observed_outcome := Some (lr_detail result)\<rparr>,
               r\<lparr>rec_outcome := RO_STILL_UNKNOWN\<rparr>, db))"

definition finish_reconciliation ::
    "(string \<Rightarrow> string) \<Rightarrow> timestamp \<Rightarrow> uuid \<Rightarrow> uuid \<Rightarrow> reconciliation_lease \<Rightarrow> lookup_result \<Rightarrow> string
     \<Rightarrow> database \<Rightarrow> error + queue_item \<times> database" where
  "finish_reconciliation sha now receipt_uid audit_uid lease result correlation_id db =
     (case (row_get act_id (rl_action_id lease) (actions db),
            find (\<lambda>r. rec_id r = rl_reconciliation_id lease \<and> rec_action_id r = rl_action_id lease)
              (reconciliations db)) of
        (Some a, Some r) \<Rightarrow>
          (if rec_outcome r \<noteq> RO_RUNNING
           then bindE (queue_item_of a now db) (\<lambda>item. Inr (item, db))
           else
           bindE (someE (latest_attempt a db) (ActionConflict ''The action attempt is missing.''))
             (\<lambda>t.
           bindE (settle_reconciliation sha now receipt_uid result a t r db) (\<lambda>(a1, r1, db1).
           let r' = r1\<lparr>rec_detail := lr_detail result, rec_checked_at := now\<rparr>;
               a' = a1\<lparr>act_version := act_version a1 + 1, act_updated_at := now\<rparr>
           in
           bindE (add_action_audit audit_uid a' ''case.action_reconciled'' ''member''
                    (rec_actor_public_id r')
                    ''The target was checked without issuing another write.''
                    (JObj [(''reconciliation_id'', JStr (rec_public_id r')),
                           (''outcome'', JStr (reconciliation_outcome_value (rec_outcome r'))),
                           (''external_reference'', json_opt JStr (rec_external_reference r'))])
                    correlation_id now (put_action a' (put_reconciliation r' db1))) (\<lambda>db2.
           bindE (queue_item_of a' now db2) (\<lambda>item. Inr (item, db2))))))
      | _ \<Rightarrow> Inl (ActionNotFound ''The reconciliation lease was not found.''))"

definition manual_action ::
    "timestamp \<Rightarrow> manual_action_outcome \<Rightarrow> string \<Rightarrow> case_action \<Rightarrow> case_action" where
  "manual_action now outcome reason a =
     a\<lparr>act_status := (if outcome = MO_COMPLETED then AS_COMPLETED else AS_OUTCOME_UNKNOWN),
       act_observed_outcome := Some reason,
       act_version := act_version a + 1, act_updated_at := now\<rparr>"

definition record_manual_outcome ::
    "(string \<Rightarrow> string) \<Rightarrow> timestamp \<Rightarrow> uuid \<Rightarrow> uuid \<Rightarrow> string \<Rightarrow> string \<Rightarrow> string \<Rightarrow> int
     \<Rightarrow> manual_action_outcome \<Rightarrow> string \<Rightarrow> string \<Rightarrow> database \<Rightarrow> error + queue_item \<times> database" where
  "record_manual_outcome sha now rec_uid audit_uid org_pid act_pid actor expected_version outcome
     reason correlation_id db =
     bindE (required_action_for_update org_pid act_pid db) (\<lambda>a.
     bindE (requireE (act_version a = expected_version)
              (ActionVersionConflict expected_version (act_version a))) (\<lambda>_.
     bindE (requireE (recovery_status (act_status a)) (ActionConflict
              ''A manual outcome can only resolve an unknown target result.'')) (\<lambda>_.
     bindE (requireE (case latest_attempt a db of None \<Rightarrow> False
                      | Some t \<Rightarrow> att_outcome t = AO_UNKNOWN) (ActionConflict
              ''This recovery item does not have an unknown target outcome to resolve.'')) (\<lambda>_.
     bindE (active_member (act_organization_id a) actor db) (\<lambda>member.
     let r = new_reconciliation rec_uid
               (stable_public_id sha ''RC''
                  [act_public_id a, ''manual'', int_str (act_version a)])
               a member (reconciliation_outcome_for_manual_record outcome) reason now;
         a' = manual_action now outcome reason a;
         db1 = put_action a' db
     in
     bindE (if outcome = MO_COMPLETED then advance_case_after_completion a' now db1 else Inr db1)
       (\<lambda>db2.
     bindE (insert_reconciliation r db2) (\<lambda>db3.
     bindE (add_action_audit audit_uid a' ''case.action_manual_outcome_recorded'' ''member''
              (mem_public_id member) ''A human-verified target outcome was recorded.''
              (JObj [(''reconciliation_id'', JStr (rec_public_id r)),
                     (''outcome'', JStr (manual_outcome_value outcome)),
                     (''reason'', JStr reason)])
              correlation_id now db3) (\<lambda>db4.
     bindE (queue_item_of a' now db4) (\<lambda>item. Inr (item, db4))))))))))"

definition escalated_action :: "timestamp \<Rightarrow> membership \<Rightarrow> string \<Rightarrow> case_action \<Rightarrow> case_action" where
  "escalated_action now member reason a =
     a\<lparr>act_status := AS_RECOVERY_REQUIRED, act_observed_outcome := Some reason,
       act_owner_id := Some (mem_id member),
       act_owner_public_id := Some (mem_public_id member),
       act_owner_name := Some (mem_name member),
       act_version := act_version a + 1, act_updated_at := now\<rparr>"

definition escalate ::
    "timestamp \<Rightarrow> uuid \<Rightarrow> string \<Rightarrow> string \<Rightarrow> string \<Rightarrow> int \<Rightarrow> string \<Rightarrow> string \<Rightarrow> database
     \<Rightarrow> error + queue_item \<times> database" where
  "escalate now audit_uid org_pid act_pid actor expected_version reason correlation_id db =
     bindE (required_action_for_update org_pid act_pid db) (\<lambda>a.
     bindE (requireE (act_version a = expected_version)
              (ActionVersionConflict expected_version (act_version a))) (\<lambda>_.
     bindE (requireE (act_status a \<in> {AS_FAILED_SAFE, AS_OUTCOME_UNKNOWN, AS_RECOVERY_REQUIRED})
              (ActionConflict
                 ''Only failed or uncertain actions can be escalated for recovery.'')) (\<lambda>_.
     bindE (active_member (act_organization_id a) actor db) (\<lambda>member.
     let a' = escalated_action now member reason a
     in
     bindE (add_action_audit audit_uid a' ''case.action_recovery_escalated'' ''member''
              (mem_public_id member) ''The action was escalated for manual recovery.''
              (JObj [(''reason'', JStr reason)]) correlation_id now (put_action a' db)) (\<lambda>db1.
     bindE (queue_item_of a' now db1) (\<lambda>item. Inr (item, db1)))))))"

section \<open>Queries\<close>

definition action_get ::
    "(string \<Rightarrow> string) \<Rightarrow> timestamp \<Rightarrow> timestamp \<Rightarrow> (uuid \<Rightarrow> uuid) \<Rightarrow> string \<Rightarrow> string \<Rightarrow> database
     \<Rightarrow> error + queue_item option \<times> database" where
  "action_get sha now now2 audit_ids org_pid act_pid db =
     (case scoped_action org_pid act_pid db of
        None \<Rightarrow> Inr (None, db)
      | Some found \<Rightarrow>
          bindE (reconcile_abandoned sha now audit_ids (scope_action found) db) (\<lambda>db1.
          bindE (queue_item_of (refresh_action found db1) now2 db1) (\<lambda>item.
          Inr (Some item, db1))))"

end
