(* ===== verification/Materialization.thy ===== *)
theory Materialization
  imports Actions_Exec
begin

text \<open>
  How approved decisions become actions: \<open>materialize_approved_review\<close> of
  \<open>persistence/actions/materialization.py\<close> with the choice of the target connection from
  \<open>persistence/connection_repository.py\<close>. The keys and the second clock reading one round of
  the loop draws are a function of the proposed action of that round.
\<close>

section \<open>Choosing a connection\<close>

definition provider_by_action :: "string \<Rightarrow> string" where
  "provider_by_action action_type =
     (if action_type = ''reverse_duplicate_charge'' then ''billing''
      else if action_type = ''issue_refund'' then ''billing''
      else if action_type = ''start_verified_recovery'' then ''identity''
      else if action_type = ''apply_service_correction'' then ''service_operations''
      else ''general_operations'')"

definition provider_label :: "string \<Rightarrow> string" where
  "provider_label provider_type =
     (if provider_type = ''billing'' then ''Billing operations''
      else if provider_type = ''identity'' then ''Identity operations''
      else if provider_type = ''service_operations'' then ''Service operations''
      else ''General operations'')"

definition put_connection :: "connection \<Rightarrow> database \<Rightarrow> database" where
  "put_connection c db = db\<lparr>connections := row_put cn_id c (connections db)\<rparr>"

definition ensure_unconfigured_connection ::
    "(string \<Rightarrow> string) \<Rightarrow> timestamp \<Rightarrow> uuid \<Rightarrow> uuid \<Rightarrow> string \<Rightarrow> string \<Rightarrow> database
     \<Rightarrow> error + connection \<times> database" where
  "ensure_unconfigured_connection sha now uid organization_id org_pid action_type db =
     (let provider_type = provider_by_action action_type;
          public_id = stable_public_id sha ''CN'' [org_pid, provider_type, ''unconfigured'']
      in case find (\<lambda>c. cn_organization_id c = organization_id \<and> cn_public_id c = public_id)
                (connections db) of
        Some existing \<Rightarrow>
          (if action_type \<in> set (cn_action_types existing) then Inr (existing, db)
           else let c = existing\<lparr>cn_action_types :=
                          sort (remdups (action_type # cn_action_types existing)),
                          cn_updated_at := now\<rparr>
                in Inr (c, put_connection c db))
      | None \<Rightarrow>
          (let c = \<lparr>cn_id = uid, cn_public_id = public_id, cn_organization_id = organization_id,
                    cn_name = provider_label provider_type @ '' (not configured)'',
                    cn_provider_type = provider_type, cn_adapter_key = ''unconfigured'',
                    cn_environment = DEMO, cn_health = NOT_CONFIGURED,
                    cn_last_checked_at = None, cn_credential_status = CRED_MISSING,
                    cn_read_capabilities = [], cn_write_capabilities = [],
                    cn_action_types = [action_type], cn_affected_work = [],
                    cn_runtime_config_fingerprint = None, cn_version = 1,
                    cn_created_at = now, cn_updated_at = now\<rparr>
           in bindE (insert_connection c db) (\<lambda>db1. Inr (c, db1))))"

text \<open>\<open>sorted(...)[0]\<close> by health, environment and public id: three stable sorts, last key first.\<close>

definition rank_connections :: "connection list \<Rightarrow> connection list" where
  "rank_connections cs = sort_key cn_health (sort_key cn_environment (sort_key cn_public_id cs))"

definition resolve_for_action ::
    "(string \<Rightarrow> string) \<Rightarrow> timestamp \<Rightarrow> uuid \<Rightarrow> uuid \<Rightarrow> string \<Rightarrow> string \<Rightarrow> database
     \<Rightarrow> error + connection \<times> database" where
  "resolve_for_action sha now uid organization_id org_pid action_type db =
     (case rank_connections
             (filter (\<lambda>c. cn_organization_id c = organization_id
                        \<and> action_type \<in> set (cn_action_types c)) (connections db)) of
        c # _ \<Rightarrow> Inr (c, db)
      | [] \<Rightarrow> ensure_unconfigured_connection sha now uid organization_id org_pid action_type db)"

section \<open>Materialization\<close>

record materialize_ids =
  mi_action :: uuid
  mi_audit :: uuid
  mi_connection :: uuid
  mi_connection_now :: timestamp

record approval =
  ap_review :: case_review
  ap_snapshot :: review_snapshot
  ap_decision :: review_decision_row
  ap_case :: case_row
  ap_proposal :: case_proposal
  ap_version :: proposal_version

definition approved_lineage :: "string \<Rightarrow> string \<Rightarrow> database \<Rightarrow> error + approval" where
  "approved_lineage org_pid review_pid db =
     bindE (someE (find (\<lambda>r. rv_public_id r = review_pid
                       \<and> list_ex (\<lambda>g. org_id g = rv_organization_id r \<and> org_public_id g = org_pid)
                           (organizations db)) (reviews db))
              (ActionNotFound ''The approved review was not found.'')) (\<lambda>review.
     bindE (requireE (rv_status review = RS_APPROVED)
              (ActionConflict ''Actions can only be created from an approved review.'')) (\<lambda>_.
     bindE (required_review_snapshot review db) (\<lambda>snapshot.
     case (find (\<lambda>d. rvd_organization_id d = rv_organization_id review
                   \<and> rvd_case_id d = rv_case_id review \<and> rvd_review_id d = rv_id review
                   \<and> rvd_decision d = RD_APPROVE) (review_decisions db),
           row_get cs_id (rv_case_id review) (cases db),
           row_get prop_id (rv_proposal_id review) (proposals db),
           row_get pv_id (rv_proposal_version_id review) (proposal_versions db)) of
       (Some decision, Some c, Some proposal, Some version) \<Rightarrow>
         bindE (requireE (rvd_snapshot_fingerprint decision = rs_snapshot_fingerprint snapshot)
                  (ActionConflict
                     ''The approval decision does not match the immutable review snapshot.''))
           (\<lambda>_. Inr \<lparr>ap_review = review, ap_snapshot = snapshot, ap_decision = decision,
                     ap_case = c, ap_proposal = proposal, ap_version = version\<rparr>)
     | _ \<Rightarrow> Inl (ActionConflict
               ''The approved review lineage is incomplete; no action was created.''))))"

definition reviewed_actions :: "case_review \<Rightarrow> database \<Rightarrow> proposed_action list" where
  "reviewed_actions r db =
     sort_key pa_created_at (sort_key pa_public_id
       (filter (\<lambda>p. pa_organization_id p = rv_organization_id r \<and> pa_case_id p = rv_case_id r
                  \<and> pa_proposal_id p = rv_proposal_id r
                  \<and> pa_proposal_version_id p = rv_proposal_version_id r \<and> pa_review_required p)
         (proposed_actions db)))"

definition new_action ::
    "(string \<Rightarrow> string) \<Rightarrow> timestamp \<Rightarrow> uuid \<Rightarrow> string \<Rightarrow> approval \<Rightarrow> membership option \<Rightarrow> connection
     \<Rightarrow> proposed_action \<Rightarrow> case_action" where
  "new_action sha now uid org_pid ap owner c p =
     (let review = ap_review ap; snapshot = ap_snapshot ap; version = ap_version ap;
          eligible = (rs_execution_eligible snapshot
            \<and> pv_legacy_proposal_version_id version = None
            \<and> cs_version (ap_case ap) = rs_case_version snapshot
            \<and> prop_current_version (ap_proposal ap) = rs_proposal_version snapshot
            \<and> prop_state (ap_proposal ap) = DP_APPROVED)
      in
      \<lparr>act_id = uid,
       act_public_id = stable_public_id sha ''AC''
         [org_pid, pa_public_id p, rs_snapshot_fingerprint snapshot],
       act_organization_id = rv_organization_id review, act_case_id = rv_case_id review,
       act_proposal_id = rv_proposal_id review,
       act_proposal_version_id = rv_proposal_version_id review,
       act_proposed_action_id = pa_id p, act_review_id = rv_id review,
       act_review_snapshot_id = rs_id snapshot, act_review_decision_id = rvd_id (ap_decision ap),
       act_connection_id = cn_id c,
       act_legacy_proposal_version_id = pv_legacy_proposal_version_id version,
       act_type = pa_type p, act_label = pa_label p, act_target = action_target p (ap_case ap),
       act_typed_parameters = pa_parameters p, act_impact_amount = pa_impact_amount p,
       act_impact_currency = pa_impact_currency p, act_expected_outcome = pa_expected_outcome p,
       act_observed_outcome = None, act_status = AS_READY,
       act_execution_blocker = materialization_blocker eligible c now,
       act_execution_eligible = eligible,
       act_idempotency_key = hash_json sha
         (JObj [(''organization'', JStr org_pid), (''proposed_action'', JStr (pa_public_id p)),
                (''review_snapshot'', JStr (rs_snapshot_fingerprint snapshot))]),
       act_authorization_expires_at =
         rvd_decided_at (ap_decision ap) + hours action_authorization_hours,
       act_owner_id = map_option mem_id owner,
       act_owner_public_id = map_option mem_public_id owner,
       act_owner_name = map_option mem_name owner, act_attempt_count = 0, act_version = 1,
       act_created_at = now, act_updated_at = now\<rparr>)"

definition existing_action ::
    "case_review \<Rightarrow> proposed_action \<Rightarrow> database \<Rightarrow> case_action option" where
  "existing_action r p db =
     find (\<lambda>a. act_organization_id a = rv_organization_id r \<and> act_case_id a = rv_case_id r
             \<and> act_proposed_action_id a = pa_id p) (actions db)"

definition materialize_one ::
    "(string \<Rightarrow> string) \<Rightarrow> timestamp \<Rightarrow> (uuid \<Rightarrow> materialize_ids) \<Rightarrow> string \<Rightarrow> string \<Rightarrow> approval
     \<Rightarrow> membership option \<Rightarrow> proposed_action \<Rightarrow> case_action list \<times> database
     \<Rightarrow> error + case_action list \<times> database" where
  "materialize_one sha now fresh org_pid correlation_id ap owner p state =
     (let (created, db) = state; ids = fresh (pa_id p) in
      case existing_action (ap_review ap) p db of
        Some a \<Rightarrow> Inr (created @ [a], db)
      | None \<Rightarrow>
          bindE (resolve_for_action sha (mi_connection_now ids) (mi_connection ids)
                   (rv_organization_id (ap_review ap)) org_pid (pa_type p) db) (\<lambda>(c, db1).
          let a = new_action sha now (mi_action ids) org_pid ap owner c p in
          bindE (insert_action a db1) (\<lambda>db2.
          bindE (add_action_audit (mi_audit ids) a ''case.action_authorized'' ''member''
                   (rvd_reviewer_public_id (ap_decision ap))
                   ''An approved action was added to the controlled queue.''
                   (JObj [(''case_id'', JStr (cs_public_id (ap_case ap))),
                          (''review_id'', JStr (rv_public_id (ap_review ap))),
                          (''proposal_id'', JStr (prop_public_id (ap_proposal ap))),
                          (''proposal_version'', JInt (pv_version (ap_version ap))),
                          (''action_type'', JStr (act_type a)),
                          (''execution_blocker'',
                           json_opt (JStr \<circ> blocker_value) (act_execution_blocker a)),
                          (''authorization_expires_at'',
                           JStr (isoformat (act_authorization_expires_at a)))])
                   correlation_id now db2) (\<lambda>db3.
          Inr (created @ [a], db3)))))"

definition materialize_approved_review ::
    "(string \<Rightarrow> string) \<Rightarrow> timestamp \<Rightarrow> (uuid \<Rightarrow> materialize_ids) \<Rightarrow> string \<Rightarrow> string \<Rightarrow> string
     \<Rightarrow> database \<Rightarrow> error + action_bundle list \<times> database" where
  "materialize_approved_review sha now fresh org_pid review_pid correlation_id db =
     bindE (approved_lineage org_pid review_pid db) (\<lambda>ap.
     let owner = (case cs_owner_id (ap_case ap) of None \<Rightarrow> None
                  | Some i \<Rightarrow> row_get mem_id i (memberships db))
     in
     bindE (foldE (materialize_one sha now fresh org_pid correlation_id ap owner)
              (reviewed_actions (ap_review ap) db) ([], db)) (\<lambda>(created, db1).
     bindE (mapE (\<lambda>a. load_bundle a db1) created) (\<lambda>bundles. Inr (bundles, db1))))"

end
