(* ===== verification/Action_Service.thy ===== *)
theory Action_Service
  imports Materialization
begin

text \<open>
  \<open>services/action_service.py\<close>: permission checks, the call to the gateway between two
  transactions, and the commands a queue item offers. The gateway is a parameter of the
  service (the constructor's argument): its \<open>execute\<close> and \<open>reconcile\<close> may return, raise a
  gateway error, or fail in any other way (\<open>None\<close>).
\<close>

type_synonym 'g gateway_execute =
  "string \<Rightarrow> string \<Rightarrow> gateway_request \<Rightarrow> 'g \<Rightarrow> (gateway_error + gateway_receipt) option \<times> 'g"

type_synonym 'g gateway_reconcile =
  "string \<Rightarrow> string \<Rightarrow> gateway_request \<Rightarrow> string option \<Rightarrow> 'g \<Rightarrow> lookup_result option"

definition action_query_get ::
    "(string \<Rightarrow> string) \<Rightarrow> timestamp \<Rightarrow> timestamp \<Rightarrow> (uuid \<Rightarrow> uuid) \<Rightarrow> actor_context \<Rightarrow> string
     \<Rightarrow> database \<Rightarrow> error + queue_item \<times> database" where
  "action_query_get sha now now2 audit_ids actor act_pid db =
     bindE (require_permission actor ACTION_READ) (\<lambda>_.
     bindE (action_get sha now now2 audit_ids (actor_organization_id actor) act_pid db)
       (\<lambda>(found, db1).
     bindE (someE found (ActionNotFound ''The action was not found.'')) (\<lambda>item.
     if qi_effective_blocker item = None
        \<and> act_status (ab_action (qi_bundle item)) \<in> {AS_READY, AS_FAILED_SAFE}
        \<and> \<not> can actor ACTION_EXECUTE
     then Inr (item\<lparr>qi_effective_blocker := Some BL_PERMISSION\<rparr>, db1)
     else Inr (item, db1))))"

definition execution_request :: "execution_lease \<Rightarrow> gateway_request" where
  "execution_request l =
     \<lparr>gq_action_id = el_action_public_id l, gq_action_type = el_action_type l,
      gq_target = el_target l, gq_parameters = el_parameters l,
      gq_idempotency_key = el_idempotency_key l\<rparr>"

definition reconciliation_request :: "reconciliation_lease \<Rightarrow> gateway_request" where
  "reconciliation_request l =
     \<lparr>gq_action_id = rl_action_public_id l, gq_action_type = rl_action_type l,
      gq_target = rl_target l, gq_parameters = rl_parameters l,
      gq_idempotency_key = rl_idempotency_key l\<rparr>"

definition unexpected_gateway_failure :: gateway_error where
  "unexpected_gateway_failure =
     \<lparr>ge_message = ''The target stopped responding before the outcome was known.'',
      ge_code = ''unexpected_gateway_failure'', ge_side_effect_state = SE_POSSIBLE,
      ge_retryable = False\<rparr>"

text \<open>The keys and clock readings of one service call.\<close>

record command_ids =
  ci_now :: timestamp
  ci_row :: uuid
  ci_audit :: uuid
  ci_audit_ids :: "uuid \<Rightarrow> uuid"
  ci_uuid_text :: string
  ci_finish_now :: timestamp
  ci_finish_row :: uuid
  ci_finish_audit :: uuid

definition finish_execution ::
    "(string \<Rightarrow> string) \<Rightarrow> command_ids \<Rightarrow> execution_lease
     \<Rightarrow> (gateway_error + gateway_receipt) option \<Rightarrow> string \<Rightarrow> database
     \<Rightarrow> error + queue_item \<times> database" where
  "finish_execution sha ids lease answer correlation_id db =
     (case answer of
        Some (Inr receipt) \<Rightarrow>
          finish_execution_success sha (ci_finish_now ids) (ci_finish_row ids)
            (ci_finish_audit ids) lease receipt correlation_id db
      | Some (Inl e) \<Rightarrow>
          finish_execution_error sha (ci_finish_now ids) (ci_finish_audit ids) lease e
            correlation_id db
      | None \<Rightarrow>
          finish_execution_error sha (ci_finish_now ids) (ci_finish_audit ids) lease
            unexpected_gateway_failure correlation_id db)"

text \<open>
  One call of \<open>execute\<close> or \<open>retry_safe\<close>: two transactions with the gateway call between them. The
  first one commits before the gateway is called, and until the second one begins other sessions may
  commit anything: \<open>between\<close> is the database the second transaction finds, as a function of the one
  the first transaction left, and \<open>g\<close> is the state of the target when the call reaches it. When the
  second transaction raises, its changes are rolled back but the lease, the other commits and the
  gateway's state stay. The result is the outcome of the call with the database and the gateway it
  leaves.
\<close>

definition service_execute ::
    "(string \<Rightarrow> string) \<Rightarrow> 'g gateway_execute \<Rightarrow> command_ids \<Rightarrow> actor_context \<Rightarrow> string \<Rightarrow> int
     \<Rightarrow> action_command \<Rightarrow> string \<Rightarrow> (database \<Rightarrow> database) \<Rightarrow> database \<Rightarrow> 'g
     \<Rightarrow> (error + queue_item) \<times> database \<times> 'g" where
  "service_execute sha gw ids actor act_pid expected_version command correlation_id between db g =
     (case bindE (require_permission actor ACTION_EXECUTE) (\<lambda>_.
             prepare_execution sha (ci_now ids) (ci_row ids) (ci_audit ids) (ci_audit_ids ids)
               (actor_organization_id actor) act_pid (actor_id actor) expected_version command
               correlation_id db) of
        Inl e \<Rightarrow> (Inl e, db, g)
      | Inr (lease, db1) \<Rightarrow>
          (case gw (el_adapter_key lease) (el_provider_type lease) (execution_request lease) g of
             (answer, g1) \<Rightarrow>
               (case finish_execution sha ids lease answer correlation_id (between db1) of
                  Inl e \<Rightarrow> (Inl e, between db1, g1)
                | Inr (item, db2) \<Rightarrow> (Inr item, db2, g1))))"

definition uncheckable_lookup :: lookup_result where
  "uncheckable_lookup = unknown_lookup
     ''The target could not be checked. The outcome remains unknown and retry is still blocked.''"

text \<open>A check of the target is built the same way, with the lookup between its two transactions.\<close>

definition service_reconcile ::
    "(string \<Rightarrow> string) \<Rightarrow> 'g gateway_reconcile \<Rightarrow> command_ids \<Rightarrow> actor_context \<Rightarrow> string \<Rightarrow> int
     \<Rightarrow> string \<Rightarrow> (database \<Rightarrow> database) \<Rightarrow> database \<Rightarrow> 'g \<Rightarrow> (error + queue_item) \<times> database" where
  "service_reconcile sha gw ids actor act_pid expected_version correlation_id between db g =
     (case bindE (require_permission actor ACTION_RECONCILE) (\<lambda>_.
             prepare_reconciliation sha (ci_now ids) (ci_row ids) (ci_uuid_text ids)
               (ci_audit ids) (ci_audit_ids ids) (actor_organization_id actor) act_pid
               (actor_id actor) expected_version correlation_id db) of
        Inl e \<Rightarrow> (Inl e, db)
      | Inr (lease, db1) \<Rightarrow>
          (let result = (case gw (rl_adapter_key lease) (rl_provider_type lease)
                                (reconciliation_request lease) (rl_external_reference lease) g of
                           None \<Rightarrow> uncheckable_lookup | Some l \<Rightarrow> l)
           in case finish_reconciliation sha (ci_finish_now ids) (ci_finish_row ids)
                     (ci_finish_audit ids) lease result correlation_id (between db1) of
                Inl e \<Rightarrow> (Inl e, between db1)
              | Inr (item, db2) \<Rightarrow> (Inr item, db2)))"

definition service_record_manual_outcome ::
    "(string \<Rightarrow> string) \<Rightarrow> command_ids \<Rightarrow> actor_context \<Rightarrow> string \<Rightarrow> int \<Rightarrow> manual_action_outcome
     \<Rightarrow> string \<Rightarrow> string \<Rightarrow> database \<Rightarrow> error + queue_item \<times> database" where
  "service_record_manual_outcome sha ids actor act_pid expected_version outcome reason
     correlation_id db =
     bindE (require_permission actor ACTION_RECONCILE) (\<lambda>_.
     record_manual_outcome sha (ci_now ids) (ci_row ids) (ci_audit ids)
       (actor_organization_id actor) act_pid (actor_id actor) expected_version outcome reason
       correlation_id db)"

definition service_escalate ::
    "command_ids \<Rightarrow> actor_context \<Rightarrow> string \<Rightarrow> int \<Rightarrow> string \<Rightarrow> string \<Rightarrow> database
     \<Rightarrow> error + queue_item \<times> database" where
  "service_escalate ids actor act_pid expected_version reason correlation_id db =
     bindE (require_permission actor ACTION_RECONCILE) (\<lambda>_.
     escalate (ci_now ids) (ci_audit ids) (actor_organization_id actor) act_pid (actor_id actor)
       expected_version reason correlation_id db)"

definition available_action_commands :: "actor_context \<Rightarrow> queue_item \<Rightarrow> action_command list" where
  "available_action_commands actor item =
     (let a = ab_action (qi_bundle item); status = act_status a;
          latest = (if ab_attempts (qi_bundle item) = [] then None
                    else Some (last (ab_attempts (qi_bundle item))));
          has_unknown_outcome = (status = AS_OUTCOME_UNKNOWN
            \<or> (case latest of None \<Rightarrow> False | Some t \<Rightarrow> att_outcome t = AO_UNKNOWN))
      in
      if act_type a \<in> set retired_action_types then []
      else
        (if can actor ACTION_EXECUTE \<and> qi_effective_blocker item = None
         then (if status = AS_READY then [CMD_EXECUTE]
               else if status = AS_FAILED_SAFE then [CMD_RETRY_SAFE] else [])
         else [])
        @ (if can actor ACTION_RECONCILE
           then (if status = AS_OUTCOME_UNKNOWN
                    \<or> (status = AS_RECOVERY_REQUIRED \<and> has_unknown_outcome)
                 then (if cn_adapter_key (ab_connection (qi_bundle item)) \<noteq> ''unconfigured''
                       then [CMD_RECONCILE] else [])
                      @ [CMD_RECORD_MANUAL_OUTCOME]
                      @ (if status = AS_OUTCOME_UNKNOWN then [CMD_ESCALATE] else [])
                 else if status = AS_FAILED_SAFE then [CMD_ESCALATE] else [])
           else []))"

end
