(* ===== verification/Action_Invariant.thy ===== *)
theory Action_Invariant
  imports Action_Service
begin

text \<open>
  The invariant of the action tables. It speaks about one action at a time: the \<open>slice\<close> of an
  action is its row with the attempts, reconciliations and receipts that name it. Every command
  of the repository changes the slice of at most one action, so that a command keeps the
  invariant as soon as it keeps it on the slice it changes.
\<close>

section \<open>Slices\<close>

definition attempts_at :: "uuid \<Rightarrow> database \<Rightarrow> action_attempt list" where
  "attempts_at i db = filter (\<lambda>t. att_action_id t = i) (attempts db)"

definition reconciliations_at :: "uuid \<Rightarrow> database \<Rightarrow> action_reconciliation list" where
  "reconciliations_at i db = filter (\<lambda>r. rec_action_id r = i) (reconciliations db)"

definition receipts_at :: "uuid \<Rightarrow> database \<Rightarrow> action_receipt list" where
  "receipts_at i db = filter (\<lambda>r. rcp_action_id r = i) (receipts db)"

lemmas slice_defs = attempts_at_def reconciliations_at_def receipts_at_def

definition attempts_ok :: "case_action \<Rightarrow> action_attempt list \<Rightarrow> bool" where
  "attempts_ok a ts \<longleftrightarrow> distinct (map att_number ts)
     \<and> 0 \<le> act_attempt_count a
     \<and> (\<forall>t\<in>set ts. att_organization_id t = act_organization_id a
          \<and> 1 \<le> att_number t \<and> att_number t \<le> act_attempt_count a
          \<and> (att_outcome t = AO_RUNNING \<longrightarrow> att_number t = act_attempt_count a))
     \<and> (0 < act_attempt_count a \<longrightarrow> (\<exists>t\<in>set ts. att_number t = act_attempt_count a))
     \<and> ((\<exists>t\<in>set ts. att_outcome t = AO_RUNNING) \<longleftrightarrow> act_status a = AS_RUNNING)
     \<and> (act_attempt_count a = 0 \<longleftrightarrow> act_status a = AS_READY)"

definition reconciling :: "action_reconciliation list \<Rightarrow> bool" where
  "reconciling rs \<longleftrightarrow> (\<exists>r\<in>set rs. rec_outcome r = RO_RUNNING)"

definition reconciliations_ok :: "case_action \<Rightarrow> action_reconciliation list \<Rightarrow> bool" where
  "reconciliations_ok a rs \<longleftrightarrow> (\<forall>r\<in>set rs. rec_organization_id r = act_organization_id a)
     \<and> length (filter (\<lambda>r. rec_outcome r = RO_RUNNING) rs) \<le> 1
     \<and> (reconciling rs \<longrightarrow>
          act_status a \<in> {AS_OUTCOME_UNKNOWN, AS_RECOVERY_REQUIRED, AS_COMPLETED})"

definition receipts_ok :: "case_action \<Rightarrow> action_reconciliation list \<Rightarrow> action_receipt list \<Rightarrow> bool" where
  "receipts_ok a rs cs \<longleftrightarrow> length cs \<le> 1
     \<and> (\<forall>c\<in>set cs. rcp_organization_id c = act_organization_id a)
     \<and> (cs \<noteq> [] \<longrightarrow> act_status a = AS_COMPLETED \<and> \<not> reconciling rs)"

text \<open>The evidence behind the status \<open>failed_safe\<close>: nothing was changed.\<close>

definition no_change_proof :: "case_action \<Rightarrow> action_attempt list \<Rightarrow> action_reconciliation list \<Rightarrow> bool" where
  "no_change_proof a ts rs \<longleftrightarrow>
     (\<exists>r\<in>set rs. rec_outcome r = RO_CONFIRMED_ABSENT)
     \<or> (\<exists>t\<in>set ts. att_number t = act_attempt_count a \<and> att_outcome t = AO_FAILED_BEFORE_CHANGE
          \<and> att_side_effect_state t \<in> {SE_NOT_ATTEMPTED, SE_NONE})"

definition slice_ok ::
    "case_action \<Rightarrow> action_attempt list \<Rightarrow> action_reconciliation list \<Rightarrow> action_receipt list \<Rightarrow> bool" where
  "slice_ok a ts rs cs \<longleftrightarrow> attempts_ok a ts \<and> reconciliations_ok a rs \<and> receipts_ok a rs cs
     \<and> (act_status a = AS_FAILED_SAFE \<longrightarrow> no_change_proof a ts rs)"

definition action_slice_ok :: "database \<Rightarrow> case_action \<Rightarrow> bool" where
  "action_slice_ok db a \<longleftrightarrow>
     slice_ok a (attempts_at (act_id a) db) (reconciliations_at (act_id a) db)
       (receipts_at (act_id a) db)"

definition action_tables_ok :: "database \<Rightarrow> bool" where
  "action_tables_ok db \<longleftrightarrow> unique_keys act_id (actions db) \<and> unique_keys att_id (attempts db)
     \<and> unique_keys rec_id (reconciliations db)
     \<and> att_action_id ` set (attempts db) \<subseteq> act_id ` set (actions db)
     \<and> rec_action_id ` set (reconciliations db) \<subseteq> act_id ` set (actions db)
     \<and> rcp_action_id ` set (receipts db) \<subseteq> act_id ` set (actions db)"

definition action_inv :: "database \<Rightarrow> bool" where
  "action_inv db \<longleftrightarrow> action_tables_ok db \<and> (\<forall>a\<in>set (actions db). action_slice_ok db a)"

section \<open>Changing one slice\<close>

text \<open>\<open>same_action_tables\<close>: the second database differs only outside the four action tables.\<close>

definition same_action_tables :: "database \<Rightarrow> database \<Rightarrow> bool" where
  "same_action_tables db db' \<longleftrightarrow> actions db' = actions db \<and> attempts db' = attempts db
     \<and> reconciliations db' = reconciliations db \<and> receipts db' = receipts db"

lemma same_action_tables_refl [simp]: "same_action_tables db db"
  by (simp add: same_action_tables_def)

lemma same_action_tables_trans:
  "same_action_tables db1 db2 \<Longrightarrow> same_action_tables db2 db3 \<Longrightarrow> same_action_tables db1 db3"
  by (simp add: same_action_tables_def)

lemma action_inv_same: "same_action_tables db db' \<Longrightarrow> action_inv db' = action_inv db"
  by (simp add: same_action_tables_def action_inv_def action_tables_ok_def action_slice_ok_def
      slice_defs)

text \<open>The slices of the other actions, after a write to one.\<close>

definition only_slice :: "uuid \<Rightarrow> database \<Rightarrow> database \<Rightarrow> bool" where
  "only_slice i db db' \<longleftrightarrow> (\<forall>j. j \<noteq> i \<longrightarrow> attempts_at j db' = attempts_at j db
     \<and> reconciliations_at j db' = reconciliations_at j db \<and> receipts_at j db' = receipts_at j db)"

lemma action_inv_put:
  assumes inv: "action_inv db" and a: "row_get act_id i (actions db) = Some a"
    and acts: "actions db' = row_put act_id a' (actions db)" and id: "act_id a' = i"
    and tables: "action_tables_ok db'" and only: "only_slice i db db'"
    and slice: "action_slice_ok db' a'"
  shows "action_inv db'"
proof -
  have "action_slice_ok db' b" if b: "b \<in> set (actions db')" for b
  proof (cases "act_id b = i")
    case True
    then have "b = a'" using b acts id by (auto simp: set_row_put split: if_splits)
    then show ?thesis using slice by simp
  next
    case False
    then have "b \<in> set (actions db)" using b acts id by (auto simp: set_row_put split: if_splits)
    then have "action_slice_ok db b" using inv by (simp add: action_inv_def)
    then show ?thesis using only False by (simp add: action_slice_ok_def only_slice_def)
  qed
  then show ?thesis using tables by (simp add: action_inv_def)
qed

lemma action_inv_row:
  assumes "action_inv db" and "row_get act_id i (actions db) = Some a"
  shows "slice_ok a (attempts_at i db) (reconciliations_at i db) (receipts_at i db)" and "act_id a = i"
  using assms row_get_Some [OF assms(2)] by (auto simp: action_inv_def action_slice_ok_def)

lemma row_get_key: "row_get key i rows = Some r \<Longrightarrow> i \<in> key ` set rows"
  by (metis option.distinct(1) row_get_None)

lemma row_put_keys: "key ` set (row_put key r rows) = key ` set rows"
  by (metis keys_row_put list.set_map)

section \<open>Helpers that leave the action tables alone\<close>

lemma add_action_audit_Inr:
  "add_action_audit uid a ev aty ac sm d co t db = Inr db' \<Longrightarrow> \<exists>rows. db' = db\<lparr>audit_events := rows\<rparr>"
  by (auto simp: add_action_audit_def insert_audit_def run_simps)

lemma advance_case_Inr:
  "advance_case_after_completion a now db = Inr db' \<Longrightarrow> \<exists>rows. db' = db\<lparr>cases := rows\<rparr>"
proof -
  have keep: "\<exists>rows. db = db\<lparr>cases := rows\<rparr>" by (rule exI [of _ "cases db"]) simp
  assume "advance_case_after_completion a now db = Inr db'"
  then show ?thesis
    using keep by (auto simp: advance_case_after_completion_def put_case_def
        split: option.splits if_splits)
qed

lemma same_tables_audit:
  "add_action_audit uid a ev aty ac sm d co t db = Inr db' \<Longrightarrow> same_action_tables db db'"
  by (auto simp: same_action_tables_def dest: add_action_audit_Inr)

lemma same_tables_advance:
  "advance_case_after_completion a now db = Inr db' \<Longrightarrow> same_action_tables db db'"
  by (auto simp: same_action_tables_def dest: advance_case_Inr)

lemma put_tables [simp]:
  "actions (put_action a db) = row_put act_id a (actions db)"
  "attempts (put_action a db) = attempts db"
  "reconciliations (put_action a db) = reconciliations db"
  "receipts (put_action a db) = receipts db"
  "actions (put_attempt t db) = actions db"
  "attempts (put_attempt t db) = row_put att_id t (attempts db)"
  "reconciliations (put_attempt t db) = reconciliations db"
  "receipts (put_attempt t db) = receipts db"
  "actions (put_reconciliation r db) = actions db"
  "attempts (put_reconciliation r db) = attempts db"
  "reconciliations (put_reconciliation r db) = row_put rec_id r (reconciliations db)"
  "receipts (put_reconciliation r db) = receipts db"
  by (simp_all add: put_action_def put_attempt_def put_reconciliation_def)

text \<open>A write to a row whose owner is \<open>i\<close> stays inside the slice of \<open>i\<close>.\<close>

lemma filter_owner_put:
  assumes "unique_keys key rows" and "r0 \<in> set rows" and "key r = key r0"
    and "owner r0 = i" and "owner r = i"
  shows "filter (\<lambda>x. owner x = j) (row_put key r rows) =
           (if j = i then row_put key r (filter (\<lambda>x. owner x = j) rows)
            else filter (\<lambda>x. owner x = j) rows)"
proof -
  have same: "x = r0" if "x \<in> set rows" "key x = key r" for x
    using that assms(1-3) row_get_unique by (metis option.inject)
  show ?thesis
  proof (cases "j = i")
    case True
    have "filter (\<lambda>x. owner x = j) (row_put key r rows) = row_put key r (filter (\<lambda>x. owner x = j) rows)"
      by (rule filter_row_put_same) (use True same assms(4,5) in auto)
    then show ?thesis using True by simp
  next
    case False
    have "filter (\<lambda>x. owner x = j) (row_put key r rows) = filter (\<lambda>x. owner x = j) rows"
      by (rule filter_row_put_other) (use False same assms(4,5) in auto)
    then show ?thesis using False by simp
  qed
qed

lemma set_put_unique:
  assumes "unique_keys key rows" and "r0 \<in> set rows" and "key r = key r0"
  shows "set (row_put key r rows) = insert r (set rows - {r0})"
proof -
  have "x = r0" if "x \<in> set rows" "key x = key r0" for x
    using that assms(1,2) row_get_unique by (metis option.inject)
  then show ?thesis using assms(2,3) by (auto simp: set_row_put image_iff)
qed

lemma map_put_same:
  assumes "unique_keys key rows" and "r0 \<in> set rows" and "key r = key r0" and "f r = f r0"
  shows "map f (row_put key r rows) = map f rows"
proof -
  have "f x = f r" if "x \<in> set rows" "key x = key r" for x
    using that assms row_get_unique by (metis option.inject)
  then show ?thesis by (auto simp: row_put_def)
qed

lemma unique_keys_filter: "unique_keys key rows \<Longrightarrow> unique_keys key (filter P rows)"
  by (simp add: unique_keys_def distinct_map_filter)

section \<open>Closing the running attempt\<close>

text \<open>
  The common shape of the three ways an attempt ends (receipt, error, abandonment): the attempt
  row gets a final outcome and the action row a status other than \<open>ready\<close> and \<open>running\<close>.
\<close>

definition closes_attempt :: "action_attempt \<Rightarrow> action_attempt \<Rightarrow> bool" where
  "closes_attempt t t' \<longleftrightarrow> att_outcome t = AO_RUNNING \<and> att_outcome t' \<noteq> AO_RUNNING
     \<and> att_id t' = att_id t \<and> att_action_id t' = att_action_id t
     \<and> att_number t' = att_number t \<and> att_organization_id t' = att_organization_id t"

definition same_identity :: "case_action \<Rightarrow> case_action \<Rightarrow> bool" where
  "same_identity a a' \<longleftrightarrow> act_id a' = act_id a \<and> act_organization_id a' = act_organization_id a
     \<and> act_public_id a' = act_public_id a \<and> act_idempotency_key a' = act_idempotency_key a
     \<and> act_case_id a' = act_case_id a \<and> act_proposed_action_id a' = act_proposed_action_id a
     \<and> act_connection_id a' = act_connection_id a \<and> act_review_id a' = act_review_id a
     \<and> act_review_snapshot_id a' = act_review_snapshot_id a
     \<and> act_review_decision_id a' = act_review_decision_id a
     \<and> act_authorization_expires_at a' = act_authorization_expires_at a"

lemma running_unique:
  assumes "attempts_ok a ts" and "x \<in> set ts" and "t \<in> set ts"
    and "att_outcome x = AO_RUNNING" and "att_outcome t = AO_RUNNING"
  shows "x = t"
proof -
  have "att_number x = act_attempt_count a" "att_number t = act_attempt_count a"
    using assms by (auto simp: attempts_ok_def)
  moreover have "inj_on att_number (set ts)" using assms(1) by (simp add: attempts_ok_def distinct_map)
  ultimately show ?thesis using inj_onD assms(2,3) by metis
qed

lemma attempts_ok_close:
  assumes ok: "attempts_ok a ts" and u: "unique_keys att_id ts" and t: "t \<in> set ts"
    and cl: "closes_attempt t t'" and id: "same_identity a a'"
    and n: "act_attempt_count a' = act_attempt_count a"
    and st: "act_status a' \<notin> {AS_READY, AS_RUNNING}"
  shows "attempts_ok a' (row_put att_id t' ts)"
proof -
  have s: "set (row_put att_id t' ts) = insert t' (set ts - {t})"
    using u t cl by (intro set_put_unique) (auto simp: closes_attempt_def)
  have m: "map att_number (row_put att_id t' ts) = map att_number ts"
    using u t cl by (intro map_put_same [where ?r0.0 = t]) (auto simp: closes_attempt_def)
  have num: "att_number t = act_attempt_count a" using ok t cl
    by (auto simp: attempts_ok_def closes_attempt_def)
  have "x = t" if "x \<in> set ts" "att_outcome x = AO_RUNNING" for x
    using running_unique [OF ok that(1) t that(2)] cl by (simp add: closes_attempt_def)
  then have none: "att_outcome x \<noteq> AO_RUNNING" if "x \<in> set ts - {t}" for x using that by auto
  have "act_attempt_count a \<noteq> 0" using ok t by (force simp: attempts_ok_def)
  then show ?thesis
    using ok num none cl id n st t
    by (auto simp: attempts_ok_def s m same_identity_def closes_attempt_def)
qed

lemma running_slice:
  assumes "slice_ok a ts rs cs" and "t \<in> set ts" and "att_outcome t = AO_RUNNING"
  shows "act_status a = AS_RUNNING" and "\<not> reconciling rs" and "cs = []"
  using assms by (auto simp: slice_ok_def attempts_ok_def reconciliations_ok_def receipts_ok_def)

lemma reconciliations_ok_idle:
  "reconciliations_ok a rs \<Longrightarrow> \<not> reconciling rs \<Longrightarrow> same_identity a a' \<Longrightarrow> reconciliations_ok a' rs"
  by (simp add: reconciliations_ok_def same_identity_def)

text \<open>\<open>new_receipts i db db'\<close>: the receipts gained at most one row, for the action \<open>i\<close>.\<close>

definition new_receipts :: "case_action \<Rightarrow> database \<Rightarrow> database \<Rightarrow> bool" where
  "new_receipts a db db' \<longleftrightarrow> receipts db' = receipts db
     \<or> (\<exists>c. receipts db' = receipts db @ [c] \<and> rcp_action_id c = act_id a
          \<and> rcp_organization_id c = act_organization_id a)"

lemma new_receipts_at:
  assumes "new_receipts a db db'"
  shows "j \<noteq> act_id a \<Longrightarrow> receipts_at j db' = receipts_at j db"
    and "receipts_at (act_id a) db = [] \<Longrightarrow> length (receipts_at (act_id a) db') \<le> 1"
    and "rcp_action_id ` set (receipts db') \<subseteq> insert (act_id a) (rcp_action_id ` set (receipts db))"
    and "receipts_at (act_id a) db = [] \<Longrightarrow> c \<in> set (receipts_at (act_id a) db')
      \<Longrightarrow> rcp_organization_id c = act_organization_id a"
  using assms by (auto simp: new_receipts_def receipts_at_def filter_empty_conv)

lemma action_inv_close:
  assumes inv: "action_inv db" and a: "row_get act_id i (actions db) = Some a"
    and t: "t \<in> set (attempts db)" and own: "att_action_id t = i" and cl: "closes_attempt t t'"
    and acts: "actions db' = row_put act_id a' (actions db)"
    and atts: "attempts db' = row_put att_id t' (attempts db)"
    and recs: "reconciliations db' = reconciliations db"
    and rcps: "new_receipts a db db'" and got: "receipts db' \<noteq> receipts db \<Longrightarrow> act_status a' = AS_COMPLETED"
    and id: "same_identity a a'" and n: "act_attempt_count a' = act_attempt_count a"
    and st: "act_status a' \<notin> {AS_READY, AS_RUNNING}"
    and safe: "act_status a' = AS_FAILED_SAFE \<Longrightarrow> att_outcome t' = AO_FAILED_BEFORE_CHANGE
      \<and> att_side_effect_state t' \<in> {SE_NOT_ATTEMPTED, SE_NONE}"
  shows "action_inv db'"
proof (rule action_inv_put [OF inv a acts])
  have slice: "slice_ok a (attempts_at i db) (reconciliations_at i db) (receipts_at i db)"
    and ai: "act_id a = i" using action_inv_row [OF inv a] by auto
  have tin: "t \<in> set (attempts_at i db)" using t own by (simp add: attempts_at_def)
  have u: "unique_keys att_id (attempts db)" and u': "unique_keys att_id (attempts_at i db)"
    using inv by (auto simp: action_inv_def action_tables_ok_def attempts_at_def unique_keys_filter)
  have at': "attempts_at j db' = (if j = i then row_put att_id t' (attempts_at j db) else attempts_at j db)" for j
    unfolding attempts_at_def atts
    by (rule filter_owner_put [OF u t]) (use cl own in \<open>auto simp: closes_attempt_def\<close>)
  note run = running_slice [OF slice tin]
  have idle: "\<not> reconciling (reconciliations_at i db)" and nocs: "receipts_at i db = []"
    using run cl by (auto simp: closes_attempt_def)
  have rec': "reconciliations_at j db' = reconciliations_at j db" for j
    using recs by (simp add: reconciliations_at_def)
  show "act_id a' = i" using id ai by (simp add: same_identity_def)
  show "only_slice i db db'"
    using at' rec' new_receipts_at(1) [OF rcps] ai by (simp add: only_slice_def)
  have keys: "act_id ` set (actions db') = act_id ` set (actions db)"
    using acts by (simp add: row_put_keys)
  have own': "att_action_id ` set (attempts db') = att_action_id ` set (attempts db)"
    using map_put_same [OF u t, of t' att_action_id] cl unfolding atts
    by (metis closes_attempt_def list.set_map)
  have iin: "i \<in> act_id ` set (actions db)" by (rule row_get_key [OF a])
  have old: "action_tables_ok db" using inv by (simp add: action_inv_def)
  then have "rcp_action_id ` set (receipts db') \<subseteq> act_id ` set (actions db')"
    using order_trans [OF new_receipts_at(3) [OF rcps]] iin ai keys
    by (simp add: action_tables_ok_def)
  then show "action_tables_ok db'"
    using old acts atts recs keys own' by (simp add: action_tables_ok_def)
  have att_ok: "attempts_ok a' (attempts_at i db')"
    using attempts_ok_close [OF _ u' tin cl id n st] slice at' by (simp add: slice_ok_def)
  have rec_ok: "reconciliations_ok a' (reconciliations_at i db')"
    using slice idle id unfolding rec' slice_ok_def by (auto intro: reconciliations_ok_idle)
  have rcp_ok: "receipts_ok a' (reconciliations_at i db') (receipts_at i db')"
  proof -
    have "receipts db' \<noteq> receipts db" if "receipts_at i db' \<noteq> []"
      using that nocs by (auto simp: receipts_at_def)
    then show ?thesis
      using new_receipts_at(2,4) [OF rcps] nocs ai idle rec' id got
      by (auto simp: receipts_ok_def same_identity_def)
  qed
  have "no_change_proof a' (attempts_at i db') (reconciliations_at i db')"
    if "act_status a' = AS_FAILED_SAFE"
  proof -
    have "att_number t = act_attempt_count a"
      using slice tin cl by (auto simp: slice_ok_def attempts_ok_def closes_attempt_def)
    moreover have "t' \<in> set (attempts_at i db')"
      using at' set_put_unique [OF u' tin] cl by (simp add: closes_attempt_def)
    ultimately show ?thesis using safe [OF that] cl n
      by (auto simp: no_change_proof_def closes_attempt_def)
  qed
  then show "action_slice_ok db' a'"
    using att_ok rec_ok rcp_ok id ai by (simp add: action_slice_ok_def slice_ok_def same_identity_def)
qed

section \<open>Histories only grow\<close>

text \<open>
  Along every command an action keeps its identity (keys, scope, idempotency key, connection,
  approval),
  its version never goes back, and a receipt once recorded stays.
\<close>

definition action_evolves :: "database \<Rightarrow> database \<Rightarrow> bool" where
  "action_evolves db db' \<longleftrightarrow>
     (\<forall>i a. row_get act_id i (actions db) = Some a \<longrightarrow>
        (\<exists>a'. row_get act_id i (actions db') = Some a' \<and> same_identity a a'
           \<and> act_version a \<le> act_version a'))
     \<and> set (receipts db) \<subseteq> set (receipts db')"

lemma same_identity_refl [simp]: "same_identity a a"
  by (simp add: same_identity_def)

lemma same_identity_trans: "same_identity a b \<Longrightarrow> same_identity b c \<Longrightarrow> same_identity a c"
  by (simp add: same_identity_def)

lemma action_evolves_same: "same_action_tables db db' \<Longrightarrow> action_evolves db db'"
  by (simp add: action_evolves_def same_action_tables_def)

lemma action_evolves_trans:
  assumes "action_evolves db1 db2" and "action_evolves db2 db3"
  shows "action_evolves db1 db3"
proof -
  have "\<exists>c. row_get act_id i (actions db3) = Some c \<and> same_identity a c \<and> act_version a \<le> act_version c"
    if a: "row_get act_id i (actions db1) = Some a" for i a
  proof -
    obtain b where b: "row_get act_id i (actions db2) = Some b" "same_identity a b"
      "act_version a \<le> act_version b"
      using a assms(1) unfolding action_evolves_def by blast
    obtain c where "row_get act_id i (actions db3) = Some c" "same_identity b c"
      "act_version b \<le> act_version c"
      using b(1) assms(2) unfolding action_evolves_def by blast
    then show ?thesis using b same_identity_trans by (meson order_trans)
  qed
  then show ?thesis using assms unfolding action_evolves_def by blast
qed

lemma action_evolves_put:
  assumes "row_get act_id i (actions db) = Some a" and "same_identity a a'"
    and "act_version a \<le> act_version a'" and "actions db' = row_put act_id a' (actions db)"
    and "set (receipts db) \<subseteq> set (receipts db')"
  shows "action_evolves db db'"
proof -
  have "act_id a' = i" using assms(1,2) row_get_Some by (fastforce simp: same_identity_def)
  then show ?thesis
    using assms by (auto simp: action_evolves_def row_get_put)
qed

section \<open>Abandoned attempts\<close>

definition attempt_owner :: "action_attempt \<Rightarrow> uuid \<times> uuid" where
  "attempt_owner t = (att_id t, att_action_id t)"

lemma attempt_owner_unique:
  assumes "unique_keys att_id rows" and "(i, j) \<in> attempt_owner ` set rows"
    and "t \<in> set rows" and "att_id t = i"
  shows "att_action_id t = j"
proof -
  obtain u where u: "u \<in> set rows" "att_id u = i" "att_action_id u = j"
    using assms(2) by (auto simp: attempt_owner_def)
  then have "u = t" using assms row_get_unique by (metis option.inject)
  then show ?thesis using u by simp
qed

lemma abandon_attempt_cases:
  assumes run: "abandon_attempt sha now ids (i, j) db = Inr db'" and inv: "action_inv db"
    and cand: "(i, j) \<in> attempt_owner ` set (attempts db)"
  obtains (same) "db' = db"
    | (closed) t t' a a' where "t \<in> set (attempts db)" and "att_id t = i" and "att_action_id t = j"
      and "closes_attempt t t'" and "att_outcome t' = AO_UNKNOWN"
      and "row_get act_id j (actions db) = Some a" and "act_status a = AS_RUNNING"
      and "actions db' = row_put act_id a' (actions db)"
      and "attempts db' = row_put att_id t' (attempts db)"
      and "reconciliations db' = reconciliations db" and "receipts db' = receipts db"
      and "same_identity a a'" and "act_attempt_count a' = act_attempt_count a"
      and "act_status a' = AS_OUTCOME_UNKNOWN" and "act_version a' = act_version a + 1"
proof (cases "find (\<lambda>t. att_id t = i \<and> att_outcome t = AO_RUNNING
                 \<and> att_started_at t \<le> now - minutes abandoned_action_minutes) (attempts db)")
  case None
  then show ?thesis using run same by (simp add: abandon_attempt_def Let_def)
next
  case (Some t)
  then have t: "t \<in> set (attempts db)" "att_id t = i" "att_outcome t = AO_RUNNING"
    by (auto simp: find_Some_iff)
  have tables: "action_tables_ok db" using inv by (simp add: action_inv_def)
  have j: "att_action_id t = j"
    using attempt_owner_unique [OF _ cand t(1,2)] tables by (simp add: action_tables_ok_def)
  then have "j \<in> act_id ` set (actions db)" using t(1) tables by (auto simp: action_tables_ok_def)
  then obtain a where a: "row_get act_id j (actions db) = Some a"
    using row_get_None [of act_id j "actions db"] by fastforce
  have "t \<in> set (attempts_at j db)" using t j by (simp add: attempts_at_def)
  then have st: "act_status a = AS_RUNNING"
    using running_slice(1) [OF action_inv_row(1) [OF inv a]] t(3) by blast
  show ?thesis
  proof (rule closed [OF t(1,2) j _ _ a st])
    show "closes_attempt t (abandoned_attempt sha now t)"
      using t(3) by (simp add: closes_attempt_def abandoned_attempt_def)
    show "same_identity a (abandoned_action now a)"
      by (simp add: same_identity_def abandoned_action_def)
  qed (use run Some a st in \<open>auto simp: abandon_attempt_def Let_def abandoned_attempt_def [of sha now t]
        abandoned_action_def [of now a] dest!: add_action_audit_Inr\<close>)
qed

lemma abandon_attempt_step:
  assumes run: "abandon_attempt sha now ids (i, j) db = Inr db'" and inv: "action_inv db"
    and cand: "(i, j) \<in> attempt_owner ` set (attempts db)"
  shows "action_inv db'" and "action_evolves db db'"
    and "map attempt_owner (attempts db') = map attempt_owner (attempts db)"
    and "only_slice j db db'"
proof -
  have u: "unique_keys att_id (attempts db)"
    using inv by (simp add: action_inv_def action_tables_ok_def)
  from run inv cand have "action_inv db' \<and> action_evolves db db'
     \<and> map attempt_owner (attempts db') = map attempt_owner (attempts db) \<and> only_slice j db db'"
  proof (cases rule: abandon_attempt_cases)
    case same
    then show ?thesis using inv action_evolves_same by (simp add: only_slice_def)
  next
    case (closed t t' a a')
    have "action_inv db'"
      by (rule action_inv_close [OF inv closed(6,1,3,4,8,9,10)])
        (use closed in \<open>auto simp: new_receipts_def\<close>)
    moreover have "action_evolves db db'"
      by (rule action_evolves_put [OF closed(6,12) _ closed(8)]) (use closed in auto)
    moreover have "map attempt_owner (attempts db') = map attempt_owner (attempts db)"
      unfolding closed(9)
      by (rule map_put_same [OF u closed(1)])
        (use closed(4) in \<open>auto simp: closes_attempt_def attempt_owner_def\<close>)
    moreover have "only_slice j db db'"
      using filter_owner_put [OF u closed(1), of t' att_action_id j] closed
      by (simp add: only_slice_def slice_defs closes_attempt_def)
    ultimately show ?thesis by blast
  qed
  then show "action_inv db'" and "action_evolves db db'"
    and "map attempt_owner (attempts db') = map attempt_owner (attempts db)"
    and "only_slice j db db'" by auto
qed

lemma candidates_owned:
  "set (abandoned_candidates scope now db) \<subseteq> attempt_owner ` set (attempts db)"
  by (auto simp: abandoned_candidates_def attempt_owner_def)

lemma candidates_scope:
  "(i, j) \<in> set (abandoned_candidates scope now db) \<Longrightarrow> \<exists>t\<in>set (attempts db). scope t
     \<and> att_id t = i \<and> att_action_id t = j \<and> att_outcome t = AO_RUNNING"
  by (auto simp: abandoned_candidates_def)

text \<open>What sweeping abandoned attempts keeps; a sweep scoped to one action keeps the others.\<close>

lemma reconcile_abandoned_step:
  assumes run: "reconcile_abandoned sha now ids scope db = Inr db'" and inv: "action_inv db"
  shows "action_inv db'" and "action_evolves db db'"
    and "(\<And>t. t \<in> set (attempts db) \<Longrightarrow> scope t \<Longrightarrow> att_action_id t = k) \<Longrightarrow> only_slice k db db'"
proof -
  let ?P = "\<lambda>d. action_inv d \<and> action_evolves db d
    \<and> map attempt_owner (attempts d) = map attempt_owner (attempts db)
    \<and> (\<forall>k. (\<forall>(i, j)\<in>set (abandoned_candidates scope now db). j = k) \<longrightarrow> only_slice k db d)"
  have "?P db'"
  proof (rule foldE_invariant [where P = ?P])
    show "foldE (abandon_attempt sha now ids) (abandoned_candidates scope now db) db = Inr db'"
      using run by (simp add: reconcile_abandoned_def)
    show "?P db" using inv action_evolves_same by (simp add: only_slice_def)
    show "?P t" if x: "x \<in> set (abandoned_candidates scope now db)"
      and step: "abandon_attempt sha now ids x s = Inr t" and P: "?P s" for x s t
    proof -
      obtain i j where ij: "x = (i, j)" by (cases x)
      have owned: "(i, j) \<in> attempt_owner ` set (attempts s)"
        using x ij candidates_owned P by (metis list.set_map subsetD)
      note st = abandon_attempt_step [OF step [unfolded ij] _ owned]
      have "only_slice k db t" if "\<forall>(i, j)\<in>set (abandoned_candidates scope now db). j = k" for k
        using that x ij st(4) P by (fastforce simp: only_slice_def)
      then show ?thesis using st(1-3) P action_evolves_trans by fastforce
    qed
  qed
  then show "action_inv db'" and "action_evolves db db'"
    and "(\<And>t. t \<in> set (attempts db) \<Longrightarrow> scope t \<Longrightarrow> att_action_id t = k) \<Longrightarrow> only_slice k db db'"
    using candidates_scope [of _ _ scope now db] by fastforce+
qed

text \<open>The row a command works on after the sweep is the current row of the action it found.\<close>

lemma refresh_action_row:
  assumes "row_get act_id (act_id found) (actions db) = Some found" and "action_evolves db db1"
    and "refresh_action found db1 = a"
  shows "row_get act_id (act_id found) (actions db1) = Some a" and "act_id a = act_id found"
    and "same_identity found a" and "act_version found \<le> act_version a"
proof -
  obtain b where b: "row_get act_id (act_id found) (actions db1) = Some b" "same_identity found b"
    "act_version found \<le> act_version b"
    using assms(1,2) unfolding action_evolves_def by blast
  then have "a = b" using assms(3) by (simp add: refresh_action_def)
  then show "row_get act_id (act_id found) (actions db1) = Some a" and "act_id a = act_id found"
    and "same_identity found a" and "act_version found \<le> act_version a"
    using b by (auto simp: same_identity_def)
qed

lemma required_action_row:
  assumes "required_action_for_update org_pid act_pid db = Inr a" and "action_inv db"
  shows "row_get act_id (act_id a) (actions db) = Some a" and "act_public_id a = act_pid"
    and "scoped_action org_pid act_pid db = Some a" and "act_type a \<notin> set retired_action_types"
proof -
  show scoped: "scoped_action org_pid act_pid db = Some a" and "act_type a \<notin> set retired_action_types"
    using assms(1) by (auto simp: required_action_for_update_def run_simps)
  then have "a \<in> set (actions db)" and "act_public_id a = act_pid"
    by (auto simp: scoped_action_def find_Some_iff)
  then show "row_get act_id (act_id a) (actions db) = Some a" and "act_public_id a = act_pid"
    using assms(2) row_get_unique by (auto simp: action_inv_def action_tables_ok_def)
qed

section \<open>Starting an attempt\<close>

lemma prepare_execution_Inr:
  assumes run: "prepare_execution sha now tu au ids org_pid act_pid actor expected command corr db
      = Inr (lease, db')" and inv: "action_inv db"
  obtains found db1 a member c where
    "command \<in> {CMD_EXECUTE, CMD_RETRY_SAFE}"
    and "required_action_for_update org_pid act_pid db = Inr found"
    and "reconcile_abandoned sha now ids (scope_action found) db = Inr db1"
    and "action_inv db1" and "action_evolves db db1"
    and "row_get act_id (act_id found) (actions db1) = Some a" and "same_identity found a"
    and "act_version found \<le> act_version a" and "act_version a = expected"
    and "effective_blocker a now db1 = Inr None" and "require_startable command a db1 = Inr ()"
    and "active_member (act_organization_id a) actor db1 = Inr member"
    and "required_connection a db1 = Inr c"
    and "row_get att_id tu (attempts db1) = None"
    and "actions db' = row_put act_id (started_action now member a) (actions db1)"
    and "attempts db' = attempts db1 @ [new_attempt sha tu a member command now]"
    and "reconciliations db' = reconciliations db1" and "receipts db' = receipts db1"
    and "el_action_id lease = act_id a" and "el_action_version lease = act_version a + 1"
    and "el_attempt_id lease = tu" and "el_action_type lease = act_type a"
    and "el_target lease = act_target a" and "el_parameters lease = act_typed_parameters a"
    and "el_idempotency_key lease = act_idempotency_key a"
    and "el_adapter_key lease = cn_adapter_key c"
    and "el_provider_type lease = cn_provider_type c"
proof -
  from run obtain found db1 where f: "required_action_for_update org_pid act_pid db = Inr found"
    and sweep: "reconcile_abandoned sha now ids (scope_action found) db = Inr db1"
    by (auto simp: prepare_execution_def run_simps Let_def)
  note st = reconcile_abandoned_step [OF sweep inv]
  note row = refresh_action_row [OF required_action_row(1) [OF f inv] st(2) refl]
  have sel: "act_id (started_action now m a) = act_id a"
    "act_public_id (started_action now m a) = act_public_id a"
    "act_version (started_action now m a) = act_version a + 1"
    "act_type (started_action now m a) = act_type a"
    "act_target (started_action now m a) = act_target a"
    "act_typed_parameters (started_action now m a) = act_typed_parameters a"
    "act_idempotency_key (started_action now m a) = act_idempotency_key a" for m a
    by (simp_all add: started_action_def)
  have tid: "att_id (new_attempt sha tu a m command now) = tu" for a m
    by (simp add: new_attempt_def Let_def)
  from run f sweep st(1,2) row show thesis
    by (auto simp: prepare_execution_def run_simps Let_def insert_attempt_def sel tid
        split: option.splits dest!: add_action_audit_Inr intro!: that)
qed

lemma require_startable_status:
  "require_startable command a db = Inr u \<Longrightarrow> command \<in> {CMD_EXECUTE, CMD_RETRY_SAFE}
     \<Longrightarrow> act_status a = (if command = CMD_EXECUTE then AS_READY else AS_FAILED_SAFE)
       \<and> (command = CMD_RETRY_SAFE \<longrightarrow> retry_is_safe a db)"
  by (auto simp: require_startable_def split: if_splits)

lemma slice_ok_start:
  assumes ok: "slice_ok a ts rs cs" and st: "act_status a \<in> {AS_READY, AS_FAILED_SAFE}"
    and id: "same_identity a a'" and st': "act_status a' = AS_RUNNING"
    and n: "act_attempt_count a' = act_attempt_count a + 1"
    and t: "att_number t = act_attempt_count a + 1" "att_outcome t = AO_RUNNING"
      "att_organization_id t = act_organization_id a"
  shows "slice_ok a' (ts @ [t]) rs cs"
proof -
  have idle: "\<not> reconciling rs" and nocs: "cs = []" and none: "\<forall>x\<in>set ts. att_outcome x \<noteq> AO_RUNNING"
    and small: "\<forall>x\<in>set ts. att_number x \<le> act_attempt_count a"
    using ok st by (auto simp: slice_ok_def attempts_ok_def reconciliations_ok_def receipts_ok_def)
  have "attempts_ok a' (ts @ [t])"
    using ok st' n t id none small
    by (fastforce simp: slice_ok_def attempts_ok_def same_identity_def)
  moreover have "reconciliations_ok a' rs"
    using ok idle id by (auto simp: slice_ok_def intro: reconciliations_ok_idle)
  ultimately show ?thesis using nocs st' by (simp add: slice_ok_def receipts_ok_def)
qed

text \<open>A step that appends rows owned by \<open>i\<close> to the attempts or reconciliations, or none.\<close>

lemma only_slice_append:
  assumes "attempts db' = attempts db @ ts" and "reconciliations db' = reconciliations db @ rs"
    and "receipts db' = receipts db"
    and "\<forall>t\<in>set ts. att_action_id t = i" and "\<forall>r\<in>set rs. rec_action_id r = i"
  shows "only_slice i db db'" and "attempts_at i db' = attempts_at i db @ ts"
    and "reconciliations_at i db' = reconciliations_at i db @ rs"
    and "receipts_at i db' = receipts_at i db"
proof -
  have keep: "filter (\<lambda>t. att_action_id t = j) ts = (if j = i then ts else [])"
    "filter (\<lambda>r. rec_action_id r = j) rs = (if j = i then rs else [])" for j
    using assms(4,5) by (auto simp: filter_empty_conv filter_id_conv)
  show "only_slice i db db'" and "attempts_at i db' = attempts_at i db @ ts"
    and "reconciliations_at i db' = reconciliations_at i db @ rs"
    and "receipts_at i db' = receipts_at i db"
    using assms(1-3) keep by (simp_all add: only_slice_def slice_defs)
qed

lemma new_attempt_sel:
  "att_id (new_attempt sha tu a m c now) = tu"
  "att_action_id (new_attempt sha tu a m c now) = act_id a"
  "att_number (new_attempt sha tu a m c now) = act_attempt_count a + 1"
  "att_outcome (new_attempt sha tu a m c now) = AO_RUNNING"
  "att_organization_id (new_attempt sha tu a m c now) = act_organization_id a"
  by (simp_all add: new_attempt_def Let_def)

lemma started_action_sel:
  "same_identity a (started_action now m a)"
  "act_status (started_action now m a) = AS_RUNNING"
  "act_attempt_count (started_action now m a) = act_attempt_count a + 1"
  "act_version (started_action now m a) = act_version a + 1"
  by (simp_all add: started_action_def same_identity_def)

lemma prepare_execution_step:
  assumes run: "prepare_execution sha now tu au ids org_pid act_pid actor expected command corr db
      = Inr (lease, db')" and inv: "action_inv db"
  shows "action_inv db' \<and> action_evolves db db'"
  using run inv
proof (cases rule: prepare_execution_Inr)
  case (1 found db1 a member c)
  let ?a' = "started_action now member a" and ?t = "new_attempt sha tu a member command now"
  let ?i = "act_id found"
  have ai: "act_id a = ?i" using row_get_Some [OF 1(6)] by simp
  have slice: "slice_ok a (attempts_at ?i db1) (reconciliations_at ?i db1) (receipts_at ?i db1)"
    using action_inv_row [OF 1(4,6)] by simp
  have ap: "only_slice ?i db1 db'" "attempts_at ?i db' = attempts_at ?i db1 @ [?t]"
    "reconciliations_at ?i db' = reconciliations_at ?i db1" "receipts_at ?i db' = receipts_at ?i db1"
    using only_slice_append [of db' db1 "[?t]" "[]" ?i] 1 ai by (simp_all add: new_attempt_sel)
  have st: "act_status a \<in> {AS_READY, AS_FAILED_SAFE}"
    using require_startable_status [OF 1(11,1)] by simp
  have ok': "action_slice_ok db' ?a'"
    using slice_ok_start [OF slice st started_action_sel(1-3)] ap ai started_action_sel(1) [of a now member]
    by (simp add: action_slice_ok_def new_attempt_sel same_identity_def)
  have iin: "?i \<in> act_id ` set (actions db1)" by (rule row_get_key [OF 1(6)])
  have tables: "action_tables_ok db'"
    using 1 iin ai unfolding action_inv_def action_tables_ok_def
    by (simp add: unique_keys_append new_attempt_sel row_put_keys)
  have "action_inv db'"
    by (rule action_inv_put [OF 1(4,6,15) _ tables ap(1) ok'])
      (use started_action_sel(1) [of a now member] ai in \<open>simp add: same_identity_def\<close>)
  moreover have "action_evolves db1 db'"
    by (rule action_evolves_put [OF 1(6) started_action_sel(1) _ 1(15)])
      (use 1 in \<open>simp_all add: started_action_sel\<close>)
  ultimately show ?thesis using 1(5) action_evolves_trans by blast
qed

section \<open>Closing an attempt with a receipt or an error\<close>

lemma record_receipt_Inr:
  assumes "record_receipt sha uid a t receipt now db = Inr (stored, db')"
  shows "same_action_tables db (db'\<lparr>receipts := receipts db\<rparr>)" and "new_receipts a db db'"
    and "stored \<in> set (receipts db')" and "rcp_action_id stored = act_id a"
    and "rcp_organization_id stored = act_organization_id a"
    and "rcp_idempotency_key stored = gr_idempotency_key receipt"
    and "rcp_external_reference stored = gr_external_reference receipt"
proof -
  have "db = db\<lparr>receipts := receipts db\<rparr>" by simp
  then show "same_action_tables db (db'\<lparr>receipts := receipts db\<rparr>)" and "new_receipts a db db'"
    and "stored \<in> set (receipts db')" and "rcp_action_id stored = act_id a"
    and "rcp_organization_id stored = act_organization_id a"
    and "rcp_idempotency_key stored = gr_idempotency_key receipt"
    and "rcp_external_reference stored = gr_external_reference receipt"
    using assms
    by (auto simp: record_receipt_def receipt_of_def insert_receipt_def run_simps Let_def
        find_Some_iff new_receipts_def same_action_tables_def split: option.splits if_splits)
qed

lemma new_receipts_subset: "new_receipts a db db' \<Longrightarrow> set (receipts db) \<subseteq> set (receipts db')"
  by (auto simp: new_receipts_def)

lemma execution_models_Inr:
  assumes "execution_models lease db = Inr (a, t)"
  shows "row_get act_id (el_action_id lease) (actions db) = Some a" and "t \<in> set (attempts db)"
    and "att_action_id t = el_action_id lease" and "att_id t = el_attempt_id lease"
  using assms by (auto simp: execution_models_def find_Some_iff split: option.splits)

lemma close_rows_sel:
  "same_identity a (completed_action now stored a)"
  "act_status (completed_action now stored a) = AS_COMPLETED"
  "act_attempt_count (completed_action now stored a) = act_attempt_count a"
  "act_version (completed_action now stored a) = act_version a + 1"
  "same_identity a (failed_action now e a)"
  "act_status (failed_action now e a) = (if safe_failure e then AS_FAILED_SAFE else AS_OUTCOME_UNKNOWN)"
  "act_attempt_count (failed_action now e a) = act_attempt_count a"
  "act_version (failed_action now e a) = act_version a + 1"
  "att_outcome t = AO_RUNNING \<Longrightarrow> closes_attempt t (succeeded_attempt sha now receipt t)"
  "att_outcome t = AO_RUNNING \<Longrightarrow> closes_attempt t (failed_attempt sha now e t)"
  by (simp_all add: completed_action_def failed_action_def same_identity_def closes_attempt_def
      succeeded_attempt_def failed_attempt_def)

lemma finish_execution_success_Inr:
  assumes run: "finish_execution_success sha now ru au lease receipt corr db = Inr (item, db')"
  obtains (settled) a t where "execution_models lease db = Inr (a, t)" and "att_outcome t \<noteq> AO_RUNNING"
      and "act_status a = AS_COMPLETED" and "db' = db"
    | (completed) a t stored where "execution_models lease db = Inr (a, t)"
      and "att_outcome t = AO_RUNNING" and "gr_idempotency_key receipt = act_idempotency_key a"
      and "actions db' = row_put act_id (completed_action now stored a) (actions db)"
      and "attempts db' = row_put att_id (succeeded_attempt sha now receipt t) (attempts db)"
      and "reconciliations db' = reconciliations db" and "new_receipts a db db'"
      and "stored \<in> set (receipts db')" and "rcp_action_id stored = act_id a"
      and "rcp_idempotency_key stored = act_idempotency_key a"
      and "queue_item_of (completed_action now stored a) now db' = Inr item"
proof -
  from run obtain a t where em: "execution_models lease db = Inr (a, t)"
    by (auto simp: finish_execution_success_def run_simps)
  show thesis
  proof (cases "att_outcome t = AO_RUNNING")
    case False
    have "act_status a = AS_COMPLETED \<and> db' = db"
      using run em False by (auto simp: finish_execution_success_def run_simps split: if_splits)
    then show ?thesis using settled [OF em False] by blast
  next
    case True
    from run em True obtain stored db1 db2 where
      key: "gr_idempotency_key receipt = act_idempotency_key a"
      and rr: "record_receipt sha ru a t receipt now db = Inr (stored, db1)"
      and adv: "advance_case_after_completion (completed_action now stored a) now
        (put_action (completed_action now stored a)
          (put_attempt (succeeded_attempt sha now receipt t) db1)) = Inr db2"
      and tail: "same_action_tables db2 db'"
      and item: "queue_item_of (completed_action now stored a) now db' = Inr item"
      by (auto simp: finish_execution_success_def run_simps Let_def dest: same_tables_audit)
    note rc = record_receipt_Inr [OF rr]
    have "same_action_tables (put_action (completed_action now stored a)
          (put_attempt (succeeded_attempt sha now receipt t) db1)) db'"
      using same_tables_advance [OF adv] tail same_action_tables_trans by blast
    then show ?thesis
      by (intro completed [OF em True key]) (use rc key item in
        \<open>auto simp: same_action_tables_def new_receipts_def\<close>)
  qed
qed

lemma finish_execution_error_Inr:
  assumes run: "finish_execution_error sha now au lease e corr db = Inr (item, db')"
  obtains (settled) a t where "execution_models lease db = Inr (a, t)" and "att_outcome t \<noteq> AO_RUNNING"
      and "db' = db"
    | (failed) a t where "execution_models lease db = Inr (a, t)" and "att_outcome t = AO_RUNNING"
      and "actions db' = row_put act_id (failed_action now e a) (actions db)"
      and "attempts db' = row_put att_id (failed_attempt sha now e t) (attempts db)"
      and "reconciliations db' = reconciliations db" and "receipts db' = receipts db"
      and "queue_item_of (failed_action now e a) now db' = Inr item"
proof -
  from run obtain a t where em: "execution_models lease db = Inr (a, t)"
    by (auto simp: finish_execution_error_def run_simps)
  show thesis
  proof (cases "att_outcome t = AO_RUNNING")
    case False
    have "db' = db" using run em False by (auto simp: finish_execution_error_def run_simps)
    then show ?thesis by (rule settled [OF em False])
  next
    case True
    have "same_action_tables (put_action (failed_action now e a)
        (put_attempt (failed_attempt sha now e t) db)) db'
      \<and> queue_item_of (failed_action now e a) now db' = Inr item"
      using run em True
      by (auto simp: finish_execution_error_def run_simps Let_def dest!: same_tables_audit)
    then show ?thesis by (intro failed [OF em True]) (auto simp: same_action_tables_def)
  qed
qed

lemma finish_execution_success_step:
  assumes run: "finish_execution_success sha now ru au lease receipt corr db = Inr (item, db')"
    and inv: "action_inv db"
  shows "action_inv db' \<and> action_evolves db db'"
  using run
proof (cases rule: finish_execution_success_Inr)
  case (settled a t)
  then show ?thesis using inv action_evolves_same by simp
next
  case (completed a t stored)
  note em = execution_models_Inr [OF completed(1)]
  have "action_inv db'"
    by (rule action_inv_close [OF inv em(1,2,3) close_rows_sel(9) [OF completed(2)] completed(4-7)])
      (simp_all add: close_rows_sel)
  moreover have "action_evolves db db'"
    by (rule action_evolves_put [OF em(1) close_rows_sel(1) _ completed(4)])
      (use completed(7) new_receipts_subset in \<open>auto simp: close_rows_sel\<close>)
  ultimately show ?thesis by simp
qed

lemma finish_execution_error_step:
  assumes run: "finish_execution_error sha now au lease e corr db = Inr (item, db')"
    and inv: "action_inv db"
  shows "action_inv db' \<and> action_evolves db db'"
  using run
proof (cases rule: finish_execution_error_Inr)
  case (settled a t)
  then show ?thesis using inv action_evolves_same by simp
next
  case (failed a t)
  note em = execution_models_Inr [OF failed(1)]
  have "action_inv db'"
    by (rule action_inv_close [OF inv em(1,2,3) close_rows_sel(10) [OF failed(2)] failed(3-5)])
      (use failed(6) in \<open>auto simp: close_rows_sel new_receipts_def failed_attempt_def
        safe_failure_def split: if_splits\<close>)
  moreover have "action_evolves db db'"
    by (rule action_evolves_put [OF em(1) close_rows_sel(5) _ failed(3)])
      (simp_all add: close_rows_sel failed(6))
  ultimately show ?thesis by simp
qed

end
