(* ===== verification/Recovery_Invariant.thy ===== *)
theory Recovery_Invariant
  imports Action_Invariant
begin

text \<open>
  The recovery commands, materialization and the queries keep the invariant of the action
  tables; with the lemmas of \<open>Action_Invariant\<close> that is every command of the repository but
  the import of historical attempts.
\<close>

section \<open>Slices in recovery\<close>

lemma attempts_ok_idle:
  assumes "attempts_ok a ts" and "act_status a \<notin> {AS_READY, AS_RUNNING}"
    and "act_status a' \<notin> {AS_READY, AS_RUNNING}" and "same_identity a a'"
    and "act_attempt_count a' = act_attempt_count a"
  shows "attempts_ok a' ts"
  using assms by (simp add: attempts_ok_def same_identity_def)

lemma reconciling_append [simp]:
  "reconciling (rs @ [r]) \<longleftrightarrow> reconciling rs \<or> rec_outcome r = RO_RUNNING"
  by (auto simp: reconciling_def)

lemma not_reconciling_filter:
  "\<not> reconciling rs \<longleftrightarrow> filter (\<lambda>r. rec_outcome r = RO_RUNNING) rs = []"
  by (auto simp: reconciling_def filter_empty_conv)

lemma slice_ok_append_reconciliation:
  assumes ok: "slice_ok a ts rs cs" and st: "recovery_status (act_status a)"
    and id: "same_identity a a'" and n: "act_attempt_count a' = act_attempt_count a"
    and st': "act_status a' \<in> {AS_OUTCOME_UNKNOWN, AS_RECOVERY_REQUIRED, AS_COMPLETED}"
    and org: "rec_organization_id r = act_organization_id a"
    and alone: "rec_outcome r = RO_RUNNING \<Longrightarrow> \<not> reconciling rs"
  shows "slice_ok a' ts (rs @ [r]) cs"
proof -
  have "attempts_ok a' ts"
    by (rule attempts_ok_idle [of a])
      (use ok st st' id n in \<open>auto simp: slice_ok_def recovery_status_def\<close>)
  moreover have "cs = []"
    using ok st by (auto simp: slice_ok_def receipts_ok_def recovery_status_def)
  moreover have "reconciliations_ok a' (rs @ [r])"
    using ok id org st' alone not_reconciling_filter [of rs]
    by (auto simp: slice_ok_def reconciliations_ok_def same_identity_def)
  ultimately show ?thesis using st' by (auto simp: slice_ok_def receipts_ok_def)
qed

lemma slice_ok_escalate:
  assumes ok: "slice_ok a ts rs cs"
    and st: "act_status a \<in> {AS_FAILED_SAFE, AS_OUTCOME_UNKNOWN, AS_RECOVERY_REQUIRED}"
    and id: "same_identity a a'" and n: "act_attempt_count a' = act_attempt_count a"
    and st': "act_status a' = AS_RECOVERY_REQUIRED"
  shows "slice_ok a' ts rs cs"
proof -
  have "attempts_ok a' ts"
    by (rule attempts_ok_idle [of a]) (use ok st st' id n in \<open>auto simp: slice_ok_def\<close>)
  moreover have "cs = []" using ok st by (auto simp: slice_ok_def receipts_ok_def)
  moreover have "reconciliations_ok a' rs"
    using ok id st' by (simp add: slice_ok_def reconciliations_ok_def same_identity_def)
  ultimately show ?thesis using st' by (simp add: slice_ok_def receipts_ok_def)
qed

definition closes_reconciliation :: "action_reconciliation \<Rightarrow> action_reconciliation \<Rightarrow> bool" where
  "closes_reconciliation r r' \<longleftrightarrow> rec_outcome r = RO_RUNNING \<and> rec_outcome r' \<noteq> RO_RUNNING
     \<and> rec_id r' = rec_id r \<and> rec_action_id r' = rec_action_id r
     \<and> rec_organization_id r' = rec_organization_id r"

lemma closed_reconciliation:
  assumes one: "length (filter (\<lambda>r. rec_outcome r = RO_RUNNING) rs) \<le> 1"
    and u: "unique_keys rec_id rs" and r: "r \<in> set rs" and cl: "closes_reconciliation r r'"
  shows "\<not> reconciling (row_put rec_id r' rs)"
proof -
  have s: "set (row_put rec_id r' rs) = insert r' (set rs - {r})"
    using u r cl by (intro set_put_unique) (auto simp: closes_reconciliation_def)
  have "q = r" if "q \<in> set rs" "rec_outcome q = RO_RUNNING" for q
  proof -
    have "q \<in> set (filter (\<lambda>r. rec_outcome r = RO_RUNNING) rs)"
      "r \<in> set (filter (\<lambda>r. rec_outcome r = RO_RUNNING) rs)"
      using that r cl by (auto simp: closes_reconciliation_def)
    then show ?thesis using one
      by (cases "filter (\<lambda>r. rec_outcome r = RO_RUNNING) rs") auto
  qed
  then show ?thesis using cl by (auto simp: reconciling_def s closes_reconciliation_def)
qed

lemma slice_ok_settle:
  assumes ok: "slice_ok a ts rs cs" and u: "unique_keys rec_id rs" and r: "r \<in> set rs"
    and cl: "closes_reconciliation r r'"
    and id: "same_identity a a'" and n: "act_attempt_count a' = act_attempt_count a"
    and st': "act_status a' \<notin> {AS_READY, AS_RUNNING}"
    and cs': "cs = [] \<Longrightarrow> length cs' \<le> 1 \<and> (\<forall>c\<in>set cs'. rcp_organization_id c = act_organization_id a)"
    and got: "cs' \<noteq> [] \<Longrightarrow> act_status a' = AS_COMPLETED"
    and safe: "act_status a' = AS_FAILED_SAFE \<Longrightarrow> rec_outcome r' = RO_CONFIRMED_ABSENT"
  shows "slice_ok a' ts (row_put rec_id r' rs) cs'"
proof -
  have run: "reconciling rs" using r cl by (auto simp: reconciling_def closes_reconciliation_def)
  then have st: "act_status a \<in> {AS_OUTCOME_UNKNOWN, AS_RECOVERY_REQUIRED, AS_COMPLETED}" and cs: "cs = []"
    using ok by (auto simp: slice_ok_def reconciliations_ok_def receipts_ok_def)
  have idle: "\<not> reconciling (row_put rec_id r' rs)"
    using closed_reconciliation [OF _ u r cl] ok by (simp add: slice_ok_def reconciliations_ok_def)
  have s: "set (row_put rec_id r' rs) = insert r' (set rs - {r})"
    using u r cl by (intro set_put_unique) (auto simp: closes_reconciliation_def)
  have "attempts_ok a' ts"
    by (rule attempts_ok_idle [of a]) (use ok st st' id n in \<open>auto simp: slice_ok_def\<close>)
  moreover have "reconciliations_ok a' (row_put rec_id r' rs)"
  proof -
    have "\<forall>q\<in>set (row_put rec_id r' rs). rec_organization_id q = act_organization_id a'"
      using ok r cl id
      by (auto simp: s slice_ok_def reconciliations_ok_def closes_reconciliation_def same_identity_def)
    then show ?thesis
      using idle iffD1 [OF not_reconciling_filter idle] by (simp add: reconciliations_ok_def)
  qed
  moreover have "receipts_ok a' (row_put rec_id r' rs) cs'"
    using cs' [OF cs] got idle id by (auto simp: receipts_ok_def same_identity_def)
  moreover have "no_change_proof a' ts (row_put rec_id r' rs)" if "act_status a' = AS_FAILED_SAFE"
    using safe [OF that] by (auto simp: no_change_proof_def s)
  ultimately show ?thesis by (simp add: slice_ok_def)
qed

section \<open>Reconciliation\<close>

lemma running_reconciliation_None:
  assumes "running_reconciliation a db = None" and "reconciliations_ok a (reconciliations_at (act_id a) db)"
  shows "\<not> reconciling (reconciliations_at (act_id a) db)"
proof -
  have "reconciliations_of a db = reconciliations_at (act_id a) db"
    using assms(2) unfolding reconciliations_of_def reconciliations_at_def reconciliations_ok_def
    by (auto intro!: filter_cong)
  then show ?thesis
    using assms(1) by (auto simp: running_reconciliation_def find_None_iff reconciling_def)
qed

lemma new_reconciliation_sel:
  "rec_id (new_reconciliation u p a m out d now) = u"
  "rec_action_id (new_reconciliation u p a m out d now) = act_id a"
  "rec_organization_id (new_reconciliation u p a m out d now) = act_organization_id a"
  "rec_outcome (new_reconciliation u p a m out d now) = out"
  by (simp_all add: new_reconciliation_def)

lemma prepare_reconciliation_Inr:
  assumes run: "prepare_reconciliation sha now ru ut au ids org_pid act_pid actor expected corr db
      = Inr (lease, db')" and inv: "action_inv db"
  obtains found db1 a member c pid where
    "required_action_for_update org_pid act_pid db = Inr found"
    and "reconcile_abandoned sha now ids (scope_action found) db = Inr db1"
    and "action_inv db1" and "action_evolves db db1"
    and "row_get act_id (act_id found) (actions db1) = Some a" and "same_identity found a"
    and "act_version found \<le> act_version a" and "act_version a = expected"
    and "recovery_status (act_status a)" and "required_connection a db1 = Inr c"
    and "cn_adapter_key c \<noteq> ''unconfigured''"
    and "\<exists>t. latest_attempt a db1 = Some t \<and> att_outcome t = AO_UNKNOWN"
    and "running_reconciliation a db1 = None"
    and "active_member (act_organization_id a) actor db1 = Inr member"
    and "row_get rec_id ru (reconciliations db1) = None"
    and "actions db' = row_put act_id (a\<lparr>act_version := act_version a + 1, act_updated_at := now\<rparr>)
           (actions db1)"
    and "reconciliations db' = reconciliations db1
           @ [new_reconciliation ru pid a member RO_RUNNING
                ''The target is being checked without issuing another write.'' now]"
    and "attempts db' = attempts db1" and "receipts db' = receipts db1"
    and "rl_action_id lease = act_id a" and "rl_reconciliation_id lease = ru"
    and "rl_idempotency_key lease = act_idempotency_key a"
    and "rl_adapter_key lease = cn_adapter_key c" and "rl_provider_type lease = cn_provider_type c"
proof -
  from run obtain found db1 where f: "required_action_for_update org_pid act_pid db = Inr found"
    and sweep: "reconcile_abandoned sha now ids (scope_action found) db = Inr db1"
    by (auto simp: prepare_reconciliation_def run_simps Let_def)
  note st = reconcile_abandoned_step [OF sweep inv]
  note row = refresh_action_row [OF required_action_row(1) [OF f inv] st(2) refl]
  from run f sweep st(1,2) row show thesis
    by (auto simp: prepare_reconciliation_def run_simps Let_def insert_reconciliation_def
        new_reconciliation_sel
        split: option.splits dest!: add_action_audit_Inr intro!: that)
qed

text \<open>Appending a reconciliation of the action in hand, the shape of two commands.\<close>

lemma append_reconciliation_step:
  assumes inv: "action_inv db" and a: "row_get act_id i (actions db) = Some a"
    and acts: "actions db' = row_put act_id a' (actions db)"
    and recs: "reconciliations db' = reconciliations db @ [r]"
    and same: "attempts db' = attempts db" "receipts db' = receipts db"
    and id: "same_identity a a'" and n: "act_attempt_count a' = act_attempt_count a"
    and v: "act_version a \<le> act_version a'"
    and st: "recovery_status (act_status a)"
    and st': "act_status a' \<in> {AS_OUTCOME_UNKNOWN, AS_RECOVERY_REQUIRED, AS_COMPLETED}"
    and r: "rec_action_id r = i" "rec_organization_id r = act_organization_id a"
    and fresh: "row_get rec_id (rec_id r) (reconciliations db) = None"
    and alone: "rec_outcome r = RO_RUNNING \<Longrightarrow> \<not> reconciling (reconciliations_at i db)"
  shows "action_inv db' \<and> action_evolves db db'"
proof -
  have slice: "slice_ok a (attempts_at i db) (reconciliations_at i db) (receipts_at i db)"
    and ai: "act_id a = i" using action_inv_row [OF inv a] by auto
  have a'i: "act_id a' = i" using id ai by (simp add: same_identity_def)
  have ap: "only_slice i db db'" "attempts_at i db' = attempts_at i db"
    "reconciliations_at i db' = reconciliations_at i db @ [r]" "receipts_at i db' = receipts_at i db"
    using only_slice_append [of db' db "[]" "[r]" i] recs same r by simp_all
  have "action_slice_ok db' a'"
    using slice_ok_append_reconciliation [OF slice st id n st' r(2) alone] ap a'i
    by (simp add: action_slice_ok_def)
  moreover have "action_tables_ok db'"
    using inv recs same acts fresh r(1) row_get_key [OF a] unfolding action_inv_def action_tables_ok_def
    by (simp add: unique_keys_append row_put_keys)
  ultimately have "action_inv db'" using action_inv_put [OF inv a acts a'i] ap(1) by blast
  moreover have "action_evolves db db'"
    by (rule action_evolves_put [OF a id v acts]) (simp add: same)
  ultimately show ?thesis by simp
qed

lemma prepare_reconciliation_step:
  assumes run: "prepare_reconciliation sha now ru ut au ids org_pid act_pid actor expected corr db
      = Inr (lease, db')" and inv: "action_inv db"
  shows "action_inv db' \<and> action_evolves db db'"
  using run inv
proof (cases rule: prepare_reconciliation_Inr)
  case (1 found db1 a member c pid)
  have ai: "act_id a = act_id found" using row_get_Some [OF 1(5)] by simp
  have ok: "reconciliations_ok a (reconciliations_at (act_id a) db1)"
    using action_inv_row [OF 1(3,5)] ai by (simp add: slice_ok_def)
  have "action_inv db' \<and> action_evolves db1 db'"
    by (rule append_reconciliation_step [OF 1(3,5,16,17,18,19)])
      (use 1(9,13,15) ai running_reconciliation_None [OF 1(13) ok] in
        \<open>auto simp: new_reconciliation_sel same_identity_def recovery_status_def\<close>)
  then show ?thesis using 1(4) action_evolves_trans by blast
qed

definition settles ::
    "case_action \<Rightarrow> action_reconciliation \<Rightarrow> case_action \<Rightarrow> action_reconciliation \<Rightarrow> bool" where
  "settles a r a' r' \<longleftrightarrow> same_identity a a' \<and> act_attempt_count a' = act_attempt_count a
     \<and> rec_outcome r' \<noteq> RO_RUNNING \<and> rec_id r' = rec_id r \<and> rec_action_id r' = rec_action_id r
     \<and> rec_organization_id r' = rec_organization_id r
     \<and> act_status a' = (case rec_outcome r' of RO_CONFIRMED_COMPLETED \<Rightarrow> AS_COMPLETED
                        | RO_CONFIRMED_ABSENT \<Rightarrow> AS_FAILED_SAFE | _ \<Rightarrow> AS_OUTCOME_UNKNOWN)"

lemma settle_reconciliation_Inr:
  assumes run: "settle_reconciliation sha now ru result a t r db = Inr (a1, r1, db1)"
  shows "settles a r a1 r1" and "act_version a1 = act_version a"
    and "rec_outcome r1 =
      reconciliation_outcome_for_lookup (lr_found result) (lr_absence_is_terminal result)"
    and "actions db1 = actions db \<and> attempts db1 = attempts db
      \<and> reconciliations db1 = reconciliations db"
    and "new_receipts a db db1"
    and "receipts db1 \<noteq> receipts db \<Longrightarrow> rec_outcome r1 = RO_CONFIRMED_COMPLETED"
    and "rec_outcome r1 = RO_CONFIRMED_COMPLETED \<Longrightarrow> receipts_at (act_id a) db1 \<noteq> []"
proof -
  let ?out = "reconciliation_outcome_for_lookup (lr_found result) (lr_absence_is_terminal result)"
  have cases: "?out \<in> {RO_CONFIRMED_COMPLETED, RO_CONFIRMED_ABSENT, RO_STILL_UNKNOWN}"
    by (simp add: reconciliation_outcome_for_lookup_def)
  have "settles a r a1 r1 \<and> act_version a1 = act_version a \<and> rec_outcome r1 = ?out
    \<and> (actions db1 = actions db \<and> attempts db1 = attempts db
      \<and> reconciliations db1 = reconciliations db) \<and> new_receipts a db db1
    \<and> (receipts db1 \<noteq> receipts db \<longrightarrow> rec_outcome r1 = RO_CONFIRMED_COMPLETED)
    \<and> (rec_outcome r1 = RO_CONFIRMED_COMPLETED \<longrightarrow> receipts_at (act_id a) db1 \<noteq> [])"
  proof (cases "?out = RO_CONFIRMED_COMPLETED")
    case True
    then obtain receipt stored db2 where
      rr: "record_receipt sha ru a t receipt now db = Inr (stored, db2)"
      and adv: "advance_case_after_completion
        (a\<lparr>act_status := AS_COMPLETED, act_observed_outcome := Some (lr_detail result)\<rparr>) now db2 = Inr db1"
      and rows: "a1 = a\<lparr>act_status := AS_COMPLETED, act_observed_outcome := Some (lr_detail result)\<rparr>"
        "r1 = r\<lparr>rec_outcome := RO_CONFIRMED_COMPLETED,
               rec_external_reference := Some (rcp_external_reference stored)\<rparr>"
      using run by (auto simp: settle_reconciliation_def run_simps Let_def)
    have "receipts_at (act_id a) db1 \<noteq> []"
      using record_receipt_Inr(3,4) [OF rr] same_tables_advance [OF adv]
      by (auto simp: receipts_at_def filter_empty_conv same_action_tables_def)
    then show ?thesis
      using record_receipt_Inr(1,2) [OF rr] same_tables_advance [OF adv] rows True
      by (simp add: settles_def same_identity_def same_action_tables_def new_receipts_def)
  next
    case False
    then show ?thesis using run cases
      by (auto simp: settle_reconciliation_def settles_def same_identity_def new_receipts_def)
  qed
  then show "settles a r a1 r1" and "act_version a1 = act_version a" and "rec_outcome r1 = ?out"
    and "actions db1 = actions db \<and> attempts db1 = attempts db
      \<and> reconciliations db1 = reconciliations db"
    and "new_receipts a db db1"
    and "receipts db1 \<noteq> receipts db \<Longrightarrow> rec_outcome r1 = RO_CONFIRMED_COMPLETED"
    and "rec_outcome r1 = RO_CONFIRMED_COMPLETED \<Longrightarrow> receipts_at (act_id a) db1 \<noteq> []" by auto
qed

lemma finish_reconciliation_Inr:
  assumes run: "finish_reconciliation sha now ru au lease result corr db = Inr (item, db')"
  obtains (settled) a r where "row_get act_id (rl_action_id lease) (actions db) = Some a"
      and "r \<in> set (reconciliations db)" and "rec_action_id r = rl_action_id lease"
      and "rec_outcome r \<noteq> RO_RUNNING" and "db' = db" and "rec_id r = rl_reconciliation_id lease"
    | (checked) a r a' r' where "row_get act_id (rl_action_id lease) (actions db) = Some a"
      and "r \<in> set (reconciliations db)" and "rec_action_id r = rl_action_id lease"
      and "rec_outcome r = RO_RUNNING" and "settles a r a' r'"
      and "rec_outcome r' =
        reconciliation_outcome_for_lookup (lr_found result) (lr_absence_is_terminal result)"
      and "act_version a' = act_version a + 1"
      and "actions db' = row_put act_id a' (actions db)" and "attempts db' = attempts db"
      and "reconciliations db' = row_put rec_id r' (reconciliations db)"
      and "new_receipts a db db'"
      and "receipts db' \<noteq> receipts db \<Longrightarrow> rec_outcome r' = RO_CONFIRMED_COMPLETED"
      and "rec_outcome r' = RO_CONFIRMED_COMPLETED \<Longrightarrow> receipts_at (act_id a) db' \<noteq> []"
      and "queue_item_of a' now db' = Inr item" and "rec_id r = rl_reconciliation_id lease"
proof -
  from run obtain a r where a: "row_get act_id (rl_action_id lease) (actions db) = Some a"
    and fr: "find (\<lambda>r. rec_id r = rl_reconciliation_id lease \<and> rec_action_id r = rl_action_id lease)
      (reconciliations db) = Some r"
    by (auto simp: finish_reconciliation_def split: option.splits)
  then have r: "r \<in> set (reconciliations db)" "rec_action_id r = rl_action_id lease"
    and rid: "rec_id r = rl_reconciliation_id lease"
    by (auto simp: find_Some_iff)
  show thesis
  proof (cases "rec_outcome r = RO_RUNNING")
    case False
    have "db' = db" using run a fr False by (auto simp: finish_reconciliation_def run_simps)
    then show ?thesis using rid by (rule settled [OF a r False])
  next
    case True
    from run a fr True obtain t a1 r1 db1 where
      settle: "settle_reconciliation sha now ru result a t r db = Inr (a1, r1, db1)"
      and tail: "same_action_tables
        (put_action (a1\<lparr>act_version := act_version a1 + 1, act_updated_at := now\<rparr>)
          (put_reconciliation (r1\<lparr>rec_detail := lr_detail result, rec_checked_at := now\<rparr>) db1)) db'"
      and item: "queue_item_of (a1\<lparr>act_version := act_version a1 + 1, act_updated_at := now\<rparr>) now db'
        = Inr item"
      by (auto simp: finish_reconciliation_def run_simps Let_def dest!: same_tables_audit)
    note s = settle_reconciliation_Inr [OF settle]
    show ?thesis
      by (rule checked [OF a r True _ _ _ _ _ _ _ _ _ item rid, where r' = "r1\<lparr>rec_detail := lr_detail result, rec_checked_at := now\<rparr>"])
        (use s tail in \<open>auto simp: settles_def same_identity_def same_action_tables_def new_receipts_def
          receipts_at_def split: reconciliation_outcome.split\<close>)
  qed
qed

lemma finish_reconciliation_step:
  assumes run: "finish_reconciliation sha now ru au lease result corr db = Inr (item, db')"
    and inv: "action_inv db"
  shows "action_inv db' \<and> action_evolves db db'"
  using run
proof (cases rule: finish_reconciliation_Inr)
  case (settled a r)
  then show ?thesis using inv action_evolves_same by simp
next
  case (checked a r a' r')
  let ?i = "rl_action_id lease"
  have slice: "slice_ok a (attempts_at ?i db) (reconciliations_at ?i db) (receipts_at ?i db)"
    and ai: "act_id a = ?i" using action_inv_row [OF inv checked(1)] by auto
  have id: "same_identity a a'" and cl: "closes_reconciliation r r'"
    and n: "act_attempt_count a' = act_attempt_count a"
    using checked(4,5) by (auto simp: settles_def closes_reconciliation_def)
  have a'i: "act_id a' = ?i" using id ai by (simp add: same_identity_def)
  have rin: "r \<in> set (reconciliations_at ?i db)" using checked by (simp add: reconciliations_at_def)
  have u: "unique_keys rec_id (reconciliations db)" and u': "unique_keys rec_id (reconciliations_at ?i db)"
    using inv by (auto simp: action_inv_def action_tables_ok_def reconciliations_at_def unique_keys_filter)
  have rec': "reconciliations_at j db' =
      (if j = ?i then row_put rec_id r' (reconciliations_at j db) else reconciliations_at j db)" for j
    unfolding reconciliations_at_def checked(10)
    by (rule filter_owner_put [OF u checked(2)])
      (use cl checked(3) in \<open>auto simp: closes_reconciliation_def\<close>)
  have at': "attempts_at j db' = attempts_at j db" for j using checked(9) by (simp add: attempts_at_def)
  have only: "only_slice ?i db db'"
    using rec' at' new_receipts_at(1) [OF checked(11)] ai by (simp add: only_slice_def)
  have fin: "act_status a' = AS_COMPLETED" if "receipts_at ?i db' \<noteq> receipts_at ?i db"
  proof -
    have "receipts db' \<noteq> receipts db" using that by (auto simp: receipts_at_def)
    then show ?thesis using checked(5,12) by (simp add: settles_def)
  qed
  have st': "act_status a' \<notin> {AS_READY, AS_RUNNING}"
    and safe: "act_status a' = AS_FAILED_SAFE \<Longrightarrow> rec_outcome r' = RO_CONFIRMED_ABSENT"
    using checked(5) by (auto simp: settles_def split: reconciliation_outcome.splits)
  have none: "receipts_at ?i db = []"
    using slice rin checked(4) by (auto simp: slice_ok_def receipts_ok_def reconciling_def)
  have "slice_ok a' (attempts_at ?i db) (row_put rec_id r' (reconciliations_at ?i db)) (receipts_at ?i db')"
    by (rule slice_ok_settle [OF slice u' rin cl id n st'])
      (use new_receipts_at(2,4) [OF checked(11)] ai safe fin none in auto)
  then have "action_slice_ok db' a'" using rec' at' a'i by (simp add: action_slice_ok_def)
  moreover have "action_tables_ok db'"
  proof -
    have "rec_action_id ` set (reconciliations db') = rec_action_id ` set (reconciliations db)"
      using map_put_same [OF u checked(2), of r' rec_action_id] cl unfolding checked(10)
      by (metis closes_reconciliation_def list.set_map)
    moreover have "act_id ` set (actions db') = act_id ` set (actions db)"
      using checked(8) by (simp add: row_put_keys)
    moreover have "rcp_action_id ` set (receipts db') \<subseteq> act_id ` set (actions db)"
      using order_trans [OF new_receipts_at(3) [OF checked(11)]] row_get_key [OF checked(1)] ai inv
      by (simp add: action_inv_def action_tables_ok_def)
    ultimately show ?thesis
      using inv checked(8-10) by (simp add: action_inv_def action_tables_ok_def)
  qed
  ultimately have "action_inv db'" using action_inv_put [OF inv checked(1,8) a'i] only by blast
  moreover have "action_evolves db db'"
    by (rule action_evolves_put [OF checked(1) id _ checked(8)])
      (use checked(7) new_receipts_subset [OF checked(11)] in auto)
  ultimately show ?thesis by simp
qed

section \<open>Manual outcomes and escalation\<close>

lemma manual_action_sel:
  "same_identity a (manual_action now out reason a)"
  "act_status (manual_action now out reason a) = (if out = MO_COMPLETED then AS_COMPLETED else AS_OUTCOME_UNKNOWN)"
  "act_attempt_count (manual_action now out reason a) = act_attempt_count a"
  "act_version (manual_action now out reason a) = act_version a + 1"
  by (simp_all add: manual_action_def same_identity_def)

lemma escalated_action_sel:
  "same_identity a (escalated_action now m reason a)"
  "act_status (escalated_action now m reason a) = AS_RECOVERY_REQUIRED"
  "act_attempt_count (escalated_action now m reason a) = act_attempt_count a"
  "act_version (escalated_action now m reason a) = act_version a + 1"
  by (simp_all add: escalated_action_def same_identity_def)

lemma record_manual_outcome_Inr:
  assumes run: "record_manual_outcome sha now ru au org_pid act_pid actor expected outcome reason corr db
      = Inr (item, db')"
  obtains a member pid where "required_action_for_update org_pid act_pid db = Inr a"
    and "act_version a = expected" and "recovery_status (act_status a)"
    and "\<exists>t. latest_attempt a db = Some t \<and> att_outcome t = AO_UNKNOWN"
    and "row_get rec_id ru (reconciliations db) = None"
    and "actions db' = row_put act_id (manual_action now outcome reason a) (actions db)"
    and "reconciliations db' = reconciliations db @ [new_reconciliation ru pid a member
           (reconciliation_outcome_for_manual_record outcome) reason now]"
    and "attempts db' = attempts db" and "receipts db' = receipts db"
    and "queue_item_of (manual_action now outcome reason a) now db' = Inr item"
proof -
  from run obtain a member where a: "required_action_for_update org_pid act_pid db = Inr a"
    and m: "active_member (act_organization_id a) actor db = Inr member"
    by (auto simp: record_manual_outcome_def run_simps Let_def)
  let ?a' = "manual_action now outcome reason a"
  let ?r = "new_reconciliation ru (stable_public_id sha ''RC''
      [act_public_id a, ''manual'', int_str (act_version a)]) a member
      (reconciliation_outcome_for_manual_record outcome) reason now"
  from run a m obtain db2 db3 where
    adv: "(if outcome = MO_COMPLETED then advance_case_after_completion ?a' now (put_action ?a' db)
           else Inr (put_action ?a' db)) = Inr db2"
    and ins: "insert_reconciliation ?r db2 = Inr db3" and tail: "same_action_tables db3 db'"
    and guards: "act_version a = expected" "recovery_status (act_status a)"
      "\<exists>t. latest_attempt a db = Some t \<and> att_outcome t = AO_UNKNOWN"
      "queue_item_of ?a' now db' = Inr item"
    by (auto simp: record_manual_outcome_def run_simps Let_def split: option.splits
        dest: same_tables_audit)
  have "same_action_tables (put_action ?a' db) db2"
    using adv by (auto split: if_splits dest: same_tables_advance)
  then show thesis
    by (intro that [OF a guards(1-3)]) (use ins tail guards(4) in
      \<open>auto simp: same_action_tables_def insert_reconciliation_def run_simps new_reconciliation_sel\<close>)
qed

lemma record_manual_outcome_step:
  assumes run: "record_manual_outcome sha now ru au org_pid act_pid actor expected outcome reason corr db
      = Inr (item, db')" and inv: "action_inv db"
  shows "action_inv db' \<and> action_evolves db db'"
  using run
proof (cases rule: record_manual_outcome_Inr)
  case (1 a member pid)
  show ?thesis
    by (rule append_reconciliation_step [OF inv required_action_row(1) [OF 1(1) inv] 1(6-9)])
      (use 1(3,5) in \<open>auto simp: manual_action_sel new_reconciliation_sel
        reconciliation_outcome_for_manual_record_def split: if_splits\<close>)
qed

lemma escalate_Inr:
  assumes run: "escalate now au org_pid act_pid actor expected reason corr db = Inr (item, db')"
  obtains a member where "required_action_for_update org_pid act_pid db = Inr a"
    and "act_version a = expected"
    and "act_status a \<in> {AS_FAILED_SAFE, AS_OUTCOME_UNKNOWN, AS_RECOVERY_REQUIRED}"
    and "actions db' = row_put act_id (escalated_action now member reason a) (actions db)"
    and "attempts db' = attempts db" and "reconciliations db' = reconciliations db"
    and "receipts db' = receipts db"
    and "queue_item_of (escalated_action now member reason a) now db' = Inr item"
proof -
  from run obtain a member where
    "required_action_for_update org_pid act_pid db = Inr a" "act_version a = expected"
    "act_status a \<in> {AS_FAILED_SAFE, AS_OUTCOME_UNKNOWN, AS_RECOVERY_REQUIRED}"
    "same_action_tables (put_action (escalated_action now member reason a) db) db'"
    "queue_item_of (escalated_action now member reason a) now db' = Inr item"
    by (auto simp: escalate_def run_simps Let_def dest!: same_tables_audit)
  then show thesis by (intro that) (auto simp: same_action_tables_def)
qed

lemma escalate_step:
  assumes run: "escalate now au org_pid act_pid actor expected reason corr db = Inr (item, db')"
    and inv: "action_inv db"
  shows "action_inv db' \<and> action_evolves db db'"
  using run
proof (cases rule: escalate_Inr)
  case (1 a member)
  let ?a' = "escalated_action now member reason a"
  note row = required_action_row(1) [OF 1(1) inv]
  have same: "attempts_at j db' = attempts_at j db" "reconciliations_at j db' = reconciliations_at j db"
    "receipts_at j db' = receipts_at j db" for j
    using 1 by (simp_all add: slice_defs)
  have id: "act_id ?a' = act_id a" using escalated_action_sel(1) by (simp add: same_identity_def)
  have "action_slice_ok db' ?a'"
    using slice_ok_escalate [OF action_inv_row(1) [OF inv row] 1(3) escalated_action_sel(1,3,2)] same id
    by (simp add: action_slice_ok_def)
  moreover have "action_tables_ok db'"
    using inv 1 by (simp add: action_inv_def action_tables_ok_def row_put_keys)
  ultimately have "action_inv db'"
    using action_inv_put [OF inv row 1(4) id] same by (simp add: only_slice_def)
  moreover have "action_evolves db db'"
    by (rule action_evolves_put [OF row escalated_action_sel(1) _ 1(4)])
      (simp_all add: escalated_action_sel 1(7))
  ultimately show ?thesis by simp
qed

lemma action_get_step:
  assumes "action_get sha now now2 ids org_pid act_pid db = Inr (item, db')" and "action_inv db"
  shows "action_inv db' \<and> action_evolves db db'"
  using assms reconcile_abandoned_step action_evolves_same
  by (fastforce simp: action_get_def run_simps split: option.splits)

section \<open>Materialization\<close>

lemma resolve_for_action_Inr:
  assumes "resolve_for_action sha now uid org org_pid ty db = Inr (c, db')"
  shows "\<exists>rows. db' = db\<lparr>connections := rows\<rparr>"
proof -
  have keep: "\<exists>rows. db = db\<lparr>connections := rows\<rparr>" by (rule exI [of _ "connections db"]) simp
  then show ?thesis
    using assms
    by (auto simp: resolve_for_action_def ensure_unconfigured_connection_def put_connection_def
        insert_connection_def run_simps Let_def split: list.splits option.splits if_splits)
qed

lemma new_action_sel:
  "act_id (new_action sha now u org_pid ap owner c p) = u"
  "act_status (new_action sha now u org_pid ap owner c p) = AS_READY"
  "act_attempt_count (new_action sha now u org_pid ap owner c p) = 0"
  by (simp_all add: new_action_def Let_def)

lemma action_inv_insert:
  assumes inv: "action_inv db" and fresh: "row_get act_id (act_id a) (actions db) = None"
    and st: "act_status a = AS_READY" "act_attempt_count a = 0"
    and acts: "actions db' = actions db @ [a]" and same: "attempts db' = attempts db"
      "reconciliations db' = reconciliations db" "receipts db' = receipts db"
  shows "action_inv db'" and "action_evolves db db'"
proof -
  have new: "act_id a \<notin> act_id ` set (actions db)" using fresh row_get_None by metis
  have tables: "action_tables_ok db" using inv by (simp add: action_inv_def)
  have empty: "attempts_at (act_id a) db' = []" "reconciliations_at (act_id a) db' = []"
    "receipts_at (act_id a) db' = []"
    using tables new same unfolding slice_defs action_tables_ok_def filter_empty_conv
    by (metis image_subset_iff)+
  have "action_slice_ok db' a"
    using empty st by (simp add: action_slice_ok_def slice_ok_def attempts_ok_def reconciliations_ok_def
        receipts_ok_def reconciling_def)
  moreover have "action_slice_ok db' b" if "b \<in> set (actions db)" for b
    using that inv same by (simp add: action_inv_def action_slice_ok_def slice_defs)
  moreover have "action_tables_ok db'"
    using tables acts same fresh by (auto simp: action_tables_ok_def unique_keys_append)
  ultimately show "action_inv db'" using acts by (auto simp: action_inv_def)
  show "action_evolves db db'"
    using acts same fresh by (auto simp: action_evolves_def row_get_append split: option.splits)
qed

lemma materialize_one_step:
  assumes run: "materialize_one sha now fresh org_pid corr ap owner p (created, db) = Inr (created', db')"
    and inv: "action_inv db"
  shows "action_inv db' \<and> action_evolves db db'"
proof (cases "existing_action (ap_review ap) p db")
  case (Some a)
  then show ?thesis using run inv action_evolves_same by (simp add: materialize_one_def)
next
  case None
  then obtain c db1 db2 where
    res: "resolve_for_action sha (mi_connection_now (fresh (pa_id p))) (mi_connection (fresh (pa_id p)))
      (rv_organization_id (ap_review ap)) org_pid (pa_type p) db = Inr (c, db1)"
    and ins: "insert_action (new_action sha now (mi_action (fresh (pa_id p))) org_pid ap owner c p) db1 = Inr db2"
    and tail: "same_action_tables db2 db'"
    using run by (auto simp: materialize_one_def run_simps Let_def dest: same_tables_audit)
  obtain rows where db1: "db1 = db\<lparr>connections := rows\<rparr>" using resolve_for_action_Inr [OF res] by blast
  show ?thesis
    using action_inv_insert [OF inv, of "new_action sha now (mi_action (fresh (pa_id p))) org_pid ap owner c p" db']
      ins tail db1
    by (auto simp: insert_action_def run_simps new_action_sel same_action_tables_def)
qed

lemma materialize_step:
  assumes run: "materialize_approved_review sha now fresh org_pid review_pid corr db = Inr (bundles, db')"
    and inv: "action_inv db"
  shows "action_inv db' \<and> action_evolves db db'"
proof -
  obtain ap owner created where
    fold: "foldE (materialize_one sha now fresh org_pid corr ap owner)
      (reviewed_actions (ap_review ap) db) ([], db) = Inr (created, db')"
    using run by (auto simp: materialize_approved_review_def run_simps Let_def)
  let ?P = "\<lambda>(cs :: case_action list, d). action_inv d \<and> action_evolves db d"
  have "?P (created, db')"
    using fold
  proof (rule foldE_invariant [where P = ?P])
    show "?P ([], db)" using inv action_evolves_same by simp
    show "?P t" if "materialize_one sha now fresh org_pid corr ap owner x s = Inr t" and "?P s" for x s t
      using that materialize_one_step action_evolves_trans by (cases s; cases t) fastforce
  qed
  then show ?thesis by simp
qed

end
