(* ===== verification/Action_System.thy ===== *)
theory Action_System
  imports Recovery_Invariant
begin

text \<open>
  The action repository as a transition system: every committed transaction is a step, in any
  order and interleaved with transactions of other components (which leave the action tables
  alone). The invariant of the action tables holds in every reachable state, and the properties
  of the component follow from it: attempts are exclusive, a write is leased
  only on a current approval, a receipt is final, and the commands are protected against lost updates.
\<close>

section \<open>The transition system\<close>

inductive action_step :: "(string \<Rightarrow> string) \<Rightarrow> database \<Rightarrow> database \<Rightarrow> bool" for sha where
  start: "prepare_execution sha now tu au ids org_pid act_pid actor expected command corr db
    = Inr (lease, db') \<Longrightarrow> action_step sha db db'"
| succeed: "finish_execution_success sha now ru au lease receipt corr db = Inr (item, db')
    \<Longrightarrow> action_step sha db db'"
| fail: "finish_execution_error sha now au lease e corr db = Inr (item, db')
    \<Longrightarrow> action_step sha db db'"
| check: "prepare_reconciliation sha now ru ut au ids org_pid act_pid actor expected corr db
    = Inr (rlease, db') \<Longrightarrow> action_step sha db db'"
| settle: "finish_reconciliation sha now ru au rlease result corr db = Inr (item, db')
    \<Longrightarrow> action_step sha db db'"
| manual: "record_manual_outcome sha now ru au org_pid act_pid actor expected outcome reason corr db
    = Inr (item, db') \<Longrightarrow> action_step sha db db'"
| recover: "escalate now au org_pid act_pid actor expected reason corr db = Inr (item, db')
    \<Longrightarrow> action_step sha db db'"
| read: "action_get sha now now2 ids org_pid act_pid db = Inr (found, db')
    \<Longrightarrow> action_step sha db db'"
| sweep: "reconcile_abandoned sha now ids (scope_organization org) db = Inr db'
    \<Longrightarrow> action_step sha db db'"
| materialize: "materialize_approved_review sha now fresh org_pid review_pid corr db
    = Inr (bundles, db') \<Longrightarrow> action_step sha db db'"
| other: "same_action_tables db db' \<Longrightarrow> action_step sha db db'"

inductive_cases action_stepE: "action_step sha db db'"

lemma action_step_keeps:
  assumes "action_step sha db db'" and "action_inv db"
  shows "action_inv db' \<and> action_evolves db db'"
  using assms
proof (induction rule: action_step.induct)
  case start
  then show ?case by (rule prepare_execution_step)
next
  case succeed
  then show ?case by (rule finish_execution_success_step)
next
  case fail
  then show ?case by (rule finish_execution_error_step)
next
  case check
  then show ?case by (rule prepare_reconciliation_step)
next
  case settle
  then show ?case by (rule finish_reconciliation_step)
next
  case manual
  then show ?case by (rule record_manual_outcome_step)
next
  case recover
  then show ?case by (rule escalate_step)
next
  case read
  then show ?case by (rule action_get_step)
next
  case sweep
  then show ?case using reconcile_abandoned_step by blast
next
  case materialize
  then show ?case by (rule materialize_step)
next
  case other
  then show ?case by (simp add: action_inv_same action_evolves_same)
qed

interpretation act_sys: step_invariant "action_step sha" action_inv for sha
  by unfold_locales (use action_step_keeps in blast)

lemma action_run_evolves:
  assumes "(action_step sha)\<^sup>*\<^sup>* db db'" and "action_inv db"
  shows "action_evolves db db'"
  using assms
proof (induction rule: rtranclp_induct)
  case base
  then show ?case using action_evolves_same by simp
next
  case (step y z)
  then have "action_inv y" using act_sys.along_run by blast
  then show ?case using step action_step_keeps action_evolves_trans by blast
qed

section \<open>Reachable states\<close>

definition no_actions :: "database \<Rightarrow> bool" where
  "no_actions db \<longleftrightarrow> actions db = [] \<and> attempts db = [] \<and> reconciliations db = [] \<and> receipts db = []"

lemma no_actions_inv: "no_actions db \<Longrightarrow> action_inv db"
  by (simp add: no_actions_def action_inv_def action_tables_ok_def unique_keys_def)

lemma reachable_inv: "no_actions db0 \<Longrightarrow> (action_step sha)\<^sup>*\<^sup>* db0 db \<Longrightarrow> action_inv db"
  using act_sys.along_run no_actions_inv by blast

lemma reachable_slice:
  assumes "no_actions db0" and "(action_step sha)\<^sup>*\<^sup>* db0 db"
    and "row_get act_id i (actions db) = Some a"
  shows "slice_ok a (attempts_at i db) (reconciliations_at i db) (receipts_at i db)"
  using action_inv_row(1) [OF reachable_inv [OF assms(1,2)] assms(3)] .

lemma attempts_of_at:
  assumes "attempts_ok a (attempts_at (act_id a) db)"
  shows "attempts_of a db = attempts_at (act_id a) db"
  using assms unfolding attempts_of_def attempts_at_def attempts_ok_def
  by (auto intro!: filter_cong)

lemma receipt_of_at:
  assumes "receipts_ok a rs (receipts_at (act_id a) db)"
  shows "receipt_of a db = None \<longleftrightarrow> receipts_at (act_id a) db = []"
  using assms unfolding receipt_of_def receipts_at_def receipts_ok_def
  by (auto simp: find_None_iff filter_empty_conv)

section \<open>A start meets an unchanged database\<close>

lemma no_candidates:
  assumes "attempts_ok a (attempts_at (act_id a) db)" and "act_status a \<noteq> AS_RUNNING"
  shows "abandoned_candidates (scope_action a) now db = []"
proof -
  have "\<forall>t\<in>set (attempts_at (act_id a) db). att_outcome t \<noteq> AO_RUNNING"
    using assms by (auto simp: attempts_ok_def)
  then have "(i, j) \<notin> set (abandoned_candidates (scope_action a) now db)" for i j
    using candidates_scope [of i j "scope_action a" now db]
    by (auto simp: attempts_at_def scope_action_def)
  then show ?thesis by (metis last_in_set surj_pair)
qed

lemma sweep_idle:
  assumes "attempts_ok a (attempts_at (act_id a) db)" and "act_status a \<noteq> AS_RUNNING"
  shows "reconcile_abandoned sha now ids (scope_action a) db = Inr db"
  by (simp add: reconcile_abandoned_def no_candidates [OF assms])

text \<open>An action that is running is, after the sweep, still running or of unknown outcome.\<close>

definition busy :: "action_status \<Rightarrow> bool" where
  "busy s \<longleftrightarrow> s \<in> {AS_RUNNING, AS_OUTCOME_UNKNOWN}"

lemma abandon_busy:
  assumes run: "abandon_attempt sha now ids (i, j) db = Inr db'" and inv: "action_inv db"
    and cand: "(i, j) \<in> attempt_owner ` set (attempts db)"
    and k: "row_get act_id k (actions db) = Some a" "busy (act_status a)"
  shows "\<exists>a'. row_get act_id k (actions db') = Some a' \<and> busy (act_status a')"
  using run inv cand
proof (cases rule: abandon_attempt_cases)
  case same
  then show ?thesis using k by simp
next
  case (closed t t' b b')
  have "act_id b' = j" using closed(6,12) row_get_Some by (fastforce simp: same_identity_def)
  then show ?thesis using closed k by (auto simp: row_get_put busy_def)
qed

lemma sweep_busy:
  assumes run: "reconcile_abandoned sha now ids scope db = Inr db'" and inv: "action_inv db"
    and k: "row_get act_id k (actions db) = Some a" "busy (act_status a)"
  shows "\<exists>a'. row_get act_id k (actions db') = Some a' \<and> busy (act_status a')"
proof -
  let ?P = "\<lambda>d. action_inv d \<and> map attempt_owner (attempts d) = map attempt_owner (attempts db)
    \<and> (\<exists>a'. row_get act_id k (actions d) = Some a' \<and> busy (act_status a'))"
  have "?P db'"
  proof (rule foldE_invariant [where P = ?P])
    show "foldE (abandon_attempt sha now ids) (abandoned_candidates scope now db) db = Inr db'"
      using run by (simp add: reconcile_abandoned_def)
    show "?P db" using inv k by simp
    show "?P t" if x: "x \<in> set (abandoned_candidates scope now db)"
      and step: "abandon_attempt sha now ids x s = Inr t" and P: "?P s" for x s t
    proof -
      obtain i j where ij: "x = (i, j)" by (cases x)
      have owned: "(i, j) \<in> attempt_owner ` set (attempts s)"
        using x ij candidates_owned P by (metis list.set_map subsetD)
      then show ?thesis
        using abandon_attempt_step(1,3) [OF step [unfolded ij] _ owned]
          abandon_busy [OF step [unfolded ij] _ owned] P by metis
    qed
  qed
  then show ?thesis by blast
qed

lemma prepare_execution_idle:
  assumes run: "prepare_execution sha now tu au ids org_pid act_pid actor expected command corr db
      = Inr (lease, db')" and inv: "action_inv db"
    and found: "required_action_for_update org_pid act_pid db = Inr found"
  shows "reconcile_abandoned sha now ids (scope_action found) db = Inr db"
  using run inv
proof (cases rule: prepare_execution_Inr)
  case (1 f db1 a member c)
  have f: "f = found" using 1(2) found by simp
  note row = required_action_row(1) [OF found inv]
  have "act_status found \<noteq> AS_RUNNING"
  proof
    assume "act_status found = AS_RUNNING"
    then have "busy (act_status a)"
      using sweep_busy [OF 1(3) inv, of "act_id found" found] row 1(6) f by (auto simp: busy_def)
    then show False using require_startable_status [OF 1(11,1)] by (auto simp: busy_def split: if_splits)
  qed
  then show ?thesis
    using action_inv_row(1) [OF inv row] sweep_idle by (simp add: slice_ok_def)
qed

section \<open>What a lease means\<close>

lemma ready_no_attempts: "attempts_ok a ts \<Longrightarrow> act_status a = AS_READY \<Longrightarrow> ts = []"
  by (cases ts) (auto simp: attempts_ok_def)

text \<open>The approval an action may be sent on, spelled out over the rows it names.\<close>

definition approved_for_execution :: "case_action \<Rightarrow> timestamp \<Rightarrow> database \<Rightarrow> bool" where
  "approved_for_execution a now db \<longleftrightarrow>
     (\<exists>review snapshot decision c proposal version.
        row_get rv_id (act_review_id a) (reviews db) = Some review \<and> rv_status review = RS_APPROVED
        \<and> row_get rs_id (act_review_snapshot_id a) (review_snapshots db) = Some snapshot
        \<and> rs_execution_eligible snapshot
        \<and> row_get rvd_id (act_review_decision_id a) (review_decisions db) = Some decision
        \<and> rvd_decision decision = RD_APPROVE
        \<and> rvd_snapshot_fingerprint decision = rs_snapshot_fingerprint snapshot
        \<and> row_get cs_id (act_case_id a) (cases db) = Some c \<and> cs_version c = rs_case_version snapshot
        \<and> row_get prop_id (act_proposal_id a) (proposals db) = Some proposal
        \<and> prop_state proposal = DP_APPROVED
        \<and> prop_current_version proposal = rs_proposal_version snapshot
        \<and> row_get pv_id (act_proposal_version_id a) (proposal_versions db) = Some version
        \<and> pv_version version = rs_proposal_version snapshot)
     \<and> now < act_authorization_expires_at a"

lemma unblocked:
  assumes "effective_blocker a now db = Inr None"
  shows "act_status a \<noteq> AS_COMPLETED" and "receipt_of a db = None"
    and "act_type a \<notin> set retired_action_types" and "approved_for_execution a now db"
    and "\<exists>c. required_connection a db = Inr c \<and> connection_is_eligible c now
      \<and> act_type a \<in> set (cn_action_types c)"
  using assms
  by (auto simp: effective_blocker_def run_simps approval_is_current_def approved_for_execution_def
      split: if_splits option.splits)

text \<open>C1. No write without a current approval. A lease to send an action to its target is
  handed out only when the action was read at the version the caller names, was never
  completed and has no receipt, its approval (the review, the decision bound to the same
  snapshot, the case version and the proposal version the reviewer saw) is still current and
  has not expired, and its connection was found healthy within the last fifteen minutes; the
  first attempt starts from \<open>ready\<close> with no attempt before it, and a retry from \<open>failed_safe\<close>
  with recorded proof that nothing was changed. The lease carries the approved payload and the
  action's own idempotency key, and the action is marked running under the next version.\<close>

theorem prepare_execution_safe:
  assumes run: "prepare_execution sha now tu au ids org_pid act_pid actor expected command corr db
      = Inr (lease, db')" and inv: "action_inv db"
  shows "\<exists>a c. scoped_action org_pid act_pid db = Some a \<and> act_version a = expected
    \<and> approved_for_execution a now db
    \<and> receipts_at (act_id a) db = []
    \<and> (command = CMD_EXECUTE \<and> act_status a = AS_READY \<and> attempts_at (act_id a) db = []
       \<or> command = CMD_RETRY_SAFE \<and> act_status a = AS_FAILED_SAFE \<and> retry_is_safe a db
         \<and> no_change_proof a (attempts_at (act_id a) db) (reconciliations_at (act_id a) db))
    \<and> required_connection a db = Inr c \<and> cn_health c = HEALTHY
    \<and> (\<exists>t. cn_last_checked_at c = Some t \<and> now - minutes 15 < t)
    \<and> el_action_id lease = act_id a \<and> el_action_type lease = act_type a
    \<and> el_target lease = act_target a \<and> el_parameters lease = act_typed_parameters a
    \<and> el_idempotency_key lease = act_idempotency_key a
    \<and> el_adapter_key lease = cn_adapter_key c
    \<and> (\<exists>a'. row_get act_id (act_id a) (actions db') = Some a' \<and> act_status a' = AS_RUNNING
          \<and> act_version a' = expected + 1 \<and> act_attempt_count a' = act_attempt_count a + 1)"
  using run inv
proof (cases rule: prepare_execution_Inr)
  case (1 found db1 a member c)
  have "db1 = db" using prepare_execution_idle [OF run inv 1(2)] 1(3) by simp
  note row = required_action_row [OF 1(2) inv]
  have a: "found = a" using row(1) 1(6) \<open>db1 = db\<close> by simp
  note slice = action_inv_row(1) [OF inv row(1) [unfolded a]]
  note st = require_startable_status [OF 1(11,1) [unfolded \<open>db1 = db\<close>]]
  note un = unblocked [OF 1(10) [unfolded \<open>db1 = db\<close>]]
  have c: "required_connection a db = Inr c \<and> connection_is_eligible c now"
    using un(5) 1(13) \<open>db1 = db\<close> by auto
  have first: "attempts_at (act_id a) db = []" if "act_status a = AS_READY"
    using slice that unfolding slice_ok_def by (blast intro: ready_no_attempts)
  have rcp: "receipts_at (act_id a) db = []"
    using un(2) slice receipt_of_at by (auto simp: slice_ok_def)
  have row': "row_get act_id (act_id a) (actions db') = Some (started_action now member a)"
    using 1(15) row(1) a \<open>db1 = db\<close> started_action_sel(1) [of a now member]
    by (simp add: row_get_put same_identity_def)
  show ?thesis
    by (rule exI [of _ a], rule exI [of _ c])
      (use row(3) a 1 un(4) rcp st first slice c row' \<open>db1 = db\<close> in
        \<open>auto simp: started_action_sel slice_ok_def connection_is_eligible_def
          connection_health_max_age_minutes_def split: option.splits if_splits\<close>)
qed

section \<open>Exclusive attempts, final receipts\<close>

text \<open>C2. In every state reachable from a database without actions, through any interleaving
  of the commands with each other and with other transactions: an action has at most one
  attempt in flight, and exactly then its status is \<open>running\<close>; attempts are numbered without
  repetition up to the action's counter; at most one reconciliation is in flight; at most one
  receipt is recorded, and only on a completed action with no check in flight; and
  \<open>failed_safe\<close> is backed by recorded proof that nothing was changed.\<close>

theorem action_tables_consistent:
  assumes "no_actions db0" and "(action_step sha)\<^sup>*\<^sup>* db0 db" and "a \<in> set (actions db)"
  shows "length (filter (\<lambda>t. att_outcome t = AO_RUNNING) (attempts_at (act_id a) db))
           = (if act_status a = AS_RUNNING then 1 else 0)
    \<and> distinct (map att_number (attempts_at (act_id a) db))
    \<and> (\<forall>t\<in>set (attempts_at (act_id a) db). 1 \<le> att_number t \<and> att_number t \<le> act_attempt_count a)
    \<and> length (filter (\<lambda>r. rec_outcome r = RO_RUNNING) (reconciliations_at (act_id a) db)) \<le> 1
    \<and> length (receipts_at (act_id a) db) \<le> 1
    \<and> (receipts_at (act_id a) db \<noteq> [] \<longrightarrow> act_status a = AS_COMPLETED
         \<and> \<not> reconciling (reconciliations_at (act_id a) db))
    \<and> (act_status a = AS_FAILED_SAFE \<longrightarrow>
         no_change_proof a (attempts_at (act_id a) db) (reconciliations_at (act_id a) db))"
proof -
  let ?ts = "attempts_at (act_id a) db"
  have inv: "action_inv db" by (rule reachable_inv [OF assms(1,2)])
  then have ok: "slice_ok a ?ts (reconciliations_at (act_id a) db) (receipts_at (act_id a) db)"
    using assms(3) by (simp add: action_inv_def action_slice_ok_def)
  have one: "length (filter (\<lambda>t. att_outcome t = AO_RUNNING) ?ts)
      = (if act_status a = AS_RUNNING then 1 else 0)"
  proof (cases "act_status a = AS_RUNNING")
    case True
    then obtain t where t: "t \<in> set ?ts" "att_outcome t = AO_RUNNING"
      using ok unfolding slice_ok_def attempts_ok_def by blast
    have "x = t" if "x \<in> set ?ts" "att_outcome x = AO_RUNNING" for x
      using running_unique [of a ?ts x t] that t ok by (simp add: slice_ok_def)
    then have "set (filter (\<lambda>t. att_outcome t = AO_RUNNING) ?ts) = {t}"
      unfolding set_filter using t by blast
    moreover have "distinct ?ts" using ok by (simp add: slice_ok_def attempts_ok_def distinct_map)
    ultimately show ?thesis using True distinct_card [of "filter (\<lambda>t. att_outcome t = AO_RUNNING) ?ts"]
      by simp
  next
    case False
    then have "filter (\<lambda>t. att_outcome t = AO_RUNNING) ?ts = []"
      using ok unfolding slice_ok_def attempts_ok_def filter_empty_conv by blast
    then show ?thesis using False by simp
  qed
  then show ?thesis
    using ok by (simp add: slice_ok_def attempts_ok_def reconciliations_ok_def receipts_ok_def)
qed

lemma prepare_execution_refused:
  assumes inv: "action_inv db" and a: "scoped_action org_pid act_pid db = Some a"
    and st: "act_status a \<in> {AS_RUNNING, AS_OUTCOME_UNKNOWN, AS_RECOVERY_REQUIRED, AS_COMPLETED}"
  shows "\<exists>e. prepare_execution sha now tu au ids org_pid act_pid actor expected command corr db = Inl e"
proof (cases "prepare_execution sha now tu au ids org_pid act_pid actor expected command corr db")
  case (Inr res)
  then obtain lease db' where run: "prepare_execution sha now tu au ids org_pid act_pid actor expected
      command corr db = Inr (lease, db')" by (cases res) simp
  from run inv show ?thesis
  proof (cases rule: prepare_execution_Inr)
    case (1 found db1 b member c)
    have "reconcile_abandoned sha now ids (scope_action found) db = Inr db"
      by (rule prepare_execution_idle [OF run inv 1(2)])
    then have "db1 = db" using 1(3) by simp
    then have "b = a"
      using required_action_row [OF 1(2) inv] 1(6) a by simp
    then show ?thesis using require_startable_status [OF 1(11,1)] st by (auto split: if_splits)
  qed
qed blast

text \<open>C7. A receipt is final: once a target receipt is recorded for an action, then after any
  further commands the receipt is still there, the action is completed, every blocker check
  reports \<open>duplicate\<close>, and no attempt can be leased.\<close>

theorem receipt_is_final:
  assumes inv: "action_inv db" and rcp: "c \<in> set (receipts db)"
    and run: "(action_step sha)\<^sup>*\<^sup>* db db'"
  shows "c \<in> set (receipts db') \<and> (\<exists>a. row_get act_id (rcp_action_id c) (actions db') = Some a
    \<and> act_status a = AS_COMPLETED \<and> effective_blocker a now db' = Inr (Some BL_DUPLICATE))"
proof -
  have inv': "action_inv db'" by (rule act_sys.along_run [OF run inv])
  have c': "c \<in> set (receipts db')"
    using action_run_evolves [OF run inv] rcp by (auto simp: action_evolves_def)
  then have "rcp_action_id c \<in> act_id ` set (actions db')"
    using inv' by (auto simp: action_inv_def action_tables_ok_def)
  then obtain a where a: "row_get act_id (rcp_action_id c) (actions db') = Some a"
    using row_get_None [of act_id "rcp_action_id c" "actions db'"] by fastforce
  have "receipts_at (rcp_action_id c) db' \<noteq> []"
    using c' by (auto simp: receipts_at_def filter_empty_conv)
  then have "act_status a = AS_COMPLETED"
    using action_inv_row(1) [OF inv' a] by (simp add: slice_ok_def receipts_ok_def)
  then show ?thesis using c' a by (simp add: effective_blocker_def)
qed

section \<open>Lost updates\<close>

lemma scoped_action_row:
  assumes "scoped_action org_pid act_pid db = Some a" and "action_inv db"
  shows "row_get act_id (act_id a) (actions db) = Some a"
proof -
  have "a \<in> set (actions db)" using assms(1) by (auto simp: scoped_action_def find_Some_iff)
  then show ?thesis
    using assms(2) row_get_unique by (auto simp: action_inv_def action_tables_ok_def)
qed

text \<open>The four commands that carry a version, as one type of request.\<close>

record request_context =
  rq_now :: timestamp
  rq_row :: uuid
  rq_audit :: uuid
  rq_audit_ids :: "uuid \<Rightarrow> uuid"
  rq_uuid_text :: string
  rq_organization :: string
  rq_action :: string
  rq_actor :: string
  rq_expected_version :: int
  rq_correlation :: string

datatype action_request =
    ExecuteRequest (request_of: request_context) action_command
  | ReconcileRequest (request_of: request_context)
  | ManualRequest (request_of: request_context) manual_action_outcome string
  | EscalateRequest (request_of: request_context) string

fun run_request :: "(string \<Rightarrow> string) \<Rightarrow> action_request \<Rightarrow> database \<Rightarrow> error + unit \<times> database" where
  "run_request sha (ExecuteRequest q command) db =
     bindE (prepare_execution sha (rq_now q) (rq_row q) (rq_audit q) (rq_audit_ids q)
              (rq_organization q) (rq_action q) (rq_actor q) (rq_expected_version q) command
              (rq_correlation q) db) (\<lambda>(_, db'). Inr ((), db'))"
| "run_request sha (ReconcileRequest q) db =
     bindE (prepare_reconciliation sha (rq_now q) (rq_row q) (rq_uuid_text q) (rq_audit q)
              (rq_audit_ids q) (rq_organization q) (rq_action q) (rq_actor q)
              (rq_expected_version q) (rq_correlation q) db) (\<lambda>(_, db'). Inr ((), db'))"
| "run_request sha (ManualRequest q outcome reason) db =
     bindE (record_manual_outcome sha (rq_now q) (rq_row q) (rq_audit q) (rq_organization q)
              (rq_action q) (rq_actor q) (rq_expected_version q) outcome reason
              (rq_correlation q) db) (\<lambda>(_, db'). Inr ((), db'))"
| "run_request sha (EscalateRequest q reason) db =
     bindE (escalate (rq_now q) (rq_audit q) (rq_organization q) (rq_action q) (rq_actor q)
              (rq_expected_version q) reason (rq_correlation q) db) (\<lambda>(_, db'). Inr ((), db'))"

definition request_target :: "action_request \<Rightarrow> database \<Rightarrow> uuid option" where
  "request_target q db =
     map_option act_id (scoped_action (rq_organization (request_of q)) (rq_action (request_of q)) db)"

definition action_version_at :: "uuid \<Rightarrow> database \<Rightarrow> int" where
  "action_version_at i db = (case row_get act_id i (actions db) of None \<Rightarrow> 0 | Some a \<Rightarrow> act_version a)"

lemma version_after_put:
  assumes "row_get act_id i (actions db1) = Some a" and "same_identity a a'"
    and "actions db' = row_put act_id a' (actions db1)"
  shows "action_version_at i db' = act_version a'"
proof -
  have "act_id a' = i" using assms(1,2) row_get_Some by (fastforce simp: same_identity_def)
  then show ?thesis using assms(1,3) by (simp add: action_version_at_def row_get_put)
qed

lemma run_request_accepted:
  assumes inv: "action_inv db" and run: "run_request sha q db = Inr (u, db')"
  shows "\<exists>k. request_target q db = Some k
    \<and> action_version_at k db \<le> rq_expected_version (request_of q)
    \<and> rq_expected_version (request_of q) < action_version_at k db'"
proof -
  have target: "request_target q db = Some (act_id f) \<and> action_version_at (act_id f) db = act_version f"
    if "required_action_for_update (rq_organization (request_of q)) (rq_action (request_of q)) db = Inr f" for f
    using required_action_row [OF that inv] by (simp add: request_target_def action_version_at_def)
  show ?thesis
  proof (cases q)
    case (ExecuteRequest c command)
    then obtain lease where "prepare_execution sha (rq_now c) (rq_row c) (rq_audit c) (rq_audit_ids c)
        (rq_organization c) (rq_action c) (rq_actor c) (rq_expected_version c) command
        (rq_correlation c) db = Inr (lease, db')"
      using run by (auto simp: run_simps)
    from this inv show ?thesis
    proof (cases rule: prepare_execution_Inr)
      case (1 f db1 a m cn)
      then show ?thesis
        using target [of f] version_after_put [OF 1(6) started_action_sel(1) 1(15)] ExecuteRequest
        by (simp add: started_action_sel)
    qed
  next
    case (ReconcileRequest c)
    then obtain lease where "prepare_reconciliation sha (rq_now c) (rq_row c) (rq_uuid_text c)
        (rq_audit c) (rq_audit_ids c) (rq_organization c) (rq_action c) (rq_actor c)
        (rq_expected_version c) (rq_correlation c) db = Inr (lease, db')"
      using run by (auto simp: run_simps)
    from this inv show ?thesis
    proof (cases rule: prepare_reconciliation_Inr)
      case (1 f db1 a m cn pid)
      then show ?thesis
        using target [of f] version_after_put [OF 1(5) _ 1(16)] ReconcileRequest
        by (simp add: same_identity_def)
    qed
  next
    case (ManualRequest c outcome reason)
    then obtain item where "record_manual_outcome sha (rq_now c) (rq_row c) (rq_audit c)
        (rq_organization c) (rq_action c) (rq_actor c) (rq_expected_version c) outcome reason
        (rq_correlation c) db = Inr (item, db')"
      using run by (auto simp: run_simps)
    then show ?thesis
    proof (cases rule: record_manual_outcome_Inr)
      case (1 f m pid)
      then show ?thesis
        using target [of f] ManualRequest
          version_after_put [OF required_action_row(1) [OF 1(1) inv] manual_action_sel(1) 1(6)]
        by (simp add: manual_action_sel)
    qed
  next
    case (EscalateRequest c reason)
    then obtain item where "escalate (rq_now c) (rq_audit c) (rq_organization c) (rq_action c)
        (rq_actor c) (rq_expected_version c) reason (rq_correlation c) db = Inr (item, db')"
      using run by (auto simp: run_simps)
    then show ?thesis
    proof (cases rule: escalate_Inr)
      case (1 f m)
      then show ?thesis
        using target [of f] EscalateRequest
          version_after_put [OF required_action_row(1) [OF 1(1) inv] escalated_action_sel(1) 1(4)]
        by (simp add: escalated_action_sel)
    qed
  qed
qed

interpretation act_lock: version_guarded "run_request sha" request_target action_version_at
  "\<lambda>q. rq_expected_version (request_of q)" action_inv for sha
  by unfold_locales (rule run_request_accepted)

lemma action_version_mono:
  assumes "(action_step sha)\<^sup>*\<^sup>* db db'" and "action_inv db"
    and "row_get act_id i (actions db) = Some a"
  shows "action_version_at i db \<le> action_version_at i db'"
proof -
  obtain a' where "row_get act_id i (actions db') = Some a'" "act_version a \<le> act_version a'"
    using action_run_evolves [OF assms(1,2)] assms(3) unfolding action_evolves_def by blast
  then show ?thesis using assms(3) by (simp add: action_version_at_def)
qed

lemma run_request_step: "run_request sha q db = Inr (u, db') \<Longrightarrow> action_step sha db db'"
  by (cases q) (auto simp: run_simps intro: action_step.start action_step.check action_step.manual
      action_step.recover)

text \<open>C8. No lost update: when a command that carries version \<open>v\<close> of an action was accepted,
  every later command on the same action that carries \<open>v\<close> or an older version is refused,
  whatever ran in between.\<close>

theorem action_commands_no_lost_update:
  assumes inv: "action_inv db" and first: "run_request sha q db = Inr ((), db1)"
    and target: "request_target q db = Some k"
    and between: "(action_step sha)\<^sup>*\<^sup>* db1 db2"
    and again: "request_target q' db2 = Some k"
    and old: "rq_expected_version (request_of q') \<le> rq_expected_version (request_of q)"
  shows "\<exists>e. run_request sha q' db2 = Inl e"
proof -
  have step: "action_inv db1 \<and> action_evolves db db1"
    by (rule action_step_keeps [OF run_request_step [OF first] inv])
  obtain f where "scoped_action (rq_organization (request_of q)) (rq_action (request_of q)) db = Some f"
    and "act_id f = k" using target by (auto simp: request_target_def)
  then have "row_get act_id k (actions db) = Some f" using scoped_action_row [OF _ inv] by blast
  then obtain a where a: "row_get act_id k (actions db1) = Some a"
    using step unfolding action_evolves_def by blast
  have inv1: "action_inv db1" using step by blast
  show ?thesis
    by (rule act_lock.no_lost_update [OF inv act_sys.along_run [OF between inv1] first target
          action_version_mono [OF between inv1 a] again old])
qed

end
