(* ===== verification/Lifecycle.thy ===== *)
theory Lifecycle
  imports Action_System
begin

text \<open>
  What the action tables implement: a small state machine per action. A state of the machine is the
  status, the number of attempts, whether a check of the target is in flight and whether a receipt is
  recorded; \<open>life_move\<close> is the machine, a partial function of one event. Every transaction of the
  repository carries a label, and \<open>tx_events\<close> says which events it means for which action: one, or
  none, or, for a check that first marks an abandoned attempt, two. The refinement is functional: the
  state after the transaction is the state the machine computes from exactly these events.
\<close>

section \<open>The specification\<close>

record lifecycle =
  lc_status :: action_status
  lc_attempts :: int
  lc_checking :: bool
  lc_receipt :: bool

datatype life_event =
    Begin action_command
  | Confirm | Refuse | Lose
  | BeginCheck | FoundDone | FoundAbsent | FoundNothing
  | StateDone | StateOpen | Escalate

definition in_doubt :: "lifecycle \<Rightarrow> bool" where
  "in_doubt s \<longleftrightarrow> lc_status s = AS_OUTCOME_UNKNOWN \<or> lc_status s = AS_RECOVERY_REQUIRED"

definition guarded :: "bool \<Rightarrow> lifecycle \<Rightarrow> lifecycle option" where
  "guarded b s = (if b then Some s else None)"

fun life_move :: "life_event \<Rightarrow> lifecycle \<Rightarrow> lifecycle option" where
  "life_move (Begin command) s =
     guarded ((command = CMD_EXECUTE \<and> lc_status s = AS_READY \<and> lc_attempts s = 0
              \<or> command = CMD_RETRY_SAFE \<and> lc_status s = AS_FAILED_SAFE \<and> 0 < lc_attempts s)
            \<and> \<not> lc_checking s \<and> \<not> lc_receipt s)
       (s\<lparr>lc_status := AS_RUNNING, lc_attempts := lc_attempts s + 1\<rparr>)"
| "life_move Confirm s =
     guarded (lc_status s = AS_RUNNING \<and> \<not> lc_receipt s) (s\<lparr>lc_status := AS_COMPLETED, lc_receipt := True\<rparr>)"
| "life_move Refuse s = guarded (lc_status s = AS_RUNNING) (s\<lparr>lc_status := AS_FAILED_SAFE\<rparr>)"
| "life_move Lose s = guarded (lc_status s = AS_RUNNING) (s\<lparr>lc_status := AS_OUTCOME_UNKNOWN\<rparr>)"
| "life_move BeginCheck s = guarded (in_doubt s \<and> \<not> lc_checking s) (s\<lparr>lc_checking := True\<rparr>)"
| "life_move FoundDone s = guarded (lc_checking s \<and> \<not> lc_receipt s)
     (s\<lparr>lc_status := AS_COMPLETED, lc_checking := False, lc_receipt := True\<rparr>)"
| "life_move FoundAbsent s = guarded (lc_checking s \<and> \<not> lc_receipt s)
     (s\<lparr>lc_status := AS_FAILED_SAFE, lc_checking := False\<rparr>)"
| "life_move FoundNothing s = guarded (lc_checking s \<and> \<not> lc_receipt s)
     (s\<lparr>lc_status := AS_OUTCOME_UNKNOWN, lc_checking := False\<rparr>)"
| "life_move StateDone s = guarded (in_doubt s) (s\<lparr>lc_status := AS_COMPLETED\<rparr>)"
| "life_move StateOpen s = guarded (in_doubt s) (s\<lparr>lc_status := AS_OUTCOME_UNKNOWN\<rparr>)"
| "life_move Escalate s = guarded (in_doubt s \<or> lc_status s = AS_FAILED_SAFE)
     (s\<lparr>lc_status := AS_RECOVERY_REQUIRED\<rparr>)"

fun life_moves :: "life_event list \<Rightarrow> lifecycle \<Rightarrow> lifecycle option" where
  "life_moves [] s = Some s"
| "life_moves (e # es) s = (case life_move e s of None \<Rightarrow> None | Some t \<Rightarrow> life_moves es t)"

lemmas move_simps = guarded_def in_doubt_def

definition initial_life :: lifecycle where
  "initial_life = \<lparr>lc_status = AS_READY, lc_attempts = 0, lc_checking = False, lc_receipt = False\<rparr>"

section \<open>Labelled transactions\<close>

datatype action_tx =
    StartTx string string action_command
  | SuccessTx execution_lease
  | FailureTx execution_lease gateway_error
  | CheckTx string string timestamp
  | SettleTx reconciliation_lease lookup_result
  | ManualTx string string manual_action_outcome
  | EscalateTx string string
  | ReadTx string string timestamp
  | SweepTx uuid timestamp
  | MaterializeTx
  | OtherTx

inductive action_tx_step :: "(string \<Rightarrow> string) \<Rightarrow> action_tx \<Rightarrow> database \<Rightarrow> database \<Rightarrow> bool" for sha where
  start_tx: "prepare_execution sha now tu au ids org_pid act_pid actor expected command corr db
    = Inr (lease, db') \<Longrightarrow> action_tx_step sha (StartTx org_pid act_pid command) db db'"
| success_tx: "finish_execution_success sha now ru au lease receipt corr db = Inr (item, db')
    \<Longrightarrow> action_tx_step sha (SuccessTx lease) db db'"
| failure_tx: "finish_execution_error sha now au lease e corr db = Inr (item, db')
    \<Longrightarrow> action_tx_step sha (FailureTx lease e) db db'"
| check_tx: "prepare_reconciliation sha now ru ut au ids org_pid act_pid actor expected corr db
    = Inr (rlease, db') \<Longrightarrow> action_tx_step sha (CheckTx org_pid act_pid now) db db'"
| settle_tx: "finish_reconciliation sha now ru au rlease result corr db = Inr (item, db')
    \<Longrightarrow> action_tx_step sha (SettleTx rlease result) db db'"
| manual_tx: "record_manual_outcome sha now ru au org_pid act_pid actor expected outcome reason corr db
    = Inr (item, db') \<Longrightarrow> action_tx_step sha (ManualTx org_pid act_pid outcome) db db'"
| recover_tx: "escalate now au org_pid act_pid actor expected reason corr db = Inr (item, db')
    \<Longrightarrow> action_tx_step sha (EscalateTx org_pid act_pid) db db'"
| read_tx: "action_get sha now now2 ids org_pid act_pid db = Inr (found, db')
    \<Longrightarrow> action_tx_step sha (ReadTx org_pid act_pid now) db db'"
| sweep_tx: "reconcile_abandoned sha now ids (scope_organization org) db = Inr db'
    \<Longrightarrow> action_tx_step sha (SweepTx org now) db db'"
| materialize_tx: "materialize_approved_review sha now fresh org_pid review_pid corr db
    = Inr (bundles, db') \<Longrightarrow> action_tx_step sha MaterializeTx db db'"
| other_tx: "same_action_tables db db' \<Longrightarrow> action_tx_step sha OtherTx db db'"

inductive_cases failure_txE: "action_tx_step sha (FailureTx lease e) db db'"
inductive_cases settle_txE: "action_tx_step sha (SettleTx lease result) db db'"

text \<open>The labels leave no transaction out.\<close>

lemma action_step_labelled: "action_step sha db db' \<longleftrightarrow> (\<exists>tx. action_tx_step sha tx db db')"
proof
  show "action_step sha db db' \<Longrightarrow> \<exists>tx. action_tx_step sha tx db db'"
    by (induction rule: action_step.induct) (blast intro: action_tx_step.intros)+
  assume "\<exists>tx. action_tx_step sha tx db db'"
  then obtain tx where "action_tx_step sha tx db db'" by blast
  then show "action_step sha db db'"
    by (induction rule: action_tx_step.induct) (blast intro: action_step.intros)+
qed

text \<open>What a transaction finds: the attempt or the check its lease names is still open, a running
  attempt is past its five minutes, the public id names the action \<open>k\<close>.\<close>

definition attempt_open :: "execution_lease \<Rightarrow> database \<Rightarrow> bool" where
  "attempt_open lease db \<longleftrightarrow> (\<exists>t\<in>set (attempts db). att_id t = el_attempt_id lease
     \<and> att_action_id t = el_action_id lease \<and> att_outcome t = AO_RUNNING)"

definition check_open :: "reconciliation_lease \<Rightarrow> database \<Rightarrow> bool" where
  "check_open lease db \<longleftrightarrow> (\<exists>r\<in>set (reconciliations db). rec_id r = rl_reconciliation_id lease
     \<and> rec_action_id r = rl_action_id lease \<and> rec_outcome r = RO_RUNNING)"

definition overdue :: "(action_attempt \<Rightarrow> bool) \<Rightarrow> uuid \<Rightarrow> timestamp \<Rightarrow> database \<Rightarrow> bool" where
  "overdue scope k now db \<longleftrightarrow> (\<exists>t\<in>set (attempts_at k db). att_outcome t = AO_RUNNING
     \<and> att_started_at t \<le> now - minutes abandoned_action_minutes \<and> scope t)"

definition addressed :: "string \<Rightarrow> string \<Rightarrow> uuid \<Rightarrow> database \<Rightarrow> bool" where
  "addressed org_pid act_pid k db \<longleftrightarrow>
     (case scoped_action org_pid act_pid db of None \<Rightarrow> False | Some a \<Rightarrow> act_id a = k)"

definition failure_event :: "gateway_error \<Rightarrow> life_event" where
  "failure_event e =
     (if ge_side_effect_state e = SE_NOT_ATTEMPTED \<or> ge_side_effect_state e = SE_NONE then Refuse else Lose)"

definition lookup_event :: "lookup_result \<Rightarrow> life_event" where
  "lookup_event result =
     (if lr_found result = Some True then FoundDone
      else if lr_found result = Some False \<and> lr_absence_is_terminal result then FoundAbsent
      else FoundNothing)"

fun tx_events :: "action_tx \<Rightarrow> uuid \<Rightarrow> database \<Rightarrow> life_event list" where
  "tx_events (StartTx org_pid act_pid command) k db =
     (if addressed org_pid act_pid k db then [Begin command] else [])"
| "tx_events (SuccessTx lease) k db =
     (if k = el_action_id lease \<and> attempt_open lease db then [Confirm] else [])"
| "tx_events (FailureTx lease e) k db =
     (if k = el_action_id lease \<and> attempt_open lease db then [failure_event e] else [])"
| "tx_events (CheckTx org_pid act_pid now) k db =
     (if addressed org_pid act_pid k db
      then (if overdue (\<lambda>_. True) k now db then [Lose] else []) @ [BeginCheck] else [])"
| "tx_events (SettleTx lease result) k db =
     (if k = rl_action_id lease \<and> check_open lease db then [lookup_event result] else [])"
| "tx_events (ManualTx org_pid act_pid outcome) k db =
     (if addressed org_pid act_pid k db
      then [if outcome = MO_COMPLETED then StateDone else StateOpen] else [])"
| "tx_events (EscalateTx org_pid act_pid) k db =
     (if addressed org_pid act_pid k db then [Escalate] else [])"
| "tx_events (ReadTx org_pid act_pid now) k db =
     (if addressed org_pid act_pid k db \<and> overdue (\<lambda>_. True) k now db then [Lose] else [])"
| "tx_events (SweepTx org now) k db = (if overdue (scope_organization org) k now db then [Lose] else [])"
| "tx_events MaterializeTx k db = []"
| "tx_events OtherTx k db = []"

section \<open>The abstraction\<close>

definition view :: "case_action \<Rightarrow> action_reconciliation list \<Rightarrow> action_receipt list \<Rightarrow> lifecycle" where
  "view a rs cs = \<lparr>lc_status = act_status a, lc_attempts = act_attempt_count a,
     lc_checking = reconciling rs, lc_receipt = (cs \<noteq> [])\<rparr>"

definition life :: "uuid \<Rightarrow> database \<Rightarrow> lifecycle option" where
  "life i db = map_option (\<lambda>a. view a (reconciliations_at i db) (receipts_at i db))
     (row_get act_id i (actions db))"

text \<open>The machine makes exactly the given moves; on an action that does not exist there are none.\<close>

definition life_does :: "life_event list \<Rightarrow> lifecycle option \<Rightarrow> lifecycle option \<Rightarrow> bool" where
  "life_does es s t \<longleftrightarrow> (case s of
       None \<Rightarrow> es = [] \<and> t = None
     | Some x \<Rightarrow> (\<exists>y. life_moves es x = Some y \<and> t = Some y))"

lemma life_does_refl [simp]: "life_does [] s s"
  by (simp add: life_does_def split: option.split)

lemma life_moves_append: "life_moves (es @ fs) s = Option.bind (life_moves es s) (life_moves fs)"
  by (induction es arbitrary: s) (auto split: option.split)

lemma life_does_append: "life_does es s t \<Longrightarrow> life_does fs t u \<Longrightarrow> life_does (es @ fs) s u"
  unfolding life_does_def by (auto simp: life_moves_append split: option.splits)

lemma life_same: "same_action_tables db db' \<Longrightarrow> life i db' = life i db"
  by (simp add: same_action_tables_def life_def slice_defs)

lemma life_put:
  assumes "row_get act_id i (actions db) = Some a" and "actions db' = row_put act_id a' (actions db)"
    and "act_id a' = i" and "only_slice i db db'"
  shows "life k db' = (if k = i then Some (view a' (reconciliations_at i db') (receipts_at i db'))
           else life k db)"
  using assms by (simp add: life_def only_slice_def row_get_put)

text \<open>Events of the action \<open>i\<close> and none of the others.\<close>

lemma life_does_put:
  assumes "row_get act_id i (actions db) = Some a" and "actions db' = row_put act_id a' (actions db)"
    and "act_id a' = i" and "only_slice i db db'"
    and "life_moves es (view a (reconciliations_at i db) (receipts_at i db))
           = Some (view a' (reconciliations_at i db') (receipts_at i db'))"
  shows "life_does (if k = i then es else []) (life k db) (life k db')"
proof (cases "k = i")
  case True
  then show ?thesis using life_put [OF assms(1-4)] assms(1,5) by (simp add: life_def life_does_def)
next
  case False
  then show ?thesis using life_put [OF assms(1-4)] by simp
qed

lemma view_running:
  assumes "slice_ok a ts rs cs" and "t \<in> set ts" and "att_outcome t = AO_RUNNING"
  shows "view a rs cs = \<lparr>lc_status = AS_RUNNING, lc_attempts = act_attempt_count a,
    lc_checking = False, lc_receipt = False\<rparr>"
  using running_slice [OF assms] by (simp add: view_def)

lemma addressed_row:
  assumes "required_action_for_update org_pid act_pid db = Inr a" and "action_inv db"
  shows "addressed org_pid act_pid k db \<longleftrightarrow> k = act_id a"
  using required_action_row(3) [OF assms] by (auto simp: addressed_def)

lemma row_of_key_unique:
  "unique_keys key rows \<Longrightarrow> x \<in> set rows \<Longrightarrow> y \<in> set rows \<Longrightarrow> key x = key y \<Longrightarrow> x = y"
  unfolding unique_keys_def by (meson distinct_map inj_onD)

lemma map_fixed: "map f xs = xs \<Longrightarrow> x \<in> set xs \<Longrightarrow> f x = x"
  by (induction xs) auto

lemma open_attempt:
  assumes "execution_models lease db = Inr (a, t)" and "action_inv db"
  shows "attempt_open lease db \<longleftrightarrow> att_outcome t = AO_RUNNING"
proof -
  note em = execution_models_Inr [OF assms(1)]
  have "x = t" if "x \<in> set (attempts db)" "att_id x = el_attempt_id lease" for x
    using that em(2,4) assms(2) row_of_key_unique [of att_id "attempts db" x t]
    by (simp add: action_inv_def action_tables_ok_def)
  then show ?thesis using em unfolding attempt_open_def by blast
qed

lemma open_check:
  assumes "r \<in> set (reconciliations db)" and "rec_id r = rl_reconciliation_id lease"
    and "rec_action_id r = rl_action_id lease" and "action_inv db"
  shows "check_open lease db \<longleftrightarrow> rec_outcome r = RO_RUNNING"
proof -
  have "x = r" if "x \<in> set (reconciliations db)" "rec_id x = rl_reconciliation_id lease" for x
    using that assms row_of_key_unique [of rec_id "reconciliations db" x r]
    by (simp add: action_inv_def action_tables_ok_def)
  then show ?thesis using assms(1-3) unfolding check_open_def by blast
qed

section \<open>Closing an attempt\<close>

lemma only_slice_close:
  assumes "action_inv db" and "t \<in> set (attempts db)" and "closes_attempt t t'"
    and "attempts db' = row_put att_id t' (attempts db)"
    and "reconciliations db' = reconciliations db" and "new_receipts a db db'"
    and "att_action_id t = act_id a"
  shows "only_slice (act_id a) db db'"
proof -
  have u: "unique_keys att_id (attempts db)"
    using assms(1) by (simp add: action_inv_def action_tables_ok_def)
  have "attempts_at j db' = (if j = act_id a then row_put att_id t' (attempts_at j db)
      else attempts_at j db)" for j
    unfolding attempts_at_def assms(4)
    by (rule filter_owner_put [OF u assms(2)]) (use assms(3,7) in \<open>auto simp: closes_attempt_def\<close>)
  then show ?thesis
    using new_receipts_at(1) [OF assms(6)] assms(5) by (simp add: only_slice_def reconciliations_at_def)
qed

text \<open>A running attempt ends in one of three ways, told apart by the status and the receipts.\<close>

definition closing_event :: "case_action \<Rightarrow> life_event" where
  "closing_event a = (if act_status a = AS_COMPLETED then Confirm
     else if act_status a = AS_FAILED_SAFE then Refuse else Lose)"

lemma life_close:
  assumes inv: "action_inv db" and a: "row_get act_id i (actions db) = Some a"
    and t: "t \<in> set (attempts db)" and own: "att_action_id t = i" and cl: "closes_attempt t t'"
    and acts: "actions db' = row_put act_id a' (actions db)" and id: "same_identity a a'"
    and atts: "attempts db' = row_put att_id t' (attempts db)"
    and recs: "reconciliations db' = reconciliations db" and rcps: "new_receipts a db db'"
    and n: "act_attempt_count a' = act_attempt_count a"
    and out: "act_status a' = AS_COMPLETED \<and> receipts_at i db' \<noteq> []
      \<or> act_status a' \<in> {AS_FAILED_SAFE, AS_OUTCOME_UNKNOWN} \<and> receipts db' = receipts db"
  shows "life_does (if k = i then [closing_event a'] else []) (life k db) (life k db')"
proof -
  have ai: "act_id a = i" using row_get_Some [OF a] by simp
  have tin: "t \<in> set (attempts_at i db)" using t own by (simp add: attempts_at_def)
  note slice = action_inv_row(1) [OF inv a]
  have run: "att_outcome t = AO_RUNNING" using cl by (simp add: closes_attempt_def)
  have idle: "\<not> reconciling (reconciliations_at i db')" "receipts_at i db = []"
    using running_slice [OF slice tin run] recs by (auto simp: reconciliations_at_def)
  have same: "receipts db' = receipts db \<Longrightarrow> receipts_at i db' = []"
    using idle(2) by (simp add: receipts_at_def)
  have moves: "life_moves [closing_event a'] (view a (reconciliations_at i db) (receipts_at i db))
      = Some (view a' (reconciliations_at i db') (receipts_at i db'))"
    using out idle(1) same n unfolding view_running [OF slice tin run]
    by (auto simp: closing_event_def view_def move_simps)
  have only: "only_slice i db db'"
    using only_slice_close [OF inv t cl atts recs rcps] own ai by simp
  show ?thesis
    by (rule life_does_put [OF a acts _ only moves]) (use id ai in \<open>simp add: same_identity_def\<close>)
qed

section \<open>The sweep\<close>

lemma abandon_life:
  assumes run: "abandon_attempt sha now ids (i, j) db = Inr db'" and inv: "action_inv db"
    and cand: "(i, j) \<in> attempt_owner ` set (attempts db)"
    and due: "find (\<lambda>t. att_id t = i \<and> att_outcome t = AO_RUNNING
      \<and> att_started_at t \<le> now - minutes abandoned_action_minutes) (attempts db) = Some t"
  shows "life_does (if k = j then [Lose] else []) (life k db) (life k db')"
  using run inv cand
proof (cases rule: abandon_attempt_cases)
  case same
  have t: "t \<in> set (attempts db)" "att_outcome t = AO_RUNNING" using due by (auto simp: find_Some_iff)
  have "attempts db' = row_put att_id (abandoned_attempt sha now t) (attempts db)"
    using run due by (auto simp: abandon_attempt_def Let_def dest!: add_action_audit_Inr
        split: option.splits if_splits)
  then have "map (\<lambda>x. if att_id x = att_id (abandoned_attempt sha now t) then abandoned_attempt sha now t else x)
      (attempts db) = attempts db" using same by (simp only: row_put_def)
  from map_fixed [OF this t(1)] have "abandoned_attempt sha now t = t" by (simp add: abandoned_attempt_def)
  then have "att_outcome (abandoned_attempt sha now t) = att_outcome t" by simp
  then show ?thesis using t(2) by (simp add: abandoned_attempt_def)
next
  case (closed t t' a a')
  have "closing_event a' = Lose" using closed(14) by (simp add: closing_event_def)
  then show ?thesis
    using life_close [OF inv closed(6,1,3,4,8,12,9,10) _ closed(13), of k] closed(11,14)
    by (cases "k = j") (simp_all add: new_receipts_def)
qed

text \<open>The running attempts of \<open>k\<close> among the candidates that are past their time.\<close>

definition due_at :: "uuid \<Rightarrow> timestamp \<Rightarrow> (uuid \<times> uuid) list \<Rightarrow> database \<Rightarrow> bool" where
  "due_at k now cs db \<longleftrightarrow> (\<exists>t\<in>set (attempts_at k db). (att_id t, k) \<in> set cs
     \<and> att_outcome t = AO_RUNNING \<and> att_started_at t \<le> now - minutes abandoned_action_minutes)"

lemma abandon_fold_life:
  assumes "foldE (abandon_attempt sha now ids) cs db = Inr db'" and "action_inv db"
    and "set cs \<subseteq> attempt_owner ` set (attempts db)"
  shows "life_does (if due_at k now cs db then [Lose] else []) (life k db) (life k db')"
  using assms
proof (induction cs arbitrary: db)
  case Nil
  then show ?case by (simp add: due_at_def)
next
  case (Cons c cs)
  obtain i j where c: "c = (i, j)" by (cases c)
  obtain d where one: "abandon_attempt sha now ids (i, j) db = Inr d"
    and rest: "foldE (abandon_attempt sha now ids) cs d = Inr db'"
    using Cons.prems(1) c by (auto simp: run_simps)
  have own: "(i, j) \<in> attempt_owner ` set (attempts db)" using Cons.prems(3) c by simp
  note st = abandon_attempt_step [OF one Cons.prems(2) own]
  have owned: "set cs \<subseteq> attempt_owner ` set (attempts d)"
    using Cons.prems(3) st(3) by (metis list.set_map set_subset_Cons subset_trans)
  note IH = Cons.IH [OF rest st(1) owned]
  show ?case
  proof (cases "find (\<lambda>t. att_id t = i \<and> att_outcome t = AO_RUNNING
      \<and> att_started_at t \<le> now - minutes abandoned_action_minutes) (attempts db)")
    case None
    then have "d = db" using one by (simp add: abandon_attempt_def Let_def)
    moreover have "due_at k now (c # cs) db = due_at k now cs db"
      using None c by (auto simp: due_at_def attempts_at_def find_None_iff)
    ultimately show ?thesis using IH by simp
  next
    case (Some t)
    note step = abandon_life [OF one Cons.prems(2) own Some, of k]
    have t: "t \<in> set (attempts db)" "att_id t = i" "att_outcome t = AO_RUNNING"
      "att_started_at t \<le> now - minutes abandoned_action_minutes" using Some by (auto simp: find_Some_iff)
    have tables: "unique_keys att_id (attempts db)"
      using Cons.prems(2) by (simp add: action_inv_def action_tables_ok_def)
    have tj: "att_action_id t = j" by (rule attempt_owner_unique [OF tables own t(1,2)])
    show ?thesis
    proof (cases "k = j")
      case True
      have before: "due_at k now (c # cs) db"
        unfolding due_at_def using t tj True c by (auto simp: attempts_at_def)
      have "\<exists>x. life k d = Some x \<and> lc_status x = AS_OUTCOME_UNKNOWN"
        using step True by (cases "life k db") (auto simp: life_does_def guarded_def split: if_splits)
      then obtain a where a: "row_get act_id k (actions d) = Some a" "act_status a = AS_OUTCOME_UNKNOWN"
        by (auto simp: life_def view_def)
      have "att_outcome u \<noteq> AO_RUNNING" if "u \<in> set (attempts_at k d)" for u
        using running_slice(1) [OF action_inv_row(1) [OF st(1) a(1)] that] a(2) by auto
      then have "\<not> due_at k now cs d" by (auto simp: due_at_def)
      then show ?thesis using life_does_append [OF step IH] before True by simp
    next
      case False
      have "attempts_at k d = attempts_at k db" using st(4) False by (simp add: only_slice_def)
      then have "due_at k now (c # cs) db = due_at k now cs d" using False c by (auto simp: due_at_def)
      then show ?thesis using life_does_append [OF step IH] False by simp
    qed
  qed
qed

lemma sweep_life:
  assumes run: "reconcile_abandoned sha now ids scope db = Inr db'" and inv: "action_inv db"
  shows "life_does (if overdue scope k now db then [Lose] else []) (life k db) (life k db')"
proof -
  have u: "unique_keys att_id (attempts db)" using inv by (simp add: action_inv_def action_tables_ok_def)
  have "due_at k now (abandoned_candidates scope now db) db \<longleftrightarrow> overdue scope k now db"
  proof
    assume "due_at k now (abandoned_candidates scope now db) db"
    then obtain t where t: "t \<in> set (attempts db)" "att_action_id t = k" "att_outcome t = AO_RUNNING"
        "att_started_at t \<le> now - minutes abandoned_action_minutes"
      and "(att_id t, k) \<in> set (abandoned_candidates scope now db)"
      by (auto simp: due_at_def attempts_at_def)
    then obtain x where "x \<in> set (attempts db)" "scope x" "att_id x = att_id t"
      using candidates_scope [of "att_id t" k scope now db] by blast
    then have "scope t" using row_of_key_unique [OF u _ t(1)] by blast
    then show "overdue scope k now db" using t by (auto simp: overdue_def attempts_at_def)
  next
    assume "overdue scope k now db"
    then show "due_at k now (abandoned_candidates scope now db) db"
      by (auto simp: overdue_def due_at_def attempts_at_def abandoned_candidates_def)
  qed
  then show ?thesis
    using abandon_fold_life [OF run [unfolded reconcile_abandoned_def] inv candidates_owned, of k] by simp
qed

text \<open>A sweep of one action touches no other, and its own only when an attempt is past its time.\<close>

lemma scoped_overdue:
  assumes "row_get act_id (act_id a) (actions db) = Some a" and "action_inv db"
  shows "overdue (scope_action a) k now db \<longleftrightarrow> k = act_id a \<and> overdue (\<lambda>_. True) k now db"
proof -
  have "att_organization_id t = act_organization_id a" if "t \<in> set (attempts_at (act_id a) db)" for t
    using action_inv_row(1) [OF assms(2,1)] that by (simp add: slice_ok_def attempts_ok_def)
  then show ?thesis by (auto simp: overdue_def scope_action_def attempts_at_def)
qed

section \<open>Every command\<close>

lemma prepare_execution_life:
  assumes run: "prepare_execution sha now tu au ids org_pid act_pid actor expected command corr db
      = Inr (lease, db')" and inv: "action_inv db"
  shows "life_does (if addressed org_pid act_pid k db then [Begin command] else []) (life k db) (life k db')"
  using run inv
proof (cases rule: prepare_execution_Inr)
  case (1 found db1 a member c)
  have "db1 = db" using prepare_execution_idle [OF run inv 1(2)] 1(3) by simp
  note e = 1 [unfolded \<open>db1 = db\<close>]
  let ?i = "act_id found" and ?a' = "started_action now member a"
  have ai: "act_id a = ?i" using row_get_Some [OF e(6)] by simp
  have st: "act_status a = (if command = CMD_EXECUTE then AS_READY else AS_FAILED_SAFE)"
    using require_startable_status [OF e(11,1)] by simp
  note slice = action_inv_row(1) [OF inv e(6)]
  have ap: "only_slice ?i db db'" "reconciliations_at ?i db' = reconciliations_at ?i db"
    "receipts_at ?i db' = receipts_at ?i db"
    using only_slice_append [of db' db "[new_attempt sha tu a member command now]" "[]" ?i] e(16-18) ai
    by (simp_all add: new_attempt_sel)
  have free: "\<not> reconciling (reconciliations_at ?i db)" "receipts_at ?i db = []"
    and n: "act_attempt_count a = 0 \<longleftrightarrow> act_status a = AS_READY" "0 \<le> act_attempt_count a"
    using slice st by (auto simp: slice_ok_def attempts_ok_def reconciliations_ok_def receipts_ok_def
        split: if_splits)
  have "life_moves [Begin command] (view a (reconciliations_at ?i db) (receipts_at ?i db))
      = Some (view ?a' (reconciliations_at ?i db') (receipts_at ?i db'))"
    using st free n e(1) ap by (auto simp: view_def started_action_sel guarded_def split: if_splits)
  then show ?thesis
    unfolding addressed_row [OF e(2) inv]
    by (intro life_does_put [OF e(6,15) _ ap(1)])
      (use started_action_sel(1) [of a now member] ai in \<open>simp_all add: same_identity_def\<close>)
qed

lemma finish_execution_success_life:
  assumes run: "finish_execution_success sha now ru au lease receipt corr db = Inr (item, db')"
    and inv: "action_inv db"
  shows "life_does (tx_events (SuccessTx lease) k db) (life k db) (life k db')"
  using run
proof (cases rule: finish_execution_success_Inr)
  case (settled a t)
  then show ?thesis using open_attempt [OF settled(1) inv] by simp
next
  case (completed a t stored)
  note em = execution_models_Inr [OF completed(1)]
  have "receipts_at (el_action_id lease) db' \<noteq> []"
    using completed(8,9) row_get_Some [OF em(1)] by (auto simp: receipts_at_def filter_empty_conv)
  then have "life_does (if k = el_action_id lease then [closing_event (completed_action now stored a)] else [])
      (life k db) (life k db')"
    by (intro life_close [OF inv em(1,2,3) close_rows_sel(9) [OF completed(2)] completed(4)
          close_rows_sel(1) completed(5-7)]) (simp_all add: close_rows_sel)
  then show ?thesis
    using open_attempt [OF completed(1) inv] completed(2)
    by (cases "k = el_action_id lease") (simp_all add: closing_event_def close_rows_sel)
qed

lemma finish_execution_error_life:
  assumes run: "finish_execution_error sha now au lease e corr db = Inr (item, db')"
    and inv: "action_inv db"
  shows "life_does (tx_events (FailureTx lease e) k db) (life k db) (life k db')"
  using run
proof (cases rule: finish_execution_error_Inr)
  case (settled a t)
  then show ?thesis using open_attempt [OF settled(1) inv] by simp
next
  case (failed a t)
  note em = execution_models_Inr [OF failed(1)]
  have "life_does (if k = el_action_id lease then [closing_event (failed_action now e a)] else [])
      (life k db) (life k db')"
    by (rule life_close [OF inv em(1,2,3) close_rows_sel(10) [OF failed(2)] failed(3)
          close_rows_sel(5) failed(4,5)]) (use failed(6) in \<open>simp_all add: close_rows_sel new_receipts_def\<close>)
  then show ?thesis
    using open_attempt [OF failed(1) inv] failed(2)
    by (cases "k = el_action_id lease")
      (auto simp: closing_event_def close_rows_sel failure_event_def safe_failure_def split: if_splits)
qed

lemma append_reconciliation_life:
  assumes a: "row_get act_id i (actions db) = Some a"
    and acts: "actions db' = row_put act_id a' (actions db)" and id: "same_identity a a'"
    and recs: "reconciliations db' = reconciliations db @ [r]"
    and same: "attempts db' = attempts db" "receipts db' = receipts db"
    and r: "rec_action_id r = i"
    and moves: "life_moves es (view a (reconciliations_at i db) (receipts_at i db))
      = Some (view a' (reconciliations_at i db @ [r]) (receipts_at i db))"
  shows "life_does (if k = i then es else []) (life k db) (life k db')"
proof -
  have ap: "only_slice i db db'" "reconciliations_at i db' = reconciliations_at i db @ [r]"
    "receipts_at i db' = receipts_at i db"
    using only_slice_append [of db' db "[]" "[r]" i] recs same r by simp_all
  show ?thesis
    by (rule life_does_put [OF a acts _ ap(1)])
      (use moves ap id row_get_Some [OF a] in \<open>simp_all add: same_identity_def\<close>)
qed

lemma prepare_reconciliation_life:
  assumes run: "prepare_reconciliation sha now ru ut au ids org_pid act_pid actor expected corr db
      = Inr (lease, db')" and inv: "action_inv db"
  shows "life_does (tx_events (CheckTx org_pid act_pid now) k db) (life k db) (life k db')"
  using run inv
proof (cases rule: prepare_reconciliation_Inr)
  case (1 found db1 a member c pid)
  let ?i = "act_id found" and ?s = "view a (reconciliations_at (act_id found) db1)
    (receipts_at (act_id found) db1)"
  have ai: "act_id a = ?i" using row_get_Some [OF 1(5)] by simp
  have idle: "\<not> reconciling (reconciliations_at ?i db1)"
    using running_reconciliation_None [OF 1(13)] action_inv_row(1) [OF 1(3,5)] ai
    by (simp add: slice_ok_def)
  have "life_moves [BeginCheck] ?s = Some (?s\<lparr>lc_checking := True\<rparr>)"
    using 1(9) idle by (simp add: view_def move_simps recovery_status_def)
  then have "life_does (if k = ?i then [BeginCheck] else []) (life k db1) (life k db')"
    by (intro append_reconciliation_life [OF 1(5,16) _ 1(17,18,19)])
      (use ai in \<open>simp_all add: view_def new_reconciliation_sel same_identity_def\<close>)
  moreover have "life_does (if k = ?i \<and> overdue (\<lambda>_. True) k now db then [Lose] else []) (life k db) (life k db1)"
    using sweep_life [OF 1(2) inv, of k] scoped_overdue [OF required_action_row(1) [OF 1(1) inv] inv] by simp
  ultimately show ?thesis
    using life_does_append addressed_row [OF 1(1) inv, of k] by (cases "k = ?i") fastforce+
qed

lemma finish_reconciliation_life:
  assumes run: "finish_reconciliation sha now ru au lease result corr db = Inr (item, db')"
    and inv: "action_inv db"
  shows "life_does (tx_events (SettleTx lease result) k db) (life k db) (life k db')"
  using run
proof (cases rule: finish_reconciliation_Inr)
  case (settled a r)
  then show ?thesis using open_check [OF settled(2,6,3) inv] by simp
next
  case (checked a r a' r')
  let ?i = "rl_action_id lease" and ?rs = "reconciliations_at (rl_action_id lease) db"
  let ?s = "view a ?rs (receipts_at ?i db)"
  note slice = action_inv_row(1) [OF inv checked(1)]
  have ai: "act_id a = ?i" using row_get_Some [OF checked(1)] by simp
  have cl: "closes_reconciliation r r'" using checked(4,5) by (simp add: settles_def closes_reconciliation_def)
  have rin: "r \<in> set ?rs" using checked(2,3) by (simp add: reconciliations_at_def)
  have u: "unique_keys rec_id (reconciliations db)"
    using inv by (simp add: action_inv_def action_tables_ok_def)
  have rec': "reconciliations_at j db' = (if j = ?i then row_put rec_id r' (reconciliations_at j db)
      else reconciliations_at j db)" for j
    unfolding reconciliations_at_def checked(10)
    by (rule filter_owner_put [OF u checked(2)])
      (use cl checked(3) in \<open>auto simp: closes_reconciliation_def\<close>)
  have idle: "\<not> reconciling (reconciliations_at ?i db')"
    using closed_reconciliation [OF _ _ rin cl] slice u rec'
    by (simp add: slice_ok_def reconciliations_ok_def reconciliations_at_def unique_keys_filter)
  have busy: "reconciling ?rs" using rin checked(4) by (auto simp: reconciling_def)
  have none: "receipts_at ?i db = []" using slice busy by (auto simp: slice_ok_def receipts_ok_def)
  have only: "only_slice ?i db db'"
    using rec' new_receipts_at(1) [OF checked(11)] checked(9) ai by (simp add: only_slice_def attempts_at_def)
  have rcp: "(receipts_at ?i db' \<noteq> []) = (rec_outcome r' = RO_CONFIRMED_COMPLETED)"
  proof -
    have "receipts db' \<noteq> receipts db" if "receipts_at ?i db' \<noteq> []"
      using that none by (auto simp: receipts_at_def)
    then show ?thesis using checked(12,13) ai by auto
  qed
  have "life_moves [lookup_event result] ?s = Some (view a' (reconciliations_at ?i db') (receipts_at ?i db'))"
    using busy idle none rcp checked(5,6)
    by (auto simp: view_def settles_def lookup_event_def guarded_def reconciliation_outcome_for_lookup_def
        split: if_splits)
  then have "life_does (if k = ?i then [lookup_event result] else []) (life k db) (life k db')"
    by (intro life_does_put [OF checked(1,8) _ only])
      (use checked(5) ai in \<open>simp_all add: settles_def same_identity_def\<close>)
  then show ?thesis using open_check [OF checked(2,15,3) inv] checked(4) by simp
qed

lemma record_manual_outcome_life:
  assumes run: "record_manual_outcome sha now ru au org_pid act_pid actor expected outcome reason corr db
      = Inr (item, db')" and inv: "action_inv db"
  shows "life_does (tx_events (ManualTx org_pid act_pid outcome) k db) (life k db) (life k db')"
  using run
proof (cases rule: record_manual_outcome_Inr)
  case (1 a member pid)
  let ?s = "view a (reconciliations_at (act_id a) db) (receipts_at (act_id a) db)"
  have doubt: "in_doubt ?s" using 1(3) by (simp add: view_def in_doubt_def recovery_status_def)
  have "life_does (if k = act_id a then [if outcome = MO_COMPLETED then StateDone else StateOpen] else [])
      (life k db) (life k db')"
    by (rule append_reconciliation_life [OF required_action_row(1) [OF 1(1) inv] 1(6)
          manual_action_sel(1) 1(7-9)])
      (use doubt in \<open>simp_all add: view_def new_reconciliation_sel manual_action_sel guarded_def
          reconciliation_outcome_for_manual_record_def\<close>)
  then show ?thesis using addressed_row [OF 1(1) inv] by simp
qed

lemma escalate_life:
  assumes run: "escalate now au org_pid act_pid actor expected reason corr db = Inr (item, db')"
    and inv: "action_inv db"
  shows "life_does (tx_events (EscalateTx org_pid act_pid) k db) (life k db) (life k db')"
  using run
proof (cases rule: escalate_Inr)
  case (1 a member)
  let ?i = "act_id a" and ?a' = "escalated_action now member reason a"
  let ?s = "view a (reconciliations_at ?i db) (receipts_at ?i db)"
  have same: "only_slice ?i db db'" "reconciliations_at ?i db' = reconciliations_at ?i db"
    "receipts_at ?i db' = receipts_at ?i db"
    using 1(5-7) by (simp_all add: only_slice_def slice_defs)
  have "life_moves [Escalate] ?s = Some (view ?a' (reconciliations_at ?i db') (receipts_at ?i db'))"
    using 1(3) by (auto simp: view_def move_simps escalated_action_sel same)
  then have "life_does (if k = ?i then [Escalate] else []) (life k db) (life k db')"
    by (intro life_does_put [OF required_action_row(1) [OF 1(1) inv] 1(4) _ same(1)])
      (use escalated_action_sel(1) [of a now member reason] in \<open>simp_all add: same_identity_def\<close>)
  then show ?thesis using addressed_row [OF 1(1) inv] by simp
qed

lemma materialize_one_life:
  assumes run: "materialize_one sha now fresh org_pid corr ap owner p (created, db) = Inr (created', db')"
    and inv: "action_inv db"
  shows "life k db' = life k db \<or> life k db = None \<and> life k db' = Some initial_life"
proof (cases "existing_action (ap_review ap) p db")
  case (Some a)
  then show ?thesis using run by (simp add: materialize_one_def)
next
  case None
  then obtain c db1 db2 where
    res: "resolve_for_action sha (mi_connection_now (fresh (pa_id p))) (mi_connection (fresh (pa_id p)))
      (rv_organization_id (ap_review ap)) org_pid (pa_type p) db = Inr (c, db1)"
    and ins: "insert_action (new_action sha now (mi_action (fresh (pa_id p))) org_pid ap owner c p) db1 = Inr db2"
    and tail: "same_action_tables db2 db'"
    using run by (auto simp: materialize_one_def run_simps Let_def dest: same_tables_audit)
  let ?a = "new_action sha now (mi_action (fresh (pa_id p))) org_pid ap owner c p"
  obtain rows where db1: "db1 = db\<lparr>connections := rows\<rparr>" using resolve_for_action_Inr [OF res] by blast
  have acts: "actions db' = actions db @ [?a]" "row_get act_id (act_id ?a) (actions db) = None"
    and same: "attempts db' = attempts db" "reconciliations db' = reconciliations db"
      "receipts db' = receipts db"
    using ins tail db1 by (auto simp: insert_action_def run_simps same_action_tables_def)
  have "action_inv db'"
    by (rule action_inv_insert [OF inv acts(2) _ _ acts(1) same]) (simp_all add: new_action_sel)
  moreover have row: "row_get act_id (act_id ?a) (actions db') = Some ?a"
    using acts by (simp add: row_get_append)
  ultimately have "slice_ok ?a (attempts_at (act_id ?a) db') (reconciliations_at (act_id ?a) db')
      (receipts_at (act_id ?a) db')" by (rule action_inv_row(1))
  then have "view ?a (reconciliations_at (act_id ?a) db') (receipts_at (act_id ?a) db') = initial_life"
    by (auto simp: slice_ok_def reconciliations_ok_def receipts_ok_def view_def initial_life_def new_action_sel)
  then show ?thesis
    using acts same row by (cases "k = act_id ?a")
      (auto simp: life_def row_get_append slice_defs split: option.splits)
qed

lemma materialize_life:
  assumes run: "materialize_approved_review sha now fresh org_pid review_pid corr db = Inr (bundles, db')"
    and inv: "action_inv db"
  shows "life k db' = life k db \<or> life k db = None \<and> life k db' = Some initial_life"
proof -
  obtain ap owner created where
    fold: "foldE (materialize_one sha now fresh org_pid corr ap owner)
      (reviewed_actions (ap_review ap) db) ([], db) = Inr (created, db')"
    using run by (auto simp: materialize_approved_review_def run_simps Let_def)
  let ?P = "\<lambda>(cs :: case_action list, d). action_inv d
    \<and> (life k d = life k db \<or> life k db = None \<and> life k d = Some initial_life)"
  have "?P (created, db')"
    using fold
  proof (rule foldE_invariant [where P = ?P])
    show "?P ([], db)" using inv by simp
    show "?P t" if "materialize_one sha now fresh org_pid corr ap owner x s = Inr t" and "?P s" for x s t
    proof -
      obtain cs d cs' d' where st: "s = (cs, d)" "t = (cs', d')" by (cases s; cases t)
      show ?thesis
        using that materialize_one_step materialize_one_life [of sha now fresh org_pid corr ap owner x cs d cs' d' k]
        unfolding st by auto
    qed
  qed
  then show ?thesis by auto
qed

lemma action_get_life:
  assumes run: "action_get sha now now2 ids org_pid act_pid db = Inr (found, db')" and inv: "action_inv db"
  shows "life_does (tx_events (ReadTx org_pid act_pid now) k db) (life k db) (life k db')"
proof (cases "scoped_action org_pid act_pid db")
  case None
  then show ?thesis using run by (simp add: action_get_def addressed_def)
next
  case (Some a)
  then have "reconcile_abandoned sha now ids (scope_action a) db = Inr db'"
    using run by (auto simp: action_get_def run_simps)
  then have "life_does (if k = act_id a \<and> overdue (\<lambda>_. True) k now db then [Lose] else [])
      (life k db) (life k db')"
    using sweep_life [OF _ inv, of sha now ids "scope_action a" db' k]
      scoped_overdue [OF scoped_action_row [OF Some inv] inv, of k now] by simp
  moreover have "addressed org_pid act_pid k db \<longleftrightarrow> k = act_id a" using Some by (auto simp: addressed_def)
  ultimately show ?thesis by (simp split del: if_split)
qed

text \<open>What one labelled transaction does to the action \<open>k\<close>.\<close>

lemma labelled_life:
  assumes "action_tx_step sha tx db db'" and "action_inv db"
  shows "life_does (tx_events tx k db) (life k db) (life k db')
    \<or> tx = MaterializeTx \<and> life k db = None \<and> life k db' = Some initial_life"
  using assms
proof (induction rule: action_tx_step.induct)
  case start_tx
  then show ?case using prepare_execution_life by simp
next
  case success_tx
  then show ?case using finish_execution_success_life by blast
next
  case failure_tx
  then show ?case using finish_execution_error_life by blast
next
  case check_tx
  then show ?case using prepare_reconciliation_life by blast
next
  case settle_tx
  then show ?case using finish_reconciliation_life by blast
next
  case manual_tx
  then show ?case using record_manual_outcome_life by blast
next
  case recover_tx
  then show ?case using escalate_life by blast
next
  case read_tx
  then show ?case using action_get_life by blast
next
  case sweep_tx
  then show ?case using sweep_life by simp
next
  case (materialize_tx now fresh org_pid review_pid corr db bundles db')
  then show ?case using materialize_life [of sha now fresh org_pid review_pid corr db bundles db' k] by fastforce
next
  case other_tx
  then show ?case by (simp add: life_same)
qed

text \<open>C4. The action repository refines the lifecycle. Whatever transaction runs, and in whatever
  order transactions are interleaved, every action makes exactly the moves of the machine that the
  transaction stands for, and no other: a start is one \<open>Begin\<close> of the action it names, closing an
  attempt is one \<open>Confirm\<close>, \<open>Refuse\<close> or \<open>Lose\<close> as the target answered and nothing when the attempt
  was already closed, a check begins once and ends with the move the lookup calls for, a sweep loses
  exactly the attempts that ran for five minutes, and so on; each move is enabled, the state after the
  transaction is the one the machine computes, and a new action starts in the initial state.\<close>

theorem action_step_refines_lifecycle:
  assumes "action_tx_step sha tx db db'" and "action_inv db"
  shows "(case life k db of
      Some s \<Rightarrow> (\<exists>t. life_moves (tx_events tx k db) s = Some t \<and> life k db' = Some t)
    | None \<Rightarrow> tx_events tx k db = []
        \<and> (life k db' = None \<or> tx = MaterializeTx \<and> life k db' = Some initial_life))"
  using labelled_life [OF assms, of k] by (auto simp: life_does_def split: option.splits)

section \<open>Between two writes\<close>

text \<open>The moves that can bring an action to \<open>failed_safe\<close>, and that none leads back to \<open>ready\<close>.\<close>

lemma move_failed_safe:
  assumes "life_move e s = Some t" and "lc_status t = AS_FAILED_SAFE" and "lc_status s \<noteq> AS_FAILED_SAFE"
  shows "e = Refuse \<or> e = FoundAbsent"
  using assms by (cases e) (auto simp: guarded_def split: if_splits)

lemma move_not_ready: "life_move e s = Some t \<Longrightarrow> lc_status s \<noteq> AS_READY \<Longrightarrow> lc_status t \<noteq> AS_READY"
  by (cases e) (auto simp: guarded_def split: if_splits)

lemma moves_failed_safe:
  assumes "life_moves es s = Some t" and "lc_status t = AS_FAILED_SAFE" and "lc_status s \<noteq> AS_FAILED_SAFE"
  shows "Refuse \<in> set es \<or> FoundAbsent \<in> set es"
  using assms
proof (induction es arbitrary: s)
  case (Cons e es)
  then obtain r where r: "life_move e s = Some r" "life_moves es r = Some t" by (auto split: option.splits)
  show ?case
  proof (cases "lc_status r = AS_FAILED_SAFE")
    case True
    then show ?thesis using move_failed_safe [OF r(1)] Cons.prems(3) by auto
  next
    case False
    then show ?thesis using Cons.IH [OF r(2) Cons.prems(2)] by auto
  qed
qed simp

lemma moves_not_ready: "life_moves es s = Some t \<Longrightarrow> lc_status s \<noteq> AS_READY \<Longrightarrow> lc_status t \<noteq> AS_READY"
proof (induction es arbitrary: s)
  case (Cons e es)
  then show ?case using move_not_ready by (auto split: option.splits)
qed simp

text \<open>The two transactions that record that nothing was changed: the target's refusal of the attempt,
  and a check that found the change absent for good.\<close>

definition proves_no_change :: "(string \<Rightarrow> string) \<Rightarrow> uuid \<Rightarrow> database \<Rightarrow> database \<Rightarrow> bool" where
  "proves_no_change sha k db db' \<longleftrightarrow>
     (\<exists>now au lease e corr item. finish_execution_error sha now au lease e corr db = Inr (item, db')
        \<and> el_action_id lease = k \<and> attempt_open lease db
        \<and> ge_side_effect_state e \<in> {SE_NOT_ATTEMPTED, SE_NONE})
   \<or> (\<exists>now ru au lease result corr item. finish_reconciliation sha now ru au lease result corr db = Inr (item, db')
        \<and> rl_action_id lease = k \<and> check_open lease db
        \<and> lr_found result = Some False \<and> lr_absence_is_terminal result)"

lemma proof_events:
  assumes step: "action_tx_step sha tx db db'"
    and e: "Refuse \<in> set (tx_events tx k db) \<or> FoundAbsent \<in> set (tx_events tx k db)"
  shows "proves_no_change sha k db db'"
proof (cases tx)
  case (FailureTx lease er)
  obtain now au corr item where "finish_execution_error sha now au lease er corr db = Inr (item, db')"
    using step [unfolded FailureTx] by (cases rule: failure_txE) blast
  moreover have "el_action_id lease = k \<and> attempt_open lease db
      \<and> ge_side_effect_state er \<in> {SE_NOT_ATTEMPTED, SE_NONE}"
    using e FailureTx by (auto simp: failure_event_def split: if_splits)
  ultimately show ?thesis unfolding proves_no_change_def by blast
next
  case (SettleTx lease result)
  obtain now ru au corr item where "finish_reconciliation sha now ru au lease result corr db = Inr (item, db')"
    using step [unfolded SettleTx] by (cases rule: settle_txE) blast
  moreover have "rl_action_id lease = k \<and> check_open lease db
      \<and> lr_found result = Some False \<and> lr_absence_is_terminal result"
    using e SettleTx by (auto simp: lookup_event_def split: if_splits)
  ultimately show ?thesis unfolding proves_no_change_def by blast
qed (use e in \<open>auto split: if_splits\<close>)

text \<open>An action that is neither ready nor safely failed becomes so only through such a transaction.\<close>

lemma run_to_retry:
  assumes run: "(action_step sha)\<^sup>*\<^sup>* db0 db" and inv: "action_inv db0"
    and s: "life k db0 = Some s" "lc_status s \<noteq> AS_READY" "lc_status s \<noteq> AS_FAILED_SAFE"
  shows "\<exists>t. life k db = Some t \<and> lc_status t \<noteq> AS_READY
    \<and> (lc_status t = AS_FAILED_SAFE \<longrightarrow> (\<exists>x y. (action_step sha)\<^sup>*\<^sup>* db0 x \<and> proves_no_change sha k x y
          \<and> (action_step sha)\<^sup>*\<^sup>* y db))"
  using run
proof (induction rule: rtranclp_induct)
  case base
  then show ?case using s by simp
next
  case (step y z)
  obtain t where t: "life k y = Some t" "lc_status t \<noteq> AS_READY" using step.IH by blast
  obtain tx where tx: "action_tx_step sha tx y z" using step.hyps(2) action_step_labelled by blast
  have "action_inv y" by (rule act_sys.along_run [OF step.hyps(1) inv])
  from labelled_life [OF tx this, of k] t(1)
  obtain u where u: "life_moves (tx_events tx k y) t = Some u" "life k z = Some u" by (auto simp: life_does_def)
  have "\<exists>x y'. (action_step sha)\<^sup>*\<^sup>* db0 x \<and> proves_no_change sha k x y' \<and> (action_step sha)\<^sup>*\<^sup>* y' z"
    if safe: "lc_status u = AS_FAILED_SAFE"
  proof (cases "lc_status t = AS_FAILED_SAFE")
    case True
    then show ?thesis using step.IH t(1) step.hyps(2) by (auto intro: rtranclp.rtrancl_into_rtrancl)
  next
    case False
    then show ?thesis
      using proof_events [OF tx moves_failed_safe [OF u(1) safe False]] step.hyps(1) by blast
  qed
  then show ?case using u(2) moves_not_ready [OF u(1) t(2)] by blast
qed

text \<open>C3. Two writes of one action are separated by proof that the earlier one changed nothing. When
  an action was leased for a write and, after any interleaving of transactions, is leased again, then in
  between, after the first lease, the target refused an open attempt of this action without a change,
  or a check of the target that was open found the change absent for good. No expiry, manual record,
  escalation or sweep opens the way to a second write, and a proof from before the first write does
  not count.\<close>

theorem writes_separated_by_proof:
  assumes inv: "action_inv db"
    and first: "prepare_execution sha now1 tu1 au1 ids1 org1 act1 actor1 v1 command1 corr1 db = Inr (lease1, db1)"
    and run: "(action_step sha)\<^sup>*\<^sup>* db1 db2"
    and second: "prepare_execution sha now2 tu2 au2 ids2 org2 act2 actor2 v2 command2 corr2 db2 = Inr (lease2, db3)"
    and same: "el_action_id lease2 = el_action_id lease1"
  shows "\<exists>x y. (action_step sha)\<^sup>*\<^sup>* db1 x \<and> proves_no_change sha (el_action_id lease1) x y
    \<and> (action_step sha)\<^sup>*\<^sup>* y db2"
proof -
  have inv1: "action_inv db1" using prepare_execution_step [OF first inv] by blast
  have inv2: "action_inv db2" by (rule act_sys.along_run [OF run inv1])
  have "\<exists>s. life (el_action_id lease1) db1 = Some s \<and> lc_status s = AS_RUNNING"
    using first inv
  proof (cases rule: prepare_execution_Inr)
    case (1 found d a member c)
    have "row_get act_id (act_id a) (actions db1) = Some (started_action now1 member a)"
      using 1(6,15) row_get_Some [OF 1(6)] started_action_sel(1) [of a now1 member]
      by (simp add: row_get_put same_identity_def)
    then show ?thesis using 1(19) by (simp add: life_def view_def started_action_sel)
  qed
  then obtain t where t: "life (el_action_id lease1) db2 = Some t" "lc_status t \<noteq> AS_READY"
    "lc_status t = AS_FAILED_SAFE \<longrightarrow> (\<exists>x y. (action_step sha)\<^sup>*\<^sup>* db1 x
       \<and> proves_no_change sha (el_action_id lease1) x y \<and> (action_step sha)\<^sup>*\<^sup>* y db2)"
    using run_to_retry [OF run inv1] by fastforce
  have "lc_status t = AS_READY \<or> lc_status t = AS_FAILED_SAFE"
    using second inv2
  proof (cases rule: prepare_execution_Inr)
    case (1 found d a member c)
    have "d = db2" using prepare_execution_idle [OF second inv2 1(2)] 1(3) by simp
    then have "row_get act_id (el_action_id lease1) (actions db2) = Some a"
      using 1(6,19) same row_get_Some [OF 1(6)] by simp
    then show ?thesis using t(1) require_startable_status [OF 1(11,1)]
      by (auto simp: life_def view_def split: if_splits)
  qed
  then show ?thesis using t by blast
qed

section \<open>Transactions of other calls\<close>

text \<open>A call that holds a lease closes its own attempt or check; the transactions other calls commit
  meanwhile are all the others.\<close>

fun finishes_attempt :: "uuid \<Rightarrow> action_tx \<Rightarrow> bool" where
  "finishes_attempt i (SuccessTx lease) = (el_attempt_id lease = i)"
| "finishes_attempt i (FailureTx lease e) = (el_attempt_id lease = i)"
| "finishes_attempt i _ = False"

fun finishes_check :: "uuid \<Rightarrow> action_tx \<Rightarrow> bool" where
  "finishes_check i (SettleTx lease result) = (rl_reconciliation_id lease = i)"
| "finishes_check i _ = False"

definition foreign_step :: "(string \<Rightarrow> string) \<Rightarrow> (action_tx \<Rightarrow> bool) \<Rightarrow> database \<Rightarrow> database \<Rightarrow> bool" where
  "foreign_step sha own db db' \<longleftrightarrow> (\<exists>tx. action_tx_step sha tx db db' \<and> \<not> own tx)"

lemma foreign_run: "(foreign_step sha own)\<^sup>*\<^sup>* db db' \<Longrightarrow> (action_step sha)\<^sup>*\<^sup>* db db'"
  by (erule rtranclp_mono [THEN predicate2D, rotated]) (auto simp: foreign_step_def action_step_labelled)

text \<open>What such transactions leave alone: an attempt can at most be given up by a sweep, which
  records its outcome as unknown; an open check stays open, and a closed one stays as it was closed.\<close>

definition running_or_lost :: "uuid \<Rightarrow> uuid \<Rightarrow> database \<Rightarrow> bool" where
  "running_or_lost i k db \<longleftrightarrow> (\<exists>t. row_get att_id i (attempts db) = Some t \<and> att_action_id t = k
     \<and> att_outcome t \<in> {AO_RUNNING, AO_UNKNOWN})"

lemma running_or_lost_append:
  "running_or_lost i k db \<Longrightarrow> attempts db' = attempts db @ [t] \<Longrightarrow> running_or_lost i k db'"
  unfolding running_or_lost_def by (auto simp: row_get_append)

lemma sweep_attempt:
  assumes run: "reconcile_abandoned sha now ids scope db = Inr db'" and inv: "action_inv db"
    and t: "running_or_lost i k db"
  shows "running_or_lost i k db'"
proof -
  let ?P = "\<lambda>d. action_inv d \<and> map attempt_owner (attempts d) = map attempt_owner (attempts db)
    \<and> running_or_lost i k d"
  have "?P db'"
  proof (rule foldE_invariant [where P = ?P])
    show "foldE (abandon_attempt sha now ids) (abandoned_candidates scope now db) db = Inr db'"
      using run by (simp add: reconcile_abandoned_def)
    show "?P db" using inv t by simp
    show "?P t" if x: "x \<in> set (abandoned_candidates scope now db)"
      and step: "abandon_attempt sha now ids x s = Inr t" and P: "?P s" for x s t
    proof -
      obtain m j where mj: "x = (m, j)" by (cases x)
      have owned: "(m, j) \<in> attempt_owner ` set (attempts s)"
        using x mj candidates_owned P by (metis list.set_map subsetD)
      have inv_s: "action_inv s" and lost: "running_or_lost i k s" using P by blast+
      have "running_or_lost i k t"
        using step [unfolded mj] inv_s owned
      proof (cases rule: abandon_attempt_cases)
        case (closed u u' a a')
        have "row_get att_id (att_id u) (attempts s) = Some u"
          using row_get_unique [OF _ closed(1)] inv_s by (simp add: action_inv_def action_tables_ok_def)
        then show ?thesis using lost closed(3,4,5,9) unfolding running_or_lost_def
          by (auto simp: row_get_put closes_attempt_def)
      qed (use lost in simp)
      then show ?thesis using abandon_attempt_step(1,3) [OF step [unfolded mj] inv_s owned] P by metis
    qed
  qed
  then show ?thesis by blast
qed

lemma sweep_reconciliations:
  assumes "reconcile_abandoned sha now ids scope db = Inr db'"
  shows "reconciliations db' = reconciliations db"
proof -
  have "reconciliations t = reconciliations s" if "abandon_attempt sha now ids x s = Inr t" for x s t
    using that by (auto simp: abandon_attempt_def Let_def
        split: option.splits if_splits prod.splits dest!: add_action_audit_Inr)
  then show ?thesis
    using assms foldE_invariant [where P = "\<lambda>d. reconciliations d = reconciliations db"]
    by (metis reconcile_abandoned_def)
qed

lemma materialize_attempts:
  assumes run: "materialize_approved_review sha now fresh org_pid review_pid corr db = Inr (bundles, db')"
  shows "attempts db' = attempts db \<and> reconciliations db' = reconciliations db"
proof -
  obtain ap owner created where
    fold: "foldE (materialize_one sha now fresh org_pid corr ap owner)
      (reviewed_actions (ap_review ap) db) ([], db) = Inr (created, db')"
    using run by (auto simp: materialize_approved_review_def run_simps Let_def)
  let ?P = "\<lambda>(cs :: case_action list, d). attempts d = attempts db \<and> reconciliations d = reconciliations db"
  have "?P (created, db')"
    using fold
  proof (rule foldE_invariant [where P = ?P])
    show "?P ([], db)" by simp
    show "?P t" if step: "materialize_one sha now fresh org_pid corr ap owner x s = Inr t" and P: "?P s" for x s t
    proof -
      obtain cs d cs' d' where st: "s = (cs, d)" "t = (cs', d')" by (cases s; cases t)
      show ?thesis
      proof (cases "existing_action (ap_review ap) x d")
        case None
        then obtain c d1 d2 where
          res: "resolve_for_action sha (mi_connection_now (fresh (pa_id x))) (mi_connection (fresh (pa_id x)))
            (rv_organization_id (ap_review ap)) org_pid (pa_type x) d = Inr (c, d1)"
          and ins: "insert_action (new_action sha now (mi_action (fresh (pa_id x))) org_pid ap owner c x) d1 = Inr d2"
          and tail: "same_action_tables d2 d'"
          using step st by (auto simp: materialize_one_def run_simps Let_def dest: same_tables_audit)
        obtain rows where "d1 = d\<lparr>connections := rows\<rparr>" using resolve_for_action_Inr [OF res] by blast
        then show ?thesis using ins tail P st by (auto simp: insert_action_def run_simps same_action_tables_def)
      qed (use step st P in \<open>simp add: materialize_one_def\<close>)
    qed
  qed
  then show ?thesis by simp
qed

lemma tx_attempt:
  assumes "action_tx_step sha tx db db'" and "action_inv db" and "\<not> finishes_attempt i tx"
    and "running_or_lost i k db"
  shows "running_or_lost i k db'"
  using assms
proof (induction rule: action_tx_step.induct)
  case (start_tx now tu au ids org_pid act_pid actor expected command corr db lease db')
  from start_tx(1,2) show ?case
  proof (cases rule: prepare_execution_Inr)
    case (1 found db1 a member c)
    then show ?thesis using sweep_attempt [OF 1(3) start_tx(2,4)] running_or_lost_append by blast
  qed
next
  case (success_tx now ru au lease receipt corr db item db')
  from success_tx(1) show ?case
  proof (cases rule: finish_execution_success_Inr)
    case (completed a t stored)
    then show ?thesis using success_tx(3,4) execution_models_Inr(4) [OF completed(1)]
      by (auto simp: running_or_lost_def row_get_put succeeded_attempt_def)
  qed (use success_tx(4) in simp)
next
  case (failure_tx now au lease e corr db item db')
  from failure_tx(1) show ?case
  proof (cases rule: finish_execution_error_Inr)
    case (failed a t)
    then show ?thesis using failure_tx(3,4) execution_models_Inr(4) [OF failed(1)]
      by (auto simp: running_or_lost_def row_get_put failed_attempt_def)
  qed (use failure_tx(4) in simp)
next
  case (check_tx now ru ut au ids org_pid act_pid actor expected corr db rlease db')
  from check_tx(1,2) show ?case
  proof (cases rule: prepare_reconciliation_Inr)
    case (1 found db1 a member c pid)
    then show ?thesis using sweep_attempt [OF 1(2) check_tx(2,4)] by (simp add: running_or_lost_def)
  qed
next
  case (settle_tx now ru au rlease result corr db item db')
  from settle_tx(1) show ?case
    by (cases rule: finish_reconciliation_Inr) (use settle_tx(4) in \<open>simp_all add: running_or_lost_def\<close>)
next
  case (manual_tx now ru au org_pid act_pid actor expected outcome reason corr db item db')
  from manual_tx(1) show ?case
    by (cases rule: record_manual_outcome_Inr) (use manual_tx(4) in \<open>simp add: running_or_lost_def\<close>)
next
  case (recover_tx now au org_pid act_pid actor expected reason corr db item db')
  from recover_tx(1) show ?case
    by (cases rule: escalate_Inr) (use recover_tx(4) in \<open>simp add: running_or_lost_def\<close>)
next
  case (read_tx now now2 ids org_pid act_pid db found db')
  then show ?case using sweep_attempt by (auto simp: action_get_def run_simps split: option.splits)
next
  case sweep_tx
  then show ?case using sweep_attempt by blast
next
  case materialize_tx
  then show ?case using materialize_attempts by (simp add: running_or_lost_def)
next
  case other_tx
  then show ?case by (simp add: running_or_lost_def same_action_tables_def)
qed

lemma tx_reconciliation:
  assumes "action_tx_step sha tx db db'" and "action_inv db" and "r \<in> set (reconciliations db)"
    and "rec_outcome r = RO_RUNNING \<Longrightarrow> \<not> finishes_check (rec_id r) tx"
  shows "r \<in> set (reconciliations db')"
  using assms
proof (induction rule: action_tx_step.induct)
  case (start_tx now tu au ids org_pid act_pid actor expected command corr db lease db')
  from start_tx(1,2) show ?case
    by (cases rule: prepare_execution_Inr) (use start_tx(3) sweep_reconciliations in auto)
next
  case (success_tx now ru au lease receipt corr db item db')
  from success_tx(1) show ?case
    by (cases rule: finish_execution_success_Inr) (use success_tx(3) in simp_all)
next
  case (failure_tx now au lease e corr db item db')
  from failure_tx(1) show ?case
    by (cases rule: finish_execution_error_Inr) (use failure_tx(3) in simp_all)
next
  case (check_tx now ru ut au ids org_pid act_pid actor expected corr db rlease db')
  from check_tx(1,2) show ?case
    by (cases rule: prepare_reconciliation_Inr) (use check_tx(3) sweep_reconciliations in auto)
next
  case (settle_tx now ru au rlease result corr db item db')
  from settle_tx(1) show ?case
  proof (cases rule: finish_reconciliation_Inr)
    case (checked a x a' x')
    have "rec_id r \<noteq> rec_id x"
    proof
      assume same: "rec_id r = rec_id x"
      then have "r = x" using row_of_key_unique [where key = rec_id, OF _ settle_tx(3) checked(2)] settle_tx(2)
        by (simp add: action_inv_def action_tables_ok_def)
      then show False using settle_tx(4) checked(4,15) by simp
    qed
    moreover have "rec_id x' = rec_id x" using checked(5) by (simp add: settles_def)
    ultimately show ?thesis using settle_tx(3) checked(10) by (simp add: set_row_put)
  qed (use settle_tx(3) in simp)
next
  case (manual_tx now ru au org_pid act_pid actor expected outcome reason corr db item db')
  from manual_tx(1) show ?case by (cases rule: record_manual_outcome_Inr) (use manual_tx(3) in simp)
next
  case (recover_tx now au org_pid act_pid actor expected reason corr db item db')
  from recover_tx(1) show ?case by (cases rule: escalate_Inr) (use recover_tx(3) in simp)
next
  case (read_tx now now2 ids org_pid act_pid db found db')
  then show ?case by (auto simp: action_get_def run_simps dest!: sweep_reconciliations split: option.splits)
next
  case sweep_tx
  then show ?case using sweep_reconciliations by fastforce
next
  case materialize_tx
  then show ?case using materialize_attempts by simp
next
  case other_tx
  then show ?case by (simp add: same_action_tables_def)
qed

lemma foreign_attempt:
  assumes "(foreign_step sha (finishes_attempt i))\<^sup>*\<^sup>* db db'" and "action_inv db" and "running_or_lost i k db"
  shows "running_or_lost i k db'"
  using assms(1)
proof (induction rule: rtranclp_induct)
  case (step y z)
  have "action_inv y" by (rule act_sys.along_run [OF foreign_run [OF step.hyps(1)] assms(2)])
  then show ?case using step.hyps(2) step.IH tx_attempt unfolding foreign_step_def by blast
qed (rule assms(3))

lemma foreign_reconciliation:
  assumes "(foreign_step sha (finishes_check i))\<^sup>*\<^sup>* db db'" and "action_inv db" and "r \<in> set (reconciliations db)"
    and "rec_outcome r = RO_RUNNING \<Longrightarrow> rec_id r = i"
  shows "r \<in> set (reconciliations db')"
  using assms(1)
proof (induction rule: rtranclp_induct)
  case (step y z)
  have "action_inv y" by (rule act_sys.along_run [OF foreign_run [OF step.hyps(1)] assms(2)])
  then show ?case using step.hyps(2) step.IH tx_reconciliation [of sha _ y z r] assms(4)
    unfolding foreign_step_def by blast
qed (rule assms(3))

end
