(* ===== verification/Demo.thy ===== *)
theory Demo
  imports Lifecycle
begin

text \<open>
  A small concrete database: one organization with a supervisor, a case whose refund was
  proposed, reviewed and approved, and a healthy demonstration connection. The states of its
  action on the way are the inputs at which the properties of the action component are
  instantiated.
\<close>

named_theorems demo_eval \<open>definitions unfolded to evaluate the demonstration\<close>

section \<open>Rows\<close>

definition demo_organization :: organization where
  "demo_organization =
     \<lparr>org_id = 1, org_public_id = ''ORG'', org_name = ''Org'', org_slug = ''org'',
      org_version = 1, org_created_at = 0, org_updated_at = 0\<rparr>"

definition demo_member :: membership where
  "demo_member =
     \<lparr>mem_id = 2, mem_public_id = ''MEM'', mem_organization_id = 1, mem_subject_id =
      ''sub'', mem_name = ''Sam'', mem_email = ''s@x'', mem_role = SUPERVISOR, mem_status
      = MS_ACTIVE, mem_version = 1, mem_last_active_at = None, mem_created_at = 0,
      mem_updated_at = 0\<rparr>"

definition demo_case :: case_row where
  "demo_case =
     \<lparr>cs_id = 3, cs_public_id = ''CASE'', cs_organization_id = 1, cs_legacy_task_id =
      None, cs_source_id = ''src'', cs_external_reference = ''ext'', cs_category =
      REFUND_REQUEST, cs_issue = ''double charge'', cs_status = CS_NEEDS_REVIEW,
      cs_owner_id = None, cs_urgency = URG_LOW, cs_risk = CRISK_LOW, cs_due_at = 0,
      cs_impact_amount = None, cs_impact_currency = None, cs_source_freshness =
      SF_CURRENT, cs_source_checked_at = None, cs_version = 4, cs_created_at = 0,
      cs_updated_at = 0\<rparr>"

definition demo_proposal :: case_proposal where
  "demo_proposal =
     \<lparr>prop_id = 4, prop_public_id = ''PROP'', prop_organization_id = 1, prop_case_id = 3,
      prop_current_version = 1, prop_state = DP_APPROVED, prop_version = 1,
      prop_created_at = 0, prop_updated_at = 0\<rparr>"

definition demo_version :: proposal_version where
  "demo_version =
     \<lparr>pv_id = 5, pv_public_id = ''PV'', pv_organization_id = 1, pv_case_id = 3,
      pv_proposal_id = 4, pv_analysis_run_id = 9, pv_legacy_proposal_version_id = None,
      pv_version = 1, pv_immutable = True, pv_outcome = ''refund'', pv_impact_amount =
      None, pv_impact_currency = None, pv_confidence = CONF_HIGH, pv_uncertainty =
      ''none'', pv_rationale = ''policy'', pv_state = DP_READY_FOR_REVIEW, pv_facts = [],
      pv_missing_information = [], pv_risks = [], pv_evidence_fingerprint = ''x'',
      pv_context_fingerprint = ''x'', pv_risk_fingerprint = ''x'', pv_risk_rule_version =
      ''x'', pv_model_version = ''x'', pv_prompt_version = ''x'', pv_graph_version =
      ''x'', pv_created_at = 0\<rparr>"

definition demo_proposed_action :: proposed_action where
  "demo_proposed_action =
     \<lparr>pa_id = 6, pa_public_id = ''PA'', pa_organization_id = 1, pa_case_id = 3,
      pa_proposal_id = 4, pa_proposal_version_id = 5, pa_type = ''issue_refund'', pa_label
      = ''Refund'', pa_parameters = [(''payment_id'', ''PAY-1'')], pa_impact_amount =
      None, pa_impact_currency = None, pa_expected_outcome = ''refunded'',
      pa_review_required = True, pa_created_at = 0\<rparr>"

definition demo_review :: case_review where
  "demo_review =
     \<lparr>rv_id = 7, rv_public_id = ''RV'', rv_organization_id = 1, rv_case_id = 3,
      rv_proposal_id = 4, rv_proposal_version_id = 5, rv_status = RS_APPROVED,
      rv_review_reason = ''why'', rv_policy_state = PS_SUPPORTED, rv_uncertainty =
      UNC_LOW, rv_impact_amount = None, rv_impact_currency = None, rv_submitted_by_id = 2,
      rv_submitted_by_public_id = ''SPEC'', rv_submitted_by_name = ''Spec'',
      rv_submitted_by_role = SPECIALIST, rv_submitted_at = 0, rv_version = 1,
      rv_updated_at = 0\<rparr>"

definition demo_snapshot :: review_snapshot where
  "demo_snapshot =
     \<lparr>rs_id = 8, rs_public_id = ''RS'', rs_organization_id = 1, rs_case_id = 3,
      rs_review_id = 7, rs_proposal_id = 4, rs_proposal_version_id = 5, rs_case_version =
      4, rs_proposal_version = 1, rs_proposal_fingerprint = ''x'', rs_context_fingerprint
      = ''x'', rs_evidence_fingerprint = ''x'', rs_risk_fingerprint = ''x'',
      rs_risk_rule_version = ''x'', rs_snapshot_fingerprint = ''fp'', rs_approval_rule_id
      = ''x'', rs_approval_rule_name = ''x'', rs_approval_rule_explanation = ''x'',
      rs_required_role = SUPERVISOR, rs_approval_rule_version = 1, rs_execution_eligible =
      True, rs_created_at = 0\<rparr>"

definition demo_decision :: review_decision_row where
  "demo_decision =
     \<lparr>rvd_id = 10, rvd_public_id = ''RD'', rvd_organization_id = 1, rvd_case_id = 3,
      rvd_review_id = 7, rvd_reservation_id = 11, rvd_reviewer_id = Some 2,
      rvd_legacy_decision_id = None, rvd_reviewer_public_id = ''MEM'', rvd_reviewer_name =
      ''Sam'', rvd_reviewer_role = SUPERVISOR, rvd_decision = RD_APPROVE, rvd_reason =
      ''ok'', rvd_snapshot_fingerprint = ''fp'', rvd_decided_at = 0\<rparr>"

definition demo_connection :: connection where
  "demo_connection =
     \<lparr>cn_id = 12, cn_public_id = ''CN'', cn_organization_id = 1, cn_name = ''Billing'',
      cn_provider_type = ''billing'', cn_adapter_key = ''deterministic_demo'',
      cn_environment = DEMO, cn_health = HEALTHY, cn_last_checked_at = Some 0,
      cn_credential_status = CRED_DEMO, cn_read_capabilities = [], cn_write_capabilities =
      [], cn_action_types = [''issue_refund''], cn_affected_work = [],
      cn_runtime_config_fingerprint = None, cn_version = 1, cn_created_at = 0,
      cn_updated_at = 0\<rparr>"

definition demo_db :: database where
  "demo_db =
     \<lparr>organizations = [demo_organization], memberships = [demo_member], cases = [demo_case],
      business_objects = [], threads = [], messages = [], response_drafts = [], generations = [],
      analysis_runs = [], checkpoints = [],
      proposals = [demo_proposal], proposal_versions = [demo_version], evidence_bindings = [],
      context_bindings = [], proposed_actions = [demo_proposed_action],
      proposal_response_drafts = [], policy_versions = [], policy_clauses = [],
      policy_evidence_rows = [], reviews = [demo_review], review_snapshots = [demo_snapshot],
      reservations = [], review_decisions = [demo_decision], connections = [demo_connection],
      actions = [], attempts = [], receipts = [], reconciliations = [], settings = [],
      audit_events = [], case_requests = [], case_customers = [], invitations = [], policies = [],
      embedding_profiles = [], clause_embeddings = [], index_jobs = []\<rparr>"

lemmas demo_defs = demo_organization_def demo_member_def demo_case_def demo_proposal_def demo_version_def demo_proposed_action_def demo_review_def demo_snapshot_def demo_decision_def demo_connection_def demo_db_def

declare demo_defs [demo_eval]

definition demo_fresh :: "uuid \<Rightarrow> materialize_ids" where
  "demo_fresh i = \<lparr>mi_action = 20, mi_audit = 21, mi_connection = 22, mi_connection_now = 0\<rparr>"

definition demo_approval :: approval where
  "demo_approval = \<lparr>ap_review = demo_review, ap_snapshot = demo_snapshot,
     ap_decision = demo_decision, ap_case = demo_case, ap_proposal = demo_proposal,
     ap_version = demo_version\<rparr>"

definition demo_action :: case_action where
  "demo_action = new_action id 60 20 ''ORG'' demo_approval None demo_connection demo_proposed_action"

definition demo_ready :: database where
  "demo_ready = demo_db\<lparr>actions := [demo_action]\<rparr>"

definition demo_attempt :: action_attempt where
  "demo_attempt = new_attempt id 30 demo_action demo_member CMD_EXECUTE 70"

definition demo_lost_action :: case_action where
  "demo_lost_action = abandoned_action 80 (started_action 70 demo_member demo_action)"

text \<open>The attempt was lost: its outcome is unknown.\<close>

definition demo_lost :: database where
  "demo_lost = demo_db\<lparr>actions := [demo_lost_action], attempts := [abandoned_attempt id 80 demo_attempt]\<rparr>"

section \<open>Evaluation\<close>

text \<open>As a congruence rule: what follows a step is evaluated after the step.\<close>

lemma bindE_first: "m = m' \<Longrightarrow> bindE m f = bindE m' f"
  by simp

lemmas demo_code [demo_eval] = row_get_def Let_def materialize_approved_review_def
  approved_lineage_def required_review_snapshot_def reviewed_actions_def materialize_one_def
  existing_action_def resolve_for_action_def rank_connections_def insert_action_def
  insert_row_def new_action_def case_action_checks_def case_action_clash_def
  impact_pair_check_def check_passes_def sql_or_def sql_and_def add_action_audit_def
  insert_audit_def load_bundle_def demo_fresh_def demo_approval_def demo_action_def
  demo_ready_def demo_attempt_def

lemmas demo_exec [demo_eval] = prepare_execution_def required_action_for_update_def
  scoped_action_def retired_action_types_def reconcile_abandoned_def abandoned_candidates_def
  refresh_action_def effective_blocker_def receipt_of_def approval_is_current_def
  required_connection_def connection_is_eligible_def connection_health_max_age_minutes_def
  minutes_def seconds_def hours_def action_authorization_hours_def require_startable_def
  active_member_def insert_attempt_def action_attempt_checks_def action_attempt_clash_def
  new_attempt_def started_action_def put_action_def row_put_def attempts_of_def
  reconciliations_of_def queue_item_of_def

lemma demo_materialized:
  "\<exists>bundles db'. materialize_approved_review id 60 demo_fresh ''ORG'' ''RV'' ''corr'' demo_db
     = Inr (bundles, db') \<and> actions db' = [demo_action]"
  by (simp add: demo_code demo_defs)

lemma demo_ready_inv: "action_inv demo_ready"
  by (simp add: demo_ready_def demo_db_def action_inv_def action_tables_ok_def unique_keys_def
      action_slice_ok_def slice_ok_def slice_defs attempts_ok_def reconciliations_ok_def
      receipts_ok_def reconciling_def demo_action_def new_action_sel)

lemma demo_scoped:
  "scoped_action ''ORG'' (act_public_id demo_action) demo_ready = Some demo_action"
  by (simp add: scoped_action_def demo_ready_def demo_db_def demo_action_def new_action_def Let_def
      demo_approval_def demo_review_def demo_organization_def)

lemma demo_leased:
  "\<exists>lease db'. prepare_execution id 70 30 31 id ''ORG'' (act_public_id demo_action) ''MEM'' 1
     CMD_EXECUTE ''corr'' demo_ready = Inr (lease, db')"
  by (simp add: demo_eval cong: bindE_first)

lemma demo_lost_inv: "action_inv demo_lost"
  by (simp add: demo_lost_def demo_db_def action_inv_def action_tables_ok_def unique_keys_def
      action_slice_ok_def slice_ok_def slice_defs attempts_ok_def reconciliations_ok_def
      receipts_ok_def reconciling_def demo_lost_action_def abandoned_action_def started_action_def
      demo_attempt_def abandoned_attempt_def new_attempt_sel demo_action_def new_action_sel
      new_attempt_def Let_def)

end
