(* ===== verification/Action_Safety.thy ===== *)
theory Action_Safety
  imports Demo
begin

text \<open>
  The action service against a gateway that keeps its contract: what the status it reports says
  about the external target. The lemmas are proved once for every gateway, inside the locale
  of the contract, and reach the properties through its interpretation on the router over the
  deterministic adapter.
\<close>

section \<open>Calling the gateway\<close>

definition answering ::
    "(string \<Rightarrow> string \<Rightarrow> gateway_request \<Rightarrow> 'g \<Rightarrow> (gateway_error + gateway_receipt) \<times> 'g)
     \<Rightarrow> 'g gateway_execute" where
  "answering exec ak pt req g = (case exec ak pt req g of (res, g') \<Rightarrow> (Some res, g'))"

definition answering_lookup ::
    "(string \<Rightarrow> string \<Rightarrow> gateway_request \<Rightarrow> string option \<Rightarrow> 'g \<Rightarrow> gateway_error + lookup_result)
     \<Rightarrow> 'g gateway_reconcile" where
  "answering_lookup look ak pt req ref g =
     (case look ak pt req ref g of Inl _ \<Rightarrow> None | Inr l \<Rightarrow> Some l)"

lemma queue_item_action: "queue_item_of a now db = Inr item \<Longrightarrow> ab_action (qi_bundle item) = a"
  by (auto simp: queue_item_of_def run_simps load_bundle_def split: option.splits)

text \<open>The lease a start hands out names the running action, its target and the running attempt.\<close>

lemma prepared_lease:
  assumes run: "prepare_execution sha now tu au ids org_pid act_pid actor expected command corr db
      = Inr (lease, db')" and inv: "action_inv db"
    and a: "scoped_action org_pid act_pid db = Some a" and c: "required_connection a db = Inr c"
  shows "el_adapter_key lease = cn_adapter_key c" and "el_idempotency_key lease = act_idempotency_key a"
    and "el_action_id lease = act_id a" and "running_or_lost (el_attempt_id lease) (act_id a) db'"
    and "\<exists>b. row_get act_id (act_id a) (actions db') = Some b \<and> same_identity a b"
proof -
  have "el_adapter_key lease = cn_adapter_key c \<and> el_idempotency_key lease = act_idempotency_key a
    \<and> el_action_id lease = act_id a \<and> running_or_lost (el_attempt_id lease) (act_id a) db'
    \<and> (\<exists>b. row_get act_id (act_id a) (actions db') = Some b \<and> same_identity a b)"
    using run inv
  proof (cases rule: prepare_execution_Inr)
    case (1 found db1 b member d)
    have "db1 = db" using prepare_execution_idle [OF run inv 1(2)] 1(3) by simp
    note e = 1 [unfolded \<open>db1 = db\<close>]
    note row = required_action_row [OF e(2) inv]
    have b: "found = a" "b = a" using row(1,3) e(6) a by simp_all
    have "running_or_lost tu (act_id a) db'"
      using e(14,16) b by (simp add: running_or_lost_def row_get_append new_attempt_sel)
    moreover have "\<exists>x. row_get act_id (act_id a) (actions db') = Some x \<and> same_identity a x"
      using row(1) e(15) b started_action_sel(1) [of a now member] by (auto simp: row_get_put same_identity_def)
    ultimately show ?thesis using e b c by simp
  qed
  then show "el_adapter_key lease = cn_adapter_key c" and "el_idempotency_key lease = act_idempotency_key a"
    and "el_action_id lease = act_id a" and "running_or_lost (el_attempt_id lease) (act_id a) db'"
    and "\<exists>b. row_get act_id (act_id a) (actions db') = Some b \<and> same_identity a b" by auto
qed

lemma sweep_connections:
  assumes "reconcile_abandoned sha now ids scope db = Inr db'"
  shows "connections db' = connections db"
proof -
  have "connections t = connections s" if "abandon_attempt sha now ids x s = Inr t" for x s t
    using that by (auto simp: abandon_attempt_def Let_def put_attempt_def put_action_def
        split: option.splits if_splits prod.splits dest!: add_action_audit_Inr)
  then show ?thesis
    using assms foldE_invariant [where P = "\<lambda>d. connections d = connections db"]
    by (metis reconcile_abandoned_def)
qed

text \<open>Likewise for a reconciliation, whose connection is read after the sweep.\<close>

lemma prepared_reconciliation:
  assumes run: "prepare_reconciliation sha now ru ut au ids org_pid act_pid actor expected corr db
      = Inr (lease, db')" and inv: "action_inv db"
  obtains a c where "scoped_action org_pid act_pid db = Some a"
    and "required_connection a db = Inr c" and "rl_adapter_key lease = cn_adapter_key c"
    and "rl_idempotency_key lease = act_idempotency_key a" and "rl_action_id lease = act_id a"
    and "\<And>r. r \<in> set (reconciliations db') \<Longrightarrow> rec_id r = rl_reconciliation_id lease
      \<Longrightarrow> rec_outcome r = RO_RUNNING"
  using run inv
proof (cases rule: prepare_reconciliation_Inr)
  case (1 found db1 a member c pid)
  have "rec_outcome r = RO_RUNNING" if "r \<in> set (reconciliations db')" "rec_id r = rl_reconciliation_id lease" for r
  proof -
    have "ru \<notin> rec_id ` set (reconciliations db1)" using 1(15) row_get_None by metis
    then have "r = new_reconciliation ru pid a member RO_RUNNING
        ''The target is being checked without issuing another write.'' now"
      using that 1(17,21) by auto
    then show ?thesis by (simp add: new_reconciliation_sel)
  qed
  moreover have "required_connection found db = Inr c"
    using 1(6,10) sweep_connections [OF 1(2)]
    by (auto simp: required_connection_def same_identity_def split: option.splits if_splits)
  ultimately show thesis
    using that [of found c] required_action_row(3) [OF 1(1) inv] 1(6,20,22,23)
    by (simp add: same_identity_def)
qed

lemma finish_reconciliation_running:
  assumes run: "finish_reconciliation sha now ru au lease result corr db = Inr (item, db')"
    and live: "\<And>r. r \<in> set (reconciliations db) \<Longrightarrow> rec_id r = rl_reconciliation_id lease
      \<Longrightarrow> rec_outcome r = RO_RUNNING"
  shows "act_id (ab_action (qi_bundle item)) = rl_action_id lease \<and>
    act_status (ab_action (qi_bundle item)) =
      (case reconciliation_outcome_for_lookup (lr_found result) (lr_absence_is_terminal result) of
         RO_CONFIRMED_COMPLETED \<Rightarrow> AS_COMPLETED | RO_CONFIRMED_ABSENT \<Rightarrow> AS_FAILED_SAFE
       | _ \<Rightarrow> AS_OUTCOME_UNKNOWN)"
  using run
proof (cases rule: finish_reconciliation_Inr)
  case (settled a r)
  then show ?thesis using live by blast
next
  case (checked a r a' r')
  then show ?thesis
    using queue_item_action [OF checked(14)] row_get_Some [OF checked(1)]
    by (simp add: settles_def same_identity_def)
qed

text \<open>The check a call started is still open when it is closed, whatever other calls did meanwhile.\<close>

lemma foreign_check_open:
  assumes run: "prepare_reconciliation sha now ru ut au ids org_pid act_pid actor expected corr db
      = Inr (lease, db1)" and inv: "action_inv db"
    and others: "(foreign_step sha (finishes_check (rl_reconciliation_id lease)))\<^sup>*\<^sup>* db1 db2"
    and r: "r \<in> set (reconciliations db2)" "rec_id r = rl_reconciliation_id lease"
  shows "rec_outcome r = RO_RUNNING"
proof -
  have inv1: "action_inv db1" using prepare_reconciliation_step [OF run inv] by blast
  have inv2: "action_inv db2" by (rule act_sys.along_run [OF foreign_run [OF others] inv1])
  obtain r0 where r0: "r0 \<in> set (reconciliations db1)" "rec_id r0 = rl_reconciliation_id lease"
    "rec_outcome r0 = RO_RUNNING"
    using run inv
  proof (cases rule: prepare_reconciliation_Inr)
    case (1 found db0 a member c pid)
    then show ?thesis using that [of "last (reconciliations db1)"] by (simp add: new_reconciliation_sel)
  qed
  have "r0 \<in> set (reconciliations db2)" by (rule foreign_reconciliation [OF others inv1 r0(1) r0(2)])
  then have "r = r0" using row_of_key_unique [where key = rec_id, OF _ r(1)] r(2) r0(2) inv2
    by (simp add: action_inv_def action_tables_ok_def)
  then show ?thesis using r0(3) by simp
qed

context action_gateway
begin

text \<open>The call against a gateway that keeps its contract, with the transactions of other calls between
  the lease and the closing transaction.\<close>

lemma service_execute_sound:
  assumes call: "service_execute sha (answering execute) ids actor act_pid expected command corr between db g
      = (Inr item, db', g')"
    and inv: "action_inv db" and g: "gok g"
    and a: "scoped_action (actor_organization_id actor) act_pid db = Some a"
    and c: "required_connection a db = Inr c"
    and prep: "prepare_execution sha (ci_now ids) (ci_row ids) (ci_audit ids) (ci_audit_ids ids)
      (actor_organization_id actor) act_pid (actor_id actor) expected command corr db = Inr (lease, db1)"
    and others: "(foreign_step sha (finishes_attempt (el_attempt_id lease)))\<^sup>*\<^sup>* db1 (between db1)"
  shows "gok g'" and "row_get act_id (act_id a) (actions db') = Some (ab_action (qi_bundle item))"
    and "\<exists>t. row_get att_id (el_attempt_id lease) (attempts db') = Some t \<and> att_action_id t = act_id a \<and>
      (if attempt_open lease (between db1)
       then att_outcome t = AO_SUCCEEDED \<and> act_status (ab_action (qi_bundle item)) = AS_COMPLETED
           \<and> changed g' (cn_adapter_key c) (act_idempotency_key a)
         \<or> att_outcome t = AO_FAILED_BEFORE_CHANGE \<and> act_status (ab_action (qi_bundle item)) = AS_FAILED_SAFE
           \<and> \<not> changed g' (cn_adapter_key c) (act_idempotency_key a)
         \<or> att_outcome t = AO_UNKNOWN \<and> act_status (ab_action (qi_bundle item)) = AS_OUTCOME_UNKNOWN
       else db' = between db1 \<and> att_outcome t = AO_UNKNOWN)"
proof -
  let ?db2 = "between db1" and ?i = "el_attempt_id lease"
  obtain res where
    res: "execute (el_adapter_key lease) (el_provider_type lease) (execution_request lease) g = (res, g')"
    and fin: "finish_execution sha ids lease (Some res) corr ?db2 = Inr (item, db')"
    using call prep
    by (auto simp: service_execute_def run_simps answering_def split: sum.splits prod.splits)
  note leased = prepared_lease [OF prep inv a c]
  have inv1: "action_inv db1" using prepare_execution_step [OF prep inv] by blast
  have inv2: "action_inv ?db2" by (rule act_sys.along_run [OF foreign_run [OF others] inv1])
  have lost: "running_or_lost ?i (act_id a) ?db2" by (rule foreign_attempt [OF others inv1 leased(4)])
  obtain b where b: "row_get act_id (act_id a) (actions ?db2) = Some b" "same_identity a b"
    using leased(5) action_run_evolves [OF foreign_run [OF others] inv1] same_identity_trans
    unfolding action_evolves_def by meson
  have models: "x = b" "row_get att_id ?i (attempts ?db2) = Some u" "att_action_id u = act_id a"
    if em: "execution_models lease ?db2 = Inr (x, u)" for x u
  proof -
    note m = execution_models_Inr [OF em]
    show "x = b" using m(1) leased(3) b(1) by simp
    have u: "unique_keys att_id (attempts ?db2)" using inv2 by (simp add: action_inv_def action_tables_ok_def)
    show "row_get att_id ?i (attempts ?db2) = Some u" using row_get_unique [OF u m(2)] m(4) by simp
    show "att_action_id u = act_id a" using m(3) leased(3) by simp
  qed
  have key: "gq_idempotency_key (execution_request lease) = act_idempotency_key a"
    using leased(2) by (simp add: execution_request_def)
  have bid: "act_id b = act_id a" using b(2) by (simp add: same_identity_def)
  show "gok g'" by (rule gok_execute [OF g res])
  have "row_get act_id (act_id a) (actions db') = Some (ab_action (qi_bundle item))
    \<and> (\<exists>t. row_get att_id ?i (attempts db') = Some t \<and> att_action_id t = act_id a \<and>
      (if attempt_open lease ?db2
       then att_outcome t = AO_SUCCEEDED \<and> act_status (ab_action (qi_bundle item)) = AS_COMPLETED
           \<and> changed g' (cn_adapter_key c) (act_idempotency_key a)
         \<or> att_outcome t = AO_FAILED_BEFORE_CHANGE \<and> act_status (ab_action (qi_bundle item)) = AS_FAILED_SAFE
           \<and> \<not> changed g' (cn_adapter_key c) (act_idempotency_key a)
         \<or> att_outcome t = AO_UNKNOWN \<and> act_status (ab_action (qi_bundle item)) = AS_OUTCOME_UNKNOWN
       else db' = ?db2 \<and> att_outcome t = AO_UNKNOWN))"
  proof (cases res)
    case (Inl e)
    have err: "finish_execution_error sha (ci_finish_now ids) (ci_finish_audit ids) lease e corr ?db2
        = Inr (item, db')" using fin Inl by (simp add: finish_execution_def)
    then show ?thesis
    proof (cases rule: finish_execution_error_Inr)
      case (settled x u)
      note m = models [OF settled(1)]
      have "ab_action (qi_bundle item) = b"
        using err settled(1,2) m(1) by (auto simp: finish_execution_error_def run_simps dest: queue_item_action)
      then show ?thesis using settled(2,3) m b(1) open_attempt [OF settled(1) inv2] lost
        by (auto simp: running_or_lost_def)
    next
      case (failed x u)
      note m = models [OF failed(1)]
      have rows: "row_get act_id (act_id a) (actions db') = Some (failed_action (ci_finish_now ids) e b)"
        "row_get att_id ?i (attempts db') = Some (failed_attempt sha (ci_finish_now ids) e u)"
        using failed(3,4) m b(1) bid row_get_Some [OF m(2)] close_rows_sel(5) [of b "ci_finish_now ids" e]
        by (simp_all add: row_get_put same_identity_def failed_attempt_def)
      show ?thesis
        using rows failed(2) m queue_item_action [OF failed(7)] open_attempt [OF failed(1) inv2]
          safe_error_unchanged [OF g res [unfolded Inl]] key leased(1)
        by (auto simp: close_rows_sel safe_failure_def failed_attempt_def)
    qed
  next
    case (Inr receipt)
    have ok: "finish_execution_success sha (ci_finish_now ids) (ci_finish_row ids) (ci_finish_audit ids)
        lease receipt corr ?db2 = Inr (item, db')" using fin Inr by (simp add: finish_execution_def)
    then show ?thesis
    proof (cases rule: finish_execution_success_Inr)
      case (settled x u)
      note m = models [OF settled(1)]
      have "ab_action (qi_bundle item) = b"
        using ok settled(1,2) m(1)
        by (auto simp: finish_execution_success_def run_simps dest: queue_item_action split: if_splits)
      then show ?thesis using settled(2,4) m b(1) open_attempt [OF settled(1) inv2] lost
        by (auto simp: running_or_lost_def)
    next
      case (completed x u stored)
      note m = models [OF completed(1)]
      have rows: "row_get act_id (act_id a) (actions db') = Some (completed_action (ci_finish_now ids) stored b)"
        "row_get att_id ?i (attempts db') = Some (succeeded_attempt sha (ci_finish_now ids) receipt u)"
        using completed(4,5) m b(1) bid row_get_Some [OF m(2)] close_rows_sel(1) [of b "ci_finish_now ids" stored]
        by (simp_all add: row_get_put same_identity_def succeeded_attempt_def)
      show ?thesis
        using rows completed(2) m queue_item_action [OF completed(11)] open_attempt [OF completed(1) inv2]
          receipt_changed [OF g res [unfolded Inr]] key leased(1)
        by (simp add: close_rows_sel succeeded_attempt_def)
    qed
  qed
  then show "row_get act_id (act_id a) (actions db') = Some (ab_action (qi_bundle item))"
    and "\<exists>t. row_get att_id ?i (attempts db') = Some t \<and> att_action_id t = act_id a \<and>
      (if attempt_open lease ?db2
       then att_outcome t = AO_SUCCEEDED \<and> act_status (ab_action (qi_bundle item)) = AS_COMPLETED
           \<and> changed g' (cn_adapter_key c) (act_idempotency_key a)
         \<or> att_outcome t = AO_FAILED_BEFORE_CHANGE \<and> act_status (ab_action (qi_bundle item)) = AS_FAILED_SAFE
           \<and> \<not> changed g' (cn_adapter_key c) (act_idempotency_key a)
         \<or> att_outcome t = AO_UNKNOWN \<and> act_status (ab_action (qi_bundle item)) = AS_OUTCOME_UNKNOWN
       else db' = ?db2 \<and> att_outcome t = AO_UNKNOWN)" by blast+
qed

lemma service_reconcile_sound:
  assumes call: "service_reconcile sha (answering_lookup reconcile) ids actor act_pid expected corr between db g
      = (Inr item, db')"
    and inv: "action_inv db" and g: "gok g"
    and a: "scoped_action (actor_organization_id actor) act_pid db = Some a"
    and c: "required_connection a db = Inr c"
    and prep: "prepare_reconciliation sha (ci_now ids) (ci_row ids) (ci_uuid_text ids) (ci_audit ids)
      (ci_audit_ids ids) (actor_organization_id actor) act_pid (actor_id actor) expected corr db
      = Inr (lease, db1)"
    and others: "(foreign_step sha (finishes_check (rl_reconciliation_id lease)))\<^sup>*\<^sup>* db1 (between db1)"
  shows "act_id (ab_action (qi_bundle item)) = act_id a \<and>
    (act_status (ab_action (qi_bundle item)) = AS_COMPLETED
      \<and> changed g (cn_adapter_key c) (act_idempotency_key a)
    \<or> act_status (ab_action (qi_bundle item)) = AS_FAILED_SAFE
      \<and> \<not> changed g (cn_adapter_key c) (act_idempotency_key a)
    \<or> act_status (ab_action (qi_bundle item)) = AS_OUTCOME_UNKNOWN)"
proof -
  let ?look = "reconcile (rl_adapter_key lease) (rl_provider_type lease) (reconciliation_request lease)
    (rl_external_reference lease) g"
  define result where "result = (case ?look of Inl _ \<Rightarrow> uncheckable_lookup | Inr l \<Rightarrow> l)"
  have fin: "finish_reconciliation sha (ci_finish_now ids) (ci_finish_row ids) (ci_finish_audit ids)
      lease result corr (between db1) = Inr (item, db')"
    using call prep
    by (cases ?look) (auto simp: service_reconcile_def run_simps answering_lookup_def result_def Let_def
        split: sum.splits prod.splits)
  obtain a0 c0 where a0: "scoped_action (actor_organization_id actor) act_pid db = Some a0"
      "required_connection a0 db = Inr c0" "rl_adapter_key lease = cn_adapter_key c0"
      "rl_idempotency_key lease = act_idempotency_key a0" "rl_action_id lease = act_id a0"
    using prepared_reconciliation [OF prep inv] by metis
  have key: "gq_idempotency_key (reconciliation_request lease) = act_idempotency_key a"
    using a0 a by (simp add: reconciliation_request_def)
  have ak: "rl_adapter_key lease = cn_adapter_key c" using a0 a c by simp
  note f = finish_reconciliation_running [OF fin foreign_check_open [OF prep inv others]]
  show ?thesis
  proof (cases ?look)
    case (Inl e)
    then show ?thesis
      using f a0 a by (simp add: result_def uncheckable_lookup_def unknown_lookup_def
          reconciliation_outcome_for_lookup_def)
  next
    case (Inr l)
    then have "result = l" by (simp add: result_def)
    then show ?thesis
      using f a0 a key ak lookup_outcome_sound [OF g Inr refl]
      by (cases "reconciliation_outcome_for_lookup (lr_found l) (lr_absence_is_terminal l)") auto
  qed
qed

end

section \<open>What the reported status says about the target\<close>

text \<open>C5. The reported status is true of the target, also when other calls commit between the lease
  and the closing transaction. When a call of \<open>execute\<close> or \<open>retry_safe\<close> returns, with the router over
  deterministic adapters as its gateway, it returns the stored action, and one of two things holds.
  Its attempt was still open: then the attempt succeeded, the action is \<open>completed\<close> and the target has
  performed the change that carries the action's idempotency key; or the attempt failed before a
  change, the action is \<open>failed_safe\<close> and the target has not performed it; or the outcome is unknown.
  Or a sweep gave the attempt up meanwhile: then the call writes nothing, so it neither claims a change
  that did not happen nor safety where there was one, and the attempt stays recorded as unknown.\<close>

theorem service_execute_truthful:
  assumes call: "service_execute sha (answering (routing_execute (det_execute sha))) ids actor act_pid
      expected command corr between db gs = (Inr item, db', gs')"
    and inv: "action_inv db" and gs: "routing_wf det_wf gs"
    and a: "scoped_action (actor_organization_id actor) act_pid db = Some a"
    and c: "required_connection a db = Inr c"
    and prep: "prepare_execution sha (ci_now ids) (ci_row ids) (ci_audit ids) (ci_audit_ids ids)
      (actor_organization_id actor) act_pid (actor_id actor) expected command corr db = Inr (lease, db1)"
    and others: "(foreign_step sha (finishes_attempt (el_attempt_id lease)))\<^sup>*\<^sup>* db1 (between db1)"
  shows "row_get act_id (act_id a) (actions db') = Some (ab_action (qi_bundle item)) \<and>
    (\<exists>t. row_get att_id (el_attempt_id lease) (attempts db') = Some t \<and> att_action_id t = act_id a \<and>
      (if attempt_open lease (between db1)
       then att_outcome t = AO_SUCCEEDED \<and> act_status (ab_action (qi_bundle item)) = AS_COMPLETED
           \<and> routing_changed det_changed gs' (cn_adapter_key c) (act_idempotency_key a)
         \<or> att_outcome t = AO_FAILED_BEFORE_CHANGE \<and> act_status (ab_action (qi_bundle item)) = AS_FAILED_SAFE
           \<and> \<not> routing_changed det_changed gs' (cn_adapter_key c) (act_idempotency_key a)
         \<or> att_outcome t = AO_UNKNOWN \<and> act_status (ab_action (qi_bundle item)) = AS_OUTCOME_UNKNOWN
       else db' = between db1 \<and> att_outcome t = AO_UNKNOWN))"
  by (intro conjI demo.routed.service_execute_sound(2,3) [OF call inv gs a c prep others])

text \<open>C6. Reconciliation is truthful too, whatever other calls commit while the target is asked: a check
  of the target reports \<open>completed\<close> only when the target has performed the change and \<open>failed_safe\<close>,
  which permits a retry, only when it has not; an unreachable target leaves the outcome unknown.\<close>

theorem service_reconcile_truthful:
  assumes call: "service_reconcile sha (answering_lookup (routing_reconcile det_reconcile)) ids actor
      act_pid expected corr between db gs = (Inr item, db')"
    and inv: "action_inv db" and gs: "routing_wf det_wf gs"
    and a: "scoped_action (actor_organization_id actor) act_pid db = Some a"
    and c: "required_connection a db = Inr c"
    and prep: "prepare_reconciliation sha (ci_now ids) (ci_row ids) (ci_uuid_text ids) (ci_audit ids)
      (ci_audit_ids ids) (actor_organization_id actor) act_pid (actor_id actor) expected corr db
      = Inr (lease, db1)"
    and others: "(foreign_step sha (finishes_check (rl_reconciliation_id lease)))\<^sup>*\<^sup>* db1 (between db1)"
  shows "act_id (ab_action (qi_bundle item)) = act_id a \<and>
    (act_status (ab_action (qi_bundle item)) = AS_COMPLETED
      \<and> routing_changed det_changed gs (cn_adapter_key c) (act_idempotency_key a)
    \<or> act_status (ab_action (qi_bundle item)) = AS_FAILED_SAFE
      \<and> \<not> routing_changed det_changed gs (cn_adapter_key c) (act_idempotency_key a)
    \<or> act_status (ab_action (qi_bundle item)) = AS_OUTCOME_UNKNOWN)"
  by (rule demo.routed.service_reconcile_sound [OF call inv gs a c prep others])

section \<open>Limits of recovery\<close>

lemma prepare_reconciliation_idle:
  assumes inv: "action_inv db" and a: "scoped_action org_pid act_pid db = Some a"
    and st: "act_status a \<noteq> AS_RUNNING"
    and run: "prepare_reconciliation sha now ru ut au ids org_pid act_pid actor expected corr db
      = Inr (lease, db')"
  shows "\<not> reconciling (reconciliations_at (act_id a) db)
    \<and> (\<exists>t. latest_attempt a db = Some t \<and> att_outcome t = AO_UNKNOWN)"
  using run inv
proof (cases rule: prepare_reconciliation_Inr)
  case (1 found db1 b member c pid)
  have f: "found = a" using required_action_row(3) [OF 1(1) inv] a by simp
  note slice = action_inv_row(1) [OF inv required_action_row(1) [OF 1(1) inv, unfolded f]]
  have "db1 = db" using sweep_idle [OF _ st] slice 1(2) f by (simp add: slice_ok_def)
  moreover have "b = a" using \<open>db1 = db\<close> 1(5) f required_action_row(1) [OF 1(1) inv] by simp
  ultimately show ?thesis
    using running_reconciliation_None 1(12,13) slice by (auto simp: slice_ok_def)
qed

text \<open>C9. Checks of the target are exclusive: while a reconciliation of an action is in
  flight, no other one can be started, by anyone and at any later time. (The code has no
  counterpart of the five-minute sweep for reconciliations, so one whose process died blocks
  the target check of its action for good.)\<close>

theorem one_check_at_a_time:
  assumes "action_inv db" and "scoped_action org_pid act_pid db = Some a"
    and "act_status a \<noteq> AS_RUNNING" and "reconciling (reconciliations_at (act_id a) db)"
  shows "\<exists>e. prepare_reconciliation sha now ru ut au ids org_pid act_pid actor expected corr db = Inl e"
proof (cases "prepare_reconciliation sha now ru ut au ids org_pid act_pid actor expected corr db")
  case (Inr res)
  then show ?thesis
    using prepare_reconciliation_idle [OF assms(1-3), of sha now ru ut au ids actor expected corr]
      assms(4) by (cases res) auto
qed blast

text \<open>An escalated safe failure is a dead end: once an action whose latest attempt provably
  changed nothing has been escalated, it can neither be sent again nor checked nor resolved by
  a recorded outcome.\<close>

theorem escalated_failure_dead_end:
  assumes inv: "action_inv db" and a: "scoped_action org_pid act_pid db = Some a"
    and st: "act_status a = AS_RECOVERY_REQUIRED"
    and t: "latest_attempt a db = Some t" "att_outcome t = AO_FAILED_BEFORE_CHANGE"
  shows "(\<exists>e. prepare_execution sha now tu au ids org_pid act_pid actor expected command corr db = Inl e)
    \<and> (\<exists>e. prepare_reconciliation sha now ru ut au ids org_pid act_pid actor expected corr db = Inl e)
    \<and> (\<exists>e. record_manual_outcome sha now ru au org_pid act_pid actor expected outcome reason corr db = Inl e)"
proof -
  have "\<exists>e. prepare_execution sha now tu au ids org_pid act_pid actor expected command corr db = Inl e"
    by (rule prepare_execution_refused [OF inv a]) (simp add: st)
  moreover have "\<exists>e. prepare_reconciliation sha now ru ut au ids org_pid act_pid actor expected corr db = Inl e"
  proof (cases "prepare_reconciliation sha now ru ut au ids org_pid act_pid actor expected corr db")
    case (Inr res)
    then show ?thesis
      using prepare_reconciliation_idle [OF inv a, of sha now ru ut au ids actor expected corr] st t
      by (cases res) auto
  qed blast
  moreover have "\<exists>e. record_manual_outcome sha now ru au org_pid act_pid actor expected outcome reason corr db = Inl e"
  proof (cases "record_manual_outcome sha now ru au org_pid act_pid actor expected outcome reason corr db")
    case (Inr res)
    then obtain item db' where "record_manual_outcome sha now ru au org_pid act_pid actor expected outcome
        reason corr db = Inr (item, db')" by (cases res) simp
    then show ?thesis
    proof (cases rule: record_manual_outcome_Inr)
      case (1 b member pid)
      then show ?thesis using a t required_action_row(3) [OF 1(1) inv] by simp
    qed
  qed blast
  ultimately show ?thesis by blast
qed

section \<open>A recorded completion can be undone\<close>

text \<open>C19. A completion a member recorded by hand is not final. Take any check of the target that is
  under way and any manual record of completion of the same action made before the check is closed,
  with any transactions of other calls in between. When the check then reports that the change is
  absent for good, closing it puts the action from \<open>completed\<close> back to \<open>failed_safe\<close>, the status that
  permits another write, while the record of the completion stands. (The closing of a check does not
  look at the status it overwrites.)\<close>

theorem manual_completion_reverted:
  assumes inv: "action_inv db"
    and check: "prepare_reconciliation sha now1 ru1 ut au1 ids org1 act1 actor1 v1 corr1 db = Inr (lease, db1)"
    and before: "(foreign_step sha (finishes_check (rl_reconciliation_id lease)))\<^sup>*\<^sup>* db1 db2"
    and manual: "record_manual_outcome sha now2 ru2 au2 org2 act2 actor2 v2 MO_COMPLETED reason corr2 db2
      = Inr (item, db3)"
    and same: "act_id (ab_action (qi_bundle item)) = rl_action_id lease"
    and after: "(foreign_step sha (finishes_check (rl_reconciliation_id lease)))\<^sup>*\<^sup>* db3 db4"
    and finish: "finish_reconciliation sha now3 ru3 au3 lease result corr3 db4 = Inr (item', db5)"
    and absent: "lr_found result = Some False" "lr_absence_is_terminal result"
  shows "row_get act_id (rl_action_id lease) (actions db3) = Some (ab_action (qi_bundle item))
    \<and> act_status (ab_action (qi_bundle item)) = AS_COMPLETED
    \<and> row_get act_id (rl_action_id lease) (actions db5) = Some (ab_action (qi_bundle item'))
    \<and> act_status (ab_action (qi_bundle item')) = AS_FAILED_SAFE
    \<and> (\<exists>r\<in>set (reconciliations db5). rec_id r = ru2 \<and> rec_action_id r = rl_action_id lease
          \<and> rec_outcome r = RO_CONFIRMED_COMPLETED)"
proof -
  let ?own = "finishes_check (rl_reconciliation_id lease)"
  have inv1: "action_inv db1" using prepare_reconciliation_step [OF check inv] by blast
  have inv2: "action_inv db2" by (rule act_sys.along_run [OF foreign_run [OF before] inv1])
  have inv3: "action_inv db3" using record_manual_outcome_step [OF manual inv2] by blast
  have inv4: "action_inv db4" by (rule act_sys.along_run [OF foreign_run [OF after] inv3])
  have "foreign_step sha ?own db2 db3"
    unfolding foreign_step_def using action_tx_step.manual_tx [OF manual] by (intro exI conjI) auto
  then have run: "(foreign_step sha ?own)\<^sup>*\<^sup>* db1 db4" using before after by (meson rtranclp.simps rtranclp_trans)
  have done_: "row_get act_id (rl_action_id lease) (actions db3) = Some (ab_action (qi_bundle item))
    \<and> act_status (ab_action (qi_bundle item)) = AS_COMPLETED
    \<and> (\<exists>r\<in>set (reconciliations db3). rec_id r = ru2 \<and> rec_action_id r = rl_action_id lease
          \<and> rec_outcome r = RO_CONFIRMED_COMPLETED)"
    using manual
  proof (cases rule: record_manual_outcome_Inr)
    case (1 a member pid)
    note row = required_action_row(1) [OF 1(1) inv2]
    have "ab_action (qi_bundle item) = manual_action now2 MO_COMPLETED reason a"
      by (rule queue_item_action [OF 1(10)])
    moreover have "act_id (manual_action now2 MO_COMPLETED reason a) = act_id a"
      using manual_action_sel(1) [of a now2 MO_COMPLETED reason] by (simp add: same_identity_def)
    ultimately show ?thesis using 1(6,7) row same
      by (simp add: row_get_put manual_action_sel new_reconciliation_sel
          reconciliation_outcome_for_manual_record_def)
  qed
  then obtain r where r: "r \<in> set (reconciliations db3)" "rec_id r = ru2" "rec_action_id r = rl_action_id lease"
    "rec_outcome r = RO_CONFIRMED_COMPLETED" by blast
  have r4: "r \<in> set (reconciliations db4)" by (rule foreign_reconciliation [OF after inv3 r(1)]) (simp add: r(4))
  have r5: "r \<in> set (reconciliations db5)"
    by (rule tx_reconciliation [OF action_tx_step.settle_tx [OF finish] inv4 r4]) (simp add: r(4))
  note st = finish_reconciliation_running [OF finish foreign_check_open [OF check inv run]]
  have "row_get act_id (rl_action_id lease) (actions db5) = Some (ab_action (qi_bundle item'))"
    using finish
  proof (cases rule: finish_reconciliation_Inr)
    case (settled a x)
    then show ?thesis using foreign_check_open [OF check inv run settled(2,6)] by simp
  next
    case (checked a x a' x')
    then show ?thesis using queue_item_action [OF checked(14)] row_get_Some [OF checked(1)]
      by (simp add: row_get_put settles_def same_identity_def)
  qed
  then show ?thesis using done_ st absent r(2-4) r5
    by (auto simp: reconciliation_outcome_for_lookup_def)
qed

section \<open>Offered commands\<close>

text \<open>The commands offered for an action are ones its state admits: nothing is offered on a
  retired action type; \<open>execute\<close> only to an actor with the permission, on a ready action without
  blocker, \<open>retry_safe\<close> likewise on a safely failed one; the recovery commands only to an actor
  with the reconciliation permission and never on a ready, running or completed action.\<close>

theorem available_commands_sound:
  "\<forall>command. command \<in> set (available_action_commands actor item) \<longrightarrow>
     act_type (ab_action (qi_bundle item)) \<notin> set retired_action_types
     \<and> (command = CMD_EXECUTE \<longrightarrow> can actor ACTION_EXECUTE \<and> qi_effective_blocker item = None
          \<and> act_status (ab_action (qi_bundle item)) = AS_READY)
     \<and> (command = CMD_RETRY_SAFE \<longrightarrow> can actor ACTION_EXECUTE \<and> qi_effective_blocker item = None
          \<and> act_status (ab_action (qi_bundle item)) = AS_FAILED_SAFE)
     \<and> (command \<in> {CMD_RECONCILE, CMD_RECORD_MANUAL_OUTCOME, CMD_ESCALATE} \<longrightarrow>
          can actor ACTION_RECONCILE \<and> act_status (ab_action (qi_bundle item))
            \<in> {AS_FAILED_SAFE, AS_OUTCOME_UNKNOWN, AS_RECOVERY_REQUIRED})"
  by (auto simp: available_action_commands_def Let_def split: if_splits)

end
