(* ===== verification/Action_Witness.thy ===== *)
theory Action_Witness
  imports Action_Safety
begin

text \<open>
  The properties of the action component at concrete inputs: the demonstration database before
  and after its action was materialized, leased, lost and completed.
\<close>

section \<open>The demonstration run\<close>

definition demo_actor :: actor_context where
  "demo_actor = \<lparr>actor_id = ''MEM'', actor_organization_id = ''ORG'', actor_name = ''Sam'',
     actor_kind = AK_MEMBER, actor_role = Some SUPERVISOR,
     actor_permissions = role_permissions SUPERVISOR,
     actor_authentication_mode = DETERMINISTIC_DEVELOPMENT\<rparr>"

definition demo_ids :: command_ids where
  "demo_ids = \<lparr>ci_now = 70, ci_row = 30, ci_audit = 31, ci_audit_ids = id, ci_uuid_text = ''u'',
     ci_finish_now = 75, ci_finish_row = 32, ci_finish_audit = 33\<rparr>"

definition demo_gateways :: "string \<rightharpoonup> det_gateway" where
  "demo_gateways = [demo_adapter \<mapsto> demo_gateway]"

lemma demo_gateways_wf: "routing_wf det_wf demo_gateways"
  by (simp add: routing_wf_def demo_gateways_def det_wf_def demo_gateway_def)

lemma demo_adapter_eq [demo_eval]: "demo_adapter = ''deterministic_demo''"
  by (rule demo_adapter_def)

declare demo_gateway_def [demo_eval] demo_gateways_def [demo_eval] demo_actor_def [demo_eval]
  demo_ids_def [demo_eval]

lemmas demo_finish [demo_eval] = service_execute_def require_permission_def can_def answering_def
  routing_execute_def det_execute_def det_behavior_def det_store_def det_receipt_def
  finish_execution_def finish_execution_success_def execution_models_def record_receipt_def
  insert_receipt_def completed_action_def succeeded_attempt_def put_attempt_def
  advance_case_after_completion_def put_case_def execution_request_def

lemma demo_required_connection: "required_connection demo_action demo_ready = Inr demo_connection"
  by (simp add: demo_eval cong: bindE_first)

lemma demo_executed:
  "\<exists>item db' gs'. service_execute id (answering (routing_execute (det_execute id))) demo_ids demo_actor
     (act_public_id demo_action) 1 CMD_EXECUTE ''corr'' id demo_ready demo_gateways = (Inr item, db', gs')"
  by (simp add: demo_eval cong: bindE_first)

text \<open>The lost attempt, checked against a target that never saw it.\<close>

definition absent_gateways :: "string \<rightharpoonup> det_gateway" where
  "absent_gateways = [demo_adapter \<mapsto>
     demo_gateway\<lparr>dg_behaviors := [''issue_refund'' \<mapsto> GB_OUTCOME_UNKNOWN_ABSENT]\<rparr>]"

lemma absent_gateways_wf: "routing_wf det_wf absent_gateways"
  by (simp add: routing_wf_def absent_gateways_def det_wf_def demo_gateway_def)

lemmas demo_check [demo_eval] = service_reconcile_def prepare_reconciliation_def
  recovery_status_def latest_attempt_def running_reconciliation_def new_reconciliation_def
  insert_reconciliation_def action_reconciliation_clash_def reconciliation_request_def
  answering_lookup_def routing_reconcile_def det_reconcile_def finish_reconciliation_def
  settle_reconciliation_def reconciliation_outcome_for_lookup_def put_reconciliation_def
  demo_lost_def demo_lost_action_def abandoned_action_def abandoned_attempt_def
  absent_gateways_def

lemma demo_reconciled:
  "\<exists>item db'. service_reconcile id (answering_lookup (routing_reconcile det_reconcile)) demo_ids
     demo_actor (act_public_id demo_action) 3 ''corr'' id demo_lost absent_gateways = (Inr item, db')"
  by (simp add: demo_eval cong: bindE_first)

lemma demo_lost_scoped:
  "scoped_action ''ORG'' (act_public_id demo_action) demo_lost = Some demo_lost_action"
  "required_connection demo_lost_action demo_lost = Inr demo_connection"
  by (simp_all add: demo_eval)

definition demo_command :: "timestamp \<Rightarrow> uuid \<Rightarrow> uuid \<Rightarrow> action_request" where
  "demo_command now row audit = ExecuteRequest
     \<lparr>rq_now = now, rq_row = row, rq_audit = audit, rq_audit_ids = id, rq_uuid_text = ''u'',
      rq_organization = ''ORG'', rq_action = act_public_id demo_action, rq_actor = ''MEM'',
      rq_expected_version = 1, rq_correlation = ''corr''\<rparr> CMD_EXECUTE"

lemma demo_started:
  "\<exists>db'. run_request id (demo_command 70 30 31) demo_ready = Inr ((), db')
     \<and> request_target (demo_command 71 34 35) db' = Some 20"
  by (simp add: demo_command_def request_target_def demo_eval cong: bindE_first)

section \<open>Witnesses\<close>

theorem prepare_execution_safe_witness:
  "\<exists>lease db'. prepare_execution id 70 30 31 id ''ORG'' (act_public_id demo_action) ''MEM'' 1
     CMD_EXECUTE ''corr'' demo_ready = Inr (lease, db')
   \<and> approved_for_execution demo_action 70 demo_ready
   \<and> el_idempotency_key lease = act_idempotency_key demo_action"
proof -
  obtain lease db' where run: "prepare_execution id 70 30 31 id ''ORG'' (act_public_id demo_action)
      ''MEM'' 1 CMD_EXECUTE ''corr'' demo_ready = Inr (lease, db')" using demo_leased by blast
  then show ?thesis using prepare_execution_safe [OF run demo_ready_inv] demo_scoped by auto
qed

theorem action_tables_consistent_witness:
  "\<exists>db. (action_step id)\<^sup>*\<^sup>* demo_db db \<and> actions db = [demo_action]
     \<and> length (receipts_at (act_id demo_action) db) \<le> 1"
proof -
  obtain bundles db where run: "materialize_approved_review id 60 demo_fresh ''ORG'' ''RV'' ''corr'' demo_db
      = Inr (bundles, db)" and acts: "actions db = [demo_action]" using demo_materialized by blast
  have step: "(action_step id)\<^sup>*\<^sup>* demo_db db" using action_step.materialize [OF run] by blast
  have "no_actions demo_db" by (simp add: no_actions_def demo_db_def)
  then show ?thesis using action_tables_consistent [OF _ step, of demo_action] step acts by auto
qed

lemma demo_attempts_differ:
  "stable_public_id id ''AT'' [stable_public_id id ''AC'' [''ORG'', ''PA'', ''fp''], int_str 2]
   \<noteq> stable_public_id id ''AT'' [stable_public_id id ''AC'' [''ORG'', ''PA'', ''fp''], int_str 1]"
  by (simp add: stable_public_id_def str_upper_def upper_char_def int_str_def nat_str.simps)

text \<open>The target refuses the first attempt without a change, and the action is retried.\<close>

lemma demo_two_writes:
  "\<exists>lease1 db1 item db2 lease2 db3.
     prepare_execution id 70 30 31 id ''ORG'' (act_public_id demo_action) ''MEM'' 1 CMD_EXECUTE ''corr''
       demo_ready = Inr (lease1, db1)
     \<and> finish_execution_error id 80 32 lease1 not_configured_error ''corr'' db1 = Inr (item, db2)
     \<and> prepare_execution id 90 40 41 id ''ORG'' (act_public_id demo_action) ''MEM'' 3 CMD_RETRY_SAFE ''corr''
       db2 = Inr (lease2, db3)
     \<and> el_action_id lease1 = 20 \<and> el_action_id lease2 = el_action_id lease1"
  by (simp add: demo_eval failed_action_def failed_attempt_def not_configured_error_def safe_failure_def
      finish_execution_error_def retry_is_safe_def demo_attempts_differ cong: bindE_first)

theorem writes_separated_by_proof_witness:
  "\<exists>lease1 db1 db2 x y.
     prepare_execution id 70 30 31 id ''ORG'' (act_public_id demo_action) ''MEM'' 1 CMD_EXECUTE ''corr''
       demo_ready = Inr (lease1, db1)
     \<and> (action_step id)\<^sup>*\<^sup>* db1 x \<and> proves_no_change id 20 x y \<and> (action_step id)\<^sup>*\<^sup>* y db2"
proof -
  obtain lease1 db1 item db2 lease2 db3 where
    first: "prepare_execution id 70 30 31 id ''ORG'' (act_public_id demo_action) ''MEM'' 1 CMD_EXECUTE ''corr''
       demo_ready = Inr (lease1, db1)"
    and refused: "finish_execution_error id 80 32 lease1 not_configured_error ''corr'' db1 = Inr (item, db2)"
    and second: "prepare_execution id 90 40 41 id ''ORG'' (act_public_id demo_action) ''MEM'' 3 CMD_RETRY_SAFE
       ''corr'' db2 = Inr (lease2, db3)"
    and ids: "el_action_id lease1 = 20" "el_action_id lease2 = el_action_id lease1"
    using demo_two_writes by blast
  have "(action_step id)\<^sup>*\<^sup>* db1 db2" using action_step.fail [OF refused] by blast
  from writes_separated_by_proof [OF demo_ready_inv first this second ids(2)] first ids(1)
  show ?thesis by metis
qed

definition demo_receipt :: action_receipt where
  "demo_receipt = \<lparr>rcp_id = 50, rcp_public_id = ''AR'', rcp_organization_id = 1, rcp_case_id = 3,
     rcp_action_id = 20, rcp_attempt_id = 30, rcp_legacy_external_receipt_id = None,
     rcp_provider = ''billing'', rcp_external_reference = ''BILLIN-1'', rcp_idempotency_key = ''k'',
     rcp_status = ''accepted'', rcp_data_fingerprint = ''f'', rcp_recorded_at = 75\<rparr>"

definition demo_completed :: database where
  "demo_completed = demo_db\<lparr>
     actions := [completed_action 75 demo_receipt (started_action 70 demo_member demo_action)],
     attempts := [demo_attempt\<lparr>att_outcome := AO_SUCCEEDED\<rparr>], receipts := [demo_receipt]\<rparr>"

lemma demo_completed_inv: "action_inv demo_completed"
  by (simp add: demo_completed_def demo_db_def action_inv_def action_tables_ok_def unique_keys_def
      action_slice_ok_def slice_ok_def slice_defs attempts_ok_def reconciliations_ok_def
      receipts_ok_def reconciling_def completed_action_def started_action_def demo_attempt_def
      new_attempt_def demo_action_def new_action_def demo_approval_def demo_review_def
      demo_receipt_def Let_def)

theorem receipt_is_final_witness:
  "\<exists>a. row_get act_id 20 (actions demo_completed) = Some a
     \<and> effective_blocker a 99 demo_completed = Inr (Some BL_DUPLICATE)"
  using receipt_is_final [OF demo_completed_inv, of demo_receipt id demo_completed 99]
  by (auto simp: demo_completed_def demo_receipt_def)

theorem action_commands_no_lost_update_witness:
  "\<exists>db' e. run_request id (demo_command 70 30 31) demo_ready = Inr ((), db')
     \<and> run_request id (demo_command 71 34 35) db' = Inl e"
proof -
  obtain db' where run: "run_request id (demo_command 70 30 31) demo_ready = Inr ((), db')"
    and t: "request_target (demo_command 71 34 35) db' = Some 20" using demo_started by blast
  have "request_target (demo_command 70 30 31) demo_ready = Some 20"
    using demo_scoped by (simp add: request_target_def demo_command_def demo_action_def new_action_sel)
  then show ?thesis
    using action_commands_no_lost_update [OF demo_ready_inv run _ _ t] run
    by (auto simp: demo_command_def)
qed

theorem action_step_refines_lifecycle_witness:
  "\<exists>db'. action_tx_step id (StartTx ''ORG'' (act_public_id demo_action) CMD_EXECUTE) demo_ready db'
     \<and> life 20 db' = Some \<lparr>lc_status = AS_RUNNING, lc_attempts = 1, lc_checking = False, lc_receipt = False\<rparr>"
proof -
  obtain lease db' where run: "prepare_execution id 70 30 31 id ''ORG'' (act_public_id demo_action)
      ''MEM'' 1 CMD_EXECUTE ''corr'' demo_ready = Inr (lease, db')" using demo_leased by blast
  note step = action_tx_step.start_tx [OF run]
  have "life 20 demo_ready = Some initial_life"
    by (simp add: life_def view_def initial_life_def slice_defs reconciling_def demo_ready_def demo_db_def
        demo_action_def new_action_def row_get_def Let_def)
  moreover have "addressed ''ORG'' (act_public_id demo_action) 20 demo_ready"
    using demo_scoped by (simp add: addressed_def demo_action_def new_action_sel)
  ultimately show ?thesis
    using action_step_refines_lifecycle [OF step demo_ready_inv, of 20] step
    by (auto simp: guarded_def initial_life_def)
qed

theorem service_execute_truthful_witness:
  "\<exists>item db' gs'. service_execute id (answering (routing_execute (det_execute id))) demo_ids demo_actor
     (act_public_id demo_action) 1 CMD_EXECUTE ''corr'' id demo_ready demo_gateways = (Inr item, db', gs')
   \<and> row_get act_id (act_id demo_action) (actions db') = Some (ab_action (qi_bundle item))"
proof -
  obtain item db' gs' where run: "service_execute id (answering (routing_execute (det_execute id)))
      demo_ids demo_actor (act_public_id demo_action) 1 CMD_EXECUTE ''corr'' id demo_ready demo_gateways
      = (Inr item, db', gs')" using demo_executed by blast
  have org: "actor_organization_id demo_actor = ''ORG''" by (simp add: demo_actor_def)
  obtain lease db1 where prep: "prepare_execution id (ci_now demo_ids) (ci_row demo_ids) (ci_audit demo_ids)
      (ci_audit_ids demo_ids) (actor_organization_id demo_actor) (act_public_id demo_action)
      (actor_id demo_actor) 1 CMD_EXECUTE ''corr'' demo_ready = Inr (lease, db1)"
    using run by (auto simp: service_execute_def run_simps split: sum.splits prod.splits)
  show ?thesis
    using service_execute_truthful [OF run demo_ready_inv demo_gateways_wf _ demo_required_connection prep]
      demo_scoped run org by auto
qed

theorem service_reconcile_truthful_witness:
  "\<exists>item db'. service_reconcile id (answering_lookup (routing_reconcile det_reconcile)) demo_ids
     demo_actor (act_public_id demo_action) 3 ''corr'' id demo_lost absent_gateways = (Inr item, db')
   \<and> act_id (ab_action (qi_bundle item)) = act_id demo_lost_action"
proof -
  obtain item db' where run: "service_reconcile id (answering_lookup (routing_reconcile det_reconcile))
      demo_ids demo_actor (act_public_id demo_action) 3 ''corr'' id demo_lost absent_gateways
      = (Inr item, db')" using demo_reconciled by blast
  have org: "actor_organization_id demo_actor = ''ORG''" by (simp add: demo_actor_def)
  obtain lease db1 where prep: "prepare_reconciliation id (ci_now demo_ids) (ci_row demo_ids)
      (ci_uuid_text demo_ids) (ci_audit demo_ids) (ci_audit_ids demo_ids) (actor_organization_id demo_actor)
      (act_public_id demo_action) (actor_id demo_actor) 3 ''corr'' demo_lost = Inr (lease, db1)"
    using run by (auto simp: service_reconcile_def run_simps split: sum.splits prod.splits)
  show ?thesis
    using service_reconcile_truthful [OF run demo_lost_inv absent_gateways_wf _ demo_lost_scoped(2) prep]
      demo_lost_scoped(1) run org by auto
qed

theorem one_check_at_a_time_witness:
  "\<exists>lease db' e. prepare_reconciliation id 90 60 ''u'' 61 id ''ORG'' (act_public_id demo_action) ''MEM'' 3
       ''corr'' demo_lost = Inr (lease, db')
     \<and> prepare_reconciliation id 99999999999 62 ''v'' 63 id ''ORG'' (act_public_id demo_action) ''MEM'' 4
       ''corr'' db' = Inl e"
proof -
  obtain lease db' where run: "prepare_reconciliation id 90 60 ''u'' 61 id ''ORG'' (act_public_id demo_action)
      ''MEM'' 3 ''corr'' demo_lost = Inr (lease, db')"
    and sc: "\<exists>a. scoped_action ''ORG'' (act_public_id demo_action) db' = Some a
      \<and> act_status a \<noteq> AS_RUNNING \<and> reconciling (reconciliations_at (act_id a) db')"
  proof -
    have "\<exists>lease db'. prepare_reconciliation id 90 60 ''u'' 61 id ''ORG'' (act_public_id demo_action)
        ''MEM'' 3 ''corr'' demo_lost = Inr (lease, db')
      \<and> (\<exists>a. scoped_action ''ORG'' (act_public_id demo_action) db' = Some a
      \<and> act_status a \<noteq> AS_RUNNING \<and> reconciling (reconciliations_at (act_id a) db'))"
      by (simp add: demo_eval reconciling_def reconciliations_at_def cong: bindE_first)
    then show ?thesis using that by blast
  qed
  have "action_inv db'" using prepare_reconciliation_step [OF run demo_lost_inv] by blast
  then show ?thesis using one_check_at_a_time [of db'] run sc by blast
qed

definition demo_dead :: database where
  "demo_dead = demo_db\<lparr>
     actions := [escalated_action 90 demo_member ''r''
       (failed_action 80 not_configured_error (started_action 70 demo_member demo_action))],
     attempts := [failed_attempt id 80 not_configured_error demo_attempt]\<rparr>"

lemma demo_dead_inv: "action_inv demo_dead"
  by (simp add: demo_dead_def demo_db_def action_inv_def action_tables_ok_def unique_keys_def
      action_slice_ok_def slice_ok_def slice_defs attempts_ok_def reconciliations_ok_def
      receipts_ok_def reconciling_def escalated_action_def failed_action_def started_action_def
      demo_attempt_def failed_attempt_def not_configured_error_def safe_failure_def
      new_attempt_def demo_action_def new_action_def demo_approval_def demo_review_def Let_def)

theorem escalated_failure_dead_end_witness:
  "\<exists>e. record_manual_outcome id 95 60 61 ''ORG'' (act_public_id demo_action) ''MEM'' 4 MO_COMPLETED
     ''r'' ''corr'' demo_dead = Inl e"
proof -
  have "\<exists>a t. scoped_action ''ORG'' (act_public_id demo_action) demo_dead = Some a
      \<and> act_status a = AS_RECOVERY_REQUIRED \<and> latest_attempt a demo_dead = Some t
      \<and> att_outcome t = AO_FAILED_BEFORE_CHANGE"
    by (simp add: demo_eval demo_dead_def escalated_action_def failed_action_def failed_attempt_def
        not_configured_error_def safe_failure_def)
  then show ?thesis using escalated_failure_dead_end [OF demo_dead_inv] by blast
qed

theorem available_commands_sound_witness:
  "CMD_EXECUTE \<in> set (available_action_commands demo_actor
       \<lparr>qi_bundle = \<lparr>ab_action = demo_action, ab_case_public_id = [], ab_proposal_public_id = [],
          ab_proposal_version = 1, ab_review_public_id = [], ab_review_snapshot_fingerprint = [],
          ab_approved_at = 0, ab_approved_by_public_id = [], ab_approved_by_name = [],
          ab_approved_by_role = SUPERVISOR, ab_approval_rule = [], ab_connection = demo_connection,
          ab_attempts = [], ab_receipt = None, ab_reconciliations = []\<rparr>,
        qi_effective_blocker = None, qi_recovery_required = False\<rparr>)
   \<and> act_type demo_action \<notin> set retired_action_types"
proof -
  let ?item = "\<lparr>qi_bundle = \<lparr>ab_action = demo_action, ab_case_public_id = [], ab_proposal_public_id = [],
          ab_proposal_version = 1, ab_review_public_id = [], ab_review_snapshot_fingerprint = [],
          ab_approved_at = 0, ab_approved_by_public_id = [], ab_approved_by_name = [],
          ab_approved_by_role = SUPERVISOR, ab_approval_rule = [], ab_connection = demo_connection,
          ab_attempts = [], ab_receipt = None, ab_reconciliations = []\<rparr>,
        qi_effective_blocker = None, qi_recovery_required = False\<rparr>"
  have "CMD_EXECUTE \<in> set (available_action_commands demo_actor ?item)"
    by (simp add: available_action_commands_def demo_eval)
  then show ?thesis using available_commands_sound [of demo_actor ?item] by simp
qed

section \<open>A recorded completion can be undone\<close>

lemma demo_ids_differ:
  "stable_public_id id ''RC'' [stable_public_id id ''AC'' [''ORG'', ''PA'', ''fp''], ''manual'', int_str 4]
   \<noteq> stable_public_id id ''RC'' [stable_public_id id ''AC'' [''ORG'', ''PA'', ''fp''], int_str 3, ''u'']"
  by (simp add: stable_public_id_def str_upper_def upper_char_def int_str_def nat_str.simps)

definition demo_absent :: lookup_result where
  "demo_absent = \<lparr>lr_found = Some False, lr_receipt = None, lr_detail = ''absent'', lr_absence_is_terminal = True\<rparr>"

lemma demo_recorded:
  "\<exists>lease db1 item db2 item' db3.
     prepare_reconciliation id 90 60 ''u'' 61 id ''ORG'' (act_public_id demo_action) ''MEM'' 3
       ''corr'' demo_lost = Inr (lease, db1)
     \<and> record_manual_outcome id 91 62 63 ''ORG'' (act_public_id demo_action) ''MEM'' 4 MO_COMPLETED
       ''done by hand'' ''corr'' db1 = Inr (item, db2)
     \<and> finish_reconciliation id 92 64 65 lease demo_absent ''corr'' db2 = Inr (item', db3)
     \<and> rl_action_id lease = 20 \<and> act_id (ab_action (qi_bundle item)) = 20"
  by (simp add: demo_eval record_manual_outcome_def manual_action_def demo_ids_differ demo_absent_def
      reconciliation_outcome_for_manual_record_def cong: bindE_first)

theorem manual_completion_reverted_witness:
  "\<exists>lease db1 item db2 item' db3.
     prepare_reconciliation id 90 60 ''u'' 61 id ''ORG'' (act_public_id demo_action) ''MEM'' 3
       ''corr'' demo_lost = Inr (lease, db1)
     \<and> record_manual_outcome id 91 62 63 ''ORG'' (act_public_id demo_action) ''MEM'' 4 MO_COMPLETED
       ''done by hand'' ''corr'' db1 = Inr (item, db2)
     \<and> act_status (ab_action (qi_bundle item)) = AS_COMPLETED
     \<and> finish_reconciliation id 92 64 65 lease demo_absent ''corr'' db2 = Inr (item', db3)
     \<and> act_status (ab_action (qi_bundle item')) = AS_FAILED_SAFE"
proof -
  obtain lease db1 item db2 item' db3 where
    check: "prepare_reconciliation id 90 60 ''u'' 61 id ''ORG'' (act_public_id demo_action) ''MEM'' 3
       ''corr'' demo_lost = Inr (lease, db1)"
    and manual: "record_manual_outcome id 91 62 63 ''ORG'' (act_public_id demo_action) ''MEM'' 4 MO_COMPLETED
       ''done by hand'' ''corr'' db1 = Inr (item, db2)"
    and finish: "finish_reconciliation id 92 64 65 lease demo_absent ''corr'' db2 = Inr (item', db3)"
    and ids: "rl_action_id lease = 20" "act_id (ab_action (qi_bundle item)) = 20"
    using demo_recorded by blast
  show ?thesis
    using manual_completion_reverted [OF demo_lost_inv check rtranclp.rtrancl_refl manual _
        rtranclp.rtrancl_refl finish] check manual finish ids by (auto simp: demo_absent_def)
qed

end
