(* ===== verification/Review_Authority.thy ===== *)
theory Review_Authority
  imports Schema
begin

text \<open>
  Who may decide what: \<open>security/review_authority.py\<close>. The rule that routes a resolution to a
  supervisor or to an administrator, the state and uncertainty shown with it, and the decisions
  a reviewer is offered, over the decision brief of \<open>domain/decision_briefs.py\<close>.
\<close>

section \<open>The decision brief\<close>

text \<open>The version record of a brief is its row with the two lists of bound source records.\<close>

record proposal_version_record = proposal_version +
  pv_evidence_ids :: "string list"
  pv_context_snapshot_ids :: "string list"

record decision_brief =
  br_run :: analysis_run
  br_proposal :: case_proposal
  br_version :: proposal_version_record
  br_proposed_actions :: "proposed_action list"
  br_response_draft :: proposal_response_draft
  br_checkpoints :: "analysis_checkpoint list"

record approval_rule =
  rule_public_id :: string
  rule_name :: string
  rule_explanation :: string
  rule_required_role :: member_role
  rule_version :: int

section \<open>The approval rule\<close>

type_synonym financial_limits = "(string \<times> decimal) list"

definition default_administrator_financial_limits :: financial_limits where
  "default_administrator_financial_limits =
     [(''EUR'', 1000), (''GBP'', 1000), (''IDR'', 15000000), (''SGD'', 1500), (''USD'', 1000)]"

definition financial_admin_required :: "decision_brief \<Rightarrow> financial_limits \<Rightarrow> bool" where
  "financial_admin_required brief limits =
     (case pv_impact_amount (br_version brief) of
        None \<Rightarrow> False
      | Some amount \<Rightarrow>
          (case pv_impact_currency (br_version brief) of
             None \<Rightarrow> True
           | Some currency \<Rightarrow>
               (case map_of limits currency of None \<Rightarrow> True | Some limit \<Rightarrow> limit \<le> amount)))"

definition review_reason :: "decision_brief \<Rightarrow> bool \<Rightarrow> financial_limits \<Rightarrow> string" where
  "review_reason brief administrator limits =
     (if ar_policy_status (br_run brief) = ER_CONFLICTING
      then ''Conflicting policy authority requires an administrator decision.''
      else if financial_admin_required brief limits
      then ''The proposed financial impact exceeds the default review limit or uses ''
           @ ''a currency without a configured limit.''
      else
        let risk_text = str_join '' '' (map (\<lambda>r. str_lower (risk_label r @ '' '' @ risk_explanation r))
              (pv_risks (br_version brief)))
        in if str_contains ''privacy'' risk_text \<or> str_contains ''compliance'' risk_text
           then ''Privacy or compliance risk requires an administrator decision.''
           else if pv_impact_amount (br_version brief) \<noteq> None
           then ''The proposed financial change requires a supervisor decision.''
           else if administrator
           then ''This high-risk resolution requires an administrator decision.''
           else ''This customer-impacting resolution requires a supervisor decision.'')"

definition review_risk_text :: "decision_brief \<Rightarrow> string" where
  "review_risk_text brief =
     str_join '' '' (map (\<lambda>r. str_lower (risk_id r @ '' '' @ risk_label r @ '' '' @ risk_explanation r))
       (pv_risks (br_version brief)))"

definition assess_review_rule ::
    "decision_brief \<Rightarrow> financial_limits option \<Rightarrow> int \<Rightarrow> approval_rule" where
  "assess_review_rule brief financial_limits version =
     (let limits = (case financial_limits of None \<Rightarrow> default_administrator_financial_limits
                    | Some l \<Rightarrow> l);
          risk_text = review_risk_text brief;
          administrator_required =
            (ar_policy_status (br_run brief) = ER_CONFLICTING
             \<or> financial_admin_required brief limits
             \<or> str_contains ''privacy'' risk_text
             \<or> str_contains ''compliance'' risk_text)
      in if administrator_required
         then \<lparr>rule_public_id = ''APR-ADMINISTRATOR'',
               rule_name = ''Administrator decision required'',
               rule_explanation = review_reason brief True limits,
               rule_required_role = ADMINISTRATOR, rule_version = version\<rparr>
         else \<lparr>rule_public_id = ''APR-SUPERVISOR'',
               rule_name = ''Supervisor decision required'',
               rule_explanation = review_reason brief False limits,
               rule_required_role = SUPERVISOR, rule_version = version\<rparr>)"

section \<open>What is shown and offered\<close>

definition review_policy_state_of :: "decision_brief \<Rightarrow> review_policy_state" where
  "review_policy_state_of brief =
     (if ar_policy_status (br_run brief) = ER_RELEVANT then PS_SUPPORTED
      else if ar_policy_status (br_run brief) = ER_CONFLICTING then PS_POSSIBLE_CONFLICT
      else PS_MISSING)"

definition review_uncertainty_of :: "decision_brief \<Rightarrow> review_uncertainty" where
  "review_uncertainty_of brief =
     (case pv_confidence (br_version brief) of
        CONF_HIGH \<Rightarrow> UNC_LOW | CONF_MEDIUM \<Rightarrow> UNC_MEDIUM | CONF_LOW \<Rightarrow> UNC_HIGH)"

definition require_review_submission :: "decision_brief \<Rightarrow> error + unit" where
  "require_review_submission brief =
     (let has_review_action = list_ex pa_review_required (br_proposed_actions brief);
          blocked_policy = (ar_policy_status (br_run brief) \<noteq> ER_RELEVANT)
      in bindE (requireE (pv_state (br_version brief)
                    \<in> {DP_READY_FOR_REVIEW, DP_INFORMATION_NEEDED})
                  (ReviewSubmissionNotAllowed
                     ''This resolution is not in a state that can be submitted for review.''))
           (\<lambda>_. requireE (has_review_action \<or> blocked_policy)
                  (ReviewSubmissionNotAllowed
                     ''This resolution does not require a supervisor decision.'')))"

definition approval_is_safe :: "decision_brief \<Rightarrow> bool" where
  "approval_is_safe brief \<longleftrightarrow>
     ar_policy_status (br_run brief) = ER_RELEVANT
     \<and> pv_state (br_version brief) = DP_READY_FOR_REVIEW
     \<and> prd_status (br_response_draft brief) \<noteq> RSP_BLOCKED
     \<and> list_all (\<lambda>r. risk_outcome r \<in> {RISK_PASSED, RISK_REQUIRES_REVIEW})
         (pv_risks (br_version brief))"

definition allowed_decisions ::
    "decision_brief \<Rightarrow> member_role option \<Rightarrow> member_role \<Rightarrow> review_decision list" where
  "allowed_decisions brief role required =
     (if \<not> role_satisfies role required then []
      else let decisions = [RD_REQUEST_CHANGES, RD_REJECT, RD_ESCALATE]
           in if approval_is_safe brief then RD_APPROVE # decisions else decisions)"

definition require_decision_allowed :: "review_decision \<Rightarrow> review_decision list \<Rightarrow> error + unit" where
  "require_decision_allowed decision available =
     requireE (decision \<in> set available)
       (ReviewDecisionNotAllowed
          ''That decision is not available for this review and current authority.'')"

section \<open>Lemmas\<close>

lemma str_contains_iff: "str_contains needle s \<longleftrightarrow> (\<exists>xs ys. s = xs @ needle @ ys)"
proof (induction s)
  case Nil
  then show ?case by auto
next
  case (Cons c cs)
  have "take (length needle) (c # cs) = needle \<longleftrightarrow> (\<exists>ys. c # cs = needle @ ys)"
    by (metis append_eq_conv_conj append_take_drop_id)
  moreover have "(\<exists>xs ys. c # cs = xs @ needle @ ys) \<longleftrightarrow>
      (\<exists>ys. c # cs = needle @ ys) \<or> (\<exists>xs ys. cs = xs @ needle @ ys)"
    by (metis append_Cons append_Nil list.exhaust list.inject)
  ultimately show ?case using Cons by simp
qed

lemma str_join_part: "x \<in> set xs \<Longrightarrow> \<exists>as bs. str_join sep xs = as @ x @ bs"
proof (induction sep xs rule: str_join.induct)
  case (3 sep a y ys)
  then consider "x = a" | "x \<in> set (y # ys)" by auto
  then show ?case
  proof cases
    case 1
    then show ?thesis by (metis append_Nil str_join.simps(3))
  next
    case 2
    then obtain as bs where "str_join sep (y # ys) = as @ x @ bs" using "3.IH" by blast
    then show ?thesis by (metis append_assoc str_join.simps(3))
  qed
qed (auto intro: exI [of _ "[]"])

text \<open>A word found in one risk check is found in the text of all of them.\<close>

lemma str_contains_join:
  "x \<in> set xs \<Longrightarrow> str_contains w x \<Longrightarrow> str_contains w (str_join sep xs)"
  unfolding str_contains_iff using str_join_part [of x xs sep] by (metis append_assoc)

end
