(* ===== verification/Reviews.thy ===== *)
theory Reviews
  imports Actions_Base Review_Authority
begin

text \<open>
  The shared half of the review repository: \<open>persistence/reviews/_base.py\<close> (scoped reads, the
  expiry of reservations) and \<open>freshness.py\<close> (the check that compares a review with the records
  it was submitted on).
  The row a session read with \<open>FOR UPDATE\<close> is the one it writes back; primary keys, the random
  part of a reservation's public id and the clock readings are arguments.
\<close>

section \<open>Records handed to the services\<close>

record review_bundle =
  rb_review :: case_review
  rb_snapshot :: review_snapshot
  rb_case_public_id :: string
  rb_proposal_public_id :: string
  rb_reservation :: "review_reservation option"
  rb_decisions :: "review_decision_row list"

record review_freshness_record =
  fr_status :: review_freshness
  fr_checked_at :: timestamp
  fr_reason :: "string option"

record review_submission =
  sub_expected_case_version :: int
  sub_proposal_version :: int
  sub_review_reason :: string
  sub_policy_state :: review_policy_state
  sub_uncertainty :: review_uncertainty
  sub_impact_amount :: "decimal option"
  sub_impact_currency :: "string option"
  sub_proposal_fingerprint :: string
  sub_context_fingerprint :: string
  sub_evidence_fingerprint :: string
  sub_risk_fingerprint :: string
  sub_risk_rule_version :: string
  sub_snapshot_fingerprint :: string
  sub_approval_rule :: approval_rule
  sub_execution_eligible :: bool

section \<open>Constants and pure helpers\<close>

definition review_hold_minutes :: int where
  "review_hold_minutes = 30"

definition terminal_review_status :: "review_status \<Rightarrow> bool" where
  "terminal_review_status s \<longleftrightarrow>
     s \<in> {RS_APPROVED, RS_CHANGES_REQUESTED, RS_REJECTED, RS_ESCALATED}"

fun review_status_of :: "review_decision \<Rightarrow> review_status" where
  "review_status_of RD_APPROVE = RS_APPROVED"
| "review_status_of RD_REQUEST_CHANGES = RS_CHANGES_REQUESTED"
| "review_status_of RD_REJECT = RS_REJECTED"
| "review_status_of RD_ESCALATE = RS_ESCALATED"

fun proposal_state_of :: "review_decision \<Rightarrow> decision_proposal_state" where
  "proposal_state_of RD_APPROVE = DP_APPROVED"
| "proposal_state_of RD_REQUEST_CHANGES = DP_INFORMATION_NEEDED"
| "proposal_state_of RD_REJECT = DP_REJECTED"
| "proposal_state_of RD_ESCALATE = DP_UNDER_REVIEW"

fun decision_label :: "review_decision \<Rightarrow> string" where
  "decision_label RD_APPROVE = ''approved''"
| "decision_label RD_REQUEST_CHANGES = ''changes requested''"
| "decision_label RD_REJECT = ''rejected''"
| "decision_label RD_ESCALATE = ''escalated''"

definition stale :: "timestamp \<Rightarrow> string \<Rightarrow> review_freshness_record" where
  "stale now reason = \<lparr>fr_status = RF_STALE, fr_checked_at = now, fr_reason = Some reason\<rparr>"

text \<open>
  \<open>str(value)\<close> of a value read from a JSON column, as Python prints it (containers print their
  parts with \<open>repr\<close>; numbers of a JSON column are integers here).
\<close>

definition py_escape :: "char \<Rightarrow> char \<Rightarrow> string" where
  "py_escape quote c = (let n = (of_char c :: nat) in
     if c = quote \<or> n = 92 then [CHR 0x5C, c]
     else if n = 10 then [CHR 0x5C, CHR ''n'']
     else if n = 13 then [CHR 0x5C, CHR ''r'']
     else if n = 9 then [CHR 0x5C, CHR ''t'']
     else if 32 \<le> n \<and> n \<le> 126 then [c]
     else [CHR 0x5C, CHR ''x'', hex_digit (n div 16), hex_digit (n mod 16)])"

definition py_repr_string :: "string \<Rightarrow> string" where
  "py_repr_string s =
     (let quote = (if CHR 0x27 \<in> set s \<and> CHR 0x22 \<notin> set s then CHR 0x22 else CHR 0x27)
      in [quote] @ concat (map (py_escape quote) s) @ [quote])"

primrec py_repr :: "json \<Rightarrow> string" where
  "py_repr JNull = ''None''"
| "py_repr (JBool b) = (if b then ''True'' else ''False'')"
| "py_repr (JInt i) = int_str i"
| "py_repr (JStr s) = py_repr_string s"
| "py_repr (JList xs) = ''['' @ str_join '', '' (map py_repr xs) @ '']''"
| "py_repr (JObj kvs) =
     ''{'' @ str_join '', '' (map (\<lambda>(k, v). py_repr_string k @ '': '' @ v)
                             (map (map_prod id py_repr) kvs)) @ ''}''"

fun py_str :: "json \<Rightarrow> string" where
  "py_str (JStr s) = s"
| "py_str v = py_repr v"

fun json_items :: "json \<Rightarrow> (string \<times> json) list" where
  "json_items (JObj kvs) = kvs"
| "json_items _ = []"

definition context_fingerprint_of ::
    "(string \<Rightarrow> string) \<Rightarrow> business_object_snapshot \<Rightarrow> string" where
  "context_fingerprint_of sha c = hash_json sha
     (JObj [(''public_id'', JStr (bo_public_id c)), (''version'', JInt (bo_version c)),
            (''type'', JStr (business_object_type_value (bo_object_type c))),
            (''status'', JStr (bo_status c)), (''source'', JStr (bo_source c)),
            (''source_reference'', JStr (bo_source_reference c)),
            (''fields'', JObj (map (\<lambda>(k, v). (k, JStr (py_str v))) (json_items (bo_fields c)))),
            (''captured_at'', JStr (isoformat (bo_captured_at c))),
            (''source_freshness'', JStr (source_freshness_value (bo_source_freshness c))),
            (''source_checked_at'', json_opt (JStr \<circ> isoformat) (bo_source_checked_at c))])"

section \<open>Scoped reads\<close>

definition scoped_review :: "string \<Rightarrow> string \<Rightarrow> database \<Rightarrow> case_review option" where
  "scoped_review org_pid review_pid db =
     find (\<lambda>r. rv_public_id r = review_pid
             \<and> list_ex (\<lambda>g. org_id g = rv_organization_id r \<and> org_public_id g = org_pid)
                 (organizations db))
       (reviews db)"

definition required_review :: "string \<Rightarrow> string \<Rightarrow> database \<Rightarrow> error + case_review" where
  "required_review org_pid review_pid db =
     someE (scoped_review org_pid review_pid db) (ReviewNotFound ''The review was not found.'')"

definition scoped_case :: "string \<Rightarrow> string \<Rightarrow> database \<Rightarrow> (organization \<times> case_row) option" where
  "scoped_case org_pid case_pid db =
     (case find (\<lambda>c. cs_public_id c = case_pid
                   \<and> list_ex (\<lambda>g. org_id g = cs_organization_id c \<and> org_public_id g = org_pid)
                       (organizations db)) (cases db) of
        None \<Rightarrow> None
      | Some c \<Rightarrow>
          map_option (\<lambda>g. (g, c))
            (find (\<lambda>g. org_id g = cs_organization_id c \<and> org_public_id g = org_pid)
               (organizations db)))"

definition required_snapshot :: "case_review \<Rightarrow> database \<Rightarrow> error + review_snapshot" where
  "required_snapshot r db =
     someE (find (\<lambda>s. rs_organization_id s = rv_organization_id r \<and> rs_case_id s = rv_case_id r
                   \<and> rs_review_id s = rv_id r) (review_snapshots db))
       (ReviewConflict ''The immutable review snapshot is missing.'')"

definition active_reservation ::
    "case_review \<Rightarrow> timestamp \<Rightarrow> database \<Rightarrow> review_reservation option" where
  "active_reservation r now db =
     find (\<lambda>x. rr_organization_id x = rv_organization_id r \<and> rr_case_id x = rv_case_id r
             \<and> rr_review_id x = rv_id r \<and> rr_status x = RR_ACTIVE \<and> now < rr_expires_at x)
       (reservations db)"

definition review_member :: "uuid \<Rightarrow> string \<Rightarrow> database \<Rightarrow> error + membership" where
  "review_member organization_id actor db =
     someE (find (\<lambda>m. mem_organization_id m = organization_id \<and> mem_status m = MS_ACTIVE
                   \<and> (mem_public_id m = actor \<or> mem_subject_id m = actor))
              (memberships db))
       (ActorMembershipNotFound ''An active organization membership is required for this review.'')"

definition require_approval_rule_version :: "uuid \<Rightarrow> int \<Rightarrow> database \<Rightarrow> error + unit" where
  "require_approval_rule_version organization_id expected db =
     bindE (case find (\<lambda>s. st_organization_id s = organization_id \<and> st_section s = SET_APPROVALS)
                   (settings db) of
              Some s \<Rightarrow> Inr (st_version s)
            | None \<Rightarrow>
                (case find (\<lambda>g. org_id g = organization_id) (organizations db) of
                   None \<Rightarrow> Inl (ReviewConflict ''The review organization is unavailable.'')
                 | Some g \<Rightarrow> Inr 1)) (\<lambda>current.
     requireE (current = expected)
       (ReviewSnapshotStale (''Approval rules changed after this review was submitted. ''
          @ ''Prepare a new resolution review.'')))"

definition review_load_bundle :: "case_review \<Rightarrow> timestamp \<Rightarrow> database \<Rightarrow> error + review_bundle" where
  "review_load_bundle r now db =
     bindE (required_snapshot r db) (\<lambda>snapshot.
     case (row_get cs_id (rv_case_id r) (cases db),
           row_get prop_id (rv_proposal_id r) (proposals db)) of
       (Some c, Some p) \<Rightarrow>
         Inr \<lparr>rb_review = r, rb_snapshot = snapshot, rb_case_public_id = cs_public_id c,
              rb_proposal_public_id = prop_public_id p,
              rb_reservation = active_reservation r now db,
              rb_decisions = sort_key rvd_decided_at
                (filter (\<lambda>d. rvd_organization_id d = rv_organization_id r
                           \<and> rvd_case_id d = rv_case_id r \<and> rvd_review_id d = rv_id r)
                   (review_decisions db))\<rparr>
     | _ \<Rightarrow> Inl (ReviewConflict ''The reviewed case or resolution is missing.''))"

section \<open>Writes\<close>

definition put_review :: "case_review \<Rightarrow> database \<Rightarrow> database" where
  "put_review r db = db\<lparr>reviews := row_put rv_id r (reviews db)\<rparr>"

definition put_reservation :: "review_reservation \<Rightarrow> database \<Rightarrow> database" where
  "put_reservation r db = db\<lparr>reservations := row_put rr_id r (reservations db)\<rparr>"

definition put_proposal :: "case_proposal \<Rightarrow> database \<Rightarrow> database" where
  "put_proposal p db = db\<lparr>proposals := row_put prop_id p (proposals db)\<rparr>"

definition put_response_draft :: "response_draft \<Rightarrow> database \<Rightarrow> database" where
  "put_response_draft d db = db\<lparr>response_drafts := row_put rd_id d (response_drafts db)\<rparr>"

definition add_review_audit ::
    "uuid \<Rightarrow> uuid \<Rightarrow> string \<Rightarrow> string \<Rightarrow> string \<Rightarrow> string \<Rightarrow> string \<Rightarrow> string \<Rightarrow> json \<Rightarrow> string
     \<Rightarrow> timestamp \<Rightarrow> database \<Rightarrow> error + database" where
  "add_review_audit uid organization_id event_type actor_type actor subject_type subject summary
       data correlation_id occurred_at db =
     insert_audit
       \<lparr>au_id = uid, au_organization_id = Some organization_id, au_task_id = None,
        au_run_id = None, au_event_type = event_type, au_actor_type = actor_type,
        au_actor_id = Some actor, au_subject_type = Some subject_type,
        au_subject_id = Some subject, au_summary = Some summary, au_data = data,
        au_correlation_id = correlation_id, au_occurred_at = occurred_at\<rparr> db"

definition set_proposal_state ::
    "case_review \<Rightarrow> decision_proposal_state \<Rightarrow> timestamp \<Rightarrow> database \<Rightarrow> error + database" where
  "set_proposal_state r state now db =
     (case find (\<lambda>p. prop_id p = rv_proposal_id r \<and> prop_organization_id p = rv_organization_id r)
             (proposals db) of
        None \<Rightarrow> Inr db
      | Some p \<Rightarrow>
          bindE (required_snapshot r db) (\<lambda>snapshot.
          Inr (if prop_current_version p \<noteq> rs_proposal_version snapshot then db
               else put_proposal (p\<lparr>prop_state := state, prop_version := prop_version p + 1,
                                   prop_updated_at := now\<rparr>) db)))"

definition open_proposal_state :: "case_review \<Rightarrow> database \<Rightarrow> decision_proposal_state" where
  "open_proposal_state r db =
     (case row_get pv_id (rv_proposal_version_id r) (proposal_versions db) of
        None \<Rightarrow> DP_INFORMATION_NEEDED
      | Some v \<Rightarrow> if pv_state v \<in> {DP_READY_FOR_REVIEW, DP_INFORMATION_NEEDED} then pv_state v
                  else DP_INFORMATION_NEEDED)"

section \<open>Reservations that ran out\<close>

definition reopened_review :: "timestamp \<Rightarrow> case_review \<Rightarrow> case_review" where
  "reopened_review now r =
     r\<lparr>rv_status := RS_PENDING, rv_version := rv_version r + 1, rv_updated_at := now\<rparr>"

definition expire_reservation ::
    "timestamp \<Rightarrow> (uuid \<Rightarrow> uuid) \<Rightarrow> review_reservation \<Rightarrow> database \<Rightarrow> error + database" where
  "expire_reservation now audit_ids x db =
     (let db1 = put_reservation (x\<lparr>rr_status := RR_EXPIRED\<rparr>) db;
          target = row_get rv_id (rr_review_id x) (reviews db1)
      in
      bindE (add_review_audit (audit_ids (rr_id x)) (rr_organization_id x)
               ''case.review_reservation_expired'' ''system'' ''review-expiry-reconciler''
               (case target of None \<Rightarrow> ''review_reservation'' | Some _ \<Rightarrow> ''review'')
               (case target of None \<Rightarrow> rr_public_id x | Some r \<Rightarrow> rv_public_id r)
               ''Review reservation expired and returned to the queue.''
               (JObj [(''reservation_id'', JStr (rr_public_id x)),
                      (''expired_at'', JStr (isoformat (rr_expires_at x)))])
               (''review-expiry:'' @ rr_public_id x) now db1) (\<lambda>db2.
      case target of
        None \<Rightarrow> Inr db2
      | Some r \<Rightarrow>
          if rv_status r \<noteq> RS_RESERVED then Inr db2
          else let r' = reopened_review now r; db3 = put_review r' db2
               in set_proposal_state r' (open_proposal_state r' db3) now db3))"

definition expired_reservations ::
    "(review_reservation \<Rightarrow> bool) \<Rightarrow> timestamp \<Rightarrow> database \<Rightarrow> review_reservation list" where
  "expired_reservations scope now db =
     filter (\<lambda>x. rr_status x = RR_ACTIVE \<and> rr_expires_at x \<le> now \<and> scope x) (reservations db)"

definition reconcile_expired ::
    "timestamp \<Rightarrow> (uuid \<Rightarrow> uuid) \<Rightarrow> (review_reservation \<Rightarrow> bool) \<Rightarrow> database \<Rightarrow> error + database" where
  "reconcile_expired now audit_ids scope db =
     foldE (expire_reservation now audit_ids) (expired_reservations scope now db) db"

definition reservation_of_review :: "case_review \<Rightarrow> review_reservation \<Rightarrow> bool" where
  "reservation_of_review r x \<longleftrightarrow>
     rr_organization_id x = rv_organization_id r \<and> rr_review_id x = rv_id r"

definition reservation_of_organization :: "uuid \<Rightarrow> review_reservation \<Rightarrow> bool" where
  "reservation_of_organization organization_id x \<longleftrightarrow> rr_organization_id x = organization_id"

text \<open>The object of the review in the session's identity map after the sweep.\<close>

definition refresh_review :: "case_review \<Rightarrow> database \<Rightarrow> case_review" where
  "refresh_review r db = (case row_get rv_id (rv_id r) (reviews db) of None \<Rightarrow> r | Some q \<Rightarrow> q)"

section \<open>Freshness\<close>

definition context_rows ::
    "case_review \<Rightarrow> database \<Rightarrow> (context_binding \<times> business_object_snapshot) list" where
  "context_rows r db =
     [(b, c). b \<leftarrow> context_bindings db, c \<leftarrow> business_objects db,
        bo_organization_id c = pcb_organization_id b \<and> bo_case_id c = pcb_case_id b
        \<and> bo_id c = pcb_context_id b
        \<and> pcb_organization_id b = rv_organization_id r \<and> pcb_case_id b = rv_case_id r
        \<and> pcb_proposal_version_id b = rv_proposal_version_id r]"

definition evidence_rows ::
    "case_review \<Rightarrow> database
     \<Rightarrow> (evidence_binding \<times> policy_evidence \<times> policy_version \<times> policy_clause) list" where
  "evidence_rows r db =
     [(b, e, p, k). b \<leftarrow> evidence_bindings db, e \<leftarrow> policy_evidence_rows db,
        p \<leftarrow> policy_versions db, k \<leftarrow> policy_clauses db,
        cpe_organization_id e = peb_organization_id b \<and> cpe_case_id e = peb_case_id b
        \<and> cpe_id e = peb_evidence_id b
        \<and> gpv_organization_id p = cpe_organization_id e \<and> gpv_id p = cpe_policy_version_id e
        \<and> gpc_organization_id k = cpe_organization_id e \<and> gpc_id k = cpe_clause_id e
        \<and> peb_organization_id b = rv_organization_id r \<and> peb_case_id b = rv_case_id r
        \<and> peb_proposal_version_id b = rv_proposal_version_id r]"

definition context_unchanged ::
    "(string \<Rightarrow> string) \<Rightarrow> context_binding \<times> business_object_snapshot \<Rightarrow> bool" where
  "context_unchanged sha row \<longleftrightarrow>
     bo_version (snd row) = pcb_snapshot_version (fst row)
     \<and> context_fingerprint_of sha (snd row) = pcb_context_fingerprint (fst row)"

definition context_material ::
    "(string \<Rightarrow> string) \<Rightarrow> (context_binding \<times> business_object_snapshot) list \<Rightarrow> json" where
  "context_material sha rows =
     JList (map (\<lambda>c. JObj [(''id'', JStr (bo_public_id c)),
                           (''fingerprint'', JStr (context_fingerprint_of sha c))])
              (sort_key bo_public_id (map snd rows)))"

definition evidence_unchanged ::
    "evidence_binding \<times> policy_evidence \<times> policy_version \<times> policy_clause \<Rightarrow> bool" where
  "evidence_unchanged row =
     (case row of (b, e, p, k) \<Rightarrow>
        peb_evidence_fingerprint b = cpe_fingerprint e \<and> cpe_freshness e = EF_CURRENT
        \<and> cpe_conflict_state e = CF_NONE \<and> cpe_policy_content_hash e = gpv_content_hash p
        \<and> cpe_clause_content_hash e = gpc_content_hash k)"

definition policy_in_force :: "timestamp \<Rightarrow> policy_version \<Rightarrow> bool" where
  "policy_in_force now p \<longleftrightarrow> gpv_status p = PV_PUBLISHED
     \<and> (case gpv_effective_from p of None \<Rightarrow> False | Some t \<Rightarrow> t \<le> now)
     \<and> (case gpv_effective_to p of None \<Rightarrow> True | Some t \<Rightarrow> now < t)"

fun check_evidence ::
    "timestamp \<Rightarrow> (evidence_binding \<times> policy_evidence \<times> policy_version \<times> policy_clause) list
     \<Rightarrow> string option" where
  "check_evidence now [] = None"
| "check_evidence now (row # rows) =
     (if \<not> evidence_unchanged row then Some ''The reviewed policy evidence binding changed.''
      else if \<not> policy_in_force now (fst (snd (snd row)))
      then Some ''Policy authority changed after this review was submitted.''
      else check_evidence now rows)"

definition evidence_material ::
    "(evidence_binding \<times> policy_evidence \<times> policy_version \<times> policy_clause) list \<Rightarrow> json" where
  "evidence_material rows =
     JObj [(''status'', JStr ''relevant''),
           (''evidence'', JList (map JStr (sort (map (\<lambda>row. cpe_fingerprint (fst (snd row))) rows))))]"

text \<open>The reason a review is stale, in the order the code looks for one.\<close>

definition evidence_staleness ::
    "(string \<Rightarrow> string) \<Rightarrow> case_review \<Rightarrow> review_snapshot \<Rightarrow> timestamp \<Rightarrow> database \<Rightarrow> string option" where
  "evidence_staleness sha r snapshot now db =
     (if rv_policy_state r \<noteq> PS_SUPPORTED then None
      else let rows = evidence_rows r db in
        if rows = [] then Some ''The reviewed policy evidence is unavailable.''
        else case check_evidence now rows of
               Some reason \<Rightarrow> Some reason
             | None \<Rightarrow> if hash_json sha (evidence_material rows) \<noteq> rs_evidence_fingerprint snapshot
                       then Some ''The reviewed policy evidence set changed.'' else None)"

definition staleness ::
    "(string \<Rightarrow> string) \<Rightarrow> case_review \<Rightarrow> review_snapshot \<Rightarrow> timestamp \<Rightarrow> database \<Rightarrow> string option" where
  "staleness sha r snapshot now db =
     (if rs_approval_rule_id snapshot = ''APR-LEGACY''
      then Some ''Historical approvals require a new governed review.''
      else case (row_get cs_id (rv_case_id r) (cases db),
                 row_get prop_id (rv_proposal_id r) (proposals db),
                 row_get pv_id (rv_proposal_version_id r) (proposal_versions db)) of
        (Some c, Some p, Some v) \<Rightarrow>
          (if cs_version c \<noteq> rs_case_version snapshot
           then Some ''The case changed after this review was submitted.''
           else if prop_current_version p \<noteq> rs_proposal_version snapshot
           then Some ''A newer resolution version is available.''
           else if pv_context_fingerprint v \<noteq> rs_context_fingerprint snapshot
                \<or> pv_evidence_fingerprint v \<noteq> rs_evidence_fingerprint snapshot
                \<or> pv_risk_fingerprint v \<noteq> rs_risk_fingerprint snapshot
                \<or> pv_risk_rule_version v \<noteq> rs_risk_rule_version snapshot
           then Some ''The reviewed resolution bindings no longer match.''
           else let rows = context_rows r db in
             if rows = [] then Some ''The reviewed business context is unavailable.''
             else if \<not> list_all (context_unchanged sha) rows
             then Some ''Business context changed after this review was submitted.''
             else if hash_json sha (context_material sha rows) \<noteq> rs_context_fingerprint snapshot
             then Some ''The reviewed business context binding changed.''
             else evidence_staleness sha r snapshot now db)
      | _ \<Rightarrow> Some ''The reviewed case or resolution snapshot is unavailable.'')"

definition freshness_of ::
    "(string \<Rightarrow> string) \<Rightarrow> case_review \<Rightarrow> timestamp \<Rightarrow> database \<Rightarrow> error + review_freshness_record" where
  "freshness_of sha r now db =
     bindE (required_snapshot r db) (\<lambda>snapshot.
     Inr (case staleness sha r snapshot now db of
            Some reason \<Rightarrow> stale now reason
          | None \<Rightarrow> \<lparr>fr_status = RF_CURRENT, fr_checked_at = now, fr_reason = None\<rparr>))"

definition review_freshness_at ::
    "(string \<Rightarrow> string) \<Rightarrow> timestamp \<Rightarrow> string \<Rightarrow> string \<Rightarrow> database
     \<Rightarrow> error + review_freshness_record" where
  "review_freshness_at sha now org_pid review_pid db =
     bindE (required_review org_pid review_pid db) (\<lambda>r. freshness_of sha r now db)"

end
