(* ===== verification/Review_Workflow.thy ===== *)
theory Review_Workflow
  imports Reviews
begin

text \<open>
  The commands of the review repository, \<open>persistence/reviews/workflow.py\<close>, with the reads of
  \<open>persistence/reviews/queries.py\<close> that also expire reservations. A command is one transaction:
  it returns its result with the new database, or it raises and nothing is stored.
\<close>

section \<open>Submitting a resolution\<close>

record submit_ids =
  si_review :: uuid
  si_snapshot :: uuid
  si_audit :: uuid

definition submitted_case :: "timestamp \<Rightarrow> case_row \<Rightarrow> case_row" where
  "submitted_case now c =
     c\<lparr>cs_status := CS_NEEDS_REVIEW, cs_version := cs_version c + 1, cs_updated_at := now\<rparr>"

definition new_review ::
    "(string \<Rightarrow> string) \<Rightarrow> timestamp \<Rightarrow> uuid \<Rightarrow> string \<Rightarrow> case_row \<Rightarrow> case_proposal \<Rightarrow> proposal_version
     \<Rightarrow> membership \<Rightarrow> review_submission \<Rightarrow> case_review" where
  "new_review sha now uid org_pid c p v m cmd =
     \<lparr>rv_id = uid,
      rv_public_id = stable_public_id sha ''RV'' [org_pid, cs_public_id c, pv_public_id v],
      rv_organization_id = cs_organization_id c, rv_case_id = cs_id c, rv_proposal_id = prop_id p,
      rv_proposal_version_id = pv_id v, rv_status = RS_PENDING,
      rv_review_reason = sub_review_reason cmd, rv_policy_state = sub_policy_state cmd,
      rv_uncertainty = sub_uncertainty cmd, rv_impact_amount = sub_impact_amount cmd,
      rv_impact_currency = sub_impact_currency cmd, rv_submitted_by_id = mem_id m,
      rv_submitted_by_public_id = mem_public_id m, rv_submitted_by_name = mem_name m,
      rv_submitted_by_role = mem_role m, rv_submitted_at = now, rv_version = 1,
      rv_updated_at = now\<rparr>"

definition new_snapshot ::
    "(string \<Rightarrow> string) \<Rightarrow> timestamp \<Rightarrow> uuid \<Rightarrow> case_row \<Rightarrow> case_proposal \<Rightarrow> proposal_version
     \<Rightarrow> case_review \<Rightarrow> review_submission \<Rightarrow> review_snapshot" where
  "new_snapshot sha now uid c p v r cmd =
     \<lparr>rs_id = uid, rs_public_id = stable_public_id sha ''RVS'' [rv_public_id r],
      rs_organization_id = cs_organization_id c, rs_case_id = cs_id c, rs_review_id = rv_id r,
      rs_proposal_id = prop_id p, rs_proposal_version_id = pv_id v,
      rs_case_version = cs_version c + 1, rs_proposal_version = sub_proposal_version cmd,
      rs_proposal_fingerprint = sub_proposal_fingerprint cmd,
      rs_context_fingerprint = sub_context_fingerprint cmd,
      rs_evidence_fingerprint = sub_evidence_fingerprint cmd,
      rs_risk_fingerprint = sub_risk_fingerprint cmd,
      rs_risk_rule_version = sub_risk_rule_version cmd,
      rs_snapshot_fingerprint = sub_snapshot_fingerprint cmd,
      rs_approval_rule_id = rule_public_id (sub_approval_rule cmd),
      rs_approval_rule_name = rule_name (sub_approval_rule cmd),
      rs_approval_rule_explanation = rule_explanation (sub_approval_rule cmd),
      rs_required_role = rule_required_role (sub_approval_rule cmd),
      rs_approval_rule_version = rule_version (sub_approval_rule cmd),
      rs_execution_eligible = sub_execution_eligible cmd, rs_created_at = now\<rparr>"

definition submit_new ::
    "(string \<Rightarrow> string) \<Rightarrow> timestamp \<Rightarrow> submit_ids \<Rightarrow> string \<Rightarrow> string \<Rightarrow> review_submission \<Rightarrow> string
     \<Rightarrow> case_row \<Rightarrow> case_proposal \<Rightarrow> proposal_version \<Rightarrow> database
     \<Rightarrow> error + review_bundle \<times> database" where
  "submit_new sha now ids org_pid actor cmd correlation_id c p v db =
     bindE (require_approval_rule_version (cs_organization_id c)
              (rule_version (sub_approval_rule cmd)) db) (\<lambda>_.
     bindE (requireE (prop_current_version p = sub_proposal_version cmd)
              (ReviewConflict (''A newer resolution exists. Open the current version before ''
                 @ ''submitting a review.''))) (\<lambda>_.
     bindE (requireE (cs_version c = sub_expected_case_version cmd)
              (CaseConcurrencyConflict (sub_expected_case_version cmd) (cs_version c))) (\<lambda>_.
     bindE (review_member (cs_organization_id c) actor db) (\<lambda>m.
     let r = new_review sha now (si_review ids) org_pid c p v m cmd;
         s = new_snapshot sha now (si_snapshot ids) c p v r cmd
     in
     bindE (insert_review r (put_case (submitted_case now c) db)) (\<lambda>db1.
     bindE (insert_review_snapshot s db1) (\<lambda>db2.
     bindE (add_review_audit (si_audit ids) (cs_organization_id c) ''case.review_submitted''
              ''member'' (mem_public_id m) ''review'' (rv_public_id r)
              ''Resolution submitted for human review.''
              (JObj [(''case_id'', JStr (cs_public_id c)),
                     (''proposal_id'', JStr (prop_public_id p)),
                     (''proposal_version'', JInt (pv_version v)),
                     (''snapshot_fingerprint'', JStr (sub_snapshot_fingerprint cmd)),
                     (''required_role'',
                      JStr (member_role_value (rule_required_role (sub_approval_rule cmd))))])
              correlation_id now db2) (\<lambda>db3.
     bindE (review_load_bundle r now db3) (\<lambda>b. Inr (b, db3)))))))))"

definition review_submit ::
    "(string \<Rightarrow> string) \<Rightarrow> timestamp \<Rightarrow> submit_ids \<Rightarrow> string \<Rightarrow> string \<Rightarrow> string \<Rightarrow> review_submission
     \<Rightarrow> string \<Rightarrow> database \<Rightarrow> error + review_bundle \<times> database" where
  "review_submit sha now ids org_pid case_pid actor cmd correlation_id db =
     bindE (someE (scoped_case org_pid case_pid db) (ReviewNotFound ''The case was not found.''))
       (\<lambda>(_, c).
     bindE (someE (find (\<lambda>p. prop_organization_id p = cs_organization_id c
                            \<and> prop_case_id p = cs_id c) (proposals db))
              (ReviewNotFound ''The proposal was not found.'')) (\<lambda>p.
     bindE (someE (find (\<lambda>v. pv_organization_id v = cs_organization_id c
                            \<and> pv_case_id v = cs_id c \<and> pv_proposal_id v = prop_id p
                            \<and> pv_version v = sub_proposal_version cmd) (proposal_versions db))
              (ReviewNotFound ''The proposal version was not found.'')) (\<lambda>v.
     case find (\<lambda>r. rv_organization_id r = cs_organization_id c \<and> rv_case_id r = cs_id c
                  \<and> rv_proposal_version_id r = pv_id v) (reviews db) of
       Some existing \<Rightarrow> bindE (review_load_bundle existing now db) (\<lambda>b. Inr (b, db))
     | None \<Rightarrow> submit_new sha now ids org_pid actor cmd correlation_id c p v db)))"

section \<open>Reserving a review\<close>

definition new_reservation ::
    "(string \<Rightarrow> string) \<Rightarrow> timestamp \<Rightarrow> uuid \<Rightarrow> string \<Rightarrow> case_review \<Rightarrow> review_snapshot \<Rightarrow> membership
     \<Rightarrow> review_reservation" where
  "new_reservation sha now uid nonce r s m =
     \<lparr>rr_id = uid,
      rr_public_id = stable_public_id sha ''RVR'' [rv_public_id r, mem_public_id m, nonce],
      rr_organization_id = rv_organization_id r, rr_case_id = rv_case_id r,
      rr_review_id = rv_id r, rr_snapshot_id = rs_id s, rr_reviewer_id = Some (mem_id m),
      rr_legacy_reservation_id = None, rr_reviewer_public_id = mem_public_id m,
      rr_reviewer_name = mem_name m, rr_reviewer_role = mem_role m,
      rr_snapshot_fingerprint = rs_snapshot_fingerprint s, rr_status = RR_ACTIVE,
      rr_reserved_at = now, rr_expires_at = now + minutes review_hold_minutes,
      rr_consumed_at = None\<rparr>"

definition reserved_review :: "timestamp \<Rightarrow> case_review \<Rightarrow> case_review" where
  "reserved_review now r =
     r\<lparr>rv_status := RS_RESERVED, rv_version := rv_version r + 1, rv_updated_at := now\<rparr>"

definition review_reserve ::
    "(string \<Rightarrow> string) \<Rightarrow> timestamp \<Rightarrow> uuid \<Rightarrow> string \<Rightarrow> uuid \<Rightarrow> (uuid \<Rightarrow> uuid) \<Rightarrow> string \<Rightarrow> string
     \<Rightarrow> string \<Rightarrow> int \<Rightarrow> string \<Rightarrow> database \<Rightarrow> error + review_bundle \<times> database" where
  "review_reserve sha now uid nonce audit_id expiry_audit_ids org_pid review_pid actor expected
       correlation_id db =
     bindE (required_review org_pid review_pid db) (\<lambda>r0.
     bindE (reconcile_expired now expiry_audit_ids (reservation_of_review r0) db) (\<lambda>db1.
     let r = refresh_review r0 db1; active = active_reservation r now db1 in
     bindE (review_member (rv_organization_id r) actor db1) (\<lambda>m.
     if (case active of None \<Rightarrow> False | Some x \<Rightarrow> rr_reviewer_id x = Some (mem_id m))
     then bindE (review_load_bundle r now db1) (\<lambda>b. Inr (b, db1))
     else
     bindE (requireE (rv_version r = expected) (ReviewVersionConflict expected (rv_version r)))
       (\<lambda>_.
     bindE (requireE (\<not> terminal_review_status (rv_status r))
              (ReviewConflict ''This review already has a final decision.'')) (\<lambda>_.
     bindE (requireE (active = None)
              (ReviewConflict ''This review is currently reserved by another reviewer.'')) (\<lambda>_.
     bindE (requireE (rv_submitted_by_id r \<noteq> mem_id m)
              (ReviewConflict ''A resolution must be reviewed by a different person.'')) (\<lambda>_.
     bindE (required_snapshot r db1) (\<lambda>s.
     bindE (require_approval_rule_version (rv_organization_id r) (rs_approval_rule_version s) db1)
       (\<lambda>_.
     let x = new_reservation sha now uid nonce r s m; r' = reserved_review now r in
     bindE (insert_reservation x db1) (\<lambda>db2.
     bindE (set_proposal_state r' DP_UNDER_REVIEW now (put_review r' db2)) (\<lambda>db3.
     bindE (add_review_audit audit_id (rv_organization_id r) ''case.review_reserved'' ''member''
              (mem_public_id m) ''review'' (rv_public_id r)
              ''Review reserved for a human decision.''
              (JObj [(''reservation_id'', JStr (rr_public_id x)),
                     (''expires_at'', JStr (isoformat (rr_expires_at x))),
                     (''snapshot_fingerprint'', JStr (rs_snapshot_fingerprint s))])
              correlation_id now db3) (\<lambda>db4.
     bindE (review_load_bundle r' now db4) (\<lambda>b. Inr (b, db4))))))))))))))"

section \<open>Deciding a review\<close>

definition new_decision ::
    "(string \<Rightarrow> string) \<Rightarrow> timestamp \<Rightarrow> uuid \<Rightarrow> case_review \<Rightarrow> review_reservation \<Rightarrow> membership
     \<Rightarrow> review_decision \<Rightarrow> string \<Rightarrow> string \<Rightarrow> review_decision_row" where
  "new_decision sha now uid r x m decision reason fingerprint =
     \<lparr>rvd_id = uid,
      rvd_public_id = stable_public_id sha ''RVD'' [rv_public_id r, int_str (rv_version r)],
      rvd_organization_id = rv_organization_id r, rvd_case_id = rv_case_id r,
      rvd_review_id = rv_id r, rvd_reservation_id = rr_id x, rvd_reviewer_id = Some (mem_id m),
      rvd_legacy_decision_id = None, rvd_reviewer_public_id = mem_public_id m,
      rvd_reviewer_name = mem_name m, rvd_reviewer_role = mem_role m, rvd_decision = decision,
      rvd_reason = reason, rvd_snapshot_fingerprint = fingerprint, rvd_decided_at = now\<rparr>"

definition consumed_reservation :: "timestamp \<Rightarrow> review_reservation \<Rightarrow> review_reservation" where
  "consumed_reservation now x = x\<lparr>rr_status := RR_CONSUMED, rr_consumed_at := Some now\<rparr>"

definition decided_review :: "timestamp \<Rightarrow> review_decision \<Rightarrow> case_review \<Rightarrow> case_review" where
  "decided_review now decision r =
     r\<lparr>rv_status := review_status_of decision, rv_version := rv_version r + 1,
       rv_updated_at := now\<rparr>"

definition advance_case_after_decision ::
    "case_review \<Rightarrow> review_decision \<Rightarrow> timestamp \<Rightarrow> database
     \<Rightarrow> error + (string \<times> json) list \<times> database" where
  "advance_case_after_decision r decision now db =
     (if decision = RD_APPROVE then Inr ([], db)
      else bindE (someE (find (\<lambda>c. cs_id c = rv_case_id r
                              \<and> cs_organization_id c = rv_organization_id r) (cases db))
                    (ReviewConflict ''The reviewed case is no longer available.'')) (\<lambda>c.
           let c' = c\<lparr>cs_status := (if decision = RD_ESCALATE then CS_NEEDS_REVIEW
                                    else CS_INVESTIGATING),
                      cs_version := cs_version c + 1, cs_updated_at := now\<rparr>
           in Inr ([(''case_status'', JStr (case_status_value (cs_status c'))),
                    (''case_version'', JInt (cs_version c'))], put_case c' db)))"

definition publish_approved_response_draft ::
    "(string \<Rightarrow> string) \<Rightarrow> uuid \<Rightarrow> case_review \<Rightarrow> timestamp \<Rightarrow> database
     \<Rightarrow> error + (string \<times> json) list \<times> database" where
  "publish_approved_response_draft sha uid r now db =
     (let stale_error = ReviewSnapshotStale
            ''The reviewed resolution does not contain a ready response draft.''
      in
      bindE (someE (find (\<lambda>d. prd_organization_id d = rv_organization_id r
                            \<and> prd_case_id d = rv_case_id r
                            \<and> prd_proposal_version_id d = rv_proposal_version_id r)
                      (proposal_response_drafts db)) stale_error) (\<lambda>approved.
      bindE (requireE (prd_status approved = RSP_READY) stale_error) (\<lambda>_.
      bindE (case find (\<lambda>d. rd_organization_id d = rv_organization_id r
                          \<and> rd_case_id d = rv_case_id r) (response_drafts db) of
               None \<Rightarrow>
                 (let d = \<lparr>rd_id = uid, rd_public_id = stable_public_id sha ''DFT'' [rv_public_id r],
                           rd_organization_id = rv_organization_id r, rd_case_id = rv_case_id r,
                           rd_subject = prd_subject approved, rd_body = prd_body approved,
                           rd_status = RSP_READY, rd_version = 1, rd_updated_at = now\<rparr>
                  in bindE (insert_response_draft d db) (\<lambda>db1. Inr (d, db1)))
             | Some d0 \<Rightarrow>
                 (let d = d0\<lparr>rd_subject := prd_subject approved, rd_body := prd_body approved,
                             rd_status := RSP_READY, rd_version := rd_version d0 + 1,
                             rd_updated_at := now\<rparr>
                  in Inr (d, put_response_draft d db))) (\<lambda>(d, db1).
      Inr ([(''response_draft_id'', JStr (rd_public_id d)),
            (''response_draft_version'', JInt (rd_version d))], db1)))))"

record decide_ids =
  di_decision :: uuid
  di_draft :: uuid
  di_audit :: uuid

text \<open>The guards of \<open>decide\<close> in their order; what passes them are the rows it works on.\<close>

definition decide_guard ::
    "(string \<Rightarrow> string) \<Rightarrow> timestamp \<Rightarrow> string \<Rightarrow> string \<Rightarrow> string \<Rightarrow> int \<Rightarrow> string \<Rightarrow> database
     \<Rightarrow> error + case_review \<times> review_snapshot \<times> review_reservation \<times> membership" where
  "decide_guard sha now org_pid review_pid actor expected fingerprint db =
     bindE (required_review org_pid review_pid db) (\<lambda>r.
     bindE (requireE (rv_version r = expected) (ReviewVersionConflict expected (rv_version r)))
       (\<lambda>_.
     bindE (requireE (\<not> terminal_review_status (rv_status r))
              (ReviewConflict ''This review already has a final decision.'')) (\<lambda>_.
     bindE (required_snapshot r db) (\<lambda>s.
     bindE (requireE (rs_snapshot_fingerprint s = fingerprint)
              (ReviewConflict ''The submitted review snapshot does not match this review.'')) (\<lambda>_.
     bindE (require_approval_rule_version (rv_organization_id r) (rs_approval_rule_version s) db)
       (\<lambda>_.
     case (find (\<lambda>c. cs_id c = rv_case_id r \<and> cs_organization_id c = rv_organization_id r)
             (cases db),
           find (\<lambda>p. prop_id p = rv_proposal_id r \<and> prop_organization_id p = rv_organization_id r)
             (proposals db)) of
       (Some c, Some p) \<Rightarrow>
         bindE (requireE (cs_version c = rs_case_version s
                          \<and> prop_current_version p = rs_proposal_version s)
                  (ReviewSnapshotStale
                     ''The case or resolution changed after this review was submitted.'')) (\<lambda>_.
         bindE (someE (find (\<lambda>x. rr_organization_id x = rv_organization_id r
                               \<and> rr_case_id x = rv_case_id r \<and> rr_review_id x = rv_id r
                               \<and> rr_status x = RR_ACTIVE) (reservations db))
                  (ReviewConflict ''Reserve this review before recording a decision.'')) (\<lambda>x.
         bindE (requireE (now < rr_expires_at x)
                  (ReviewReservationExpired (''The review reservation expired. Reserve the ''
                     @ ''review again before deciding.''))) (\<lambda>_.
         bindE (review_member (rv_organization_id r) actor db) (\<lambda>m.
         bindE (requireE (rr_reviewer_id x = Some (mem_id m))
                  (ReviewConflict ''The review is reserved by another reviewer.'')) (\<lambda>_.
         bindE (requireE (rr_snapshot_fingerprint x = fingerprint)
                  (ReviewConflict ''The reserved snapshot no longer matches this review.'')) (\<lambda>_.
         bindE (requireE (role_satisfies (Some (mem_role m)) (rs_required_role s))
                  (ReviewAuthorityDenied
                     ''Your current role does not have authority to decide this review.'')) (\<lambda>_.
         bindE (freshness_of sha r now db) (\<lambda>f.
         bindE (requireE (fr_status f = RF_CURRENT)
                  (ReviewSnapshotStale (case fr_reason f of
                     Some reason \<Rightarrow> if reason = [] then
                         ''The review snapshot is stale and cannot be decided.'' else reason
                   | None \<Rightarrow> ''The review snapshot is stale and cannot be decided.''))) (\<lambda>_.
         Inr (r, s, x, m))))))))))
     | _ \<Rightarrow> Inl (ReviewConflict ''The reviewed case or resolution is no longer available.'')))))))"

definition review_decide ::
    "(string \<Rightarrow> string) \<Rightarrow> timestamp \<Rightarrow> decide_ids \<Rightarrow> string \<Rightarrow> string \<Rightarrow> string \<Rightarrow> int \<Rightarrow> string
     \<Rightarrow> review_decision \<Rightarrow> string \<Rightarrow> string \<Rightarrow> database \<Rightarrow> error + review_bundle \<times> database" where
  "review_decide sha now ids org_pid review_pid actor expected fingerprint decision reason
       correlation_id db =
     bindE (decide_guard sha now org_pid review_pid actor expected fingerprint db)
       (\<lambda>(r, s, x, m).
     let d = new_decision sha now (di_decision ids) r x m decision reason fingerprint;
         r' = decided_review now decision r
     in
     bindE (insert_review_decision d db) (\<lambda>db1.
     bindE (advance_case_after_decision r' decision now
              (put_review r' (put_reservation (consumed_reservation now x) db1)))
       (\<lambda>(case_update, db2).
     bindE (if decision = RD_APPROVE
            then publish_approved_response_draft sha (di_draft ids) r' now db2
            else Inr ([], db2)) (\<lambda>(draft_update, db3).
     bindE (set_proposal_state r' (proposal_state_of decision) now db3) (\<lambda>db4.
     bindE (add_review_audit (di_audit ids) (rv_organization_id r) ''case.review_decided''
              ''member'' (mem_public_id m) ''review'' (rv_public_id r)
              (''Review decision recorded: '' @ decision_label decision @ ''.'')
              (JObj ([(''decision_id'', JStr (rvd_public_id d)),
                      (''decision'', JStr (review_decision_value decision)),
                      (''snapshot_fingerprint'', JStr fingerprint)]
                     @ case_update @ draft_update))
              correlation_id now db4) (\<lambda>db5.
     bindE (review_load_bundle r' now db5) (\<lambda>b. Inr (b, db5))))))))"

section \<open>Reads\<close>

definition review_get ::
    "timestamp \<Rightarrow> (uuid \<Rightarrow> uuid) \<Rightarrow> string \<Rightarrow> string \<Rightarrow> database
     \<Rightarrow> error + review_bundle option \<times> database" where
  "review_get now expiry_audit_ids org_pid review_pid db =
     (case scoped_review org_pid review_pid db of
        None \<Rightarrow> Inr (None, db)
      | Some r \<Rightarrow>
          bindE (reconcile_expired now expiry_audit_ids (reservation_of_review r) db) (\<lambda>db1.
          bindE (review_load_bundle (refresh_review r db1) now db1) (\<lambda>b. Inr (Some b, db1))))"

definition review_get_for_proposal ::
    "timestamp \<Rightarrow> timestamp \<Rightarrow> (uuid \<Rightarrow> uuid) \<Rightarrow> string \<Rightarrow> string \<Rightarrow> int \<Rightarrow> database
     \<Rightarrow> error + review_bundle option \<times> database" where
  "review_get_for_proposal now now2 expiry_audit_ids org_pid case_pid version db =
     (case scoped_case org_pid case_pid db of
        None \<Rightarrow> Inr (None, db)
      | Some (_, c) \<Rightarrow>
          (case find (\<lambda>v. pv_organization_id v = cs_organization_id c \<and> pv_case_id v = cs_id c
                        \<and> pv_version v = version) (proposal_versions db) of
             None \<Rightarrow> Inr (None, db)
           | Some v \<Rightarrow>
               (case find (\<lambda>r. rv_organization_id r = cs_organization_id c
                             \<and> rv_case_id r = cs_id c \<and> rv_proposal_version_id r = pv_id v)
                       (reviews db) of
                  None \<Rightarrow> Inr (None, db)
                | Some r \<Rightarrow>
                    bindE (reconcile_expired now expiry_audit_ids (reservation_of_review r) db)
                      (\<lambda>db1.
                    bindE (review_load_bundle (refresh_review r db1) now2 db1)
                      (\<lambda>b. Inr (Some b, db1))))))"

end
