(* ===== verification/Review_Invariant.thy ===== *)
theory Review_Invariant
  imports Review_Workflow
begin

text \<open>
  The invariant of the review tables, stated for one review at a time: the slice of a key is the
  review under it with the reservations, decisions and snapshots that name it. Every command
  changes one slice (the sweep of expired reservations, one slice per reservation).
\<close>

section \<open>Slices\<close>

type_synonym review_tables =
  "case_review list \<times> review_reservation list \<times> review_decision_row list \<times> review_snapshot list"

definition review_tables :: "database \<Rightarrow> review_tables" where
  "review_tables db = (reviews db, reservations db, review_decisions db, review_snapshots db)"

definition review_slice :: "uuid \<Rightarrow> review_tables \<Rightarrow> review_tables" where
  "review_slice i = (\<lambda>(rs, xs, ds, ss).
     (filter (\<lambda>r. rv_id r = i) rs, filter (\<lambda>x. rr_review_id x = i) xs,
      filter (\<lambda>d. rvd_review_id d = i) ds, filter (\<lambda>s. rs_review_id s = i) ss))"

definition reservations_agree :: "case_review \<Rightarrow> review_snapshot \<Rightarrow> review_reservation list \<Rightarrow> bool" where
  "reservations_agree r s xs \<longleftrightarrow>
     length (filter (\<lambda>x. rr_status x = RR_ACTIVE) xs) = (if rv_status r = RS_RESERVED then 1 else 0)
     \<and> (\<forall>x\<in>set xs. rr_organization_id x = rv_organization_id r \<and> rr_case_id x = rv_case_id r
          \<and> rr_snapshot_fingerprint x = rs_snapshot_fingerprint s
          \<and> rr_reviewer_id x \<noteq> Some (rv_submitted_by_id r))"

text \<open>
  What stands behind a recorded decision: it is the only one, it gave the review its status, it
  was taken on the snapshot of the review through a consumed reservation of the same reviewer,
  by somebody who did not submit the resolution and whose role satisfies the role the approval
  rule asks for (an imported historical decision has no reviewer in the memberships; it can
  only stand on a snapshot that is not eligible for execution).
\<close>

definition decision_stands ::
    "case_review \<Rightarrow> review_snapshot \<Rightarrow> review_reservation list \<Rightarrow> review_decision_row \<Rightarrow> bool" where
  "decision_stands r s xs d \<longleftrightarrow>
     rvd_organization_id d = rv_organization_id r \<and> rvd_case_id d = rv_case_id r
     \<and> rv_status r = review_status_of (rvd_decision d)
     \<and> rvd_snapshot_fingerprint d = rs_snapshot_fingerprint s
     \<and> rvd_reviewer_id d \<noteq> Some (rv_submitted_by_id r)
     \<and> (rvd_reviewer_id d \<noteq> None \<longrightarrow>
          role_satisfies (Some (rvd_reviewer_role d)) (rs_required_role s))
     \<and> (rs_execution_eligible s \<longrightarrow> rvd_reviewer_id d \<noteq> None)
     \<and> (\<exists>x\<in>set xs. rr_id x = rvd_reservation_id d \<and> rr_status x = RR_CONSUMED
          \<and> rr_reviewer_id x = rvd_reviewer_id d)"

definition review_slice_ok :: "review_tables \<Rightarrow> bool" where
  "review_slice_ok = (\<lambda>(rs, xs, ds, ss).
     (rs = [] \<and> xs = [] \<and> ds = [] \<and> ss = [])
     \<or> (\<exists>r s. rs = [r] \<and> ss = [s]
          \<and> rs_organization_id s = rv_organization_id r \<and> rs_case_id s = rv_case_id r
          \<and> reservations_agree r s xs
          \<and> (if terminal_review_status (rv_status r) then (\<exists>d. ds = [d] \<and> decision_stands r s xs d)
             else ds = [])))"

definition review_inv :: "database \<Rightarrow> bool" where
  "review_inv db \<longleftrightarrow> unique_keys rr_id (reservations db) \<and> unique_keys rvd_id (review_decisions db)
     \<and> unique_keys rs_id (review_snapshots db)
     \<and> (\<forall>i. review_slice_ok (review_slice i (review_tables db)))"

section \<open>How the review tables evolve\<close>

text \<open>
  A review keeps what it is about and who submitted it, its version never goes back, and once
  it has a final status it never changes again; decisions and snapshots stay as recorded.
\<close>

definition review_successor :: "case_review \<Rightarrow> case_review \<Rightarrow> bool" where
  "review_successor r r' \<longleftrightarrow> rv_id r' = rv_id r
     \<and> rv_public_id r' = rv_public_id r \<and> rv_organization_id r' = rv_organization_id r
     \<and> rv_case_id r' = rv_case_id r \<and> rv_proposal_id r' = rv_proposal_id r
     \<and> rv_proposal_version_id r' = rv_proposal_version_id r
     \<and> rv_submitted_by_id r' = rv_submitted_by_id r \<and> rv_version r \<le> rv_version r'
     \<and> (terminal_review_status (rv_status r) \<longrightarrow> r' = r)"

definition review_evolves :: "database \<Rightarrow> database \<Rightarrow> bool" where
  "review_evolves db db' \<longleftrightarrow>
     (\<forall>i r. row_get rv_id i (reviews db) = Some r \<longrightarrow>
        (\<exists>r'. row_get rv_id i (reviews db') = Some r' \<and> review_successor r r'))
     \<and> (\<exists>ds. review_decisions db' = review_decisions db @ ds)
     \<and> (\<exists>ss. review_snapshots db' = review_snapshots db @ ss)"

lemma review_successor_refl [simp]: "review_successor r r"
  by (simp add: review_successor_def)

lemma review_successor_trans:
  "review_successor r s \<Longrightarrow> review_successor s t \<Longrightarrow> review_successor r t"
  unfolding review_successor_def by auto

lemma review_evolves_same:
  "review_tables db' = review_tables db \<Longrightarrow> review_evolves db db'"
  by (auto simp: review_tables_def review_evolves_def)

lemma review_evolves_trans:
  assumes "review_evolves a b" and "review_evolves b c"
  shows "review_evolves a c"
  unfolding review_evolves_def
proof (intro conjI allI impI)
  fix i r assume "row_get rv_id i (reviews a) = Some r"
  then obtain r1 where "row_get rv_id i (reviews b) = Some r1" "review_successor r r1"
    using assms(1) unfolding review_evolves_def by blast
  moreover then obtain r2 where "row_get rv_id i (reviews c) = Some r2" "review_successor r1 r2"
    using assms(2) unfolding review_evolves_def by blast
  ultimately show "\<exists>r'. row_get rv_id i (reviews c) = Some r' \<and> review_successor r r'"
    using review_successor_trans by blast
qed (use assms in \<open>auto simp: review_evolves_def\<close>)

lemma review_inv_same:
  "review_tables db' = review_tables db \<Longrightarrow> review_inv db' = review_inv db"
  by (simp add: review_inv_def review_tables_def)

section \<open>Reading the invariant\<close>

lemma filter_key_get:
  "filter (\<lambda>r. key r = i) rows = [r] \<Longrightarrow> row_get key i rows = Some r"
  by (induction rows) (auto simp: row_get_def split: if_splits)

lemma row_get_filter:
  "row_get key i rows = Some r \<Longrightarrow> \<exists>rest. filter (\<lambda>r. key r = i) rows = r # rest"
  by (induction rows) (auto simp: row_get_def split: if_splits)

lemma review_inv_slice:
  assumes "review_inv db" and "row_get rv_id i (reviews db) = Some r"
  obtains s where "filter (\<lambda>r. rv_id r = i) (reviews db) = [r]"
    and "filter (\<lambda>s. rs_review_id s = i) (review_snapshots db) = [s]"
    and "rs_organization_id s = rv_organization_id r" and "rs_case_id s = rv_case_id r"
    and "reservations_agree r s (filter (\<lambda>x. rr_review_id x = i) (reservations db))"
    and "if terminal_review_status (rv_status r)
         then (\<exists>d. filter (\<lambda>d. rvd_review_id d = i) (review_decisions db) = [d]
                 \<and> decision_stands r s (filter (\<lambda>x. rr_review_id x = i) (reservations db)) d)
         else filter (\<lambda>d. rvd_review_id d = i) (review_decisions db) = []"
proof -
  have "review_slice_ok (review_slice i (review_tables db))"
    using assms(1) by (simp add: review_inv_def)
  moreover obtain rest where "filter (\<lambda>r. rv_id r = i) (reviews db) = r # rest"
    using row_get_filter [OF assms(2)] by blast
  ultimately show thesis
    using that by (auto simp: review_slice_ok_def review_slice_def review_tables_def)
qed

lemma find_filter_single:
  assumes "filter Q xs = [s]" and "\<And>x. P x \<Longrightarrow> Q x" and "P s"
  shows "find P xs = Some s"
  using assms by (induction xs) (auto split: if_splits)

text \<open>The snapshot the code finds for a review is the only one that names it.\<close>

lemma required_snapshot_filter:
  assumes "required_snapshot r db = Inr s"
    and "filter (\<lambda>s. rs_review_id s = rv_id r) (review_snapshots db) = [s']"
  shows "s = s'"
proof -
  have "s \<in> set (review_snapshots db)" and "rs_review_id s = rv_id r"
    using assms(1) by (auto simp: required_snapshot_def run_simps find_Some_iff)
  then have "s \<in> set (filter (\<lambda>s. rs_review_id s = rv_id r) (review_snapshots db))" by simp
  then show ?thesis using assms(2) by simp
qed

section \<open>Changing one slice\<close>

lemma review_inv_one:
  assumes "review_inv db" and "unique_keys rr_id (reservations db')"
    and "unique_keys rvd_id (review_decisions db')" and "unique_keys rs_id (review_snapshots db')"
    and "\<And>j. j \<noteq> i \<Longrightarrow> review_slice j (review_tables db') = review_slice j (review_tables db)"
    and "review_slice_ok (review_slice i (review_tables db'))"
  shows "review_inv db'"
  unfolding review_inv_def
proof (intro conjI allI)
  fix j
  show "review_slice_ok (review_slice j (review_tables db'))"
    using assms by (cases "j = i") (simp_all add: review_inv_def)
qed (rule assms(2-4))+

lemma filter_put_key:
  assumes "filter (\<lambda>r. key r = key r') rows = [r]"
  shows "filter (\<lambda>x. key x = j) (row_put key r' rows)
    = (if j = key r' then [r'] else filter (\<lambda>x. key x = j) rows)"
proof (cases "j = key r'")
  case True
  have "filter (\<lambda>x. key x = key r') (row_put key r' rows) = row_put key r' (filter (\<lambda>x. key x = key r') rows)"
    by (rule filter_row_put_same) simp_all
  also have "key r = key r'" using assms by (metis (mono_tags) filter_eq_ConsD)
  then have "row_put key r' (filter (\<lambda>x. key x = key r') rows) = [r']"
    using assms by (simp add: row_put_def)
  finally show ?thesis using True by simp
next
  case False
  then show ?thesis by (auto intro!: filter_row_put_other)
qed

lemma filter_put_reservation:
  assumes "unique_keys rr_id rows" and "x \<in> set rows" and "rr_id x' = rr_id x"
    and "rr_review_id x' = rr_review_id x"
  shows "filter (\<lambda>y. rr_review_id y = j) (row_put rr_id x' rows)
    = (if j = rr_review_id x then row_put rr_id x' (filter (\<lambda>y. rr_review_id y = j) rows)
       else filter (\<lambda>y. rr_review_id y = j) rows)"
proof -
  have same: "y = x" if "y \<in> set rows" "rr_id y = rr_id x'" for y
    using that assms(1-3) row_get_unique by (metis option.inject)
  show ?thesis
  proof (cases "j = rr_review_id x")
    case True
    then show ?thesis using same assms(4) by (auto intro!: filter_row_put_same)
  next
    case False
    then show ?thesis using same assms(4) by (auto intro!: filter_row_put_other)
  qed
qed

text \<open>Replacing the only row that satisfies a predicate by one that does not leaves none.\<close>

lemma filter_put_last:
  assumes "length (filter P rows) = 1" and "x \<in> set rows" and "P x" and "\<not> P x'"
    and "key x' = key x"
  shows "filter P (row_put key x' rows) = []"
proof -
  obtain y where y: "filter P rows = [y]"
    using assms(1) by (metis One_nat_def length_0_conv length_Suc_conv)
  have "z = y" if "z \<in> set rows" "P z" for z
  proof -
    have "z \<in> set (filter P rows)" using that by simp
    then show ?thesis unfolding y by simp
  qed
  then have "z = x" if "z \<in> set rows" "P z" for z
    using that assms(2,3) by blast
  then show ?thesis using assms(4,5) by (auto simp: filter_empty_conv set_row_put)
qed

lemma review_evolves_put:
  assumes "row_get rv_id (rv_id r') (reviews db) = Some r" and "review_successor r r'"
    and "reviews db' = row_put rv_id r' (reviews db)"
    and "\<exists>ds. review_decisions db' = review_decisions db @ ds"
    and "review_snapshots db' = review_snapshots db"
  shows "review_evolves db db'"
  using assms unfolding review_evolves_def by (auto simp: row_get_put)

section \<open>Writes to other tables\<close>

named_theorems review_frame \<open>operations that leave the review tables alone\<close>

lemma put_case_review_tables [simp]: "review_tables (put_case c db) = review_tables db"
  by (simp add: review_tables_def put_case_def)

lemma add_review_audit_frame [review_frame]:
  "add_review_audit u org e aty ac st su sm dt co oc db = Inr db' \<Longrightarrow> review_tables db' = review_tables db"
  by (auto simp: add_review_audit_def insert_audit_def run_simps review_tables_def)

lemma set_proposal_state_frame [review_frame]:
  "set_proposal_state r st now db = Inr db' \<Longrightarrow> review_tables db' = review_tables db"
  by (auto simp: set_proposal_state_def run_simps review_tables_def put_proposal_def
      split: option.splits if_splits)

lemma advance_case_after_decision_frame [review_frame]:
  "advance_case_after_decision r d now db = Inr (u, db') \<Longrightarrow> review_tables db' = review_tables db"
  by (auto simp: advance_case_after_decision_def run_simps Let_def split: if_splits)

lemma publish_approved_response_draft_frame [review_frame]:
  "publish_approved_response_draft sha uid r now db = Inr (u, db') \<Longrightarrow> review_tables db' = review_tables db"
  by (auto simp: publish_approved_response_draft_def run_simps Let_def review_tables_def
      insert_response_draft_def put_response_draft_def split: option.splits)

section \<open>Expiry\<close>

lemma reservation_review:
  assumes "review_inv db" and "x \<in> set (reservations db)"
  obtains r where "row_get rv_id (rr_review_id x) (reviews db) = Some r"
proof -
  have "review_slice_ok (review_slice (rr_review_id x) (review_tables db))"
    using assms(1) by (simp add: review_inv_def)
  moreover have "filter (\<lambda>y. rr_review_id y = rr_review_id x) (reservations db) \<noteq> []"
    using assms(2) by (auto simp: filter_empty_conv)
  ultimately obtain r where "filter (\<lambda>r. rv_id r = rr_review_id x) (reviews db) = [r]"
    by (auto simp: review_slice_ok_def review_slice_def review_tables_def)
  then show thesis using that filter_key_get by metis
qed

lemma reservations_agree_count:
  assumes "reservations_agree r s xs" and "x \<in> set xs" and "rr_status x = RR_ACTIVE"
  shows "rv_status r = RS_RESERVED" and "length (filter (\<lambda>x. rr_status x = RR_ACTIVE) xs) = 1"
proof -
  have "filter (\<lambda>x. rr_status x = RR_ACTIVE) xs \<noteq> []"
    using assms(2,3) by (auto simp: filter_empty_conv)
  then show "rv_status r = RS_RESERVED" and "length (filter (\<lambda>x. rr_status x = RR_ACTIVE) xs) = 1"
    using assms(1) by (auto simp: reservations_agree_def split: if_splits)
qed

text \<open>Closing the active reservation of a review, as expiry and decision do.\<close>

lemma reservations_agree_close:
  assumes "reservations_agree r s xs" and "x \<in> set xs" and "rr_status x = RR_ACTIVE"
    and "x' = x\<lparr>rr_status := st, rr_consumed_at := t\<rparr>" and "st \<noteq> RR_ACTIVE"
    and "rv_status r' \<noteq> RS_RESERVED" and "rv_organization_id r' = rv_organization_id r"
    and "rv_case_id r' = rv_case_id r" and "rv_submitted_by_id r' = rv_submitted_by_id r"
  shows "reservations_agree r' s (row_put rr_id x' xs)"
proof -
  have "filter (\<lambda>x. rr_status x = RR_ACTIVE) (row_put rr_id x' xs) = []"
    by (rule filter_put_last [OF reservations_agree_count(2) [OF assms(1-3)] assms(2)])
       (use assms(3-5) in simp_all)
  moreover have "\<forall>y\<in>set (row_put rr_id x' xs). y = x' \<or> y \<in> set xs" by (auto simp: set_row_put)
  ultimately show ?thesis using assms unfolding reservations_agree_def by fastforce
qed

text \<open>
  The effect of a command that closes the active reservation \<open>x\<close> of a review: on the invariant
  when the new review and its decisions fit, whatever else the command writes.
\<close>

lemma review_inv_close:
  assumes "review_inv db" and "x \<in> set (reservations db)" and "rr_status x = RR_ACTIVE"
    and "row_get rv_id (rr_review_id x) (reviews db) = Some r"
    and x': "x' = x\<lparr>rr_status := st, rr_consumed_at := t\<rparr>" and "st \<noteq> RR_ACTIVE"
    and r': "rv_id r' = rv_id r" "rv_status r' \<noteq> RS_RESERVED"
      "rv_organization_id r' = rv_organization_id r" "rv_case_id r' = rv_case_id r"
      "rv_submitted_by_id r' = rv_submitted_by_id r"
    and db': "review_tables db' = (row_put rv_id r' (reviews db), row_put rr_id x' (reservations db),
      review_decisions db @ ds, review_snapshots db)"
    and keys: "unique_keys rvd_id (review_decisions db @ ds)"
    and ds: "if terminal_review_status (rv_status r')
      then (\<exists>d. ds = [d] \<and> rvd_review_id d = rv_id r \<and>
        (\<forall>s. required_snapshot r db = Inr s \<longrightarrow>
           decision_stands r' s (row_put rr_id x' (filter (\<lambda>y. rr_review_id y = rv_id r) (reservations db))) d))
      else ds = []"
  shows "review_inv db'"
proof -
  let ?i = "rr_review_id x" and ?xs = "filter (\<lambda>y. rr_review_id y = rr_review_id x) (reservations db)"
  have i: "rv_id r = ?i" using row_get_Some [OF assms(4)] by simp
  obtain s where s: "filter (\<lambda>r. rv_id r = ?i) (reviews db) = [r]"
      "filter (\<lambda>s. rs_review_id s = ?i) (review_snapshots db) = [s]"
      "rs_organization_id s = rv_organization_id r" "rs_case_id s = rv_case_id r"
    and agree: "reservations_agree r s ?xs"
    and old: "if terminal_review_status (rv_status r)
         then (\<exists>d. filter (\<lambda>d. rvd_review_id d = ?i) (review_decisions db) = [d]
                 \<and> decision_stands r s ?xs d)
         else filter (\<lambda>d. rvd_review_id d = ?i) (review_decisions db) = []"
    using review_inv_slice [OF assms(1,4)] .
  have in_xs: "x \<in> set ?xs" using assms(2) by simp
  have "rv_status r = RS_RESERVED" using reservations_agree_count [OF agree in_xs assms(3)] by simp
  then have no_decision: "filter (\<lambda>d. rvd_review_id d = ?i) (review_decisions db) = []"
    using old by (simp add: terminal_review_status_def)
  have "s \<in> set (filter (\<lambda>s. rs_review_id s = ?i) (review_snapshots db))" using s(2) by simp
  then have snap: "required_snapshot r db = Inr s"
    unfolding required_snapshot_def someE_Inr_iff
    by (intro find_filter_single [OF s(2)]) (use s(3,4) i in auto)
  have unique: "unique_keys rr_id (reservations db)" using assms(1) by (simp add: review_inv_def)
  have rv': "filter (\<lambda>r. rv_id r = rv_id r') (reviews db) = [r]" using s(1) i r'(1) by simp
  note put = filter_put_key [OF rv'] filter_put_reservation [OF unique assms(2), of x']
  show ?thesis
  proof (rule review_inv_one [OF assms(1)])
    show "unique_keys rr_id (reservations db')" using db' unique by (simp add: review_tables_def)
    show "unique_keys rvd_id (review_decisions db')" using db' keys by (simp add: review_tables_def)
    show "unique_keys rs_id (review_snapshots db')"
      using db' assms(1) by (simp add: review_tables_def review_inv_def)
  next
    fix j assume "j \<noteq> ?i"
    then show "review_slice j (review_tables db') = review_slice j (review_tables db)"
      using put x' i r'(1) ds unfolding db' by (auto simp: review_slice_def review_tables_def split: if_splits)
  next
    have "review_slice ?i (review_tables db') = ([r'], row_put rr_id x' ?xs, ds, [s])"
      using put x' i r'(1) ds no_decision s(2) unfolding db'
      by (auto simp: review_slice_def review_tables_def split: if_splits)
    moreover have "reservations_agree r' s (row_put rr_id x' ?xs)"
      using reservations_agree_close [OF agree in_xs assms(3) x' assms(6)] r' by blast
    ultimately show "review_slice_ok (review_slice ?i (review_tables db'))"
      using s(3,4) r' ds snap i by (auto simp: review_slice_ok_def split: if_splits)
  qed
qed

end
