(* ===== verification/Review_System.thy ===== *)
theory Review_System
  imports Review_Invariant
begin

text \<open>
  The review repository as a transition system: every committed transaction is a step,
  interleaved with transactions that leave the review tables alone. Each command keeps the
  invariant of the review tables and lets them evolve only as \<open>review_evolves\<close> says; the
  properties of the component follow.
\<close>

section \<open>Every command keeps the invariant\<close>

lemma expire_reservation_step:
  assumes step: "expire_reservation now ids x db = Inr db'" and inv: "review_inv db"
    and x: "x \<in> set (reservations db)" "rr_status x = RR_ACTIVE"
  shows "review_inv db' \<and> review_evolves db db'
    \<and> reservations db' = row_put rr_id (x\<lparr>rr_status := RR_EXPIRED\<rparr>) (reservations db)"
proof -
  obtain r where r: "row_get rv_id (rr_review_id x) (reviews db) = Some r"
    using reservation_review [OF inv x(1)] .
  have id: "rv_id r = rr_review_id x" using row_get_Some [OF r] by simp
  obtain s where "reservations_agree r s (filter (\<lambda>y. rr_review_id y = rr_review_id x) (reservations db))"
    using review_inv_slice [OF inv r] .
  then have status: "rv_status r = RS_RESERVED"
    using reservations_agree_count(1) x by fastforce
  have x': "x\<lparr>rr_status := RR_EXPIRED\<rparr> = x\<lparr>rr_status := RR_EXPIRED, rr_consumed_at := rr_consumed_at x\<rparr>"
    by simp
  have tables: "review_tables db' = (row_put rv_id (reopened_review now r) (reviews db),
      row_put rr_id (x\<lparr>rr_status := RR_EXPIRED\<rparr>) (reservations db), review_decisions db @ [],
      review_snapshots db)"
    using step r status
    by (auto simp: expire_reservation_def Let_def put_reservation_def run_simps review_tables_def
        put_review_def dest!: add_review_audit_frame set_proposal_state_frame)
  have "review_inv db'"
    by (rule review_inv_close [OF inv x r x' _ _ _ _ _ _ tables])
       (use inv in \<open>simp_all add: reopened_review_def terminal_review_status_def review_inv_def\<close>)
  moreover have "review_evolves db db'"
    by (rule review_evolves_put [of "reopened_review now r" db r])
       (use r tables status id in \<open>simp_all add: reopened_review_def review_successor_def review_tables_def
         terminal_review_status_def\<close>)
  ultimately show ?thesis using tables by (simp add: review_tables_def)
qed

lemma expire_all_step:
  assumes "foldE (expire_reservation now ids) xs db = Inr db'" and "review_inv db"
    and "distinct (map rr_id xs)" and "\<forall>x\<in>set xs. x \<in> set (reservations db) \<and> rr_status x = RR_ACTIVE"
  shows "review_inv db' \<and> review_evolves db db'"
  using assms
proof (induction xs arbitrary: db)
  case Nil
  then show ?case by (simp add: review_evolves_same)
next
  case (Cons x xs)
  then obtain db1 where db1: "expire_reservation now ids x db = Inr db1"
    and rest: "foldE (expire_reservation now ids) xs db1 = Inr db'"
    by (auto simp: run_simps)
  have one: "review_inv db1 \<and> review_evolves db db1
      \<and> reservations db1 = row_put rr_id (x\<lparr>rr_status := RR_EXPIRED\<rparr>) (reservations db)"
    by (rule expire_reservation_step [OF db1 Cons.prems(2)]) (use Cons.prems(4) in simp_all)
  have "\<forall>y\<in>set xs. y \<in> set (reservations db1) \<and> rr_status y = RR_ACTIVE"
    using Cons.prems(3,4) one by (auto simp: set_row_put image_iff)
  then have "review_inv db' \<and> review_evolves db1 db'"
    using Cons.IH [OF rest] one Cons.prems(3) by simp
  then show ?case using one review_evolves_trans by blast
qed

lemma reconcile_expired_step:
  assumes "reconcile_expired now ids scope db = Inr db'" and "review_inv db"
  shows "review_inv db' \<and> review_evolves db db'"
proof (rule expire_all_step)
  show "foldE (expire_reservation now ids) (expired_reservations scope now db) db = Inr db'"
    using assms(1) by (simp add: reconcile_expired_def)
  show "distinct (map rr_id (expired_reservations scope now db))"
    using assms(2) by (simp add: expired_reservations_def review_inv_def unique_keys_def distinct_map_filter)
qed (use assms(2) in \<open>auto simp: expired_reservations_def\<close>)

lemma new_review_sel [simp]:
  "rv_id (new_review sha now uid org_pid c p v m cmd) = uid"
  "rv_status (new_review sha now uid org_pid c p v m cmd) = RS_PENDING"
  "rv_organization_id (new_review sha now uid org_pid c p v m cmd) = cs_organization_id c"
  "rv_case_id (new_review sha now uid org_pid c p v m cmd) = cs_id c"
  "rv_submitted_by_id (new_review sha now uid org_pid c p v m cmd) = mem_id m"
  by (simp_all add: new_review_def)

lemma new_snapshot_sel [simp]:
  "rs_review_id (new_snapshot sha now uid c p v r cmd) = rv_id r"
  "rs_organization_id (new_snapshot sha now uid c p v r cmd) = cs_organization_id c"
  "rs_case_id (new_snapshot sha now uid c p v r cmd) = cs_id c"
  by (simp_all add: new_snapshot_def)

lemma submit_new_effect:
  assumes "submit_new sha now ids org_pid actor cmd corr c p v db = Inr (b, db')"
  obtains m r s where "review_member (cs_organization_id c) actor db = Inr m"
    and "r = new_review sha now (si_review ids) org_pid c p v m cmd"
    and "s = new_snapshot sha now (si_snapshot ids) c p v r cmd"
    and "row_get rv_id (rv_id r) (reviews db) = None"
    and "row_get rs_id (rs_id s) (review_snapshots db) = None"
    and "review_tables db' = (reviews db @ [r], reservations db, review_decisions db,
      review_snapshots db @ [s])"
  using assms
  by (auto simp: submit_new_def run_simps Let_def insert_review_def insert_review_snapshot_def
      review_tables_def put_case_def dest!: add_review_audit_frame)

lemma submit_new_step:
  assumes "submit_new sha now ids org_pid actor cmd corr c p v db = Inr (b, db')" and inv: "review_inv db"
  shows "review_inv db' \<and> review_evolves db db'"
proof -
  obtain m r s where r: "r = new_review sha now (si_review ids) org_pid c p v m cmd"
    and s: "s = new_snapshot sha now (si_snapshot ids) c p v r cmd"
    and fresh: "row_get rv_id (rv_id r) (reviews db) = None"
      "row_get rs_id (rs_id s) (review_snapshots db) = None"
    and tables: "review_tables db' = (reviews db @ [r], reservations db, review_decisions db,
      review_snapshots db @ [s])"
    using submit_new_effect [OF assms(1)] .
  have rs: "rv_status r = RS_PENDING" "rs_review_id s = rv_id r"
      "rs_organization_id s = rv_organization_id r" "rs_case_id s = rv_case_id r"
    using r s by simp_all
  let ?i = "rv_id r"
  have none: "filter (\<lambda>q. rv_id q = ?i) (reviews db) = []"
    using fresh by (auto simp: row_get_None filter_empty_conv image_iff)
  have "review_slice_ok (review_slice ?i (review_tables db))" using inv by (simp add: review_inv_def)
  then have empty: "review_slice ?i (review_tables db) = ([], [], [], [])"
    using none by (auto simp: review_slice_ok_def review_slice_def review_tables_def)
  have "review_inv db'"
  proof (rule review_inv_one [OF inv, where i = ?i])
    show "unique_keys rr_id (reservations db')" and "unique_keys rvd_id (review_decisions db')"
      and "unique_keys rs_id (review_snapshots db')"
      using inv tables fresh(2) by (simp_all add: review_inv_def review_tables_def unique_keys_append)
    show "review_slice j (review_tables db') = review_slice j (review_tables db)" if "j \<noteq> ?i" for j
      using that rs(2) unfolding tables by (simp add: review_slice_def review_tables_def)
    have "review_slice ?i (review_tables db') = ([r], [], [], [s])"
      using empty rs(2) unfolding tables by (simp add: review_slice_def review_tables_def)
    then show "review_slice_ok (review_slice ?i (review_tables db'))"
      using rs by (simp add: review_slice_ok_def reservations_agree_def terminal_review_status_def)
  qed
  moreover have "review_evolves db db'"
    using tables by (auto simp: review_evolves_def review_tables_def row_get_append)
  ultimately show ?thesis by blast
qed

lemma review_submit_step:
  assumes "review_submit sha now ids org_pid case_pid actor cmd corr db = Inr (b, db')"
    and "review_inv db"
  shows "review_inv db' \<and> review_evolves db db'"
  using assms submit_new_step [OF _ assms(2)]
  by (auto simp: review_submit_def run_simps review_evolves_same split: option.splits)

lemma scoped_review_get:
  assumes "review_inv db" and "scoped_review org_pid review_pid db = Some r"
  shows "row_get rv_id (rv_id r) (reviews db) = Some r"
proof -
  have "r \<in> set (reviews db)" using assms(2) by (auto simp: scoped_review_def find_Some_iff)
  then have member: "r \<in> set (filter (\<lambda>q. rv_id q = rv_id r) (reviews db))" by simp
  obtain q where q: "row_get rv_id (rv_id r) (reviews db) = Some q"
    using \<open>r \<in> set (reviews db)\<close> by (cases "row_get rv_id (rv_id r) (reviews db)") (auto simp: row_get_None)
  then have "filter (\<lambda>q. rv_id q = rv_id r) (reviews db) = [q]"
    using review_inv_slice [OF assms(1) q] by blast
  then show ?thesis using member q by simp
qed

lemma refresh_review_get:
  assumes "review_evolves db db1" and "row_get rv_id (rv_id r0) (reviews db) = Some r0"
  shows "row_get rv_id (rv_id r0) (reviews db1) = Some (refresh_review r0 db1)
    \<and> review_successor r0 (refresh_review r0 db1)"
proof -
  obtain r where "row_get rv_id (rv_id r0) (reviews db1) = Some r" "review_successor r0 r"
    using assms unfolding review_evolves_def by blast
  then show ?thesis by (simp add: refresh_review_def)
qed

text \<open>What a successful reservation did: it found the caller holding the review, or it took it.\<close>

definition reserve_took ::
    "(string \<Rightarrow> string) \<Rightarrow> timestamp \<Rightarrow> uuid \<Rightarrow> string \<Rightarrow> case_review \<Rightarrow> membership \<Rightarrow> int \<Rightarrow> database
     \<Rightarrow> database \<Rightarrow> bool" where
  "reserve_took sha now uid nonce r m expected db1 db' \<longleftrightarrow>
     (\<exists>s. required_snapshot r db1 = Inr s \<and> rv_version r = expected
        \<and> \<not> terminal_review_status (rv_status r) \<and> rv_submitted_by_id r \<noteq> mem_id m
        \<and> unique_keys rr_id (reservations db1 @ [new_reservation sha now uid nonce r s m])
          = unique_keys rr_id (reservations db1)
        \<and> (\<forall>x\<in>set (reservations db1). \<not> (rr_organization_id x = rv_organization_id r
             \<and> rr_review_id x = rv_id r \<and> rr_status x = RR_ACTIVE))
        \<and> review_tables db' = (row_put rv_id (reserved_review now r) (reviews db1),
             reservations db1 @ [new_reservation sha now uid nonce r s m], review_decisions db1,
             review_snapshots db1))"

lemma review_reserve_effect:
  assumes "review_reserve sha now uid nonce au ids org_pid review_pid actor expected corr db
    = Inr (b, db')"
  obtains r0 db1 m where "scoped_review org_pid review_pid db = Some r0"
    and "reconcile_expired now ids (reservation_of_review r0) db = Inr db1"
    and "review_member (rv_organization_id (refresh_review r0 db1)) actor db1 = Inr m"
    and "(db' = db1 \<and> (\<exists>x. active_reservation (refresh_review r0 db1) now db1 = Some x
            \<and> rr_reviewer_id x = Some (mem_id m)))
         \<or> reserve_took sha now uid nonce (refresh_review r0 db1) m expected db1 db'"
proof -
  obtain r0 db1 m where r0: "scoped_review org_pid review_pid db = Some r0"
    and db1: "reconcile_expired now ids (reservation_of_review r0) db = Inr db1"
    and m: "review_member (rv_organization_id (refresh_review r0 db1)) actor db1 = Inr m"
    using assms by (auto simp: review_reserve_def required_review_def run_simps Let_def)
  let ?r = "refresh_review r0 db1"
  show thesis
  proof (cases "case active_reservation ?r now db1 of None \<Rightarrow> False | Some x \<Rightarrow> rr_reviewer_id x = Some (mem_id m)")
    case True
    then have "db' = db1" using assms r0 db1 m
      by (auto simp: review_reserve_def required_review_def run_simps Let_def split: if_splits)
    then show thesis using that [OF r0 db1 m] True by (auto split: option.splits)
  next
    case False
    then have "reserve_took sha now uid nonce ?r m expected db1 db'" using assms r0 db1 m
      unfolding reserve_took_def
      by (auto simp: review_reserve_def required_review_def run_simps Let_def insert_reservation_def
          unique_keys_append review_reservation_clash_def new_reservation_def put_review_def
          review_tables_def split: if_splits dest!: add_review_audit_frame set_proposal_state_frame)
    then show thesis using that [OF r0 db1 m] by blast
  qed
qed

lemma new_reservation_sel [simp]:
  "rr_review_id (new_reservation sha now uid nonce r s m) = rv_id r"
  "rr_organization_id (new_reservation sha now uid nonce r s m) = rv_organization_id r"
  "rr_case_id (new_reservation sha now uid nonce r s m) = rv_case_id r"
  "rr_status (new_reservation sha now uid nonce r s m) = RR_ACTIVE"
  "rr_reviewer_id (new_reservation sha now uid nonce r s m) = Some (mem_id m)"
  "rr_snapshot_fingerprint (new_reservation sha now uid nonce r s m) = rs_snapshot_fingerprint s"
  by (simp_all add: new_reservation_def)

lemma reserved_review_sel [simp]:
  "rv_id (reserved_review now r) = rv_id r" "rv_status (reserved_review now r) = RS_RESERVED"
  "rv_organization_id (reserved_review now r) = rv_organization_id r"
  "rv_case_id (reserved_review now r) = rv_case_id r"
  "rv_submitted_by_id (reserved_review now r) = rv_submitted_by_id r"
  by (simp_all add: reserved_review_def)

lemma reserve_took_step:
  assumes took: "reserve_took sha now uid nonce r m expected db db'" and inv: "review_inv db"
    and r: "row_get rv_id (rv_id r) (reviews db) = Some r"
  shows "review_inv db' \<and> review_evolves db db'"
proof -
  obtain s where snap: "required_snapshot r db = Inr s" and open_: "\<not> terminal_review_status (rv_status r)"
    and four: "rv_submitted_by_id r \<noteq> mem_id m"
    and uniq: "unique_keys rr_id (reservations db @ [new_reservation sha now uid nonce r s m])
          = unique_keys rr_id (reservations db)"
    and idle: "\<forall>x\<in>set (reservations db). \<not> (rr_organization_id x = rv_organization_id r
             \<and> rr_review_id x = rv_id r \<and> rr_status x = RR_ACTIVE)"
    and tables: "review_tables db' = (row_put rv_id (reserved_review now r) (reviews db),
             reservations db @ [new_reservation sha now uid nonce r s m], review_decisions db,
             review_snapshots db)"
    using took unfolding reserve_took_def by blast
  let ?xs = "filter (\<lambda>y. rr_review_id y = rv_id r) (reservations db)"
  obtain s' where s': "filter (\<lambda>q. rv_id q = rv_id r) (reviews db) = [r]"
      "filter (\<lambda>s. rs_review_id s = rv_id r) (review_snapshots db) = [s']"
      "rs_organization_id s' = rv_organization_id r" "rs_case_id s' = rv_case_id r"
    and agree: "reservations_agree r s' ?xs"
    and old: "if terminal_review_status (rv_status r)
         then (\<exists>d. filter (\<lambda>d. rvd_review_id d = rv_id r) (review_decisions db) = [d]
                 \<and> decision_stands r s' ?xs d)
         else filter (\<lambda>d. rvd_review_id d = rv_id r) (review_decisions db) = []"
    using review_inv_slice [OF inv r] .
  have "s = s'" using required_snapshot_filter [OF snap s'(2)] .
  have none: "filter (\<lambda>x. rr_status x = RR_ACTIVE) ?xs = []"
    using idle agree by (auto simp: filter_empty_conv reservations_agree_def)
  then have agree': "reservations_agree (reserved_review now r) s (?xs @ [new_reservation sha now uid nonce r s m])"
    using agree four \<open>s = s'\<close> by (auto simp: reservations_agree_def)
  have put: "filter (\<lambda>q. rv_id q = j) (row_put rv_id (reserved_review now r) (reviews db))
      = (if j = rv_id r then [reserved_review now r] else filter (\<lambda>q. rv_id q = j) (reviews db))" for j
    using filter_put_key [of rv_id "reserved_review now r" "reviews db" r j] s'(1) by simp
  have "review_inv db'"
  proof (rule review_inv_one [OF inv, where i = "rv_id r"])
    show "unique_keys rr_id (reservations db')" and "unique_keys rvd_id (review_decisions db')"
      and "unique_keys rs_id (review_snapshots db')"
      using tables uniq inv by (simp_all add: review_tables_def review_inv_def)
    show "review_slice j (review_tables db') = review_slice j (review_tables db)" if "j \<noteq> rv_id r" for j
      using that put unfolding tables by (simp add: review_slice_def review_tables_def)
    have "review_slice (rv_id r) (review_tables db')
        = ([reserved_review now r], ?xs @ [new_reservation sha now uid nonce r s m], [], [s])"
      using put s'(2) \<open>s = s'\<close> old open_ unfolding tables by (simp add: review_slice_def)
    then show "review_slice_ok (review_slice (rv_id r) (review_tables db'))"
      using agree' s'(3,4) \<open>s = s'\<close> by (simp add: review_slice_ok_def terminal_review_status_def)
  qed
  moreover have "review_evolves db db'"
    by (rule review_evolves_put [of "reserved_review now r" db r])
       (use r tables open_ in \<open>simp_all add: review_successor_def review_tables_def reserved_review_def\<close>)
  ultimately show ?thesis by blast
qed

lemma review_reserve_step:
  assumes "review_reserve sha now uid nonce au ids org_pid review_pid actor expected corr db
    = Inr (b, db')" and inv: "review_inv db"
  shows "review_inv db' \<and> review_evolves db db'"
proof -
  obtain r0 db1 m where r0: "scoped_review org_pid review_pid db = Some r0"
    and db1: "reconcile_expired now ids (reservation_of_review r0) db = Inr db1"
    and eff: "(db' = db1 \<and> (\<exists>x. active_reservation (refresh_review r0 db1) now db1 = Some x
            \<and> rr_reviewer_id x = Some (mem_id m)))
         \<or> reserve_took sha now uid nonce (refresh_review r0 db1) m expected db1 db'"
    using review_reserve_effect [OF assms(1)] .
  note one = reconcile_expired_step [OF db1 inv]
  have r: "row_get rv_id (rv_id r0) (reviews db1) = Some (refresh_review r0 db1)"
    using refresh_review_get [OF _ scoped_review_get [OF inv r0]] one by blast
  then have "rv_id (refresh_review r0 db1) = rv_id r0" using row_get_Some by metis
  then show ?thesis
    using eff one r reserve_took_step [of sha now uid nonce "refresh_review r0 db1" m expected db1 db']
      review_evolves_trans by auto
qed

lemma option_case_Inr:
  "(case a of None \<Rightarrow> Inl e | Some y \<Rightarrow> f y) = Inr z \<longleftrightarrow> (\<exists>y. a = Some y \<and> f y = Inr z)"
  by (cases a) simp_all

lemma freshness_current:
  assumes "freshness_of sha r now db = Inr f" and "fr_status f = RF_CURRENT"
    and "required_snapshot r db = Inr s"
  shows "staleness sha r s now db = None"
  using assms by (auto simp: freshness_of_def stale_def split: option.splits)

lemma review_status_of_final [simp]:
  "terminal_review_status (review_status_of d)" "review_status_of d \<noteq> RS_RESERVED"
  by (cases d; simp add: terminal_review_status_def)+

lemma decide_guard_facts:
  assumes "decide_guard sha now org_pid review_pid actor expected fp db = Inr (r, s, x, m)"
  shows "scoped_review org_pid review_pid db = Some r" "rv_version r = expected"
    "\<not> terminal_review_status (rv_status r)" "required_snapshot r db = Inr s"
    "rs_snapshot_fingerprint s = fp"
    "find (\<lambda>x. rr_organization_id x = rv_organization_id r \<and> rr_case_id x = rv_case_id r
       \<and> rr_review_id x = rv_id r \<and> rr_status x = RR_ACTIVE) (reservations db) = Some x"
    "now < rr_expires_at x" "rr_reviewer_id x = Some (mem_id m)"
    "review_member (rv_organization_id r) actor db = Inr m"
    "role_satisfies (Some (mem_role m)) (rs_required_role s)"
    "\<exists>f. freshness_of sha r now db = Inr f \<and> fr_status f = RF_CURRENT"
    "\<exists>c. find (\<lambda>c. cs_id c = rv_case_id r \<and> cs_organization_id c = rv_organization_id r) (cases db)
       = Some c \<and> cs_version c = rs_case_version s"
    "\<exists>p. find (\<lambda>p. prop_id p = rv_proposal_id r \<and> prop_organization_id p = rv_organization_id r)
       (proposals db) = Some p \<and> prop_current_version p = rs_proposal_version s"
    "require_approval_rule_version (rv_organization_id r) (rs_approval_rule_version s) db = Inr ()"
    "rr_snapshot_fingerprint x = fp"
  using assms
  by (auto simp: decide_guard_def required_review_def run_simps option_case_Inr)

lemma decide_guard_reservation:
  assumes "decide_guard sha now org_pid review_pid actor expected fp db = Inr (r, s, x, m)"
  shows "x \<in> set (reservations db)" "rr_review_id x = rv_id r" "rr_status x = RR_ACTIVE"
    "staleness sha r s now db = None"
  using find_SomeD [OF decide_guard_facts(6) [OF assms]] decide_guard_facts(4,11) [OF assms]
    freshness_current by auto

lemma review_decide_effect:
  assumes "review_decide sha now ids org_pid review_pid actor expected fp decision reason corr db
    = Inr (b, db')"
  obtains r s x m where "decide_guard sha now org_pid review_pid actor expected fp db = Inr (r, s, x, m)"
    and "review_tables db' = (row_put rv_id (decided_review now decision r) (reviews db),
      row_put rr_id (consumed_reservation now x) (reservations db),
      review_decisions db @ [new_decision sha now (di_decision ids) r x m decision reason fp],
      review_snapshots db)"
    and "row_get rvd_id (di_decision ids) (review_decisions db) = None"
proof -
  obtain r s x m where g: "decide_guard sha now org_pid review_pid actor expected fp db = Inr (r, s, x, m)"
    using assms by (auto simp: review_decide_def run_simps)
  let ?d = "new_decision sha now (di_decision ids) r x m decision reason fp"
  let ?r = "decided_review now decision r"
  obtain db1 where d: "insert_review_decision ?d db = Inr db1"
    and t: "review_tables db' = review_tables (put_review ?r (put_reservation (consumed_reservation now x) db1))"
    using assms g
    by (fastforce simp: review_decide_def run_simps Let_def split: if_splits
        dest!: add_review_audit_frame set_proposal_state_frame advance_case_after_decision_frame
          publish_approved_response_draft_frame)
  then show thesis using that [OF g]
    by (auto simp: review_tables_def put_review_def put_reservation_def insert_review_decision_def run_simps
        new_decision_def)
qed

lemma review_decide_step:
  assumes "review_decide sha now ids org_pid review_pid actor expected fp decision reason corr db
    = Inr (b, db')" and inv: "review_inv db"
  shows "review_inv db' \<and> review_evolves db db'"
proof -
  obtain r s x m where g: "decide_guard sha now org_pid review_pid actor expected fp db = Inr (r, s, x, m)"
    and tables: "review_tables db' = (row_put rv_id (decided_review now decision r) (reviews db),
      row_put rr_id (consumed_reservation now x) (reservations db),
      review_decisions db @ [new_decision sha now (di_decision ids) r x m decision reason fp],
      review_snapshots db)"
    and fresh: "row_get rvd_id (di_decision ids) (review_decisions db) = None"
    using review_decide_effect [OF assms(1)] .
  note f = decide_guard_facts [OF g] and x = decide_guard_reservation [OF g]
  let ?r = "decided_review now decision r" and ?x = "consumed_reservation now x"
  let ?d = "new_decision sha now (di_decision ids) r x m decision reason fp"
  let ?xs = "filter (\<lambda>y. rr_review_id y = rv_id r) (reservations db)"
  have r: "row_get rv_id (rv_id r) (reviews db) = Some r" using scoped_review_get [OF inv f(1)] .
  obtain s' where "reservations_agree r s' ?xs" using review_inv_slice [OF inv r] .
  then have four: "rr_reviewer_id x \<noteq> Some (rv_submitted_by_id r)"
    using x by (auto simp: reservations_agree_def)
  have terminal: "terminal_review_status (rv_status ?r)" "rv_status ?r \<noteq> RS_RESERVED"
    by (simp_all add: decided_review_def)
  have "x \<in> set ?xs" using x by simp
  then have stands: "decision_stands ?r s (row_put rr_id ?x ?xs) ?d"
    using f x four
    by (auto simp: decision_stands_def new_decision_def decided_review_def consumed_reservation_def
        set_row_put image_iff)
  have "review_inv db'"
  proof (rule review_inv_close [OF inv x(1,3) _ _ _ _ _ _ _ _ tables])
    show "row_get rv_id (rr_review_id x) (reviews db) = Some r" using r x(2) by simp
    show "?x = x\<lparr>rr_status := RR_CONSUMED, rr_consumed_at := Some now\<rparr>"
      by (simp add: consumed_reservation_def)
    show "if terminal_review_status (rv_status ?r)
      then (\<exists>d. [?d] = [d] \<and> rvd_review_id d = rv_id r \<and>
        (\<forall>s. required_snapshot r db = Inr s \<longrightarrow> decision_stands ?r s (row_put rr_id ?x ?xs) d))
      else [?d] = []"
      using terminal stands f(4) by (simp add: new_decision_def)
    show "unique_keys rvd_id (review_decisions db @ [?d])"
      using inv fresh by (simp add: review_inv_def unique_keys_append new_decision_def)
  qed (simp_all add: terminal decided_review_def)
  moreover have "review_evolves db db'"
    by (rule review_evolves_put [of ?r db r])
       (use r tables f(3) in \<open>auto simp: review_successor_def review_tables_def decided_review_def\<close>)
  ultimately show ?thesis by blast
qed

lemma review_get_step:
  assumes "review_get now ids org_pid review_pid db = Inr (b, db')" and "review_inv db"
  shows "review_inv db' \<and> review_evolves db db'"
  using assms reconcile_expired_step [OF _ assms(2)]
  by (auto simp: review_get_def run_simps review_evolves_same split: option.splits)

lemma review_get_for_proposal_step:
  assumes "review_get_for_proposal now now2 ids org_pid case_pid v db = Inr (b, db')" and "review_inv db"
  shows "review_inv db' \<and> review_evolves db db'"
  using assms reconcile_expired_step [OF _ assms(2)]
  by (auto simp: review_get_for_proposal_def run_simps review_evolves_same split: option.splits)

section \<open>The transition system\<close>

inductive review_step :: "(string \<Rightarrow> string) \<Rightarrow> database \<Rightarrow> database \<Rightarrow> bool" for sha where
  submit: "review_submit sha now ids org_pid case_pid actor cmd corr db = Inr (b, db')
    \<Longrightarrow> review_step sha db db'"
| reserve: "review_reserve sha now uid nonce au xids org_pid review_pid actor expected corr db
    = Inr (b, db') \<Longrightarrow> review_step sha db db'"
| decide: "review_decide sha now dids org_pid review_pid actor expected fp decision reason corr db
    = Inr (b, db') \<Longrightarrow> review_step sha db db'"
| read: "review_get now xids org_pid review_pid db = Inr (found, db') \<Longrightarrow> review_step sha db db'"
| read_proposal: "review_get_for_proposal now now2 xids org_pid case_pid version db = Inr (found, db')
    \<Longrightarrow> review_step sha db db'"
| sweep: "reconcile_expired now xids (reservation_of_organization org) db = Inr db'
    \<Longrightarrow> review_step sha db db'"
| other: "review_tables db' = review_tables db \<Longrightarrow> review_step sha db db'"

inductive_cases review_stepE: "review_step sha db db'"

lemma review_step_keeps:
  assumes "review_step sha db db'" and "review_inv db"
  shows "review_inv db' \<and> review_evolves db db'"
  using assms
proof (induction rule: review_step.induct)
  case submit
  then show ?case by (rule review_submit_step)
next
  case reserve
  then show ?case by (rule review_reserve_step)
next
  case decide
  then show ?case by (rule review_decide_step)
next
  case read
  then show ?case by (rule review_get_step)
next
  case read_proposal
  then show ?case by (rule review_get_for_proposal_step)
next
  case sweep
  then show ?case by (rule reconcile_expired_step)
next
  case other
  then show ?case using review_inv_same review_evolves_same by blast
qed

interpretation rev_sys: step_invariant "review_step sha" review_inv for sha
  by unfold_locales (use review_step_keeps in blast)

lemma review_run_evolves:
  assumes "(review_step sha)\<^sup>*\<^sup>* db db'" and "review_inv db"
  shows "review_evolves db db'"
  using assms
proof (induction rule: rtranclp_induct)
  case base
  then show ?case using review_evolves_same by simp
next
  case (step y z)
  then have "review_inv y" using rev_sys.along_run by blast
  then show ?case using step review_step_keeps review_evolves_trans by blast
qed

definition no_reviews :: "database \<Rightarrow> bool" where
  "no_reviews db \<longleftrightarrow> reviews db = [] \<and> reservations db = [] \<and> review_decisions db = []
     \<and> review_snapshots db = []"

lemma no_reviews_inv: "no_reviews db \<Longrightarrow> review_inv db"
  by (simp add: no_reviews_def review_inv_def unique_keys_def review_slice_ok_def review_slice_def
      review_tables_def)

lemma reachable_reviews: "no_reviews db0 \<Longrightarrow> (review_step sha)\<^sup>*\<^sup>* db0 db \<Longrightarrow> review_inv db"
  using rev_sys.along_run no_reviews_inv by blast

end
