(* ===== verification/Review_Safety.thy ===== *)
theory Review_Safety
  imports Review_System
begin

text \<open>
  The properties of the review component: who can decide, what stands behind a decision, that
  it is final, that reservations are exclusive and expire, what an approval publishes, and when
  a resolution is routed to an administrator.
\<close>

lemma row_put_member: "x \<in> set rows \<Longrightarrow> key r = key x \<Longrightarrow> r \<in> set (row_put key r rows)"
  by (auto simp: set_row_put image_iff)

section \<open>Sweeps\<close>

lemma expire_all_closes:
  assumes "foldE (expire_reservation now ids) xs db = Inr db'" and "review_inv db"
    and "distinct (map rr_id xs)" and "\<forall>x\<in>set xs. x \<in> set (reservations db) \<and> rr_status x = RR_ACTIVE"
    and "y \<in> set (reservations db')" and "rr_status y = RR_ACTIVE"
  shows "y \<in> set (reservations db) \<and> y \<notin> set xs"
  using assms
proof (induction xs arbitrary: db)
  case Nil
  then show ?case by simp
next
  case (Cons x xs)
  then obtain db1 where db1: "expire_reservation now ids x db = Inr db1"
    and rest: "foldE (expire_reservation now ids) xs db1 = Inr db'"
    by (auto simp: run_simps)
  have one: "review_inv db1 \<and> review_evolves db db1
      \<and> reservations db1 = row_put rr_id (x\<lparr>rr_status := RR_EXPIRED\<rparr>) (reservations db)"
    by (rule expire_reservation_step [OF db1 Cons.prems(2)]) (use Cons.prems(4) in simp_all)
  have "\<forall>y\<in>set xs. y \<in> set (reservations db1) \<and> rr_status y = RR_ACTIVE"
    using Cons.prems(3,4) one by (auto simp: set_row_put image_iff)
  then have "y \<in> set (reservations db1) \<and> y \<notin> set xs"
    using Cons.IH [OF rest] one Cons.prems(3,5,6) by simp
  moreover have "y \<noteq> x\<lparr>rr_status := RR_EXPIRED\<rparr>" using Cons.prems(6) by auto
  ultimately show ?case using one by (auto simp: set_row_put split: if_splits)
qed

lemma reconcile_expired_closes:
  assumes "reconcile_expired now ids scope db = Inr db'" and "review_inv db"
    and "y \<in> set (reservations db')" and "rr_status y = RR_ACTIVE" and "scope y"
  shows "now < rr_expires_at y"
proof -
  have "y \<in> set (reservations db) \<and> y \<notin> set (expired_reservations scope now db)"
  proof (rule expire_all_closes)
    show "foldE (expire_reservation now ids) (expired_reservations scope now db) db = Inr db'"
      using assms(1) by (simp add: reconcile_expired_def)
    show "distinct (map rr_id (expired_reservations scope now db))"
      using assms(2) by (simp add: expired_reservations_def review_inv_def unique_keys_def distinct_map_filter)
  qed (use assms(2-4) in \<open>auto simp: expired_reservations_def\<close>)
  then show ?thesis using assms(4,5) by (auto simp: expired_reservations_def)
qed

lemma active_reservation_iff:
  assumes "review_inv db" and r: "row_get rv_id (rv_id r) (reviews db) = Some r"
    and "\<And>y. y \<in> set (reservations db) \<Longrightarrow> rr_status y = RR_ACTIVE \<Longrightarrow> reservation_of_review r y
      \<Longrightarrow> now < rr_expires_at y"
  shows "rv_status r = RS_RESERVED \<longleftrightarrow> active_reservation r now db \<noteq> None"
proof -
  let ?xs = "filter (\<lambda>y. rr_review_id y = rv_id r) (reservations db)"
  obtain s where agree: "reservations_agree r s ?xs" using review_inv_slice [OF assms(1) r] .
  have "rv_status r = RS_RESERVED \<longleftrightarrow> filter (\<lambda>x. rr_status x = RR_ACTIVE) ?xs \<noteq> []"
    using agree by (auto simp: reservations_agree_def split: if_splits)
  also have "\<dots> \<longleftrightarrow> (\<exists>y\<in>set ?xs. rr_status y = RR_ACTIVE)" by (auto simp: filter_empty_conv)
  also have "\<dots> \<longleftrightarrow> active_reservation r now db \<noteq> None"
    using agree assms(3) unfolding active_reservation_def reservations_agree_def reservation_of_review_def
    by (auto simp: find_None_iff)
  finally show ?thesis .
qed

lemma active_unique:
  assumes "review_inv db" and r: "row_get rv_id (rv_id r) (reviews db) = Some r"
    and "x \<in> set (reservations db)" "rr_review_id x = rv_id r" "rr_status x = RR_ACTIVE"
    and "y \<in> set (reservations db)" "rr_review_id y = rv_id r" "rr_status y = RR_ACTIVE"
  shows "x = y"
proof -
  let ?xs = "filter (\<lambda>y. rr_review_id y = rv_id r) (reservations db)"
  obtain s where agree: "reservations_agree r s ?xs" using review_inv_slice [OF assms(1) r] .
  have "x \<in> set ?xs" using assms by simp
  then have "length (filter (\<lambda>x. rr_status x = RR_ACTIVE) ?xs) = 1"
    using reservations_agree_count(2) [OF agree _ assms(5)] by blast
  then obtain z where z: "filter (\<lambda>x. rr_status x = RR_ACTIVE) ?xs = [z]"
    by (metis One_nat_def length_0_conv length_Suc_conv)
  have "x \<in> set (filter (\<lambda>x. rr_status x = RR_ACTIVE) ?xs)"
    and "y \<in> set (filter (\<lambda>x. rr_status x = RR_ACTIVE) ?xs)" using assms by simp_all
  then show ?thesis unfolding z by simp
qed

section \<open>Deciding\<close>

lemma review_decide_bundle:
  assumes "review_decide sha now ids org_pid review_pid actor expected fp decision reason corr db
    = Inr (b, db')"
    and "decide_guard sha now org_pid review_pid actor expected fp db = Inr (r, s, x, m)"
  shows "rb_review b = decided_review now decision r"
  using assms
  by (auto simp: review_decide_def run_simps Let_def review_load_bundle_def option_case_Inr)

lemma decide_four_eyes:
  assumes "review_inv db"
    and "decide_guard sha now org_pid review_pid actor expected fp db = Inr (r, s, x, m)"
  shows "mem_id m \<noteq> rv_submitted_by_id r"
proof -
  note f = decide_guard_facts [OF assms(2)] and x = decide_guard_reservation [OF assms(2)]
  obtain s' where "reservations_agree r s' (filter (\<lambda>y. rr_review_id y = rv_id r) (reservations db))"
    using review_inv_slice [OF assms(1) scoped_review_get [OF assms(1) f(1)]] .
  then show ?thesis using x f(8) by (auto simp: reservations_agree_def)
qed

text \<open>C21. A decision is accepted only from an active member other than the person who
  submitted the resolution, whose role satisfies the role the approval rule asks for, who holds
  the active, unexpired reservation of the review; only at the version and for the snapshot the
  reviewer saw, and only while that snapshot still matches the case, the resolution, its
  business context and the policies in force. The decision is recorded under that reviewer and
  gives the review its final status.\<close>

theorem decide_authorized:
  assumes "no_reviews db0" and "(review_step sha)\<^sup>*\<^sup>* db0 db"
    and "review_decide sha now ids org_pid review_pid actor expected fp decision reason corr db
      = Inr (b, db')"
  shows "\<exists>r s x m d. scoped_review org_pid review_pid db = Some r \<and> rv_version r = expected
    \<and> review_member (rv_organization_id r) actor db = Inr m \<and> mem_status m = MS_ACTIVE
    \<and> mem_id m \<noteq> rv_submitted_by_id r
    \<and> required_snapshot r db = Inr s \<and> rs_snapshot_fingerprint s = fp
    \<and> role_satisfies (Some (mem_role m)) (rs_required_role s)
    \<and> x \<in> set (reservations db) \<and> rr_review_id x = rv_id r \<and> rr_status x = RR_ACTIVE
    \<and> rr_reviewer_id x = Some (mem_id m) \<and> now < rr_expires_at x
    \<and> staleness sha r s now db = None
    \<and> review_decisions db' = review_decisions db @ [d] \<and> rvd_review_id d = rv_id r
    \<and> rvd_reviewer_id d = Some (mem_id m) \<and> rvd_decision d = decision
    \<and> row_get rv_id (rv_id r) (reviews db') = Some (rb_review b)
    \<and> rv_status (rb_review b) = review_status_of decision"
proof -
  have inv: "review_inv db" using reachable_reviews [OF assms(1,2)] .
  obtain r s x m where g: "decide_guard sha now org_pid review_pid actor expected fp db = Inr (r, s, x, m)"
    and t: "review_tables db' = (row_put rv_id (decided_review now decision r) (reviews db),
      row_put rr_id (consumed_reservation now x) (reservations db),
      review_decisions db @ [new_decision sha now (di_decision ids) r x m decision reason fp],
      review_snapshots db)"
    using review_decide_effect [OF assms(3)] .
  note f = decide_guard_facts [OF g] and x = decide_guard_reservation [OF g]
  have r: "row_get rv_id (rv_id r) (reviews db) = Some r" using scoped_review_get [OF inv f(1)] .
  have "mem_status m = MS_ACTIVE"
    using f(9) by (auto simp: review_member_def run_simps dest: find_SomeD)
  moreover have "row_get rv_id (rv_id r) (reviews db') = Some (rb_review b)"
    using t r review_decide_bundle [OF assms(3) g]
    by (simp add: review_tables_def row_get_put decided_review_def)
  moreover have "rv_status (rb_review b) = review_status_of decision"
    using review_decide_bundle [OF assms(3) g] by (simp add: decided_review_def)
  ultimately show ?thesis
    using f x decide_four_eyes [OF inv g] t
    by (intro exI [of _ r] exI [of _ s] exI [of _ x] exI [of _ m]
          exI [of _ "new_decision sha now (di_decision ids) r x m decision reason fp"])
       (simp add: review_tables_def new_decision_def)
qed

text \<open>C22. In every reachable state a review has exactly one snapshot; it is shown as reserved
  exactly when one reservation of it is active, and there is never a second one; no reservation
  is held by the person who submitted it; and it has a final status exactly when one decision is
  recorded for it, which is the only one, agrees with the status, was taken on that snapshot
  under a consumed reservation of the same reviewer with sufficient role.\<close>

theorem review_tables_consistent:
  assumes "no_reviews db0" and "(review_step sha)\<^sup>*\<^sup>* db0 db"
    and "row_get rv_id i (reviews db) = Some r"
  shows "\<exists>s xs. filter (\<lambda>s. rs_review_id s = i) (review_snapshots db) = [s]
    \<and> filter (\<lambda>x. rr_review_id x = i) (reservations db) = xs
    \<and> length (filter (\<lambda>x. rr_status x = RR_ACTIVE) xs) = (if rv_status r = RS_RESERVED then 1 else 0)
    \<and> (\<forall>x\<in>set xs. rr_reviewer_id x \<noteq> Some (rv_submitted_by_id r))
    \<and> (if terminal_review_status (rv_status r)
       then \<exists>d. filter (\<lambda>d. rvd_review_id d = i) (review_decisions db) = [d] \<and> decision_stands r s xs d
       else filter (\<lambda>d. rvd_review_id d = i) (review_decisions db) = [])"
proof -
  obtain s where "filter (\<lambda>s. rs_review_id s = i) (review_snapshots db) = [s]"
    and "reservations_agree r s (filter (\<lambda>x. rr_review_id x = i) (reservations db))"
    and "if terminal_review_status (rv_status r)
         then (\<exists>d. filter (\<lambda>d. rvd_review_id d = i) (review_decisions db) = [d]
                 \<and> decision_stands r s (filter (\<lambda>x. rr_review_id x = i) (reservations db)) d)
         else filter (\<lambda>d. rvd_review_id d = i) (review_decisions db) = []"
    using review_inv_slice [OF reachable_reviews [OF assms(1,2)] assms(3)] .
  then show ?thesis by (auto simp: reservations_agree_def)
qed

section \<open>Finality\<close>

lemma terminal_refused:
  assumes "review_inv db" and "scoped_review org_pid review_pid db = Some r"
    and "terminal_review_status (rv_status r)"
  shows "\<exists>e. review_decide sha now ids org_pid review_pid actor expected fp decision reason corr db = Inl e"
    and "\<exists>e. review_reserve sha now uid nonce au xids org_pid review_pid actor expected corr db = Inl e"
proof -
  show "\<exists>e. review_decide sha now ids org_pid review_pid actor expected fp decision reason corr db = Inl e"
    using assms(2,3)
    by (cases "rv_version r = expected") (simp_all add: review_decide_def decide_guard_def required_review_def)
  have r: "row_get rv_id (rv_id r) (reviews db) = Some r" using scoped_review_get [OF assms(1,2)] .
  obtain s where agree: "reservations_agree r s (filter (\<lambda>y. rr_review_id y = rv_id r) (reservations db))"
    using review_inv_slice [OF assms(1) r] .
  have idle: "\<not> (rr_review_id y = rv_id r \<and> rr_status y = RR_ACTIVE)" if "y \<in> set (reservations db)" for y
    using that reservations_agree_count(1) [OF agree, of y] assms(3) by (auto simp: terminal_review_status_def)
  show "\<exists>e. review_reserve sha now uid nonce au xids org_pid review_pid actor expected corr db = Inl e"
  proof (cases "review_reserve sha now uid nonce au xids org_pid review_pid actor expected corr db")
    case (Inr res)
    obtain b db' where res: "res = (b, db')" by fastforce
    obtain r0 db1 m where r0: "scoped_review org_pid review_pid db = Some r0"
      and db1: "reconcile_expired now xids (reservation_of_review r0) db = Inr db1"
      and eff: "(db' = db1 \<and> (\<exists>x. active_reservation (refresh_review r0 db1) now db1 = Some x
            \<and> rr_reviewer_id x = Some (mem_id m)))
         \<or> reserve_took sha now uid nonce (refresh_review r0 db1) m expected db1 db'"
      using review_reserve_effect [OF Inr [unfolded res]] .
    have "r0 = r" using r0 assms(2) by simp
    have "expired_reservations (reservation_of_review r) now db = []"
      using idle by (auto simp: expired_reservations_def filter_empty_conv reservation_of_review_def)
    then have "db1 = db" using db1 \<open>r0 = r\<close> by (simp add: reconcile_expired_def)
    then have "refresh_review r0 db1 = r" using r \<open>r0 = r\<close> by (simp add: refresh_review_def)
    moreover have "active_reservation r now db = None"
      using idle by (auto simp: active_reservation_def find_None_iff)
    ultimately show ?thesis
      using eff assms(3) \<open>db1 = db\<close> by (simp add: reserve_took_def)
  qed simp
qed

text \<open>C23. A decision is final: along every later run of the system the review keeps its row
  and its decision unchanged, and both reserving it and deciding it again are refused.\<close>

theorem decision_is_final:
  assumes "no_reviews db0" and "(review_step sha)\<^sup>*\<^sup>* db0 db" and "(review_step sha)\<^sup>*\<^sup>* db db'"
    and "row_get rv_id i (reviews db) = Some r" and "terminal_review_status (rv_status r)"
  shows "row_get rv_id i (reviews db') = Some r
    \<and> filter (\<lambda>d. rvd_review_id d = i) (review_decisions db')
      = filter (\<lambda>d. rvd_review_id d = i) (review_decisions db)
    \<and> (scoped_review org_pid review_pid db' = Some r \<longrightarrow>
        (\<exists>e. review_decide sha now ids org_pid review_pid actor expected fp decision reason corr db' = Inl e)
        \<and> (\<exists>e. review_reserve sha now uid nonce au xids org_pid review_pid actor expected corr db' = Inl e))"
proof -
  have inv: "review_inv db" using reachable_reviews [OF assms(1,2)] .
  have inv': "review_inv db'" using reachable_reviews [OF assms(1)] assms(2,3) by (meson rtranclp_trans)
  have ev: "review_evolves db db'" using review_run_evolves [OF assms(3) inv] .
  then have r': "row_get rv_id i (reviews db') = Some r"
    using assms(4,5) unfolding review_evolves_def review_successor_def by blast
  obtain ds where ds: "review_decisions db' = review_decisions db @ ds"
    using ev unfolding review_evolves_def by blast
  obtain d where d: "filter (\<lambda>d. rvd_review_id d = i) (review_decisions db) = [d]"
    using review_inv_slice [OF inv assms(4)] assms(5) by (metis (no_types, lifting))
  obtain d' where d': "filter (\<lambda>d. rvd_review_id d = i) (review_decisions db') = [d']"
    using review_inv_slice [OF inv' r'] assms(5) by (metis (no_types, lifting))
  have "filter (\<lambda>d. rvd_review_id d = i) (review_decisions db') = [d]"
    using d d' ds by simp
  then show ?thesis using r' d terminal_refused [OF inv' _ assms(5)] by simp
qed

section \<open>Versions\<close>

record decide_request =
  dr_now :: timestamp
  dr_ids :: decide_ids
  dr_organization :: string
  dr_review :: string
  dr_actor :: string
  dr_expected :: int
  dr_fingerprint :: string
  dr_decision :: review_decision
  dr_reason :: string
  dr_correlation :: string

definition run_decide ::
    "(string \<Rightarrow> string) \<Rightarrow> decide_request \<Rightarrow> database \<Rightarrow> error + review_bundle \<times> database" where
  "run_decide sha q db = review_decide sha (dr_now q) (dr_ids q) (dr_organization q) (dr_review q)
     (dr_actor q) (dr_expected q) (dr_fingerprint q) (dr_decision q) (dr_reason q)
     (dr_correlation q) db"

definition decide_target :: "decide_request \<Rightarrow> database \<Rightarrow> uuid option" where
  "decide_target q db = map_option rv_id (scoped_review (dr_organization q) (dr_review q) db)"

definition review_version_at :: "uuid \<Rightarrow> database \<Rightarrow> int" where
  "review_version_at i db = (case row_get rv_id i (reviews db) of None \<Rightarrow> 0 | Some r \<Rightarrow> rv_version r)"

lemma run_decide_accepted:
  assumes "review_inv db" and "run_decide sha q db = Inr (b, db')"
  shows "\<exists>i. decide_target q db = Some i \<and> review_version_at i db \<le> dr_expected q
    \<and> dr_expected q < review_version_at i db'"
proof -
  obtain r s x m where g: "decide_guard sha (dr_now q) (dr_organization q) (dr_review q) (dr_actor q)
      (dr_expected q) (dr_fingerprint q) db = Inr (r, s, x, m)"
    and t: "review_tables db' = (row_put rv_id (decided_review (dr_now q) (dr_decision q) r) (reviews db),
      row_put rr_id (consumed_reservation (dr_now q) x) (reservations db),
      review_decisions db @ [new_decision sha (dr_now q) (di_decision (dr_ids q)) r x m (dr_decision q)
        (dr_reason q) (dr_fingerprint q)], review_snapshots db)"
    using review_decide_effect [OF assms(2) [unfolded run_decide_def]] .
  note f = decide_guard_facts [OF g]
  have "row_get rv_id (rv_id r) (reviews db) = Some r" using scoped_review_get [OF assms(1) f(1)] .
  then show ?thesis using f(1,2) t
    by (simp add: decide_target_def review_version_at_def review_tables_def row_get_put decided_review_def)
qed

interpretation rev_lock: version_guarded "run_decide sha" decide_target review_version_at
  dr_expected review_inv for sha
  by unfold_locales (rule run_decide_accepted)

text \<open>Decisions are protected against lost updates: after one was accepted at some version
  of a review, a decision that carries that version or an earlier one is refused in every later
  state of the system.\<close>

theorem decide_no_lost_update:
  assumes "no_reviews db0" and "(review_step sha)\<^sup>*\<^sup>* db0 db" and "run_decide sha q db = Inr (b, db1)"
    and "decide_target q db = Some i" and "(review_step sha)\<^sup>*\<^sup>* db1 db2"
    and "decide_target q' db2 = Some i" and "dr_expected q' \<le> dr_expected q"
  shows "\<exists>e. run_decide sha q' db2 = Inl e"
proof (rule rev_lock.no_lost_update [OF _ _ assms(3,4) _ assms(6,7)])
  show inv: "review_inv db" using reachable_reviews [OF assms(1,2)] .
  have "review_step sha db db1" using assms(3) review_step.decide unfolding run_decide_def by blast
  then have inv1: "review_inv db1" using review_step_keeps inv by blast
  then show "review_inv db2" using rev_sys.along_run [OF assms(5)] by blast
  show "review_version_at i db1 \<le> review_version_at i db2"
  proof (cases "row_get rv_id i (reviews db1)")
    case None
    obtain r where "scoped_review (dr_organization q) (dr_review q) db = Some r" "rv_id r = i"
      using assms(4) by (auto simp: decide_target_def)
    then have "row_get rv_id i (reviews db) \<noteq> None" using scoped_review_get [OF inv] by force
    then show ?thesis using None review_step_keeps [OF \<open>review_step sha db db1\<close> inv]
      unfolding review_evolves_def by (metis not_None_eq)
  next
    case (Some r)
    then obtain r' where "row_get rv_id i (reviews db2) = Some r'" "review_successor r r'"
      using review_run_evolves [OF assms(5) inv1] unfolding review_evolves_def by blast
    then show ?thesis using Some by (simp add: review_version_at_def review_successor_def)
  qed
qed

section \<open>Reservations\<close>

text \<open>Reservations are exclusive: while a reviewer holds an unexpired reservation, nobody
  else can reserve the review.\<close>

theorem reserve_excludes_others:
  assumes "no_reviews db0" and "(review_step sha)\<^sup>*\<^sup>* db0 db"
    and "scoped_review org_pid review_pid db = Some r" and "active_reservation r now db = Some x"
    and "review_member (rv_organization_id r) actor db = Inr m" and "rr_reviewer_id x \<noteq> Some (mem_id m)"
  shows "\<exists>e. review_reserve sha now uid nonce au xids org_pid review_pid actor expected corr db = Inl e"
proof (cases "review_reserve sha now uid nonce au xids org_pid review_pid actor expected corr db")
  case (Inr res)
  obtain b db' where res: "res = (b, db')" by fastforce
  have inv: "review_inv db" using reachable_reviews [OF assms(1,2)] .
  have r: "row_get rv_id (rv_id r) (reviews db) = Some r" using scoped_review_get [OF inv assms(3)] .
  have x: "x \<in> set (reservations db)" "rr_review_id x = rv_id r" "rr_status x = RR_ACTIVE"
      "now < rr_expires_at x" "rr_organization_id x = rv_organization_id r"
    using find_SomeD [OF assms(4) [unfolded active_reservation_def]] by auto
  obtain r0 db1 m' where r0: "scoped_review org_pid review_pid db = Some r0"
    and db1: "reconcile_expired now xids (reservation_of_review r0) db = Inr db1"
    and m': "review_member (rv_organization_id (refresh_review r0 db1)) actor db1 = Inr m'"
    and eff: "(db' = db1 \<and> (\<exists>x. active_reservation (refresh_review r0 db1) now db1 = Some x
          \<and> rr_reviewer_id x = Some (mem_id m')))
       \<or> reserve_took sha now uid nonce (refresh_review r0 db1) m' expected db1 db'"
    using review_reserve_effect [OF Inr [unfolded res]] .
  have "r0 = r" using r0 assms(3) by simp
  have "expired_reservations (reservation_of_review r) now db = []"
    using active_unique [OF inv r x(1-3)] x(4)
    by (fastforce simp: expired_reservations_def filter_empty_conv reservation_of_review_def)
  then have "db1 = db" using db1 \<open>r0 = r\<close> by (simp add: reconcile_expired_def)
  moreover from this have "refresh_review r0 db1 = r" using r \<open>r0 = r\<close> by (simp add: refresh_review_def)
  ultimately show ?thesis using eff assms(4-6) m' x by (auto simp: reserve_took_def)
qed simp

lemma reconcile_read:
  assumes "review_inv db" and "row_get rv_id (rv_id r) (reviews db) = Some r"
    and "reconcile_expired now ids (reservation_of_review r) db = Inr db1"
  shows "rv_status (refresh_review r db1) = RS_RESERVED \<longleftrightarrow>
    active_reservation (refresh_review r db1) now db1 \<noteq> None"
proof -
  note one = reconcile_expired_step [OF assms(3,1)]
  have r1: "row_get rv_id (rv_id r) (reviews db1) = Some (refresh_review r db1)"
      "review_successor r (refresh_review r db1)"
    using refresh_review_get [OF _ assms(2)] one by blast+
  then have same: "rv_id (refresh_review r db1) = rv_id r"
      "rv_organization_id (refresh_review r db1) = rv_organization_id r"
    by (simp_all add: review_successor_def)
  show ?thesis
  proof (rule active_reservation_iff)
    show "review_inv db1" using one by blast
    show "row_get rv_id (rv_id (refresh_review r db1)) (reviews db1) = Some (refresh_review r db1)"
      using r1(1) same by simp
    show "now < rr_expires_at y" if "y \<in> set (reservations db1)" "rr_status y = RR_ACTIVE"
        "reservation_of_review (refresh_review r db1) y" for y
      by (rule reconcile_expired_closes [OF assms(3,1) that(1,2)])
         (use that(3) same in \<open>simp add: reservation_of_review_def\<close>)
  qed
qed

text \<open>Reading a review never shows a hold that ran out: what a read returns has the status
  reserved exactly when it also shows the unexpired reservation that holds it.\<close>

theorem review_get_shows_holder:
  assumes "no_reviews db0" and "(review_step sha)\<^sup>*\<^sup>* db0 db"
    and "review_get now ids org_pid review_pid db = Inr (Some b, db')"
  shows "rv_status (rb_review b) = RS_RESERVED \<longleftrightarrow> rb_reservation b \<noteq> None"
proof -
  have inv: "review_inv db" using reachable_reviews [OF assms(1,2)] .
  obtain r where r: "scoped_review org_pid review_pid db = Some r"
    and sweep: "reconcile_expired now ids (reservation_of_review r) db = Inr db'"
    and load: "review_load_bundle (refresh_review r db') now db' = Inr b"
    using assms(3) by (auto simp: review_get_def run_simps split: option.splits)
  have "rb_review b = refresh_review r db'" "rb_reservation b = active_reservation (refresh_review r db') now db'"
    using load by (auto simp: review_load_bundle_def run_simps option_case_Inr)
  then show ?thesis using reconcile_read [OF inv scoped_review_get [OF inv r] sweep] by simp
qed

section \<open>What an approval publishes\<close>

lemma publish_effect:
  assumes "publish_approved_response_draft sha uid r now db = Inr (u, db')"
  obtains d q rows where "d \<in> set (proposal_response_drafts db)" "prd_case_id d = rv_case_id r"
    "prd_proposal_version_id d = rv_proposal_version_id r" "prd_status d = RSP_READY"
    "q \<in> set rows" "rd_case_id q = rv_case_id r" "rd_subject q = prd_subject d"
    "rd_body q = prd_body d" "rd_status q = RSP_READY" "db' = db\<lparr>response_drafts := rows\<rparr>"
proof -
  obtain d where d: "find (\<lambda>d. prd_organization_id d = rv_organization_id r
      \<and> prd_case_id d = rv_case_id r \<and> prd_proposal_version_id d = rv_proposal_version_id r)
      (proposal_response_drafts db) = Some d" "prd_status d = RSP_READY"
    using assms by (auto simp: publish_approved_response_draft_def run_simps Let_def)
  note d' = find_SomeD [OF d(1)]
  show thesis
  proof (cases "find (\<lambda>d. rd_organization_id d = rv_organization_id r \<and> rd_case_id d = rv_case_id r)
      (response_drafts db)")
    case None
    let ?q = "\<lparr>rd_id = uid, rd_public_id = stable_public_id sha ''DFT'' [rv_public_id r],
      rd_organization_id = rv_organization_id r, rd_case_id = rv_case_id r,
      rd_subject = prd_subject d, rd_body = prd_body d, rd_status = RSP_READY, rd_version = 1,
      rd_updated_at = now\<rparr>"
    have "db' = db\<lparr>response_drafts := response_drafts db @ [?q]\<rparr>" using assms d None
      by (auto simp: publish_approved_response_draft_def run_simps Let_def insert_response_draft_def)
    then show thesis using that [of d ?q "response_drafts db @ [?q]"] d d' by simp
  next
    case (Some q0)
    let ?q = "q0\<lparr>rd_subject := prd_subject d, rd_body := prd_body d, rd_status := RSP_READY,
      rd_version := rd_version q0 + 1, rd_updated_at := now\<rparr>"
    have "?q \<in> set (row_put rd_id ?q (response_drafts db))" and "rd_case_id q0 = rv_case_id r"
      using find_SomeD [OF Some] by (auto simp: set_row_put image_iff)
    moreover have "db' = db\<lparr>response_drafts := row_put rd_id ?q (response_drafts db)\<rparr>"
      using assms d Some
      by (auto simp: publish_approved_response_draft_def run_simps Let_def put_response_draft_def)
    ultimately show thesis using that [of d ?q "row_put rd_id ?q (response_drafts db)"] d d' by simp
  qed
qed

lemma set_proposal_state_effect:
  assumes "set_proposal_state r state now db = Inr db'" and "required_snapshot r db = Inr s"
    and "find (\<lambda>p. prop_id p = rv_proposal_id r \<and> prop_organization_id p = rv_organization_id r)
      (proposals db) = Some p" and "prop_current_version p = rs_proposal_version s"
  shows "db' = put_proposal (p\<lparr>prop_state := state, prop_version := prop_version p + 1,
    prop_updated_at := now\<rparr>) db"
  using assms by (auto simp: set_proposal_state_def)

text \<open>The database after an approval, table by table.\<close>

lemma approve_effect:
  assumes "review_decide sha now ids org_pid review_pid actor expected fp RD_APPROVE reason corr db
    = Inr (b, db')"
  obtains r s x m d q p where
    "decide_guard sha now org_pid review_pid actor expected fp db = Inr (r, s, x, m)"
    "find (\<lambda>p. prop_id p = rv_proposal_id r \<and> prop_organization_id p = rv_organization_id r)
       (proposals db) = Some p"
    "d \<in> set (proposal_response_drafts db)" "prd_case_id d = rv_case_id r"
    "prd_proposal_version_id d = rv_proposal_version_id r" "prd_status d = RSP_READY"
    "q \<in> set (response_drafts db')" "rd_case_id q = rv_case_id r" "rd_subject q = prd_subject d"
    "rd_body q = prd_body d" "rd_status q = RSP_READY"
    "cases db' = cases db" "proposal_versions db' = proposal_versions db"
    "organizations db' = organizations db" "proposed_actions db' = proposed_actions db"
    "actions db' = actions db" "connections db' = connections db"
    "proposals db' = row_put prop_id (p\<lparr>prop_state := DP_APPROVED,
       prop_version := prop_version p + 1, prop_updated_at := now\<rparr>) (proposals db)"
proof -
  obtain r s x m where g: "decide_guard sha now org_pid review_pid actor expected fp db = Inr (r, s, x, m)"
    using assms by (auto simp: review_decide_def run_simps)
  note f = decide_guard_facts [OF g]
  obtain p where p: "find (\<lambda>p. prop_id p = rv_proposal_id r \<and> prop_organization_id p = rv_organization_id r)
       (proposals db) = Some p" "prop_current_version p = rs_proposal_version s" using f(13) by blast
  let ?r = "decided_review now RD_APPROVE r"
  let ?d = "new_decision sha now (di_decision ids) r x m RD_APPROVE reason fp"
  obtain db1 u db3 db4 events where db1: "insert_review_decision ?d db = Inr db1"
    and db3: "publish_approved_response_draft sha (di_draft ids) ?r now
      (put_review ?r (put_reservation (consumed_reservation now x) db1)) = Inr (u, db3)"
    and db4: "set_proposal_state ?r DP_APPROVED now db3 = Inr db4"
    and db5: "db' = db4\<lparr>audit_events := events\<rparr>"
    using assms g
    by (auto simp: review_decide_def run_simps Let_def advance_case_after_decision_def
        add_review_audit_def insert_audit_def)
  obtain d q rows where d: "d \<in> set (proposal_response_drafts (put_review ?r
        (put_reservation (consumed_reservation now x) db1)))" "prd_case_id d = rv_case_id ?r"
    "prd_proposal_version_id d = rv_proposal_version_id ?r" "prd_status d = RSP_READY"
    "q \<in> set rows" "rd_case_id q = rv_case_id ?r" "rd_subject q = prd_subject d"
    "rd_body q = prd_body d" "rd_status q = RSP_READY"
    and db3': "db3 = (put_review ?r (put_reservation (consumed_reservation now x) db1))
      \<lparr>response_drafts := rows\<rparr>"
    using publish_effect [OF db3] .
  have one: "db1 = db\<lparr>review_decisions := review_decisions db @ [?d]\<rparr>"
    using db1 by (auto simp: insert_review_decision_def run_simps)
  have same: "rv_proposal_id ?r = rv_proposal_id r" "rv_organization_id ?r = rv_organization_id r"
      "rv_case_id ?r = rv_case_id r" "rv_proposal_version_id ?r = rv_proposal_version_id r"
      "rv_id ?r = rv_id r"
    by (simp_all add: decided_review_def)
  have "db4 = put_proposal (p\<lparr>prop_state := DP_APPROVED, prop_version := prop_version p + 1,
      prop_updated_at := now\<rparr>) db3"
    by (rule set_proposal_state_effect [OF db4, of s])
       (use p f(4) same in \<open>simp_all add: db3' one required_snapshot_def put_review_def put_reservation_def\<close>)
  then show thesis
    using db5 d same that [OF g p(1)]
    by (simp add: put_proposal_def db3' one put_review_def put_reservation_def)
qed

text \<open>An approval publishes the reply that was reviewed: it is accepted only when the
  response draft of the reviewed resolution version is ready, and afterwards the response draft
  of the case has its subject and text, the resolution is approved and the case is untouched.\<close>

theorem approval_publishes_reviewed_draft:
  assumes "review_decide sha now ids org_pid review_pid actor expected fp RD_APPROVE reason corr db
    = Inr (b, db')"
  shows "\<exists>r d q p. scoped_review org_pid review_pid db = Some r
    \<and> d \<in> set (proposal_response_drafts db) \<and> prd_case_id d = rv_case_id r
    \<and> prd_proposal_version_id d = rv_proposal_version_id r \<and> prd_status d = RSP_READY
    \<and> q \<in> set (response_drafts db') \<and> rd_case_id q = rv_case_id r
    \<and> rd_subject q = prd_subject d \<and> rd_body q = prd_body d \<and> rd_status q = RSP_READY
    \<and> p \<in> set (proposals db') \<and> prop_id p = rv_proposal_id r \<and> prop_state p = DP_APPROVED
    \<and> cases db' = cases db"
proof (rule approve_effect [OF assms])
  fix r s x m d q p
  assume g: "decide_guard sha now org_pid review_pid actor expected fp db = Inr (r, s, x, m)"
    and p: "find (\<lambda>p. prop_id p = rv_proposal_id r \<and> prop_organization_id p = rv_organization_id r)
       (proposals db) = Some p"
    and rest: "d \<in> set (proposal_response_drafts db)" "prd_case_id d = rv_case_id r"
      "prd_proposal_version_id d = rv_proposal_version_id r" "prd_status d = RSP_READY"
      "q \<in> set (response_drafts db')" "rd_case_id q = rv_case_id r" "rd_subject q = prd_subject d"
      "rd_body q = prd_body d" "rd_status q = RSP_READY" "cases db' = cases db"
    and p': "proposals db' = row_put prop_id (p\<lparr>prop_state := DP_APPROVED,
       prop_version := prop_version p + 1, prop_updated_at := now\<rparr>) (proposals db)"
  let ?p = "p\<lparr>prop_state := DP_APPROVED, prop_version := prop_version p + 1, prop_updated_at := now\<rparr>"
  have "?p \<in> set (proposals db')" and "prop_id ?p = rv_proposal_id r" and "prop_state ?p = DP_APPROVED"
    using find_SomeD [OF p] p' row_put_member [of p _ prop_id ?p] by simp_all
  then show ?thesis using decide_guard_facts(1) [OF g] rest by blast
qed

section \<open>Routing to an administrator\<close>

lemma str_contains_separated:
  assumes "w \<noteq> []" and "c \<notin> set w"
  shows "str_contains w (a @ c # b) \<longleftrightarrow> str_contains w a \<or> str_contains w b"
proof
  assume "str_contains w (a @ c # b)"
  then obtain xs ys where "a @ c # b = xs @ w @ ys" unfolding str_contains_iff by blast
  then have "\<exists>us. a = xs @ us \<and> us @ c # b = w @ ys \<or> a @ us = xs \<and> c # b = us @ w @ ys"
    by (rule append_eq_append_conv2 [THEN iffD1])
  then consider us where "xs = a @ us" "us @ w @ ys = c # b" | us where "a = xs @ us" "us @ c # b = w @ ys"
    by metis
  then show "str_contains w a \<or> str_contains w b"
  proof cases
    case 1
    then show ?thesis
      using assms by (cases us; cases w) (auto simp: str_contains_iff)
  next
    case 2
    then consider vs where "us = w @ vs" | vs where "w = us @ vs" "c # b = vs @ ys"
      by (metis append_eq_append_conv2)
    then show ?thesis
    proof cases
      case 1
      then show ?thesis using 2(1) by (auto simp: str_contains_iff)
    next
      case (2 vs)
      then have "vs = []" using assms(2) by (cases vs) auto
      then have "us = w" using 2(1) by simp
      then show ?thesis using \<open>a = xs @ us\<close> unfolding str_contains_iff
        by (metis append_Nil2)
    qed
  qed
next
  assume "str_contains w a \<or> str_contains w b"
  then show "str_contains w (a @ c # b)"
    unfolding str_contains_iff by (metis append_Cons append_assoc)
qed

lemma str_contains_join_iff:
  assumes "w \<noteq> []" and "c \<notin> set w"
  shows "str_contains w (str_join [c] xs) \<longleftrightarrow> (\<exists>x\<in>set xs. str_contains w x)"
proof (induction "[c]" xs rule: str_join.induct)
  case (3 x y ys)
  then show ?case using str_contains_separated [OF assms, of x "str_join [c] (y # ys)"] by simp
qed (use assms(1) in simp_all)

lemma str_lower_parts:
  "str_lower (a @ b) = str_lower a @ str_lower b" "str_lower (CHR '' '' # s) = CHR '' '' # str_lower s"
  by (simp_all add: str_lower_def lower_char_def)

text \<open>A risk check mentions a word in its identifier, label or explanation, in any case.\<close>

definition mentions :: "string \<Rightarrow> decision_risk_check \<Rightarrow> bool" where
  "mentions w k \<longleftrightarrow> str_contains w (str_lower (risk_id k)) \<or> str_contains w (str_lower (risk_label k))
     \<or> str_contains w (str_lower (risk_explanation k))"

lemma risk_text_mentions:
  assumes "w \<noteq> []" and "CHR '' '' \<notin> set w"
  shows "str_contains w (review_risk_text brief) \<longleftrightarrow> (\<exists>k\<in>set (pv_risks (br_version brief)). mentions w k)"
proof -
  have "str_contains w (str_lower (risk_id k @ '' '' @ risk_label k @ '' '' @ risk_explanation k))
      \<longleftrightarrow> mentions w k" for k
    using str_contains_separated [OF assms] by (simp add: str_lower_parts mentions_def)
  then show ?thesis
    unfolding review_risk_text_def by (simp add: str_contains_join_iff [OF assms])
qed

text \<open>C28. A resolution needs an administrator exactly when the policies conflict, when its
  financial impact reaches the limit of its currency (or has no currency, or one without a
  limit), or when a risk check mentions privacy or compliance in any spelling of case; every
  other resolution needs a supervisor.\<close>

theorem administrator_rule:
  "rule_required_role (assess_review_rule brief limits v) =
     (if ar_policy_status (br_run brief) = ER_CONFLICTING
         \<or> (\<exists>amount. pv_impact_amount (br_version brief) = Some amount
              \<and> (\<forall>currency limit. pv_impact_currency (br_version brief) = Some currency \<longrightarrow>
                   map_of (case limits of None \<Rightarrow> default_administrator_financial_limits | Some l \<Rightarrow> l)
                     currency = Some limit \<longrightarrow> limit \<le> amount))
         \<or> (\<exists>k\<in>set (pv_risks (br_version brief)). mentions ''privacy'' k \<or> mentions ''compliance'' k)
      then ADMINISTRATOR else SUPERVISOR)"
proof -
  let ?l = "case limits of None \<Rightarrow> default_administrator_financial_limits | Some l \<Rightarrow> l"
  have money: "financial_admin_required brief ?l \<longleftrightarrow>
      (\<exists>amount. pv_impact_amount (br_version brief) = Some amount
         \<and> (\<forall>currency limit. pv_impact_currency (br_version brief) = Some currency \<longrightarrow>
              map_of ?l currency = Some limit \<longrightarrow> limit \<le> amount))"
    unfolding financial_admin_required_def by (auto split: option.splits)
  have words: "str_contains ''privacy'' (review_risk_text brief) \<or> str_contains ''compliance'' (review_risk_text brief)
      \<longleftrightarrow> (\<exists>k\<in>set (pv_risks (br_version brief)). mentions ''privacy'' k \<or> mentions ''compliance'' k)"
    using risk_text_mentions [of "''privacy''" brief] risk_text_mentions [of "''compliance''" brief] by auto
  have "rule_required_role (assess_review_rule brief limits v) =
      (if ar_policy_status (br_run brief) = ER_CONFLICTING \<or> financial_admin_required brief ?l
          \<or> (str_contains ''privacy'' (review_risk_text brief)
             \<or> str_contains ''compliance'' (review_risk_text brief))
       then ADMINISTRATOR else SUPERVISOR)"
    by (simp add: assess_review_rule_def Let_def)
  then show ?thesis unfolding money words .
qed

end
