(* ===== verification/System.thy ===== *)
theory System
  imports Review_Safety Lifecycle
begin

text \<open>
  The review and the action component together. A transaction of one component leaves the
  tables of the other alone, so that one system step is a step of both; what the components
  guarantee on their own then holds of the composed system, and the approval a review records
  can be followed to the external write it authorizes.
\<close>

section \<open>Action commands leave the review tables alone\<close>

definition outer_view :: "database \<Rightarrow> uuid list \<times> review_tables" where
  "outer_view db = (map act_id (actions db), review_tables db)"

named_theorems view_frame \<open>operations of the action component that keep the outer view\<close>

lemma put_view [simp]:
  "outer_view (put_action a db) = outer_view db" "outer_view (put_attempt t db) = outer_view db"
  "outer_view (put_reconciliation r db) = outer_view db" "outer_view (put_case c db) = outer_view db"
  by (simp_all add: outer_view_def put_action_def put_attempt_def put_reconciliation_def put_case_def
      review_tables_def)

lemma insert_view [view_frame]:
  "insert_attempt t db = Inr db' \<Longrightarrow> outer_view db' = outer_view db"
  "insert_receipt c db = Inr db' \<Longrightarrow> outer_view db' = outer_view db"
  "insert_reconciliation r db = Inr db' \<Longrightarrow> outer_view db' = outer_view db"
  "insert_connection k db = Inr db' \<Longrightarrow> outer_view db' = outer_view db"
  "add_action_audit u a ev aty ac sm d co t' db = Inr db' \<Longrightarrow> outer_view db' = outer_view db"
  by (auto simp: insert_attempt_def insert_receipt_def insert_reconciliation_def insert_connection_def
      add_action_audit_def insert_audit_def run_simps outer_view_def review_tables_def)

lemma record_receipt_view [view_frame]:
  "record_receipt sha uid a t receipt now db = Inr (c, db') \<Longrightarrow> outer_view db' = outer_view db"
  by (auto simp: record_receipt_def run_simps Let_def split: option.splits if_splits dest!: view_frame)

lemma advance_case_view [view_frame]:
  "advance_case_after_completion a now db = Inr db' \<Longrightarrow> outer_view db' = outer_view db"
  by (auto simp: advance_case_after_completion_def split: option.splits if_splits)

lemma abandon_attempt_view:
  "abandon_attempt sha now ids c db = Inr db' \<Longrightarrow> outer_view db' = outer_view db"
  by (auto simp: abandon_attempt_def Let_def split: option.splits if_splits prod.splits dest!: view_frame)

lemma reconcile_abandoned_view [view_frame]:
  assumes "reconcile_abandoned sha now ids scope db = Inr db'"
  shows "outer_view db' = outer_view db"
  using assms [unfolded reconcile_abandoned_def]
  by (rule foldE_invariant) (auto dest: abandon_attempt_view)

lemma settle_reconciliation_view [view_frame]:
  "settle_reconciliation sha now u result a t r db = Inr (a', r', db') \<Longrightarrow> outer_view db' = outer_view db"
  by (auto simp: settle_reconciliation_def run_simps Let_def split: reconciliation_outcome.splits
      dest!: view_frame)

lemma prepare_execution_view:
  "prepare_execution sha now tu au ids org_pid act_pid actor expected command corr db = Inr (lease, db')
    \<Longrightarrow> outer_view db' = outer_view db"
  by (auto simp: prepare_execution_def run_simps Let_def split: option.splits dest!: view_frame)

lemma finish_execution_view:
  "finish_execution_success sha now ru au lease receipt corr db = Inr (item, db')
    \<Longrightarrow> outer_view db' = outer_view db"
  "finish_execution_error sha now au lease e corr db = Inr (item, db') \<Longrightarrow> outer_view db' = outer_view db"
  by (auto simp: finish_execution_success_def finish_execution_error_def run_simps Let_def
      split: if_splits dest!: view_frame)

lemma reconciliation_view:
  "prepare_reconciliation sha now ru ut au ids org_pid act_pid actor expected corr db = Inr (rlease, db')
    \<Longrightarrow> outer_view db' = outer_view db"
  "finish_reconciliation sha now ru au rl result corr db = Inr (item, db') \<Longrightarrow> outer_view db' = outer_view db"
  by (auto simp: prepare_reconciliation_def finish_reconciliation_def run_simps Let_def option_case_Inr
      split: if_splits dest!: view_frame)

lemma manual_view:
  "record_manual_outcome sha now ru au org_pid act_pid actor expected outcome reason corr db = Inr (item, db')
    \<Longrightarrow> outer_view db' = outer_view db"
  "escalate now au org_pid act_pid actor expected reason corr db = Inr (item, db')
    \<Longrightarrow> outer_view db' = outer_view db"
  by (auto simp: record_manual_outcome_def escalate_def run_simps Let_def split: if_splits dest!: view_frame)

lemma action_get_view:
  "action_get sha now now2 ids org_pid act_pid db = Inr (found, db') \<Longrightarrow> outer_view db' = outer_view db"
  by (auto simp: action_get_def run_simps split: option.splits dest!: view_frame)

section \<open>Review commands leave the action tables alone\<close>

named_theorems action_frame \<open>operations of the review component that keep the action tables\<close>

definition action_view ::
    "database \<Rightarrow> case_action list \<times> action_attempt list \<times> action_reconciliation list \<times> action_receipt list" where
  "action_view db = (actions db, attempts db, reconciliations db, receipts db)"

lemma same_action_view: "same_action_tables db db' \<longleftrightarrow> action_view db' = action_view db"
  by (auto simp: same_action_tables_def action_view_def)

lemma put_same_actions [simp]:
  "action_view (put_review r db)  = action_view db" "action_view (put_reservation x db) = action_view db"
  "action_view (put_proposal p db) = action_view db" "action_view (put_case c db) = action_view db"
  "action_view (put_response_draft d db) = action_view db"
  by (simp_all add: action_view_def put_review_def put_reservation_def put_proposal_def
      put_response_draft_def put_case_def)

lemma insert_same_actions [action_frame]:
  "insert_review r db = Inr db' \<Longrightarrow> action_view db' = action_view db"
  "insert_review_snapshot s db = Inr db' \<Longrightarrow> action_view db' = action_view db"
  "insert_reservation x db = Inr db' \<Longrightarrow> action_view db' = action_view db"
  "insert_review_decision d db = Inr db' \<Longrightarrow> action_view db' = action_view db"
  "insert_response_draft q db = Inr db' \<Longrightarrow> action_view db' = action_view db"
  "add_review_audit u org e aty ac st su sm dt co oc db = Inr db' \<Longrightarrow> action_view db' = action_view db"
  by (auto simp: insert_review_def insert_review_snapshot_def insert_reservation_def
      insert_review_decision_def insert_response_draft_def add_review_audit_def insert_audit_def
      run_simps action_view_def)

lemma set_proposal_state_same_actions [action_frame]:
  "set_proposal_state r st now db = Inr db' \<Longrightarrow> action_view db' = action_view db"
  by (auto simp: set_proposal_state_def run_simps split: option.splits if_splits)

lemma advance_decided_same_actions [action_frame]:
  "advance_case_after_decision r d now db = Inr (u, db') \<Longrightarrow> action_view db' = action_view db"
  by (auto simp: advance_case_after_decision_def run_simps Let_def split: if_splits)

lemma publish_same_actions [action_frame]:
  "publish_approved_response_draft sha uid r now db = Inr (u, db') \<Longrightarrow> action_view db' = action_view db"
  by (auto simp: publish_approved_response_draft_def run_simps Let_def split: option.splits
      dest!: action_frame)

lemma expire_same_actions:
  assumes "expire_reservation now ids x db = Inr db'"
  shows "action_view db' = action_view db"
proof (cases "row_get rv_id (rr_review_id x) (reviews (put_reservation (x\<lparr>rr_status := RR_EXPIRED\<rparr>) db))")
  case None
  then show ?thesis
    using assms by (auto simp: expire_reservation_def Let_def run_simps dest!: action_frame)
next
  case (Some r)
  then show ?thesis
    using assms
    by (cases "rv_status r = RS_RESERVED")
       (auto simp: expire_reservation_def Let_def run_simps dest!: action_frame)
qed

lemma reconcile_expired_same_actions [action_frame]:
  assumes "reconcile_expired now ids scope db = Inr db'"
  shows "action_view db' = action_view db"
  using assms [unfolded reconcile_expired_def]
  by (rule foldE_invariant) (auto dest: expire_same_actions)

lemma review_submit_same_actions:
  "review_submit sha now ids org_pid case_pid actor cmd corr db = Inr (b, db') \<Longrightarrow> action_view db' = action_view db"
  by (auto simp: review_submit_def submit_new_def run_simps Let_def split: option.splits
      dest!: action_frame)
lemma review_reserve_same_actions:
  "review_reserve sha now uid nonce au xids org_pid review_pid actor expected corr db = Inr (b, db')
    \<Longrightarrow> action_view db' = action_view db"
  by (auto simp: review_reserve_def run_simps Let_def split: if_splits dest!: action_frame)
    
lemma review_decide_same_actions:
  "review_decide sha now dids org_pid review_pid actor expected fp decision reason corr db = Inr (b, db')
    \<Longrightarrow> action_view db' = action_view db"
  by (auto simp: review_decide_def run_simps Let_def split: if_splits dest!: action_frame)
    
lemma review_read_same_actions:
  "review_get now xids org_pid review_pid db = Inr (found, db') \<Longrightarrow> action_view db' = action_view db"
  "review_get_for_proposal now now2 xids org_pid case_pid version db = Inr (found, db')
    \<Longrightarrow> action_view db' = action_view db"
  by (auto simp: review_get_def review_get_for_proposal_def run_simps split: option.splits dest!: action_frame)

section \<open>The composed system\<close>

definition system_step :: "(string \<Rightarrow> string) \<Rightarrow> database \<Rightarrow> database \<Rightarrow> bool" where
  "system_step sha db db' \<longleftrightarrow> action_step sha db db' \<and> review_step sha db db'"

lemma resolve_view: "resolve_for_action sha now uid org org_pid ty db = Inr (c, db') \<Longrightarrow> outer_view db' = outer_view db"
  by (auto simp: outer_view_def review_tables_def dest!: resolve_for_action_Inr)

lemma materialize_one_reviews:
  assumes "materialize_one sha now fresh org_pid corr ap owner p (created, db) = Inr (created', db')"
  shows "review_tables db' = review_tables db"
proof (cases "existing_action (ap_review ap) p db")
  case (Some a)
  then show ?thesis using assms by (simp add: materialize_one_def)
next
  case None
  then show ?thesis using assms
    by (auto simp: materialize_one_def run_simps Let_def insert_action_def outer_view_def review_tables_def
        add_action_audit_def insert_audit_def dest!: resolve_for_action_Inr)
qed

text \<open>Where an action stored by a materialization comes from: it was there, or it is bound to the
  approval that was materialized.\<close>

definition bound_to :: "approval \<Rightarrow> case_action \<Rightarrow> bool" where
  "bound_to ap a \<longleftrightarrow> act_review_id a = rv_id (ap_review ap)
     \<and> act_review_snapshot_id a = rs_id (ap_snapshot ap)
     \<and> act_review_decision_id a = rvd_id (ap_decision ap)
     \<and> act_authorization_expires_at a = rvd_decided_at (ap_decision ap) + hours action_authorization_hours"

lemma materialize_one_bound:
  assumes "materialize_one sha now fresh org_pid corr ap owner p (created, db) = Inr (created', db')"
    and "a \<in> set (actions db')"
  shows "a \<in> set (actions db) \<or> bound_to ap a"
proof (cases "existing_action (ap_review ap) p db")
  case (Some b)
  then show ?thesis using assms by (simp add: materialize_one_def)
next
  case None
  then show ?thesis using assms
    by (auto simp: materialize_one_def run_simps Let_def insert_action_def bound_to_def new_action_def
        add_action_audit_def insert_audit_def dest!: resolve_for_action_Inr)
qed

lemma materialize_bound:
  assumes "materialize_approved_review sha now fresh org_pid review_pid corr db = Inr (bundles, db')"
  obtains ap where "approved_lineage org_pid review_pid db = Inr ap"
    and "review_tables db' = review_tables db"
    and "\<And>a. a \<in> set (actions db') \<Longrightarrow> a \<in> set (actions db) \<or> bound_to ap a"
proof -
  obtain ap owner created where ap: "approved_lineage org_pid review_pid db = Inr ap"
    and fold: "foldE (materialize_one sha now fresh org_pid corr ap owner)
      (reviewed_actions (ap_review ap) db) ([], db) = Inr (created, db')"
    using assms by (auto simp: materialize_approved_review_def run_simps Let_def)
  let ?P = "\<lambda>(cs :: case_action list, d). review_tables d = review_tables db
    \<and> (\<forall>a\<in>set (actions d). a \<in> set (actions db) \<or> bound_to ap a)"
  have "?P (created, db')"
    using fold
  proof (rule foldE_invariant [where P = ?P])
    show "?P t" if "materialize_one sha now fresh org_pid corr ap owner x s = Inr t" and "?P s" for x s t
      using that materialize_one_reviews materialize_one_bound by (cases s; cases t) fastforce
  qed simp
  then show thesis using that [OF ap] by blast
qed

text \<open>Every command of either component is a step of the composed system.\<close>

lemma action_command_step:
  assumes "action_step sha db db'" and "outer_view db' = outer_view db"
  shows "system_step sha db db'"
  using assms review_step.other by (simp add: system_step_def outer_view_def)

lemma review_command_step:
  assumes "review_step sha db db'" and "action_view db' = action_view db"
  shows "system_step sha db db'"
  using assms action_step.other same_action_view by (simp add: system_step_def)

lemmas system_commands =
  action_command_step [OF action_step.start prepare_execution_view]
  action_command_step [OF action_step.succeed finish_execution_view(1)]
  action_command_step [OF action_step.fail finish_execution_view(2)]
  action_command_step [OF action_step.check reconciliation_view(1)]
  action_command_step [OF action_step.settle reconciliation_view(2)]
  action_command_step [OF action_step.manual manual_view(1)]
  action_command_step [OF action_step.recover manual_view(2)]
  action_command_step [OF action_step.read action_get_view]
  review_command_step [OF review_step.submit review_submit_same_actions]
  review_command_step [OF review_step.reserve review_reserve_same_actions]
  review_command_step [OF review_step.decide review_decide_same_actions]
  review_command_step [OF review_step.read review_read_same_actions(1)]
  review_command_step [OF review_step.read_proposal review_read_same_actions(2)]
  review_command_step [OF review_step.sweep reconcile_expired_same_actions]

lemma system_materialize:
  assumes "materialize_approved_review sha now fresh org_pid review_pid corr db = Inr (bundles, db')"
  shows "system_step sha db db'"
proof (rule materialize_bound [OF assms])
  assume "review_tables db' = review_tables db"
  then show ?thesis
    using action_step.materialize [OF assms] review_step.other by (simp add: system_step_def)
qed

section \<open>The lineage of an action\<close>

definition lineage_ok :: "database \<Rightarrow> case_action \<Rightarrow> bool" where
  "lineage_ok db a \<longleftrightarrow>
     (\<exists>r s d. row_get rv_id (act_review_id a) (reviews db) = Some r \<and> rv_status r = RS_APPROVED
        \<and> row_get rs_id (act_review_snapshot_id a) (review_snapshots db) = Some s
        \<and> rs_review_id s = rv_id r
        \<and> row_get rvd_id (act_review_decision_id a) (review_decisions db) = Some d
        \<and> rvd_review_id d = rv_id r
        \<and> act_authorization_expires_at a = rvd_decided_at d + hours action_authorization_hours)"

definition system_inv :: "database \<Rightarrow> bool" where
  "system_inv db \<longleftrightarrow> action_inv db \<and> review_inv db \<and> (\<forall>a\<in>set (actions db). lineage_ok db a)"

lemma row_get_append_keep: "row_get key i rows = Some x \<Longrightarrow> row_get key i (rows @ rest) = Some x"
  by (induction rows) (auto simp: row_get_def)

lemma lineage_ok_evolves:
  assumes "lineage_ok db a" and "review_evolves db db'" and "same_identity a a'"
  shows "lineage_ok db' a'"
proof -
  obtain r s d where l: "row_get rv_id (act_review_id a) (reviews db) = Some r" "rv_status r = RS_APPROVED"
      "row_get rs_id (act_review_snapshot_id a) (review_snapshots db) = Some s" "rs_review_id s = rv_id r"
      "row_get rvd_id (act_review_decision_id a) (review_decisions db) = Some d" "rvd_review_id d = rv_id r"
      "act_authorization_expires_at a = rvd_decided_at d + hours action_authorization_hours"
    using assms(1) unfolding lineage_ok_def by blast
  have "row_get rv_id (act_review_id a) (reviews db') = Some r"
    using assms(2) l(1,2) unfolding review_evolves_def review_successor_def
    by (metis insertI1 terminal_review_status_def)
  moreover have "row_get rs_id (act_review_snapshot_id a) (review_snapshots db') = Some s"
    and "row_get rvd_id (act_review_decision_id a) (review_decisions db') = Some d"
    using assms(2) l(3,5) row_get_append_keep unfolding review_evolves_def by fastforce+
  ultimately show ?thesis using l assms(3) unfolding lineage_ok_def same_identity_def by auto
qed

lemma review_row_get:
  assumes "review_inv db" and "r \<in> set (reviews db)"
  shows "row_get rv_id (rv_id r) (reviews db) = Some r"
proof -
  obtain q where q: "row_get rv_id (rv_id r) (reviews db) = Some q"
    using assms(2) by (cases "row_get rv_id (rv_id r) (reviews db)") (auto simp: row_get_None)
  then have "filter (\<lambda>x. rv_id x = rv_id r) (reviews db) = [q]"
    using review_inv_slice [OF assms(1) q] by blast
  moreover have "r \<in> set (filter (\<lambda>x. rv_id x = rv_id r) (reviews db))" using assms(2) by simp
  ultimately show ?thesis using q by simp
qed

lemma bound_lineage:
  assumes "review_inv db" and "approved_lineage org_pid review_pid db = Inr ap" and "bound_to ap a"
  shows "lineage_ok db a"
proof -
  have r: "ap_review ap \<in> set (reviews db)" "rv_status (ap_review ap) = RS_APPROVED"
    and s: "ap_snapshot ap \<in> set (review_snapshots db)" "rs_review_id (ap_snapshot ap) = rv_id (ap_review ap)"
    and d: "ap_decision ap \<in> set (review_decisions db)" "rvd_review_id (ap_decision ap) = rv_id (ap_review ap)"
    using assms(2)
    by (auto simp: approved_lineage_def run_simps required_review_snapshot_def option_case_Inr dest!: find_SomeD)
  have u: "unique_keys rs_id (review_snapshots db)" "unique_keys rvd_id (review_decisions db)"
    using assms(1) by (simp_all add: review_inv_def)
  show ?thesis
    using review_row_get [OF assms(1) r(1)] r s d assms(3) row_get_unique [OF u(1) s(1)]
      row_get_unique [OF u(2) d(1)]
    unfolding lineage_ok_def bound_to_def by (intro exI [of _ "ap_review ap"] exI [of _ "ap_snapshot ap"]
        exI [of _ "ap_decision ap"]) simp
qed

text \<open>Unless it materializes an approval, a step stores no new action.\<close>

lemma step_origin:
  assumes "action_step sha db db'"
  shows "map act_id (actions db') = map act_id (actions db)
    \<or> (\<exists>now fresh org_pid review_pid corr bundles.
         materialize_approved_review sha now fresh org_pid review_pid corr db = Inr (bundles, db'))"
  using assms
proof (cases rule: action_step.cases)
  case sweep
  then show ?thesis using reconcile_abandoned_view by (simp add: outer_view_def)
next
  case other
  then show ?thesis by (simp add: same_action_tables_def)
qed (auto simp: outer_view_def dest!: prepare_execution_view finish_execution_view reconciliation_view
    manual_view action_get_view)

lemma system_step_keeps:
  assumes step: "system_step sha db db'" and inv: "system_inv db"
  shows "system_inv db'"
proof -
  have act: "action_inv db' \<and> action_evolves db db'" and rev: "review_inv db' \<and> review_evolves db db'"
    using step inv action_step_keeps review_step_keeps unfolding system_step_def system_inv_def by blast+
  have old: "lineage_ok db' a'" if a': "a' \<in> set (actions db')" and known: "act_id a' \<in> act_id ` set (actions db)" for a'
  proof -
    obtain a where a: "row_get act_id (act_id a') (actions db) = Some a"
      using known by (cases "row_get act_id (act_id a') (actions db)") (auto simp: row_get_None)
    then obtain b where b: "row_get act_id (act_id a') (actions db') = Some b" "same_identity a b"
      using act unfolding action_evolves_def by blast
    have "row_get act_id (act_id a') (actions db') = Some a'"
      by (rule row_get_unique) (use a' act in \<open>simp_all add: action_inv_def action_tables_ok_def\<close>)
    then have "same_identity a a'" using b by simp
    moreover have "lineage_ok db a" using inv row_get_Some [OF a] by (simp add: system_inv_def)
    ultimately show ?thesis using lineage_ok_evolves rev by blast
  qed
  have "lineage_ok db' a'" if a': "a' \<in> set (actions db')" for a'
    using step_origin [OF conjunct1 [OF step [unfolded system_step_def]]]
  proof (elim disjE exE)
    assume "map act_id (actions db') = map act_id (actions db)"
    then have "act_id ` set (actions db') = act_id ` set (actions db)" by (metis set_map)
    then show ?thesis using old a' by blast
  next
    fix now fresh org_pid review_pid corr bundles
    assume m: "materialize_approved_review sha now fresh org_pid review_pid corr db = Inr (bundles, db')"
    then obtain ap where ap: "approved_lineage org_pid review_pid db = Inr ap"
      and tables: "review_tables db' = review_tables db"
      and "a' \<in> set (actions db) \<or> bound_to ap a'"
      using materialize_bound [OF m] a' by blast
    then show ?thesis
      using old a' bound_lineage [OF _ ap, of a'] inv
      by (auto simp: system_inv_def lineage_ok_def review_tables_def)
  qed
  then show ?thesis using act rev by (simp add: system_inv_def)
qed

interpretation sys: step_invariant "system_step sha" system_inv for sha
  by unfold_locales (rule system_step_keeps)

lemma reachable_system:
  assumes "no_reviews db0" and "no_actions db0" and "(system_step sha)\<^sup>*\<^sup>* db0 db"
  shows "system_inv db"
proof -
  have "system_inv db0"
    using no_reviews_inv [OF assms(1)] no_actions_inv [OF assms(2)] assms(2)
    by (simp add: system_inv_def no_actions_def)
  then show ?thesis using sys.along_run [OF assms(3)] by blast
qed

section \<open>Properties of the composed system\<close>

text \<open>C20. Four eyes on every external write: in every state the composed system can reach, a
  lease to send an action to its target is handed out only on a decision that approved the
  review of that action, was taken by somebody who did not submit it, whose role satisfied the
  approval rule, on the very snapshot that is still current, less than twenty-four hours ago.\<close>

theorem execution_needs_second_person:
  assumes "no_reviews db0" and "no_actions db0" and "(system_step sha)\<^sup>*\<^sup>* db0 db"
    and run: "prepare_execution sha now tu au ids org_pid act_pid actor expected command corr db
      = Inr (lease, db')"
  shows "\<exists>a r s d reviewer. row_get act_id (el_action_id lease) (actions db) = Some a
    \<and> row_get rv_id (act_review_id a) (reviews db) = Some r
    \<and> row_get rs_id (act_review_snapshot_id a) (review_snapshots db) = Some s
    \<and> row_get rvd_id (act_review_decision_id a) (review_decisions db) = Some d
    \<and> rs_review_id s = rv_id r \<and> rvd_review_id d = rv_id r
    \<and> rvd_decision d = RD_APPROVE \<and> rvd_snapshot_fingerprint d = rs_snapshot_fingerprint s
    \<and> rvd_reviewer_id d = Some reviewer \<and> reviewer \<noteq> rv_submitted_by_id r
    \<and> role_satisfies (Some (rvd_reviewer_role d)) (rs_required_role s)
    \<and> now < rvd_decided_at d + hours 24"
proof -
  have inv: "system_inv db" using reachable_system [OF assms(1-3)] .
  then have act: "action_inv db" and rev: "review_inv db" by (simp_all add: system_inv_def)
  from run act show ?thesis
  proof (cases rule: prepare_execution_Inr)
    case (1 found db1 a member c)
    have "db1 = db" using prepare_execution_idle [OF run act 1(2)] 1(3) by simp
    have a: "row_get act_id (act_id a) (actions db) = Some a"
      using 1(6) \<open>db1 = db\<close> row_get_Some by metis
    have un: "approved_for_execution a now db" using unblocked(4) 1(10) \<open>db1 = db\<close> by simp
    have "lineage_ok db a" using inv row_get_Some [OF a] by (simp add: system_inv_def)
    then obtain r s d where l: "row_get rv_id (act_review_id a) (reviews db) = Some r"
        "rv_status r = RS_APPROVED"
        "row_get rs_id (act_review_snapshot_id a) (review_snapshots db) = Some s" "rs_review_id s = rv_id r"
        "row_get rvd_id (act_review_decision_id a) (review_decisions db) = Some d" "rvd_review_id d = rv_id r"
        "act_authorization_expires_at a = rvd_decided_at d + hours action_authorization_hours"
      unfolding lineage_ok_def by blast
    have id: "act_review_id a = rv_id r" using row_get_Some [OF l(1)] by simp
    obtain s' d' where sd: "filter (\<lambda>s. rs_review_id s = rv_id r) (review_snapshots db) = [s']"
      "filter (\<lambda>d. rvd_review_id d = rv_id r) (review_decisions db) = [d']"
      "decision_stands r s' (filter (\<lambda>x. rr_review_id x = rv_id r) (reservations db)) d'"
      using review_inv_slice [OF rev l(1) [unfolded id]] l(2)
      by (metis (no_types, lifting) insertI1 terminal_review_status_def)
    have "s \<in> set (filter (\<lambda>s. rs_review_id s = rv_id r) (review_snapshots db))"
      and "d \<in> set (filter (\<lambda>d. rvd_review_id d = rv_id r) (review_decisions db))"
      using row_get_Some [OF l(3)] row_get_Some [OF l(5)] l(4,6) by simp_all
    then have "s' = s" and "d' = d" using sd(1,2) by simp_all
    then have stands: "decision_stands r s (filter (\<lambda>x. rr_review_id x = rv_id r) (reservations db)) d"
      using sd(3) by simp
    have "rs_execution_eligible s" "rvd_decision d = RD_APPROVE" "now < act_authorization_expires_at a"
      using un l(3,5) by (auto simp: approved_for_execution_def)
    then show ?thesis
      using stands l a 1(19) by (auto simp: decision_stands_def action_authorization_hours_def)
  qed
qed

end
