(* ===== verification/Materialization_Props.thy ===== *)
theory Materialization_Props
  imports System
begin

text \<open>
  What an approval turns into: materializing an approved review gives every reviewed proposed
  action exactly one action, doing it again changes nothing, and right after the decision the
  new actions are executable for twenty-four hours when the snapshot was eligible.
\<close>

section \<open>One round of the loop\<close>

text \<open>A materialization writes connections, actions and audit events only.\<close>

definition only_queue :: "database \<Rightarrow> database \<Rightarrow> bool" where
  "only_queue db db' \<longleftrightarrow> (\<exists>cs new es. db' = db\<lparr>connections := cs, actions := actions db @ new, audit_events := es\<rparr>)"

lemma only_queue_refl: "only_queue db db"
proof -
  have "db = db\<lparr>connections := connections db, actions := actions db @ [], audit_events := audit_events db\<rparr>"
    by simp
  then show ?thesis unfolding only_queue_def by metis
qed

lemma only_queue_trans: "only_queue a b \<Longrightarrow> only_queue b c \<Longrightarrow> only_queue a c"
  unfolding only_queue_def by fastforce

lemma find_append_keep: "find P xs = Some x \<Longrightarrow> find P (xs @ ys) = Some x"
  by (induction xs) auto

lemma find_append_new: "find P xs = None \<Longrightarrow> P x \<Longrightarrow> find P (xs @ [x]) = Some x"
  by (induction xs) (auto split: if_splits)

lemma existing_action_keep:
  assumes "only_queue db db'" and "existing_action r p db = Some a"
  shows "existing_action r p db' = Some a"
  using assms find_append_keep by (fastforce simp: only_queue_def existing_action_def)

lemma materialize_one_round:
  assumes "materialize_one sha now fresh org_pid corr ap owner p (created, db) = Inr (created', db')"
  shows "only_queue db db' \<and> (\<exists>a. created' = created @ [a] \<and> existing_action (ap_review ap) p db' = Some a
    \<and> (existing_action (ap_review ap) p db = Some a \<and> db' = db
       \<or> (\<exists>c. a = new_action sha now (mi_action (fresh (pa_id p))) org_pid ap owner c p
            \<and> actions db' = actions db @ [a])))"
proof (cases "existing_action (ap_review ap) p db")
  case (Some a)
  then show ?thesis using assms only_queue_refl by (simp add: materialize_one_def)
next
  case None
  obtain c db1 where c: "resolve_for_action sha (mi_connection_now (fresh (pa_id p)))
      (mi_connection (fresh (pa_id p))) (rv_organization_id (ap_review ap)) org_pid (pa_type p) db = Inr (c, db1)"
    using assms None by (auto simp: materialize_one_def run_simps Let_def)
  let ?a = "new_action sha now (mi_action (fresh (pa_id p))) org_pid ap owner c p"
  obtain cs where "db1 = db\<lparr>connections := cs\<rparr>" using resolve_for_action_Inr [OF c] by blast
  then obtain es where es: "db' = db\<lparr>connections := cs, actions := actions db @ [?a], audit_events := es\<rparr>"
    and "created' = created @ [?a]"
    using assms None c
    by (auto simp: materialize_one_def run_simps Let_def insert_action_def add_action_audit_def insert_audit_def)
  moreover have "act_organization_id ?a = rv_organization_id (ap_review ap)"
    "act_case_id ?a = rv_case_id (ap_review ap)" "act_proposed_action_id ?a = pa_id p"
    by (simp_all add: new_action_def Let_def)
  ultimately show ?thesis
    using find_append_new [OF None [unfolded existing_action_def], of ?a]
    by (auto simp: existing_action_def only_queue_def)
qed

lemma materialize_loop:
  assumes "foldE (materialize_one sha now fresh org_pid corr ap owner) ps (created, db) = Inr (created', db')"
  shows "only_queue db db' \<and> created' = created @ map (\<lambda>p. the (existing_action (ap_review ap) p db')) ps
    \<and> (\<forall>p\<in>set ps. existing_action (ap_review ap) p db' \<noteq> None)"
  using assms
proof (induction ps arbitrary: created db)
  case Nil
  then show ?case by (simp add: only_queue_refl)
next
  case (Cons p ps)
  then obtain c1 db1 where one: "materialize_one sha now fresh org_pid corr ap owner p (created, db) = Inr (c1, db1)"
    and rest: "foldE (materialize_one sha now fresh org_pid corr ap owner) ps (c1, db1) = Inr (created', db')"
    by (auto simp: run_simps)
  obtain a where a: "only_queue db db1" "c1 = created @ [a]" "existing_action (ap_review ap) p db1 = Some a"
    using materialize_one_round [OF one] by blast
  note ih = Cons.IH [OF rest]
  have "existing_action (ap_review ap) p db' = Some a" using existing_action_keep ih a(3) by blast
  then show ?case using ih a only_queue_trans by auto
qed

lemma materialize_again_loop:
  assumes "\<forall>p\<in>set ps. existing_action (ap_review ap) p db \<noteq> None"
  shows "foldE (materialize_one sha now fresh org_pid corr ap owner) ps (created, db)
    = Inr (created @ map (\<lambda>p. the (existing_action (ap_review ap) p db)) ps, db)"
  using assms
proof (induction ps arbitrary: created)
  case (Cons p ps)
  then show ?case by (auto simp: materialize_one_def)
qed simp

lemma only_queue_frame:
  assumes "only_queue db db'"
  shows "reviews db' = reviews db" "review_snapshots db' = review_snapshots db"
      "review_decisions db' = review_decisions db" "cases db' = cases db" "proposals db' = proposals db"
      "proposal_versions db' = proposal_versions db" "proposed_actions db' = proposed_actions db"
      "organizations db' = organizations db" "memberships db' = memberships db"
  using assms by (auto simp: only_queue_def)

lemma only_queue_reads:
  assumes "only_queue db db'"
  shows "approved_lineage org_pid review_pid db' = approved_lineage org_pid review_pid db"
    and "reviewed_actions r db' = reviewed_actions r db"
  by (simp_all add: approved_lineage_def required_review_snapshot_def reviewed_actions_def
      only_queue_frame [OF assms] cong: option.case_cong)

lemma materialize_loop_new:
  assumes "foldE (materialize_one sha now fresh org_pid corr ap owner) ps (created, db) = Inr (created', db')"
    and "a \<in> set (actions db') - set (actions db)"
  shows "\<exists>i c p. a = new_action sha now i org_pid ap owner c p"
  using assms
proof (induction ps arbitrary: created db)
  case (Cons p ps)
  then obtain c1 db1 where one: "materialize_one sha now fresh org_pid corr ap owner p (created, db) = Inr (c1, db1)"
    and rest: "foldE (materialize_one sha now fresh org_pid corr ap owner) ps (c1, db1) = Inr (created', db')"
    by (auto simp: run_simps)
  show ?case
  proof (cases "a \<in> set (actions db1)")
    case True
    then have "actions db1 \<noteq> actions db" using Cons.prems(2) by auto
    then obtain b c where "b = new_action sha now (mi_action (fresh (pa_id p))) org_pid ap owner c p"
      and "actions db1 = actions db @ [b]" using materialize_one_round [OF one] by auto
    then show ?thesis using True Cons.prems(2) by auto
  qed (use Cons.IH [OF rest] Cons.prems(2) in blast)
qed simp

lemma materialize_split:
  assumes "materialize_approved_review sha now fresh org_pid review_pid corr db = Inr (bundles, db')"
  obtains ap owner created where "approved_lineage org_pid review_pid db = Inr ap"
    and "foldE (materialize_one sha now fresh org_pid corr ap owner)
      (reviewed_actions (ap_review ap) db) ([], db) = Inr (created, db')"
    and "mapE (\<lambda>a. load_bundle a db') created = Inr bundles"
  using assms by (auto simp: materialize_approved_review_def run_simps Let_def)

lemma new_action_authorized:
  assumes "\<exists>i c p. a = new_action sha now i org_pid ap owner c p"
  shows "act_status a = AS_READY" "act_attempt_count a = 0" "act_review_id a = rv_id (ap_review ap)"
    "act_review_decision_id a = rvd_id (ap_decision ap)"
    "act_authorization_expires_at a = rvd_decided_at (ap_decision ap) + hours 24"
    "act_execution_eligible a \<longleftrightarrow> rs_execution_eligible (ap_snapshot ap)
        \<and> pv_legacy_proposal_version_id (ap_version ap) = None
        \<and> cs_version (ap_case ap) = rs_case_version (ap_snapshot ap)
        \<and> prop_current_version (ap_proposal ap) = rs_proposal_version (ap_snapshot ap)
        \<and> prop_state (ap_proposal ap) = DP_APPROVED"
  using assms by (auto simp: new_action_def Let_def action_authorization_hours_def)

lemma load_bundle_action: "load_bundle a db = Inr b \<Longrightarrow> ab_action b = a"
  by (auto simp: load_bundle_def split: option.splits)

section \<open>Properties\<close>

text \<open>C29. Materializing an approved review is idempotent: after it succeeded once, running it
  again (at any time, with any fresh keys) returns the same actions and stores nothing.\<close>

theorem materialize_idempotent:
  assumes "materialize_approved_review sha now fresh org_pid review_pid corr db = Inr (bundles, db')"
  shows "materialize_approved_review sha now2 fresh2 org_pid review_pid corr2 db' = Inr (bundles, db')"
proof (rule materialize_split [OF assms])
  fix ap owner created
  assume ap: "approved_lineage org_pid review_pid db = Inr ap"
    and fold: "foldE (materialize_one sha now fresh org_pid corr ap owner)
      (reviewed_actions (ap_review ap) db) ([], db) = Inr (created, db')"
    and load: "mapE (\<lambda>a. load_bundle a db') created = Inr bundles"
  note loop = materialize_loop [OF fold]
  then show ?thesis
    using ap load materialize_again_loop [of "reviewed_actions (ap_review ap) db" ap db']
    by (simp add: materialize_approved_review_def only_queue_reads [OF loop [THEN conjunct1]]
        only_queue_frame [OF loop [THEN conjunct1]] Let_def)
qed

text \<open>An approval is carried out in full and nothing else is: a materialization that succeeds
  returns one action for every proposed action under review, in their order; every action it
  stores is bound to that approval, unattempted and ready, expires twenty-four hours after the
  decision, and is eligible for execution exactly when the reviewed snapshot was eligible and the
  case and the proposal are still the approved ones.\<close>

theorem materialize_complete:
  assumes "materialize_approved_review sha now fresh org_pid review_pid corr db = Inr (bundles, db')"
  shows "\<exists>ap. approved_lineage org_pid review_pid db = Inr ap
    \<and> map (act_proposed_action_id \<circ> ab_action) bundles = map pa_id (reviewed_actions (ap_review ap) db)
    \<and> (\<forall>a\<in>set (actions db') - set (actions db). act_status a = AS_READY \<and> act_attempt_count a = 0
        \<and> act_review_id a = rv_id (ap_review ap)
        \<and> act_review_decision_id a = rvd_id (ap_decision ap)
        \<and> act_authorization_expires_at a = rvd_decided_at (ap_decision ap) + hours 24
        \<and> (act_execution_eligible a \<longleftrightarrow> rs_execution_eligible (ap_snapshot ap)
            \<and> pv_legacy_proposal_version_id (ap_version ap) = None
            \<and> cs_version (ap_case ap) = rs_case_version (ap_snapshot ap)
            \<and> prop_current_version (ap_proposal ap) = rs_proposal_version (ap_snapshot ap)
            \<and> prop_state (ap_proposal ap) = DP_APPROVED))"
proof (rule materialize_split [OF assms])
  fix ap owner created
  assume ap: "approved_lineage org_pid review_pid db = Inr ap"
    and fold: "foldE (materialize_one sha now fresh org_pid corr ap owner)
      (reviewed_actions (ap_review ap) db) ([], db) = Inr (created, db')"
    and load: "mapE (\<lambda>a. load_bundle a db') created = Inr bundles"
  note loop = materialize_loop [OF fold]
  have "act_proposed_action_id (the (existing_action (ap_review ap) p db')) = pa_id p"
    if p: "p \<in> set (reviewed_actions (ap_review ap) db)" for p
  proof -
    obtain a where a: "existing_action (ap_review ap) p db' = Some a"
      using bspec [OF conjunct2 [OF conjunct2 [OF loop]] p] by blast
    then show ?thesis using find_SomeD [OF a [unfolded existing_action_def]] by simp
  qed
  then have "map act_proposed_action_id created = map pa_id (reviewed_actions (ap_review ap) db)"
    using conjunct1 [OF conjunct2 [OF loop]] by simp
  moreover have "map ab_action bundles = created" using mapE_view [OF load] load_bundle_action by blast
  ultimately have "map (act_proposed_action_id \<circ> ab_action) bundles = map pa_id (reviewed_actions (ap_review ap) db)"
    by (metis map_map)
  then show ?thesis
    using ap new_action_authorized [OF materialize_loop_new [OF fold]]
    by (intro exI [of _ ap]) simp
qed

end
