(* ===== verification/Review_Witness.thy ===== *)
theory Review_Witness
  imports Review_Safety Demo
begin

text \<open>
  The properties of the review component at a concrete run: a specialist submits a refund with
  its business context and policy evidence, a supervisor reserves the review and approves it.
\<close>

section \<open>The database before the review\<close>

definition rsha :: "string \<Rightarrow> string" where
  "rsha s = ''7''"

definition rdemo_specialist :: membership where
  "rdemo_specialist = demo_member\<lparr>mem_id := 13, mem_public_id := ''SPEC'', mem_subject_id := ''spec'',
     mem_name := ''Spec'', mem_role := SPECIALIST\<rparr>"

definition rdemo_supervisor2 :: membership where
  "rdemo_supervisor2 = demo_member\<lparr>mem_id := 14, mem_public_id := ''SUP'', mem_subject_id := ''sup''\<rparr>"

definition rdemo_context :: business_object_snapshot where
  "rdemo_context =
     \<lparr>bo_id = 40, bo_public_id = ''BO'', bo_organization_id = 1, bo_case_id = 3,
      bo_object_type = BO_PAYMENT, bo_label = ''Payment'', bo_source = ''billing'',
      bo_source_reference = ''PAY-1'', bo_status = ''settled'',
      bo_fields = JObj [(''amount'', JStr ''10.00'')], bo_captured_at = 0,
      bo_source_freshness = SF_CURRENT, bo_source_checked_at = None, bo_version = 1\<rparr>"

definition rdemo_context_binding :: context_binding where
  "rdemo_context_binding =
     \<lparr>pcb_id = 41, pcb_organization_id = 1, pcb_case_id = 3, pcb_proposal_id = 4,
      pcb_proposal_version_id = 5, pcb_context_id = 40, pcb_snapshot_version = 1,
      pcb_context_fingerprint = ''7''\<rparr>"

definition rdemo_policy :: policy_version where
  "rdemo_policy =
     \<lparr>gpv_id = 42, gpv_public_id = ''GPV'', gpv_organization_id = 1, gpv_policy_id = 43,
      gpv_legacy_policy_version_id = None, gpv_version = 1, gpv_record_version = 1,
      gpv_status = PV_PUBLISHED, gpv_immutable = True, gpv_source_text = ''Refunds'',
      gpv_content_hash = ''pc'', gpv_decision_scope = ''refunds'', gpv_case_categories = [],
      gpv_products = [], gpv_regions = [], gpv_channels = [], gpv_customer_tiers = [],
      gpv_effective_from = Some 0, gpv_effective_to = None, gpv_created_by = ''ADM'',
      gpv_created_at = 0, gpv_submitted_at = Some 0, gpv_published_at = Some 0,
      gpv_retired_at = None\<rparr>"

definition rdemo_clause :: policy_clause where
  "rdemo_clause =
     \<lparr>gpc_id = 44, gpc_public_id = ''GPC'', gpc_organization_id = 1, gpc_policy_id = 43,
      gpc_policy_version_id = 42, gpc_sequence = 1, gpc_heading = ''Refunds'',
      gpc_text = ''Duplicate charges are refunded.'', gpc_applies_when = ''duplicate'',
      gpc_content_hash = ''cc'', gpc_chunking_version = ''1'', gpc_embedding_version = ''1'',
      gpc_index_version = ''1'', gpc_embedding = [], gpc_search_vector = ''refund''\<rparr>"

definition rdemo_evidence :: policy_evidence where
  "rdemo_evidence =
     \<lparr>cpe_id = 45, cpe_public_id = ''CPE'', cpe_organization_id = 1, cpe_case_id = 3,
      cpe_policy_id = 43, cpe_policy_version_id = 42, cpe_clause_id = 44, cpe_citation = ''1'',
      cpe_excerpt = ''Duplicate charges'', cpe_applicability = ''applies'',
      cpe_fingerprint = ''ef'', cpe_freshness = EF_CURRENT, cpe_conflict_state = CF_NONE,
      cpe_retrieval_score = 1, cpe_policy_content_hash = ''pc'', cpe_clause_content_hash = ''cc'',
      cpe_effective_from = Some 0, cpe_effective_to = None, cpe_corpus_version = ''1'',
      cpe_chunking_version = ''1'', cpe_embedding_version = ''1'', cpe_index_version = ''1'',
      cpe_embedding_profile_key = None, cpe_retrieval_algorithm_version = None,
      cpe_query_fingerprint = None, cpe_dense_rank = None, cpe_lexical_rank = None,
      cpe_fused_retrieval_score = None, cpe_retrieval_run_correlation_id = None,
      cpe_recorded_at = 0\<rparr>"

definition rdemo_evidence_binding :: evidence_binding where
  "rdemo_evidence_binding =
     \<lparr>peb_id = 46, peb_organization_id = 1, peb_case_id = 3, peb_proposal_id = 4,
      peb_proposal_version_id = 5, peb_evidence_id = 45, peb_evidence_fingerprint = ''ef''\<rparr>"

definition rdemo_draft :: proposal_response_draft where
  "rdemo_draft =
     \<lparr>prd_id = 47, prd_public_id = ''PRD'', prd_organization_id = 1, prd_case_id = 3,
      prd_proposal_id = 4, prd_proposal_version_id = 5, prd_subject = ''Your refund'',
      prd_body = ''We refunded it.'', prd_status = RSP_READY, prd_version = 1,
      prd_created_at = 0\<rparr>"

definition rdemo_db :: database where
  "rdemo_db = demo_db\<lparr>memberships := [demo_member, rdemo_specialist, rdemo_supervisor2],
     cases := [demo_case\<lparr>cs_status := CS_INVESTIGATING, cs_version := 3\<rparr>],
     proposals := [demo_proposal\<lparr>prop_state := DP_READY_FOR_REVIEW\<rparr>],
     proposal_versions := [demo_version\<lparr>pv_context_fingerprint := ''7'', pv_evidence_fingerprint := ''7''\<rparr>],
     business_objects := [rdemo_context], context_bindings := [rdemo_context_binding],
     policy_versions := [rdemo_policy], policy_clauses := [rdemo_clause],
     policy_evidence_rows := [rdemo_evidence], evidence_bindings := [rdemo_evidence_binding],
     proposal_response_drafts := [rdemo_draft], reviews := [], review_snapshots := [],
     review_decisions := []\<rparr>"

definition rdemo_rule :: approval_rule where
  "rdemo_rule = \<lparr>rule_public_id = ''APR-SUPERVISOR'', rule_name = ''Supervisor decision required'',
     rule_explanation = ''x'', rule_required_role = SUPERVISOR, rule_version = 1\<rparr>"

definition rdemo_submission :: review_submission where
  "rdemo_submission =
     \<lparr>sub_expected_case_version = 3, sub_proposal_version = 1, sub_review_reason = ''x'',
      sub_policy_state = PS_SUPPORTED, sub_uncertainty = UNC_LOW, sub_impact_amount = None,
      sub_impact_currency = None, sub_proposal_fingerprint = ''p'', sub_context_fingerprint = ''7'',
      sub_evidence_fingerprint = ''7'', sub_risk_fingerprint = ''x'', sub_risk_rule_version = ''x'',
      sub_snapshot_fingerprint = ''fp'', sub_approval_rule = rdemo_rule,
      sub_execution_eligible = True\<rparr>"

definition rdemo_submit_ids :: submit_ids where
  "rdemo_submit_ids = \<lparr>si_review = 50, si_snapshot = 51, si_audit = 52\<rparr>"

definition rdemo_decide_ids :: decide_ids where
  "rdemo_decide_ids = \<lparr>di_decision = 55, di_draft = 56, di_audit = 57\<rparr>"

section \<open>Evaluation\<close>

named_theorems rdemo_eval \<open>definitions unfolded to evaluate the review run\<close>

lemma hash_rsha [rdemo_eval]: "hash_json rsha v = ''7''"
  by (simp add: hash_json_def rsha_def)

lemma stable_rsha [rdemo_eval]: "stable_public_id rsha prefix parts = prefix @ ''-7''"
  by (simp add: stable_public_id_def rsha_def str_upper_def upper_char_def)

lemmas rdemo_rows [rdemo_eval] = rdemo_specialist_def rdemo_supervisor2_def rdemo_context_def
  rdemo_context_binding_def rdemo_policy_def rdemo_clause_def rdemo_evidence_def
  rdemo_evidence_binding_def rdemo_draft_def rdemo_db_def rdemo_rule_def rdemo_submission_def
  rdemo_submit_ids_def rdemo_decide_ids_def demo_defs

lemmas rdemo_code [rdemo_eval] = review_submit_def submit_new_def scoped_case_def
  require_approval_rule_version_def review_member_def insert_review_def insert_row_def
  insert_review_snapshot_def new_review_def new_snapshot_def submitted_case_def put_case_def
  row_put_def row_get_def case_review_checks_def case_review_clash_def review_snapshot_checks_def
  review_snapshot_clash_def impact_pair_check_def check_passes_def sql_or_def sql_and_def
  add_review_audit_def insert_audit_def review_load_bundle_def required_snapshot_def
  active_reservation_def Let_def review_reserve_def required_review_def scoped_review_def
  reconcile_expired_def expired_reservations_def refresh_review_def terminal_review_status_def
  new_reservation_def reserved_review_def insert_reservation_def review_reservation_checks_def
  review_reservation_clash_def set_proposal_state_def put_proposal_def put_review_def
  review_hold_minutes_def minutes_def seconds_def put_reservation_def

lemmas rdemo_decide_code [rdemo_eval] = review_decide_def decide_guard_def role_satisfies_def
  freshness_of_def staleness_def context_rows_def context_unchanged_def context_fingerprint_of_def
  context_material_def evidence_staleness_def evidence_rows_def evidence_unchanged_def
  policy_in_force_def evidence_material_def new_decision_def decided_review_def
  consumed_reservation_def insert_review_decision_def review_decision_checks_def
  review_decision_clash_def advance_case_after_decision_def publish_approved_response_draft_def
  insert_response_draft_def response_draft_clash_def

lemmas rdemo_more [rdemo_eval] = review_get_def run_decide_def decide_target_def

text \<open>The run, with what the witnesses read off its states.\<close>

definition rdemo_request :: decide_request where
  "rdemo_request = \<lparr>dr_now = 30, dr_ids = rdemo_decide_ids, dr_organization = ''ORG'',
     dr_review = ''RV-7'', dr_actor = ''MEM'', dr_expected = 2, dr_fingerprint = ''fp'',
     dr_decision = RD_APPROVE, dr_reason = ''ok'', dr_correlation = ''c''\<rparr>"

declare rdemo_request_def [rdemo_eval]

lemma rdemo_run:
  "\<exists>b1 db1 b2 db2.
     review_submit rsha 10 rdemo_submit_ids ''ORG'' ''CASE'' ''SPEC'' rdemo_submission ''c'' rdemo_db
       = Inr (b1, db1)
   \<and> review_reserve rsha 20 53 ''n'' 54 id ''ORG'' ''RV-7'' ''MEM'' 1 ''c'' db1 = Inr (b2, db2)
   \<and> (\<exists>b3 db3 r3. run_decide rsha rdemo_request db2 = Inr (b3, db3)
        \<and> decide_target rdemo_request db2 = Some 50 \<and> decide_target rdemo_request db3 = Some 50
        \<and> row_get rv_id 50 (reviews db3) = Some r3 \<and> rv_status r3 = RS_APPROVED)
   \<and> (\<exists>r x m. scoped_review ''ORG'' ''RV-7'' db2 = Some r \<and> active_reservation r 25 db2 = Some x
        \<and> review_member (rv_organization_id r) ''SUP'' db2 = Inr m \<and> rr_reviewer_id x \<noteq> Some (mem_id m))
   \<and> (\<exists>b db'. review_get 25 id ''ORG'' ''RV-7'' db2 = Inr (Some b, db'))"
  by (simp add: rdemo_eval cong: bindE_first)

lemma rdemo_clean: "no_reviews rdemo_db"
  by (simp add: no_reviews_def rdemo_db_def demo_db_def)

lemma rdemo_reached:
  obtains db2 where "(review_step rsha)\<^sup>*\<^sup>* rdemo_db db2"
    and "\<exists>b3 db3 r3. run_decide rsha rdemo_request db2 = Inr (b3, db3)
        \<and> decide_target rdemo_request db2 = Some 50 \<and> decide_target rdemo_request db3 = Some 50
        \<and> row_get rv_id 50 (reviews db3) = Some r3 \<and> rv_status r3 = RS_APPROVED"
    and "\<exists>r x m. scoped_review ''ORG'' ''RV-7'' db2 = Some r \<and> active_reservation r 25 db2 = Some x
        \<and> review_member (rv_organization_id r) ''SUP'' db2 = Inr m \<and> rr_reviewer_id x \<noteq> Some (mem_id m)"
    and "\<exists>b db'. review_get 25 id ''ORG'' ''RV-7'' db2 = Inr (Some b, db')"
proof -
  obtain b1 db1 b2 db2 where s: "review_submit rsha 10 rdemo_submit_ids ''ORG'' ''CASE'' ''SPEC''
        rdemo_submission ''c'' rdemo_db = Inr (b1, db1)"
      "review_reserve rsha 20 53 ''n'' 54 id ''ORG'' ''RV-7'' ''MEM'' 1 ''c'' db1 = Inr (b2, db2)"
    and rest: "\<exists>b3 db3 r3. run_decide rsha rdemo_request db2 = Inr (b3, db3)
        \<and> decide_target rdemo_request db2 = Some 50 \<and> decide_target rdemo_request db3 = Some 50
        \<and> row_get rv_id 50 (reviews db3) = Some r3 \<and> rv_status r3 = RS_APPROVED"
      "\<exists>r x m. scoped_review ''ORG'' ''RV-7'' db2 = Some r \<and> active_reservation r 25 db2 = Some x
        \<and> review_member (rv_organization_id r) ''SUP'' db2 = Inr m \<and> rr_reviewer_id x \<noteq> Some (mem_id m)"
      "\<exists>b db'. review_get 25 id ''ORG'' ''RV-7'' db2 = Inr (Some b, db')"
    using rdemo_run by blast
  have "(review_step rsha)\<^sup>*\<^sup>* rdemo_db db2"
    using review_step.submit [OF s(1)] review_step.reserve [OF s(2)] by (meson rtranclp.simps)
  then show thesis using that rest by blast
qed

lemma rdemo_decided:
  obtains db2 b3 db3 r3 where "(review_step rsha)\<^sup>*\<^sup>* rdemo_db db2"
    and "run_decide rsha rdemo_request db2 = Inr (b3, db3)"
    and "decide_target rdemo_request db2 = Some 50" and "decide_target rdemo_request db3 = Some 50"
    and "row_get rv_id 50 (reviews db3) = Some r3" and "rv_status r3 = RS_APPROVED"
    and "(review_step rsha)\<^sup>*\<^sup>* rdemo_db db3"
proof (rule rdemo_reached)
  fix db2
  assume run: "(review_step rsha)\<^sup>*\<^sup>* rdemo_db db2"
    and "\<exists>b3 db3 r3. run_decide rsha rdemo_request db2 = Inr (b3, db3)
        \<and> decide_target rdemo_request db2 = Some 50 \<and> decide_target rdemo_request db3 = Some 50
        \<and> row_get rv_id 50 (reviews db3) = Some r3 \<and> rv_status r3 = RS_APPROVED"
  then obtain b3 db3 r3 where d: "run_decide rsha rdemo_request db2 = Inr (b3, db3)"
    "decide_target rdemo_request db2 = Some 50" "decide_target rdemo_request db3 = Some 50"
    "row_get rv_id 50 (reviews db3) = Some r3" "rv_status r3 = RS_APPROVED" by blast
  have "review_step rsha db2 db3" using review_step.decide d(1) unfolding run_decide_def by blast
  then show thesis using that [OF run d] run by (meson rtranclp.rtrancl_into_rtrancl)
qed

section \<open>Witnesses\<close>

theorem decide_authorized_witness:
  "\<exists>db b db' r m. run_decide rsha rdemo_request db = Inr (b, db')
     \<and> scoped_review ''ORG'' ''RV-7'' db = Some r \<and> review_member (rv_organization_id r) ''MEM'' db = Inr m
     \<and> mem_id m \<noteq> rv_submitted_by_id r \<and> rv_status (rb_review b) = RS_APPROVED"
proof (rule rdemo_decided)
  fix db2 b3 db3
  assume run: "(review_step rsha)\<^sup>*\<^sup>* rdemo_db db2" and d: "run_decide rsha rdemo_request db2 = Inr (b3, db3)"
  then have "review_decide rsha 30 rdemo_decide_ids ''ORG'' ''RV-7'' ''MEM'' 2 ''fp'' RD_APPROVE ''ok'' ''c'' db2
      = Inr (b3, db3)" by (simp add: run_decide_def rdemo_request_def)
  from decide_authorized [OF rdemo_clean run this] show ?thesis using d by auto
qed

theorem review_tables_consistent_witness:
  "\<exists>db r d. (review_step rsha)\<^sup>*\<^sup>* rdemo_db db \<and> row_get rv_id 50 (reviews db) = Some r
     \<and> rv_status r = RS_APPROVED \<and> filter (\<lambda>d. rvd_review_id d = 50) (review_decisions db) = [d]"
proof (rule rdemo_decided)
  fix db3 r3
  assume run: "(review_step rsha)\<^sup>*\<^sup>* rdemo_db db3" and r: "row_get rv_id 50 (reviews db3) = Some r3"
    "rv_status r3 = RS_APPROVED"
  from review_tables_consistent [OF rdemo_clean run r(1)] show ?thesis
    using run r by (auto simp: terminal_review_status_def)
qed

theorem decision_is_final_witness:
  "\<exists>db r e. (review_step rsha)\<^sup>*\<^sup>* rdemo_db db \<and> scoped_review ''ORG'' ''RV-7'' db = Some r
     \<and> review_decide rsha 40 rdemo_decide_ids ''ORG'' ''RV-7'' ''MEM'' 3 ''fp'' RD_REJECT ''no'' ''c'' db = Inl e"
proof (rule rdemo_decided)
  fix db3 r3
  assume run: "(review_step rsha)\<^sup>*\<^sup>* rdemo_db db3" and r: "row_get rv_id 50 (reviews db3) = Some r3"
    "rv_status r3 = RS_APPROVED" and t: "decide_target rdemo_request db3 = Some 50"
  obtain r where sc: "scoped_review ''ORG'' ''RV-7'' db3 = Some r" and "rv_id r = 50"
    using t by (auto simp: decide_target_def rdemo_request_def)
  then have "r = r3" using scoped_review_get [OF reachable_reviews [OF rdemo_clean run] sc] r(1) by simp
  then show ?thesis
    using decision_is_final [OF rdemo_clean run rtranclp.rtrancl_refl r(1)] r(2) run sc
    by (auto simp: terminal_review_status_def)
qed

theorem decide_no_lost_update_witness:
  "\<exists>db e. (review_step rsha)\<^sup>*\<^sup>* rdemo_db db \<and> run_decide rsha rdemo_request db = Inl e"
proof (rule rdemo_decided)
  fix db2 b3 db3
  assume a: "(review_step rsha)\<^sup>*\<^sup>* rdemo_db db2" "run_decide rsha rdemo_request db2 = Inr (b3, db3)"
    "decide_target rdemo_request db2 = Some 50" "decide_target rdemo_request db3 = Some 50"
    "(review_step rsha)\<^sup>*\<^sup>* rdemo_db db3"
  from decide_no_lost_update [OF rdemo_clean a(1-3) rtranclp.rtrancl_refl a(4)] show ?thesis
    using a(5) by auto
qed

theorem reserve_excludes_others_witness:
  "\<exists>db e. (review_step rsha)\<^sup>*\<^sup>* rdemo_db db
     \<and> review_reserve rsha 25 60 ''m'' 61 id ''ORG'' ''RV-7'' ''SUP'' 2 ''c'' db = Inl e"
proof (rule rdemo_reached)
  fix db2
  assume run: "(review_step rsha)\<^sup>*\<^sup>* rdemo_db db2" and
    "\<exists>r x m. scoped_review ''ORG'' ''RV-7'' db2 = Some r \<and> active_reservation r 25 db2 = Some x
        \<and> review_member (rv_organization_id r) ''SUP'' db2 = Inr m \<and> rr_reviewer_id x \<noteq> Some (mem_id m)"
  then obtain r x m where "scoped_review ''ORG'' ''RV-7'' db2 = Some r" "active_reservation r 25 db2 = Some x"
    "review_member (rv_organization_id r) ''SUP'' db2 = Inr m" "rr_reviewer_id x \<noteq> Some (mem_id m)" by blast
  from reserve_excludes_others [OF rdemo_clean run this] show ?thesis using run by blast
qed

theorem review_get_shows_holder_witness:
  "\<exists>db b db'. review_get 25 id ''ORG'' ''RV-7'' db = Inr (Some b, db')
     \<and> (rv_status (rb_review b) = RS_RESERVED) = (rb_reservation b \<noteq> None)"
proof (rule rdemo_reached)
  fix db2
  assume run: "(review_step rsha)\<^sup>*\<^sup>* rdemo_db db2"
    and "\<exists>b db'. review_get 25 id ''ORG'' ''RV-7'' db2 = Inr (Some b, db')"
  then obtain b db' where g: "review_get 25 id ''ORG'' ''RV-7'' db2 = Inr (Some b, db')" by blast
  from review_get_shows_holder [OF rdemo_clean run g] show ?thesis using g by blast
qed

theorem approval_publishes_reviewed_draft_witness:
  "\<exists>db b db' q. run_decide rsha rdemo_request db = Inr (b, db') \<and> q \<in> set (response_drafts db')
     \<and> rd_status q = RSP_READY"
proof (rule rdemo_decided)
  fix db2 b3 db3
  assume d: "run_decide rsha rdemo_request db2 = Inr (b3, db3)"
  then have "review_decide rsha 30 rdemo_decide_ids ''ORG'' ''RV-7'' ''MEM'' 2 ''fp'' RD_APPROVE ''ok'' ''c'' db2
      = Inr (b3, db3)" by (simp add: run_decide_def rdemo_request_def)
  from approval_publishes_reviewed_draft [OF this] show ?thesis using d by blast
qed

section \<open>Offered and refused\<close>

definition rdemo_analysis :: analysis_run where
  "rdemo_analysis =
     \<lparr>ar_id = 9, ar_public_id = ''AR'', ar_organization_id = 1, ar_case_id = 3,
      ar_status = AN_COMPLETED, ar_policy_status = ER_RELEVANT, ar_case_version = 3,
      ar_input_fingerprint = ''i'', ar_context_fingerprint = ''7'', ar_evidence_fingerprint = ''7'',
      ar_initiated_by = ''SPEC'', ar_model_version = ''1'', ar_prompt_version = ''1'',
      ar_graph_version = ''1'', ar_risk_rule_version = ''1'', ar_started_at = 0,
      ar_completed_at = 0\<rparr>"

definition rdemo_brief :: decision_brief where
  "rdemo_brief =
     \<lparr>br_run = rdemo_analysis, br_proposal = demo_proposal,
      br_version = proposal_version.extend
        (demo_version\<lparr>pv_impact_amount := Some 1000, pv_impact_currency := Some ''USD''\<rparr>)
        (proposal_version_record.fields [''CPE''] [''BO'']),
      br_proposed_actions = [demo_proposed_action],
      br_response_draft = rdemo_draft\<lparr>prd_status := RSP_DRAFT\<rparr>, br_checkpoints = []\<rparr>"

lemmas rdemo_brief_code = rdemo_brief_def rdemo_analysis_def demo_version_def demo_proposed_action_def
  rdemo_draft_def proposal_version.defs proposal_version_record.defs

theorem administrator_rule_witness:
  "rule_required_role (assess_review_rule rdemo_brief None 1) = ADMINISTRATOR"
  using administrator_rule [of rdemo_brief None 1]
  by (simp add: rdemo_brief_code default_administrator_financial_limits_def)

text \<open>An approval can be offered and then refused: the offered decisions accept a response
  draft that is still a draft, while recording the approval insists on a ready one.\<close>

theorem offered_approval_refused:
  "RD_APPROVE \<in> set (allowed_decisions rdemo_brief (Some SUPERVISOR) SUPERVISOR)
   \<and> (\<exists>b1 db1 b2 db2.
        review_submit rsha 10 rdemo_submit_ids ''ORG'' ''CASE'' ''SPEC'' rdemo_submission ''c''
          (rdemo_db\<lparr>proposal_response_drafts := [br_response_draft rdemo_brief]\<rparr>) = Inr (b1, db1)
      \<and> review_reserve rsha 20 53 ''n'' 54 id ''ORG'' ''RV-7'' ''MEM'' 1 ''c'' db1 = Inr (b2, db2)
      \<and> run_decide rsha rdemo_request db2 = Inl (ReviewSnapshotStale
          ''The reviewed resolution does not contain a ready response draft.''))"
proof
  show "RD_APPROVE \<in> set (allowed_decisions rdemo_brief (Some SUPERVISOR) SUPERVISOR)"
    by (simp add: allowed_decisions_def role_satisfies_def approval_is_safe_def rdemo_brief_code Let_def)
qed (simp add: rdemo_eval rdemo_brief_def cong: bindE_first)

end
