(* ===== verification/System_Witness.thy ===== *)
theory System_Witness
  imports Materialization_Props Review_Witness
begin

text \<open>
  The properties of the composed system at a concrete run: the refund of the review run is
  submitted, reserved, approved, materialized and leased for execution.
\<close>

lemmas sdemo_eval = rdemo_eval demo_code demo_exec

lemma sdemo_run:
  "\<exists>b1 db1 b2 db2 b3 db3 bs db4 lease db5.
     review_submit rsha 10 rdemo_submit_ids ''ORG'' ''CASE'' ''SPEC'' rdemo_submission ''c'' rdemo_db
       = Inr (b1, db1)
   \<and> review_reserve rsha 20 53 ''n'' 54 id ''ORG'' ''RV-7'' ''MEM'' 1 ''c'' db1 = Inr (b2, db2)
   \<and> review_decide rsha 30 rdemo_decide_ids ''ORG'' ''RV-7'' ''MEM'' 2 ''fp'' RD_APPROVE ''ok'' ''c'' db2
       = Inr (b3, db3)
   \<and> materialize_approved_review rsha 60 demo_fresh ''ORG'' ''RV-7'' ''c'' db3 = Inr (bs, db4)
   \<and> prepare_execution rsha 70 30 31 id ''ORG'' ''AC-7'' ''MEM'' 1 CMD_EXECUTE ''c'' db4 = Inr (lease, db5)"
  by (simp add: sdemo_eval cong: bindE_first)

lemma sdemo_clean: "no_reviews rdemo_db" "no_actions rdemo_db"
  by (simp_all add: no_reviews_def no_actions_def rdemo_db_def demo_db_def)

lemma sdemo_leased:
  obtains db3 bs db4 lease db5 where "(system_step rsha)\<^sup>*\<^sup>* rdemo_db db4"
    and "materialize_approved_review rsha 60 demo_fresh ''ORG'' ''RV-7'' ''c'' db3 = Inr (bs, db4)"
    and "prepare_execution rsha 70 30 31 id ''ORG'' ''AC-7'' ''MEM'' 1 CMD_EXECUTE ''c'' db4 = Inr (lease, db5)"
proof -
  obtain b1 db1 b2 db2 b3 db3 bs db4 lease db5 where
    s: "review_submit rsha 10 rdemo_submit_ids ''ORG'' ''CASE'' ''SPEC'' rdemo_submission ''c'' rdemo_db
       = Inr (b1, db1)"
    "review_reserve rsha 20 53 ''n'' 54 id ''ORG'' ''RV-7'' ''MEM'' 1 ''c'' db1 = Inr (b2, db2)"
    "review_decide rsha 30 rdemo_decide_ids ''ORG'' ''RV-7'' ''MEM'' 2 ''fp'' RD_APPROVE ''ok'' ''c'' db2
       = Inr (b3, db3)"
    and m: "materialize_approved_review rsha 60 demo_fresh ''ORG'' ''RV-7'' ''c'' db3 = Inr (bs, db4)"
    and l: "prepare_execution rsha 70 30 31 id ''ORG'' ''AC-7'' ''MEM'' 1 CMD_EXECUTE ''c'' db4 = Inr (lease, db5)"
    using sdemo_run by blast
  have "(system_step rsha)\<^sup>*\<^sup>* rdemo_db db4"
    using system_commands(9) [OF s(1) s(1)] system_commands(10) [OF s(2) s(2)]
      system_commands(11) [OF s(3) s(3)] system_materialize [OF m]
    by (meson converse_rtranclp_into_rtranclp rtranclp.rtrancl_refl)
  then show thesis using that m l by blast
qed

section \<open>Witnesses\<close>

theorem execution_needs_second_person_witness:
  "\<exists>db lease db' a d. prepare_execution rsha 70 30 31 id ''ORG'' ''AC-7'' ''MEM'' 1 CMD_EXECUTE ''c'' db
       = Inr (lease, db')
     \<and> row_get act_id (el_action_id lease) (actions db) = Some a
     \<and> row_get rvd_id (act_review_decision_id a) (review_decisions db) = Some d
     \<and> rvd_decision d = RD_APPROVE"
proof (rule sdemo_leased)
  fix db4 lease db5
  assume "(system_step rsha)\<^sup>*\<^sup>* rdemo_db db4"
    and l: "prepare_execution rsha 70 30 31 id ''ORG'' ''AC-7'' ''MEM'' 1 CMD_EXECUTE ''c'' db4 = Inr (lease, db5)"
  from execution_needs_second_person [OF sdemo_clean this] show ?thesis using l by blast
qed

theorem materialize_idempotent_witness:
  "\<exists>db bs db'. materialize_approved_review rsha 60 demo_fresh ''ORG'' ''RV-7'' ''c'' db = Inr (bs, db')
     \<and> materialize_approved_review rsha 90 demo_fresh ''ORG'' ''RV-7'' ''d'' db' = Inr (bs, db')"
proof (rule sdemo_leased)
  fix db3 bs db4
  assume m: "materialize_approved_review rsha 60 demo_fresh ''ORG'' ''RV-7'' ''c'' db3 = Inr (bs, db4)"
  from materialize_idempotent [OF this] show ?thesis using m by blast
qed

theorem materialize_complete_witness:
  "\<exists>db bs db' ap. materialize_approved_review rsha 60 demo_fresh ''ORG'' ''RV-7'' ''c'' db = Inr (bs, db')
     \<and> approved_lineage ''ORG'' ''RV-7'' db = Inr ap
     \<and> map (act_proposed_action_id \<circ> ab_action) bs = map pa_id (reviewed_actions (ap_review ap) db)"
proof (rule sdemo_leased)
  fix db3 bs db4
  assume m: "materialize_approved_review rsha 60 demo_fresh ''ORG'' ''RV-7'' ''c'' db3 = Inr (bs, db4)"
  from materialize_complete [OF this] show ?thesis using m by blast
qed

end
