(* ===== verification/Workspace.thy ===== *)
theory Workspace
  imports Review_Authority
begin

text \<open>
  The records the decision engine reads and writes: the case workspace of \<open>domain/cases.py\<close>,
  the retrieved policy evidence of \<open>domain/policies.py\<close> and the analysis of
  \<open>domain/decision_briefs.py\<close>, with the constraints their constructors check. A constructor
  whose constraint fails raises; \<open>ValueError\<close> carries the name of the model. Records that are
  read from a row with \<open>from_attributes\<close> are that row.
\<close>

section \<open>The workspace of a case\<close>

record case_owner =
  ow_id :: uuid
  ow_public_id :: string
  ow_name :: string

record case_activity =
  ca_id :: uuid
  ca_event_type :: string
  ca_actor_id :: "string option"
  ca_summary :: string
  ca_occurred_at :: timestamp

record case_history_position =
  hp_occurred_at :: timestamp
  hp_tie_breaker :: string

record collection_window =
  cw_returned :: int
  cw_total :: int
  cw_has_more :: bool
  cw_next_position :: "case_history_position option"

text \<open>\<open>CaseCollectionWindowRecord.validate_window\<close>.\<close>

definition validate_window :: "collection_window \<Rightarrow> error + collection_window" where
  "validate_window w =
     bindE (requireE (0 \<le> cw_returned w \<and> 0 \<le> cw_total w) (ValueError ''CaseCollectionWindowRecord'')) (\<lambda>_.
     bindE (requireE (cw_returned w \<le> cw_total w)
              (ValueError ''returned collection items cannot exceed the total'')) (\<lambda>_.
     bindE (requireE (cw_has_more w \<longleftrightarrow> cw_returned w < cw_total w)
              (ValueError ''has_more must match the returned and total collection counts'')) (\<lambda>_.
     bindE (requireE (cw_has_more w \<or> cw_next_position w = None)
              (ValueError ''a continuation position requires more collection items'')) (\<lambda>_.
     Inr w))))"

record workspace_collections =
  wc_business_contexts :: collection_window
  wc_messages :: collection_window
  wc_activity :: collection_window

record case_workspace =
  ws_case :: case_row
  ws_request :: case_request
  ws_customer :: customer_context
  ws_business_contexts :: "business_object_snapshot list"
  ws_owner :: "case_owner option"
  ws_thread :: conversation_thread
  ws_messages :: "conversation_message list"
  ws_draft :: "response_draft option"
  ws_activity :: "case_activity list"
  ws_collections :: workspace_collections

section \<open>Retrieved policy evidence\<close>

record evidence_bundle =
  eb_evidence :: policy_evidence
  eb_policy :: policy_record
  eb_version :: policy_version
  eb_clause :: policy_clause

record evidence_result =
  er_status :: evidence_retrieval_status
  er_reason :: string
  er_evidence :: "evidence_bundle list"

section \<open>The analysis\<close>

record proposed_action_draft =
  pad_type :: string
  pad_label :: string
  pad_parameters :: "(string \<times> string) list"
  pad_impact_amount :: "decimal option"
  pad_impact_currency :: "string option"
  pad_expected_outcome :: string
  pad_review_required :: bool

record suggested_response =
  sr_subject :: string
  sr_body :: string
  sr_status :: response_suggestion_status

record checkpoint_draft =
  cd_sequence :: int
  cd_step :: string
  cd_status :: checkpoint_status
  cd_summary :: string
  cd_input_fingerprint :: string
  cd_output_fingerprint :: string

record decision_analysis =
  da_status :: analysis_status
  da_policy_status :: evidence_retrieval_status
  da_facts :: "verified_fact list"
  da_missing_information :: "information_gap list"
  da_risks :: "decision_risk_check list"
  da_outcome :: string
  da_impact_amount :: "decimal option"
  da_impact_currency :: "string option"
  da_confidence :: proposal_confidence
  da_uncertainty :: string
  da_rationale :: string
  da_state :: decision_proposal_state
  da_proposed_actions :: "proposed_action_draft list"
  da_response_draft :: suggested_response
  da_checkpoints :: "checkpoint_draft list"
  da_risk_rule_version :: string
  da_model_version :: string
  da_prompt_version :: string
  da_graph_version :: string

text \<open>The field constraints: \<open>min_length\<close> with \<open>max_length\<close>, the currency pattern
  \<open>^[A-Z]{3}$\<close>, and amount and currency given together.\<close>

definition len_ok :: "nat \<Rightarrow> nat \<Rightarrow> string \<Rightarrow> bool" where
  "len_ok lo hi s \<longleftrightarrow> lo \<le> length s \<and> length s \<le> hi"

definition currency_ok :: "string \<Rightarrow> bool" where
  "currency_ok s \<longleftrightarrow>
     length s = 3 \<and> list_all (\<lambda>c. 65 \<le> (of_char c :: nat) \<and> (of_char c :: nat) \<le> 90) s"

definition impact_ok :: "decimal option \<Rightarrow> string option \<Rightarrow> bool" where
  "impact_ok amount currency \<longleftrightarrow>
     (case amount of None \<Rightarrow> True | Some a \<Rightarrow> 0 \<le> a)
     \<and> (case currency of None \<Rightarrow> True | Some c \<Rightarrow> currency_ok c)
     \<and> (amount = None \<longleftrightarrow> currency = None)"

definition valid_fact :: "verified_fact \<Rightarrow> error + verified_fact" where
  "valid_fact f = bindE (requireE (len_ok 1 64 (fact_id f) \<and> len_ok 1 1000 (fact_statement f)
       \<and> len_ok 1 300 (fact_source f)) (ValueError ''VerifiedFact'')) (\<lambda>_. Inr f)"

definition valid_gap :: "information_gap \<Rightarrow> error + information_gap" where
  "valid_gap g = bindE (requireE (len_ok 1 64 (gap_id g) \<and> len_ok 1 300 (gap_label g)
       \<and> len_ok 1 1000 (gap_description g)) (ValueError ''InformationGap'')) (\<lambda>_. Inr g)"

definition valid_risk :: "decision_risk_check \<Rightarrow> error + decision_risk_check" where
  "valid_risk r = bindE (requireE (len_ok 1 64 (risk_id r) \<and> len_ok 1 300 (risk_label r)
       \<and> len_ok 1 1000 (risk_explanation r)) (ValueError ''DecisionRiskCheck'')) (\<lambda>_. Inr r)"

definition valid_action_draft :: "proposed_action_draft \<Rightarrow> error + proposed_action_draft" where
  "valid_action_draft a = bindE (requireE (len_ok 1 100 (pad_type a) \<and> len_ok 1 300 (pad_label a)
       \<and> impact_ok (pad_impact_amount a) (pad_impact_currency a)
       \<and> len_ok 1 1000 (pad_expected_outcome a)) (ValueError ''ProposedActionDraft'')) (\<lambda>_. Inr a)"

definition valid_response :: "suggested_response \<Rightarrow> error + suggested_response" where
  "valid_response r = bindE (requireE (len_ok 1 300 (sr_subject r) \<and> len_ok 1 10000 (sr_body r))
       (ValueError ''SuggestedResponseDraft'')) (\<lambda>_. Inr r)"

definition valid_checkpoint :: "checkpoint_draft \<Rightarrow> error + checkpoint_draft" where
  "valid_checkpoint c = bindE (requireE (1 \<le> cd_sequence c \<and> len_ok 1 64 (cd_step c)
       \<and> len_ok 1 1000 (cd_summary c) \<and> len_ok 64 64 (cd_input_fingerprint c)
       \<and> len_ok 64 64 (cd_output_fingerprint c)) (ValueError ''AnalysisCheckpointDraft'')) (\<lambda>_. Inr c)"

definition valid_analysis :: "decision_analysis \<Rightarrow> error + decision_analysis" where
  "valid_analysis d = bindE (requireE (len_ok 1 500 (da_outcome d)
       \<and> impact_ok (da_impact_amount d) (da_impact_currency d)
       \<and> len_ok 1 1000 (da_uncertainty d) \<and> len_ok 1 2000 (da_rationale d)
       \<and> da_checkpoints d \<noteq> [] \<and> len_ok 1 100 (da_risk_rule_version d)
       \<and> len_ok 1 100 (da_model_version d) \<and> len_ok 1 100 (da_prompt_version d)
       \<and> len_ok 1 100 (da_graph_version d)) (ValueError ''DecisionAnalysis'')) (\<lambda>_. Inr d)"

lemma valid_Inr [run_simps]:
  "valid_fact f = Inr f' \<longleftrightarrow> f' = f \<and> len_ok 1 64 (fact_id f) \<and> len_ok 1 1000 (fact_statement f)
     \<and> len_ok 1 300 (fact_source f)"
  "valid_gap g = Inr g' \<longleftrightarrow> g' = g \<and> len_ok 1 64 (gap_id g) \<and> len_ok 1 300 (gap_label g)
     \<and> len_ok 1 1000 (gap_description g)"
  "valid_risk r = Inr r' \<longleftrightarrow> r' = r \<and> len_ok 1 64 (risk_id r) \<and> len_ok 1 300 (risk_label r)
     \<and> len_ok 1 1000 (risk_explanation r)"
  "valid_action_draft a = Inr a' \<longleftrightarrow> a' = a \<and> len_ok 1 100 (pad_type a) \<and> len_ok 1 300 (pad_label a)
     \<and> impact_ok (pad_impact_amount a) (pad_impact_currency a) \<and> len_ok 1 1000 (pad_expected_outcome a)"
  "valid_response p = Inr p' \<longleftrightarrow> p' = p \<and> len_ok 1 300 (sr_subject p) \<and> len_ok 1 10000 (sr_body p)"
  by (auto simp: valid_fact_def valid_gap_def valid_risk_def valid_action_draft_def valid_response_def
      run_simps)

end
