(* ===== verification/Response_Drafting.thy ===== *)
theory Response_Drafting
  imports Workspace
begin

text \<open>
  The customer-safe response draft of \<open>analysis/customer_response_drafting.py\<close>. Line breaks are
  written with the character code 10.
\<close>

abbreviation paragraph_break :: string where
  "paragraph_break \<equiv> [CHR 0x0A, CHR 0x0A]"

fun information_needed_subject :: "case_category \<Rightarrow> string" where
  "information_needed_subject BILLING_DISPUTE = ''Information needed for your billing case''"
| "information_needed_subject REFUND_REQUEST = ''Information needed for your refund request''"
| "information_needed_subject ACCOUNT_ACCESS = ''Information needed for account recovery''"
| "information_needed_subject SERVICE_EXCEPTION = ''Information needed for your service case''"

fun review_subject :: "case_category \<Rightarrow> string" where
  "review_subject BILLING_DISPUTE = ''Update on your billing case''"
| "review_subject REFUND_REQUEST = ''Update on your refund request''"
| "review_subject ACCOUNT_ACCESS = ''Update on your account recovery request''"
| "review_subject SERVICE_EXCEPTION = ''Update on your service case''"

definition billing_record_observation :: "case_workspace \<Rightarrow> string" where
  "billing_record_observation ws =
     (let payment_statuses = map (\<lambda>c. str_lower (bo_status c))
            (filter (\<lambda>c. bo_object_type c = BO_PAYMENT) (ws_business_contexts ws));
          settled_count = count_list payment_statuses ''settled'';
          recorded_count = length (filter (\<lambda>s. s \<in> {''captured'', ''settled''}) payment_statuses)
      in if settled_count = 1
         then ''Our records currently show one settled payment, not two settled charges.''
         else if recorded_count = 1
         then ''Our records currently show one captured payment record, not two settled charges.''
         else if recorded_count > 1
         then ''Our records show multiple payment records, but fewer than two are confirmed ''
              @ ''as settled charges.''
         else ''Our records do not yet confirm two settled charges.'')"

definition internal_check_note :: "string set \<Rightarrow> string option" where
  "internal_check_note labels =
     (let notes =
            (if ''Current source context'' \<in> labels
             then [''refreshing the current source records''] else [])
            @ (if ''Applicable policy'' \<in> labels
               then [''confirming the rule that applies to this case''] else [])
            @ (if ''Complete business records'' \<in> labels
               then [''consolidating the relevant business records''] else [])
      in if notes = [] then None
         else Some (''Our team is also '' @ str_join '' and '' notes @ ''.''))"

text \<open>The two middle paragraphs: what the records show and what is asked for.\<close>

definition information_needed_text ::
    "case_workspace \<Rightarrow> information_gap list \<Rightarrow> string \<times> string" where
  "information_needed_text ws blocking =
     (let labels = gap_label ` set blocking; category = cs_category (ws_case ws)
      in if category = BILLING_DISPUTE \<and> ''Second payment reference'' \<in> labels
         then (billing_record_observation ws,
               ''Please send the second settled payment reference, or an updated statement ''
               @ ''showing both settled charges, once it becomes available. We need that record ''
               @ ''to verify a duplicate before considering any billing adjustment.'')
         else if category = REFUND_REQUEST \<and> ''Service delivery status'' \<in> labels
         then (''The current records do not confirm whether service delivery has started.'',
               ''Please confirm the current delivery status and whether any part of the service ''
               @ ''has been used. We need that information before considering a refund.'')
         else if category = ACCOUNT_ACCESS \<and> ''Identity verification'' \<in> labels
         then (''The account ownership check is not complete yet.'',
               ''Please complete the approved identity-verification step. We need that check ''
               @ ''before considering any change to the recovery channel.'')
         else if category = SERVICE_EXCEPTION \<and> ''Service outcome'' \<in> labels
         then (''The current records do not confirm a failed or incomplete service.'',
               ''Please provide the latest service outcome or supporting record. We need it ''
               @ ''before considering a correction.'')
         else (let joined = str_join '', '' (map (\<lambda>g. str_lower (gap_label g)) blocking);
                   needed = (if joined = [] then ''the remaining records'' else joined)
               in (''We still need to confirm '' @ needed @ '' before deciding the outcome.'',
                   ''We will contact you if an additional record is needed from you.'')))"

definition information_needed_body :: "case_workspace \<Rightarrow> information_gap list \<Rightarrow> string" where
  "information_needed_body ws blocking =
     (let (detail, request) = information_needed_text ws blocking
      in str_join paragraph_break
           ([''Hello '' @ cc_name (ws_customer ws) @ '','', detail, request]
            @ (case internal_check_note (gap_label ` set blocking) of
                 None \<Rightarrow> [] | Some note \<Rightarrow> if note = [] then [] else [note])
            @ [''We will update you after these checks are complete.'']))"

definition review_language :: "proposed_action_draft option \<Rightarrow> string \<times> string \<times> string" where
  "review_language action =
     (case action of
        None \<Rightarrow> (''We reviewed the available records for your case.'',
                 ''A proposed resolution has been prepared for review.'',
                 ''No customer-impacting action has been taken yet.'')
      | Some a \<Rightarrow>
          if pad_type a = ''reverse_duplicate_charge''
          then (''We verified two settled payment records for this case.'',
                ''A reversal of the duplicate charge has been prepared for review.'',
                ''No reversal has been made yet.'')
          else if pad_type a = ''issue_refund''
          then (''The records show that the service order is unused and delivery has not started.'',
                ''A refund has been prepared for review.'',
                ''The refund remains pending and has not been issued.'')
          else if pad_type a = ''start_verified_recovery''
          then (''The account ownership check is complete.'',
                ''A controlled account recovery path has been prepared for review.'',
                ''No recovery-channel change has been made yet.'')
          else if pad_type a = ''apply_service_correction''
          then (''The records confirm the failed or incomplete service outcome.'',
                ''A service correction has been prepared for review.'',
                ''No correction has been applied yet.'')
          else (''We reviewed the available records for your case.'',
                ''The proposed next step, '' @ str_lower (pad_label a)
                @ '', has been prepared for review.'',
                ''No customer-impacting action has been taken yet.''))"

definition review_body :: "case_workspace \<Rightarrow> proposed_action_draft option \<Rightarrow> string" where
  "review_body ws action =
     (let (evidence, proposal, not_completed) = review_language action
      in str_join paragraph_break
           [''Hello '' @ cc_name (ws_customer ws) @ '','', evidence, proposal, not_completed,
            ''We will update you after the required review is complete.''])"

definition draft_customer_response ::
    "case_workspace \<Rightarrow> decision_proposal_state \<Rightarrow> information_gap list
     \<Rightarrow> proposed_action_draft list \<Rightarrow> error + suggested_response" where
  "draft_customer_response ws state blocking proposed =
     (if state = DP_INFORMATION_NEEDED
      then valid_response
             \<lparr>sr_subject = information_needed_subject (cs_category (ws_case ws)),
              sr_body = information_needed_body ws blocking, sr_status = RSP_BLOCKED\<rparr>
      else valid_response
             \<lparr>sr_subject = review_subject (cs_category (ws_case ws)),
              sr_body = review_body ws (case proposed of [] \<Rightarrow> None | a # _ \<Rightarrow> Some a),
              sr_status = RSP_READY\<rparr>)"

end
