(* ===== verification/Decision_Engine.thy ===== *)
theory Decision_Engine
  imports Response_Drafting Reviews
begin

text \<open>
  The deterministic decision engine of \<open>analysis/deterministic_decision_engine.py\<close>: the
  fingerprints of its inputs, the facts, information gaps and risk checks it derives from a case
  workspace and the retrieved policy evidence, and the analysis it puts together from them.
\<close>

section \<open>Versions and values\<close>

definition decision_model_version :: string where
  "decision_model_version = ''deterministic-decision-engine-v3''"

definition decision_prompt_version :: string where
  "decision_prompt_version = ''decision-brief-rules-v2''"

definition decision_graph_version :: string where
  "decision_graph_version = ''generic-decision-brief-v1''"

definition decision_risk_rule_version :: string where
  "decision_risk_rule_version = ''generic-risk-rules-v2''"

fun retrieval_status_value :: "evidence_retrieval_status \<Rightarrow> string" where
  "retrieval_status_value ER_RELEVANT = ''relevant''"
| "retrieval_status_value ER_MISSING = ''missing''"
| "retrieval_status_value ER_STALE = ''stale''"
| "retrieval_status_value ER_CONFLICTING = ''conflicting''"
| "retrieval_status_value ER_INAPPLICABLE = ''inapplicable''"

fun risk_outcome_value :: "risk_outcome \<Rightarrow> string" where
  "risk_outcome_value RISK_PASSED = ''passed''"
| "risk_outcome_value RISK_REQUIRES_REVIEW = ''requires_review''"
| "risk_outcome_value RISK_INFORMATION_NEEDED = ''information_needed''"
| "risk_outcome_value RISK_BLOCKED = ''blocked''"

fun analysis_status_value :: "analysis_status \<Rightarrow> string" where
  "analysis_status_value AN_COMPLETED = ''completed''"
| "analysis_status_value AN_ABSTAINED = ''abstained''"

section \<open>Fingerprints of the inputs\<close>

definition context_snapshot_fingerprint ::
    "(string \<Rightarrow> string) \<Rightarrow> business_object_snapshot \<Rightarrow> string" where
  "context_snapshot_fingerprint sha c = hash_json sha
     (JObj [(''public_id'', JStr (bo_public_id c)), (''version'', JInt (bo_version c)),
            (''type'', JStr (business_object_type_value (bo_object_type c))),
            (''status'', JStr (bo_status c)), (''source'', JStr (bo_source c)),
            (''source_reference'', JStr (bo_source_reference c)),
            (''fields'', JObj (sort_key fst
               (map (\<lambda>(k, v). (k, JStr (py_str v))) (json_items (bo_fields c))))),
            (''captured_at'', JStr (isoformat (bo_captured_at c))),
            (''source_freshness'', JStr (source_freshness_value (bo_source_freshness c))),
            (''source_checked_at'', json_opt (JStr \<circ> isoformat) (bo_source_checked_at c))])"

definition combined_context_fingerprint :: "(string \<Rightarrow> string) \<Rightarrow> case_workspace \<Rightarrow> string" where
  "combined_context_fingerprint sha ws = hash_json sha
     (JList (map (\<lambda>c. JObj [(''id'', JStr (bo_public_id c)),
                            (''fingerprint'', JStr (context_snapshot_fingerprint sha c))])
               (sort_key bo_public_id (ws_business_contexts ws))))"

definition combined_evidence_fingerprint :: "(string \<Rightarrow> string) \<Rightarrow> evidence_result \<Rightarrow> string" where
  "combined_evidence_fingerprint sha ev = hash_json sha
     (JObj [(''status'', JStr (retrieval_status_value (er_status ev))),
            (''evidence'', JList (map JStr
               (sort (map (\<lambda>b. cpe_fingerprint (eb_evidence b)) (er_evidence ev)))))])"

definition decision_input_fingerprint ::
    "(string \<Rightarrow> string) \<Rightarrow> case_workspace \<Rightarrow> evidence_result \<Rightarrow> string \<Rightarrow> string \<Rightarrow> string \<Rightarrow> string
     \<Rightarrow> string \<Rightarrow> string \<Rightarrow> string" where
  "decision_input_fingerprint sha ws ev context_fingerprint evidence_fingerprint model_version
       prompt_version graph_version risk_rule_version = hash_json sha
     (JObj [(''case_id'', JStr (cs_public_id (ws_case ws))),
            (''case_version'', JInt (cs_version (ws_case ws))),
            (''category'', JStr (case_category_value (cs_category (ws_case ws)))),
            (''request'', JStr (crq_summary (ws_request ws))),
            (''context_fingerprint'', JStr context_fingerprint),
            (''evidence_fingerprint'', JStr evidence_fingerprint),
            (''policy_status'', JStr (retrieval_status_value (er_status ev))),
            (''model_version'', JStr model_version), (''prompt_version'', JStr prompt_version),
            (''graph_version'', JStr graph_version),
            (''risk_rule_version'', JStr risk_rule_version)])"

section \<open>Facts\<close>

definition field_labels :: "(string \<times> string) list" where
  "field_labels =
     [(''amount'', ''Amount''), (''currency'', ''Currency''),
      (''delivery_state'', ''Delivery state''),
      (''attempt_count'', ''Recorded payment attempts''),
      (''identity_check'', ''Identity check''), (''ownership_match'', ''Ownership match''),
      (''mfa_state'', ''Multi-factor authentication'')]"

text \<open>\<open>context.fields.get(key)\<close>: no value and a stored \<open>null\<close> are both \<open>None\<close>.\<close>

definition field_value :: "business_object_snapshot \<Rightarrow> string \<Rightarrow> json option" where
  "field_value c key =
     (case map_of (json_items (bo_fields c)) key of
        Some v \<Rightarrow> if v = JNull then None else Some v
      | None \<Rightarrow> None)"

definition context_facts ::
    "(string \<Rightarrow> string) \<Rightarrow> case_workspace \<Rightarrow> business_object_snapshot \<Rightarrow> verified_fact list" where
  "context_facts sha ws c =
     (let verified_at = (case bo_source_checked_at c of Some t \<Rightarrow> t | None \<Rightarrow> bo_captured_at c);
          source = bo_source c @ '' / '' @ bo_source_reference c;
          fact = (\<lambda>key statement.
            \<lparr>fact_id = stable_public_id sha ''FCT'' [cs_public_id (ws_case ws), bo_public_id c, key],
             fact_statement = statement, fact_source = source, fact_verified_at = verified_at\<rparr>)
      in fact ''status'' (bo_label c @ '' is recorded with status '' @ bo_status c @ ''.'')
         # concat (map (\<lambda>(key, label). case field_value c key of
                      None \<Rightarrow> [] | Some v \<Rightarrow> [fact key (label @ '': '' @ py_str v @ ''.'')])
                    field_labels))"

definition facts_of :: "(string \<Rightarrow> string) \<Rightarrow> case_workspace \<Rightarrow> error + verified_fact list" where
  "facts_of sha ws =
     mapE valid_fact (concat (map (context_facts sha ws) (ws_business_contexts ws)))"

section \<open>Information gaps\<close>

fun policy_gap_description :: "evidence_retrieval_status \<Rightarrow> string" where
  "policy_gap_description ER_MISSING = ''No published policy currently covers this case.''"
| "policy_gap_description ER_INAPPLICABLE =
     ''Published policies exist but do not match this case context.''"
| "policy_gap_description ER_STALE = ''Matching policy versions are outside their effective dates.''"
| "policy_gap_description ER_CONFLICTING =
     ''Published policies claim conflicting authority for this decision.''"
| "policy_gap_description ER_RELEVANT = ''Published policy evidence is available.''"

definition confirmed_ownership_matches :: "string list" where
  "confirmed_ownership_matches = [''exact'', ''match'', ''matched'', ''verified'']"

definition has_conflicting_ownership_evidence :: "case_workspace \<Rightarrow> bool" where
  "has_conflicting_ownership_evidence ws \<longleftrightarrow>
     list_ex (\<lambda>c. case field_value c ''ownership_match'' of None \<Rightarrow> False
               | Some v \<Rightarrow> str_lower (str_strip (py_str v)) \<notin> set confirmed_ownership_matches)
       (ws_business_contexts ws)"

definition gap_of :: "(string \<Rightarrow> string) \<Rightarrow> string \<Rightarrow> string \<times> string \<times> string \<Rightarrow> information_gap" where
  "gap_of sha case_id spec =
     (case spec of (key, label, description) \<Rightarrow>
        \<lparr>gap_id = stable_public_id sha ''GAP'' [case_id, key], gap_label = label,
         gap_description = description, gap_blocking = True\<rparr>)"

definition stale_labels :: "case_workspace \<Rightarrow> string list" where
  "stale_labels ws = map bo_label
     (filter (\<lambda>c. bo_source_freshness c \<noteq> SF_CURRENT) (ws_business_contexts ws))"

definition settled_payment_references :: "case_workspace \<Rightarrow> string set" where
  "settled_payment_references ws = bo_source_reference `
     set (filter (\<lambda>c. bo_object_type c = BO_PAYMENT \<and> bo_status c = ''settled'')
            (ws_business_contexts ws))"

text \<open>\<open>str(context.fields.get(key, ""))\<close>: a stored \<open>null\<close> prints as \<open>None\<close>.\<close>

definition field_text :: "business_object_snapshot \<Rightarrow> string \<Rightarrow> string" where
  "field_text c key =
     (case map_of (json_items (bo_fields c)) key of None \<Rightarrow> [] | Some v \<Rightarrow> py_str v)"

definition eligible_order :: "case_workspace \<Rightarrow> bool" where
  "eligible_order ws \<longleftrightarrow>
     list_ex (\<lambda>c. bo_object_type c = BO_ORDER \<and> bo_status c = ''unused''
                \<and> field_text c ''delivery_state'' = ''not_started'') (ws_business_contexts ws)"

definition verified_identity :: "case_workspace \<Rightarrow> bool" where
  "verified_identity ws \<longleftrightarrow>
     list_ex (\<lambda>c. bo_object_type c = BO_ACCOUNT \<and> field_text c ''identity_check'' = ''verified'')
       (ws_business_contexts ws)"

definition failed_service :: "case_workspace \<Rightarrow> bool" where
  "failed_service ws \<longleftrightarrow>
     list_ex (\<lambda>c. bo_status c \<in> {''failed'', ''incomplete'', ''not_delivered''})
       (ws_business_contexts ws)"

definition category_gaps :: "case_workspace \<Rightarrow> (string \<times> string \<times> string) list" where
  "category_gaps ws =
     (case cs_category (ws_case ws) of
        BILLING_DISPUTE \<Rightarrow>
          if card (settled_payment_references ws) < 2
          then [(''second-payment-reference'', ''Second payment reference'',
                 ''Confirm a second settled payment reference before treating the charge as a ''
                 @ ''duplicate.'')]
          else []
      | REFUND_REQUEST \<Rightarrow>
          if \<not> eligible_order ws
          then [(''delivery-status'', ''Service delivery status'',
                 ''Confirm that service delivery has not started before proposing a refund.'')]
          else []
      | ACCOUNT_ACCESS \<Rightarrow>
          if has_conflicting_ownership_evidence ws
          then [(''identity-verification-conflict'', ''Identity verification'',
                 ''Resolve the conflicting ownership evidence through specialist review ''
                 @ ''before starting account recovery or changing an authentication setting.'')]
          else if \<not> verified_identity ws
          then [(''identity-verification'', ''Identity verification'',
                 ''Complete the account ownership check before changing a recovery channel.'')]
          else []
      | SERVICE_EXCEPTION \<Rightarrow>
          if \<not> failed_service ws
          then [(''service-outcome'', ''Service outcome'',
                 ''Confirm the failed or incomplete service outcome before proposing a ''
                 @ ''correction.'')]
          else [])"

definition gap_specs ::
    "case_workspace \<Rightarrow> evidence_retrieval_status \<Rightarrow> (string \<times> string \<times> string) list" where
  "gap_specs ws status =
     (if cw_has_more (wc_business_contexts (ws_collections ws))
      then [(''complete-business-context'', ''Complete business records'',
             ''This case has more business records than the decision workspace can ''
             @ ''safely evaluate at once. Narrow or consolidate the relevant records ''
             @ ''before preparing a final resolution.'')] else [])
     @ (if status \<noteq> ER_RELEVANT
        then [(''applicable-policy'', ''Applicable policy'', policy_gap_description status)] else [])
     @ (if cs_source_freshness (ws_case ws) \<noteq> SF_CURRENT \<or> stale_labels ws \<noteq> []
        then [(''current-source-context'', ''Current source context'',
               ''Refresh '' @ (if stale_labels ws \<noteq> [] then str_join '', '' (stale_labels ws)
                              else ''case source'')
               @ '' before relying on the proposed outcome.'')] else [])
     @ category_gaps ws"

fun deduplicate_gaps :: "information_gap list \<Rightarrow> information_gap list" where
  "deduplicate_gaps [] = []"
| "deduplicate_gaps (g # gs) = g # filter (\<lambda>h. gap_id h \<noteq> gap_id g) (deduplicate_gaps gs)"

definition information_gaps ::
    "(string \<Rightarrow> string) \<Rightarrow> case_workspace \<Rightarrow> evidence_retrieval_status
     \<Rightarrow> error + information_gap list" where
  "information_gaps sha ws status =
     bindE (mapE (\<lambda>spec. valid_gap (gap_of sha (cs_public_id (ws_case ws)) spec))
              (gap_specs ws status)) (\<lambda>gaps. Inr (deduplicate_gaps gaps))"

section \<open>Risk checks\<close>

definition sources_current :: "case_workspace \<Rightarrow> bool" where
  "sources_current ws \<longleftrightarrow> cs_source_freshness (ws_case ws) = SF_CURRENT
     \<and> list_all (\<lambda>c. bo_source_freshness c = SF_CURRENT) (ws_business_contexts ws)"

definition requires_review :: "case_workspace \<Rightarrow> bool" where
  "requires_review ws \<longleftrightarrow> cs_impact_amount (ws_case ws) \<noteq> None
     \<or> cc_tier (ws_customer ws) \<in> {TIER_VIP, TIER_ENTERPRISE}
     \<or> cs_category (ws_case ws) = ACCOUNT_ACCESS \<or> cs_risk (ws_case ws) = CRISK_HIGH"

definition risk_of ::
    "(string \<Rightarrow> string) \<Rightarrow> string \<Rightarrow> string \<Rightarrow> string \<Rightarrow> risk_outcome \<Rightarrow> string
     \<Rightarrow> decision_risk_check" where
  "risk_of sha case_id key label outcome explanation =
     \<lparr>risk_id = stable_public_id sha ''RSK'' [case_id, key], risk_label = label,
      risk_outcome = outcome, risk_explanation = explanation\<rparr>"

definition risk_checks ::
    "(string \<Rightarrow> string) \<Rightarrow> case_workspace \<Rightarrow> evidence_retrieval_status \<Rightarrow> information_gap list
     \<Rightarrow> error + decision_risk_check list" where
  "risk_checks sha ws status blocking =
     (let case_id = cs_public_id (ws_case ws)
      in mapE valid_risk
        [risk_of sha case_id ''policy-authority'' ''Policy authority''
           (if status = ER_RELEVANT then RISK_PASSED else RISK_BLOCKED)
           (if status = ER_RELEVANT then ''Published policy evidence supports this decision brief.''
            else ''Applicable published policy evidence is not available; no consequential ''
                 @ ''action may proceed.''),
         risk_of sha case_id ''source-freshness'' ''Source freshness''
           (if sources_current ws then RISK_PASSED else RISK_INFORMATION_NEEDED)
           (if sources_current ws then ''Case and business context sources are current.''
            else ''One or more source snapshots must be refreshed.''),
         risk_of sha case_id ''information-completeness'' ''Information completeness''
           (if blocking \<noteq> [] then RISK_INFORMATION_NEEDED else RISK_PASSED)
           (if blocking \<noteq> [] then nat_str (length blocking) @ '' blocking information item(s) remain.''
            else ''No blocking information gap was found by deterministic checks.''),
         risk_of sha case_id ''human-authority'' ''Human authority''
           (if requires_review ws then RISK_REQUIRES_REVIEW else RISK_PASSED)
           (if requires_review ws
            then ''Customer tier, financial impact, case risk, or account sensitivity requires ''
                 @ ''review.''
            else ''No deterministic review trigger was found.'')])"

section \<open>Confidence, outcome, actions and wording\<close>

definition confidence_of ::
    "case_workspace \<Rightarrow> evidence_retrieval_status \<Rightarrow> information_gap list \<Rightarrow> proposal_confidence" where
  "confidence_of ws status blocking =
     (if status \<noteq> ER_RELEVANT \<or> blocking \<noteq> [] then CONF_LOW
      else if cs_risk (ws_case ws) = CRISK_LOW \<and> cc_tier (ws_customer ws) = TIER_STANDARD
      then CONF_HIGH else CONF_MEDIUM)"

fun open_outcome :: "case_category \<Rightarrow> string" where
  "open_outcome BILLING_DISPUTE = ''Verify the second charge before a billing adjustment''"
| "open_outcome REFUND_REQUEST = ''Confirm delivery status before a refund decision''"
| "open_outcome ACCOUNT_ACCESS = ''Complete identity verification before account recovery''"
| "open_outcome SERVICE_EXCEPTION = ''Confirm the service failure before a correction''"

fun ready_outcome :: "case_category \<Rightarrow> string" where
  "ready_outcome BILLING_DISPUTE = ''Reverse the verified duplicate charge''"
| "ready_outcome REFUND_REQUEST = ''Approve refund for the unused service order''"
| "ready_outcome ACCOUNT_ACCESS = ''Start verified account recovery''"
| "ready_outcome SERVICE_EXCEPTION = ''Approve the documented service correction''"

definition outcome_of ::
    "case_workspace \<Rightarrow> decision_proposal_state \<Rightarrow> evidence_retrieval_status \<Rightarrow> string" where
  "outcome_of ws state status =
     (let category = cs_category (ws_case ws)
      in if status \<noteq> ER_RELEVANT then ''Pause the resolution until applicable policy is available''
         else if state = DP_INFORMATION_NEEDED
         then (if category = ACCOUNT_ACCESS \<and> has_conflicting_ownership_evidence ws
               then ''Escalate conflicting ownership evidence before account recovery''
               else open_outcome category)
         else ready_outcome category)"

fun resolution_action :: "case_category \<Rightarrow> string \<times> string \<times> string" where
  "resolution_action BILLING_DISPUTE =
     (''reverse_duplicate_charge'', ''Reverse the duplicate charge'',
      ''The verified duplicate charge is reversed with an attributable reference.'')"
| "resolution_action REFUND_REQUEST =
     (''issue_refund'', ''Issue the approved refund'',
      ''The unused service order is refunded with an attributable reference.'')"
| "resolution_action ACCOUNT_ACCESS =
     (''start_verified_recovery'', ''Start verified account recovery'',
      ''The verified owner receives a controlled recovery path.'')"
| "resolution_action SERVICE_EXCEPTION =
     (''apply_service_correction'', ''Apply the approved service correction'',
      ''The documented service failure is corrected with an attributable reference.'')"

definition actions_of ::
    "case_workspace \<Rightarrow> decision_proposal_state \<Rightarrow> information_gap list \<Rightarrow> decimal option
     \<Rightarrow> string option \<Rightarrow> error + proposed_action_draft list" where
  "actions_of ws state gaps impact_amount impact_currency =
     (if state = DP_INFORMATION_NEEDED
      then mapE valid_action_draft
        [\<lparr>pad_type = ''request_information'', pad_label = ''Request the missing information'',
          pad_parameters = [(''items'', str_join ''; '' (map gap_label gaps))],
          pad_impact_amount = None, pad_impact_currency = None,
          pad_expected_outcome = ''Blocking information is recorded before the decision is revised.'',
          pad_review_required = False\<rparr>]
      else case resolution_action (cs_category (ws_case ws)) of (action_type, label, expected) \<Rightarrow>
        mapE valid_action_draft
          [\<lparr>pad_type = action_type, pad_label = label,
            pad_parameters = [(''case_id'', cs_public_id (ws_case ws)),
                              (''external_reference'', cs_external_reference (ws_case ws))],
            pad_impact_amount = impact_amount, pad_impact_currency = impact_currency,
            pad_expected_outcome = expected, pad_review_required = True\<rparr>])"

definition uncertainty_of ::
    "evidence_retrieval_status \<Rightarrow> information_gap list \<Rightarrow> case_workspace \<Rightarrow> string" where
  "uncertainty_of status blocking ws =
     (if status \<noteq> ER_RELEVANT then policy_gap_description status
      else if blocking \<noteq> []
      then ''The outcome remains uncertain until: ''
           @ str_join ''; '' (map (\<lambda>g. str_lower (gap_label g)) blocking) @ ''.''
      else if cs_risk (ws_case ws) = CRISK_HIGH
      then ''The evidence supports the outcome, but the high-risk case still requires human review.''
      else ''No blocking uncertainty was found; human review still governs the proposed action.'')"

definition rationale_of ::
    "evidence_retrieval_status \<Rightarrow> verified_fact list \<Rightarrow> information_gap list
     \<Rightarrow> decision_risk_check list \<Rightarrow> string" where
  "rationale_of status facts blocking risks =
     (if status \<noteq> ER_RELEVANT
      then ''The brief abstains because applicable policy authority is not usable. ''
           @ ''It records a safe next step without authorizing a customer-impacting action.''
      else if blocking \<noteq> []
      then nat_str (length facts) @ '' source-backed fact(s) are recorded, but ''
           @ nat_str (length blocking) @ '' blocking information item(s) prevent a final resolution.''
      else nat_str (length facts)
           @ '' source-backed fact(s) and published policy evidence support the proposed outcome. ''
           @ nat_str (length (filter (\<lambda>r. risk_outcome r = RISK_REQUIRES_REVIEW) risks))
           @ '' deterministic authority check(s) require human review.'')"

section \<open>Checkpoints\<close>

definition risk_json :: "decision_risk_check \<Rightarrow> json" where
  "risk_json r = JObj [(''id'', JStr (risk_id r)), (''label'', JStr (risk_label r)),
     (''outcome'', JStr (risk_outcome_value (risk_outcome r))),
     (''explanation'', JStr (risk_explanation r))]"

definition checkpoint_payloads ::
    "evidence_result \<Rightarrow> verified_fact list \<Rightarrow> information_gap list \<Rightarrow> decision_risk_check list
     \<Rightarrow> string \<Rightarrow> analysis_status \<Rightarrow> (string \<times> checkpoint_status \<times> string \<times> json) list" where
  "checkpoint_payloads ev facts gaps risks outcome status =
     [(''case_context'', CK_COMPLETED, ''Persisted case and business context snapshots were read.'',
       JObj [(''facts'', JInt (int (length facts))), (''gaps'', JInt (int (length gaps)))]),
      (''policy_evidence'', (if er_status ev = ER_RELEVANT then CK_COMPLETED else CK_ABSTAINED),
       er_reason ev,
       JObj [(''status'', JStr (retrieval_status_value (er_status ev))),
             (''fingerprints'', JList (map JStr
                (sort (map (\<lambda>b. cpe_fingerprint (eb_evidence b)) (er_evidence ev)))))]),
      (''risk_evaluation'', CK_COMPLETED, ''Deterministic risk and authority checks were evaluated.'',
       JList (map risk_json risks)),
      (''decision_brief'', (if status = AN_COMPLETED then CK_COMPLETED else CK_ABSTAINED),
       ''A business-readable decision brief was recorded.'',
       JObj [(''outcome'', JStr outcome), (''analysis_status'', JStr (analysis_status_value status))])]"

fun chain_checkpoints ::
    "(string \<Rightarrow> string) \<Rightarrow> int \<Rightarrow> string \<Rightarrow> (string \<times> checkpoint_status \<times> string \<times> json) list
     \<Rightarrow> error + checkpoint_draft list" where
  "chain_checkpoints sha n previous [] = Inr []"
| "chain_checkpoints sha n previous ((step, status, summary, output) # rest) =
     bindE (valid_checkpoint
              \<lparr>cd_sequence = n, cd_step = step, cd_status = status, cd_summary = summary,
               cd_input_fingerprint = previous, cd_output_fingerprint = hash_json sha output\<rparr>) (\<lambda>c.
     bindE (chain_checkpoints sha (n + 1) (hash_json sha output) rest) (\<lambda>cs. Inr (c # cs)))"

section \<open>The analysis\<close>

definition engine_state :: "evidence_retrieval_status \<Rightarrow> information_gap list \<Rightarrow> decision_proposal_state" where
  "engine_state status blocking =
     (if status \<noteq> ER_RELEVANT \<or> blocking \<noteq> [] then DP_INFORMATION_NEEDED else DP_READY_FOR_REVIEW)"

definition analyze ::
    "(string \<Rightarrow> string) \<Rightarrow> case_workspace \<Rightarrow> evidence_result \<Rightarrow> string
     \<Rightarrow> error + decision_analysis" where
  "analyze sha ws ev input_fingerprint =
     bindE (facts_of sha ws) (\<lambda>facts.
     bindE (information_gaps sha ws (er_status ev)) (\<lambda>gaps.
     let blocking = filter gap_blocking gaps in
     bindE (risk_checks sha ws (er_status ev) blocking) (\<lambda>risks.
     let state = engine_state (er_status ev) blocking;
         outcome = outcome_of ws state (er_status ev);
         financial = (state = DP_READY_FOR_REVIEW
           \<and> cs_category (ws_case ws) \<in> {BILLING_DISPUTE, REFUND_REQUEST});
         impact_amount = (if financial then cs_impact_amount (ws_case ws) else None);
         impact_currency = (if financial then cs_impact_currency (ws_case ws) else None)
     in
     bindE (actions_of ws state blocking impact_amount impact_currency) (\<lambda>proposed.
     bindE (draft_customer_response ws state blocking proposed) (\<lambda>response.
     let status = (if er_status ev = ER_RELEVANT then AN_COMPLETED else AN_ABSTAINED) in
     bindE (chain_checkpoints sha 1 input_fingerprint
              (checkpoint_payloads ev facts gaps risks outcome status)) (\<lambda>checkpoints.
     valid_analysis
       \<lparr>da_status = status, da_policy_status = er_status ev, da_facts = facts,
        da_missing_information = gaps, da_risks = risks, da_outcome = outcome,
        da_impact_amount = impact_amount, da_impact_currency = impact_currency,
        da_confidence = confidence_of ws (er_status ev) blocking,
        da_uncertainty = uncertainty_of (er_status ev) blocking ws,
        da_rationale = rationale_of (er_status ev) facts blocking risks, da_state = state,
        da_proposed_actions = proposed, da_response_draft = response,
        da_checkpoints = checkpoints, da_risk_rule_version = decision_risk_rule_version,
        da_model_version = decision_model_version, da_prompt_version = decision_prompt_version,
        da_graph_version = decision_graph_version\<rparr>))))))"

end
