(* ===== verification/Regex.thy ===== *)
theory Regex
  imports Prelude
begin

text \<open>
  The fragment of \<open>re\<close> the wording filters use: characters, classes, sequence, choice, optional
  parts, repetition of a character class, and the word boundary. \<open>search\<close> is true when some
  position of the text starts a match; which match it is plays no role for the filters. With
  \<open>IGNORECASE\<close> the text and the literals are compared in lower case.
\<close>

datatype regex =
    Lit string
  | Cls "char \<Rightarrow> bool"
  | Many1 "char \<Rightarrow> bool"
  | Bnd
  | Cat "regex list"
  | Alt "regex list"
  | Opt regex

definition word_char :: "char \<Rightarrow> bool" where
  "word_char c \<longleftrightarrow> is_alnum c \<or> c = CHR ''_''"

text \<open>A word boundary between the character before a position, if any, and the one after it.\<close>

definition boundary :: "char option \<Rightarrow> string \<Rightarrow> bool" where
  "boundary before rest \<longleftrightarrow>
     (case before of None \<Rightarrow> False | Some c \<Rightarrow> word_char c)
     \<noteq> (case rest of [] \<Rightarrow> False | c # _ \<Rightarrow> word_char c)"

text \<open>A position is the character before it and the rest of the text; \<open>ends\<close> lists the positions
  where a match that starts at a position can end.\<close>

type_synonym position = "char option \<times> string"

fun lit_end :: "string \<Rightarrow> position \<Rightarrow> position list" where
  "lit_end [] p = [p]"
| "lit_end (x # xs) (b, []) = []"
| "lit_end (x # xs) (b, c # cs) = (if x = lower_char c then lit_end xs (Some c, cs) else [])"

fun many1_ends :: "(char \<Rightarrow> bool) \<Rightarrow> char option \<Rightarrow> string \<Rightarrow> position list" where
  "many1_ends P b [] = []"
| "many1_ends P b (c # cs) = (if P c then (Some c, cs) # many1_ends P (Some c) cs else [])"

primrec ends :: "regex \<Rightarrow> position \<Rightarrow> position list" where
  "ends (Lit w) p = lit_end w p"
| "ends (Cls P) p = (case snd p of [] \<Rightarrow> [] | c # cs \<Rightarrow> if P c then [(Some c, cs)] else [])"
| "ends (Many1 P) p = many1_ends P (fst p) (snd p)"
| "ends Bnd p = (if boundary (fst p) (snd p) then [p] else [])"
| "ends (Cat rs) p = foldl (\<lambda>ps f. concat (map f ps)) [p] (map ends rs)"
| "ends (Alt rs) p = concat (map (\<lambda>f. f p) (map ends rs))"
| "ends (Opt r) p = p # ends r p"

fun search_from :: "regex \<Rightarrow> char option \<Rightarrow> string \<Rightarrow> bool" where
  "search_from r b [] = (ends r (b, []) \<noteq> [])"
| "search_from r b (c # cs) = (ends r (b, c # cs) \<noteq> [] \<or> search_from r (Some c) cs)"

definition search :: "regex \<Rightarrow> string \<Rightarrow> bool" where
  "search r s = search_from r None s"

abbreviation spaces :: regex where
  "spaces \<equiv> Many1 is_space"

definition words :: "string list \<Rightarrow> regex" where
  "words ws = Alt (map Lit ws)"

text \<open>\<open>re.findall(r"[a-z0-9]+", text)\<close>: the maximal runs of lower-case letters and digits.\<close>

definition token_char :: "char \<Rightarrow> bool" where
  "token_char c \<longleftrightarrow> (let n = (of_char c :: nat) in (48 \<le> n \<and> n \<le> 57) \<or> (97 \<le> n \<and> n \<le> 122))"

fun findall_tokens :: "string \<Rightarrow> string \<Rightarrow> string list" where
  "findall_tokens acc [] = (if acc = [] then [] else [acc])"
| "findall_tokens acc (c # cs) =
     (if token_char c then findall_tokens (acc @ [c]) cs
      else (if acc = [] then [] else [acc]) @ findall_tokens [] cs)"

text \<open>\<open>text.split("_")\<close>.\<close>

fun split_on :: "char \<Rightarrow> string \<Rightarrow> string \<Rightarrow> string list" where
  "split_on sep acc [] = [acc]"
| "split_on sep acc (c # cs) =
     (if c = sep then acc # split_on sep [] cs else split_on sep (acc @ [c]) cs)"

end
