(* ===== verification/Narrative.thy ===== *)
theory Narrative
  imports Decision_Engine Regex
begin

text \<open>
  The wording filters of \<open>analysis/action_claim_safety.py\<close> and
  \<open>analysis/customer_response_safety.py\<close>, and the assisted engine of
  \<open>analysis/ai_assisted_decision_engine.py\<close> that lets a language model rewrite the explanatory
  text of an analysis. The model is a parameter: a function from the analysis to a narrative or
  to the failure of the gateway.
\<close>

section \<open>Claims of completed actions\<close>

definition completed_words :: "string list" where
  "completed_words = [''approved'', ''completed'', ''executed'', ''issued'', ''processed'', ''sent'',
     ''applied'', ''refunded'', ''credited'', ''reversed'', ''cancelled'', ''canceled'']"

definition claim_by_us :: regex where
  "claim_by_us = Cat
     [Bnd, words [''we'', ''we'' @ [CHR 0x27] @ ''ve'', ''i'', ''i'' @ [CHR 0x27] @ ''ve'', ''our team'',
        ''the system''], spaces,
      Opt (Cat [words [''have'', ''has'', ''did''], spaces]), Opt (Cat [Lit ''already'', spaces]),
      words completed_words, Bnd]"

definition claim_of_action :: regex where
  "claim_of_action = Cat
     [Bnd, Opt (Alt [Cat [Lit ''your'', spaces], Cat [Lit ''the'', spaces]]),
      words [''refund'', ''credit'', ''account change'', ''action'', ''cancellation'', ''reversal'',
        ''email'', ''reply''], spaces,
      words [''has'', ''have'', ''is'', ''are'', ''was'', ''were''], spaces,
      Opt (Cat [words [''already'', ''now''], spaces]), Opt (Cat [Lit ''been'', spaces]),
      words (completed_words @ [''complete'']), Bnd]"

definition contains_completed_action_claim :: "string list \<Rightarrow> bool" where
  "contains_completed_action_claim texts =
     (let combined = str_join '' '' texts
      in search claim_by_us combined \<or> search claim_of_action combined)"

section \<open>Alignment with the governed next step\<close>

definition id_char :: "char \<Rightarrow> bool" where
  "id_char c \<longleftrightarrow> is_alnum c \<or> c = CHR ''-''"

definition internal_control_language :: regex where
  "internal_control_language = Alt
     [Cat [Bnd, words [''pol'', ''fct'', ''rsk'', ''ctx'', ''evd'', ''prp''], Lit ''-'', Many1 id_char, Bnd],
      Cat [Bnd, words [''low'', ''medium'', ''high''], spaces, Lit ''confidence'', Bnd],
      Cat [Bnd, words [''supervisor'', ''specialist'', ''branch manager'', ''administrator''], spaces,
           words [''review'', ''approval''], Bnd],
      Cat [Bnd, words [''risk check'', ''policy version''], Bnd]]"

definition request_language :: regex where
  "request_language = Cat [Bnd, words [''please'', ''send'', ''provide'', ''confirm'', ''complete'',
     ''share'', ''need'', ''needed'', ''required''], Bnd]"

text \<open>The dot of \<open>not\s+.+\s+yet\<close> does not match a line break.\<close>

definition review_wording :: regex where
  "review_wording = Cat [Bnd,
     Alt [Lit ''pending'', Lit ''review'', Lit ''approval'', Lit ''approve'',
          Cat [Lit ''not'', spaces, Many1 (\<lambda>c. c \<noteq> CHR 0x0A), spaces, Lit ''yet''],
          Cat [Lit ''before'', spaces, Lit ''any'']], Bnd]"

definition contains_any :: "string \<Rightarrow> string list \<Rightarrow> bool" where
  "contains_any text values \<longleftrightarrow> list_ex (\<lambda>v. str_contains v text) values"

definition addresses_gap :: "string \<Rightarrow> string \<Rightarrow> bool" where
  "addresses_gap label body =
     (let text = str_lower body
      in if label = ''Second payment reference''
         then contains_any text [''second'', ''another'']
              \<and> contains_any text [''payment'', ''charge'', ''transaction'']
              \<and> contains_any text [''reference'', ''statement'', ''settled'', ''evidence'']
         else if label = ''Service delivery status''
         then contains_any text [''service'', ''delivery''] \<and> contains_any text [''status'', ''started'', ''used'']
         else if label = ''Identity verification''
         then contains_any text [''identity'', ''ownership'']
              \<and> contains_any text [''verify'', ''verification'', ''check'']
         else if label = ''Service outcome''
         then str_contains ''service'' text
              \<and> contains_any text [''outcome'', ''failed'', ''incomplete'', ''record'']
         else list_ex (\<lambda>w. w \<in> set (findall_tokens [] text))
                (filter (\<lambda>w. 4 \<le> length w \<and> w \<notin> {''current'', ''complete'', ''applicable''})
                   (findall_tokens [] (str_lower label))))"

definition action_terms :: "string \<Rightarrow> string list" where
  "action_terms action_type =
     (if action_type = ''reverse_duplicate_charge'' then [''reversal'', ''reverse'', ''duplicate charge'']
      else if action_type = ''issue_refund'' then [''refund'']
      else if action_type = ''start_verified_recovery'' then [''recovery'', ''account access'']
      else if action_type = ''apply_service_correction'' then [''correction'', ''service outcome'']
      else split_on (CHR ''_'') [] action_type)"

definition addresses_action :: "string \<Rightarrow> string \<Rightarrow> bool" where
  "addresses_action action_type body = contains_any (str_lower body) (action_terms action_type)"

definition customer_response_is_aligned :: "decision_analysis \<Rightarrow> string \<Rightarrow> string \<Rightarrow> bool" where
  "customer_response_is_aligned analysis subject body =
     (if search internal_control_language (subject @ '' '' @ body) then False
      else if da_state analysis = DP_INFORMATION_NEEDED
      then search request_language body
           \<and> list_ex (\<lambda>g. addresses_gap (gap_label g) body)
               (filter gap_blocking (da_missing_information analysis))
      else if da_proposed_actions analysis = [] then False
      else if \<not> list_ex (\<lambda>a. addresses_action (pad_type a) body) (da_proposed_actions analysis) then False
      else if list_ex pad_review_required (da_proposed_actions analysis) then search review_wording body
      else True)"

section \<open>The assisted engine\<close>

record decision_narrative =
  dn_rationale :: string
  dn_uncertainty :: string
  dn_response_subject :: string
  dn_response_body :: string

definition valid_narrative :: "decision_narrative \<Rightarrow> bool" where
  "valid_narrative n \<longleftrightarrow> len_ok 1 2000 (dn_rationale n) \<and> len_ok 1 1000 (dn_uncertainty n)
     \<and> len_ok 1 300 (dn_response_subject n) \<and> len_ok 1 10000 (dn_response_body n)"

record narrative_gateway =
  ng_provider_name :: string
  ng_model_version :: string
  ng_refine :: "decision_analysis \<Rightarrow> decision_narrative option"

definition ai_decision_prompt_version :: string where
  "ai_decision_prompt_version = ''openai-decision-narrative-v2''"

definition assisted_model_version :: "narrative_gateway \<Rightarrow> string" where
  "assisted_model_version gw = ng_provider_name gw @ '':'' @ ng_model_version gw"

text \<open>\<open>analysis.checkpoints[-1]\<close> exists: the constructor of an analysis refuses an empty list.\<close>

definition ai_checkpoint ::
    "(string \<Rightarrow> string) \<Rightarrow> decision_analysis \<Rightarrow> checkpoint_status \<Rightarrow> string \<Rightarrow> json
     \<Rightarrow> error + checkpoint_draft" where
  "ai_checkpoint sha analysis status summary output =
     (if da_checkpoints analysis = [] then Inl (ValueError ''IndexError'')
      else valid_checkpoint
       \<lparr>cd_sequence = int (length (da_checkpoints analysis)) + 1, cd_step = ''ai_narrative'',
        cd_status = status, cd_summary = summary,
        cd_input_fingerprint = cd_output_fingerprint (last (da_checkpoints analysis)),
        cd_output_fingerprint = hash_json sha output\<rparr>)"

definition assisted_fallback ::
    "(string \<Rightarrow> string) \<Rightarrow> narrative_gateway \<Rightarrow> decision_analysis \<Rightarrow> string \<Rightarrow> string
     \<Rightarrow> error + decision_analysis" where
  "assisted_fallback sha gw baseline suffix summary =
     bindE (ai_checkpoint sha baseline CK_ABSTAINED summary
              (JObj [(''status'', JStr suffix), (''retained_model'', JStr (da_model_version baseline))]))
       (\<lambda>c. Inr (baseline\<lparr>da_checkpoints := da_checkpoints baseline @ [c],
                  da_model_version := assisted_model_version gw @ '':'' @ suffix,
                  da_prompt_version := ai_decision_prompt_version\<rparr>))"

definition assisted_accept ::
    "(string \<Rightarrow> string) \<Rightarrow> narrative_gateway \<Rightarrow> decision_analysis \<Rightarrow> decision_narrative
     \<Rightarrow> error + decision_analysis" where
  "assisted_accept sha gw baseline n =
     bindE (ai_checkpoint sha baseline CK_COMPLETED
              (''AI drafted the explanatory language. Server-owned facts, risks, ''
               @ ''actions, and approval requirements were preserved.'')
              (JObj [(''rationale'', JStr (dn_rationale n)), (''uncertainty'', JStr (dn_uncertainty n)),
                     (''response_subject'', JStr (dn_response_subject n)),
                     (''response_body'', JStr (dn_response_body n))]))
       (\<lambda>c. Inr (baseline\<lparr>da_rationale := dn_rationale n, da_uncertainty := dn_uncertainty n,
                  da_response_draft := (da_response_draft baseline)\<lparr>sr_subject := dn_response_subject n,
                    sr_body := dn_response_body n\<rparr>,
                  da_checkpoints := da_checkpoints baseline @ [c],
                  da_model_version := assisted_model_version gw,
                  da_prompt_version := ai_decision_prompt_version\<rparr>))"

definition assisted_analyze ::
    "(string \<Rightarrow> string) \<Rightarrow> narrative_gateway \<Rightarrow> case_workspace \<Rightarrow> evidence_result \<Rightarrow> string
     \<Rightarrow> error + decision_analysis" where
  "assisted_analyze sha gw ws ev input_fingerprint =
     bindE (analyze sha ws ev input_fingerprint) (\<lambda>baseline.
     if da_status baseline \<noteq> AN_COMPLETED
     then assisted_fallback sha gw baseline ''skipped''
            (''AI drafting was skipped because the governed analysis abstained. ''
             @ ''The deterministic safe response was retained.'')
     else case ng_refine gw baseline of
       None \<Rightarrow> assisted_fallback sha gw baseline ''fallback''
            (''AI drafting was unavailable. The deterministic decision language ''
             @ ''was retained without changing any control.'')
     | Some n \<Rightarrow>
         if contains_completed_action_claim
              [dn_rationale n, dn_uncertainty n, dn_response_subject n, dn_response_body n]
         then assisted_fallback sha gw baseline ''rejected''
            (''AI drafting was rejected because it described a controlled action as ''
             @ ''already complete. The deterministic safe response was retained.'')
         else if \<not> customer_response_is_aligned baseline (dn_response_subject n) (dn_response_body n)
         then assisted_fallback sha gw baseline ''misaligned''
            (''AI drafting was rejected because the customer response did not match ''
             @ ''the governed next step. The deterministic safe response was retained.'')
         else assisted_accept sha gw baseline n)"

end
