(* ===== verification/Engine_Props.thy ===== *)
theory Engine_Props
  imports Narrative "HOL-Library.Multiset"
begin

text \<open>
  What the two decision engines guarantee: when a resolution is ready for review, that everything
  else stays closed, that their fingerprints are the ones the review compares, that a language
  model cannot touch the controls, and within which bounds an analysis always comes back.
\<close>

section \<open>Lists that are checked item by item\<close>

lemma mapE_identity:
  assumes "\<And>x y. f x = Inr y \<Longrightarrow> y = x" and "mapE f xs = Inr ys"
  shows "ys = xs"
  using assms(2) by (induction xs arbitrary: ys) (auto simp: run_simps dest: assms(1))

lemma mapE_total: "(\<And>x. x \<in> set xs \<Longrightarrow> \<exists>y. f x = Inr y) \<Longrightarrow> \<exists>ys. mapE f xs = Inr ys"
  by (induction xs) (auto simp: run_simps)

lemma mapE_map: "mapE f (map g xs) = mapE (\<lambda>x. f (g x)) xs"
  by (induction xs) auto

lemma deduplicate_empty [simp]: "deduplicate_gaps gs = [] \<longleftrightarrow> gs = []"
  by (cases gs) simp_all

lemma deduplicate_subset: "set (deduplicate_gaps gs) \<subseteq> set gs"
  by (induction gs) auto

lemma information_gaps_Inr:
  assumes "information_gaps sha ws status = Inr gaps"
  shows "gaps = deduplicate_gaps (map (gap_of sha (cs_public_id (ws_case ws))) (gap_specs ws status))"
proof -
  obtain gs where gs: "mapE (\<lambda>spec. valid_gap (gap_of sha (cs_public_id (ws_case ws)) spec))
      (gap_specs ws status) = Inr gs" and "gaps = deduplicate_gaps gs"
    using assms by (auto simp: information_gaps_def run_simps)
  moreover have "gs = map (gap_of sha (cs_public_id (ws_case ws))) (gap_specs ws status)"
    by (rule mapE_identity [where f = valid_gap]) (use gs in \<open>simp_all add: mapE_map run_simps\<close>)
  ultimately show ?thesis by simp
qed

lemma gaps_blocking:
  assumes "information_gaps sha ws status = Inr gaps"
  shows "filter gap_blocking gaps = gaps" and "gaps = [] \<longleftrightarrow> gap_specs ws status = []"
proof -
  note g = information_gaps_Inr [OF assms]
  have "\<forall>h\<in>set gaps. gap_blocking h"
    using deduplicate_subset g by (fastforce simp: gap_of_def split: prod.splits)
  then show "filter gap_blocking gaps = gaps" by simp
  show "gaps = [] \<longleftrightarrow> gap_specs ws status = []" using g by simp
qed

lemma valid_analysis_Inr: "valid_analysis d = Inr d' \<Longrightarrow> d' = d"
  by (auto simp: valid_analysis_def run_simps)

text \<open>The parts of a finished analysis.\<close>

lemma analyze_parts:
  assumes "analyze sha ws ev fp = Inr d"
  obtains facts gaps risks acts response cps where
    "information_gaps sha ws (er_status ev) = Inr gaps"
    "risk_checks sha ws (er_status ev) gaps = Inr risks"
    "actions_of ws (da_state d) gaps (da_impact_amount d) (da_impact_currency d) = Inr acts"
    "draft_customer_response ws (da_state d) gaps acts = Inr response"
    "chain_checkpoints sha 1 fp (checkpoint_payloads ev facts gaps risks (da_outcome d) (da_status d)) = Inr cps"
    "da_state d = engine_state (er_status ev) gaps" "da_policy_status d = er_status ev"
    "da_status d = (if er_status ev = ER_RELEVANT then AN_COMPLETED else AN_ABSTAINED)"
    "da_missing_information d = gaps" "da_risks d = risks" "da_proposed_actions d = acts"
    "da_response_draft d = response" "da_checkpoints d = cps"
    "da_confidence d = confidence_of ws (er_status ev) gaps"
    "da_state d \<noteq> DP_READY_FOR_REVIEW \<Longrightarrow> da_impact_amount d = None \<and> da_impact_currency d = None"
    "da_model_version d = decision_model_version"
proof -
  obtain facts gaps where fg: "facts_of sha ws = Inr facts" "information_gaps sha ws (er_status ev) = Inr gaps"
    using assms by (auto simp: analyze_def run_simps)
  note b = gaps_blocking(1) [OF fg(2)]
  obtain risks where r: "risk_checks sha ws (er_status ev) gaps = Inr risks"
    using assms fg b by (auto simp: analyze_def run_simps Let_def)
  let ?st = "engine_state (er_status ev) gaps"
  let ?fin = "?st = DP_READY_FOR_REVIEW \<and> cs_category (ws_case ws) \<in> {BILLING_DISPUTE, REFUND_REQUEST}"
  let ?am = "if ?fin then cs_impact_amount (ws_case ws) else None"
  let ?cu = "if ?fin then cs_impact_currency (ws_case ws) else None"
  let ?status = "if er_status ev = ER_RELEVANT then AN_COMPLETED else AN_ABSTAINED"
  obtain acts where a: "actions_of ws ?st gaps ?am ?cu = Inr acts"
    using assms fg b r by (auto simp: analyze_def bindE_Inr_iff Let_def)
  obtain response where re: "draft_customer_response ws ?st gaps acts = Inr response"
    using assms fg b r a by (auto simp: analyze_def bindE_Inr_iff Let_def)
  obtain cps where c: "chain_checkpoints sha 1 fp (checkpoint_payloads ev facts gaps risks
      (outcome_of ws ?st (er_status ev)) ?status) = Inr cps"
    using assms fg b r a re by (auto simp: analyze_def bindE_Inr_iff Let_def)
  have d: "d = \<lparr>da_status = ?status, da_policy_status = er_status ev, da_facts = facts,
        da_missing_information = gaps, da_risks = risks, da_outcome = outcome_of ws ?st (er_status ev),
        da_impact_amount = ?am, da_impact_currency = ?cu,
        da_confidence = confidence_of ws (er_status ev) gaps,
        da_uncertainty = uncertainty_of (er_status ev) gaps ws,
        da_rationale = rationale_of (er_status ev) facts gaps risks, da_state = ?st,
        da_proposed_actions = acts, da_response_draft = response,
        da_checkpoints = cps, da_risk_rule_version = decision_risk_rule_version,
        da_model_version = decision_model_version, da_prompt_version = decision_prompt_version,
        da_graph_version = decision_graph_version\<rparr>"
    using assms fg b r a re c by (auto simp: analyze_def Let_def dest!: valid_analysis_Inr)
  show thesis
    by (rule that [of gaps risks acts response facts cps]) (use fg r a re c in \<open>simp_all add: d\<close>)
qed

section \<open>Readiness\<close>

text \<open>What the records of the case have to show, by its category.\<close>

definition records_support :: "case_workspace \<Rightarrow> bool" where
  "records_support ws =
     (case cs_category (ws_case ws) of
        BILLING_DISPUTE \<Rightarrow> 2 \<le> card (settled_payment_references ws)
      | REFUND_REQUEST \<Rightarrow> eligible_order ws
      | ACCOUNT_ACCESS \<Rightarrow> \<not> has_conflicting_ownership_evidence ws \<and> verified_identity ws
      | SERVICE_EXCEPTION \<Rightarrow> failed_service ws)"

lemma no_gaps:
  "gap_specs ws status = [] \<longleftrightarrow>
     \<not> cw_has_more (wc_business_contexts (ws_collections ws)) \<and> status = ER_RELEVANT
     \<and> sources_current ws \<and> records_support ws"
  by (auto simp: gap_specs_def category_gaps_def records_support_def sources_current_def stale_labels_def
      filter_empty_conv list_all_iff split: case_category.splits if_splits)

lemma ready_iff_no_gaps:
  assumes "information_gaps sha ws status = Inr gaps"
  shows "engine_state status gaps = DP_READY_FOR_REVIEW \<longleftrightarrow> gap_specs ws status = []"
  using gaps_blocking(2) [OF assms] no_gaps [of ws status] by (auto simp: engine_state_def)

text \<open>C30. The deterministic engine calls a resolution ready for review exactly when the policy
  evidence is relevant, the whole business context was read, every source is current and the
  records show what the category asks for: two settled payments, an unused and undelivered order,
  a verified and undisputed owner, a failed service.\<close>

theorem engine_ready_iff:
  assumes "analyze sha ws ev fp = Inr d"
  shows "da_state d = DP_READY_FOR_REVIEW \<longleftrightarrow>
    er_status ev = ER_RELEVANT \<and> \<not> cw_has_more (wc_business_contexts (ws_collections ws))
    \<and> cs_source_freshness (ws_case ws) = SF_CURRENT
    \<and> (\<forall>c\<in>set (ws_business_contexts ws). bo_source_freshness c = SF_CURRENT)
    \<and> (case cs_category (ws_case ws) of
         BILLING_DISPUTE \<Rightarrow> 2 \<le> card (settled_payment_references ws)
       | REFUND_REQUEST \<Rightarrow> eligible_order ws
       | ACCOUNT_ACCESS \<Rightarrow> \<not> has_conflicting_ownership_evidence ws \<and> verified_identity ws
       | SERVICE_EXCEPTION \<Rightarrow> failed_service ws)"
proof (rule analyze_parts [OF assms])
  fix gaps
  assume g: "information_gaps sha ws (er_status ev) = Inr gaps" "da_state d = engine_state (er_status ev) gaps"
  show ?thesis
    unfolding g(2) ready_iff_no_gaps [OF g(1)] no_gaps records_support_def sources_current_def list_all_iff
    by blast
qed

section \<open>Closed unless ready\<close>

text \<open>What a brief written from an analysis takes over from it.\<close>

definition brief_shows :: "decision_analysis \<Rightarrow> decision_brief \<Rightarrow> bool" where
  "brief_shows d brief \<longleftrightarrow> ar_policy_status (br_run brief) = da_policy_status d
     \<and> pv_state (br_version brief) = da_state d \<and> pv_risks (br_version brief) = da_risks d
     \<and> prd_status (br_response_draft brief) = sr_status (da_response_draft d)"

lemma risk_checks_passed:
  assumes "risk_checks sha ws status gaps = Inr risks" and "status = ER_RELEVANT" "gaps = []" "sources_current ws"
  shows "list_all (\<lambda>r. risk_outcome r \<in> {RISK_PASSED, RISK_REQUIRES_REVIEW}) risks"
  using mapE_identity [where f = valid_risk] assms
  by (fastforce simp: risk_checks_def risk_of_def Let_def run_simps)

lemma resolution_action_types:
  "fst (resolution_action c)
     \<in> {''reverse_duplicate_charge'', ''issue_refund'', ''start_verified_recovery'', ''apply_service_correction''}"
  by (cases c) simp_all

lemma actions_of_Inr:
  assumes "actions_of ws st gaps am cu = Inr acts"
  shows "\<exists>a. acts = [a] \<and> (if st = DP_INFORMATION_NEEDED
      then \<not> pad_review_required a \<and> pad_type a = ''request_information'' \<and> pad_impact_amount a = None
      else pad_review_required a \<and> pad_type a = fst (resolution_action (cs_category (ws_case ws))))"
  using assms
  by (cases "resolution_action (cs_category (ws_case ws))") (auto simp: actions_of_def run_simps split: if_splits)

lemma draft_status:
  assumes "draft_customer_response ws st gaps acts = Inr response"
  shows "sr_status response = (if st = DP_INFORMATION_NEEDED then RSP_BLOCKED else RSP_READY)"
  using assms by (auto simp: draft_customer_response_def run_simps split: if_splits)

text \<open>C31. An analysis that is not ready stays closed: it proposes to request information only,
  without any impact and without anything to review, its response is blocked, its confidence is
  low, and no approval is offered to any role on a brief that shows it. A ready analysis proposes
  exactly one of the four resolution actions, for review, with its response ready, and the
  approval is safe on a brief that shows it.\<close>

theorem engine_fails_closed:
  assumes "analyze sha ws ev fp = Inr d" and brief: "brief_shows d brief"
  shows "if da_state d = DP_READY_FOR_REVIEW
    then (\<exists>a. da_proposed_actions d = [a] \<and> pad_review_required a
            \<and> pad_type a \<in> {''reverse_duplicate_charge'', ''issue_refund'', ''start_verified_recovery'',
                            ''apply_service_correction''})
         \<and> sr_status (da_response_draft d) = RSP_READY \<and> approval_is_safe brief
    else (\<exists>a. da_proposed_actions d = [a] \<and> \<not> pad_review_required a
            \<and> pad_type a = ''request_information'' \<and> pad_impact_amount a = None)
         \<and> da_impact_amount d = None \<and> sr_status (da_response_draft d) = RSP_BLOCKED
         \<and> da_confidence d = CONF_LOW
         \<and> (\<forall>role required. RD_APPROVE \<notin> set (allowed_decisions brief role required))"
proof (rule analyze_parts [OF assms(1)])
  fix facts gaps risks acts response cps
  assume g: "information_gaps sha ws (er_status ev) = Inr gaps"
    and r: "risk_checks sha ws (er_status ev) gaps = Inr risks"
    and a: "actions_of ws (da_state d) gaps (da_impact_amount d) (da_impact_currency d) = Inr acts"
    and re: "draft_customer_response ws (da_state d) gaps acts = Inr response"
    and st: "da_state d = engine_state (er_status ev) gaps" "da_policy_status d = er_status ev"
    and d: "da_risks d = risks" "da_proposed_actions d = acts" "da_response_draft d = response"
      "da_confidence d = confidence_of ws (er_status ev) gaps"
      "da_state d \<noteq> DP_READY_FOR_REVIEW \<Longrightarrow> da_impact_amount d = None \<and> da_impact_currency d = None"
  show ?thesis
  proof (cases "da_state d = DP_READY_FOR_REVIEW")
    case True
    then have rel: "er_status ev = ER_RELEVANT" and "gaps = []"
      by (auto simp: st(1) engine_state_def split: if_splits)
    moreover have "sources_current ws"
      using gaps_blocking(2) [OF g] no_gaps \<open>gaps = []\<close> by blast
    ultimately have "approval_is_safe brief"
      using True brief risk_checks_passed [OF r] draft_status [OF re] d st(2)
      by (simp add: approval_is_safe_def brief_shows_def)
    then show ?thesis
      using True actions_of_Inr [OF a] draft_status [OF re] d
        resolution_action_types [of "cs_category (ws_case ws)"] by auto
  next
    case False
    then have info: "da_state d = DP_INFORMATION_NEEDED" and "er_status ev \<noteq> ER_RELEVANT \<or> gaps \<noteq> []"
      by (auto simp: st(1) engine_state_def split: if_splits)
    then have "da_confidence d = CONF_LOW" using d by (simp add: confidence_of_def)
    moreover have "\<not> approval_is_safe brief" using info brief by (simp add: approval_is_safe_def brief_shows_def)
    ultimately show ?thesis
      using False info actions_of_Inr [OF a] draft_status [OF re] d
      by (auto simp: allowed_decisions_def Let_def)
  qed
qed

section \<open>The language model cannot touch the controls\<close>

text \<open>C32. Whatever the language model returns, the assisted engine keeps every control of the
  deterministic analysis: status, policy status, facts, gaps, risks, outcome, impact, confidence,
  state, actions and the status of the response. The wording it shows is the deterministic one,
  or it comes from the model, claims no completed action and is aligned with the next step; for
  an abstained analysis it is always the deterministic one.\<close>

theorem assisted_preserves_controls:
  assumes "analyze sha ws ev fp = Inr b" and "assisted_analyze sha gw ws ev fp = Inr d"
  shows "da_status d = da_status b \<and> da_policy_status d = da_policy_status b \<and> da_facts d = da_facts b
    \<and> da_missing_information d = da_missing_information b \<and> da_risks d = da_risks b
    \<and> da_outcome d = da_outcome b \<and> da_impact_amount d = da_impact_amount b
    \<and> da_impact_currency d = da_impact_currency b \<and> da_confidence d = da_confidence b
    \<and> da_state d = da_state b \<and> da_proposed_actions d = da_proposed_actions b
    \<and> sr_status (da_response_draft d) = sr_status (da_response_draft b)
    \<and> da_risk_rule_version d = da_risk_rule_version b
    \<and> (da_response_draft d = da_response_draft b \<and> da_rationale d = da_rationale b
         \<and> da_uncertainty d = da_uncertainty b
       \<or> da_status b = AN_COMPLETED
         \<and> \<not> contains_completed_action_claim [da_rationale d, da_uncertainty d,
               sr_subject (da_response_draft d), sr_body (da_response_draft d)]
         \<and> customer_response_is_aligned b (sr_subject (da_response_draft d)) (sr_body (da_response_draft d)))"
  using assms
  by (auto simp: assisted_analyze_def assisted_fallback_def assisted_accept_def run_simps
      split: if_splits option.splits)

section \<open>Checkpoints\<close>

definition chained :: "int \<Rightarrow> string \<Rightarrow> checkpoint_draft list \<Rightarrow> bool" where
  "chained n previous cs \<longleftrightarrow> (\<forall>i<length cs. cd_sequence (cs ! i) = n + int i
     \<and> cd_input_fingerprint (cs ! i) = (if i = 0 then previous else cd_output_fingerprint (cs ! (i - 1))))"

lemma chained_Cons:
  "chained n previous (c # cs) \<longleftrightarrow> cd_sequence c = n \<and> cd_input_fingerprint c = previous
     \<and> chained (n + 1) (cd_output_fingerprint c) cs"
proof -
  have all: "(\<forall>i<length (c # cs). P i) \<longleftrightarrow> P 0 \<and> (\<forall>i<length cs. P (Suc i))" for P
    by (auto simp: less_Suc_eq_0_disj)
  show ?thesis unfolding chained_def all by (auto simp: nth_Cons' add.assoc)
qed

lemma chain_checkpoints_chained:
  assumes "chain_checkpoints sha n previous payloads = Inr cs"
  shows "chained n previous cs \<and> length cs = length payloads"
  using assms
proof (induction sha n previous payloads arbitrary: cs rule: chain_checkpoints.induct)
  case (2 sha n previous step status summary result rest)
  then show ?case by (auto simp: run_simps valid_checkpoint_def chained_Cons)
qed (simp add: chained_def)

lemma checkpoint_outputs:
  assumes "chain_checkpoints sha n previous payloads = Inr cs"
  shows "\<forall>c\<in>set cs. cd_output_fingerprint c \<in> range sha"
  using assms
proof (induction sha n previous payloads arbitrary: cs rule: chain_checkpoints.induct)
  case (2 sha n previous step status summary result rest)
  then show ?case by (auto simp: run_simps valid_checkpoint_def hash_json_def)
qed simp

lemma chained_snoc:
  assumes "chained n previous cs" and "cs \<noteq> []" and "cd_sequence c = n + int (length cs)"
    and "cd_input_fingerprint c = cd_output_fingerprint (last cs)"
  shows "chained n previous (cs @ [c])"
  using assms by (auto simp: chained_def nth_append last_conv_nth less_Suc_eq)

lemma ai_checkpoint_Inr:
  "ai_checkpoint sha d status summary output = Inr c \<Longrightarrow> cd_sequence c = 1 + int (length (da_checkpoints d))
    \<and> cd_input_fingerprint c = cd_output_fingerprint (last (da_checkpoints d)) \<and> da_checkpoints d \<noteq> []"
  by (auto simp: ai_checkpoint_def valid_checkpoint_def run_simps split: if_splits)

text \<open>The audit trail of an assisted analysis is one chain: five checkpoints numbered from
  one, the first starting from the input fingerprint and each later one from the output of the
  one before it.\<close>

theorem assisted_checkpoints_chained:
  assumes "assisted_analyze sha gw ws ev fp = Inr d"
  shows "length (da_checkpoints d) = 5
    \<and> (\<forall>i<5. cd_sequence (da_checkpoints d ! i) = 1 + int i
        \<and> cd_input_fingerprint (da_checkpoints d ! i)
            = (if i = 0 then fp else cd_output_fingerprint (da_checkpoints d ! (i - 1))))"
proof -
  obtain b where b: "analyze sha ws ev fp = Inr b"
    using assms by (auto simp: assisted_analyze_def run_simps)
  obtain c st sm out where c: "ai_checkpoint sha b st sm out = Inr c" "da_checkpoints d = da_checkpoints b @ [c]"
    using assms b
    by (auto simp: assisted_analyze_def assisted_fallback_def assisted_accept_def run_simps
        split: if_splits option.splits)
  have "chained 1 fp (da_checkpoints b) \<and> length (da_checkpoints b) = 4"
  proof (rule analyze_parts [OF b])
    fix facts gaps risks cps
    assume chain: "chain_checkpoints sha 1 fp
        (checkpoint_payloads ev facts gaps risks (da_outcome b) (da_status b)) = Inr cps"
      and "da_checkpoints b = cps"
    then show ?thesis using chain_checkpoints_chained [OF chain] by (simp add: checkpoint_payloads_def)
  qed
  then have "chained 1 fp (da_checkpoints d) \<and> length (da_checkpoints d) = 5"
    using chained_snoc ai_checkpoint_Inr [OF c(1)] c(2) by auto
  then show ?thesis by (simp add: chained_def)
qed

section \<open>The fingerprints of the review\<close>

lemma insort_key_map: "insort_key f (g x) (map g xs) = map g (insort_key (\<lambda>x. f (g x)) x xs)"
  by (induction xs) auto

lemma sort_key_map: "sort_key f (map g xs) = map g (sort_key (\<lambda>x. f (g x)) xs)"
  by (induction xs) (simp_all add: insort_key_map)

lemma json_fields_sorted: "json_dumps (JObj (sort_key fst kvs)) = json_dumps (JObj kvs)"
proof -
  have "sort_key fst (map (map_prod id json_dumps) (sort_key fst kvs)) = sort_key fst (map (map_prod id json_dumps) kvs)"
    by (simp add: sort_key_map comp_def sort_key_id_if_sorted)
  then show ?thesis by (simp add: Let_def)
qed

lemma json_object_cong:
  "map (map_prod id json_dumps) kvs = map (map_prod id json_dumps) kvs' \<Longrightarrow> json_dumps (JObj kvs) = json_dumps (JObj kvs')"
  by simp

lemma context_fingerprints_equal: "context_snapshot_fingerprint sha c = context_fingerprint_of sha c"
  unfolding context_snapshot_fingerprint_def context_fingerprint_of_def hash_json_def
  by (rule arg_cong [where f = sha], rule json_object_cong)
     (simp add: json_fields_sorted del: json_dumps.simps(6))

text \<open>C33. The engine and the review compute the same fingerprints: for the same business records,
  in whatever order they are read, and for the same relevant evidence, the fingerprints an
  analysis is stored with are the ones the freshness check of the review recomputes.\<close>

theorem engine_review_fingerprints:
  assumes "mset (map snd rows) = mset (ws_business_contexts ws)"
    and "distinct (map bo_public_id (ws_business_contexts ws))"
    and "mset (map (\<lambda>row. cpe_fingerprint (fst (snd row))) evidence)
      = mset (map (\<lambda>b. cpe_fingerprint (eb_evidence b)) (er_evidence ev))"
    and "er_status ev = ER_RELEVANT"
  shows "hash_json sha (context_material sha rows) = combined_context_fingerprint sha ws
    \<and> hash_json sha (evidence_material evidence) = combined_evidence_fingerprint sha ev
    \<and> (\<forall>c. context_fingerprint_of sha c = context_snapshot_fingerprint sha c)"
proof -
  have "sort_key bo_public_id (map snd rows) = sort_key bo_public_id (ws_business_contexts ws)"
  proof (rule sort_key_inj_key_eq)
    show "inj_on bo_public_id (set (map snd rows))"
      using assms(2) mset_eq_setD [OF assms(1)] by (simp add: distinct_map)
  qed (use assms(1) in simp_all)
  moreover have "sort (map (\<lambda>row. cpe_fingerprint (fst (snd row))) evidence)
      = sort (map (\<lambda>b. cpe_fingerprint (eb_evidence b)) (er_evidence ev))"
    using assms(3) by (metis properties_for_sort mset_sort sorted_sort)
  ultimately show ?thesis
    using assms(4)
    by (simp add: context_material_def combined_context_fingerprint_def context_fingerprints_equal
        evidence_material_def combined_evidence_fingerprint_def)
qed

end
