(* ===== verification/Engine_Bounds.thy ===== *)
theory Engine_Bounds
  imports Engine_Props
begin

text \<open>
  Within which bounds an analysis comes back. The constructors of the analysis check the length of
  every text; the texts are put together from columns whose widths are those of
  \<open>persistence/models/cases.py\<close>, and two of them do not fit.
\<close>

section \<open>Lengths\<close>

named_theorems text_bounds \<open>upper bounds of text lengths\<close>

lemma str_join_length:
  assumes "\<forall>x\<in>set xs. length x \<le> k"
  shows "length (str_join sep xs) \<le> length xs * (k + length sep)"
  using assms by (induction sep xs rule: str_join.induct) (auto simp: algebra_simps)

lemma nat_str_length: "1 \<le> length (nat_str n) \<and> length (nat_str n) \<le> Suc n"
proof (induction n rule: nat_str.induct)
  case (1 n)
  show ?case
  proof (cases "n < 10")
    case True
    then show ?thesis by (simp add: nat_str.simps [of n])
  next
    case False
    then have "length (nat_str (n div 10)) \<le> Suc (n div 10)" using 1 by blast
    moreover have "Suc (n div 10) \<le> n" using False by linarith
    ultimately show ?thesis using False by (simp add: nat_str.simps [of n])
  qed
qed

lemma concat_length: "(\<And>x. length (f x) \<le> k) \<Longrightarrow> length (concat (map f xs)) \<le> k * length xs"
  by (induction xs) (auto simp: add_mono)

lemma stable_id_length: "length prefix = 3 \<Longrightarrow> len_ok 1 64 (stable_public_id sha prefix parts)"
  by (simp add: stable_public_id_def len_ok_def str_upper_def)

text \<open>The columns of the business records and the case, as the tables declare them, with what the
  two texts need on top.\<close>

definition columns_fit :: "case_workspace \<Rightarrow> bool" where
  "columns_fit ws \<longleftrightarrow> length (ws_business_contexts ws) \<le> 100
     \<and> (\<forall>c\<in>set (ws_business_contexts ws). length (bo_label c) \<le> 300 \<and> length (bo_status c) \<le> 100
          \<and> length (bo_source c) \<le> 100 \<and> length (bo_source_reference c) \<le> 200
          \<and> (\<forall>key v. field_value c key = Some v \<longrightarrow> length (py_str v) \<le> 500))
     \<and> length (cc_name (ws_customer ws)) \<le> 200
     \<and> impact_ok (cs_impact_amount (ws_case ws)) (cs_impact_currency (ws_case ws))"

definition texts_fit :: "case_workspace \<Rightarrow> bool" where
  "texts_fit ws \<longleftrightarrow> length (str_join '', '' (stale_labels ws)) \<le> 950
     \<and> (\<forall>c\<in>set (ws_business_contexts ws). length (bo_source c) + length (bo_source_reference c) \<le> 297)"

section \<open>Facts\<close>

lemma context_facts_fit:
  assumes "columns_fit ws" "texts_fit ws" "c \<in> set (ws_business_contexts ws)" "f \<in> set (context_facts sha ws c)"
  shows "valid_fact f = Inr f"
proof -
  have c: "length (bo_label c) \<le> 300" "length (bo_status c) \<le> 100"
    "length (bo_source c) + length (bo_source_reference c) \<le> 297"
    "\<And>key v. field_value c key = Some v \<Longrightarrow> length (py_str v) \<le> 500"
    using assms(1-3) unfolding columns_fit_def texts_fit_def by blast+
  have ids: "len_ok 1 64 (stable_public_id sha ''FCT'' parts)" for parts by (rule stable_id_length) simp
  show ?thesis
    using assms(4) c ids
    by (auto simp: context_facts_def Let_def run_simps field_labels_def len_ok_def split: option.splits
        dest!: c(4) [OF sym])
qed

lemma context_facts_count: "length (context_facts sha ws c) \<le> 8"
  by (simp add: context_facts_def Let_def field_labels_def split: option.splits)

lemma facts_total:
  assumes "columns_fit ws" "texts_fit ws"
  shows "\<exists>facts. facts_of sha ws = Inr facts \<and> length facts \<le> 800"
proof -
  let ?fs = "concat (map (context_facts sha ws) (ws_business_contexts ws))"
  have "\<exists>facts. mapE valid_fact ?fs = Inr facts"
    by (rule mapE_total) (use context_facts_fit [OF assms] in fastforce)
  then have "facts_of sha ws = Inr ?fs"
    using mapE_identity [where f = valid_fact] by (auto simp: facts_of_def run_simps)
  moreover have "length ?fs \<le> 8 * length (ws_business_contexts ws)"
    using concat_length [of "context_facts sha ws" 8] context_facts_count by blast
  ultimately show ?thesis using assms(1) unfolding columns_fit_def by auto
qed

section \<open>Gaps, risks, actions and wording\<close>

definition spec_fits :: "string \<times> string \<times> string \<Rightarrow> bool" where
  "spec_fits spec \<longleftrightarrow> len_ok 1 25 (fst (snd spec)) \<and> len_ok 1 1000 (snd (snd spec))"

lemma category_gaps_fit: "list_all spec_fits (category_gaps ws)"
  by (simp add: category_gaps_def spec_fits_def len_ok_def split: case_category.split)

lemma policy_gap_length: "len_ok 1 100 (policy_gap_description status)"
  by (cases status) (simp_all add: len_ok_def)

lemma gap_spec_fit:
  assumes "texts_fit ws"
  shows "list_all spec_fits (gap_specs ws status)"
proof -
  have stale: "length (str_join '', '' (stale_labels ws)) \<le> 950" using assms by (simp add: texts_fit_def)
  show ?thesis
    unfolding gap_specs_def list_all_append
    using category_gaps_fit [of ws] policy_gap_length [of status] stale
    by (simp add: spec_fits_def len_ok_def)
qed

lemma category_gaps_count: "length (category_gaps ws) \<le> 1"
  unfolding category_gaps_def by (cases "cs_category (ws_case ws)") simp_all

lemma gap_specs_count: "length (gap_specs ws status) \<le> 4"
  using category_gaps_count [of ws] unfolding gap_specs_def by (auto simp: le_Suc_eq)

lemma deduplicate_length: "length (deduplicate_gaps gs) \<le> length gs"
proof (induction gs)
  case (Cons g gs)
  then show ?case by (auto intro: order_trans [OF length_filter_le])
qed simp

definition gaps_fit :: "information_gap list \<Rightarrow> bool" where
  "gaps_fit gaps \<longleftrightarrow> length gaps \<le> 4 \<and> (\<forall>g\<in>set gaps. 1 \<le> length (gap_label g) \<and> length (gap_label g) \<le> 25)"

lemma gaps_total:
  assumes "texts_fit ws"
  shows "\<exists>gaps. information_gaps sha ws status = Inr gaps \<and> gaps_fit gaps"
proof -
  let ?gap = "gap_of sha (cs_public_id (ws_case ws))"
  have ids: "len_ok 1 64 (stable_public_id sha ''GAP'' parts)" for parts by (rule stable_id_length) simp
  have "\<exists>gs. mapE (\<lambda>spec. valid_gap (?gap spec)) (gap_specs ws status) = Inr gs"
  proof (rule mapE_total)
    fix spec
    assume "spec \<in> set (gap_specs ws status)"
    then have "spec_fits spec" using gap_spec_fit [OF assms] by (auto simp: list_all_iff)
    then show "\<exists>y. valid_gap (?gap spec) = Inr y"
      using ids by (cases spec) (auto simp: gap_of_def run_simps len_ok_def spec_fits_def)
  qed
  then obtain gaps where g: "information_gaps sha ws status = Inr gaps"
    by (auto simp: information_gaps_def)
  note eq = information_gaps_Inr [OF g]
  have "length gaps \<le> 4"
    using deduplicate_length [of "map ?gap (gap_specs ws status)"] gap_specs_count [of ws status] eq by simp
  moreover have "\<forall>h\<in>set gaps. 1 \<le> length (gap_label h) \<and> length (gap_label h) \<le> 25"
  proof
    fix h
    assume "h \<in> set gaps"
    then obtain spec where "spec \<in> set (gap_specs ws status)" "h = ?gap spec"
      using deduplicate_subset eq by fastforce
    moreover from this have "spec_fits spec" using gap_spec_fit [OF assms, of status] by (simp add: list_all_iff)
    ultimately show "1 \<le> length (gap_label h) \<and> length (gap_label h) \<le> 25"
      by (auto simp: gap_of_def spec_fits_def len_ok_def split: prod.splits)
  qed
  ultimately show ?thesis using g by (simp add: gaps_fit_def)
qed

lemma risks_total:
  assumes "gaps_fit gaps"
  shows "\<exists>risks. risk_checks sha ws status gaps = Inr risks \<and> length risks = 4"
proof -
  have ids: "len_ok 1 64 (stable_public_id sha ''RSK'' parts)" for parts by (rule stable_id_length) simp
  have "length (nat_str (length gaps)) \<le> 5"
    using nat_str_length [of "length gaps"] assms unfolding gaps_fit_def by linarith
  then show ?thesis
    using ids by (auto simp: risk_checks_def risk_of_def Let_def run_simps len_ok_def)
qed

lemma actions_total:
  assumes "impact_ok am cu"
  shows "\<exists>acts. actions_of ws st gaps am cu = Inr acts"
  using assms
  by (cases "cs_category (ws_case ws)") (auto simp: actions_of_def run_simps len_ok_def impact_ok_def)

lemma labels_join:
  assumes "gaps_fit gaps"
  shows "length (str_join '', '' (map (\<lambda>g. str_lower (gap_label g)) gaps)) \<le> 108"
    and "length (str_join ''; '' (map (\<lambda>g. str_lower (gap_label g)) gaps)) \<le> 108"
proof -
  let ?ls = "map (\<lambda>g. str_lower (gap_label g)) gaps"
  have l: "\<forall>x\<in>set ?ls. length x \<le> 25" and "length ?ls \<le> 4"
    using assms by (auto simp: gaps_fit_def str_lower_def)
  then have "length ?ls * 27 \<le> 108" by simp
  then show "length (str_join '', '' ?ls) \<le> 108" "length (str_join ''; '' ?ls) \<le> 108"
    using str_join_length [OF l, of "'', ''"] str_join_length [OF l, of "''; ''"] by simp_all
qed

lemma internal_note_length:
  "internal_check_note labels = Some note \<Longrightarrow> length note \<le> 200"
  by (auto simp: internal_check_note_def Let_def split: if_splits)

lemma information_text_length:
  assumes "gaps_fit gaps"
  shows "length (fst (information_needed_text ws gaps)) \<le> 300 \<and> length (snd (information_needed_text ws gaps)) \<le> 300"
  using labels_join(1) [OF assms]
  by (auto simp: information_needed_text_def Let_def billing_record_observation_def)

lemma response_total:
  assumes "gaps_fit gaps" and "length (cc_name (ws_customer ws)) \<le> 200"
    and acts: "actions_of ws st gaps am cu = Inr acts"
  shows "\<exists>r. draft_customer_response ws st gaps acts = Inr r"
proof (cases "st = DP_INFORMATION_NEEDED")
  case True
  obtain detail req where t: "information_needed_text ws gaps = (detail, req)" by (cases "information_needed_text ws gaps")
  have "length (information_needed_body ws gaps) \<le> 10000" "1 \<le> length (information_needed_body ws gaps)"
    using information_text_length [OF assms(1), of ws] t assms(2)
    by (auto simp: information_needed_body_def split: option.split dest: internal_note_length)
  moreover have "len_ok 1 300 (information_needed_subject (cs_category (ws_case ws)))"
    by (cases "cs_category (ws_case ws)") (simp_all add: len_ok_def)
  ultimately show ?thesis using True by (auto simp: draft_customer_response_def run_simps len_ok_def)
next
  case False
  obtain a where a: "acts = [a]" "pad_type a = fst (resolution_action (cs_category (ws_case ws)))"
    using actions_of_Inr [OF acts] False by auto
  have "length (review_body ws (Some a)) \<le> 10000" "1 \<le> length (review_body ws (Some a))"
    using a(2) assms(2) resolution_action_types [of "cs_category (ws_case ws)"]
    by (auto simp: review_body_def review_language_def)
  moreover have "len_ok 1 300 (review_subject (cs_category (ws_case ws)))"
    by (cases "cs_category (ws_case ws)") (simp_all add: len_ok_def)
  ultimately show ?thesis using False a by (auto simp: draft_customer_response_def run_simps len_ok_def)
qed

lemma wording_fits:
  assumes "gaps_fit gaps" and "length facts \<le> 800" and "length risks = 4"
  shows "len_ok 1 500 (outcome_of ws st status)" "len_ok 1 1000 (uncertainty_of status gaps ws)"
    "len_ok 1 2000 (rationale_of status facts gaps risks)"
proof -
  show "len_ok 1 500 (outcome_of ws st status)"
    by (cases "cs_category (ws_case ws)") (simp_all add: outcome_of_def Let_def len_ok_def)
  show "len_ok 1 1000 (uncertainty_of status gaps ws)"
    using labels_join(2) [OF assms(1)] policy_gap_length [of status]
    by (simp add: uncertainty_of_def len_ok_def)
  let ?rs = "filter (\<lambda>r. risk_outcome r = RISK_REQUIRES_REVIEW) risks"
  have "length (nat_str (length facts)) \<le> 801" "length (nat_str (length gaps)) \<le> 5"
    "length (nat_str (length ?rs)) \<le> 5"
    using nat_str_length [of "length facts"] nat_str_length [of "length gaps"] nat_str_length [of "length ?rs"]
      assms length_filter_le [of "\<lambda>r. risk_outcome r = RISK_REQUIRES_REVIEW" risks]
    unfolding gaps_fit_def by linarith+
  then show "len_ok 1 2000 (rationale_of status facts gaps risks)"
    by (simp add: rationale_of_def len_ok_def)
qed

lemma chain_total:
  assumes "\<And>s. length (sha s) = 64" and "length previous = 64" and "1 \<le> n"
    and "\<forall>(step, status, summary, out)\<in>set payloads. len_ok 1 64 step \<and> len_ok 1 1000 summary"
  shows "\<exists>cs. chain_checkpoints sha n previous payloads = Inr cs \<and> length cs = length payloads"
  using assms(2-4)
proof (induction payloads arbitrary: n previous)
  case (Cons p rest)
  obtain step status summary result where p: "p = (step, status, summary, result)" by (cases p) auto
  have "\<exists>cs. chain_checkpoints sha (n + 1) (hash_json sha result) rest = Inr cs \<and> length cs = length rest"
    using Cons.IH [of "hash_json sha result" "n + 1"] Cons.prems assms(1) by (auto simp: hash_json_def)
  then show ?case
    using Cons.prems p assms(1) by (auto simp: valid_checkpoint_def len_ok_def hash_json_def requireE_def)
qed simp

lemma payloads_fit:
  assumes "len_ok 1 1000 (er_reason ev)"
  shows "\<forall>(step, status, summary, out)\<in>set (checkpoint_payloads ev facts gaps risks outcome status').
    len_ok 1 64 step \<and> len_ok 1 1000 summary"
  using assms by (simp add: checkpoint_payloads_def len_ok_def)

lemma analyze_returns:
  assumes sha: "\<And>s. length (sha s) = 64" and fp: "length fp = 64"
    and cols: "columns_fit ws" and texts: "texts_fit ws" and reason: "len_ok 1 1000 (er_reason ev)"
  shows "\<exists>d. analyze sha ws ev fp = Inr d"
proof -
  obtain facts where f: "facts_of sha ws = Inr facts" "length facts \<le> 800"
    using facts_total [OF cols texts] by blast
  obtain gaps where g: "information_gaps sha ws (er_status ev) = Inr gaps" "gaps_fit gaps"
    using gaps_total [OF texts] by blast
  note b = gaps_blocking(1) [OF g(1)]
  obtain risks where r: "risk_checks sha ws (er_status ev) gaps = Inr risks" "length risks = 4"
    using risks_total [OF g(2)] by blast
  let ?st = "engine_state (er_status ev) gaps"
  let ?fin = "?st = DP_READY_FOR_REVIEW \<and> cs_category (ws_case ws) \<in> {BILLING_DISPUTE, REFUND_REQUEST}"
  let ?am = "if ?fin then cs_impact_amount (ws_case ws) else None"
  let ?cu = "if ?fin then cs_impact_currency (ws_case ws) else None"
  let ?status = "if er_status ev = ER_RELEVANT then AN_COMPLETED else AN_ABSTAINED"
  have impact: "impact_ok ?am ?cu" using cols by (auto simp: columns_fit_def impact_ok_def)
  obtain acts where a: "actions_of ws ?st gaps ?am ?cu = Inr acts" using actions_total [OF impact] by blast
  obtain response where re: "draft_customer_response ws ?st gaps acts = Inr response"
    using response_total [OF g(2) _ a] cols unfolding columns_fit_def by blast
  let ?out = "outcome_of ws ?st (er_status ev)"
  obtain cps where c: "chain_checkpoints sha 1 fp (checkpoint_payloads ev facts gaps risks ?out ?status) = Inr cps"
    and len: "length cps = length (checkpoint_payloads ev facts gaps risks ?out ?status)"
    using chain_total [OF sha fp _ payloads_fit [OF reason]] by fastforce
  have "cps \<noteq> []" using len by (auto simp: checkpoint_payloads_def)
  then show ?thesis
    using f(1) g(1) b r(1) a re c impact wording_fits [OF g(2) f(2) r(2)]
    by (simp add: analyze_def Let_def valid_analysis_def requireE_def decision_risk_rule_version_def
        decision_model_version_def decision_prompt_version_def decision_graph_version_def len_ok_def)
qed

section \<open>Properties\<close>

text \<open>C34. Within the widths of its columns an analysis always comes back: with digests of
  sixty-four characters, a reason for the evidence of at most a thousand, source and reference of
  each record of at most 297 characters together and at most 950 characters of stale labels, the
  engine returns an analysis for at most a hundred business records, whatever they say.\<close>

theorem analysis_total:
  assumes sha: "\<And>s. length (sha s) = 64" and fp: "length fp = 64"
    and cols: "columns_fit ws" and texts: "texts_fit ws" and reason: "len_ok 1 1000 (er_reason ev)"
  shows "\<exists>d. analyze sha ws ev fp = Inr d"
  using analyze_returns [OF assms] .

end
