(* ===== verification/Engine_Witness.thy ===== *)
theory Engine_Witness
  imports Engine_Bounds Review_Witness
begin

text \<open>
  The properties of the decision engines at concrete inputs: a billing dispute with two settled
  payments, and the same case with a source and a reference that fill their columns.
\<close>

definition digest64 :: "string \<Rightarrow> string" where
  "digest64 s = replicate 64 (CHR ''0'')"

lemma digest64_length [simp]: "length (digest64 s) = 64"
  by (simp add: digest64_def)

definition pay :: "uuid \<Rightarrow> string \<Rightarrow> string \<Rightarrow> string \<Rightarrow> business_object_snapshot" where
  "pay i pid source reference =
     \<lparr>bo_id = i, bo_public_id = pid, bo_organization_id = 1, bo_case_id = 3, bo_object_type = BO_PAYMENT,
      bo_label = ''Payment'', bo_source = source, bo_source_reference = reference,
      bo_status = ''settled'', bo_fields = JObj [(''amount'', JStr ''10.00'')], bo_captured_at = 0,
      bo_source_freshness = SF_CURRENT, bo_source_checked_at = None, bo_version = 1\<rparr>"

definition window :: collection_window where
  "window = \<lparr>cw_returned = 2, cw_total = 2, cw_has_more = False, cw_next_position = None\<rparr>"

definition workspace_of :: "business_object_snapshot list \<Rightarrow> case_workspace" where
  "workspace_of contexts =
     \<lparr>ws_case = \<lparr>cs_id = 3, cs_public_id = ''CS-1'', cs_organization_id = 1, cs_legacy_task_id = None,
        cs_source_id = ''s'', cs_external_reference = ''X'', cs_category = BILLING_DISPUTE,
        cs_issue = ''charged twice'', cs_status = CS_INVESTIGATING, cs_owner_id = None,
        cs_urgency = URG_LOW, cs_risk = CRISK_LOW, cs_due_at = 0, cs_impact_amount = Some 10,
        cs_impact_currency = Some ''USD'', cs_source_freshness = SF_CURRENT,
        cs_source_checked_at = None, cs_version = 1, cs_created_at = 0, cs_updated_at = 0\<rparr>,
      ws_request = \<lparr>crq_id = 4, crq_public_id = ''RQ'', crq_organization_id = 1, crq_case_id = 3,
        crq_channel = RQ_EMAIL, crq_customer_message = ''m'', crq_summary = ''s'', crq_received_at = 0\<rparr>,
      ws_customer = \<lparr>cc_id = 5, cc_organization_id = 1, cc_case_id = 3, cc_customer_id = ''c'',
        cc_name = ''Ann'', cc_tier = TIER_STANDARD, cc_locale = ''en'', cc_contact = ''a'', cc_captured_at = 0\<rparr>,
      ws_business_contexts = contexts, ws_owner = None,
      ws_thread = \<lparr>th_id = 6, th_public_id = ''T'', th_organization_id = 1, th_case_id = 3, th_version = 1,
        th_updated_at = 0\<rparr>,
      ws_messages = [], ws_draft = None, ws_activity = [],
      ws_collections = \<lparr>wc_business_contexts = window, wc_messages = window, wc_activity = window\<rparr>\<rparr>"

definition two_payments :: case_workspace where
  "two_payments = workspace_of [pay 10 ''BO-1'' ''billing'' ''P-1'', pay 11 ''BO-2'' ''billing'' ''P-2'']"

definition relevant :: evidence_result where
  "relevant = \<lparr>er_status = ER_RELEVANT, er_reason = ''covered'', er_evidence = []\<rparr>"

definition quiet_gateway :: narrative_gateway where
  "quiet_gateway = \<lparr>ng_provider_name = ''p'', ng_model_version = ''m'', ng_refine = (\<lambda>_. None)\<rparr>"

lemmas workspace_code = two_payments_def workspace_of_def pay_def window_def relevant_def

lemma two_payments_fit: "columns_fit two_payments" "texts_fit two_payments"
  by (auto simp: columns_fit_def texts_fit_def workspace_code field_value_def impact_ok_def currency_ok_def
      stale_labels_def split: if_splits)

lemma relevant_fits: "len_ok 1 1000 (er_reason relevant)"
  by (simp add: relevant_def len_ok_def)

lemma two_payments_ready:
  assumes "analyze digest64 two_payments relevant (digest64 []) = Inr d"
  shows "da_state d = DP_READY_FOR_REVIEW"
proof (rule analyze_parts [OF assms])
  fix gaps
  assume g: "information_gaps digest64 two_payments (er_status relevant) = Inr gaps"
    and st: "da_state d = engine_state (er_status relevant) gaps"
  show ?thesis
    unfolding st ready_iff_no_gaps [OF g] no_gaps
    by (simp add: records_support_def settled_payment_references_def sources_current_def workspace_code)
qed

lemma two_payments_analysis:
  obtains d where "analyze digest64 two_payments relevant (digest64 []) = Inr d"
  using analyze_returns [OF _ _ two_payments_fit relevant_fits] digest64_length by blast

lemma two_payments_assisted:
  assumes b: "analyze digest64 two_payments relevant (digest64 []) = Inr b"
  obtains d where "assisted_analyze digest64 quiet_gateway two_payments relevant (digest64 []) = Inr d"
proof (rule analyze_parts [OF b])
  fix facts gaps risks cps
  assume c: "chain_checkpoints digest64 1 (digest64 [])
      (checkpoint_payloads relevant facts gaps risks (da_outcome b) (da_status b)) = Inr cps"
    "da_checkpoints b = cps"
    and st: "da_status b = (if er_status relevant = ER_RELEVANT then AN_COMPLETED else AN_ABSTAINED)"
  have ne: "cps \<noteq> []" using chain_checkpoints_chained [OF c(1)] by (auto simp: checkpoint_payloads_def)
  have "\<forall>k\<in>set cps. length (cd_output_fingerprint k) = 64" using checkpoint_outputs [OF c(1)] by fastforce
  then have "length (cd_output_fingerprint (last cps)) = 64" using ne by simp
  then show thesis
    using that b c st ne
    by (auto simp: assisted_analyze_def quiet_gateway_def assisted_fallback_def ai_checkpoint_def
        valid_checkpoint_def requireE_def len_ok_def relevant_def hash_json_def)
qed

section \<open>Witnesses\<close>

theorem engine_ready_iff_witness:
  "\<exists>d. analyze digest64 two_payments relevant (digest64 []) = Inr d \<and> da_state d = DP_READY_FOR_REVIEW"
proof -
  obtain d where d: "analyze digest64 two_payments relevant (digest64 []) = Inr d" by (rule two_payments_analysis)
  from engine_ready_iff [OF d] show ?thesis
    using d by (simp add: settled_payment_references_def workspace_code)
qed

theorem assisted_checkpoints_chained_witness:
  "\<exists>d. assisted_analyze digest64 quiet_gateway two_payments relevant (digest64 []) = Inr d
     \<and> length (da_checkpoints d) = 5"
proof -
  obtain b where b: "analyze digest64 two_payments relevant (digest64 []) = Inr b" by (rule two_payments_analysis)
  then obtain d where d: "assisted_analyze digest64 quiet_gateway two_payments relevant (digest64 []) = Inr d"
    by (rule two_payments_assisted)
  from assisted_checkpoints_chained [OF d] show ?thesis using d by blast
qed

theorem assisted_preserves_controls_witness:
  "\<exists>b d. assisted_analyze digest64 quiet_gateway two_payments relevant (digest64 []) = Inr d
     \<and> analyze digest64 two_payments relevant (digest64 []) = Inr b
     \<and> da_proposed_actions d = da_proposed_actions b"
proof -
  obtain b where b: "analyze digest64 two_payments relevant (digest64 []) = Inr b" by (rule two_payments_analysis)
  then obtain d where d: "assisted_analyze digest64 quiet_gateway two_payments relevant (digest64 []) = Inr d"
    by (rule two_payments_assisted)
  from assisted_preserves_controls [OF b d] show ?thesis using b d by blast
qed

theorem analysis_total_witness:
  "\<exists>d. analyze digest64 two_payments relevant (digest64 []) = Inr d"
  by (rule analysis_total [OF digest64_length digest64_length two_payments_fit relevant_fits])

definition payment_rows :: "(context_binding \<times> business_object_snapshot) list" where
  "payment_rows = [(rdemo_context_binding, pay 11 ''BO-2'' ''billing'' ''P-2''),
     (rdemo_context_binding, pay 10 ''BO-1'' ''billing'' ''P-1'')]"

theorem engine_review_fingerprints_witness:
  "hash_json digest64 (context_material digest64 payment_rows)
     = combined_context_fingerprint digest64 two_payments"
  using engine_review_fingerprints [of payment_rows two_payments "[]" relevant digest64]
  by (simp add: payment_rows_def workspace_code add_mset_commute)

text \<open>A brief that shows the analysis.\<close>

definition shown :: "decision_analysis \<Rightarrow> decision_brief" where
  "shown d = rdemo_brief\<lparr>br_run := rdemo_analysis\<lparr>ar_policy_status := da_policy_status d\<rparr>,
     br_version := (br_version rdemo_brief)\<lparr>pv_state := da_state d, pv_risks := da_risks d\<rparr>,
     br_response_draft := rdemo_draft\<lparr>prd_status := sr_status (da_response_draft d)\<rparr>\<rparr>"

theorem engine_fails_closed_witness:
  "\<exists>d a. analyze digest64 two_payments relevant (digest64 []) = Inr d
     \<and> approval_is_safe (shown d) \<and> da_proposed_actions d = [a] \<and> pad_review_required a"
proof -
  obtain d where d: "analyze digest64 two_payments relevant (digest64 []) = Inr d" by (rule two_payments_analysis)
  have "brief_shows d (shown d)" by (simp add: brief_shows_def shown_def)
  from engine_fails_closed [OF d this] show ?thesis using d two_payments_ready [OF d] by auto
qed

section \<open>Columns that do not fit\<close>

definition wide_workspace :: case_workspace where
  "wide_workspace = workspace_of
     [pay 10 ''BO-1'' (replicate 100 (CHR ''s'')) (replicate 200 (CHR ''r''))]"

text \<open>A business record whose source and reference fill their columns cannot be analysed:
  the fact derived from it exceeds the three hundred characters allowed for its source, and the
  engine raises although every column is within its width.\<close>

theorem wide_source_refused:
  "columns_fit wide_workspace
   \<and> analyze digest64 wide_workspace relevant (digest64 []) = Inl (ValueError ''VerifiedFact'')"
proof
  show "columns_fit wide_workspace"
    by (auto simp: columns_fit_def wide_workspace_def workspace_of_def pay_def field_value_def impact_ok_def
        currency_ok_def split: if_splits)
  show "analyze digest64 wide_workspace relevant (digest64 []) = Inl (ValueError ''VerifiedFact'')"
    by (simp add: analyze_def facts_of_def wide_workspace_def workspace_of_def pay_def context_facts_def Let_def
        field_labels_def field_value_def valid_fact_def requireE_def len_ok_def)
qed

end
