(* ===== verification/Generation.thy ===== *)
theory Generation
  imports Store
begin

text \<open>
  Leases on the generation of a decision brief: \<open>persistence/decision_generation_repository.py\<close>.
  One row per case and input fingerprint carries the owner and the fence token of the latest
  lease; an \<open>UPDATE ... WHERE\<close> on owner, fence and status decides whether a worker still holds
  it. The steps of the table are a relation on databases, with the largest number of attempts
  any caller allows as its parameter.
\<close>

section \<open>Operations\<close>

record generation_lease =
  gl_input_fingerprint :: string
  gl_owner_token :: uuid
  gl_fence_token :: int
  gl_attempt :: int
  gl_expires_at :: timestamp

datatype generation_reservation =
    Leased generation_lease
  | Completed string uuid

definition generation_scope_ids :: "string \<Rightarrow> string \<Rightarrow> database \<Rightarrow> error + uuid \<times> uuid" where
  "generation_scope_ids org_pid case_pid db =
     (case [(g, c). g \<leftarrow> organizations db, c \<leftarrow> cases db, cs_organization_id c = org_id g
             \<and> org_public_id g = org_pid \<and> cs_public_id c = case_pid] of
        [] \<Rightarrow> Inl (PolicyNotFound ''The case was not found.'')
      | (g, c) # _ \<Rightarrow> Inr (org_id g, cs_id c))"

definition lease_of :: "analysis_generation \<Rightarrow> generation_lease" where
  "lease_of g = \<lparr>gl_input_fingerprint = gen_input_fingerprint g, gl_owner_token = gen_owner_token g,
     gl_fence_token = gen_fence_token g, gl_attempt = gen_attempt_count g,
     gl_expires_at = gen_expires_at g\<rparr>"

text \<open>The primary key, the owner token and the three clock readings of an acquisition: before the
  insertion, its \<open>created_at\<close> default, and after a failed insertion.\<close>

record acquire_ids =
  aq_id :: uuid
  aq_owner :: uuid
  aq_now :: timestamp
  aq_created :: timestamp
  aq_retry_now :: timestamp

definition new_generation ::
    "acquire_ids \<Rightarrow> uuid \<Rightarrow> uuid \<Rightarrow> string \<Rightarrow> int \<Rightarrow> analysis_generation" where
  "new_generation ids organization_id case_id fingerprint lease_seconds =
     \<lparr>gen_id = aq_id ids, gen_organization_id = organization_id, gen_case_id = case_id,
      gen_input_fingerprint = fingerprint, gen_owner_token = aq_owner ids, gen_fence_token = 1,
      gen_attempt_count = 1, gen_status = GEN_RUNNING,
      gen_expires_at = aq_now ids + seconds lease_seconds, gen_analysis_run_id = None,
      gen_last_error_code = None, gen_created_at = aq_created ids, gen_updated_at = aq_now ids,
      gen_completed_at = None\<rparr>"

definition retaken_generation ::
    "acquire_ids \<Rightarrow> int \<Rightarrow> analysis_generation \<Rightarrow> analysis_generation" where
  "retaken_generation ids lease_seconds g =
     g\<lparr>gen_owner_token := aq_owner ids, gen_fence_token := gen_fence_token g + 1,
       gen_attempt_count := gen_attempt_count g + 1, gen_status := GEN_RUNNING,
       gen_expires_at := aq_retry_now ids + seconds lease_seconds, gen_analysis_run_id := None,
       gen_last_error_code := None, gen_completed_at := None, gen_updated_at := aq_retry_now ids\<rparr>"

definition put_generation :: "analysis_generation \<Rightarrow> database \<Rightarrow> database" where
  "put_generation g db = db\<lparr>generations := row_put gen_id g (generations db)\<rparr>"

text \<open>\<open>ceil(delta.total_seconds())\<close>.\<close>

definition ceil_seconds :: "timestamp \<Rightarrow> int" where
  "ceil_seconds us = - ((- us) div 1000000)"

definition acquire_existing ::
    "acquire_ids \<Rightarrow> uuid \<Rightarrow> uuid \<Rightarrow> string \<Rightarrow> int \<Rightarrow> int \<Rightarrow> database
     \<Rightarrow> error + generation_reservation \<times> database" where
  "acquire_existing ids organization_id case_id fingerprint lease_seconds max_attempts db =
     (case find (\<lambda>g. gen_organization_id g = organization_id \<and> gen_case_id g = case_id
                   \<and> gen_input_fingerprint g = fingerprint) (generations db) of
        None \<Rightarrow> Inl (DecisionGenerationLeaseLost
                  ''The decision generation reservation disappeared during acquisition.'')
      | Some g \<Rightarrow>
          if gen_status g = GEN_RUNNING \<and> aq_retry_now ids < gen_expires_at g
          then Inl (DecisionGenerationInProgress
                 (max 1 (ceil_seconds (gen_expires_at g - aq_retry_now ids))))
          else if gen_status g = GEN_COMPLETED
          then (case gen_analysis_run_id g of
                  None \<Rightarrow> Inl (DecisionGenerationLeaseLost
                            ''The completed generation has no reusable analysis run.'')
                | Some run \<Rightarrow> Inr (Completed (gen_input_fingerprint g) run, db))
          else if max_attempts \<le> gen_attempt_count g
          then Inl (DecisionGenerationRetryExhausted
                 ''Decision generation retry limit reached for this input snapshot.'')
          else let g' = retaken_generation ids lease_seconds g
               in Inr (Leased (lease_of g'), put_generation g' db))"

definition generation_acquire ::
    "acquire_ids \<Rightarrow> string \<Rightarrow> string \<Rightarrow> string \<Rightarrow> int \<Rightarrow> int \<Rightarrow> database
     \<Rightarrow> error + generation_reservation \<times> database" where
  "generation_acquire ids org_pid case_pid fingerprint lease_seconds max_attempts db =
     bindE (requireE (1 \<le> lease_seconds) (ValueError ''lease_seconds must be positive'')) (\<lambda>_.
     bindE (requireE (1 \<le> max_attempts) (ValueError ''max_attempts must be positive'')) (\<lambda>_.
     bindE (generation_scope_ids org_pid case_pid db) (\<lambda>(organization_id, case_id).
     let g = new_generation ids organization_id case_id fingerprint lease_seconds in
     case insert_generation g db of
       Inr db1 \<Rightarrow> Inr (Leased (lease_of g), db1)
     | Inl _ \<Rightarrow> acquire_existing ids organization_id case_id fingerprint lease_seconds max_attempts db)))"

definition holds_lease :: "uuid \<Rightarrow> uuid \<Rightarrow> generation_lease \<Rightarrow> analysis_generation \<Rightarrow> bool" where
  "holds_lease organization_id case_id lease g \<longleftrightarrow>
     gen_organization_id g = organization_id \<and> gen_case_id g = case_id
     \<and> gen_input_fingerprint g = gl_input_fingerprint lease
     \<and> gen_owner_token g = gl_owner_token lease \<and> gen_fence_token g = gl_fence_token lease
     \<and> gen_status g = GEN_RUNNING"

text \<open>\<open>UPDATE ... WHERE\<close> with its row count.\<close>

definition update_generations ::
    "(analysis_generation \<Rightarrow> bool) \<Rightarrow> (analysis_generation \<Rightarrow> analysis_generation) \<Rightarrow> database
     \<Rightarrow> nat \<times> database" where
  "update_generations P f db =
     (length (filter P (generations db)),
      db\<lparr>generations := map (\<lambda>g. if P g then f g else g) (generations db)\<rparr>)"

definition completed_generation :: "timestamp \<Rightarrow> uuid \<Rightarrow> analysis_generation \<Rightarrow> analysis_generation" where
  "completed_generation now run g =
     g\<lparr>gen_status := GEN_COMPLETED, gen_analysis_run_id := Some run, gen_completed_at := Some now,
       gen_expires_at := now, gen_updated_at := now, gen_last_error_code := None\<rparr>"

definition generation_complete ::
    "timestamp \<Rightarrow> string \<Rightarrow> string \<Rightarrow> generation_lease \<Rightarrow> uuid \<Rightarrow> database \<Rightarrow> error + unit \<times> database" where
  "generation_complete now org_pid case_pid lease run db =
     bindE (generation_scope_ids org_pid case_pid db) (\<lambda>(organization_id, case_id).
     let (n, db1) = update_generations (holds_lease organization_id case_id lease)
                      (completed_generation now run) db
     in bindE (requireE (n = 1) (DecisionGenerationLeaseLost
                 ''Decision generation ownership expired before the result was saved.''))
          (\<lambda>_. Inr ((), db1)))"

definition failed_generation :: "timestamp \<Rightarrow> string \<Rightarrow> analysis_generation \<Rightarrow> analysis_generation" where
  "failed_generation now error_code g =
     g\<lparr>gen_status := GEN_FAILED, gen_expires_at := now, gen_updated_at := now,
       gen_last_error_code := Some (take 64 error_code)\<rparr>"

definition generation_fail ::
    "timestamp \<Rightarrow> string \<Rightarrow> string \<Rightarrow> generation_lease \<Rightarrow> string \<Rightarrow> database \<Rightarrow> error + bool \<times> database" where
  "generation_fail now org_pid case_pid lease error_code db =
     bindE (generation_scope_ids org_pid case_pid db) (\<lambda>(organization_id, case_id).
     let (n, db1) = update_generations (holds_lease organization_id case_id lease)
                      (failed_generation now error_code) db
     in Inr (n = 1, db1))"

section \<open>Steps, invariant and evolution of the table\<close>

inductive generation_step :: "int \<Rightarrow> database \<Rightarrow> database \<Rightarrow> bool" for limit :: int where
  acquire: "generation_acquire ids org_pid case_pid fp secs max_attempts db = Inr (r, db')
    \<Longrightarrow> max_attempts \<le> limit \<Longrightarrow> generation_step limit db db'"
| complete: "generation_complete now org_pid case_pid lease run db = Inr (u, db')
    \<Longrightarrow> generation_step limit db db'"
| fail: "generation_fail now org_pid case_pid lease code db = Inr (b, db') \<Longrightarrow> generation_step limit db db'"
| other: "generations db' = generations db \<Longrightarrow> generation_step limit db db'"

definition gen_key :: "analysis_generation \<Rightarrow> uuid \<times> uuid \<times> string" where
  "gen_key g = (gen_organization_id g, gen_case_id g, gen_input_fingerprint g)"

definition generation_ok :: "int \<Rightarrow> analysis_generation \<Rightarrow> bool" where
  "generation_ok limit g \<longleftrightarrow> gen_fence_token g = gen_attempt_count g \<and> 1 \<le> gen_attempt_count g
     \<and> gen_attempt_count g \<le> limit \<and> (gen_status g = GEN_COMPLETED \<longleftrightarrow> gen_analysis_run_id g \<noteq> None)"

definition generation_inv :: "int \<Rightarrow> database \<Rightarrow> bool" where
  "generation_inv limit db \<longleftrightarrow> distinct (map gen_key (generations db))
     \<and> unique_keys gen_id (generations db) \<and> (\<forall>g\<in>set (generations db). generation_ok limit g)"

text \<open>What later states may make of a row: nothing once it is completed; until then the fence
  only grows, and while it stays the owner stays.\<close>

definition generation_successor :: "analysis_generation \<Rightarrow> analysis_generation \<Rightarrow> bool" where
  "generation_successor g g' \<longleftrightarrow> gen_key g' = gen_key g
     \<and> (gen_status g = GEN_COMPLETED \<longrightarrow> g' = g)
     \<and> gen_fence_token g \<le> gen_fence_token g'
     \<and> (gen_fence_token g' = gen_fence_token g \<longrightarrow> gen_owner_token g' = gen_owner_token g)"

definition generation_evolves :: "database \<Rightarrow> database \<Rightarrow> bool" where
  "generation_evolves db db' \<longleftrightarrow>
     (\<forall>g\<in>set (generations db). \<exists>g'\<in>set (generations db'). generation_successor g g')"

lemma successor_refl: "generation_successor g g"
  by (simp add: generation_successor_def)

lemma successor_trans:
  "generation_successor a b \<Longrightarrow> generation_successor b c \<Longrightarrow> generation_successor a c"
  by (auto simp: generation_successor_def)

lemma evolves_refl: "generation_evolves db db"
  using successor_refl by (auto simp: generation_evolves_def)

lemma evolves_trans: "generation_evolves a b \<Longrightarrow> generation_evolves b c \<Longrightarrow> generation_evolves a c"
  unfolding generation_evolves_def by (meson successor_trans)

lemma clash_key: "analysis_generation_clash a b \<longleftrightarrow> gen_key a = gen_key b"
  by (auto simp: analysis_generation_clash_def gen_key_def)

text \<open>Replacing every row by a successor with the same keys keeps the table well formed.\<close>

lemma map_rows_keep:
  assumes inv: "generation_inv limit db" and rows: "generations db' = map f (generations db)"
    and f: "\<And>g. g \<in> set (generations db) \<Longrightarrow> gen_id (f g) = gen_id g \<and> gen_key (f g) = gen_key g
      \<and> generation_ok limit (f g) \<and> generation_successor g (f g)"
  shows "generation_inv limit db' \<and> generation_evolves db db'"
proof -
  have "map gen_key (generations db') = map gen_key (generations db)"
    and "map gen_id (generations db') = map gen_id (generations db)" using rows f by simp_all
  then have "distinct (map gen_key (generations db')) \<and> unique_keys gen_id (generations db')"
    using inv unfolding generation_inv_def unique_keys_def by simp
  then show ?thesis using rows f unfolding generation_inv_def generation_evolves_def by auto
qed

lemma retaken_keeps:
  "generation_ok limit g \<Longrightarrow> gen_status g \<noteq> GEN_COMPLETED \<Longrightarrow> gen_attempt_count g < limit
    \<Longrightarrow> gen_id (retaken_generation ids secs g) = gen_id g
      \<and> gen_key (retaken_generation ids secs g) = gen_key g
      \<and> generation_ok limit (retaken_generation ids secs g)
      \<and> generation_successor g (retaken_generation ids secs g)"
  by (auto simp: retaken_generation_def gen_key_def generation_ok_def generation_successor_def)

lemma settled_keeps:
  assumes "generation_ok limit g" and "gen_status g = GEN_RUNNING"
  shows "gen_id (completed_generation now run g) = gen_id g
      \<and> gen_key (completed_generation now run g) = gen_key g
      \<and> generation_ok limit (completed_generation now run g)
      \<and> generation_successor g (completed_generation now run g)"
    and "gen_id (failed_generation now code g) = gen_id g
      \<and> gen_key (failed_generation now code g) = gen_key g
      \<and> generation_ok limit (failed_generation now code g)
      \<and> generation_successor g (failed_generation now code g)"
  using assms
  by (auto simp: completed_generation_def failed_generation_def gen_key_def generation_ok_def
      generation_successor_def)

lemma unchanged_keeps:
  "generation_ok limit g \<Longrightarrow> gen_id g = gen_id g \<and> gen_key g = gen_key g \<and> generation_ok limit g
    \<and> generation_successor g g"
  by (simp add: successor_refl)

lemma acquire_existing_keeps:
  assumes inv: "generation_inv limit db" and "max_attempts \<le> limit"
    and run: "acquire_existing ids org cid fp secs max_attempts db = Inr (r, db')"
  shows "generation_inv limit db' \<and> generation_evolves db db'"
proof -
  obtain g where g: "find (\<lambda>g. gen_organization_id g = org \<and> gen_case_id g = cid
      \<and> gen_input_fingerprint g = fp) (generations db) = Some g"
    using run by (auto simp: acquire_existing_def split: option.splits)
  then have mem: "g \<in> set (generations db)" by (auto simp: find_Some_iff)
  show ?thesis
  proof (cases "db' = db")
    case True
    then show ?thesis using inv evolves_refl by simp
  next
    case False
    then have st: "gen_status g \<noteq> GEN_COMPLETED" "gen_attempt_count g < max_attempts"
      and db': "db' = put_generation (retaken_generation ids secs g) db"
      using run g by (auto simp: acquire_existing_def Let_def split: if_splits option.splits)
    let ?f = "\<lambda>x. if gen_id x = gen_id g then retaken_generation ids secs g else x"
    have rows: "generations db' = map ?f (generations db)"
      by (simp add: db' put_generation_def row_put_def retaken_generation_def)
    show ?thesis
    proof (rule map_rows_keep [OF inv rows])
      fix x
      assume x: "x \<in> set (generations db)"
      have "x = g" if "gen_id x = gen_id g"
        using inv x mem that by (auto simp: generation_inv_def unique_keys_def distinct_map dest: inj_onD)
      then show "gen_id (?f x) = gen_id x \<and> gen_key (?f x) = gen_key x \<and> generation_ok limit (?f x)
          \<and> generation_successor x (?f x)"
        using x inv retaken_keeps [of limit g ids secs] unchanged_keeps [of limit x] st assms(2)
        unfolding generation_inv_def by auto
    qed
  qed
qed

lemma acquire_keeps:
  assumes inv: "generation_inv limit db" and lim: "max_attempts \<le> limit"
    and run: "generation_acquire ids org_pid case_pid fp secs max_attempts db = Inr (r, db')"
  shows "generation_inv limit db' \<and> generation_evolves db db'"
proof -
  obtain org cid where max: "1 \<le> max_attempts"
    and r: "(case insert_generation (new_generation ids org cid fp secs) db of
       Inr db1 \<Rightarrow> Inr (Leased (lease_of (new_generation ids org cid fp secs)), db1)
     | Inl _ \<Rightarrow> acquire_existing ids org cid fp secs max_attempts db) = Inr (r, db')"
    using run by (auto simp: generation_acquire_def run_simps Let_def)
  show ?thesis
  proof (cases "insert_generation (new_generation ids org cid fp secs) db")
    case (Inl e)
    then show ?thesis using acquire_existing_keeps [OF inv lim] r by simp
  next
    case (Inr db1)
    let ?g = "new_generation ids org cid fp secs"
    have "db' = db1" using Inr r by simp
    have rows: "generations db' = generations db @ [?g]" and new: "\<forall>x\<in>set (generations db). gen_key ?g \<noteq> gen_key x"
      and "row_get gen_id (gen_id ?g) (generations db) = None"
      using Inr \<open>db' = db1\<close> by (auto simp: insert_generation_def run_simps clash_key)
    moreover have "generation_ok limit ?g" using max lim by (simp add: generation_ok_def new_generation_def)
    ultimately show ?thesis
      using inv successor_refl
      unfolding generation_inv_def generation_evolves_def
      by (auto simp: unique_keys_append)
  qed
qed

lemma update_keeps:
  assumes inv: "generation_inv limit db" and upd: "db' = snd (update_generations (holds_lease org cid lease) f db)"
    and f: "\<And>g. generation_ok limit g \<Longrightarrow> gen_status g = GEN_RUNNING \<Longrightarrow> gen_id (f g) = gen_id g
      \<and> gen_key (f g) = gen_key g \<and> generation_ok limit (f g) \<and> generation_successor g (f g)"
  shows "generation_inv limit db' \<and> generation_evolves db db'"
proof (rule map_rows_keep [OF inv])
  show "generations db' = map (\<lambda>g. if holds_lease org cid lease g then f g else g) (generations db)"
    using upd by (auto simp: update_generations_def)
  fix g
  assume "g \<in> set (generations db)"
  then show "gen_id (if holds_lease org cid lease g then f g else g) = gen_id g
      \<and> gen_key (if holds_lease org cid lease g then f g else g) = gen_key g
      \<and> generation_ok limit (if holds_lease org cid lease g then f g else g)
      \<and> generation_successor g (if holds_lease org cid lease g then f g else g)"
    using inv f [of g] unchanged_keeps [of limit g] by (auto simp: generation_inv_def holds_lease_def)
qed

lemma generation_step_keeps:
  assumes "generation_step limit db db'" and "generation_inv limit db"
  shows "generation_inv limit db' \<and> generation_evolves db db'"
  using assms
proof (cases rule: generation_step.cases)
  case (acquire ids org_pid case_pid fp secs max_attempts r)
  then show ?thesis using acquire_keeps assms(2) by blast
next
  case (complete now org_pid case_pid lease run u)
  then obtain org cid where "db' = snd (update_generations (holds_lease org cid lease) (completed_generation now run) db)"
    by (auto simp: generation_complete_def run_simps Let_def split_beta)
  then show ?thesis by (rule update_keeps [OF assms(2)]) (rule settled_keeps(1))
next
  case (fail now org_pid case_pid lease code b)
  then obtain org cid where "db' = snd (update_generations (holds_lease org cid lease) (failed_generation now code) db)"
    by (auto simp: generation_fail_def run_simps Let_def split_beta)
  then show ?thesis by (rule update_keeps [OF assms(2)]) (rule settled_keeps(2))
next
  case other
  then show ?thesis using assms(2) successor_refl by (auto simp: generation_inv_def generation_evolves_def)
qed

interpretation gen_sys: step_invariant "generation_step limit" "generation_inv limit" for limit
  by unfold_locales (use generation_step_keeps in blast)

lemma generation_run:
  assumes "(generation_step limit)\<^sup>*\<^sup>* db db'" and "generation_inv limit db"
  shows "generation_inv limit db' \<and> generation_evolves db db'"
  using assms
proof (induction rule: rtranclp_induct)
  case base
  then show ?case using evolves_refl by simp
next
  case (step y z)
  then show ?case using generation_step_keeps evolves_trans by blast
qed

lemma no_generations_inv: "generations db = [] \<Longrightarrow> generation_inv limit db"
  by (simp add: generation_inv_def unique_keys_def)

section \<open>Leases\<close>

lemma same_key_same_row:
  "generation_inv limit db \<Longrightarrow> g \<in> set (generations db) \<Longrightarrow> h \<in> set (generations db)
    \<Longrightarrow> gen_key g = gen_key h \<Longrightarrow> g = h"
  by (auto simp: generation_inv_def distinct_map dest: inj_onD)

lemma acquired_row:
  assumes inv: "generation_inv limit db"
    and run: "generation_acquire ids org_pid case_pid fp secs max_attempts db = Inr (Leased lease, db')"
    and scope: "generation_scope_ids org_pid case_pid db = Inr (org, cid)"
  obtains g where "g \<in> set (generations db')" "gen_key g = (org, cid, fp)" "lease_of g = lease"
    "gen_status g = GEN_RUNNING"
    "\<forall>h\<in>set (generations db). gen_key h = (org, cid, fp) \<longrightarrow> gen_fence_token h < gen_fence_token g"
proof (cases "insert_generation (new_generation ids org cid fp secs) db")
  case (Inr db1)
  let ?g = "new_generation ids org cid fp secs"
  have r: "lease = lease_of ?g" "db' = db1"
    using run scope Inr by (auto simp: generation_acquire_def run_simps)
  have "generations db1 = generations db @ [?g]" "\<forall>x\<in>set (generations db). gen_key ?g \<noteq> gen_key x"
    using Inr by (auto simp: insert_generation_def run_simps clash_key)
  moreover have "gen_key ?g = (org, cid, fp)" "gen_status ?g = GEN_RUNNING"
    by (simp_all add: new_generation_def gen_key_def)
  ultimately show thesis using that [of ?g] r by fastforce
next
  case (Inl e)
  have ex: "acquire_existing ids org cid fp secs max_attempts db = Inr (Leased lease, db')"
    using run scope Inl by (auto simp: generation_acquire_def run_simps)
  then obtain g where g: "find (\<lambda>g. gen_organization_id g = org \<and> gen_case_id g = cid
      \<and> gen_input_fingerprint g = fp) (generations db) = Some g"
    by (auto simp: acquire_existing_def split: option.splits)
  let ?g = "retaken_generation ids secs g"
  have mem: "g \<in> set (generations db)" and key: "gen_key g = (org, cid, fp)"
    using g by (auto simp: find_Some_iff gen_key_def)
  have r: "lease = lease_of ?g" "db' = put_generation ?g db"
    using ex g by (auto simp: acquire_existing_def Let_def split: if_splits option.splits)
  have "?g \<in> set (generations db')"
    using mem r(2) by (auto simp: put_generation_def row_put_def retaken_generation_def image_iff intro: bexI [of _ g])
  moreover have "gen_key ?g = (org, cid, fp)" "gen_status ?g = GEN_RUNNING" "gen_fence_token g < gen_fence_token ?g"
    using key by (simp_all add: retaken_generation_def gen_key_def)
  ultimately show thesis using that [of ?g] r(1) same_key_same_row [OF inv mem] key by metis
qed

lemma filter_key_single:
  "distinct (map f xs) \<Longrightarrow> x \<in> set xs \<Longrightarrow> filter (\<lambda>y. f y = f x) xs = [x]"
  by (induction xs) (auto simp: filter_empty_conv image_iff)

lemma find_filter_one: "filter P xs = [x] \<Longrightarrow> find P xs = Some x"
  by (induction xs) (auto split: if_splits)

lemma find_key:
  assumes "generation_inv limit db" and "g \<in> set (generations db)"
  shows "find (\<lambda>h. gen_organization_id h = gen_organization_id g \<and> gen_case_id h = gen_case_id g
      \<and> gen_input_fingerprint h = gen_input_fingerprint g) (generations db) = Some g"
proof -
  have "filter (\<lambda>h. gen_key h = gen_key g) (generations db) = [g]"
    using assms by (simp add: generation_inv_def filter_key_single)
  moreover have "(\<lambda>h. gen_organization_id h = gen_organization_id g \<and> gen_case_id h = gen_case_id g
      \<and> gen_input_fingerprint h = gen_input_fingerprint g) = (\<lambda>h. gen_key h = gen_key g)"
    by (auto simp: gen_key_def)
  ultimately show ?thesis by (simp add: find_filter_one)
qed

text \<open>An acquisition for a key that has a row works on that row.\<close>

lemma acquire_uses_row:
  assumes "generation_inv limit db" and "g \<in> set (generations db)" and "1 \<le> secs" "1 \<le> n"
    and "generation_scope_ids org_pid case_pid db = Inr (gen_organization_id g, gen_case_id g)"
  shows "generation_acquire ids org_pid case_pid (gen_input_fingerprint g) secs n db
    = acquire_existing ids (gen_organization_id g) (gen_case_id g) (gen_input_fingerprint g) secs n db"
proof -
  let ?g = "new_generation ids (gen_organization_id g) (gen_case_id g) (gen_input_fingerprint g) secs"
  have "gen_key ?g = gen_key g" by (simp add: new_generation_def gen_key_def)
  then have "list_ex (analysis_generation_clash ?g) (generations db)"
    using assms(2) by (auto simp: list_ex_iff clash_key)
  then show ?thesis
    using assms(3-5) by (simp add: generation_acquire_def insert_generation_def insert_row_def requireE_def)
qed

lemma completed_acquire:
  assumes "generation_inv limit db" and "g \<in> set (generations db)" and "gen_status g = GEN_COMPLETED"
    and "1 \<le> secs \<and> 1 \<le> n
      \<and> generation_scope_ids org_pid case_pid db = Inr (gen_organization_id g, gen_case_id g)"
  shows "generation_acquire ids org_pid case_pid (gen_input_fingerprint g) secs n db
    = Inr (Completed (gen_input_fingerprint g) (the (gen_analysis_run_id g)), db)"
proof -
  have "gen_analysis_run_id g \<noteq> None" using assms(1-3) by (auto simp: generation_inv_def generation_ok_def)
  then show ?thesis
    using acquire_uses_row [OF assms(1,2), of secs n org_pid case_pid ids] find_key [OF assms(1,2)] assms(3,4)
    by (auto simp: acquire_existing_def)
qed

lemma nothing_held:
  assumes "\<forall>g\<in>set (generations db). \<not> holds_lease org cid lease g"
    and scope: "generation_scope_ids org_pid case_pid db = Inr (org, cid)"
  shows "\<exists>e. generation_complete now org_pid case_pid lease run db = Inl e"
    and "generation_fail now org_pid case_pid lease code db = Inr (False, db)"
proof -
  have none: "filter (holds_lease org cid lease) (generations db) = []" using assms(1) by simp
  then show "\<exists>e. generation_complete now org_pid case_pid lease run db = Inl e"
    using scope by (simp add: generation_complete_def update_generations_def requireE_def)
  have "map (\<lambda>g. if holds_lease org cid lease g then failed_generation now code g else g) (generations db)
      = generations db"
    using assms(1) by (intro map_idI) simp
  then show "generation_fail now org_pid case_pid lease code db = Inr (False, db)"
    using scope none by (simp add: generation_fail_def update_generations_def)
qed

section \<open>Properties\<close>

text \<open>C35. Fencing: once a second lease for the same case and input has been handed out, the first
  worker can neither complete nor fail the generation, at any later time; its attempt changes
  nothing.\<close>

theorem stale_lease_fenced:
  assumes "generations db0 = []" and run1: "(generation_step limit)\<^sup>*\<^sup>* db0 db1"
    and acq1: "generation_acquire ids1 org_pid case_pid fp secs1 max1 db1 = Inr (Leased lease, db2)"
    and run2: "(generation_step limit)\<^sup>*\<^sup>* db2 db3"
    and acq2: "generation_acquire ids2 org_pid case_pid fp secs2 max2 db3 = Inr (Leased lease2, db4)"
    and run3: "(generation_step limit)\<^sup>*\<^sup>* db4 db5" and max: "max1 \<le> limit" "max2 \<le> limit"
    and scope: "generation_scope_ids org_pid case_pid db1 = Inr (org, cid)"
      "generation_scope_ids org_pid case_pid db3 = Inr (org, cid)"
      "generation_scope_ids org_pid case_pid db5 = Inr (org, cid)"
  shows "(\<exists>e. generation_complete now org_pid case_pid lease run db5 = Inl e)
    \<and> generation_fail now org_pid case_pid lease code db5 = Inr (False, db5)"
proof -
  note i1 = generation_run [OF run1 no_generations_inv [OF assms(1)], THEN conjunct1]
  obtain g where g: "g \<in> set (generations db2)" "gen_key g = (org, cid, fp)" "lease_of g = lease"
    by (rule acquired_row [OF i1 acq1 scope(1)])
  note i2 = acquire_keeps [OF i1 max(1) acq1, THEN conjunct1]
  obtain h where h: "h \<in> set (generations db3)" "generation_successor g h"
    using generation_run [OF run2 i2] g(1) unfolding generation_evolves_def by blast
  note i3 = generation_run [OF run2 i2, THEN conjunct1]
  obtain k where k: "k \<in> set (generations db4)" "gen_key k = (org, cid, fp)"
    "\<forall>h\<in>set (generations db3). gen_key h = (org, cid, fp) \<longrightarrow> gen_fence_token h < gen_fence_token k"
    by (rule acquired_row [OF i3 acq2 scope(2)])
  note i4 = acquire_keeps [OF i3 max(2) acq2, THEN conjunct1]
  obtain l where l: "l \<in> set (generations db5)" "generation_successor k l"
    using generation_run [OF run3 i4] k(1) unfolding generation_evolves_def by blast
  note i5 = generation_run [OF run3 i4, THEN conjunct1]
  have "gen_fence_token g < gen_fence_token l"
    using h l(2) k(3) g(2) unfolding generation_successor_def by fastforce
  have "\<not> holds_lease org cid lease x" if x: "x \<in> set (generations db5)" for x
  proof
    assume holds: "holds_lease org cid lease x"
    then have "gen_key x = (org, cid, fp)" "gen_fence_token x = gen_fence_token g"
      using g(2,3) by (auto simp: holds_lease_def gen_key_def lease_of_def)
    moreover have "gen_key l = (org, cid, fp)" using l(2) k(2) by (simp add: generation_successor_def)
    ultimately show False
      using same_key_same_row [OF i5 x l(1)] \<open>gen_fence_token g < gen_fence_token l\<close> by simp
  qed
  then have "\<forall>x\<in>set (generations db5). \<not> holds_lease org cid lease x" by blast
  from nothing_held [OF this scope(3)] show ?thesis by blast
qed

text \<open>C36. Every state of the generation table is well formed and bounded: there is one row per case
  and input, its fence token is its number of attempts, which never exceeds the limit the callers
  allow, it names an analysis run exactly when it is completed, and a completed generation stays
  as it is for ever and is what every later acquisition returns.\<close>

theorem generation_table:
  assumes "generations db0 = []" and "(generation_step limit)\<^sup>*\<^sup>* db0 db"
    and g: "g \<in> set (generations db)"
  shows "filter (\<lambda>h. gen_key h = gen_key g) (generations db) = [g]
    \<and> gen_fence_token g = gen_attempt_count g \<and> 1 \<le> gen_attempt_count g \<and> gen_attempt_count g \<le> limit
    \<and> (gen_status g = GEN_COMPLETED \<longleftrightarrow> gen_analysis_run_id g \<noteq> None)
    \<and> (gen_status g = GEN_COMPLETED \<longrightarrow> (\<forall>db'. (generation_step limit)\<^sup>*\<^sup>* db db' \<longrightarrow>
        g \<in> set (generations db')
        \<and> (\<forall>ids org_pid case_pid secs n. 1 \<le> secs \<and> 1 \<le> n
             \<and> generation_scope_ids org_pid case_pid db' = Inr (gen_organization_id g, gen_case_id g)
             \<longrightarrow> generation_acquire ids org_pid case_pid (gen_input_fingerprint g) secs n db'
                  = Inr (Completed (gen_input_fingerprint g) (the (gen_analysis_run_id g)), db'))))"
proof -
  have inv: "generation_inv limit db" using generation_run [OF assms(2) no_generations_inv [OF assms(1)]] ..
  have one: "filter (\<lambda>h. gen_key h = gen_key g) (generations db) = [g]"
    using inv g by (simp add: generation_inv_def filter_key_single)
  have later: "g \<in> set (generations db')
      \<and> (\<forall>ids org_pid case_pid secs n. 1 \<le> secs \<and> 1 \<le> n
         \<and> generation_scope_ids org_pid case_pid db' = Inr (gen_organization_id g, gen_case_id g)
         \<longrightarrow> generation_acquire ids org_pid case_pid (gen_input_fingerprint g) secs n db'
           = Inr (Completed (gen_input_fingerprint g) (the (gen_analysis_run_id g)), db'))"
    if st: "gen_status g = GEN_COMPLETED" and run: "(generation_step limit)\<^sup>*\<^sup>* db db'" for db'
  proof -
    have inv': "generation_inv limit db'" and "generation_evolves db db'" using generation_run [OF run inv] by simp_all
    then have mem: "g \<in> set (generations db')"
      using g st unfolding generation_evolves_def generation_successor_def by metis
    then show ?thesis using completed_acquire [OF inv' mem st] by blast
  qed
  show ?thesis
    using one later inv g unfolding generation_inv_def generation_ok_def by blast
qed

lemma scope_kept [simp]:
  "generation_scope_ids org_pid case_pid (put_generation g db) = generation_scope_ids org_pid case_pid db"
  by (simp add: generation_scope_ids_def put_generation_def)

lemma holder_completes:
  assumes inv: "generation_inv limit db" and g: "g \<in> set (generations db)" "gen_status g = GEN_RUNNING"
    and scope: "generation_scope_ids org_pid case_pid db = Inr (gen_organization_id g, gen_case_id g)"
  shows "\<exists>db'. generation_complete now org_pid case_pid (lease_of g) run db = Inr ((), db')
    \<and> completed_generation now run g \<in> set (generations db')"
proof -
  let ?P = "holds_lease (gen_organization_id g) (gen_case_id g) (lease_of g)"
  have holds: "?P g" using g(2) by (simp add: holds_lease_def lease_of_def)
  have "?P h \<longleftrightarrow> h = g" if "h \<in> set (generations db)" for h
    using holds same_key_same_row [OF inv that g(1)] by (auto simp: holds_lease_def gen_key_def lease_of_def)
  then have "filter ?P (generations db) = filter (\<lambda>h. gen_key h = gen_key g) (generations db)"
    using same_key_same_row [OF inv _ g(1)] by (intro filter_cong) auto
  also have "\<dots> = [g]" using inv g(1) by (simp add: generation_inv_def filter_key_single)
  finally have one: "filter ?P (generations db) = [g]" .
  have "completed_generation now run g
      \<in> set (map (\<lambda>h. if ?P h then completed_generation now run h else h) (generations db))"
    using g(1) holds by (auto simp: image_iff intro!: bexI [of _ g])
  then show ?thesis
    using scope one by (simp add: generation_complete_def update_generations_def requireE_def)
qed

text \<open>C37. No generation hangs: in every reachable state a generation that is not completed and has
  attempts left can be taken over as soon as its lease has run out or it has failed, and whoever
  takes it over can complete it.\<close>

theorem abandoned_generation_finishes:
  assumes "generations db0 = []" and "(generation_step limit)\<^sup>*\<^sup>* db0 db"
    and g: "g \<in> set (generations db)" "gen_status g \<noteq> GEN_COMPLETED" "gen_attempt_count g < n"
    and free: "gen_status g = GEN_RUNNING \<longrightarrow> gen_expires_at g \<le> aq_retry_now ids"
    and pos: "1 \<le> secs" "n \<le> limit"
    and scope: "generation_scope_ids org_pid case_pid db = Inr (gen_organization_id g, gen_case_id g)"
  shows "\<exists>lease db'. generation_acquire ids org_pid case_pid (gen_input_fingerprint g) secs n db
      = Inr (Leased lease, db')
    \<and> (\<exists>db'' g'. generation_complete now org_pid case_pid lease run db' = Inr ((), db'')
        \<and> g' \<in> set (generations db'') \<and> gen_key g' = gen_key g \<and> gen_status g' = GEN_COMPLETED
        \<and> gen_analysis_run_id g' = Some run)"
proof -
  have inv: "generation_inv limit db" using generation_run [OF assms(2) no_generations_inv [OF assms(1)]] ..
  have n: "1 \<le> n" using inv g(1,3) by (auto simp: generation_inv_def generation_ok_def)
  let ?g = "retaken_generation ids secs g"
  let ?db = "put_generation ?g db"
  have acq: "generation_acquire ids org_pid case_pid (gen_input_fingerprint g) secs n db
      = Inr (Leased (lease_of ?g), ?db)"
    using acquire_uses_row [OF inv g(1) pos(1) n scope] find_key [OF inv g(1)] g(2,3) free
    by (auto simp: acquire_existing_def Let_def)
  have inv': "generation_inv limit ?db" using acquire_keeps [OF inv pos(2) acq] ..
  have mem: "?g \<in> set (generations ?db)"
    using g(1) by (auto simp: put_generation_def row_put_def retaken_generation_def image_iff intro: bexI [of _ g])
  have scope': "generation_scope_ids org_pid case_pid ?db = Inr (gen_organization_id ?g, gen_case_id ?g)"
    using scope by (simp add: retaken_generation_def)
  have "gen_status ?g = GEN_RUNNING" by (simp add: retaken_generation_def)
  from holder_completes [OF inv' mem this scope', of now run] obtain db'' where
    "generation_complete now org_pid case_pid (lease_of ?g) run ?db = Inr ((), db'')"
    "completed_generation now run ?g \<in> set (generations db'')" by blast
  then show ?thesis
    using acq
    by (intro exI [of _ "lease_of ?g"] exI [of _ ?db] conjI exI [of _ db'']
        exI [of _ "completed_generation now run ?g"])
       (simp_all add: completed_generation_def retaken_generation_def gen_key_def)
qed

end
