(* ===== verification/Generation_Witness.thy ===== *)
theory Generation_Witness
  imports Generation Demo
begin

text \<open>
  The properties of the generation leases at a concrete run: a worker acquires the generation,
  lets its lease run out, and a second worker takes it over.
\<close>

definition worker :: "uuid \<Rightarrow> timestamp \<Rightarrow> acquire_ids" where
  "worker i now = \<lparr>aq_id = i, aq_owner = i + 10, aq_now = now, aq_created = now, aq_retry_now = now\<rparr>"

definition gdemo_row :: analysis_generation where
  "gdemo_row = new_generation (worker 1 0) 1 3 ''fp'' 60"

definition gdemo_db1 :: database where
  "gdemo_db1 = demo_db\<lparr>generations := [gdemo_row]\<rparr>"

definition gdemo_late :: timestamp where
  "gdemo_late = seconds 90"

definition gdemo_db2 :: database where
  "gdemo_db2 = demo_db\<lparr>generations := [retaken_generation (worker 2 gdemo_late) 60 gdemo_row]\<rparr>"

lemma gdemo_scope: "generation_scope_ids ''ORG'' ''CASE'' (demo_db\<lparr>generations := gs\<rparr>) = Inr (1, 3)"
  by (simp add: generation_scope_ids_def demo_defs)

lemma gdemo_scope0: "generation_scope_ids ''ORG'' ''CASE'' demo_db = Inr (1, 3)"
  by (simp add: generation_scope_ids_def demo_defs)

lemma gdemo_empty: "generations demo_db = []"
  by (simp add: demo_db_def)

lemma gdemo_first:
  "generation_acquire (worker 1 0) ''ORG'' ''CASE'' ''fp'' 60 3 demo_db = Inr (Leased (lease_of gdemo_row), gdemo_db1)"
  by (simp add: generation_acquire_def gdemo_scope0 insert_generation_def insert_row_def gdemo_empty row_get_def
      requireE_def analysis_generation_checks_def gdemo_row_def gdemo_db1_def new_generation_def Let_def)

lemma gdemo_second:
  "generation_acquire (worker 2 gdemo_late) ''ORG'' ''CASE'' ''fp'' 60 3 gdemo_db1
     = Inr (Leased (lease_of (retaken_generation (worker 2 gdemo_late) 60 gdemo_row)), gdemo_db2)"
  by (simp add: generation_acquire_def gdemo_scope gdemo_db1_def insert_generation_def insert_row_def row_get_def
      requireE_def gdemo_row_def new_generation_def analysis_generation_clash_def acquire_existing_def
      gdemo_late_def worker_def seconds_def put_generation_def row_put_def gdemo_db2_def retaken_generation_def
      Let_def)

lemma gdemo_step: "(generation_step 3)\<^sup>*\<^sup>* demo_db gdemo_db1"
  using generation_step.acquire [OF gdemo_first] by auto

section \<open>Witnesses\<close>

theorem stale_lease_fenced_witness:
  "generation_fail 0 ''ORG'' ''CASE'' (lease_of gdemo_row) ''timeout'' gdemo_db2 = Inr (False, gdemo_db2)"
  using stale_lease_fenced [OF gdemo_empty rtranclp.rtrancl_refl gdemo_first rtranclp.rtrancl_refl gdemo_second
      rtranclp.rtrancl_refl, of 3 1 3] gdemo_scope0 gdemo_scope
  by (simp add: gdemo_db1_def gdemo_db2_def)

theorem generation_table_witness:
  "gdemo_row \<in> set (generations gdemo_db1) \<and> gen_attempt_count gdemo_row \<le> 3"
proof -
  have "gdemo_row \<in> set (generations gdemo_db1)" by (simp add: gdemo_db1_def)
  from generation_table [OF gdemo_empty gdemo_step this] show ?thesis
    by (simp add: gdemo_db1_def)
qed

theorem abandoned_generation_finishes_witness:
  "\<exists>lease db' db''. generation_acquire (worker 2 gdemo_late) ''ORG'' ''CASE'' ''fp'' 60 3 gdemo_db1
       = Inr (Leased lease, db')
     \<and> generation_complete 0 ''ORG'' ''CASE'' lease 7 db' = Inr ((), db'')"
proof -
  have g: "gdemo_row \<in> set (generations gdemo_db1)" "gen_status gdemo_row \<noteq> GEN_COMPLETED"
    "gen_attempt_count gdemo_row < 3" "gen_input_fingerprint gdemo_row = ''fp''"
    "gen_status gdemo_row = GEN_RUNNING \<longrightarrow> gen_expires_at gdemo_row \<le> aq_retry_now (worker 2 gdemo_late)"
    by (simp_all add: gdemo_db1_def gdemo_row_def new_generation_def worker_def gdemo_late_def seconds_def)
  have scope: "generation_scope_ids ''ORG'' ''CASE'' gdemo_db1
      = Inr (gen_organization_id gdemo_row, gen_case_id gdemo_row)"
    using gdemo_scope by (simp add: gdemo_db1_def gdemo_row_def new_generation_def)
  from abandoned_generation_finishes [OF gdemo_empty gdemo_step g(1-3,5) _ _ scope, of 60 0 7]
  show ?thesis using g(4) by auto
qed

end
