(* ===== verification/Cases.thy ===== *)
theory Cases
  imports Workspace Reviews
begin

text \<open>
  Cases: the reads and writes of \<open>persistence/case_persistence/_base.py\<close>, the commands of
  \<open>commands.py\<close> and the two history reads of \<open>queries.py\<close> beside it and the service \<open>services/case_service.py\<close> with the status transitions
  of \<open>domain/cases.py\<close>. A command reads the whole workspace back; its clock readings, primary keys
  and random identifiers are arguments.
\<close>

section \<open>Transitions\<close>

fun case_transitions :: "case_status \<Rightarrow> case_status list" where
  "case_transitions CS_NEW = [CS_INVESTIGATING, CS_INFORMATION_NEEDED]"
| "case_transitions CS_INVESTIGATING =
     [CS_INFORMATION_NEEDED, CS_NEEDS_REVIEW, CS_WAITING_CUSTOMER, CS_IN_PROGRESS]"
| "case_transitions CS_INFORMATION_NEEDED = [CS_INVESTIGATING, CS_WAITING_CUSTOMER]"
| "case_transitions CS_NEEDS_REVIEW = [CS_IN_PROGRESS, CS_INVESTIGATING]"
| "case_transitions CS_WAITING_CUSTOMER = [CS_INVESTIGATING, CS_INFORMATION_NEEDED]"
| "case_transitions CS_IN_PROGRESS = [CS_COMPLETED, CS_INFORMATION_NEEDED, CS_NEEDS_REVIEW]"
| "case_transitions CS_COMPLETED = []"

definition require_case_transition :: "case_status \<Rightarrow> case_status \<Rightarrow> error + unit" where
  "require_case_transition current target =
     requireE (target \<in> set (case_transitions current))
       (InvalidCaseTransition (''Case cannot move from '' @ case_status_value current @ '' to ''
          @ case_status_value target @ ''.''))"

section \<open>Reading a workspace\<close>

definition case_workspace_business_context_limit :: nat where
  "case_workspace_business_context_limit = 100"

definition case_workspace_message_limit :: nat where
  "case_workspace_message_limit = 50"

definition case_workspace_activity_limit :: nat where
  "case_workspace_activity_limit = 100"

definition required_case :: "string \<Rightarrow> string \<Rightarrow> database \<Rightarrow> error + case_row" where
  "required_case org_pid case_pid db =
     someE (find (\<lambda>c. cs_public_id c = case_pid
                   \<and> list_ex (\<lambda>g. org_id g = cs_organization_id c \<and> org_public_id g = org_pid)
                       (organizations db)) (cases db))
       (CaseNotFound ''The case was not found.'')"

text \<open>\<open>ORDER BY t DESC, k DESC\<close>.\<close>

definition newest_first :: "('r \<Rightarrow> timestamp) \<Rightarrow> ('r \<Rightarrow> 'k::linorder) \<Rightarrow> 'r list \<Rightarrow> 'r list" where
  "newest_first t k rows = rev (sort_key t (sort_key k rows))"

text \<open>\<open>str(uuid)\<close>: thirty-two hexadecimal digits in five groups.\<close>

fun hex_str :: "nat \<Rightarrow> string" where
  "hex_str n = (if n < 16 then [hex_digit n] else hex_str (n div 16) @ [hex_digit (n mod 16)])"

declare hex_str.simps [simp del]

definition uuid_str :: "uuid \<Rightarrow> string" where
  "uuid_str u = (let h = pad_left 32 (hex_str u)
     in take 8 h @ ''-'' @ take 4 (drop 8 h) @ ''-'' @ take 4 (drop 12 h) @ ''-''
        @ take 4 (drop 16 h) @ ''-'' @ drop 20 h)"

record message_page =
  mp_items :: "conversation_message list"
  mp_total :: nat
  mp_next_position :: "case_history_position option"

record activity_page =
  yp_items :: "case_activity list"
  yp_total :: nat
  yp_next_position :: "case_history_position option"

definition case_messages :: "case_row \<Rightarrow> database \<Rightarrow> conversation_message list" where
  "case_messages c db =
     filter (\<lambda>m. msg_organization_id m = cs_organization_id c \<and> msg_case_id m = cs_id c) (messages db)"

definition before_message :: "case_history_position option \<Rightarrow> conversation_message \<Rightarrow> bool" where
  "before_message before m =
     (case before of None \<Rightarrow> True
      | Some p \<Rightarrow> msg_created_at m < hp_occurred_at p
          \<or> msg_created_at m = hp_occurred_at p \<and> msg_public_id m < hp_tie_breaker p)"

definition conversation_page ::
    "case_row \<Rightarrow> case_history_position option \<Rightarrow> nat \<Rightarrow> database \<Rightarrow> message_page" where
  "conversation_page c before limit db =
     (let models = take (limit + 1) (newest_first msg_created_at msg_public_id
                     (filter (before_message before) (case_messages c db)));
          page = take limit models
      in \<lparr>mp_items = rev page, mp_total = length (case_messages c db),
          mp_next_position =
            (if length models > limit \<and> page \<noteq> []
             then Some \<lparr>hp_occurred_at = msg_created_at (last page),
                        hp_tie_breaker = msg_public_id (last page)\<rparr>
             else None)\<rparr>)"

definition case_events :: "case_row \<Rightarrow> database \<Rightarrow> audit_event list" where
  "case_events c db =
     filter (\<lambda>e. au_organization_id e = Some (cs_organization_id c)
               \<and> au_subject_type e = Some ''case'' \<and> au_subject_id e = Some (cs_public_id c))
       (audit_events db)"

definition activity_of :: "audit_event \<Rightarrow> case_activity" where
  "activity_of e =
     \<lparr>ca_id = au_id e, ca_event_type = au_event_type e, ca_actor_id = au_actor_id e,
      ca_summary = (case au_summary e of None \<Rightarrow> au_event_type e
                    | Some s \<Rightarrow> if s = [] then au_event_type e else s),
      ca_occurred_at = au_occurred_at e\<rparr>"

text \<open>The position of an activity page is read here with its tie breaker already parsed.\<close>

definition activity_page_of ::
    "case_row \<Rightarrow> (timestamp \<times> uuid) option \<Rightarrow> nat \<Rightarrow> database \<Rightarrow> activity_page" where
  "activity_page_of c before limit db =
     (let events = filter (\<lambda>e. case before of None \<Rightarrow> True
            | Some (t, u) \<Rightarrow> au_occurred_at e < t \<or> au_occurred_at e = t \<and> au_id e < u)
            (case_events c db);
          models = take (limit + 1) (newest_first au_occurred_at au_id events);
          page = take limit models
      in \<lparr>yp_items = map activity_of (rev page), yp_total = length (case_events c db),
          yp_next_position =
            (if length models > limit \<and> page \<noteq> []
             then Some \<lparr>hp_occurred_at = au_occurred_at (last page),
                        hp_tie_breaker = uuid_str (au_id (last page))\<rparr>
             else None)\<rparr>)"

definition list_conversation_messages ::
    "string \<Rightarrow> string \<Rightarrow> case_history_position option \<Rightarrow> nat \<Rightarrow> database \<Rightarrow> error + message_page" where
  "list_conversation_messages org_pid case_pid before limit db =
     bindE (required_case org_pid case_pid db) (\<lambda>c. Inr (conversation_page c before limit db))"

definition list_case_activity ::
    "string \<Rightarrow> string \<Rightarrow> (timestamp \<times> uuid) option \<Rightarrow> nat \<Rightarrow> database \<Rightarrow> error + activity_page" where
  "list_case_activity org_pid case_pid before limit db =
     bindE (required_case org_pid case_pid db) (\<lambda>c. Inr (activity_page_of c before limit db))"

definition case_contexts :: "case_row \<Rightarrow> database \<Rightarrow> business_object_snapshot list" where
  "case_contexts c db =
     filter (\<lambda>b. bo_organization_id b = cs_organization_id c \<and> bo_case_id b = cs_id c)
       (business_objects db)"

definition owner_record :: "membership \<Rightarrow> case_owner" where
  "owner_record m = \<lparr>ow_id = mem_id m, ow_public_id = mem_public_id m, ow_name = mem_name m\<rparr>"

text \<open>The row of the join: the case with its request, customer and thread, and, if there are, its
  draft and owner.\<close>

definition workspace_row ::
    "string \<Rightarrow> string \<Rightarrow> database
     \<Rightarrow> (case_row \<times> case_request \<times> customer_context \<times> conversation_thread) option" where
  "workspace_row org_pid case_pid db =
     (case [(c, q, u, th). c \<leftarrow> cases db, q \<leftarrow> case_requests db, u \<leftarrow> case_customers db, th \<leftarrow> threads db,
             cs_public_id c = case_pid
             \<and> list_ex (\<lambda>g. org_id g = cs_organization_id c \<and> org_public_id g = org_pid) (organizations db)
             \<and> crq_organization_id q = cs_organization_id c \<and> crq_case_id q = cs_id c
             \<and> cc_organization_id u = cs_organization_id c \<and> cc_case_id u = cs_id c
             \<and> th_organization_id th = cs_organization_id c \<and> th_case_id th = cs_id c] of
        [] \<Rightarrow> None | row # _ \<Rightarrow> Some row)"

definition get_workspace :: "string \<Rightarrow> string \<Rightarrow> database \<Rightarrow> error + case_workspace option" where
  "get_workspace org_pid case_pid db =
     (case workspace_row org_pid case_pid db of
        None \<Rightarrow> Inr None
      | Some (c, q, u, th) \<Rightarrow>
          let contexts = sort_key bo_public_id
                (take case_workspace_business_context_limit
                   (newest_first bo_captured_at bo_public_id (case_contexts c db)));
              total = length (case_contexts c db);
              mp = conversation_page c None case_workspace_message_limit db;
              yp = activity_page_of c None case_workspace_activity_limit db
          in
          bindE (validate_window
                   \<lparr>cw_returned = int (length contexts), cw_total = int total,
                    cw_has_more = length contexts < total, cw_next_position = None\<rparr>) (\<lambda>w1.
          bindE (validate_window
                   \<lparr>cw_returned = int (length (mp_items mp)), cw_total = int (mp_total mp),
                    cw_has_more = (mp_next_position mp \<noteq> None),
                    cw_next_position = mp_next_position mp\<rparr>) (\<lambda>w2.
          bindE (validate_window
                   \<lparr>cw_returned = int (length (yp_items yp)), cw_total = int (yp_total yp),
                    cw_has_more = (yp_next_position yp \<noteq> None),
                    cw_next_position = yp_next_position yp\<rparr>) (\<lambda>w3.
          Inr (Some
            \<lparr>ws_case = c, ws_request = q, ws_customer = u, ws_business_contexts = contexts,
             ws_owner = map_option owner_record
               (case cs_owner_id c of None \<Rightarrow> None
                | Some i \<Rightarrow> find (\<lambda>m. mem_organization_id m = cs_organization_id c \<and> mem_id m = i)
                             (memberships db)),
             ws_thread = th, ws_messages = mp_items mp,
             ws_draft = find (\<lambda>d. rd_organization_id d = cs_organization_id c \<and> rd_case_id d = cs_id c)
               (response_drafts db),
             ws_activity = yp_items yp,
             ws_collections = \<lparr>wc_business_contexts = w1, wc_messages = w2, wc_activity = w3\<rparr>\<rparr>)))))"

definition required_workspace :: "string \<Rightarrow> string \<Rightarrow> database \<Rightarrow> error + case_workspace" where
  "required_workspace org_pid case_pid db =
     bindE (get_workspace org_pid case_pid db)
       (\<lambda>w. someE w (CaseNotFound ''The case was not found.''))"

section \<open>Writing\<close>

text \<open>The identifiers and clock readings of a command: for the update of the case, for the rows it
  writes, and for its audit event.\<close>

record case_ids =
  ci_case_now :: timestamp
  ci_row_now :: timestamp
  ci_row_id :: uuid
  ci_row_code :: string
  ci_event_id :: uuid
  ci_event_now :: timestamp

definition update_case ::
    "timestamp \<Rightarrow> case_row \<Rightarrow> int \<Rightarrow> (case_row \<Rightarrow> case_row) \<Rightarrow> database \<Rightarrow> error + case_row \<times> database" where
  "update_case now c expected f db =
     (case find (\<lambda>r. cs_id r = cs_id c \<and> cs_organization_id r = cs_organization_id c
                   \<and> cs_version r = expected) (cases db) of
        Some r \<Rightarrow>
          (let r' = (f r)\<lparr>cs_version := cs_version r + 1, cs_updated_at := now\<rparr>
           in Inr (r', put_case r' db))
      | None \<Rightarrow>
          (case find (\<lambda>r. cs_id r = cs_id c \<and> cs_organization_id r = cs_organization_id c) (cases db) of
             None \<Rightarrow> Inl (CaseNotFound ''The case was not found.'')
           | Some r \<Rightarrow> Inl (CaseConcurrencyConflict expected (cs_version r))))"

definition case_audit ::
    "case_ids \<Rightarrow> case_row \<Rightarrow> string \<Rightarrow> string \<Rightarrow> string \<Rightarrow> string \<Rightarrow> json \<Rightarrow> string \<Rightarrow> database
     \<Rightarrow> error + database" where
  "case_audit ids c actor actor_type event_type summary data correlation_id db =
     insert_audit
       \<lparr>au_id = ci_event_id ids, au_organization_id = Some (cs_organization_id c), au_task_id = None,
        au_run_id = None, au_event_type = event_type, au_actor_type = actor_type,
        au_actor_id = Some actor, au_subject_type = Some ''case'', au_subject_id = Some (cs_public_id c),
        au_summary = Some summary, au_data = data, au_correlation_id = correlation_id,
        au_occurred_at = ci_event_now ids\<rparr> db"

definition assign_to_actor ::
    "case_ids \<Rightarrow> string \<Rightarrow> string \<Rightarrow> string \<Rightarrow> string \<Rightarrow> int \<Rightarrow> string \<Rightarrow> database
     \<Rightarrow> error + case_workspace \<times> database" where
  "assign_to_actor ids org_pid case_pid actor actor_type expected correlation_id db =
     bindE (required_case org_pid case_pid db) (\<lambda>c.
     bindE (someE (find (\<lambda>m. mem_organization_id m = cs_organization_id c \<and> mem_status m = MS_ACTIVE
                         \<and> (mem_public_id m = actor \<or> mem_subject_id m = actor)) (memberships db))
              (CaseActorNotAssignable ''The actor is not an active organization member.'')) (\<lambda>m.
     bindE (update_case (ci_case_now ids) c expected (\<lambda>r. r\<lparr>cs_owner_id := Some (mem_id m)\<rparr>) db)
       (\<lambda>(c', db1).
     bindE (case_audit ids c' actor actor_type ''case.assigned'' (''Case assigned to '' @ mem_name m @ ''.'')
              (JObj [(''owner_id'', JStr (mem_public_id m))]) correlation_id db1) (\<lambda>db2.
     bindE (required_workspace org_pid case_pid db2) (\<lambda>w. Inr (w, db2))))))"

definition change_status ::
    "case_ids \<Rightarrow> string \<Rightarrow> string \<Rightarrow> string \<Rightarrow> string \<Rightarrow> int \<Rightarrow> case_status \<Rightarrow> string \<Rightarrow> database
     \<Rightarrow> error + case_workspace \<times> database" where
  "change_status ids org_pid case_pid actor actor_type expected target correlation_id db =
     bindE (required_case org_pid case_pid db) (\<lambda>c.
     let previous = case_status_value (cs_status c) in
     bindE (update_case (ci_case_now ids) c expected (\<lambda>r. r\<lparr>cs_status := target\<rparr>) db) (\<lambda>(c', db1).
     bindE (case_audit ids c' actor actor_type ''case.status_changed''
              (''Case moved from '' @ previous @ '' to '' @ case_status_value target @ ''.'')
              (JObj [(''from'', JStr previous), (''to'', JStr (case_status_value target))])
              correlation_id db1) (\<lambda>db2.
     bindE (required_workspace org_pid case_pid db2) (\<lambda>w. Inr (w, db2)))))"

definition put_thread :: "conversation_thread \<Rightarrow> database \<Rightarrow> database" where
  "put_thread t db = db\<lparr>threads := row_put th_id t (threads db)\<rparr>"

definition add_message ::
    "case_ids \<Rightarrow> string \<Rightarrow> string \<Rightarrow> string \<Rightarrow> string \<Rightarrow> string \<Rightarrow> int \<Rightarrow> message_channel \<Rightarrow> string
     \<Rightarrow> string \<Rightarrow> database \<Rightarrow> error + case_workspace \<times> database" where
  "add_message ids org_pid case_pid actor author actor_type expected channel body correlation_id db =
     bindE (required_case org_pid case_pid db) (\<lambda>c.
     bindE (update_case (ci_case_now ids) c expected id db) (\<lambda>(c', db1).
     bindE (someE (find (\<lambda>t. th_organization_id t = cs_organization_id c \<and> th_case_id t = cs_id c)
                     (threads db1))
              (CaseNotFound ''The case conversation was not found.'')) (\<lambda>t.
     let now = ci_row_now ids; internal = (channel = MC_INTERNAL_NOTE);
         t' = t\<lparr>th_version := th_version t + 1, th_updated_at := now\<rparr>;
         m = \<lparr>msg_id = ci_row_id ids, msg_public_id = ''MSG-'' @ ci_row_code ids,
              msg_organization_id = cs_organization_id c, msg_case_id = cs_id c,
              msg_thread_id = th_id t,
              msg_author_type = (if actor_type = ''member'' then MA_MEMBER else MA_SYSTEM),
              msg_author_id = Some actor, msg_author_name = author, msg_channel = channel,
              msg_body = body, msg_internal = internal, msg_source_reference = None,
              msg_version = 1, msg_created_at = now\<rparr>
     in
     bindE (insert_message m (put_thread t' db1)) (\<lambda>db2.
     bindE (case_audit ids c' actor actor_type
              (if internal then ''case.note_added'' else ''case.message_added'')
              (if internal then ''Internal note added.'' else ''Conversation message added.'')
              (JObj [(''channel'', JStr (message_channel_value channel)), (''internal'', JBool internal)])
              correlation_id db2) (\<lambda>db3.
     bindE (required_workspace org_pid case_pid db3) (\<lambda>w. Inr (w, db3)))))))"

record business_evidence =
  be_type :: business_object_type
  be_label :: string
  be_source :: string
  be_source_reference :: string
  be_status :: string
  be_fields :: "(string \<times> string) list"

definition matches_business_evidence :: "business_object_snapshot \<Rightarrow> business_evidence \<Rightarrow> bool" where
  "matches_business_evidence b e \<longleftrightarrow> bo_label b = be_label e \<and> bo_source b = be_source e
     \<and> bo_status b = be_status e \<and> set (json_items (bo_fields b)) = set (map (map_prod id JStr) (be_fields e))
     \<and> bo_source_freshness b = SF_CURRENT"

definition add_business_evidence ::
    "(string \<Rightarrow> string) \<Rightarrow> case_ids \<Rightarrow> string \<Rightarrow> string \<Rightarrow> string \<Rightarrow> string \<Rightarrow> int \<Rightarrow> business_evidence
     \<Rightarrow> string \<Rightarrow> database \<Rightarrow> error + case_workspace \<times> database" where
  "add_business_evidence sha ids org_pid case_pid actor actor_type expected e correlation_id db =
     bindE (required_case org_pid case_pid db) (\<lambda>c.
     case find (\<lambda>b. bo_organization_id b = cs_organization_id c \<and> bo_case_id b = cs_id c
                  \<and> bo_object_type b = be_type e \<and> bo_source_reference b = be_source_reference e)
            (business_objects db) of
       Some b \<Rightarrow>
         (if matches_business_evidence b e
          then bindE (required_workspace org_pid case_pid db) (\<lambda>w. Inr (w, db))
          else Inl (BusinessEvidenceConflict
                 ''A record with this type and source reference already exists.''))
     | None \<Rightarrow>
         bindE (update_case (ci_case_now ids) c expected id db) (\<lambda>(c', db1).
         let now = ci_row_now ids; type_text = business_object_type_value (be_type e);
             b = \<lparr>bo_id = ci_row_id ids,
                  bo_public_id = ''CTX-MAN-'' @ str_upper (take 16 (sha (str_join [CHR 0x00]
                    [cs_public_id c, type_text, be_source_reference e]))),
                  bo_organization_id = cs_organization_id c, bo_case_id = cs_id c,
                  bo_object_type = be_type e, bo_label = be_label e, bo_source = be_source e,
                  bo_source_reference = be_source_reference e, bo_status = be_status e,
                  bo_fields = json_params (be_fields e), bo_captured_at = now,
                  bo_source_freshness = SF_CURRENT, bo_source_checked_at = Some now, bo_version = 1\<rparr>
         in
         bindE (insert_business_object b db1) (\<lambda>db2.
         bindE (case_audit ids c' actor actor_type ''case.evidence_added''
                  (''Verified '' @ type_text @ '' record added.'')
                  (JObj [(''record_id'', JStr (bo_public_id b)), (''record_type'', JStr type_text)])
                  correlation_id db2) (\<lambda>db3.
         bindE (required_workspace org_pid case_pid db3) (\<lambda>w. Inr (w, db3))))))"

text \<open>Within one transaction the draft that was read is the draft that is there: an insertion after
  no draft was found meets no other one, and the update of a found draft finds it.\<close>

definition save_draft ::
    "case_ids \<Rightarrow> string \<Rightarrow> string \<Rightarrow> string \<Rightarrow> string \<Rightarrow> int \<Rightarrow> string \<Rightarrow> string \<Rightarrow> string \<Rightarrow> database
     \<Rightarrow> error + case_workspace \<times> database" where
  "save_draft ids org_pid case_pid actor actor_type expected subject body correlation_id db =
     bindE (required_case org_pid case_pid db) (\<lambda>c.
     let now = ci_row_now ids in
     bindE (case find (\<lambda>d. rd_organization_id d = cs_organization_id c \<and> rd_case_id d = cs_id c)
                   (response_drafts db) of
              None \<Rightarrow>
                bindE (requireE (expected = 0) (DraftConcurrencyConflict expected 0)) (\<lambda>_.
                let d = \<lparr>rd_id = ci_row_id ids, rd_public_id = ''DFT-'' @ ci_row_code ids,
                         rd_organization_id = cs_organization_id c, rd_case_id = cs_id c,
                         rd_subject = subject, rd_body = body, rd_status = RSP_DRAFT, rd_version = 1,
                         rd_updated_at = now\<rparr>
                in bindE (insert_response_draft d db) (\<lambda>db1. Inr (d, db1)))
            | Some d0 \<Rightarrow>
                bindE (requireE (rd_version d0 = expected)
                         (DraftConcurrencyConflict expected (rd_version d0))) (\<lambda>_.
                let d = d0\<lparr>rd_subject := subject, rd_body := body, rd_status := RSP_DRAFT,
                           rd_version := rd_version d0 + 1, rd_updated_at := now\<rparr>
                in Inr (d, db\<lparr>response_drafts := row_put rd_id d (response_drafts db)\<rparr>))) (\<lambda>(d, db1).
     bindE (case_audit ids c actor actor_type ''case.draft_saved'' ''Response draft saved.''
              (JObj [(''draft_version'', JInt (rd_version d))]) correlation_id db1) (\<lambda>db2.
     bindE (required_workspace org_pid case_pid db2) (\<lambda>w. Inr (w, db2)))))"

section \<open>The service\<close>

definition service_get_case :: "actor_context \<Rightarrow> string \<Rightarrow> database \<Rightarrow> error + case_workspace" where
  "service_get_case actor case_id db =
     bindE (require_permission actor CASE_READ) (\<lambda>_.
     required_workspace (actor_organization_id actor) case_id db)"

definition service_assign_to_me ::
    "case_ids \<Rightarrow> actor_context \<Rightarrow> string \<Rightarrow> int \<Rightarrow> string \<Rightarrow> database \<Rightarrow> error + case_workspace \<times> database" where
  "service_assign_to_me ids actor case_id expected correlation_id db =
     bindE (require_permission actor CASE_MANAGE) (\<lambda>_.
     assign_to_actor ids (actor_organization_id actor) case_id (actor_id actor)
       (actor_kind_value (actor_kind actor)) expected correlation_id db)"

definition service_change_status ::
    "case_ids \<Rightarrow> actor_context \<Rightarrow> string \<Rightarrow> int \<Rightarrow> case_status \<Rightarrow> string \<Rightarrow> database
     \<Rightarrow> error + case_workspace \<times> database" where
  "service_change_status ids actor case_id expected target correlation_id db =
     bindE (require_permission actor CASE_MANAGE) (\<lambda>_.
     bindE (service_get_case actor case_id db) (\<lambda>current.
     bindE (require_case_transition (cs_status (ws_case current)) target) (\<lambda>_.
     change_status ids (actor_organization_id actor) case_id (actor_id actor)
       (actor_kind_value (actor_kind actor)) expected target correlation_id db)))"

definition service_add_message ::
    "case_ids \<Rightarrow> actor_context \<Rightarrow> string \<Rightarrow> int \<Rightarrow> message_channel \<Rightarrow> string \<Rightarrow> string \<Rightarrow> database
     \<Rightarrow> error + case_workspace \<times> database" where
  "service_add_message ids actor case_id expected channel body correlation_id db =
     bindE (require_permission actor CASE_MANAGE) (\<lambda>_.
     add_message ids (actor_organization_id actor) case_id (actor_id actor) (actor_name actor)
       (actor_kind_value (actor_kind actor)) expected channel body correlation_id db)"

definition service_save_draft ::
    "case_ids \<Rightarrow> actor_context \<Rightarrow> string \<Rightarrow> int \<Rightarrow> string \<Rightarrow> string \<Rightarrow> string \<Rightarrow> database
     \<Rightarrow> error + case_workspace \<times> database" where
  "service_save_draft ids actor case_id expected subject body correlation_id db =
     bindE (require_permission actor CASE_MANAGE) (\<lambda>_.
     save_draft ids (actor_organization_id actor) case_id (actor_id actor)
       (actor_kind_value (actor_kind actor)) expected subject body correlation_id db)"

definition service_add_business_evidence ::
    "(string \<Rightarrow> string) \<Rightarrow> case_ids \<Rightarrow> actor_context \<Rightarrow> string \<Rightarrow> int \<Rightarrow> business_evidence \<Rightarrow> string
     \<Rightarrow> database \<Rightarrow> error + case_workspace \<times> database" where
  "service_add_business_evidence sha ids actor case_id expected e correlation_id db =
     bindE (require_permission actor CASE_MANAGE) (\<lambda>_.
     bindE (service_get_case actor case_id db) (\<lambda>current.
     bindE (requireE (cs_status (ws_case current) \<noteq> CS_COMPLETED)
              (BusinessEvidenceNotAllowed ''Reopen the case before adding a verified record.'')) (\<lambda>_.
     add_business_evidence sha ids (actor_organization_id actor) case_id (actor_id actor)
       (actor_kind_value (actor_kind actor)) expected e correlation_id db)))"

end
