(* ===== verification/Paging.thy ===== *)
theory Paging
  imports Prelude "HOL-Library.Product_Lexorder" "HOL-Library.Multiset"
begin

text \<open>
  Keyset pagination: a listing is cut into pages, and the position of the last row of a page is
  the place where the next one goes on. The interface says what a paged read has to do; the
  lemmas proved from it say that following the positions from the start visits every row exactly
  once, in order, and ends.
\<close>

section \<open>Pages and walks\<close>

text \<open>A reader that follows the positions, in at most \<open>fuel\<close> requests.\<close>

fun walk :: "('p option \<Rightarrow> 'r list \<times> 'p option) \<Rightarrow> nat \<Rightarrow> 'p option \<Rightarrow> 'r list list option" where
  "walk fetch 0 from_pos = None"
| "walk fetch (Suc fuel) from_pos =
     (case fetch from_pos of
        (rows, None) \<Rightarrow> Some [rows]
      | (rows, Some p) \<Rightarrow> map_option (Cons rows) (walk fetch fuel (Some p)))"

section \<open>Sorting by several columns\<close>

lemma insort_key_dominated:
  "\<forall>y\<in>set ys. g x \<le> g y \<Longrightarrow> insort_key (\<lambda>x. (f x, g x)) x ys = insort_key f x ys"
  by (induction ys) auto

lemma sort_key_presorted:
  "sorted (map g xs) \<Longrightarrow> sort_key (\<lambda>x. (f x, g x)) xs = sort_key f xs"
  by (induction xs) (simp_all add: insort_key_dominated)

text \<open>A stable sort by the second column and then by the first is the sort by the pair.\<close>

lemma sort_key_pair: "sort_key f (sort_key g xs) = sort_key (\<lambda>x. (f x, g x)) xs"
proof -
  let ?h = "\<lambda>x. (f x, g x)"
  have pair: "filter (\<lambda>x. ?h k = ?h x) ys = filter (\<lambda>x. f x = f k) (filter (\<lambda>x. g x = g k) ys)" for k ys
    by (induction ys) auto
  have flip: "filter (\<lambda>x. ?h x = ?h k) ys = filter (\<lambda>x. ?h k = ?h x) ys" for k ys
    by (induction ys) auto
  have "filter (\<lambda>x. ?h k = ?h x) (sort_key ?h (sort_key g xs)) = filter (\<lambda>x. ?h k = ?h x) xs" for k
    using sort_key_stable [of ?h "?h k" "sort_key g xs"] unfolding flip
    by (simp only: pair sort_key_stable)
  then have "sort_key ?h xs = sort_key ?h (sort_key g xs)"
    by (intro properties_for_sort_key) simp_all
  also have "\<dots> = sort_key f (sort_key g xs)" by (rule sort_key_presorted) simp
  finally show ?thesis by simp
qed

text \<open>In a list sorted by distinct keys, the rows beyond one of them are those that follow it.\<close>

lemma sorted_split:
  assumes "sorted (map f (xs @ y # zs))" and "distinct (map f (xs @ y # zs))"
  shows "filter (\<lambda>r. f y < f r) (xs @ y # zs) = zs" and "filter (\<lambda>r. f r < f y) (xs @ y # zs) = xs"
proof -
  have lo: "\<forall>r\<in>set xs. f r < f y" and hi: "\<forall>r\<in>set zs. f y < f r"
    using assms by (auto simp: sorted_append order_less_le image_iff)
  have "filter (\<lambda>r. f y < f r) xs = []" "filter (\<lambda>r. f r < f y) zs = []"
    using lo hi by (auto simp: filter_empty_conv dest: less_asym)
  moreover have "filter (\<lambda>r. f y < f r) zs = zs" "filter (\<lambda>r. f r < f y) xs = xs"
    using lo hi by (simp_all add: filter_id_conv)
  ultimately show "filter (\<lambda>r. f y < f r) (xs @ y # zs) = zs"
    "filter (\<lambda>r. f r < f y) (xs @ y # zs) = xs" by simp_all
qed

lemma sort_key_const: "sort_key (\<lambda>x. c) xs = xs"
  by (induction xs) (simp_all add: insort_is_Cons)

text \<open>In a list sorted by a key, the rows beyond a key are an end of the list.\<close>

lemma sorted_beyond:
  assumes "sorted (map f xs)"
  obtains ys where "xs = ys @ filter (\<lambda>r. k < f r) xs"
proof -
  have "filter (\<lambda>r. k < f r) xs = dropWhile (\<lambda>r. \<not> k < f r) xs"
    using assms
  proof (induction xs)
    case (Cons x xs)
    show ?case
    proof (cases "k < f x")
      case True
      then have "filter (\<lambda>r. k < f r) xs = xs"
        using Cons.prems by (auto simp: filter_id_conv intro: less_le_trans)
      then show ?thesis using True by simp
    qed (use Cons in simp)
  qed simp
  then have "xs = takeWhile (\<lambda>r. \<not> k < f r) xs @ filter (\<lambda>r. k < f r) xs" by simp
  then show thesis by (rule that)
qed

section \<open>The interface of a paged listing\<close>

text \<open>
  \<open>listing s\<close> are the rows of the listing in page order, \<open>size_of s\<close> the size of a page and
  \<open>fetch s p\<close> the page that goes on at \<open>p\<close>; \<open>pos s rows\<close> is the position that is handed out after
  \<open>rows\<close>. The law: after the rows read so far a page holds the next ones, and the position that
  leads on if there are more.
\<close>

locale paged_listing =
  fixes ok :: "'s \<Rightarrow> bool"
    and size_of :: "'s \<Rightarrow> nat"
    and listing :: "'s \<Rightarrow> 'r list"
    and pos :: "'s \<Rightarrow> 'r list \<Rightarrow> 'p"
    and fetch :: "'s \<Rightarrow> 'p option \<Rightarrow> 'r list \<times> 'p option"
  assumes size_pos: "ok s \<Longrightarrow> 0 < size_of s"
    and fetch_first: "ok s \<Longrightarrow>
      fetch s None = (take (size_of s) (listing s),
        if size_of s < length (listing s) then Some (pos s (take (size_of s) (listing s))) else None)"
    and fetch_next: "ok s \<Longrightarrow> listing s = seen @ rest \<Longrightarrow> seen \<noteq> [] \<Longrightarrow>
      fetch s (Some (pos s seen)) = (take (size_of s) rest,
        if size_of s < length rest then Some (pos s (seen @ take (size_of s) rest)) else None)"
begin

lemma fetch_on:
  assumes "ok s" and "listing s = seen @ rest"
  shows "fetch s (if seen = [] then None else Some (pos s seen)) = (take (size_of s) rest,
    if size_of s < length rest then Some (pos s (seen @ take (size_of s) rest)) else None)"
  using fetch_first [OF assms(1)] fetch_next [OF assms] assms(2) by (cases "seen = []") simp_all

lemma walk_rest:
  assumes "ok s" and "listing s = seen @ rest" and "length rest < fuel"
  shows "\<exists>pages. walk (fetch s) fuel (if seen = [] then None else Some (pos s seen)) = Some pages
    \<and> concat pages = rest \<and> pages \<noteq> [] \<and> (\<forall>p\<in>set (butlast pages). length p = size_of s)
    \<and> length (last pages) \<le> size_of s"
  using assms(2,3)
proof (induction fuel arbitrary: seen rest)
  case (Suc fuel)
  let ?n = "size_of s"
  show ?case
  proof (cases "?n < length rest")
    case False
    then show ?thesis using fetch_on [OF assms(1) Suc.prems(1)] by simp
  next
    case True
    let ?d = "seen @ take ?n rest"
    have "?d \<noteq> []" using True size_pos [OF assms(1)] by auto
    have "length rest - ?n < fuel" using Suc.prems(2) True size_pos [OF assms(1)] by linarith
    then obtain pages where "walk (fetch s) fuel (Some (pos s ?d)) = Some pages" "pages \<noteq> []"
      "concat pages = drop ?n rest" "\<forall>p\<in>set (butlast pages). length p = ?n" "length (last pages) \<le> ?n"
      using Suc.IH [of ?d "drop ?n rest"] Suc.prems(1)
      unfolding if_not_P [OF \<open>?d \<noteq> []\<close>] by auto
    then show ?thesis using fetch_on [OF assms(1) Suc.prems(1)] True by simp
  qed
qed simp

theorem walk_complete:
  assumes "ok s"
  shows "\<exists>pages. walk (fetch s) (length (listing s) + 1) None = Some pages
    \<and> concat pages = listing s \<and> (\<forall>p\<in>set (butlast pages). length p = size_of s)
    \<and> length (last pages) \<le> size_of s"
  using walk_rest [OF assms, of "[]" "listing s" "length (listing s) + 1"] by auto

end

end
