(* ===== verification/Case_Queue.thy ===== *)
theory Case_Queue
  imports Cases Paging
begin

text \<open>
  The case queue: \<open>list_cases\<close> of \<open>persistence/case_persistence/queries.py\<close> with its filters,
  views, three orders and two directions, and \<open>list_cases\<close> of \<open>services/case_service.py\<close>. The
  search of a term is SQL \<open>ILIKE\<close> with an escape character; letters are folded within ASCII.
\<close>

section \<open>Records\<close>

datatype case_queue_view = QV_MINE | QV_ALL | QV_UNASSIGNED | QV_REVIEW | QV_AT_RISK

datatype case_queue_sort = QS_PRIORITY | QS_SLA | QS_UPDATED

datatype case_queue_direction = QD_FORWARD | QD_BACKWARD

record case_queue_position =
  qp_ordered_at :: timestamp
  qp_public_id :: string
  qp_risk_rank :: "int option"

record case_queue_cursor =
  qc_direction :: case_queue_direction
  qc_offset :: int
  qc_snapshot_at :: timestamp
  qc_position :: case_queue_position

record case_list_item =
  li_case :: case_row
  li_customer :: customer_context
  li_owner :: "case_owner option"

record case_queue_summary =
  qs_total :: nat
  qs_attention :: nat
  qs_review :: nat
  qs_sla_at_risk :: nat
  qs_unassigned :: nat

record case_list_page =
  lp_items :: "case_list_item list"
  lp_next_cursor :: "case_queue_cursor option"
  lp_previous_cursor :: "case_queue_cursor option"
  lp_total :: nat
  lp_offset :: int
  lp_limit :: nat
  lp_summary :: case_queue_summary

section \<open>Search\<close>

text \<open>\<open>str.replace\<close> of one character.\<close>

definition replace_char :: "char \<Rightarrow> string \<Rightarrow> string \<Rightarrow> string" where
  "replace_char c r s = concat (map (\<lambda>x. if x = c then r else [x]) s)"

definition escaped_query :: "string \<Rightarrow> string" where
  "escaped_query query =
     replace_char (CHR ''_'') [CHR 0x5C, CHR ''_'']
       (replace_char (CHR ''%'') [CHR 0x5C, CHR ''%'']
         (replace_char (CHR 0x5C) [CHR 0x5C, CHR 0x5C] (str_strip query)))"

definition search_term :: "string \<Rightarrow> string" where
  "search_term query = ''%'' @ escaped_query query @ ''%''"

text \<open>\<open>value ILIKE pattern ESCAPE '\'\<close>. A pattern that ends in the escape character, which the
  server refuses, matches nothing here.\<close>

function ilike :: "string \<Rightarrow> string \<Rightarrow> bool" where
  "ilike p s =
     (case p of
        [] \<Rightarrow> s = []
      | c # ps \<Rightarrow>
          if c = CHR ''%'' then ilike ps s \<or> (case s of [] \<Rightarrow> False | _ # s' \<Rightarrow> ilike p s')
          else if c = CHR ''_'' then (case s of [] \<Rightarrow> False | _ # s' \<Rightarrow> ilike ps s')
          else if c = CHR 0x5C
            then (case (ps, s) of (e # ps', x # s') \<Rightarrow> lower_char e = lower_char x \<and> ilike ps' s'
                  | _ \<Rightarrow> False)
          else (case s of [] \<Rightarrow> False | x # s' \<Rightarrow> lower_char c = lower_char x \<and> ilike ps s'))"
  by pat_completeness auto

termination
  by (relation "measure (\<lambda>(p, s). length p + length s)") auto

declare ilike.simps [simp del]

definition matches_query :: "uuid \<Rightarrow> string \<Rightarrow> database \<Rightarrow> case_row \<Rightarrow> bool" where
  "matches_query org query db c \<longleftrightarrow>
     list_ex (\<lambda>k. cs_id k = cs_id c \<and> cs_organization_id k = org
                \<and> (ilike (search_term query) (cs_public_id k)
                   \<or> ilike (search_term query) (cs_external_reference k)
                   \<or> ilike (search_term query) (cs_issue k))) (cases db)
     \<or> list_ex (\<lambda>u. cc_case_id u = cs_id c \<and> cc_organization_id u = org
                  \<and> ilike (search_term query) (cc_name u)) (case_customers db)"

section \<open>The rows of the queue\<close>

fun risk_order :: "case_risk \<Rightarrow> int" where
  "risk_order CRISK_HIGH = 0"
| "risk_order CRISK_MEDIUM = 1"
| "risk_order CRISK_LOW = 2"

record queue_filter =
  qf_status :: "case_status option"
  qf_category :: "case_category option"
  qf_query :: "string option"
  qf_actor :: string
  qf_view :: case_queue_view

definition sla_cutoff :: "timestamp \<Rightarrow> timestamp" where
  "sla_cutoff snapshot_at = snapshot_at + minutes 30"

fun in_view :: "case_queue_view \<Rightarrow> string \<Rightarrow> timestamp \<Rightarrow> case_row \<Rightarrow> membership option \<Rightarrow> bool" where
  "in_view QV_MINE actor snapshot_at c owner =
     (case owner of None \<Rightarrow> False | Some m \<Rightarrow> mem_public_id m = actor \<or> mem_subject_id m = actor)"
| "in_view QV_ALL actor snapshot_at c owner = True"
| "in_view QV_UNASSIGNED actor snapshot_at c owner = (cs_owner_id c = None)"
| "in_view QV_REVIEW actor snapshot_at c owner = (cs_status c = CS_NEEDS_REVIEW)"
| "in_view QV_AT_RISK actor snapshot_at c owner =
     (cs_risk c = CRISK_HIGH \<or> cs_due_at c < sla_cutoff snapshot_at)"

definition case_owner_row :: "case_row \<Rightarrow> database \<Rightarrow> membership option" where
  "case_owner_row c db =
     (case cs_owner_id c of None \<Rightarrow> None
      | Some i \<Rightarrow> find (\<lambda>m. mem_organization_id m = cs_organization_id c \<and> mem_id m = i) (memberships db))"

text \<open>\<open>scope_filters\<close> over the join of a case with its customer and, if it has one, its owner.\<close>

definition queue_scope ::
    "uuid \<Rightarrow> queue_filter \<Rightarrow> timestamp \<Rightarrow> database \<Rightarrow> (case_row \<times> customer_context \<times> membership option) list" where
  "queue_scope org qf snapshot_at db =
     [(c, u, case_owner_row c db). c \<leftarrow> cases db, u \<leftarrow> case_customers db,
        cc_organization_id u = cs_organization_id c \<and> cc_case_id u = cs_id c
        \<and> cs_organization_id c = org \<and> cs_updated_at c \<le> snapshot_at
        \<and> (case qf_status qf of None \<Rightarrow> True | Some s \<Rightarrow> cs_status c = s)
        \<and> (case qf_category qf of None \<Rightarrow> True | Some k \<Rightarrow> cs_category c = k)
        \<and> (case qf_query qf of None \<Rightarrow> True | Some q \<Rightarrow> q = [] \<or> matches_query org q db c)
        \<and> in_view (qf_view qf) (qf_actor qf) snapshot_at c (case_owner_row c db)]"

section \<open>Order and position\<close>

fun queue_after :: "case_queue_sort \<Rightarrow> case_queue_position \<Rightarrow> case_row \<Rightarrow> bool" where
  "queue_after QS_PRIORITY p c =
     (let r = the (qp_risk_rank p)
      in risk_order (cs_risk c) > r
         \<or> (risk_order (cs_risk c) = r \<and> cs_due_at c > qp_ordered_at p)
         \<or> (risk_order (cs_risk c) = r \<and> cs_due_at c = qp_ordered_at p \<and> cs_public_id c > qp_public_id p))"
| "queue_after QS_SLA p c =
     (cs_due_at c > qp_ordered_at p
      \<or> (cs_due_at c = qp_ordered_at p \<and> cs_public_id c > qp_public_id p))"
| "queue_after QS_UPDATED p c =
     (cs_updated_at c < qp_ordered_at p
      \<or> (cs_updated_at c = qp_ordered_at p \<and> cs_public_id c > qp_public_id p))"

fun queue_before :: "case_queue_sort \<Rightarrow> case_queue_position \<Rightarrow> case_row \<Rightarrow> bool" where
  "queue_before QS_PRIORITY p c =
     (let r = the (qp_risk_rank p)
      in risk_order (cs_risk c) < r
         \<or> (risk_order (cs_risk c) = r \<and> cs_due_at c < qp_ordered_at p)
         \<or> (risk_order (cs_risk c) = r \<and> cs_due_at c = qp_ordered_at p \<and> cs_public_id c < qp_public_id p))"
| "queue_before QS_SLA p c =
     (cs_due_at c < qp_ordered_at p
      \<or> (cs_due_at c = qp_ordered_at p \<and> cs_public_id c < qp_public_id p))"
| "queue_before QS_UPDATED p c =
     (cs_updated_at c > qp_ordered_at p
      \<or> (cs_updated_at c = qp_ordered_at p \<and> cs_public_id c < qp_public_id p))"

text \<open>\<open>ORDER BY\<close> of the page: a stable sort by the last column first. A descending time is the
  ascending one of its negation.\<close>

fun queue_order :: "case_queue_sort \<Rightarrow> (case_row \<times> 'r) list \<Rightarrow> (case_row \<times> 'r) list" where
  "queue_order QS_PRIORITY rows =
     sort_key (\<lambda>r. risk_order (cs_risk (fst r)))
       (sort_key (\<lambda>r. cs_due_at (fst r)) (sort_key (\<lambda>r. cs_public_id (fst r)) rows))"
| "queue_order QS_SLA rows =
     sort_key (\<lambda>r. cs_due_at (fst r)) (sort_key (\<lambda>r. cs_public_id (fst r)) rows)"
| "queue_order QS_UPDATED rows =
     sort_key (\<lambda>r. - cs_updated_at (fst r)) (sort_key (\<lambda>r. cs_public_id (fst r)) rows)"

definition page_rows_of ::
    "case_queue_sort \<Rightarrow> bool \<Rightarrow> (case_row \<times> 'r) list \<Rightarrow> (case_row \<times> 'r) list" where
  "page_rows_of sort_by backward rows =
     (if backward then rev (queue_order sort_by rows) else queue_order sort_by rows)"

definition case_queue_position_of :: "case_queue_sort \<Rightarrow> case_row \<Rightarrow> case_queue_position" where
  "case_queue_position_of sort_by c =
     \<lparr>qp_ordered_at = (if sort_by = QS_UPDATED then cs_updated_at c else cs_due_at c),
      qp_public_id = cs_public_id c,
      qp_risk_rank = (if sort_by = QS_PRIORITY then Some (risk_order (cs_risk c)) else None)\<rparr>"

definition list_item :: "case_row \<times> customer_context \<times> membership option \<Rightarrow> case_list_item" where
  "list_item r = (case r of (c, u, m) \<Rightarrow>
     \<lparr>li_case = c, li_customer = u, li_owner = map_option owner_record m\<rparr>)"

definition queue_summary :: "uuid \<Rightarrow> timestamp \<Rightarrow> database \<Rightarrow> case_queue_summary" where
  "queue_summary org snapshot_at db =
     (let rows = filter (\<lambda>c. cs_organization_id c = org) (cases db);
          number = (\<lambda>P. length (filter P rows))
      in \<lparr>qs_total = length rows, qs_attention = number (\<lambda>c. cs_risk c = CRISK_HIGH),
          qs_review = number (\<lambda>c. cs_status c = CS_NEEDS_REVIEW),
          qs_sla_at_risk = number (\<lambda>c. cs_due_at c < sla_cutoff snapshot_at),
          qs_unassigned = number (\<lambda>c. cs_owner_id c = None)\<rparr>)"

section \<open>The page\<close>

definition organization_id_of :: "string \<Rightarrow> database \<Rightarrow> uuid option" where
  "organization_id_of public_id db =
     map_option org_id (find (\<lambda>g. org_public_id g = public_id) (organizations db))"

definition list_cases ::
    "timestamp \<Rightarrow> string \<Rightarrow> queue_filter \<Rightarrow> case_queue_cursor option \<Rightarrow> nat \<Rightarrow> case_queue_sort
     \<Rightarrow> database \<Rightarrow> error + case_list_page" where
  "list_cases now org_pid qf cursor limit sort_by db =
     bindE (someE (organization_id_of org_pid db) (CaseNotFound ''The actor organization was not found.'')) (\<lambda>org.
     let snapshot_at = (case cursor of None \<Rightarrow> now | Some k \<Rightarrow> qc_snapshot_at k);
         backward = (case cursor of None \<Rightarrow> False | Some k \<Rightarrow> qc_direction k = QD_BACKWARD);
         scope = queue_scope org qf snapshot_at db
     in
     bindE (requireE (case cursor of None \<Rightarrow> True
                      | Some k \<Rightarrow> sort_by = QS_PRIORITY \<longrightarrow> qp_risk_rank (qc_position k) \<noteq> None)
              (ValueError ''AssertionError'')) (\<lambda>_.
     let candidates = (case cursor of None \<Rightarrow> scope
           | Some k \<Rightarrow> filter (\<lambda>r. if backward then queue_before sort_by (qc_position k) (fst r)
                                else queue_after sort_by (qc_position k) (fst r)) scope);
         rows = take (limit + 1) (page_rows_of sort_by backward candidates);
         has_extra = limit < length rows;
         page_rows = (if backward then rev (take limit rows) else take limit rows);
         items = map list_item page_rows;
         offset = (case cursor of None \<Rightarrow> 0 | Some k \<Rightarrow> qc_offset k);
         has_previous = (if backward then has_extra else cursor \<noteq> None \<and> items \<noteq> []);
         has_next = (if backward then cursor \<noteq> None \<and> items \<noteq> [] else has_extra);
         at_position = (\<lambda>direction off r.
           \<lparr>qc_direction = direction, qc_offset = off, qc_snapshot_at = snapshot_at,
            qc_position = case_queue_position_of sort_by (fst r)\<rparr>)
     in
     bindE (requireE (0 \<le> offset \<and> 1 \<le> limit \<and> limit \<le> 100) (ValueError ''CaseListPageRecord'')) (\<lambda>_.
     Inr \<lparr>lp_items = items,
          lp_next_cursor =
            (if has_next \<and> page_rows \<noteq> []
             then Some (at_position QD_FORWARD (offset + int (length items)) (last page_rows)) else None),
          lp_previous_cursor =
            (if has_previous \<and> page_rows \<noteq> []
             then Some (at_position QD_BACKWARD (max 0 (offset - int limit)) (hd page_rows)) else None),
          lp_total = length scope, lp_offset = offset, lp_limit = limit,
          lp_summary = queue_summary org snapshot_at db\<rparr>)))"

end
