(* ===== verification/Case_Pages.thy ===== *)
theory Case_Pages
  imports Case_Queue
begin

text \<open>
  The paged reads of cases provide the interface of a paged listing: the conversation of a case,
  newest message first, and the case queue in each of its orders. Reading on from page to page
  visits every row once, reading back returns the page one came from, and the search of the queue
  takes its term literally. A workspace never contradicts its own counts.
\<close>

section \<open>The conversation of a case\<close>

lemma newest_first_pair: "newest_first t k rows = rev (sort_key (\<lambda>r. (t r, k r)) rows)"
  by (simp add: newest_first_def sort_key_pair)

lemma newest_first_filter: "newest_first t k (filter P rows) = filter P (newest_first t k rows)"
  by (simp only: newest_first_pair filter_sort [symmetric] rev_filter)

lemma length_newest_first [simp]: "length (newest_first t k rows) = length rows"
  by (simp add: newest_first_def)

lemma newest_first_empty [simp]: "newest_first t k rows = [] \<longleftrightarrow> rows = []"
  by (metis length_0_conv length_newest_first)

definition message_ids_unique :: "database \<Rightarrow> bool" where
  "message_ids_unique db \<longleftrightarrow> distinct (map (\<lambda>m. (msg_organization_id m, msg_public_id m)) (messages db))"

definition history_position :: "conversation_message \<Rightarrow> case_history_position" where
  "history_position m = \<lparr>hp_occurred_at = msg_created_at m, hp_tie_breaker = msg_public_id m\<rparr>"

definition conversation_newest :: "case_row \<Rightarrow> database \<Rightarrow> conversation_message list" where
  "conversation_newest c db = newest_first msg_created_at msg_public_id (case_messages c db)"

text \<open>What a reader of the conversation gets: the page, newest message first, and where it goes on.\<close>

definition conversation_fetch ::
    "case_row \<times> nat \<times> database \<Rightarrow> case_history_position option
     \<Rightarrow> conversation_message list \<times> case_history_position option" where
  "conversation_fetch s before = (case s of (c, limit, db) \<Rightarrow>
     (rev (mp_items (conversation_page c before limit db)),
      mp_next_position (conversation_page c before limit db)))"

lemma conversation_page_rows:
  "0 < limit \<Longrightarrow> conversation_fetch (c, limit, db) before =
    (let rows = filter (before_message before) (conversation_newest c db)
     in (take limit rows,
         if limit < length rows then Some (history_position (last (take limit rows))) else None))"
  by (auto simp: conversation_fetch_def conversation_page_def conversation_newest_def Let_def
      newest_first_filter [symmetric] history_position_def min_def)

lemma conversation_key_distinct:
  assumes "message_ids_unique db"
  shows "distinct (map (\<lambda>m. (msg_created_at m, msg_public_id m)) (case_messages c db))"
proof -
  have "distinct (map (\<lambda>m. (msg_organization_id m, msg_public_id m)) (case_messages c db))"
    using assms by (auto simp: message_ids_unique_def case_messages_def distinct_map intro: inj_on_subset)
  then show ?thesis
    by (auto simp: distinct_map inj_on_def case_messages_def)
qed

lemma conversation_suffix:
  assumes u: "message_ids_unique db" and split: "conversation_newest c db = xs @ y # zs"
  shows "filter (before_message (Some (history_position y))) (conversation_newest c db) = zs"
proof -
  let ?k = "\<lambda>m. (msg_created_at m, msg_public_id m)"
  have sorted: "sort_key ?k (case_messages c db) = rev zs @ y # rev xs"
    using split by (simp add: conversation_newest_def newest_first_pair rev_swap)
  have "distinct (map ?k (rev zs @ y # rev xs))"
    using conversation_key_distinct [OF u, of c] sorted
    by (metis distinct_map distinct_sort set_sort)
  moreover have "sorted (map ?k (rev zs @ y # rev xs))"
    using sorted_sort_key [of ?k "case_messages c db"] sorted by simp
  ultimately have "filter (\<lambda>r. ?k r < ?k y) (rev zs @ y # rev xs) = rev zs"
    by (intro sorted_split(2))
  moreover have "before_message (Some (history_position y)) = (\<lambda>r. ?k r < ?k y)"
    by (auto simp: before_message_def history_position_def fun_eq_iff)
  ultimately show ?thesis
    unfolding split by (metis rev.simps(2) rev_append rev_filter rev_rev_ident append.assoc append_Cons append_Nil)
qed

interpretation conversation: paged_listing
  "\<lambda>(c, limit, db). 0 < limit \<and> message_ids_unique db"
  "\<lambda>(c, limit, db). limit"
  "\<lambda>(c, limit, db). conversation_newest c db"
  "\<lambda>s seen. history_position (last seen)"
  conversation_fetch
proof unfold_locales
  fix s :: "case_row \<times> nat \<times> database" and seen rest
  assume ok: "case s of (c, limit, db) \<Rightarrow> 0 < limit \<and> message_ids_unique db"
    and rows: "(case s of (c, limit, db) \<Rightarrow> conversation_newest c db) = seen @ rest" and "seen \<noteq> []"
  obtain c limit db where s: "s = (c, limit, db)" by (cases s)
  have "filter (before_message (Some (history_position (last seen)))) (conversation_newest c db) = rest"
    by (rule conversation_suffix [of _ _ "butlast seen"]) (use ok rows s \<open>seen \<noteq> []\<close> in simp_all)
  then show "conversation_fetch s (Some (history_position (last seen))) =
    (take (case s of (c, limit, db) \<Rightarrow> limit) rest,
     if (case s of (c, limit, db) \<Rightarrow> limit) < length rest
     then Some (history_position (last (seen @ take (case s of (c, limit, db) \<Rightarrow> limit) rest))) else None)"
    using ok s by (auto simp: conversation_page_rows Let_def last_append)
qed (auto simp: conversation_page_rows Let_def before_message_def [abs_def])

text \<open>Reading a conversation back from its newest message, page by page, ends and shows it whole:
  with pages of any positive size, following \<open>next_position\<close> takes at most one request per message
  and one more, and the pages, the older ones put in front, are exactly the messages of the case in
  the order of their time and public id, none twice and none left out.
\<close>

theorem conversation_pages_complete:
  assumes "0 < limit" and "message_ids_unique db"
  shows "\<exists>pages. walk (conversation_fetch (c, limit, db)) (length (case_messages c db) + 1) None = Some pages
    \<and> concat (rev (map rev pages)) = sort_key (\<lambda>m. (msg_created_at m, msg_public_id m)) (case_messages c db)
    \<and> (\<forall>p\<in>set (butlast pages). length p = limit)"
proof -
  obtain pages where "walk (conversation_fetch (c, limit, db)) (length (conversation_newest c db) + 1) None
      = Some pages"
    and all: "concat pages = conversation_newest c db" and "\<forall>p\<in>set (butlast pages). length p = limit"
    using conversation.walk_complete [of "(c, limit, db)"] assms by auto
  moreover have "length (conversation_newest c db) = length (case_messages c db)"
    by (simp add: conversation_newest_def)
  moreover have "concat (rev (map rev pages)) = rev (conversation_newest c db)"
    unfolding all [symmetric] by (simp add: rev_concat rev_map)
  ultimately show ?thesis by (auto simp: conversation_newest_def newest_first_pair)
qed

section \<open>The order of the queue\<close>

definition queue_key :: "case_queue_sort \<Rightarrow> case_row \<Rightarrow> int \<times> int \<times> string" where
  "queue_key sort_by c =
     (if sort_by = QS_PRIORITY then risk_order (cs_risk c) else 0,
      if sort_by = QS_UPDATED then - cs_updated_at c else cs_due_at c, cs_public_id c)"

definition position_key :: "case_queue_sort \<Rightarrow> case_queue_position \<Rightarrow> int \<times> int \<times> string" where
  "position_key sort_by p =
     (if sort_by = QS_PRIORITY then the (qp_risk_rank p) else 0,
      if sort_by = QS_UPDATED then - qp_ordered_at p else qp_ordered_at p, qp_public_id p)"

lemma queue_order_key: "queue_order sort_by rows = sort_key (\<lambda>r. queue_key sort_by (fst r)) rows"
proof (cases sort_by)
  case QS_PRIORITY
  then show ?thesis by (simp add: queue_key_def sort_key_pair)
next
  case QS_SLA
  then show ?thesis
    using sort_key_pair [of "\<lambda>_. 0 :: int" "\<lambda>r. (cs_due_at (fst r), cs_public_id (fst r))" rows]
    by (simp add: queue_key_def sort_key_pair sort_key_const)
next
  case QS_UPDATED
  then show ?thesis
    using sort_key_pair [of "\<lambda>_. 0 :: int" "\<lambda>r. (- cs_updated_at (fst r), cs_public_id (fst r))" rows]
    by (simp add: queue_key_def sort_key_pair sort_key_const)
qed

lemma queue_after_key: "queue_after sort_by p c \<longleftrightarrow> position_key sort_by p < queue_key sort_by c"
  by (cases sort_by) (auto simp: position_key_def queue_key_def Let_def)

lemma queue_before_key: "queue_before sort_by p c \<longleftrightarrow> queue_key sort_by c < position_key sort_by p"
  by (cases sort_by) (auto simp: position_key_def queue_key_def Let_def)

lemma position_key_of [simp]:
  "position_key sort_by (case_queue_position_of sort_by c) = queue_key sort_by c"
  by (simp add: position_key_def queue_key_def case_queue_position_of_def)

section \<open>The rows of the queue are identified\<close>

definition queue_tables_ok :: "database \<Rightarrow> bool" where
  "queue_tables_ok db \<longleftrightarrow>
     distinct (map (\<lambda>c. (cs_organization_id c, cs_public_id c)) (cases db))
     \<and> distinct (map (\<lambda>u. (cc_organization_id u, cc_case_id u)) (case_customers db))"

lemma filter_unique:
  "distinct (map k us) \<Longrightarrow> (\<And>u. P u \<Longrightarrow> k u = v) \<Longrightarrow> filter P us = [] \<or> (\<exists>u. filter P us = [u])"
proof (induction us)
  case (Cons u us)
  have "\<not> P x" if "P u" "x \<in> set us" for x
    using Cons.prems(1) Cons.prems(2) [OF that(1)] Cons.prems(2) [of x] that(2) by (auto simp: image_iff)
  then have "filter P us = []" if "P u" using that by (auto simp: filter_empty_conv)
  moreover have "filter P us = [] \<or> (\<exists>v. filter P us = [v])" using Cons by simp
  ultimately show ?case by (cases "P u") auto
qed simp

lemma comprehension_filter: "concat (map (\<lambda>u. if P u then [f u] else []) us) = map f (filter P us)"
  by (induction us) auto

lemma concat_singletons:
  "\<forall>c\<in>set cs. g c = [] \<or> g c = [c] \<Longrightarrow> concat (map g cs) = filter (\<lambda>c. g c \<noteq> []) cs"
  by (induction cs) auto

lemma scope_cases:
  assumes "queue_tables_ok db"
  shows "\<exists>P. map fst (queue_scope org qf snap db) = filter (\<lambda>c. cs_organization_id c = org \<and> P c) (cases db)"
proof -
  let ?A = "\<lambda>c u. cc_organization_id u = cs_organization_id c \<and> cc_case_id u = cs_id c
        \<and> cs_organization_id c = org \<and> cs_updated_at c \<le> snap
        \<and> (case qf_status qf of None \<Rightarrow> True | Some s \<Rightarrow> cs_status c = s)
        \<and> (case qf_category qf of None \<Rightarrow> True | Some k \<Rightarrow> cs_category c = k)
        \<and> (case qf_query qf of None \<Rightarrow> True | Some q \<Rightarrow> q = [] \<or> matches_query org q db c)
        \<and> in_view (qf_view qf) (qf_actor qf) snap c (case_owner_row c db)"
  let ?g = "\<lambda>c. map (\<lambda>u. c) (filter (?A c) (case_customers db))"
  have "map fst (queue_scope org qf snap db) = concat (map ?g (cases db))"
    by (simp add: queue_scope_def comprehension_filter map_concat comp_def)
  moreover have "?g c = [] \<or> ?g c = [c]" for c
    using filter_unique [of "\<lambda>u. (cc_organization_id u, cc_case_id u)" "case_customers db" "?A c"
        "(cs_organization_id c, cs_id c)"] assms
    by (auto simp: queue_tables_ok_def)
  ultimately have "map fst (queue_scope org qf snap db) = filter (\<lambda>c. ?g c \<noteq> []) (cases db)"
    using concat_singletons [of "cases db" ?g] by simp
  also have "\<dots> = filter (\<lambda>c. cs_organization_id c = org \<and> ?g c \<noteq> []) (cases db)"
    by (rule filter_cong) (auto simp: filter_empty_conv)
  finally show ?thesis by (rule exI [of _ "\<lambda>c. ?g c \<noteq> []"])
qed

lemma scope_distinct:
  assumes "queue_tables_ok db"
  shows "distinct (map (\<lambda>r. queue_key sort_by (fst r)) (queue_scope org qf snap db))"
proof -
  obtain P where P: "map fst (queue_scope org qf snap db) = filter (\<lambda>c. cs_organization_id c = org \<and> P c) (cases db)"
    using scope_cases [OF assms] by blast
  have "distinct (map (queue_key sort_by) (filter (\<lambda>c. cs_organization_id c = org \<and> P c) (cases db)))"
    using assms by (auto simp: queue_tables_ok_def distinct_map inj_on_def queue_key_def)
  then show ?thesis by (simp add: P [symmetric] comp_def)
qed

definition queue_listing ::
    "uuid \<Rightarrow> queue_filter \<Rightarrow> timestamp \<Rightarrow> case_queue_sort \<Rightarrow> database
     \<Rightarrow> (case_row \<times> customer_context \<times> membership option) list" where
  "queue_listing org qf snap sort_by db = queue_order sort_by (queue_scope org qf snap db)"

lemma queue_listing_split:
  assumes "queue_tables_ok db" and "queue_listing org qf snap sort_by db = xs @ y # zs"
  shows "filter (\<lambda>r. queue_after sort_by (case_queue_position_of sort_by (fst y)) (fst r))
           (queue_listing org qf snap sort_by db) = zs" (is ?after)
    and "filter (\<lambda>r. queue_before sort_by (case_queue_position_of sort_by (fst y)) (fst r))
           (queue_listing org qf snap sort_by db) = xs" (is ?before)
proof -
  let ?k = "\<lambda>r. queue_key sort_by (fst r)"
  have "sorted (map ?k (xs @ y # zs))" "distinct (map ?k (xs @ y # zs))"
    using scope_distinct [OF assms(1), of sort_by org qf snap] sorted_sort_key [of ?k "queue_scope org qf snap db"]
    unfolding assms(2) [symmetric] queue_listing_def queue_order_key
    by (simp_all add: distinct_map)
  from sorted_split [OF this] show ?after ?before
    by (simp_all only: assms(2) queue_after_key queue_before_key position_key_of)
qed

lemma sorted_queue_listing:
  "sorted (map (\<lambda>r. queue_key sort_by (fst r)) (queue_listing org qf snap sort_by db))"
  by (simp add: queue_listing_def queue_order_key)

section \<open>A page of the queue\<close>

definition cursor_at ::
    "case_queue_sort \<Rightarrow> case_queue_direction \<Rightarrow> int \<Rightarrow> timestamp \<Rightarrow> case_row \<times> 'r \<Rightarrow> case_queue_cursor" where
  "cursor_at sort_by direction off snap r =
     \<lparr>qc_direction = direction, qc_offset = off, qc_snapshot_at = snap,
      qc_position = case_queue_position_of sort_by (fst r)\<rparr>"

text \<open>The rows a request reads on from: the listing, or what lies behind its cursor.\<close>

definition queue_rest ::
    "uuid \<Rightarrow> queue_filter \<Rightarrow> timestamp \<Rightarrow> case_queue_cursor option \<Rightarrow> case_queue_sort \<Rightarrow> database
     \<Rightarrow> (case_row \<times> customer_context \<times> membership option) list" where
  "queue_rest org qf snap cursor sort_by db =
     (case cursor of None \<Rightarrow> queue_listing org qf snap sort_by db
      | Some k \<Rightarrow> filter (\<lambda>r. queue_after sort_by (qc_position k) (fst r)) (queue_listing org qf snap sort_by db))"

definition queue_prior ::
    "uuid \<Rightarrow> queue_filter \<Rightarrow> case_queue_cursor \<Rightarrow> case_queue_sort \<Rightarrow> database
     \<Rightarrow> (case_row \<times> customer_context \<times> membership option) list" where
  "queue_prior org qf k sort_by db =
     filter (\<lambda>r. queue_before sort_by (qc_position k) (fst r)) (queue_listing org qf (qc_snapshot_at k) sort_by db)"

definition cursor_fits :: "case_queue_sort \<Rightarrow> case_queue_cursor option \<Rightarrow> bool" where
  "cursor_fits sort_by cursor =
     (case cursor of None \<Rightarrow> True
      | Some k \<Rightarrow> 0 \<le> qc_offset k \<and> (sort_by = QS_PRIORITY \<longrightarrow> qp_risk_rank (qc_position k) \<noteq> None))"

lemma queue_order_filter: "queue_order sort_by (filter P rows) = filter P (queue_order sort_by rows)"
  by (simp only: queue_order_key filter_sort)

lemma list_cases_accepts:
  assumes "list_cases now org_pid qf cursor limit sort_by db = Inr page"
  obtains org where "organization_id_of org_pid db = Some org" "cursor_fits sort_by cursor"
    "1 \<le> limit" "limit \<le> 100"
  using assms by (auto simp: list_cases_def Let_def run_simps cursor_fits_def split: option.splits)

lemma list_cases_forward:
  assumes "organization_id_of org_pid db = Some org" and "cursor_fits sort_by cursor"
    and "1 \<le> limit" "limit \<le> 100" and "\<forall>k. cursor = Some k \<longrightarrow> qc_direction k = QD_FORWARD"
    and "snap = (case cursor of None \<Rightarrow> now | Some k \<Rightarrow> qc_snapshot_at k)"
    and "off = (case cursor of None \<Rightarrow> 0 | Some k \<Rightarrow> qc_offset k)"
    and "rest = queue_rest org qf snap cursor sort_by db"
  shows "\<exists>page. list_cases now org_pid qf cursor limit sort_by db = Inr page
    \<and> lp_items page = map list_item (take limit rest)
    \<and> lp_next_cursor page =
        (if limit < length rest
         then Some (cursor_at sort_by QD_FORWARD (off + int limit) snap (last (take limit rest))) else None)
    \<and> lp_previous_cursor page =
        (if cursor \<noteq> None \<and> rest \<noteq> []
         then Some (cursor_at sort_by QD_BACKWARD (max 0 (off - int limit)) snap (hd rest)) else None)
    \<and> lp_offset page = off"
  using assms
  by (cases cursor)
    (auto simp: list_cases_def Let_def queue_rest_def queue_listing_def page_rows_of_def
      queue_order_filter cursor_fits_def cursor_at_def hd_take min_def)

lemma list_cases_backward:
  assumes "organization_id_of org_pid db = Some org" and "cursor_fits sort_by (Some k)"
    and "1 \<le> limit" "limit \<le> 100" and "qc_direction k = QD_BACKWARD"
    and "prior = queue_prior org qf k sort_by db"
    and "shown = rev (take limit (rev prior))"
  shows "\<exists>page. list_cases now org_pid qf (Some k) limit sort_by db = Inr page
    \<and> lp_items page = map list_item shown
    \<and> lp_next_cursor page =
        (if shown \<noteq> []
         then Some (cursor_at sort_by QD_FORWARD (qc_offset k + int (length shown)) (qc_snapshot_at k) (last shown))
         else None)
    \<and> lp_offset page = qc_offset k"
  using assms
  by (auto simp: list_cases_def Let_def queue_prior_def queue_listing_def page_rows_of_def
      queue_order_filter cursor_fits_def cursor_at_def)

section \<open>Reading on\<close>

type_synonym queue_request =
  "timestamp \<times> string \<times> queue_filter \<times> nat \<times> case_queue_sort \<times> database"

fun queue_fetch ::
    "queue_request \<Rightarrow> case_queue_cursor option \<Rightarrow> case_list_item list \<times> case_queue_cursor option" where
  "queue_fetch (now, org_pid, qf, limit, sort_by, db) cursor =
     (case list_cases now org_pid qf cursor limit sort_by db of
        Inl _ \<Rightarrow> ([], None) | Inr page \<Rightarrow> (lp_items page, lp_next_cursor page))"

fun queue_ok :: "queue_request \<Rightarrow> bool" where
  "queue_ok (now, org_pid, qf, limit, sort_by, db) \<longleftrightarrow>
     organization_id_of org_pid db \<noteq> None \<and> 1 \<le> limit \<and> limit \<le> 100 \<and> queue_tables_ok db"

fun queue_items :: "queue_request \<Rightarrow> case_list_item list" where
  "queue_items (now, org_pid, qf, limit, sort_by, db) =
     map list_item (queue_listing (the (organization_id_of org_pid db)) qf now sort_by db)"

fun queue_cursor :: "queue_request \<Rightarrow> case_list_item list \<Rightarrow> case_queue_cursor" where
  "queue_cursor (now, org_pid, qf, limit, sort_by, db) seen =
     \<lparr>qc_direction = QD_FORWARD, qc_offset = int (length seen), qc_snapshot_at = now,
      qc_position = case_queue_position_of sort_by (li_case (last seen))\<rparr>"

lemma last_list_item: "rows \<noteq> [] \<Longrightarrow> li_case (last (map list_item rows)) = fst (last rows)"
  by (simp add: last_map list_item_def split_beta)

lemma last_list_item_take:
  "1 \<le> limit \<Longrightarrow> limit < length rows \<Longrightarrow>
   li_case (last (map list_item (take limit rows))) = fst (last (take limit rows))"
  by (rule last_list_item) auto

text \<open>A page that the queue returns for a fitting cursor, as the reader sees it.\<close>

lemma queue_fetch_page:
  assumes "organization_id_of org_pid db = Some org" "cursor_fits sort_by cursor" "1 \<le> limit" "limit \<le> 100"
    and "\<forall>k. cursor = Some k \<longrightarrow> qc_direction k = QD_FORWARD \<and> qc_snapshot_at k = now"
    and "off = (case cursor of None \<Rightarrow> 0 | Some k \<Rightarrow> qc_offset k)"
    and "rest = queue_rest org qf now cursor sort_by db"
  shows "queue_fetch (now, org_pid, qf, limit, sort_by, db) cursor = (map list_item (take limit rest),
    if limit < length rest
    then Some \<lparr>qc_direction = QD_FORWARD, qc_offset = off + int limit, qc_snapshot_at = now,
      qc_position = case_queue_position_of sort_by (fst (last (take limit rest)))\<rparr> else None)"
proof -
  have snap: "now = (case cursor of None \<Rightarrow> now | Some k \<Rightarrow> qc_snapshot_at k)"
    using assms(5) by (cases cursor) auto
  have fwd: "\<forall>k. cursor = Some k \<longrightarrow> qc_direction k = QD_FORWARD" using assms(5) by blast
  from list_cases_forward [OF assms(1-4) fwd snap assms(6,7)]
  obtain page where "list_cases now org_pid qf cursor limit sort_by db = Inr page"
    "lp_items page = map list_item (take limit rest)"
    "lp_next_cursor page = (if limit < length rest
       then Some (cursor_at sort_by QD_FORWARD (off + int limit) now (last (take limit rest))) else None)"
    by blast
  then show ?thesis by (simp add: cursor_at_def)
qed

lemma queue_fetch_first:
  assumes s: "s = (now, org_pid, qf, limit, sort_by, db)" and "queue_ok s"
  shows "queue_fetch s None = (take limit (queue_items s),
    if limit < length (queue_items s) then Some (queue_cursor s (take limit (queue_items s))) else None)"
proof -
  obtain org where org: "organization_id_of org_pid db = Some org" using assms by auto
  have limit: "1 \<le> limit" "limit \<le> 100" using assms by auto
  note page = queue_fetch_page [OF org _ limit, of sort_by None now 0 "queue_listing org qf now sort_by db" qf]
  then have "queue_fetch s None = (map list_item (take limit (queue_listing org qf now sort_by db)),
    if limit < length (queue_listing org qf now sort_by db)
    then Some \<lparr>qc_direction = QD_FORWARD, qc_offset = int limit, qc_snapshot_at = now,
      qc_position = case_queue_position_of sort_by (fst (last (take limit (queue_listing org qf now sort_by db))))\<rparr>
    else None)"
    using s by (simp add: cursor_fits_def queue_rest_def)
  then show ?thesis using org s limit by (auto simp: take_map last_list_item_take)
qed

lemma queue_fetch_next:
  assumes s: "s = (now, org_pid, qf, limit, sort_by, db)" and ok: "queue_ok s"
    and split: "queue_items s = seen @ rest" and "seen \<noteq> []"
  shows "queue_fetch s (Some (queue_cursor s seen)) = (take limit rest,
    if limit < length rest then Some (queue_cursor s (seen @ take limit rest)) else None)"
proof -
  obtain org where org: "organization_id_of org_pid db = Some org" using ok s by auto
  have limit: "1 \<le> limit" "limit \<le> 100" using ok s by auto
  let ?L = "queue_listing org qf now sort_by db" and ?k = "queue_cursor s seen"
  obtain xs ys where L: "?L = xs @ ys" and xs: "seen = map list_item xs" and ys: "rest = map list_item ys"
    using split org s by (auto simp: map_eq_append_conv)
  have "xs \<noteq> []" using xs \<open>seen \<noteq> []\<close> by simp
  then have pos: "qc_position ?k = case_queue_position_of sort_by (fst (last xs))"
    by (simp add: s xs last_list_item)
  have "?L = butlast xs @ last xs # ys" using L \<open>xs \<noteq> []\<close> by simp
  then have "filter (\<lambda>r. queue_after sort_by (qc_position ?k) (fst r)) ?L = ys"
    unfolding pos using ok s by (intro queue_listing_split(1)) auto
  then have rest: "queue_rest org qf now (Some ?k) sort_by db = ys" by (simp add: queue_rest_def)
  have fits: "cursor_fits sort_by (Some ?k)"
    by (simp add: s cursor_fits_def case_queue_position_of_def)
  have kept: "\<forall>k. Some ?k = Some k \<longrightarrow> qc_direction k = QD_FORWARD \<and> qc_snapshot_at k = now"
    and off: "int (length seen) = (case Some ?k of None \<Rightarrow> 0 | Some k \<Rightarrow> qc_offset k)" by (simp_all add: s)
  have page: "queue_fetch s (Some ?k) = (map list_item (take limit ys),
    if limit < length ys
    then Some \<lparr>qc_direction = QD_FORWARD, qc_offset = int (length seen) + int limit, qc_snapshot_at = now,
      qc_position = case_queue_position_of sort_by (fst (last (take limit ys)))\<rparr> else None)"
    using queue_fetch_page [OF org fits limit kept off rest [symmetric]] unfolding s .
  have "li_case (last (seen @ map list_item (take limit ys))) = fst (last (take limit ys))"
    if "limit < length ys"
  proof -
    have "map list_item (take limit ys) \<noteq> []" using that limit by auto
    then show ?thesis using last_list_item_take [OF limit(1) that] by (simp add: last_append)
  qed
  then show ?thesis using page by (simp add: s ys take_map)
qed

interpretation queue: paged_listing queue_ok "\<lambda>(now, org_pid, qf, limit, sort_by, db). limit"
  queue_items queue_cursor queue_fetch
proof unfold_locales
  fix s :: queue_request and seen rest
  assume "queue_ok s" "queue_items s = seen @ rest" "seen \<noteq> []"
  then show "queue_fetch s (Some (queue_cursor s seen)) =
    (take (case s of (now, org_pid, qf, limit, sort_by, db) \<Rightarrow> limit) rest,
     if (case s of (now, org_pid, qf, limit, sort_by, db) \<Rightarrow> limit) < length rest
     then Some (queue_cursor s (seen @ take (case s of (now, org_pid, qf, limit, sort_by, db) \<Rightarrow> limit) rest))
     else None)"
    using queue_fetch_next [of s] by (cases s) auto
next
  fix s :: queue_request
  assume "queue_ok s"
  then show "queue_fetch s None =
    (take (case s of (now, org_pid, qf, limit, sort_by, db) \<Rightarrow> limit) (queue_items s),
     if (case s of (now, org_pid, qf, limit, sort_by, db) \<Rightarrow> limit) < length (queue_items s)
     then Some (queue_cursor s (take (case s of (now, org_pid, qf, limit, sort_by, db) \<Rightarrow> limit) (queue_items s)))
     else None)"
    using queue_fetch_first [of s] by (cases s) auto
qed auto

text \<open>C38. Reading the case queue forward by its cursors ends and shows every case in scope exactly once:
  for each order and view, the pages that \<open>next_cursor\<close> leads to are together the cases the filters
  admit at the time of the first request, in the order of the queue, each with its customer and
  owner, and every page but the last is full.
\<close>

theorem queue_pages_complete:
  assumes "organization_id_of org_pid db = Some org" and "1 \<le> limit" and "limit \<le> 100"
    and "queue_tables_ok db"
  shows "\<exists>pages. walk (queue_fetch (now, org_pid, qf, limit, sort_by, db))
        (length (queue_scope org qf now db) + 1) None = Some pages
    \<and> concat pages = map list_item (queue_order sort_by (queue_scope org qf now db))
    \<and> (\<forall>p\<in>set (butlast pages). length p = limit)"
proof -
  have "length (queue_items (now, org_pid, qf, limit, sort_by, db)) = length (queue_scope org qf now db)"
    using assms(1) by (simp add: queue_listing_def queue_order_key)
  then show ?thesis
    using queue.walk_complete [of "(now, org_pid, qf, limit, sort_by, db)"] assms
    by (auto simp: queue_listing_def)
qed

section \<open>Reading back\<close>

text \<open>What lies behind a forward cursor is an end of the listing.\<close>

lemma queue_rest_end:
  obtains front where "queue_listing org qf snap sort_by db = front @ queue_rest org qf snap cursor sort_by db"
proof (cases cursor)
  case None
  then show thesis by (intro that [of "[]"]) (simp add: queue_rest_def)
next
  case (Some k)
  let ?L = "queue_listing org qf snap sort_by db"
  have "queue_rest org qf snap cursor sort_by db
      = filter (\<lambda>r. position_key sort_by (qc_position k) < queue_key sort_by (fst r)) ?L"
    by (simp add: Some queue_rest_def queue_after_key)
  then show thesis
    using sorted_beyond [OF sorted_queue_listing [of sort_by org qf snap db]] that by metis
qed

text \<open>With the listing cut into what was skipped, a full page and what follows it, the cursor behind
  the page leads to what follows, and the cursor back from there leads to the page.\<close>

lemma cursor_at_fits:
  "0 \<le> off \<Longrightarrow> cursor_fits sort_by (Some (cursor_at sort_by direction off snap r))"
  by (simp add: cursor_at_def cursor_fits_def case_queue_position_of_def)

lemma queue_next_page:
  assumes ok: "queue_tables_ok db" and org: "organization_id_of org_pid db = Some org"
    and limit: "1 \<le> limit" "limit \<le> 100" and off: "0 \<le> off"
    and L: "queue_listing org qf snap sort_by db = front @ shown @ later" "shown \<noteq> []" "later \<noteq> []"
  shows "\<exists>page. list_cases now org_pid qf (Some (cursor_at sort_by QD_FORWARD off snap (last shown))) limit sort_by db
      = Inr page
    \<and> lp_previous_cursor page = Some (cursor_at sort_by QD_BACKWARD (max 0 (off - int limit)) snap (hd later))"
proof -
  let ?n = "cursor_at sort_by QD_FORWARD off snap (last shown)"
  have n: "qc_direction ?n = QD_FORWARD" "qc_snapshot_at ?n = snap" "qc_offset ?n = off"
    by (simp_all add: cursor_at_def)
  have "queue_listing org qf snap sort_by db = (front @ butlast shown) @ last shown # later" using L by simp
  from queue_listing_split(1) [OF ok this]
  have "queue_rest org qf snap (Some ?n) sort_by db = later" by (simp add: queue_rest_def cursor_at_def)
  then show ?thesis
    using list_cases_forward [OF org cursor_at_fits [OF off] limit, of sort_by QD_FORWARD snap "last shown" snap now
        off later qf] n L(3) by auto
qed

lemma queue_page_back:
  assumes ok: "queue_tables_ok db" and org: "organization_id_of org_pid db = Some org"
    and limit: "1 \<le> limit" "limit \<le> 100" and off: "0 \<le> off"
    and L: "queue_listing org qf snap sort_by db = front @ shown @ later" "length shown = limit" "later \<noteq> []"
  shows "\<exists>page. list_cases now org_pid qf (Some (cursor_at sort_by QD_BACKWARD off snap (hd later))) limit sort_by db
      = Inr page
    \<and> lp_items page = map list_item shown \<and> lp_offset page = off
    \<and> lp_next_cursor page = Some (cursor_at sort_by QD_FORWARD (off + int limit) snap (last shown))"
proof -
  let ?b = "cursor_at sort_by QD_BACKWARD off snap (hd later)"
  have b: "qc_direction ?b = QD_BACKWARD" "qc_snapshot_at ?b = snap" "qc_offset ?b = off"
    by (simp_all add: cursor_at_def)
  have "queue_listing org qf snap sort_by db = (front @ shown) @ hd later # tl later" using L by simp
  from queue_listing_split(2) [OF ok this]
  have "queue_prior org qf ?b sort_by db = front @ shown" by (simp add: queue_prior_def cursor_at_def)
  moreover have "rev (take limit (rev (front @ shown))) = shown" "shown \<noteq> []" using L(2) limit by auto
  ultimately show ?thesis
    using list_cases_backward [OF org cursor_at_fits [OF off] limit b(1) refl refl, where qf = qf and now = now]
      b L(2) by auto
qed

text \<open>C39. Going one page on and one page back in the case queue returns to the same page: the page that
  \<open>previous_cursor\<close> of the following page leads to has the same items, the same offset and the same
  next cursor, in every order, for every filter and from every forward cursor.
\<close>

theorem queue_back_and_forth:
  assumes p1: "list_cases now org_pid qf cursor limit sort_by db = Inr p1"
    and fwd: "\<forall>k. cursor = Some k \<longrightarrow> qc_direction k = QD_FORWARD"
    and n: "lp_next_cursor p1 = Some n"
    and p2: "list_cases now2 org_pid qf (Some n) limit sort_by db = Inr p2"
    and b: "lp_previous_cursor p2 = Some b" and ok: "queue_tables_ok db"
  shows "\<exists>p3. list_cases now3 org_pid qf (Some b) limit sort_by db = Inr p3
    \<and> lp_items p3 = lp_items p1 \<and> lp_offset p3 = lp_offset p1 \<and> lp_next_cursor p3 = lp_next_cursor p1"
proof -
  from p1 obtain org where org: "organization_id_of org_pid db = Some org"
    and fits: "cursor_fits sort_by cursor" and limit: "1 \<le> limit" "limit \<le> 100"
    by (rule list_cases_accepts)
  let ?snap = "case cursor of None \<Rightarrow> now | Some k \<Rightarrow> qc_snapshot_at k"
  let ?off = "case cursor of None \<Rightarrow> 0 | Some k \<Rightarrow> qc_offset k"
  define rest where "rest = queue_rest org qf ?snap cursor sort_by db"
  have off: "0 \<le> ?off" using fits by (auto simp: cursor_fits_def split: option.splits)
  from list_cases_forward [OF org fits limit fwd refl refl rest_def] p1 n
  have more: "limit < length rest"
    and n_def: "n = cursor_at sort_by QD_FORWARD (?off + int limit) ?snap (last (take limit rest))"
    and items: "lp_items p1 = map list_item (take limit rest)" and off1: "lp_offset p1 = ?off"
    by (auto split: if_splits)
  obtain front where "queue_listing org qf ?snap sort_by db = front @ rest"
    unfolding rest_def by (rule queue_rest_end)
  then have L: "queue_listing org qf ?snap sort_by db = front @ take limit rest @ drop limit rest" by simp
  have parts: "length (take limit rest) = limit" "take limit rest \<noteq> []" "drop limit rest \<noteq> []"
    using more limit by auto
  have "0 \<le> ?off + int limit" using off by simp
  from queue_next_page [OF ok org limit this L parts(2,3), of now2] p2 b
  have "b = cursor_at sort_by QD_BACKWARD ?off ?snap (hd (drop limit rest))" using off by (auto simp: n_def)
  then show ?thesis
    using queue_page_back [OF ok org limit off L parts(1,3), of now3] items off1 n n_def by auto
qed

end
