(* ===== verification/Case_Cursor.thy ===== *)
theory Case_Cursor
  imports Case_Queue
begin

text \<open>
  The opaque cursors of the case queue: \<open>encode_cursor\<close>, \<open>decode_cursor\<close> and \<open>list_cases\<close> of
  \<open>services/case_service.py\<close>, with the parts of Python's \<open>base64\<close> they use. The rendering of the
  payload to JSON values and its validation from JSON text are pydantic's: they are the parameters
  \<open>model_dump\<close> and \<open>validate_json\<close>. \<open>InvalidCaseCursor\<close> is a \<open>ValueError\<close>. A byte is a
  character.
\<close>

section \<open>Base 64\<close>

text \<open>The URL-safe alphabet, and the values a decoder with \<open>altchars\<close> reads: \<open>+\<close> and \<open>/\<close> stay
  valid beside their replacements.\<close>

definition b64_char :: "nat \<Rightarrow> char" where
  "b64_char n =
     (if n < 26 then char_of (65 + n) else if n < 52 then char_of (71 + n)
      else if n < 62 then char_of (n - 4) else if n = 62 then CHR ''-'' else CHR ''_'')"

definition b64_value :: "char \<Rightarrow> nat option" where
  "b64_value c = (let n = (of_char c :: nat) in
     if 65 \<le> n \<and> n \<le> 90 then Some (n - 65)
     else if 97 \<le> n \<and> n \<le> 122 then Some (n - 71)
     else if 48 \<le> n \<and> n \<le> 57 then Some (n + 4)
     else if c = CHR ''-'' \<or> c = CHR ''+'' then Some 62
     else if c = CHR ''_'' \<or> c = CHR ''/'' then Some 63
     else None)"

definition sextets :: "char \<Rightarrow> char \<Rightarrow> char \<Rightarrow> nat list" where
  "sextets a b c =
     (let x = (of_char a :: nat); y = (of_char b :: nat); z = (of_char c :: nat)
      in [x div 4, x mod 4 * 16 + y div 16, y mod 16 * 4 + z div 64, z mod 64])"

fun b64_encode :: "string \<Rightarrow> string" where
  "b64_encode [] = []"
| "b64_encode [a] = map b64_char (take 2 (sextets a (CHR 0x00) (CHR 0x00))) @ ''==''"
| "b64_encode [a, b] = map b64_char (take 3 (sextets a b (CHR 0x00))) @ ''=''"
| "b64_encode (a # b # c # rest) = map b64_char (sextets a b c) @ b64_encode rest"

definition octets :: "nat \<Rightarrow> nat \<Rightarrow> nat \<Rightarrow> nat \<Rightarrow> string" where
  "octets x y z w =
     [char_of (x * 4 + y div 16), char_of (y mod 16 * 16 + z div 4), char_of (z mod 4 * 64 + w)]"

text \<open>\<open>a2b_base64\<close> in strict mode: padding only at the end, no other character.\<close>

fun b64_decode :: "string \<Rightarrow> string option" where
  "b64_decode [] = Some []"
| "b64_decode (a # b # c # d # rest) =
     (case (b64_value a, b64_value b) of
        (Some x, Some y) \<Rightarrow>
          if c = CHR ''='' then (if d = CHR ''='' \<and> rest = [] then Some (take 1 (octets x y 0 0)) else None)
          else (case b64_value c of
                  None \<Rightarrow> None
                | Some z \<Rightarrow>
                    if d = CHR ''='' then (if rest = [] then Some (take 2 (octets x y z 0)) else None)
                    else (case b64_value d of
                            None \<Rightarrow> None
                          | Some w \<Rightarrow> map_option (append (octets x y z w)) (b64_decode rest)))
      | _ \<Rightarrow> None)"
| "b64_decode s = None"

definition rstrip_padding :: "string \<Rightarrow> string" where
  "rstrip_padding s = rev (dropWhile (\<lambda>c. c = CHR ''='') (rev s))"

definition add_padding :: "string \<Rightarrow> string" where
  "add_padding s = s @ replicate (nat (- int (length s) mod 4)) (CHR ''='')"

section \<open>Cursors\<close>

record queue_context =
  qx_status :: "case_status option"
  qx_category :: "case_category option"
  qx_query :: "string option"
  qx_view :: case_queue_view
  qx_sort :: case_queue_sort

record case_cursor_payload =
  cp_context_hash :: string
  cp_cursor :: case_queue_cursor

fun case_queue_view_value :: "case_queue_view \<Rightarrow> string" where
  "case_queue_view_value QV_MINE = ''mine''"
| "case_queue_view_value QV_ALL = ''all''"
| "case_queue_view_value QV_UNASSIGNED = ''unassigned''"
| "case_queue_view_value QV_REVIEW = ''review''"
| "case_queue_view_value QV_AT_RISK = ''at_risk''"

fun case_queue_sort_value :: "case_queue_sort \<Rightarrow> string" where
  "case_queue_sort_value QS_PRIORITY = ''priority''"
| "case_queue_sort_value QS_SLA = ''sla''"
| "case_queue_sort_value QS_UPDATED = ''updated''"

definition cursor_context_hash :: "(string \<Rightarrow> string) \<Rightarrow> queue_context \<Rightarrow> string" where
  "cursor_context_hash sha x =
     hash_json sha (JObj
       [(''status'', json_opt (\<lambda>s. JStr (case_status_value s)) (qx_status x)),
        (''category'', json_opt (\<lambda>k. JStr (case_category_value k)) (qx_category x)),
        (''query'', json_opt (\<lambda>q. JStr (str_strip q)) (qx_query x)),
        (''view'', JStr (case_queue_view_value (qx_view x))),
        (''sort'', JStr (case_queue_sort_value (qx_sort x)))])"

definition validate_cursor_position :: "case_queue_cursor \<Rightarrow> case_queue_sort \<Rightarrow> error + unit" where
  "validate_cursor_position k sort_by =
     (if sort_by = QS_PRIORITY \<and> qp_risk_rank (qc_position k) = None
      then Inl (ValueError ''Priority cursors require a risk rank.'')
      else if sort_by \<noteq> QS_PRIORITY \<and> qp_risk_rank (qc_position k) \<noteq> None
      then Inl (ValueError ''Only priority cursors may include a risk rank.'')
      else Inr ())"

definition is_digest :: "string \<Rightarrow> bool" where
  "is_digest s \<longleftrightarrow> length s = 64 \<and> list_all (\<lambda>c. c \<in> set ''0123456789abcdef'') s"

definition encode_cursor ::
    "(string \<Rightarrow> string) \<Rightarrow> (case_cursor_payload \<Rightarrow> json) \<Rightarrow> case_queue_cursor option \<Rightarrow> queue_context
     \<Rightarrow> error + string option" where
  "encode_cursor sha model_dump cursor x =
     (case cursor of
        None \<Rightarrow> Inr None
      | Some k \<Rightarrow>
          bindE (validate_cursor_position k (qx_sort x)) (\<lambda>_.
          bindE (requireE (is_digest (cursor_context_hash sha x)) (ValueError ''_CaseCursorPayload'')) (\<lambda>_.
          Inr (Some (rstrip_padding (b64_encode (json_dumps (model_dump
            \<lparr>cp_context_hash = cursor_context_hash sha x, cp_cursor = k\<rparr>))))))))"

definition decode_cursor ::
    "(string \<Rightarrow> string) \<Rightarrow> (string \<Rightarrow> case_cursor_payload option) \<Rightarrow> string option \<Rightarrow> queue_context
     \<Rightarrow> error + case_queue_cursor option" where
  "decode_cursor sha validate_json cursor x =
     (let invalid = Inl (ValueError ''The case cursor is invalid.'') in
      case cursor of
        None \<Rightarrow> Inr None
      | Some t \<Rightarrow>
          (case b64_decode (add_padding t) of
             None \<Rightarrow> invalid
           | Some raw \<Rightarrow>
               (case validate_json raw of
                  None \<Rightarrow> invalid
                | Some p \<Rightarrow>
                    if cp_context_hash p \<noteq> cursor_context_hash sha x then invalid
                    else (case validate_cursor_position (cp_cursor p) (qx_sort x) of
                            Inl _ \<Rightarrow> invalid
                          | Inr _ \<Rightarrow> Inr (Some (cp_cursor p))))))"

definition service_list_cases ::
    "(string \<Rightarrow> string) \<Rightarrow> (string \<Rightarrow> case_cursor_payload option) \<Rightarrow> timestamp \<Rightarrow> actor_context
     \<Rightarrow> queue_context \<Rightarrow> string option \<Rightarrow> nat \<Rightarrow> database \<Rightarrow> error + case_list_page" where
  "service_list_cases sha validate_json now actor x cursor limit db =
     bindE (require_permission actor CASE_READ) (\<lambda>_.
     bindE (decode_cursor sha validate_json cursor x) (\<lambda>k.
     list_cases now (actor_organization_id actor)
       \<lparr>qf_status = qx_status x, qf_category = qx_category x, qf_query = qx_query x,
        qf_actor = actor_id actor, qf_view = qx_view x\<rparr> k limit (qx_sort x) db))"

section \<open>Decoding is the inverse of encoding\<close>

lemma b64_value_char: "n < 64 \<Longrightarrow> b64_value (b64_char n) = Some n"
  by (auto simp: b64_value_def b64_char_def Let_def of_char_of)

lemma b64_char_pad [simp]: "b64_char n \<noteq> CHR ''=''"
proof (cases "n < 64")
  case True
  then show ?thesis using b64_value_char [of n] by (auto simp: b64_value_def)
qed (simp add: b64_char_def)

lemma sextets_bounds:
  fixes x y z :: nat
  assumes "x < 256" "y < 256" "z < 256"
  shows "x div 4 < 64" "x mod 4 * 16 + y div 16 < 64" "y mod 16 * 4 + z div 64 < 64" "z mod 64 < 64"
proof -
  have "y div 16 < 16" "z div 64 < 4" "x mod 4 < 4" "y mod 16 < 16"
    using assms by (simp_all add: less_mult_imp_div_less)
  then show "x mod 4 * 16 + y div 16 < 64" "y mod 16 * 4 + z div 64 < 64" by linarith+
qed (use assms in \<open>simp_all add: less_mult_imp_div_less\<close>)

lemma join_parts:
  fixes x q :: nat
  assumes "q < m"
  shows "(x * m + q) div m = x" "(x * m + q) mod m = q"
  using assms by simp_all

lemma sextets_inverse:
  fixes x y z :: nat
  assumes "y < 256" "z < 256"
  shows "x div 4 * 4 + (x mod 4 * 16 + y div 16) div 16 = x"
    and "(x mod 4 * 16 + y div 16) mod 16 * 16 + (y mod 16 * 4 + z div 64) div 4 = y"
    and "(y mod 16 * 4 + z div 64) mod 4 * 64 + z mod 64 = z"
proof -
  have "y div 16 < 16" "z div 64 < 4" using assms by (simp_all add: less_mult_imp_div_less)
  then show "x div 4 * 4 + (x mod 4 * 16 + y div 16) div 16 = x"
    "(x mod 4 * 16 + y div 16) mod 16 * 16 + (y mod 16 * 4 + z div 64) div 4 = y"
    "(y mod 16 * 4 + z div 64) mod 4 * 64 + z mod 64 = z"
    by (simp_all only: join_parts div_mult_mod_eq)
qed

lemma octets_sextets:
  "y < 256 \<Longrightarrow> z < 256 \<Longrightarrow>
   octets (x div 4) (x mod 4 * 16 + y div 16) (y mod 16 * 4 + z div 64) (z mod 64)
     = [char_of x, char_of y, char_of z]"
  by (simp only: octets_def sextets_inverse)

lemma b64_decode_encode: "b64_decode (b64_encode s) = Some s"
proof (induction s rule: b64_encode.induct)
  case (2 a)
  show ?case
    using sextets_bounds [of "of_char a" 0 0] octets_sextets [of 0 0 "of_char a"]
    by (simp add: sextets_def b64_value_char Let_def)
next
  case (3 a b)
  show ?case
    using sextets_bounds [of "of_char a" "of_char b" 0] octets_sextets [of "of_char b" 0 "of_char a"]
    by (simp add: sextets_def b64_value_char Let_def)
next
  case (4 a b c rest)
  then show ?case
    using sextets_bounds [of "of_char a" "of_char b" "of_char c"]
      octets_sextets [of "of_char b" "of_char c" "of_char a"]
    by (simp add: sextets_def b64_value_char Let_def)
qed simp

lemma rstrip_padding_append:
  "last xs \<noteq> CHR ''='' \<Longrightarrow> xs \<noteq> [] \<Longrightarrow> rstrip_padding (xs @ ys) = xs @ rstrip_padding ys"
  by (cases xs rule: rev_cases) (auto simp: rstrip_padding_def dropWhile_append)

lemma add_padding_group: "length xs = 4 \<Longrightarrow> add_padding (xs @ ys) = xs @ add_padding ys"
proof -
  have "(- 4 - int (length ys)) mod 4 = - int (length ys) mod 4"
    using mod_add_self1 [of 4 "- 4 - int (length ys)"] by simp
  then show "length xs = 4 \<Longrightarrow> ?thesis" by (simp add: add_padding_def)
qed

lemma add_padding_rstrip: "add_padding (rstrip_padding (b64_encode s)) = b64_encode s"
proof (induction s rule: b64_encode.induct)
  case (4 a b c rest)
  have "rstrip_padding (map b64_char (sextets a b c) @ b64_encode rest)
      = map b64_char (sextets a b c) @ rstrip_padding (b64_encode rest)"
    by (rule rstrip_padding_append) (simp_all add: sextets_def Let_def)
  then show ?case
    using 4 add_padding_group [of "map b64_char (sextets a b c)"] by (simp add: sextets_def Let_def)
qed (simp_all add: rstrip_padding_def add_padding_def sextets_def Let_def numeral_2_eq_2)

text \<open>C40. Cursors of the case queue round-trip: if pydantic reads back the payload it rendered, the token
  that \<open>encode_cursor\<close> returns for a cursor decodes, under the same filters and order, to that
  cursor, although the padding was stripped from it. Under filters with another context hash the
  same token is refused as invalid.
\<close>

theorem cursor_roundtrip:
  assumes "encode_cursor sha model_dump (Some k) x = Inr (Some t)"
    and "validate_json (json_dumps (model_dump
           \<lparr>cp_context_hash = cursor_context_hash sha x, cp_cursor = k\<rparr>))
         = Some \<lparr>cp_context_hash = cursor_context_hash sha x, cp_cursor = k\<rparr>"
  shows "decode_cursor sha validate_json (Some t) x = Inr (Some k)
    \<and> (cursor_context_hash sha x' \<noteq> cursor_context_hash sha x \<longrightarrow>
       decode_cursor sha validate_json (Some t) x' = Inl (ValueError ''The case cursor is invalid.''))"
proof -
  let ?p = "\<lparr>cp_context_hash = cursor_context_hash sha x, cp_cursor = k\<rparr>"
  have v: "validate_cursor_position k (qx_sort x) = Inr ()"
    and t: "t = rstrip_padding (b64_encode (json_dumps (model_dump ?p)))"
    using assms(1) by (auto simp: encode_cursor_def run_simps)
  have raw: "b64_decode (add_padding t) = Some (json_dumps (model_dump ?p))"
    by (simp add: t add_padding_rstrip b64_decode_encode)
  show ?thesis
    by (simp add: decode_cursor_def raw assms(2) v)
qed

end
