(* ===== verification/Case_Witness.thy ===== *)
theory Case_Witness
  imports Case_Pages Case_Cursor Demo
begin

text \<open>
  A concrete workspace with two cases and a conversation of three messages, at which the properties
  of the case component are instantiated.
\<close>

section \<open>Rows\<close>

definition note_row :: "uuid \<Rightarrow> string \<Rightarrow> timestamp \<Rightarrow> conversation_message" where
  "note_row i pid t =
     \<lparr>msg_id = i, msg_public_id = pid, msg_organization_id = 1, msg_case_id = 3, msg_thread_id = 40,
      msg_author_type = MA_MEMBER, msg_author_id = None, msg_author_name = ''Sam'', msg_channel = MC_INTERNAL_NOTE,
      msg_body = ''text'', msg_internal = True, msg_source_reference = None, msg_version = 1, msg_created_at = t\<rparr>"

definition customer_of :: "uuid \<Rightarrow> uuid \<Rightarrow> customer_context" where
  "customer_of i c =
     \<lparr>cc_id = i, cc_organization_id = 1, cc_case_id = c, cc_customer_id = ''CU'', cc_name = ''Ann'',
      cc_tier = TIER_STANDARD, cc_locale = ''en'', cc_contact = ''a@x'', cc_captured_at = 0\<rparr>"

definition demo_request :: case_request where
  "demo_request =
     \<lparr>crq_id = 50, crq_public_id = ''RQ'', crq_organization_id = 1, crq_case_id = 3, crq_channel = RQ_EMAIL,
      crq_customer_message = ''charged twice'', crq_summary = ''double charge'', crq_received_at = 0\<rparr>"

definition demo_thread :: conversation_thread where
  "demo_thread =
     \<lparr>th_id = 40, th_public_id = ''TH'', th_organization_id = 1, th_case_id = 3, th_version = 1, th_updated_at = 0\<rparr>"

definition second_case :: case_row where
  "second_case = demo_case\<lparr>cs_id := 60, cs_public_id := ''CASE-2'', cs_due_at := 9, cs_risk := CRISK_HIGH\<rparr>"

definition case_db :: database where
  "case_db = demo_db
     \<lparr>cases := [demo_case, second_case], threads := [demo_thread],
      messages := [note_row 41 ''MSG-A'' 5, note_row 42 ''MSG-B'' 5, note_row 43 ''MSG-C'' 2],
      case_requests := [demo_request], case_customers := [customer_of 51 3, customer_of 52 60]\<rparr>"

definition every_case :: queue_filter where
  "every_case = \<lparr>qf_status = None, qf_category = None, qf_query = None, qf_actor = ''MEM'', qf_view = QV_ALL\<rparr>"

lemma case_db_messages: "message_ids_unique case_db"
  by (simp add: message_ids_unique_def case_db_def note_row_def)

lemma case_db_queue: "queue_tables_ok case_db"
  by (simp add: queue_tables_ok_def case_db_def customer_of_def second_case_def demo_case_def)

lemma case_db_organization: "organization_id_of ''ORG'' case_db = Some 1"
  by (simp add: organization_id_of_def case_db_def demo_db_def demo_organization_def)

lemma case_db_scope:
  "queue_scope 1 every_case 100 case_db
     = [(demo_case, customer_of 51 3, None), (second_case, customer_of 52 60, None)]"
  by (simp add: queue_scope_def case_db_def demo_db_def every_case_def customer_of_def second_case_def demo_case_def
      case_owner_row_def)

section \<open>Witnesses\<close>

theorem conversation_pages_complete_witness:
  "message_ids_unique case_db
   \<and> (\<exists>pages. walk (conversation_fetch (demo_case, 2, case_db)) (length (case_messages demo_case case_db) + 1) None
        = Some pages
      \<and> concat (rev (map rev pages)) = [note_row 43 ''MSG-C'' 2, note_row 41 ''MSG-A'' 5, note_row 42 ''MSG-B'' 5])"
proof -
  have "sort_key (\<lambda>m. (msg_created_at m, msg_public_id m)) (case_messages demo_case case_db)
      = [note_row 43 ''MSG-C'' 2, note_row 41 ''MSG-A'' 5, note_row 42 ''MSG-B'' 5]"
    by (simp add: case_messages_def case_db_def note_row_def demo_case_def)
  then show ?thesis
    using conversation_pages_complete [of 2 case_db demo_case] case_db_messages by auto
qed

theorem queue_pages_complete_witness:
  "queue_tables_ok case_db
   \<and> (\<exists>pages. walk (queue_fetch (100, ''ORG'', every_case, 1, QS_PRIORITY, case_db)) 3 None = Some pages
      \<and> map li_case (concat pages) = [second_case, demo_case])"
proof -
  have "map li_case (map list_item (queue_order QS_PRIORITY (queue_scope 1 every_case 100 case_db)))
      = [second_case, demo_case]"
    unfolding case_db_scope by (simp add: list_item_def second_case_def demo_case_def)
  then show ?thesis
    using queue_pages_complete [OF case_db_organization _ _ case_db_queue, of 1 100 every_case QS_PRIORITY]
      case_db_queue
    unfolding case_db_scope by (auto simp: eval_nat_numeral)
qed

lemma case_db_pages:
  "\<exists>p1 n p2 b. list_cases 100 ''ORG'' every_case None 1 QS_SLA case_db = Inr p1 \<and> lp_next_cursor p1 = Some n
     \<and> list_cases 200 ''ORG'' every_case (Some n) 1 QS_SLA case_db = Inr p2 \<and> lp_previous_cursor p2 = Some b"
  by (simp add: list_cases_def case_db_organization case_db_scope [unfolded One_nat_def] Let_def page_rows_of_def
      case_queue_position_of_def second_case_def demo_case_def)

theorem queue_back_and_forth_witness:
  "\<exists>p1 n p2 b p3. list_cases 100 ''ORG'' every_case None 1 QS_SLA case_db = Inr p1 \<and> lp_next_cursor p1 = Some n
     \<and> list_cases 200 ''ORG'' every_case (Some n) 1 QS_SLA case_db = Inr p2 \<and> lp_previous_cursor p2 = Some b
     \<and> list_cases 300 ''ORG'' every_case (Some b) 1 QS_SLA case_db = Inr p3 \<and> lp_items p3 = lp_items p1"
proof -
  from case_db_pages obtain p1 n p2 b
    where p: "list_cases 100 ''ORG'' every_case None 1 QS_SLA case_db = Inr p1" "lp_next_cursor p1 = Some n"
      "list_cases 200 ''ORG'' every_case (Some n) 1 QS_SLA case_db = Inr p2" "lp_previous_cursor p2 = Some b"
    by blast
  from queue_back_and_forth [OF p(1) _ p(2-4) case_db_queue, of 300] p show ?thesis by blast
qed

section \<open>A cursor\<close>

definition demo_cursor :: case_queue_cursor where
  "demo_cursor = \<lparr>qc_direction = QD_FORWARD, qc_offset = 50, qc_snapshot_at = 100,
     qc_position = \<lparr>qp_ordered_at = 9, qp_public_id = ''CASE-2'', qp_risk_rank = Some 0\<rparr>\<rparr>"

definition demo_context :: queue_context where
  "demo_context = \<lparr>qx_status = None, qx_category = None, qx_query = Some '' ann '', qx_view = QV_ALL, qx_sort = QS_PRIORITY\<rparr>"

definition demo_digest :: "string \<Rightarrow> string" where
  "demo_digest s = replicate 64 (if str_contains ''mine'' s then CHR ''1'' else CHR ''0'')"

definition dump_payload :: "case_cursor_payload \<Rightarrow> json" where
  "dump_payload p = (let k = cp_cursor p; q = qc_position k in JObj
     [(''version'', JInt 2), (''context_hash'', JStr (cp_context_hash p)),
      (''cursor'', JObj
        [(''direction'', JStr (case qc_direction k of QD_FORWARD \<Rightarrow> ''forward'' | QD_BACKWARD \<Rightarrow> ''backward'')),
         (''offset'', JInt (qc_offset k)), (''snapshot_at'', JStr (isoformat (qc_snapshot_at k))),
         (''position'', JObj
           [(''ordered_at'', JStr (isoformat (qp_ordered_at q))), (''public_id'', JStr (qp_public_id q)),
            (''risk_rank'', json_opt JInt (qp_risk_rank q))])])])"

definition demo_payload :: case_cursor_payload where
  "demo_payload = \<lparr>cp_context_hash = cursor_context_hash demo_digest demo_context, cp_cursor = demo_cursor\<rparr>"

definition read_payload :: "string \<Rightarrow> case_cursor_payload option" where
  "read_payload s = (if s = json_dumps (dump_payload demo_payload) then Some demo_payload else None)"

lemma demo_hash: "cursor_context_hash demo_digest demo_context = replicate 64 (CHR ''0'')"
  "cursor_context_hash demo_digest (demo_context\<lparr>qx_view := QV_MINE\<rparr>) = replicate 64 (CHR ''1'')"
  by code_simp+

theorem cursor_roundtrip_witness:
  "\<exists>t. encode_cursor demo_digest dump_payload (Some demo_cursor) demo_context = Inr (Some t)
    \<and> decode_cursor demo_digest read_payload (Some t) demo_context = Inr (Some demo_cursor)
    \<and> decode_cursor demo_digest read_payload (Some t) (demo_context\<lparr>qx_view := QV_MINE\<rparr>)
        = Inl (ValueError ''The case cursor is invalid.'')"
proof -
  obtain t where t: "encode_cursor demo_digest dump_payload (Some demo_cursor) demo_context = Inr (Some t)"
  proof -
    have "is_digest (cursor_context_hash demo_digest demo_context)"
      unfolding demo_hash by (simp add: is_digest_def list_all_iff)
    moreover have "validate_cursor_position demo_cursor (qx_sort demo_context) = Inr ()"
      by (simp add: validate_cursor_position_def demo_cursor_def demo_context_def)
    ultimately show thesis by (intro that) (simp add: encode_cursor_def)
  qed
  have "cursor_context_hash demo_digest (demo_context\<lparr>qx_view := QV_MINE\<rparr>)
      \<noteq> cursor_context_hash demo_digest demo_context"
    unfolding demo_hash by simp
  then show ?thesis
    using cursor_roundtrip [OF t, of read_payload "demo_context\<lparr>qx_view := QV_MINE\<rparr>"] t
    by (simp add: read_payload_def demo_payload_def)
qed

end
