(* ===== verification/Identity.thy ===== *)
theory Identity
  imports Actions_Base
begin

text \<open>
  Membership administration: \<open>persistence/identity_repository.py\<close> and
  \<open>services/organization_service.py\<close>. A command's clock readings, primary keys and random
  identifiers are arguments; the locale and time zone that an actor is shown with are not modelled.
  Letters of an address are folded within ASCII.
\<close>

section \<open>Reading\<close>

record invited_identity =
  ii_subject_id :: string
  ii_email :: string
  ii_name :: string
  ii_invitation_id :: "string option"
  ii_organization_id :: "string option"

definition actor_of :: "membership \<Rightarrow> organization \<Rightarrow> actor_context" where
  "actor_of m g =
     \<lparr>actor_id = mem_public_id m, actor_organization_id = org_public_id g, actor_name = mem_name m,
      actor_kind = AK_MEMBER, actor_role = Some (mem_role m),
      actor_permissions = role_permissions (mem_role m), actor_authentication_mode = PROVIDER\<rparr>"

definition active_memberships :: "string \<Rightarrow> database \<Rightarrow> (membership \<times> organization) list" where
  "active_memberships subject db =
     [(m, g). m \<leftarrow> memberships db, g \<leftarrow> organizations db,
        org_id g = mem_organization_id m \<and> mem_subject_id m = subject \<and> mem_status m = MS_ACTIVE]"

definition resolve_actor_by_subject :: "string \<Rightarrow> database \<Rightarrow> error + actor_context" where
  "resolve_actor_by_subject subject db =
     (case active_memberships subject db of
        [] \<Rightarrow> Inl (ActorMembershipNotFound
                ''The identity is not linked to an active workspace membership.'')
      | [(m, g)] \<Rightarrow> Inr (actor_of m g)
      | _ \<Rightarrow> Inl (ActorMembershipAmbiguous
                ''The identity is linked to more than one active workspace.''))"

definition list_members :: "string \<Rightarrow> database \<Rightarrow> membership list" where
  "list_members org_pid db =
     sort_key mem_name (sort_key mem_public_id
       (filter (\<lambda>m. list_ex (\<lambda>g. org_id g = mem_organization_id m \<and> org_public_id g = org_pid)
                      (organizations db)) (memberships db)))"

text \<open>An invitation is read with the public id of the member who made it.\<close>

definition list_invitations :: "string \<Rightarrow> database \<Rightarrow> (invitation \<times> string) list" where
  "list_invitations org_pid db =
     [(i, mem_public_id m). i \<leftarrow> rev (sort_key iv_created_at (invitations db)), m \<leftarrow> memberships db,
        mem_id m = iv_invited_by_id i
        \<and> list_ex (\<lambda>g. org_id g = iv_organization_id i \<and> org_public_id g = org_pid) (organizations db)]"

definition identity_member :: "uuid \<Rightarrow> string \<Rightarrow> database \<Rightarrow> error + membership" where
  "identity_member organization_id actor db =
     someE (find (\<lambda>m. mem_organization_id m = organization_id \<and> mem_status m = MS_ACTIVE
                   \<and> (mem_public_id m = actor \<or> mem_subject_id m = actor)) (memberships db))
       (ActorMembershipNotFound ''The actor is not an active organization member.'')"

fun member_status_value :: "member_status \<Rightarrow> string" where
  "member_status_value MS_ACTIVE = ''active''"
| "member_status_value MS_INVITED = ''invited''"
| "member_status_value MS_DEACTIVATED = ''deactivated''"

section \<open>Writing\<close>

record identity_ids =
  id_now :: timestamp
  id_row :: uuid
  id_code :: string
  id_row_now :: timestamp
  id_audit :: uuid
  id_audit_now :: timestamp

definition member_audit ::
    "identity_ids \<Rightarrow> uuid \<Rightarrow> string \<Rightarrow> string \<Rightarrow> string \<Rightarrow> string \<Rightarrow> string \<Rightarrow> json \<Rightarrow> string \<Rightarrow> database
     \<Rightarrow> error + database" where
  "member_audit ids organization_id event_type actor subject_type subject_id summary data correlation_id db =
     insert_audit
       \<lparr>au_id = id_audit ids, au_organization_id = Some organization_id, au_task_id = None,
        au_run_id = None, au_event_type = event_type, au_actor_type = ''member'',
        au_actor_id = Some actor, au_subject_type = Some subject_type, au_subject_id = Some subject_id,
        au_summary = Some summary, au_data = data, au_correlation_id = correlation_id,
        au_occurred_at = id_audit_now ids\<rparr> db"

definition put_invitation :: "invitation \<Rightarrow> database \<Rightarrow> database" where
  "put_invitation i db = db\<lparr>invitations := row_put iv_id i (invitations db)\<rparr>"

definition put_member :: "membership \<Rightarrow> database \<Rightarrow> database" where
  "put_member m db = db\<lparr>memberships := row_put mem_id m (memberships db)\<rparr>"

definition invitation_days :: int where
  "invitation_days = 7"

definition new_invitation :: "identity_ids \<Rightarrow> uuid \<Rightarrow> string \<Rightarrow> member_role \<Rightarrow> membership \<Rightarrow> invitation" where
  "new_invitation ids organization_id email role inviter =
     \<lparr>iv_id = id_row ids, iv_public_id = ''INV-'' @ id_code ids, iv_organization_id = organization_id,
      iv_email = email, iv_role = role, iv_status = INV_PENDING, iv_version = 1,
      iv_invited_by_id = mem_id inviter, iv_provider_invitation_id = None,
      iv_expires_at = id_now ids + hours (24 * invitation_days), iv_accepted_at = None,
      iv_created_at = id_row_now ids, iv_updated_at = id_row_now ids\<rparr>"

definition create_invitation ::
    "identity_ids \<Rightarrow> string \<Rightarrow> string \<Rightarrow> string \<Rightarrow> member_role \<Rightarrow> string \<Rightarrow> database
     \<Rightarrow> error + (invitation \<times> string) \<times> database" where
  "create_invitation ids org_pid actor email role correlation_id db =
     bindE (someE (organization_of org_pid db)
              (ActorMembershipNotFound ''The actor organization was not found.'')) (\<lambda>g.
     bindE (identity_member (org_id g) actor db) (\<lambda>inviter.
     let address = str_lower email in
     bindE (requireE (\<not> list_ex (\<lambda>m. mem_organization_id m = org_id g \<and> mem_email m = address)
                         (memberships db))
              (InvitationConflict ''This email address already belongs to a workspace member.'')) (\<lambda>_.
     bindE (requireE (\<not> list_ex (\<lambda>i. iv_organization_id i = org_id g \<and> iv_email i = address
                                \<and> iv_status i = INV_PENDING) (invitations db))
              (InvitationConflict ''A pending invitation already exists for this email address.'')) (\<lambda>_.
     let i = new_invitation ids (org_id g) address role inviter in
     bindE (insert_invitation i db) (\<lambda>db1.
     bindE (member_audit ids (org_id g) ''membership.invited'' actor ''invitation'' (iv_public_id i)
              ''Member invitation created.'' (JObj [(''role'', JStr (member_role_value role))])
              correlation_id db1) (\<lambda>db2.
     Inr ((i, mem_public_id inviter), db2)))))))"

text \<open>The identifier of the provider is unique over all invitations.\<close>

definition attach_invitation_delivery ::
    "string \<Rightarrow> string \<Rightarrow> string \<Rightarrow> database \<Rightarrow> error + (invitation \<times> string) \<times> database" where
  "attach_invitation_delivery org_pid invitation_pid provider_id db =
     bindE (someE (find (\<lambda>(i, inviter). iv_public_id i = invitation_pid \<and> iv_status i = INV_PENDING)
                     (list_invitations org_pid db))
              (InvitationNotFound ''The invitation was not found.'')) (\<lambda>(i, inviter).
     let i' = i\<lparr>iv_provider_invitation_id := Some provider_id\<rparr> in
     bindE (requireE (\<not> list_ex (\<lambda>j. iv_id j \<noteq> iv_id i \<and> iv_provider_invitation_id j = Some provider_id)
                         (invitations db)) (IntegrityError ''invitations'')) (\<lambda>_.
     Inr ((i', inviter), put_invitation i' db)))"

definition accepted_actor :: "invited_identity \<Rightarrow> database \<Rightarrow> error + actor_context option" where
  "accepted_actor who db =
     (case resolve_actor_by_subject (ii_subject_id who) db of
        Inl (ActorMembershipNotFound _) \<Rightarrow> Inr None
      | Inl e \<Rightarrow> Inl e
      | Inr a \<Rightarrow>
          (case ii_organization_id who of
             None \<Rightarrow> Inr (Some a)
           | Some pid \<Rightarrow>
               if actor_organization_id a \<noteq> pid
               then Inl (ActorMembershipNotFound ''The active workspace does not match the invitation.'')
               else Inr (Some a)))"

definition pending_invitations ::
    "string \<Rightarrow> string option \<Rightarrow> string option \<Rightarrow> database \<Rightarrow> (invitation \<times> organization) list" where
  "pending_invitations email invitation_pid org_pid db =
     [(i, g). i \<leftarrow> invitations db, g \<leftarrow> organizations db,
        org_id g = iv_organization_id i \<and> iv_email i = str_lower email \<and> iv_status i = INV_PENDING
        \<and> (case invitation_pid of None \<Rightarrow> True | Some pid \<Rightarrow> iv_public_id i = pid)
        \<and> (case org_pid of None \<Rightarrow> True | Some pid \<Rightarrow> org_public_id g = pid)]"

text \<open>The two lookups: with the hints of the identity and, if they do not single out an invitation,
  without them.\<close>

definition matching_invitations :: "invited_identity \<Rightarrow> database \<Rightarrow> (invitation \<times> organization) list" where
  "matching_invitations who db =
     (let hinted = pending_invitations (ii_email who) (ii_invitation_id who) (ii_organization_id who) db
      in if length hinted \<noteq> 1 \<and> (ii_invitation_id who \<noteq> None \<or> ii_organization_id who \<noteq> None)
         then pending_invitations (ii_email who) None None db else hinted)"

definition invited_member :: "identity_ids \<Rightarrow> invited_identity \<Rightarrow> invitation \<Rightarrow> organization \<Rightarrow> membership" where
  "invited_member ids who i g =
     \<lparr>mem_id = id_row ids, mem_public_id = ''USR-'' @ id_code ids, mem_organization_id = org_id g,
      mem_subject_id = ii_subject_id who, mem_name = ii_name who, mem_email = str_lower (ii_email who),
      mem_role = iv_role i, mem_status = MS_ACTIVE, mem_version = 1,
      mem_last_active_at = Some (id_now ids), mem_created_at = id_row_now ids,
      mem_updated_at = id_row_now ids\<rparr>"

definition accepted_invitation :: "timestamp \<Rightarrow> invitation \<Rightarrow> invitation" where
  "accepted_invitation now i =
     i\<lparr>iv_status := INV_ACCEPTED, iv_accepted_at := Some now, iv_version := iv_version i + 1,
       iv_updated_at := now\<rparr>"

definition accept_invitation ::
    "identity_ids \<Rightarrow> invited_identity \<Rightarrow> string \<Rightarrow> database \<Rightarrow> error + actor_context \<times> database" where
  "accept_invitation ids who correlation_id db =
     bindE (accepted_actor who db) (\<lambda>existing.
     case existing of Some a \<Rightarrow> Inr (a, db) | None \<Rightarrow>
     (case matching_invitations who db of
        [(i, g)] \<Rightarrow>
          bindE (requireE (id_now ids < iv_expires_at i)
                   (ActorMembershipNotFound ''The workspace invitation has expired.'')) (\<lambda>_.
          bindE (requireE (\<not> list_ex (\<lambda>m. mem_organization_id m = org_id g
                              \<and> (mem_subject_id m = ii_subject_id who \<or> mem_email m = str_lower (ii_email who)))
                              (memberships db))
                   (ActorMembershipNotFound
                      ''The account identity conflicts with an existing workspace member.'')) (\<lambda>_.
          let m = invited_member ids who i g; i' = accepted_invitation (id_now ids) i in
          bindE (insert_membership m (put_invitation i' db)) (\<lambda>db1.
          bindE (member_audit (ids\<lparr>id_audit_now := id_now ids\<rparr>) (org_id g) ''membership.invitation_accepted''
                   (mem_public_id m) ''invitation'' (iv_public_id i') ''Member invitation accepted.''
                   (JObj [(''role'', JStr (member_role_value (iv_role i))), (''member_id'', JStr (mem_public_id m))])
                   correlation_id db1) (\<lambda>db2.
          bindE (resolve_actor_by_subject (ii_subject_id who) db2) (\<lambda>a. Inr (a, db2))))))
      | _ \<Rightarrow>
          bindE (accepted_actor who db) (\<lambda>again.
          case again of Some a \<Rightarrow> Inr (a, db)
          | None \<Rightarrow> Inl (ActorMembershipNotFound
              ''The verified account does not match one pending workspace invitation.''))))"

definition other_administrators :: "membership \<Rightarrow> database \<Rightarrow> membership list" where
  "other_administrators target db =
     filter (\<lambda>m. mem_organization_id m = mem_organization_id target \<and> mem_role m = ADMINISTRATOR
               \<and> mem_status m = MS_ACTIVE \<and> mem_id m \<noteq> mem_id target) (memberships db)"

definition update_member ::
    "identity_ids \<Rightarrow> string \<Rightarrow> string \<Rightarrow> string \<Rightarrow> int \<Rightarrow> member_role option \<Rightarrow> member_status option
     \<Rightarrow> string \<Rightarrow> database \<Rightarrow> error + membership \<times> database" where
  "update_member ids org_pid actor member_pid expected role status correlation_id db =
     bindE (someE (organization_of org_pid db)
              (ActorMembershipNotFound ''The actor organization was not found.'')) (\<lambda>g.
     bindE (identity_member (org_id g) actor db) (\<lambda>self.
     bindE (someE (find (\<lambda>m. mem_organization_id m = org_id g \<and> mem_public_id m = member_pid) (memberships db))
              (MemberNotFound ''The member was not found.'')) (\<lambda>target.
     bindE (requireE (mem_version target = expected)
              (MemberVersionConflict expected (mem_version target))) (\<lambda>_.
     let next_role = (case role of None \<Rightarrow> mem_role target | Some r \<Rightarrow> r);
         next_status = (case status of None \<Rightarrow> mem_status target | Some s \<Rightarrow> s);
         same = (next_role = mem_role target \<and> next_status = mem_status target)
     in
     bindE (requireE (mem_id target \<noteq> mem_id self \<or> same)
              (MemberConflict ''You cannot change your own role or deactivate your own membership.'')) (\<lambda>_.
     bindE (requireE (mem_status target \<noteq> MS_INVITED)
              (MemberConflict ''Invited people must accept or have their invitation revoked first.'')) (\<lambda>_.
     bindE (requireE (next_status \<noteq> MS_INVITED)
              (MemberConflict ''An existing membership cannot be changed to invited.'')) (\<lambda>_.
     bindE (requireE (\<not> (mem_role target = ADMINISTRATOR \<and> mem_status target = MS_ACTIVE
                        \<and> (next_role \<noteq> ADMINISTRATOR \<or> next_status \<noteq> MS_ACTIVE)
                        \<and> other_administrators target db = []))
              (MemberConflict ''At least one active administrator must remain in the organization.'')) (\<lambda>_.
     if same then Inr (target, db)
     else
     let m = target\<lparr>mem_role := next_role, mem_status := next_status,
                    mem_version := mem_version target + 1, mem_updated_at := id_now ids\<rparr> in
     bindE (member_audit ids (org_id g) ''membership.changed'' (mem_public_id self) ''member'' (mem_public_id m)
              ''Member authority changed.''
              (JObj [(''previous_role'', JStr (member_role_value (mem_role target))),
                     (''role'', JStr (member_role_value next_role)),
                     (''previous_status'', JStr (member_status_value (mem_status target))),
                     (''status'', JStr (member_status_value next_status)),
                     (''version'', JInt (mem_version m))])
              correlation_id (put_member m db)) (\<lambda>db1.
     Inr (m, db1))))))))))"

definition revoke_invitation ::
    "identity_ids \<Rightarrow> string \<Rightarrow> string \<Rightarrow> string \<Rightarrow> int \<Rightarrow> string \<Rightarrow> database
     \<Rightarrow> error + (invitation \<times> string) \<times> database" where
  "revoke_invitation ids org_pid actor invitation_pid expected correlation_id db =
     bindE (someE (organization_of org_pid db)
              (ActorMembershipNotFound ''The actor organization was not found.'')) (\<lambda>g.
     bindE (identity_member (org_id g) actor db) (\<lambda>self.
     bindE (someE (find (\<lambda>i. iv_organization_id i = org_id g \<and> iv_public_id i = invitation_pid) (invitations db))
              (InvitationNotFound ''The invitation was not found.'')) (\<lambda>i.
     bindE (requireE (iv_version i = expected) (InvitationVersionConflict expected (iv_version i))) (\<lambda>_.
     bindE (requireE (iv_status i = INV_PENDING)
              (InvitationConflict ''Only a pending invitation can be revoked.'')) (\<lambda>_.
     let i' = i\<lparr>iv_status := INV_REVOKED, iv_version := iv_version i + 1, iv_updated_at := id_now ids\<rparr> in
     bindE (member_audit ids (org_id g) ''membership.invitation_revoked'' (mem_public_id self) ''invitation''
              (iv_public_id i') ''Member invitation revoked.'' (JObj [(''version'', JInt (iv_version i'))])
              correlation_id (put_invitation i' db)) (\<lambda>db1.
     bindE (someE (find (\<lambda>m. mem_id m = iv_invited_by_id i') (memberships db1))
              (InvitationConflict ''The original invitation owner is unavailable.'')) (\<lambda>m.
     Inr ((i', mem_public_id m), db1))))))))"

section \<open>The service\<close>

definition service_get_current :: "actor_context \<Rightarrow> database \<Rightarrow> error + organization" where
  "service_get_current actor db =
     bindE (require_permission actor ORGANIZATION_READ) (\<lambda>_.
     someE (organization_of (actor_organization_id actor) db)
       (OrganizationNotFound ''The actor organization was not found.''))"

definition service_list_members :: "actor_context \<Rightarrow> database \<Rightarrow> error + membership list" where
  "service_list_members actor db =
     bindE (require_permission actor MEMBER_READ) (\<lambda>_.
     bindE (service_get_current actor db) (\<lambda>_.
     Inr (list_members (actor_organization_id actor) db)))"

definition service_list_invitations :: "actor_context \<Rightarrow> database \<Rightarrow> error + (invitation \<times> string) list" where
  "service_list_invitations actor db =
     bindE (require_permission actor MEMBER_INVITE) (\<lambda>_.
     bindE (service_get_current actor db) (\<lambda>_.
     Inr (list_invitations (actor_organization_id actor) db)))"

definition service_invite_member ::
    "identity_ids \<Rightarrow> actor_context \<Rightarrow> string \<Rightarrow> member_role \<Rightarrow> string \<Rightarrow> database
     \<Rightarrow> error + (invitation \<times> string) \<times> database" where
  "service_invite_member ids actor email role correlation_id db =
     bindE (require_permission actor MEMBER_INVITE) (\<lambda>_.
     bindE (service_get_current actor db) (\<lambda>_.
     create_invitation ids (actor_organization_id actor) (actor_id actor) email role correlation_id db))"

definition service_update_member ::
    "identity_ids \<Rightarrow> actor_context \<Rightarrow> string \<Rightarrow> int \<Rightarrow> member_role option \<Rightarrow> member_status option \<Rightarrow> string
     \<Rightarrow> database \<Rightarrow> error + membership \<times> database" where
  "service_update_member ids actor member_id expected role status correlation_id db =
     bindE (require_permission actor MEMBER_MANAGE) (\<lambda>_.
     bindE (service_get_current actor db) (\<lambda>_.
     update_member ids (actor_organization_id actor) (actor_id actor) member_id expected role status
       correlation_id db))"

definition service_revoke_invitation ::
    "identity_ids \<Rightarrow> actor_context \<Rightarrow> string \<Rightarrow> int \<Rightarrow> string \<Rightarrow> database
     \<Rightarrow> error + (invitation \<times> string) \<times> database" where
  "service_revoke_invitation ids actor invitation_id expected correlation_id db =
     bindE (require_permission actor MEMBER_MANAGE) (\<lambda>_.
     bindE (service_get_current actor db) (\<lambda>_.
     revoke_invitation ids (actor_organization_id actor) (actor_id actor) invitation_id expected
       correlation_id db))"

end
