(* ===== verification/Identity_Props.thy ===== *)
theory Identity_Props
  imports Identity
begin

text \<open>
  What membership administration keeps: an organization that has an active administrator has one
  after every run of the membership operations, and a membership is granted by a pending
  invitation only, which it uses up.
\<close>

section \<open>The system of membership operations\<close>

inductive identity_step :: "database \<Rightarrow> database \<Rightarrow> bool" where
  invite: "service_invite_member ids actor email role correlation_id db = Inr (r, db')
    \<Longrightarrow> identity_step db db'"
| deliver: "attach_invitation_delivery org_pid invitation_pid provider_id db = Inr (r, db')
    \<Longrightarrow> identity_step db db'"
| accept: "accept_invitation ids who correlation_id db = Inr (r, db') \<Longrightarrow> identity_step db db'"
| change: "service_update_member ids actor member expected role' status correlation_id db = Inr (r, db')
    \<Longrightarrow> identity_step db db'"
| revoke: "service_revoke_invitation ids actor invitation_id expected correlation_id db = Inr (r, db')
    \<Longrightarrow> identity_step db db'"
| other: "memberships db' = memberships db \<Longrightarrow> invitations db' = invitations db \<Longrightarrow> identity_step db db'"

definition active_administrator :: "uuid \<Rightarrow> membership \<Rightarrow> bool" where
  "active_administrator org m \<longleftrightarrow>
     mem_organization_id m = org \<and> mem_role m = ADMINISTRATOR \<and> mem_status m = MS_ACTIVE"

definition administered :: "uuid \<Rightarrow> database \<Rightarrow> bool" where
  "administered org db \<longleftrightarrow>
     unique_keys mem_id (memberships db) \<and> (\<exists>m\<in>set (memberships db). active_administrator org m)"

section \<open>What the operations write\<close>

lemma insert_audit_rows:
  assumes "insert_audit r db = Inr db'"
  shows "memberships db' = memberships db" "invitations db' = invitations db"
    "organizations db' = organizations db"
  using assms by (auto simp: insert_audit_def run_simps)

lemma member_audit_rows:
  assumes "member_audit ids org e a st si s d c db = Inr db'"
  shows "memberships db' = memberships db" "invitations db' = invitations db"
    "organizations db' = organizations db"
  using insert_audit_rows assms unfolding member_audit_def by metis+

lemma put_invitation_rows [simp]:
  "memberships (put_invitation i db) = memberships db" "organizations (put_invitation i db) = organizations db"
  "invitations (put_invitation i db) = row_put iv_id i (invitations db)"
  by (simp_all add: put_invitation_def)

lemma create_invitation_members:
  assumes "create_invitation ids org_pid actor email role c db = Inr (r, db')"
  shows "memberships db' = memberships db"
  using assms unfolding create_invitation_def Let_def
  by (auto simp: run_simps insert_invitation_def dest!: member_audit_rows(1))

lemma revoke_invitation_members:
  assumes "revoke_invitation ids org_pid actor i v c db = Inr (r, db')"
  shows "memberships db' = memberships db"
  using assms unfolding revoke_invitation_def Let_def
  by (auto simp: run_simps dest!: member_audit_rows(1))

lemma attach_invitation_members:
  assumes "attach_invitation_delivery org_pid i p db = Inr (r, db')"
  shows "memberships db' = memberships db"
  using assms unfolding attach_invitation_delivery_def Let_def
  by (auto simp: run_simps split: prod.splits)

lemma accepted_actor_None:
  assumes "accepted_actor who db = Inr None"
  shows "active_memberships (ii_subject_id who) db = []"
  using assms
  by (auto simp: accepted_actor_def resolve_actor_by_subject_def split: list.splits option.splits if_splits)

lemma accepted_actor_Some:
  "accepted_actor who db = Inr (Some a) \<Longrightarrow> resolve_actor_by_subject (ii_subject_id who) db = Inr a"
  by (auto simp: accepted_actor_def split: sum.splits error.splits option.splits if_splits)

lemma resolve_single:
  assumes "resolve_actor_by_subject s db = Inr a"
  shows "\<exists>m g. active_memberships s db = [(m, g)] \<and> a = actor_of m g"
  using assms by (auto simp: resolve_actor_by_subject_def split: list.splits)

lemma pending_invitations_in:
  assumes "(i, g) \<in> set (pending_invitations email p q db)"
  shows "i \<in> set (invitations db)" "g \<in> set (organizations db)" "org_id g = iv_organization_id i"
    "iv_email i = str_lower email" "iv_status i = INV_PENDING"
  using assms by (auto simp: pending_invitations_def)

lemma matching_invitations_in:
  assumes "matching_invitations who db = [(i, g)]"
  shows "i \<in> set (invitations db)" "g \<in> set (organizations db)" "org_id g = iv_organization_id i"
    "iv_email i = str_lower (ii_email who)" "iv_status i = INV_PENDING"
proof -
  have "matching_invitations who db = pending_invitations (ii_email who) None None db
    \<or> matching_invitations who db
        = pending_invitations (ii_email who) (ii_invitation_id who) (ii_organization_id who) db"
    by (simp add: matching_invitations_def Let_def)
  then obtain p q where "(i, g) \<in> set (pending_invitations (ii_email who) p q db)"
    using assms by (metis list.set_intros(1))
  from pending_invitations_in [OF this] show "i \<in> set (invitations db)" "g \<in> set (organizations db)" "org_id g = iv_organization_id i"
    "iv_email i = str_lower (ii_email who)" "iv_status i = INV_PENDING"
    by simp_all
qed

text \<open>The two ways an acceptance succeeds.\<close>

lemma accept_invitation_cases:
  assumes "accept_invitation ids who c db = Inr (a, db')"
  shows "(db' = db \<and> resolve_actor_by_subject (ii_subject_id who) db = Inr a)
    \<or> (\<exists>i g. matching_invitations who db = [(i, g)] \<and> id_now ids < iv_expires_at i
         \<and> accepted_actor who db = Inr None
         \<and> row_get mem_id (id_row ids) (memberships db) = None
         \<and> memberships db' = memberships db @ [invited_member ids who i g]
         \<and> invitations db' = row_put iv_id (accepted_invitation (id_now ids) i) (invitations db)
         \<and> organizations db' = organizations db
         \<and> resolve_actor_by_subject (ii_subject_id who) db' = Inr a)"
proof (cases "accepted_actor who db")
  case (Inl e)
  then show ?thesis using assms by (simp add: accept_invitation_def)
next
  case (Inr existing)
  show ?thesis
  proof (cases existing)
    case (Some b)
    then show ?thesis using assms Inr accepted_actor_Some by (auto simp: accept_invitation_def)
  next
    case None
    with Inr assms obtain i g where ig: "matching_invitations who db = [(i, g)]"
      by (auto simp: accept_invitation_def split: list.splits)
    from assms ig Inr None obtain db1 where
      now: "id_now ids < iv_expires_at i"
      and ins: "insert_membership (invited_member ids who i g)
                  (put_invitation (accepted_invitation (id_now ids) i) db) = Inr db1"
      and rows: "memberships db' = memberships db1" "invitations db' = invitations db1"
        "organizations db' = organizations db1"
      and res: "resolve_actor_by_subject (ii_subject_id who) db' = Inr a"
      by (auto simp: accept_invitation_def Let_def run_simps dest: member_audit_rows)
    from ins rows have "memberships db' = memberships db @ [invited_member ids who i g]
        \<and> row_get mem_id (id_row ids) (memberships db) = None
        \<and> invitations db' = row_put iv_id (accepted_invitation (id_now ids) i) (invitations db)
        \<and> organizations db' = organizations db"
      by (auto simp: insert_membership_def run_simps invited_member_def)
    with ig now res Inr None show ?thesis by blast
  qed
qed

section \<open>An administrator remains\<close>

lemma update_member_writes:
  assumes "update_member ids org_pid actor pid v role status c db = Inr (m, db')"
  shows "memberships db' = memberships db \<or> (\<exists>target. target \<in> set (memberships db)
    \<and> memberships db' = row_put mem_id m (memberships db) \<and> mem_id m = mem_id target
    \<and> mem_organization_id m = mem_organization_id target
    \<and> (mem_role target = ADMINISTRATOR \<and> mem_status target = MS_ACTIVE
        \<and> (mem_role m \<noteq> ADMINISTRATOR \<or> mem_status m \<noteq> MS_ACTIVE)
        \<longrightarrow> other_administrators target db \<noteq> []))"
  using assms unfolding update_member_def Let_def
  by (auto simp: run_simps put_member_def dest!: member_audit_rows(1) split: if_splits)
     (auto simp: find_Some_iff)

lemma put_member_administered:
  assumes inv: "administered org db" and t: "target \<in> set (memberships db)"
    and put: "memberships db' = row_put mem_id m (memberships db)"
    and same: "mem_id m = mem_id target" "mem_organization_id m = mem_organization_id target"
    and other: "mem_role target = ADMINISTRATOR \<and> mem_status target = MS_ACTIVE
      \<and> (mem_role m \<noteq> ADMINISTRATOR \<or> mem_status m \<noteq> MS_ACTIVE) \<longrightarrow> other_administrators target db \<noteq> []"
  shows "administered org db'"
proof -
  obtain a where a: "a \<in> set (memberships db)" "active_administrator org a"
    and u: "unique_keys mem_id (memberships db)"
    using inv by (auto simp: administered_def)
  have rows: "set (memberships db') = insert m {x \<in> set (memberships db). mem_id x \<noteq> mem_id m}"
    using put t same by (auto simp: set_row_put image_iff)
  have "\<exists>x\<in>set (memberships db'). active_administrator org x"
  proof (cases "mem_id a = mem_id m \<and> \<not> active_administrator org m")
    case False
    then show ?thesis using a rows by auto
  next
    case True
    then have "a = target"
      using row_get_unique [OF u a(1)] row_get_unique [OF u t] same(1) by (metis option.inject)
    then have "other_administrators target db \<noteq> []"
      using True a(2) other same by (auto simp: active_administrator_def)
    then obtain o' where "o' \<in> set (other_administrators target db)"
      using list.set_sel(1) by blast
    then show ?thesis
      using rows a(2) same \<open>a = target\<close> by (auto simp: other_administrators_def active_administrator_def)
  qed
  then show ?thesis using u put by (simp add: administered_def)
qed

lemma accept_administered:
  assumes "accept_invitation ids who c db = Inr (a, db')" and "administered org db"
  shows "administered org db'"
  using accept_invitation_cases [OF assms(1)] assms(2)
  by (auto simp: administered_def unique_keys_append invited_member_def)

lemma same_members_administered:
  "memberships db' = memberships db \<Longrightarrow> administered org db \<Longrightarrow> administered org db'"
  by (simp add: administered_def)

interpretation identity_sys: step_invariant identity_step "administered org" for org
proof
  fix s t :: database
  assume "identity_step s t" and inv: "administered org s"
  then show "administered org t"
  proof cases
    case (invite ids actor email role correlation_id r)
    then have "memberships t = memberships s" using create_invitation_members
      by (fastforce simp: service_invite_member_def run_simps)
    then show ?thesis using inv same_members_administered by blast
  next
    case (deliver org_pid invitation_pid provider_id r)
    then show ?thesis using inv attach_invitation_members same_members_administered by blast
  next
    case (accept ids who correlation_id r)
    then show ?thesis using inv accept_administered by blast
  next
    case (change ids actor member expected role' status correlation_id r)
    then have "update_member ids (actor_organization_id actor) (actor_id actor) member expected role' status
        correlation_id s = Inr (r, t)"
      by (auto simp: service_update_member_def run_simps)
    from update_member_writes [OF this] inv show ?thesis
      using same_members_administered put_member_administered by blast
  next
    case (revoke ids actor invitation_id expected correlation_id r)
    then have "memberships t = memberships s" using revoke_invitation_members
      by (fastforce simp: service_revoke_invitation_def run_simps)
    then show ?thesis using inv same_members_administered by blast
  next
    case other
    then show ?thesis using inv same_members_administered by blast
  qed
qed

section \<open>Properties\<close>

text \<open>C13. Along every run of the membership operations (inviting, delivering, accepting and revoking
  invitations, changing roles and statuses) an organization that starts with an active
  administrator has an active administrator.\<close>

theorem administrator_remains:
  assumes "identity_step\<^sup>*\<^sup>* db db'" and "unique_keys mem_id (memberships db)"
    and "list_ex (active_administrator org) (memberships db)"
  shows "list_ex (active_administrator org) (memberships db')"
  using identity_sys.along_run [OF assms(1), of org] assms(2,3) by (auto simp: administered_def list_ex_iff)

text \<open>C14. When accepting an invitation changes the database it grants exactly one membership: by a pending,
  unexpired invitation to the address of the identity, in its organization, with its role and the
  subject of the identity; the invitation is used up, and the actor returned is that of the new
  membership.\<close>

theorem membership_by_invitation:
  assumes "accept_invitation ids who correlation_id db = Inr (a, db')" and "db' \<noteq> db"
  shows "\<exists>i m. i \<in> set (invitations db) \<and> iv_status i = INV_PENDING \<and> id_now ids < iv_expires_at i
    \<and> iv_email i = str_lower (ii_email who)
    \<and> memberships db' = memberships db @ [m] \<and> mem_organization_id m = iv_organization_id i
    \<and> mem_role m = iv_role i \<and> mem_email m = iv_email i \<and> mem_subject_id m = ii_subject_id who
    \<and> (\<forall>j\<in>set (invitations db'). iv_id j = iv_id i \<longrightarrow> iv_status j = INV_ACCEPTED)
    \<and> actor_id a = mem_public_id m \<and> actor_permissions a = role_permissions (iv_role i)"
proof -
  from accept_invitation_cases [OF assms(1)] assms(2) obtain i g where
    ig: "matching_invitations who db = [(i, g)]" and now: "id_now ids < iv_expires_at i"
    and none: "accepted_actor who db = Inr None"
    and mem: "memberships db' = memberships db @ [invited_member ids who i g]"
    and inv: "invitations db' = row_put iv_id (accepted_invitation (id_now ids) i) (invitations db)"
    and org: "organizations db' = organizations db"
    and res: "resolve_actor_by_subject (ii_subject_id who) db' = Inr a" by blast
  note i = matching_invitations_in [OF ig]
  obtain m' g' where single: "active_memberships (ii_subject_id who) db' = [(m', g')]"
    and a: "a = actor_of m' g'" using resolve_single [OF res] by blast
  have "active_memberships (ii_subject_id who) db' = active_memberships (ii_subject_id who)
      (db'\<lparr>memberships := [invited_member ids who i g]\<rparr>)"
    using accepted_actor_None [OF none] mem org by (simp add: active_memberships_def)
  with single have "(m', g') \<in> set (active_memberships (ii_subject_id who)
      (db'\<lparr>memberships := [invited_member ids who i g]\<rparr>))" by simp
  then have m': "m' = invited_member ids who i g" by (auto simp: active_memberships_def)
  show ?thesis
    by (rule exI [of _ i], rule exI [of _ m'])
       (use i now mem inv a m' in \<open>auto simp: invited_member_def actor_of_def accepted_invitation_def set_row_put\<close>)
qed

end
