(* ===== verification/Identity_Witness.thy ===== *)
theory Identity_Witness
  imports Identity_Props Demo
begin

text \<open>
  The properties of membership administration at concrete commands: an administrator deactivates the
  other one, and an invited specialist accepts the invitation.
\<close>

definition admin_member :: "uuid \<Rightarrow> string \<Rightarrow> membership" where
  "admin_member i pid = demo_member\<lparr>mem_id := i, mem_public_id := pid, mem_subject_id := pid @ ''-sub'',
     mem_email := pid @ ''@x'', mem_role := ADMINISTRATOR\<rparr>"

definition idemo_invitation :: invitation where
  "idemo_invitation =
     \<lparr>iv_id = 50, iv_public_id = ''INV-1'', iv_organization_id = 1, iv_email = ''new@x'', iv_role = SPECIALIST,
      iv_status = INV_PENDING, iv_version = 1, iv_invited_by_id = 2, iv_provider_invitation_id = None,
      iv_expires_at = 1000, iv_accepted_at = None, iv_created_at = 0, iv_updated_at = 0\<rparr>"

definition idemo_db :: database where
  "idemo_db = demo_db\<lparr>memberships := [admin_member 2 ''A'', admin_member 3 ''B''], invitations := [idemo_invitation]\<rparr>"

definition idemo_ids :: identity_ids where
  "idemo_ids = \<lparr>id_now = 10, id_row = 60, id_code = ''X'', id_row_now = 10, id_audit = 61, id_audit_now = 10\<rparr>"

definition idemo_actor :: actor_context where
  "idemo_actor = actor_of (admin_member 2 ''A'') demo_organization"

definition idemo_who :: invited_identity where
  "idemo_who = \<lparr>ii_subject_id = ''new-sub'', ii_email = ''New@x'', ii_name = ''New'', ii_invitation_id = None,
     ii_organization_id = None\<rparr>"

definition idemo_update :: "error + membership \<times> database" where
  "idemo_update = service_update_member idemo_ids idemo_actor ''B'' 1 None (Some MS_DEACTIVATED) ''c'' idemo_db"

definition idemo_accept :: "error + actor_context \<times> database" where
  "idemo_accept = accept_invitation idemo_ids idemo_who ''c'' idemo_db"

lemma Inr_parts: "\<not> isl x \<Longrightarrow> x = Inr (fst (projr x), snd (projr x))"
  by (cases x) simp_all

lemma idemo_update_ok: "\<not> isl idemo_update"
  by code_simp

lemma idemo_accept_ok: "\<not> isl idemo_accept"
  by code_simp

lemma idemo_grows: "length (memberships (snd (projr idemo_accept))) = 3" "length (memberships idemo_db) = 2"
  by code_simp+

lemma idemo_start: "unique_keys mem_id (memberships idemo_db)" "list_ex (active_administrator 1) (memberships idemo_db)"
  "invitations idemo_db = [idemo_invitation]" "iv_role idemo_invitation = SPECIALIST"
  by code_simp+

lemma idemo_step: "identity_step\<^sup>*\<^sup>* idemo_db (snd (projr idemo_update))"
  using identity_step.change [OF Inr_parts [OF idemo_update_ok, unfolded idemo_update_def]]
  by (simp add: idemo_update_def)

section \<open>Witnesses\<close>

theorem administrator_remains_witness:
  "list_ex (active_administrator 1) (memberships (snd (projr idemo_update)))"
  using administrator_remains [OF idemo_step idemo_start(1,2)] .

theorem membership_by_invitation_witness:
  "\<exists>m. memberships (snd (projr idemo_accept)) = memberships idemo_db @ [m] \<and> mem_role m = SPECIALIST"
proof -
  have "snd (projr idemo_accept) \<noteq> idemo_db" using idemo_grows by fastforce
  from membership_by_invitation [OF Inr_parts [OF idemo_accept_ok, unfolded idemo_accept_def]] this
  show ?thesis using idemo_start(3,4) by (auto simp: idemo_accept_def)
qed

end
