(* ===== verification/Policy_Parser.thy ===== *)
theory Policy_Parser
  imports Store
begin

text \<open>
  The records of policy authoring in \<open>domain/policies.py\<close> and the parser of policy sources,
  \<open>retrieval/policy_parser.py\<close>. A constructor whose constraint fails raises \<open>ValueError\<close> with the
  name of the model.
\<close>

section \<open>Records\<close>

record policy_applicability =
  pap_decision_scope :: string
  pap_case_categories :: "string list"
  pap_products :: "string list"
  pap_regions :: "string list"
  pap_channels :: "string list"
  pap_customer_tiers :: "string list"

record policy_draft_content =
  dc_source_text :: string
  dc_applicability :: policy_applicability
  dc_effective_from :: "timestamp option"
  dc_effective_to :: "timestamp option"

definition valid_draft_content :: "policy_draft_content \<Rightarrow> error + policy_draft_content" where
  "valid_draft_content d =
     bindE (requireE (20 \<le> int (length (dc_source_text d)) \<and> int (length (dc_source_text d)) \<le> 200000)
              (ValueError ''PolicyDraftContent'')) (\<lambda>_.
     bindE (requireE (case (dc_effective_from d, dc_effective_to d) of
                        (Some a, Some b) \<Rightarrow> a < b | _ \<Rightarrow> True)
              (ValueError ''effective_to must be after effective_from'')) (\<lambda>_.
     Inr d))"

record parsed_clause =
  pcl_heading :: string
  pcl_text :: string
  pcl_applies_when :: string

record indexed_clause =
  icl_clause :: parsed_clause
  icl_embedding_version :: string
  icl_embedding :: "decimal list"

section \<open>The parser\<close>

definition newline :: char where
  "newline = CHR 0x0A"

text \<open>\<open>source_text.replace("\r\n", "\n").replace("\r", "\n")\<close>\<close>

fun normalize_newlines :: "string \<Rightarrow> string" where
  "normalize_newlines [] = []"
| "normalize_newlines [c] = [if c = CHR 0x0D then newline else c]"
| "normalize_newlines (c # d # s) =
     (if c = CHR 0x0D then (if d = newline then newline # normalize_newlines s
                            else newline # normalize_newlines (d # s))
      else c # normalize_newlines (d # s))"

fun split_lines :: "string \<Rightarrow> string list" where
  "split_lines [] = [[]]"
| "split_lines (c # s) =
     (if c = newline then [] # split_lines s
      else (case split_lines s of [] \<Rightarrow> [[c]] | l # ls \<Rightarrow> (c # l) # ls))"

definition applicability_label :: "policy_applicability \<Rightarrow> string" where
  "applicability_label a =
     ''Scope '' @ pap_decision_scope a @ ''; categories '' @ str_join '', '' (pap_case_categories a)
     @ ''; products '' @ str_join '', '' (pap_products a) @ ''; regions '' @ str_join '', '' (pap_regions a)
     @ ''; channels '' @ str_join '', '' (pap_channels a)
     @ ''; customer tiers '' @ str_join '', '' (pap_customer_tiers a) @ ''.''"

record parser_state =
  ps_clauses :: "parsed_clause list"
  ps_heading :: string
  ps_body :: "string list"

definition flush_clause :: "string \<Rightarrow> parser_state \<Rightarrow> error + parser_state" where
  "flush_clause label s =
     (let text = str_strip (str_join [newline] (ps_body s)) in
      if text = [] then Inr (s\<lparr>ps_body := []\<rparr>)
      else if length text < 20
      then Inl (PolicySourceParseError (''Clause '' @ [CHR 0x27] @ ps_heading s @ [CHR 0x27]
                  @ '' is too short to use as evidence.''))
      else Inr (s\<lparr>ps_body := [],
                  ps_clauses := ps_clauses s
                    @ [\<lparr>pcl_heading = ps_heading s, pcl_text = text, pcl_applies_when = label\<rparr>]\<rparr>))"

definition parse_line :: "string \<Rightarrow> string \<Rightarrow> parser_state \<Rightarrow> error + parser_state" where
  "parse_line label line s =
     (let stripped = str_strip line in
      if stripped \<noteq> [] \<and> hd stripped = CHR ''#''
      then bindE (flush_clause label s) (\<lambda>s1.
           let heading = str_strip (dropWhile (\<lambda>c. c = CHR ''#'') stripped) in
           bindE (requireE (heading \<noteq> []) (PolicySourceParseError ''Policy heading cannot be blank.'')) (\<lambda>_.
           Inr (s1\<lparr>ps_heading := take 300 heading\<rparr>)))
      else if stripped = []
      then Inr (if ps_body s \<noteq> [] \<and> last (ps_body s) \<noteq> [] then s\<lparr>ps_body := ps_body s @ [[]]\<rparr> else s)
      else Inr (s\<lparr>ps_body := ps_body s @ [stripped]\<rparr>))"

definition parse_policy_source :: "string \<Rightarrow> policy_applicability \<Rightarrow> error + parsed_clause list" where
  "parse_policy_source source_text a =
     (let normalized = str_strip (normalize_newlines source_text); label = applicability_label a in
      bindE (requireE (20 \<le> length normalized)
               (PolicySourceParseError ''Policy source text is too short to parse safely.'')) (\<lambda>_.
      bindE (foldE (parse_line label) (split_lines normalized)
               \<lparr>ps_clauses = [], ps_heading = ''Policy clause'', ps_body = []\<rparr>) (\<lambda>s.
      bindE (flush_clause label s) (\<lambda>s1.
      bindE (requireE (ps_clauses s1 \<noteq> [])
               (PolicySourceParseError ''Policy source contains no usable clauses.'')) (\<lambda>_.
      bindE (requireE (length (ps_clauses s1) \<le> 100)
               (PolicySourceParseError ''Policy source contains more than 100 clauses.'')) (\<lambda>_.
      Inr (ps_clauses s1)))))))"

section \<open>What a parsed source is\<close>

definition clause_ok :: "policy_applicability \<Rightarrow> parsed_clause \<Rightarrow> bool" where
  "clause_ok a c \<longleftrightarrow> 1 \<le> length (pcl_heading c) \<and> length (pcl_heading c) \<le> 300
     \<and> 20 \<le> length (pcl_text c) \<and> str_strip (pcl_text c) = pcl_text c
     \<and> pcl_applies_when c = applicability_label a"

lemma dropWhile_rev_dropWhile:
  "xs = [] \<or> \<not> P (hd xs) \<Longrightarrow> dropWhile P (rev (dropWhile P (rev xs))) = rev (dropWhile P (rev xs))"
proof (cases "dropWhile P (rev xs)")
  case (Cons y ys)
  assume head: "xs = [] \<or> \<not> P (hd xs)"
  have suffix: "rev xs = takeWhile P (rev xs) @ dropWhile P (rev xs)" by simp
  then have "last (rev xs) = last (y # ys)" by (metis Cons last_appendR list.discI)
  moreover have "xs \<noteq> []" using Cons by auto
  ultimately have "hd (rev (y # ys)) = hd xs" by (simp add: hd_rev last_rev del: rev.simps)
  then show ?thesis using head \<open>xs \<noteq> []\<close> Cons by (cases "rev (y # ys)") auto
next
  case Nil
  then show ?thesis by (simp only: rev.simps dropWhile.simps)
qed

lemma str_strip_idem [simp]: "str_strip (str_strip s) = str_strip s"
proof -
  let ?d = "dropWhile is_space s"
  have "?d = [] \<or> \<not> is_space (hd ?d)" using hd_dropWhile by blast
  from dropWhile_rev_dropWhile [of ?d is_space, OF this] show ?thesis
    by (simp add: str_strip_def dropWhile_idem)
qed

definition parser_ok :: "policy_applicability \<Rightarrow> parser_state \<Rightarrow> bool" where
  "parser_ok a s \<longleftrightarrow> list_all (clause_ok a) (ps_clauses s) \<and> 1 \<le> length (ps_heading s) \<and> length (ps_heading s) \<le> 300"

lemma flush_clause_ok:
  assumes "flush_clause (applicability_label a) s = Inr t" and "parser_ok a s"
  shows "parser_ok a t"
  using assms by (auto simp: flush_clause_def Let_def parser_ok_def clause_ok_def split: if_splits)

lemma parse_line_ok:
  assumes "parse_line (applicability_label a) line s = Inr t" and "parser_ok a s"
  shows "parser_ok a t"
proof (cases "str_strip line \<noteq> [] \<and> hd (str_strip line) = CHR ''#''")
  case True
  then obtain s1 where "flush_clause (applicability_label a) s = Inr s1"
    and t: "t = s1\<lparr>ps_heading := take 300 (str_strip (dropWhile (\<lambda>c. c = CHR ''#'') (str_strip line)))\<rparr>"
    and ne: "str_strip (dropWhile (\<lambda>c. c = CHR ''#'') (str_strip line)) \<noteq> []"
    using assms(1) by (auto simp: parse_line_def Let_def run_simps)
  then have "parser_ok a s1" using flush_clause_ok assms(2) by blast
  then show ?thesis using ne by (simp add: t parser_ok_def Suc_le_eq)
next
  case False
  then show ?thesis using assms by (auto simp: parse_line_def Let_def parser_ok_def split: if_splits)
qed

text \<open>C17. A source that parses gives between one and a hundred clauses, and each satisfies the constraints
  of a parsed clause: a heading of 1 to 300 characters, a stripped text of at least 20 characters and the
  label of the applicability, so that constructing it cannot fail.\<close>

theorem parsed_clauses_ok:
  assumes "parse_policy_source source_text a = Inr clauses"
  shows "1 \<le> length clauses \<and> length clauses \<le> 100 \<and> list_all (clause_ok a) clauses"
proof -
  let ?init = "\<lparr>ps_clauses = [], ps_heading = ''Policy clause'', ps_body = []\<rparr>"
  from assms obtain s s1 where
    fold: "foldE (parse_line (applicability_label a)) (split_lines (str_strip (normalize_newlines source_text))) ?init = Inr s"
    and s1: "flush_clause (applicability_label a) s = Inr s1"
    and n: "ps_clauses s1 \<noteq> []" "length (ps_clauses s1) \<le> 100" "clauses = ps_clauses s1"
    by (auto simp: parse_policy_source_def Let_def run_simps)
  have "parser_ok a ?init" by (simp add: parser_ok_def)
  then have "parser_ok a s"
    by (rule foldE_invariant [OF fold]) (rule parse_line_ok)
  then have "parser_ok a s1" using flush_clause_ok [OF s1] by blast
  then show ?thesis using n by (simp add: parser_ok_def Suc_le_eq)
qed

end
