(* ===== verification/Policies.thy ===== *)
theory Policies
  imports Policy_Parser Actions_Base
begin

text \<open>
  Authoring and the lifecycle of governed policies: \<open>persistence/policies/_base.py\<close>, \<open>authoring.py\<close>,
  \<open>lifecycle.py\<close>, the candidates of \<open>queries.py\<close>, and \<open>services/policy_service.py\<close>. The digest, the
  embedding of a text and the text of an exception are arguments. The generated text search
  column of a clause is the argument \<open>tsv\<close>. Changes pending in the session are written before the
  next statement, so a violated constraint is raised there.
\<close>

section \<open>Records\<close>

record policy_bundle =
  pb_version :: policy_version
  pb_clauses :: "policy_clause list"
  pb_evidence :: "(policy_evidence \<times> string) list"

record policy_workspace =
  pw_policy :: policy_record
  pw_owner :: membership
  pw_versions :: "policy_bundle list"

record policy_candidate =
  pc_policy :: policy_record
  pc_version :: policy_version
  pc_clauses :: "policy_clause list"

record policy_create =
  pcr_public_id :: string
  pcr_title :: string
  pcr_description :: string
  pcr_source_kind :: policy_source_kind
  pcr_source_name :: string
  pcr_content :: "policy_draft_content option"

definition policy_public_id_ok :: "string \<Rightarrow> bool" where
  "policy_public_id_ok s \<longleftrightarrow> take 4 s = ''POL-'' \<and> length s > 4
     \<and> list_all (\<lambda>c. (CHR ''A'' \<le> c \<and> c \<le> CHR ''Z'') \<or> (CHR ''0'' \<le> c \<and> c \<le> CHR ''9'') \<or> c = CHR ''-'')
         (drop 4 s)"

definition valid_policy_create :: "policy_create \<Rightarrow> error + policy_create" where
  "valid_policy_create c =
     bindE (requireE (policy_public_id_ok (pcr_public_id c) \<and> int (length (pcr_public_id c)) \<le> 64
               \<and> 1 \<le> int (length (pcr_title c)) \<and> int (length (pcr_title c)) \<le> 300
               \<and> 1 \<le> int (length (pcr_description c)) \<and> int (length (pcr_description c)) \<le> 1000
               \<and> 1 \<le> int (length (pcr_source_name c)) \<and> int (length (pcr_source_name c)) \<le> 500)
              (ValueError ''PolicyCreate'')) (\<lambda>_. Inr c)"

fun policy_source_kind_value :: "policy_source_kind \<Rightarrow> string" where
  "policy_source_kind_value PSK_UPLOAD = ''upload''"
| "policy_source_kind_value PSK_URL = ''url''"
| "policy_source_kind_value PSK_MANUAL = ''manual''"

fun policy_version_status_value :: "policy_version_status \<Rightarrow> string" where
  "policy_version_status_value PV_DRAFT = ''draft''"
| "policy_version_status_value PV_IN_REVIEW = ''in_review''"
| "policy_version_status_value PV_PUBLISHED = ''published''"
| "policy_version_status_value PV_SCHEDULED = ''scheduled''"
| "policy_version_status_value PV_RETIRED = ''retired''"

text \<open>What a command draws: clock readings, primary keys, and the arguments above.\<close>

record policy_run =
  pr_now :: timestamp
  pr_update_now :: timestamp
  pr_policy_id :: uuid
  pr_version_id :: uuid
  pr_clause_ids :: "nat \<Rightarrow> uuid"
  pr_audit_id :: uuid
  pr_audit_now :: timestamp
  pr_code :: string

section \<open>Reading\<close>

definition policies_of :: "uuid \<Rightarrow> database \<Rightarrow> policy_record list" where
  "policies_of organization_id db = filter (\<lambda>p. pol_organization_id p = organization_id) (policies db)"

definition find_policy :: "string \<Rightarrow> string \<Rightarrow> database \<Rightarrow> policy_record option" where
  "find_policy org_pid policy_pid db =
     find (\<lambda>p. pol_public_id p = policy_pid
             \<and> list_ex (\<lambda>g. org_id g = pol_organization_id p \<and> org_public_id g = org_pid) (organizations db))
       (policies db)"

definition required_policy :: "string \<Rightarrow> string \<Rightarrow> database \<Rightarrow> error + policy_record" where
  "required_policy org_pid policy_pid db =
     someE (find_policy org_pid policy_pid db) (PolicyNotFound ''The policy was not found.'')"

definition versions_of :: "policy_record \<Rightarrow> database \<Rightarrow> policy_version list" where
  "versions_of p db = filter (\<lambda>v. gpv_organization_id v = pol_organization_id p \<and> gpv_policy_id v = pol_id p)
     (policy_versions db)"

definition required_version :: "policy_record \<Rightarrow> int \<Rightarrow> database \<Rightarrow> error + policy_version" where
  "required_version p n db =
     someE (find (\<lambda>v. gpv_version v = n) (versions_of p db))
       (PolicyNotFound ''The policy version was not found.'')"

definition clause_records :: "policy_record \<Rightarrow> policy_version \<Rightarrow> database \<Rightarrow> policy_clause list" where
  "clause_records p v db =
     sort_key gpc_sequence
       (filter (\<lambda>c. gpc_organization_id c = pol_organization_id p \<and> gpc_policy_id c = pol_id p
                  \<and> gpc_policy_version_id c = gpv_id v) (policy_clauses db))"

definition version_bundle :: "policy_record \<Rightarrow> policy_version \<Rightarrow> database \<Rightarrow> policy_bundle" where
  "version_bundle p v db =
     \<lparr>pb_version = v, pb_clauses = clause_records p v db,
      pb_evidence = [(e, cs_public_id c). e \<leftarrow> policy_evidence_rows db, c \<leftarrow> cases db,
        cs_organization_id c = cpe_organization_id e \<and> cs_id c = cpe_case_id e
        \<and> cpe_organization_id e = pol_organization_id p \<and> cpe_policy_version_id e = gpv_id v]\<rparr>"

definition policy_workspace_of :: "string \<Rightarrow> string \<Rightarrow> database \<Rightarrow> policy_workspace option" where
  "policy_workspace_of org_pid policy_pid db =
     (case find_policy org_pid policy_pid db of None \<Rightarrow> None | Some p \<Rightarrow>
      (case find (\<lambda>m. mem_organization_id m = pol_organization_id p \<and> mem_id m = pol_owner_id p)
              (memberships db) of None \<Rightarrow> None | Some m \<Rightarrow>
       Some \<lparr>pw_policy = p, pw_owner = m,
             pw_versions = map (\<lambda>v. version_bundle p v db)
               (rev (sort_key gpv_version (versions_of p db)))\<rparr>))"

definition required_policy_workspace :: "string \<Rightarrow> string \<Rightarrow> database \<Rightarrow> error + policy_workspace" where
  "required_policy_workspace org_pid policy_pid db =
     someE (policy_workspace_of org_pid policy_pid db) (PolicyNotFound ''The policy was not found.'')"

definition required_member :: "uuid \<Rightarrow> string \<Rightarrow> database \<Rightarrow> error + membership" where
  "required_member organization_id actor db =
     someE (find (\<lambda>m. mem_organization_id m = organization_id \<and> mem_status m = MS_ACTIVE
                   \<and> (mem_public_id m = actor \<or> mem_subject_id m = actor)) (memberships db))
       (PolicyActorNotAssignable ''The actor is not an active organization member.'')"

definition active_version :: "policy_version \<Rightarrow> bool" where
  "active_version v \<longleftrightarrow> gpv_status v \<in> {PV_PUBLISHED, PV_SCHEDULED} \<and> gpv_immutable v"

definition list_candidates :: "string \<Rightarrow> database \<Rightarrow> error + policy_candidate list" where
  "list_candidates org_pid db =
     bindE (someE (organization_of org_pid db) (PolicyNotFound ''The actor organization was not found.'')) (\<lambda>g.
     Inr [\<lparr>pc_policy = p, pc_version = v, pc_clauses = clause_records p v db\<rparr>.
          p \<leftarrow> policies_of (org_id g) db, v \<leftarrow> versions_of p db, active_version v])"

section \<open>Writing\<close>

definition put_policy :: "policy_record \<Rightarrow> database \<Rightarrow> database" where
  "put_policy p db = db\<lparr>policies := row_put pol_id p (policies db)\<rparr>"

definition update_policy ::
    "timestamp \<Rightarrow> policy_record \<Rightarrow> int \<Rightarrow> (policy_record \<Rightarrow> policy_record) \<Rightarrow> database
     \<Rightarrow> error + policy_record \<times> database" where
  "update_policy now p expected values db =
     (let same = (\<lambda>r. pol_id r = pol_id p \<and> pol_organization_id r = pol_organization_id p) in
      case find (\<lambda>r. same r \<and> pol_version r = expected) (policies db) of
        Some r \<Rightarrow> (let r' = (values r)\<lparr>pol_version := pol_version r + 1, pol_updated_at := now\<rparr>
                  in Inr (r', put_policy r' db))
      | None \<Rightarrow>
          (case find same (policies db) of
             None \<Rightarrow> Inl (PolicyNotFound ''The policy was not found.'')
           | Some r \<Rightarrow> Inl (PolicyConcurrencyConflict expected (pol_version r))))"

definition put_version :: "policy_version \<Rightarrow> database \<Rightarrow> error + database" where
  "put_version v db =
     bindE (requireE (policy_version_checks v) (IntegrityError ''governed_policy_versions'')) (\<lambda>_.
     Inr (db\<lparr>policy_versions := row_put gpv_id v (policy_versions db)\<rparr>))"

definition update_version ::
    "policy_version \<Rightarrow> int \<Rightarrow> (policy_version \<Rightarrow> policy_version) \<Rightarrow> database \<Rightarrow> error + database" where
  "update_version v expected values db =
     (let same = (\<lambda>r. gpv_id r = gpv_id v \<and> gpv_organization_id r = gpv_organization_id v) in
      case find (\<lambda>r. same r \<and> gpv_record_version r = expected) (policy_versions db) of
        Some r \<Rightarrow> put_version ((values r)\<lparr>gpv_record_version := gpv_record_version r + 1\<rparr>) db
      | None \<Rightarrow>
          (case find same (policy_versions db) of
             None \<Rightarrow> Inl (PolicyNotFound ''The policy version was not found.'')
           | Some r \<Rightarrow> Inl (PolicyVersionConcurrencyConflict expected (gpv_record_version r))))"

definition policy_audit ::
    "policy_run \<Rightarrow> policy_record \<Rightarrow> string \<Rightarrow> string \<Rightarrow> string \<Rightarrow> string \<Rightarrow> json \<Rightarrow> string \<Rightarrow> database
     \<Rightarrow> error + database" where
  "policy_audit run p actor actor_type event_type summary data correlation_id db =
     insert_audit
       \<lparr>au_id = pr_audit_id run, au_organization_id = Some (pol_organization_id p), au_task_id = None,
        au_run_id = None, au_event_type = event_type, au_actor_type = actor_type,
        au_actor_id = Some actor, au_subject_type = Some ''policy'', au_subject_id = Some (pol_public_id p),
        au_summary = Some summary, au_data = data, au_correlation_id = correlation_id,
        au_occurred_at = pr_audit_now run\<rparr> db"

definition new_version ::
    "(string \<Rightarrow> string) \<Rightarrow> policy_run \<Rightarrow> policy_record \<Rightarrow> int \<Rightarrow> string \<Rightarrow> policy_draft_content
     \<Rightarrow> policy_version" where
  "new_version sha run p n actor content =
     \<lparr>gpv_id = pr_version_id run,
      gpv_public_id = stable_public_id sha ''POLV'' [pol_public_id p, int_str n],
      gpv_organization_id = pol_organization_id p, gpv_policy_id = pol_id p,
      gpv_legacy_policy_version_id = None, gpv_version = n, gpv_record_version = 1,
      gpv_status = PV_DRAFT, gpv_immutable = False, gpv_source_text = dc_source_text content,
      gpv_content_hash = sha (dc_source_text content),
      gpv_decision_scope = pap_decision_scope (dc_applicability content),
      gpv_case_categories = pap_case_categories (dc_applicability content),
      gpv_products = pap_products (dc_applicability content),
      gpv_regions = pap_regions (dc_applicability content),
      gpv_channels = pap_channels (dc_applicability content),
      gpv_customer_tiers = pap_customer_tiers (dc_applicability content),
      gpv_effective_from = dc_effective_from content, gpv_effective_to = dc_effective_to content,
      gpv_created_by = actor, gpv_created_at = pr_now run, gpv_submitted_at = None,
      gpv_published_at = None, gpv_retired_at = None\<rparr>"

definition new_clause ::
    "(string \<Rightarrow> string) \<Rightarrow> (string \<Rightarrow> string) \<Rightarrow> policy_run \<Rightarrow> policy_record \<Rightarrow> int \<Rightarrow> nat \<times> indexed_clause
     \<Rightarrow> policy_clause" where
  "new_clause sha tsv run p n = (\<lambda>(i, ic).
     \<lparr>gpc_id = pr_clause_ids run i,
      gpc_public_id = stable_public_id sha ''POLC'' [pol_public_id p, int_str n, nat_str i],
      gpc_organization_id = pol_organization_id p, gpc_policy_id = pol_id p,
      gpc_policy_version_id = pr_version_id run, gpc_sequence = int i,
      gpc_heading = pcl_heading (icl_clause ic), gpc_text = pcl_text (icl_clause ic),
      gpc_applies_when = pcl_applies_when (icl_clause ic), gpc_content_hash = sha (pcl_text (icl_clause ic)),
      gpc_chunking_version = ''markdown-clause-v1'', gpc_embedding_version = icl_embedding_version ic,
      gpc_index_version = ''governed-policy-index-v1'', gpc_embedding = icl_embedding ic,
      gpc_search_vector = tsv (pcl_heading (icl_clause ic) @ '' '' @ pcl_text (icl_clause ic) @ '' ''
        @ pcl_applies_when (icl_clause ic))\<rparr>)"

definition add_version ::
    "(string \<Rightarrow> string) \<Rightarrow> (string \<Rightarrow> string) \<Rightarrow> policy_run \<Rightarrow> policy_record \<Rightarrow> int \<Rightarrow> string
     \<Rightarrow> policy_draft_content \<Rightarrow> indexed_clause list \<Rightarrow> database \<Rightarrow> error + database" where
  "add_version sha tsv run p n actor content clauses db =
     bindE (insert_policy_version (new_version sha run p n actor content) db) (\<lambda>db1.
     foldE insert_policy_clause
       (map (new_clause sha tsv run p n) (zip [1..<Suc (length clauses)] clauses)) db1)"

definition new_policy :: "policy_run \<Rightarrow> uuid \<Rightarrow> membership \<Rightarrow> policy_create \<Rightarrow> string option \<Rightarrow> policy_record" where
  "new_policy run organization_id owner command source_error =
     (let parsed = (pcr_content command \<noteq> None) in
      \<lparr>pol_id = pr_policy_id run, pol_public_id = pcr_public_id command, pol_organization_id = organization_id,
       pol_title = pcr_title command, pol_description = pcr_description command,
       pol_status = (if parsed then PL_DRAFT else PL_PARSING_FAILED), pol_owner_id = mem_id owner,
       pol_source_kind = pcr_source_kind command, pol_source_name = pcr_source_name command,
       pol_source_error = source_error, pol_current_version = (if parsed then 1 else 0),
       pol_version = 1, pol_created_at = pr_now run, pol_updated_at = pr_now run\<rparr>)"

definition create_policy ::
    "(string \<Rightarrow> string) \<Rightarrow> (string \<Rightarrow> string) \<Rightarrow> policy_run \<Rightarrow> string \<Rightarrow> string \<Rightarrow> string \<Rightarrow> policy_create
     \<Rightarrow> indexed_clause list \<Rightarrow> string option \<Rightarrow> string \<Rightarrow> database
     \<Rightarrow> error + policy_workspace \<times> database" where
  "create_policy sha tsv run org_pid actor actor_type command clauses source_error correlation_id db =
     bindE (someE (organization_of org_pid db) (PolicyNotFound ''The actor organization was not found.'')) (\<lambda>g.
     bindE (required_member (org_id g) actor db) (\<lambda>owner.
     bindE (requireE (\<not> list_ex (\<lambda>p. pol_organization_id p = org_id g \<and> pol_public_id p = pcr_public_id command)
                         (policies db))
              (PolicyAlreadyExists (''Policy '' @ pcr_public_id command @ '' already exists.''))) (\<lambda>_.
     let parsed = (pcr_content command \<noteq> None); p = new_policy run (org_id g) owner command source_error in
     bindE (insert_policy p db) (\<lambda>db1.
     bindE (case pcr_content command of None \<Rightarrow> Inr db1
            | Some content \<Rightarrow> add_version sha tsv run p 1 actor content clauses db1) (\<lambda>db2.
     bindE (policy_audit run p actor actor_type
              (if parsed then ''policy.created'' else ''policy.parse_failed'')
              (if parsed then ''Policy draft created.'' else ''Policy source could not be parsed.'')
              (JObj [(''source_kind'', JStr (policy_source_kind_value (pcr_source_kind command)))])
              correlation_id db2) (\<lambda>db3.
     bindE (required_policy_workspace org_pid (pcr_public_id command) db3) (\<lambda>w. Inr (w, db3))))))))"

definition next_version :: "policy_record \<Rightarrow> database \<Rightarrow> int" where
  "next_version p db = (case latest_by gpv_version (versions_of p db) of
     None \<Rightarrow> 1 | Some v \<Rightarrow> gpv_version v + 1)"

definition create_draft ::
    "(string \<Rightarrow> string) \<Rightarrow> (string \<Rightarrow> string) \<Rightarrow> policy_run \<Rightarrow> string \<Rightarrow> string \<Rightarrow> string \<Rightarrow> string \<Rightarrow> int
     \<Rightarrow> policy_draft_content \<Rightarrow> indexed_clause list \<Rightarrow> string \<Rightarrow> database
     \<Rightarrow> error + policy_workspace \<times> database" where
  "create_draft sha tsv run org_pid policy_pid actor actor_type expected content clauses correlation_id db =
     bindE (required_policy org_pid policy_pid db) (\<lambda>p.
     let n = next_version p db in
     bindE (update_policy (pr_update_now run) p expected
              (\<lambda>r. r\<lparr>pol_status := PL_DRAFT, pol_current_version := n, pol_source_error := None\<rparr>) db) (\<lambda>(p', db1).
     bindE (add_version sha tsv run p' n actor content clauses db1) (\<lambda>db2.
     bindE (policy_audit run p' actor actor_type ''policy.draft_created''
              (''Policy version '' @ int_str n @ '' draft created.'')
              (JObj [(''policy_version'', JInt n)]) correlation_id db2) (\<lambda>db3.
     bindE (required_policy_workspace org_pid policy_pid db3) (\<lambda>w. Inr (w, db3))))))"

definition retry_source ::
    "(string \<Rightarrow> string) \<Rightarrow> (string \<Rightarrow> string) \<Rightarrow> policy_run \<Rightarrow> string \<Rightarrow> string \<Rightarrow> string \<Rightarrow> string \<Rightarrow> int
     \<Rightarrow> policy_draft_content \<Rightarrow> indexed_clause list \<Rightarrow> string \<Rightarrow> database
     \<Rightarrow> error + policy_workspace \<times> database" where
  "retry_source sha tsv run org_pid policy_pid actor actor_type expected content clauses correlation_id db =
     bindE (required_policy org_pid policy_pid db) (\<lambda>p.
     bindE (update_policy (pr_update_now run) p expected
              (\<lambda>r. r\<lparr>pol_status := PL_DRAFT, pol_current_version := 1, pol_source_error := None\<rparr>) db) (\<lambda>(p', db1).
     bindE (add_version sha tsv run p' 1 actor content clauses db1) (\<lambda>db2.
     bindE (policy_audit run p' actor actor_type ''policy.source_recovered''
              ''Policy source parsed and draft version 1 created.''
              (JObj [(''policy_version'', JInt 1)]) correlation_id db2) (\<lambda>db3.
     bindE (required_policy_workspace org_pid policy_pid db3) (\<lambda>w. Inr (w, db3))))))"

definition submit_policy_review ::
    "policy_run \<Rightarrow> string \<Rightarrow> string \<Rightarrow> int \<Rightarrow> string \<Rightarrow> string \<Rightarrow> int \<Rightarrow> int \<Rightarrow> string \<Rightarrow> database
     \<Rightarrow> error + policy_workspace \<times> database" where
  "submit_policy_review run org_pid policy_pid n actor actor_type expected_policy expected correlation_id db =
     bindE (required_policy org_pid policy_pid db) (\<lambda>p.
     bindE (required_version p n db) (\<lambda>v.
     bindE (update_policy (pr_update_now run) p expected_policy (\<lambda>r. r\<lparr>pol_status := PL_IN_REVIEW\<rparr>) db) (\<lambda>(p', db1).
     bindE (update_version v expected
              (\<lambda>r. r\<lparr>gpv_status := PV_IN_REVIEW, gpv_submitted_at := Some (pr_now run)\<rparr>) db1) (\<lambda>db2.
     bindE (policy_audit run p' actor actor_type ''policy.review_submitted''
              (''Policy version '' @ int_str n @ '' submitted for review.'')
              (JObj [(''policy_version'', JInt n)]) correlation_id db2) (\<lambda>db3.
     bindE (required_policy_workspace org_pid policy_pid db3) (\<lambda>w. Inr (w, db3)))))))"

definition mark_conflicting ::
    "policy_run \<Rightarrow> string \<Rightarrow> string \<Rightarrow> int \<Rightarrow> string \<Rightarrow> string \<Rightarrow> int \<Rightarrow> int \<Rightarrow> string list \<Rightarrow> string \<Rightarrow> database
     \<Rightarrow> error + policy_workspace \<times> database" where
  "mark_conflicting run org_pid policy_pid n actor actor_type expected_policy expected conflicts
       correlation_id db =
     bindE (required_policy org_pid policy_pid db) (\<lambda>p.
     bindE (required_version p n db) (\<lambda>v.
     bindE (update_policy (pr_update_now run) p expected_policy (\<lambda>r. r\<lparr>pol_status := PL_CONFLICTING\<rparr>) db) (\<lambda>(p', db1).
     bindE (update_version v expected (\<lambda>r. r) db1) (\<lambda>db2.
     bindE (policy_audit run p' actor actor_type ''policy.conflict_detected''
              ''Policy publication blocked by overlapping authority.''
              (JObj [(''conflicting_policy_ids'', JList (map JStr conflicts))]) correlation_id db2) (\<lambda>db3.
     bindE (required_policy_workspace org_pid policy_pid db3) (\<lambda>w. Inr (w, db3)))))))"

definition retired_previous :: "timestamp \<Rightarrow> timestamp \<Rightarrow> policy_version \<Rightarrow> policy_version" where
  "retired_previous now effective_from v =
     v\<lparr>gpv_status := PV_RETIRED, gpv_record_version := gpv_record_version v + 1, gpv_retired_at := Some now,
       gpv_effective_to :=
         (case gpv_effective_to v of None \<Rightarrow> Some effective_from
          | Some t \<Rightarrow> if t > effective_from then Some effective_from else Some t)\<rparr>"

definition previous_versions :: "policy_record \<Rightarrow> policy_version \<Rightarrow> database \<Rightarrow> policy_version list" where
  "previous_versions p v db =
     filter (\<lambda>r. gpv_id r \<noteq> gpv_id v \<and> gpv_status r \<in> {PV_PUBLISHED, PV_SCHEDULED}) (versions_of p db)"

text \<open>The status of a policy takes the value of the target; the callers pass the two active ones.\<close>

definition target_status :: "policy_version_status \<Rightarrow> policy_lifecycle_status" where
  "target_status s = (case s of PV_DRAFT \<Rightarrow> PL_DRAFT | PV_IN_REVIEW \<Rightarrow> PL_IN_REVIEW
     | PV_PUBLISHED \<Rightarrow> PL_PUBLISHED | PV_SCHEDULED \<Rightarrow> PL_SCHEDULED | PV_RETIRED \<Rightarrow> PL_RETIRED)"

definition activate_version ::
    "policy_run \<Rightarrow> string \<Rightarrow> string \<Rightarrow> int \<Rightarrow> string \<Rightarrow> string \<Rightarrow> int \<Rightarrow> int \<Rightarrow> policy_version_status \<Rightarrow> timestamp
     \<Rightarrow> string \<Rightarrow> database \<Rightarrow> error + policy_workspace \<times> database" where
  "activate_version run org_pid policy_pid n actor actor_type expected_policy expected target effective_from
       correlation_id db =
     bindE (required_policy org_pid policy_pid db) (\<lambda>p.
     bindE (required_version p n db) (\<lambda>v.
     bindE (if target = PV_PUBLISHED
            then foldE put_version (map (retired_previous (pr_now run) effective_from) (previous_versions p v db)) db
            else Inr db) (\<lambda>db1.
     bindE (update_policy (pr_update_now run) p expected_policy (\<lambda>r. r\<lparr>pol_status := target_status target\<rparr>) db1) (\<lambda>(p', db2).
     bindE (update_version v expected
              (\<lambda>r. r\<lparr>gpv_status := target, gpv_immutable := True, gpv_effective_from := Some effective_from,
                     gpv_published_at := Some (pr_now run)\<rparr>) db2) (\<lambda>db3.
     bindE (policy_audit run p' actor actor_type
              (if target = PV_PUBLISHED then ''policy.published'' else ''policy.scheduled'')
              (''Policy version '' @ int_str n @ '' '' @ policy_version_status_value target @ ''.'')
              (JObj [(''policy_version'', JInt n), (''effective_from'', JStr (isoformat effective_from))])
              correlation_id db3) (\<lambda>db4.
     bindE (required_policy_workspace org_pid policy_pid db4) (\<lambda>w. Inr (w, db4))))))))"

definition restorable_version :: "timestamp \<Rightarrow> policy_record \<Rightarrow> policy_version \<Rightarrow> database \<Rightarrow> policy_version option" where
  "restorable_version now p v db =
     (if gpv_status v = PV_SCHEDULED
      then latest_by gpv_version
        (filter (\<lambda>r. gpv_id r \<noteq> gpv_id v \<and> gpv_status r = PV_PUBLISHED \<and> gpv_immutable r
                   \<and> (case gpv_effective_from r of None \<Rightarrow> True | Some t \<Rightarrow> t \<le> now)
                   \<and> (case gpv_effective_to r of None \<Rightarrow> True | Some t \<Rightarrow> t > now)) (versions_of p db))
      else None)"

definition retired_version :: "timestamp \<Rightarrow> policy_version \<Rightarrow> policy_version \<Rightarrow> policy_version" where
  "retired_version now v r =
     (let r' = r\<lparr>gpv_status := PV_RETIRED, gpv_retired_at := Some now\<rparr> in
      if (case gpv_effective_from v of None \<Rightarrow> True | Some t \<Rightarrow> t < now)
         \<and> (case gpv_effective_to v of None \<Rightarrow> True | Some t \<Rightarrow> t > now)
      then r'\<lparr>gpv_effective_to := Some now\<rparr> else r')"

definition retire_version ::
    "policy_run \<Rightarrow> string \<Rightarrow> string \<Rightarrow> int \<Rightarrow> string \<Rightarrow> string \<Rightarrow> int \<Rightarrow> int \<Rightarrow> string \<Rightarrow> database
     \<Rightarrow> error + policy_workspace \<times> database" where
  "retire_version run org_pid policy_pid n actor actor_type expected_policy expected correlation_id db =
     bindE (required_policy org_pid policy_pid db) (\<lambda>p.
     bindE (required_version p n db) (\<lambda>v.
     let restored = restorable_version (pr_now run) p v db in
     bindE (update_policy (pr_update_now run) p expected_policy
              (\<lambda>r. case restored of None \<Rightarrow> r\<lparr>pol_status := PL_RETIRED\<rparr>
                   | Some w \<Rightarrow> r\<lparr>pol_status := PL_PUBLISHED, pol_current_version := gpv_version w\<rparr>) db) (\<lambda>(p', db1).
     bindE (update_version v expected (retired_version (pr_now run) v) db1) (\<lambda>db2.
     bindE (policy_audit run p' actor actor_type ''policy.retired''
              (''Policy version '' @ int_str n @ '' retired.'')
              (JObj [(''policy_version'', JInt n),
                     (''restored_policy_version'', json_opt (\<lambda>w. JInt (gpv_version w)) restored)])
              correlation_id db2) (\<lambda>db3.
     bindE (required_policy_workspace org_pid policy_pid db3) (\<lambda>w. Inr (w, db3)))))))"

end
