(* ===== verification/Policy_Retrieval.thy ===== *)
theory Policy_Retrieval
  imports Policies Workspace
begin

text \<open>
  Retrieval of the policy clauses that apply to a case: \<open>retrieval/policy_context.py\<close>, the filters and
  searches of \<open>persistence/policies/queries.py\<close> and \<open>retrieval_v2*.py\<close>, \<open>retrieval/scoring.py\<close>,
  \<open>retrieval/v1_governed.py\<close>, \<open>retrieval/v2/rrf.py\<close>, \<open>retrieval/v2/retriever.py\<close> and
  \<open>retrieval/governed_facade.py\<close>. What the database extensions compute is a parameter: the cosine
  distance of two embeddings, and whether and how well a search vector matches a text search query;
  so are the embedding of a text, the square root and the minimised query of the second version.
  Floating-point numbers are rationals, and the fields of a business object are strings.
\<close>

section \<open>The context of a case\<close>

record retrieval_context =
  rx_category :: string
  rx_products :: "string list"
  rx_region :: string
  rx_channel :: string
  rx_tier :: string

fun request_channel_value :: "request_channel \<Rightarrow> string" where
  "request_channel_value RQ_EMAIL = ''email''"
| "request_channel_value RQ_CHAT = ''chat''"
| "request_channel_value RQ_PHONE = ''phone''"
| "request_channel_value RQ_WEBHOOK = ''webhook''"

fun customer_tier_value :: "customer_tier \<Rightarrow> string" where
  "customer_tier_value TIER_STANDARD = ''standard''"
| "customer_tier_value TIER_VIP = ''vip''"
| "customer_tier_value TIER_ENTERPRISE = ''enterprise''"

definition product_of :: "business_object_snapshot \<Rightarrow> string option" where
  "product_of b =
     (case bo_fields b of
        JObj kvs \<Rightarrow> (case map_of kvs ''product'' of
                      Some (JStr s) \<Rightarrow> if s = [] then None else Some (str_lower (str_strip s))
                    | _ \<Rightarrow> None)
      | _ \<Rightarrow> None)"

definition locale_region :: "string \<Rightarrow> string" where
  "locale_region loc =
     (let s = map (\<lambda>c. if c = CHR ''_'' then CHR ''-'' else c) loc in
      if CHR ''-'' \<in> set s then str_lower (rev (takeWhile (\<lambda>c. c \<noteq> CHR ''-'') (rev s))) else ''unknown'')"

definition case_context :: "case_workspace \<Rightarrow> retrieval_context" where
  "case_context ws =
     (let products = remdups (List.map_filter product_of (ws_business_contexts ws)) in
      \<lparr>rx_category = case_category_value (cs_category (ws_case ws)),
       rx_products = (if products = [] then [''unknown''] else products),
       rx_region = locale_region (cc_locale (ws_customer ws)),
       rx_channel = request_channel_value (crq_channel (ws_request ws)),
       rx_tier = customer_tier_value (cc_tier (ws_customer ws))\<rparr>)"

definition context_label :: "retrieval_context \<Rightarrow> string \<Rightarrow> string" where
  "context_label x scope =
     scope @ ''; category '' @ rx_category x @ ''; products '' @ str_join '', '' (sort (rx_products x))
     @ ''; region '' @ rx_region x @ ''; channel '' @ rx_channel x @ ''; tier '' @ rx_tier x"

section \<open>Filters\<close>

definition json_dimension_match :: "string list \<Rightarrow> string list \<Rightarrow> bool" where
  "json_dimension_match column values \<longleftrightarrow> ''all'' \<in> set column \<or> list_ex (\<lambda>x. x \<in> set column) values"

definition category_match :: "retrieval_context \<Rightarrow> policy_version \<Rightarrow> bool" where
  "category_match x v \<longleftrightarrow> json_dimension_match (gpv_case_categories v) [rx_category x]"

definition applicable_match :: "retrieval_context \<Rightarrow> policy_version \<Rightarrow> bool" where
  "applicable_match x v \<longleftrightarrow> category_match x v
     \<and> json_dimension_match (gpv_products v) (rx_products x)
     \<and> json_dimension_match (gpv_regions v) [rx_region x]
     \<and> json_dimension_match (gpv_channels v) [rx_channel x]
     \<and> json_dimension_match (gpv_customer_tiers v) [rx_tier x]"

definition effective_match :: "timestamp \<Rightarrow> policy_version \<Rightarrow> bool" where
  "effective_match as_of v \<longleftrightarrow>
     (case gpv_effective_from v of None \<Rightarrow> True | Some t \<Rightarrow> t \<le> as_of)
     \<and> (case gpv_effective_to v of None \<Rightarrow> True | Some t \<Rightarrow> t > as_of)"

definition active_match :: "retrieval_context \<Rightarrow> timestamp \<Rightarrow> policy_version \<Rightarrow> bool" where
  "active_match x as_of v \<longleftrightarrow> applicable_match x v \<and> effective_match as_of v"

text \<open>The versions the retrieval considers at all.\<close>

definition base_versions :: "uuid \<Rightarrow> database \<Rightarrow> policy_version list" where
  "base_versions organization_id db =
     filter (\<lambda>v. gpv_organization_id v = organization_id \<and> active_version v) (policy_versions db)"

definition active_versions :: "uuid \<Rightarrow> retrieval_context \<Rightarrow> timestamp \<Rightarrow> database \<Rightarrow> policy_version list" where
  "active_versions organization_id x as_of db = filter (active_match x as_of) (base_versions organization_id db)"

definition count_policies :: "policy_version list \<Rightarrow> int" where
  "count_policies vs = int (length (remdups (map gpv_policy_id vs)))"

definition retrieval_counts :: "uuid \<Rightarrow> retrieval_context \<Rightarrow> timestamp \<Rightarrow> database \<Rightarrow> int \<times> int \<times> int" where
  "retrieval_counts organization_id x as_of db =
     (let base = base_versions organization_id db in
      (count_policies (filter (category_match x) base), count_policies (filter (applicable_match x) base),
       count_policies (filter (active_match x as_of) base)))"

definition conflicting_scopes :: "uuid \<Rightarrow> retrieval_context \<Rightarrow> timestamp \<Rightarrow> database \<Rightarrow> string list" where
  "conflicting_scopes organization_id x as_of db =
     (let vs = active_versions organization_id x as_of db in
      filter (\<lambda>s. count_policies (filter (\<lambda>v. gpv_decision_scope v = s) vs) > 1)
        (sort (remdups (map gpv_decision_scope vs))))"

text \<open>The clauses of the active versions with their policy, in no particular order.\<close>

definition active_clauses ::
    "uuid \<Rightarrow> retrieval_context \<Rightarrow> timestamp \<Rightarrow> database \<Rightarrow> (policy_record \<times> policy_version \<times> policy_clause) list" where
  "active_clauses organization_id x as_of db =
     [(p, v, c). p \<leftarrow> policies db, v \<leftarrow> active_versions organization_id x as_of db, c \<leftarrow> policy_clauses db,
        gpv_organization_id v = pol_organization_id p \<and> gpv_policy_id v = pol_id p
        \<and> gpc_organization_id c = gpv_organization_id v \<and> gpc_policy_id c = gpv_policy_id v
        \<and> gpc_policy_version_id c = gpv_id v]"

definition clause_embeddings_of :: "uuid \<Rightarrow> policy_clause \<Rightarrow> database \<Rightarrow> clause_embedding list" where
  "clause_embeddings_of profile_id c db =
     filter (\<lambda>e. ce_organization_id e = gpc_organization_id c \<and> ce_clause_id e = gpc_id c
               \<and> ce_profile_id e = profile_id \<and> ce_source_content_hash e = gpc_content_hash c)
       (clause_embeddings db)"

definition active_index_is_complete ::
    "uuid \<Rightarrow> retrieval_context \<Rightarrow> timestamp \<Rightarrow> uuid \<Rightarrow> database \<Rightarrow> bool" where
  "active_index_is_complete organization_id x as_of profile_id db =
     (let rows = active_clauses organization_id x as_of db;
          indexed = concat (map (\<lambda>(p, v, c). clause_embeddings_of profile_id c db) rows)
      in rows \<noteq> [] \<and> length rows = length indexed)"

section \<open>Words\<close>

text \<open>\<open>re.findall(r"[a-z0-9]+", text)\<close>: the maximal runs; the first argument holds the current run.\<close>

definition is_token_char :: "char \<Rightarrow> bool" where
  "is_token_char c \<longleftrightarrow> (CHR ''a'' \<le> c \<and> c \<le> CHR ''z'') \<or> (CHR ''0'' \<le> c \<and> c \<le> CHR ''9'')"

fun token_runs :: "string \<Rightarrow> string \<Rightarrow> string list" where
  "token_runs acc [] = (if acc = [] then [] else [acc])"
| "token_runs acc (c # s) =
     (if is_token_char c then token_runs (acc @ [c]) s
      else if acc = [] then token_runs [] s else acc # token_runs [] s)"

fun dedup_first :: "'a list \<Rightarrow> 'a list \<Rightarrow> 'a list" where
  "dedup_first seen [] = []"
| "dedup_first seen (x # xs) = (if x \<in> set seen then dedup_first seen xs else x # dedup_first (x # seen) xs)"

definition lexical_stop_words :: "string list" where
  "lexical_stop_words =
     [''about'', ''after'', ''appears'', ''before'', ''because'', ''case'', ''check'', ''confirm'',
      ''customer'', ''from'', ''have'', ''into'', ''must'', ''policy'', ''request'', ''same'', ''support'',
      ''that'', ''their'', ''this'', ''with'']"

definition lexical_query_term_limit :: nat where
  "lexical_query_term_limit = 24"

definition lexical_websearch_query :: "string \<Rightarrow> string" where
  "lexical_websearch_query text =
     (let tokens = filter (\<lambda>t. length t \<ge> 3) (token_runs [] (str_lower text));
          terms = take lexical_query_term_limit
            (dedup_first [] (filter (\<lambda>t. t \<notin> set lexical_stop_words) tokens))
      in if terms = [] then ''unmatched'' else str_join '' OR '' terms)"

definition scoring_stop_words :: "string list" where
  "scoring_stop_words =
     [''a'', ''an'', ''and'', ''any'', ''are'', ''be'', ''been'', ''before'', ''being'', ''for'', ''i'', ''in'',
      ''is'', ''may'', ''my'', ''of'', ''on'', ''or'', ''that'', ''the'', ''this'', ''to'', ''was'', ''were'',
      ''with'']"

definition token_aliases :: "(string \<times> string) list" where
  "token_aliases =
     [(''charged'', ''charge''), (''charges'', ''charge''), (''charging'', ''charge''),
      (''credits'', ''credit''), (''duplicated'', ''duplicate''), (''duplicates'', ''duplicate'')]"

definition meaningful_terms :: "string \<Rightarrow> string list" where
  "meaningful_terms text =
     remdups (map (\<lambda>t. case map_of token_aliases t of None \<Rightarrow> t | Some a \<Rightarrow> a)
       (filter (\<lambda>t. t \<notin> set scoring_stop_words) (token_runs [] (str_lower text))))"

definition lexical_relevance :: "(nat \<Rightarrow> decimal) \<Rightarrow> string \<Rightarrow> string \<Rightarrow> decimal" where
  "lexical_relevance fsqrt query passage =
     (let qs = meaningful_terms query; ps = meaningful_terms passage in
      if qs = [] \<or> ps = [] then 0
      else of_nat (length (filter (\<lambda>t. t \<in> set ps) qs)) / fsqrt (length qs * length ps))"

section \<open>The searches\<close>

record retrieval_page =
  rp_category_matches :: int
  rp_applicable_matches :: int
  rp_active_matches :: int
  rp_truncated :: bool
  rp_conflicting_scopes :: "string list"
  rp_candidates :: "(policy_candidate \<times> decimal) list"

definition rank_rows ::
    "('k::linorder) list \<Rightarrow> (policy_record \<times> policy_version \<times> policy_clause) list
     \<Rightarrow> ('k \<times> policy_record \<times> policy_version \<times> policy_clause) list" where
  "rank_rows keys rows =
     sort_key fst (sort_key (\<lambda>(k, p, v, c). pol_public_id p) (sort_key (\<lambda>(k, p, v, c). - gpv_version v)
       (sort_key (\<lambda>(k, p, v, c). gpc_sequence c) (zip keys rows))))"

definition candidate_of :: "policy_record \<times> policy_version \<times> policy_clause \<Rightarrow> policy_candidate" where
  "candidate_of = (\<lambda>(p, v, c). \<lparr>pc_policy = p, pc_version = v, pc_clauses = [c]\<rparr>)"

definition search_retrieval_candidates ::
    "(decimal list \<Rightarrow> decimal list \<Rightarrow> decimal) \<Rightarrow> string \<Rightarrow> retrieval_context \<Rightarrow> timestamp \<Rightarrow> decimal list
     \<Rightarrow> string \<Rightarrow> int \<Rightarrow> database \<Rightarrow> error + retrieval_page" where
  "search_retrieval_candidates distance org_pid x as_of query_embedding embedding_version limit db =
     bindE (requireE (1 \<le> limit \<and> limit \<le> 256) (ValueError ''candidate_limit must be between 1 and 256'')) (\<lambda>_.
     bindE (someE (organization_of org_pid db) (PolicyNotFound ''The actor organization was not found.'')) (\<lambda>g.
     let (categories, applicable, active) = retrieval_counts (org_id g) x as_of db;
         conflicts = conflicting_scopes (org_id g) x as_of db;
         page = \<lparr>rp_category_matches = categories, rp_applicable_matches = applicable,
                 rp_active_matches = active, rp_truncated = False,
                 rp_conflicting_scopes = conflicts, rp_candidates = []\<rparr>
     in
     if active = 0 \<or> conflicts \<noteq> [] then Inr page
     else
       let rows = filter (\<lambda>(p, v, c). gpc_embedding_version c = embedding_version)
             (active_clauses (org_id g) x as_of db);
           ranked = take (nat limit)
             (rank_rows (map (\<lambda>(p, v, c). distance (gpc_embedding c) query_embedding) rows) rows)
       in Inr (page\<lparr>rp_candidates :=
            map (\<lambda>(d, r). (candidate_of r, max (- 1) (min 1 (1 - d)))) ranked\<rparr>)))"

record hybrid_page =
  hy_index_ready :: bool
  hy_category_matches :: int
  hy_applicable_matches :: int
  hy_active_matches :: int
  hy_conflicting_scopes :: "string list"
  hy_dense :: "policy_candidate list"
  hy_lexical :: "policy_candidate list"

definition plain_page :: "int \<times> int \<times> int \<Rightarrow> string list \<Rightarrow> bool \<Rightarrow> hybrid_page" where
  "plain_page counts conflicts ready =
     (let (categories, applicable, active) = counts in
      \<lparr>hy_index_ready = ready, hy_category_matches = categories, hy_applicable_matches = applicable,
       hy_active_matches = active, hy_conflicting_scopes = conflicts, hy_dense = [], hy_lexical = []\<rparr>)"

definition available_profile :: "string \<Rightarrow> database \<Rightarrow> embedding_profile option" where
  "available_profile profile_key db =
     find (\<lambda>e. ep_profile_key e = profile_key \<and> ep_status e \<in> {EP_BUILDING, EP_READY, EP_ACTIVE})
       (embedding_profiles db)"

definition index_ready :: "uuid \<Rightarrow> string \<Rightarrow> retrieval_context \<Rightarrow> timestamp \<Rightarrow> database \<Rightarrow> bool" where
  "index_ready organization_id profile_key x as_of db =
     (case available_profile profile_key db of None \<Rightarrow> False
      | Some e \<Rightarrow> active_index_is_complete organization_id x as_of (ep_id e) db)"

definition inspect_hybrid_scope ::
    "string \<Rightarrow> string \<Rightarrow> retrieval_context \<Rightarrow> timestamp \<Rightarrow> database \<Rightarrow> error + hybrid_page" where
  "inspect_hybrid_scope org_pid profile_key x as_of db =
     bindE (someE (organization_of org_pid db) (PolicyNotFound ''The actor organization was not found.'')) (\<lambda>g.
     let counts = retrieval_counts (org_id g) x as_of db;
         conflicts = conflicting_scopes (org_id g) x as_of db
     in
     if snd (snd counts) = 0 \<or> conflicts \<noteq> [] then Inr (plain_page counts conflicts False)
     else Inr (plain_page counts [] (index_ready (org_id g) profile_key x as_of db)))"

definition indexed_rows ::
    "uuid \<Rightarrow> retrieval_context \<Rightarrow> timestamp \<Rightarrow> uuid \<Rightarrow> database
     \<Rightarrow> ((policy_record \<times> policy_version \<times> policy_clause) \<times> clause_embedding) list" where
  "indexed_rows organization_id x as_of profile_id db =
     [((p, v, c), e). (p, v, c) \<leftarrow> active_clauses organization_id x as_of db,
        e \<leftarrow> clause_embeddings_of profile_id c db]"

definition dense_candidates ::
    "(decimal list \<Rightarrow> decimal list \<Rightarrow> decimal) \<Rightarrow> decimal list \<Rightarrow> nat
     \<Rightarrow> ((policy_record \<times> policy_version \<times> policy_clause) \<times> clause_embedding) list \<Rightarrow> policy_candidate list" where
  "dense_candidates distance query_embedding limit rows =
     (let near = filter (\<lambda>(r, e). distance (ce_embedding e) query_embedding \<le> 55 / 100) rows
      in map (candidate_of \<circ> snd)
           (take limit (rank_rows (map (\<lambda>(r, e). distance (ce_embedding e) query_embedding) near) (map fst near))))"

definition lexical_candidates ::
    "(string \<Rightarrow> string \<Rightarrow> bool) \<Rightarrow> (string \<Rightarrow> string \<Rightarrow> decimal) \<Rightarrow> string \<Rightarrow> nat
     \<Rightarrow> ((policy_record \<times> policy_version \<times> policy_clause) \<times> clause_embedding) list \<Rightarrow> policy_candidate list" where
  "lexical_candidates matches rank query limit rows =
     (let found = filter (\<lambda>(p, v, c). matches (gpc_search_vector c) query
                            \<and> rank (gpc_search_vector c) query > 5 / 100) (map fst rows)
      in map (candidate_of \<circ> snd)
           (take limit (rank_rows (map (\<lambda>(p, v, c). - rank (gpc_search_vector c) query) found) found)))"

definition search_hybrid_candidates ::
    "(decimal list \<Rightarrow> decimal list \<Rightarrow> decimal) \<Rightarrow> (string \<Rightarrow> string \<Rightarrow> bool) \<Rightarrow> (string \<Rightarrow> string \<Rightarrow> decimal)
     \<Rightarrow> string \<Rightarrow> string \<Rightarrow> retrieval_context \<Rightarrow> timestamp \<Rightarrow> string \<Rightarrow> decimal list \<Rightarrow> int \<Rightarrow> database
     \<Rightarrow> error + hybrid_page" where
  "search_hybrid_candidates distance matches rank org_pid profile_key x as_of query_text query_embedding limit db =
     bindE (requireE (1 \<le> limit \<and> limit \<le> 64) (ValueError ''candidate_limit must be between 1 and 64'')) (\<lambda>_.
     bindE (someE (organization_of org_pid db) (PolicyNotFound ''The actor organization was not found.'')) (\<lambda>g.
     let counts = retrieval_counts (org_id g) x as_of db;
         conflicts = conflicting_scopes (org_id g) x as_of db
     in
     if snd (snd counts) = 0 \<or> conflicts \<noteq> [] then Inr (plain_page counts conflicts False)
     else (case available_profile profile_key db of
        None \<Rightarrow> Inr (plain_page counts [] False)
      | Some e \<Rightarrow>
          if \<not> active_index_is_complete (org_id g) x as_of (ep_id e) db then Inr (plain_page counts [] False)
          else
            let rows = indexed_rows (org_id g) x as_of (ep_id e) db in
            Inr ((plain_page counts [] True)
              \<lparr>hy_dense := dense_candidates distance query_embedding (nat limit) rows,
               hy_lexical := lexical_candidates matches rank (lexical_websearch_query query_text) (nat limit) rows\<rparr>))))"

section \<open>Fusion\<close>

record ranked_clause =
  rk_candidate :: policy_candidate
  rk_dense_rank :: "int option"
  rk_lexical_rank :: "int option"
  rk_fused_score :: decimal

datatype rank_source = DENSE | LEXICAL

definition rrf_constant :: int where
  "rrf_constant = 60"

definition first_clause :: "policy_candidate \<Rightarrow> policy_clause" where
  "first_clause c = hd (pc_clauses c)"

definition add_rank :: "rank_source \<Rightarrow> int \<Rightarrow> ranked_clause \<Rightarrow> ranked_clause" where
  "add_rank source rank item =
     (let scored = item\<lparr>rk_fused_score := rk_fused_score item + 1 / of_int (rrf_constant + rank)\<rparr> in
      if source = DENSE then scored\<lparr>rk_dense_rank := Some rank\<rparr> else scored\<lparr>rk_lexical_rank := Some rank\<rparr>)"

text \<open>The accumulator is the dictionary in insertion order; its key is the id of the clause.\<close>

definition accumulate_one ::
    "rank_source \<Rightarrow> int \<times> policy_candidate \<Rightarrow> ranked_clause list \<Rightarrow> error + ranked_clause list" where
  "accumulate_one source = (\<lambda>(rank, c) target.
     bindE (requireE (length (pc_clauses c) = 1)
              (ValueError ''Each ranking item must contain exactly one clause.'')) (\<lambda>_.
     let key = gpc_id (first_clause c) in
     Inr (if list_ex (\<lambda>r. gpc_id (first_clause (rk_candidate r)) = key) target
          then map (\<lambda>r. if gpc_id (first_clause (rk_candidate r)) = key then add_rank source rank r else r) target
          else target @ [add_rank source rank
            \<lparr>rk_candidate = c, rk_dense_rank = None, rk_lexical_rank = None, rk_fused_score = 0\<rparr>])))"

definition accumulate :: "rank_source \<Rightarrow> policy_candidate list \<Rightarrow> ranked_clause list \<Rightarrow> error + ranked_clause list" where
  "accumulate source ranking target =
     foldE (accumulate_one source) (zip (map int [1..<Suc (length ranking)]) ranking) target"

definition fuse_rankings :: "policy_candidate list \<Rightarrow> policy_candidate list \<Rightarrow> error + ranked_clause list" where
  "fuse_rankings dense lexical =
     bindE (accumulate DENSE dense []) (\<lambda>t.
     bindE (accumulate LEXICAL lexical t) (\<lambda>ranked.
     Inr (sort_key (\<lambda>r. - rk_fused_score r)
       (sort_key (\<lambda>r. pol_public_id (pc_policy (rk_candidate r)))
         (sort_key (\<lambda>r. - gpv_version (pc_version (rk_candidate r)))
           (sort_key (\<lambda>r. gpc_sequence (first_clause (rk_candidate r))) ranked))))))"

text \<open>The loop of \<open>select_diverse\<close>: the items chosen so far hold the counts per policy.\<close>

definition policy_of :: "ranked_clause \<Rightarrow> uuid" where
  "policy_of r = pol_id (pc_policy (rk_candidate r))"

fun select_loop :: "nat \<Rightarrow> nat \<Rightarrow> ranked_clause list \<Rightarrow> ranked_clause list \<Rightarrow> ranked_clause list" where
  "select_loop limit per_policy selected [] = selected"
| "select_loop limit per_policy selected (r # rs) =
     (if length (filter (\<lambda>s. policy_of s = policy_of r) selected) \<ge> per_policy
      then select_loop limit per_policy selected rs
      else let chosen = selected @ [r] in
           if length chosen = limit then chosen else select_loop limit per_policy chosen rs)"

definition select_diverse :: "nat \<Rightarrow> nat \<Rightarrow> ranked_clause list \<Rightarrow> error + ranked_clause list" where
  "select_diverse limit per_policy ranked =
     bindE (requireE (1 \<le> limit \<and> 1 \<le> per_policy) (ValueError ''Retrieval limits must be positive.'')) (\<lambda>_.
     let effective = (if length (remdups (map policy_of ranked)) \<le> 1 then limit else per_policy)
     in Inr (select_loop limit effective [] ranked))"

section \<open>Resolutions\<close>

record policy_binding =
  pbd_policy :: policy_record
  pbd_version :: policy_version
  pbd_clause :: policy_clause
  pbd_retrieval_score :: decimal
  pbd_applicability :: string
  pbd_fingerprint :: string
  pbd_embedding_profile_key :: "string option"
  pbd_retrieval_algorithm_version :: "string option"
  pbd_query_fingerprint :: "string option"
  pbd_dense_rank :: "int option"
  pbd_lexical_rank :: "int option"
  pbd_fused_retrieval_score :: "decimal option"
  pbd_retrieval_run_correlation_id :: "string option"

record retrieval_resolution =
  rr2_status :: evidence_retrieval_status
  rr2_reason :: string
  rr2_bindings :: "policy_binding list"

definition first_state :: "(bool \<times> evidence_retrieval_status \<times> string) list \<Rightarrow> retrieval_resolution option" where
  "first_state states =
     map_option (\<lambda>(b, status, reason). \<lparr>rr2_status = status, rr2_reason = reason, rr2_bindings = []\<rparr>)
       (find fst states)"

definition guard_search :: "retrieval_page \<Rightarrow> retrieval_resolution option" where
  "guard_search s = first_state
     [(rp_category_matches s = 0, ER_MISSING, ''No published policy covers this case category.''),
      (rp_applicable_matches s = 0, ER_INAPPLICABLE,
       ''Published policies exist but do not match this case context.''),
      (rp_active_matches s = 0, ER_STALE, ''Matching policy versions are outside their effective dates.''),
      (rp_truncated s, ER_CONFLICTING, ''Policy retrieval could not safely rule out a conflict.''),
      (rp_conflicting_scopes s \<noteq> [], ER_CONFLICTING,
       ''Multiple published policies claim the same decision scope.'')]"

definition guard_scope :: "hybrid_page \<Rightarrow> retrieval_resolution option" where
  "guard_scope s = first_state
     [(hy_category_matches s = 0, ER_MISSING, ''No published policy covers this case category.''),
      (hy_applicable_matches s = 0, ER_INAPPLICABLE,
       ''Published policies exist but do not match this case context.''),
      (hy_active_matches s = 0, ER_STALE, ''Matching policy versions are outside their effective dates.''),
      (hy_conflicting_scopes s \<noteq> [], ER_CONFLICTING,
       ''Multiple published policies claim the same decision scope.''),
      (\<not> hy_index_ready s, ER_MISSING,
       ''Policy search is temporarily unavailable while its index is updated.'')]"

definition missing_relevant :: retrieval_resolution where
  "missing_relevant = \<lparr>rr2_status = ER_MISSING, rr2_reason = ''No policy clause is relevant enough to cite.'',
                       rr2_bindings = []\<rparr>"

definition relevant_resolution :: "policy_binding list \<Rightarrow> retrieval_resolution" where
  "relevant_resolution bs = \<lparr>rr2_status = ER_RELEVANT, rr2_reason = ''Recorded policy evidence is available.'',
                             rr2_bindings = bs\<rparr>"

text \<open>The first version keeps the preferred clause of each policy.\<close>

type_synonym preference = "bool \<times> decimal \<times> decimal \<times> int"

fun preferred :: "preference \<Rightarrow> preference \<Rightarrow> bool" where
  "preferred (a, b, c, d) (a', b', c', d') \<longleftrightarrow>
     (a \<and> \<not> a') \<or> (a = a' \<and> (b > b' \<or> (b = b' \<and> (c > c' \<or> (c = c' \<and> d > d')))))"

definition v1_score :: "(nat \<Rightarrow> decimal) \<Rightarrow> string \<Rightarrow> policy_candidate \<times> decimal \<Rightarrow> decimal" where
  "v1_score fsqrt query_text = (\<lambda>(c, score).
     max score (lexical_relevance fsqrt query_text (gpc_text (first_clause c))))"

definition v1_preference :: "(nat \<Rightarrow> decimal) \<Rightarrow> string \<Rightarrow> policy_candidate \<times> decimal \<Rightarrow> preference" where
  "v1_preference fsqrt query_text = (\<lambda>(c, score).
     let lexical = lexical_relevance fsqrt query_text (gpc_text (first_clause c))
     in (lexical \<ge> 15 / 100, lexical, score, - gpc_sequence (first_clause c)))"

definition v1_binding ::
    "(string \<Rightarrow> string) \<Rightarrow> (nat \<Rightarrow> decimal) \<Rightarrow> case_workspace \<Rightarrow> string \<Rightarrow> policy_candidate \<times> decimal
     \<Rightarrow> policy_binding" where
  "v1_binding sha fsqrt ws query_text r =
     (let c = fst r; label = context_label (case_context ws) (gpv_decision_scope (pc_version c)) in
      \<lparr>pbd_policy = pc_policy c, pbd_version = pc_version c, pbd_clause = first_clause c,
       pbd_retrieval_score = v1_score fsqrt query_text r, pbd_applicability = label,
       pbd_fingerprint = sha (str_join ''|''
         [cs_public_id (ws_case ws), pol_public_id (pc_policy c), int_str (gpv_version (pc_version c)),
          gpv_content_hash (pc_version c), gpc_content_hash (first_clause c), label]),
       pbd_embedding_profile_key = None, pbd_retrieval_algorithm_version = None,
       pbd_query_fingerprint = None, pbd_dense_rank = None, pbd_lexical_rank = None,
       pbd_fused_retrieval_score = None, pbd_retrieval_run_correlation_id = None\<rparr>)"

fun keep_preferred ::
    "preference \<times> policy_binding \<Rightarrow> (preference \<times> policy_binding) list \<Rightarrow> (preference \<times> policy_binding) list" where
  "keep_preferred x [] = [x]"
| "keep_preferred x (y # ys) =
     (if pol_public_id (pbd_policy (snd y)) = pol_public_id (pbd_policy (snd x))
      then (if preferred (fst x) (fst y) then x else y) # ys
      else y # keep_preferred x ys)"

definition v1_bindings ::
    "(string \<Rightarrow> string) \<Rightarrow> (nat \<Rightarrow> decimal) \<Rightarrow> case_workspace \<Rightarrow> string \<Rightarrow> retrieval_page \<Rightarrow> policy_binding list" where
  "v1_bindings sha fsqrt ws query_text page =
     (let scored = filter (\<lambda>r. \<not> v1_score fsqrt query_text r < 15 / 100) (rp_candidates page);
          kept = fold (\<lambda>r. keep_preferred (v1_preference fsqrt query_text r, v1_binding sha fsqrt ws query_text r))
                   scored []
      in sort_key (\<lambda>b. - pbd_retrieval_score b) (sort_key (\<lambda>b. pol_public_id (pbd_policy b))
           (sort_key (\<lambda>b. gpc_sequence (pbd_clause b)) (map snd kept))))"

definition v1_rank ::
    "(string \<Rightarrow> string) \<Rightarrow> (nat \<Rightarrow> decimal) \<Rightarrow> case_workspace \<Rightarrow> string \<Rightarrow> retrieval_page \<Rightarrow> retrieval_resolution" where
  "v1_rank sha fsqrt ws query_text page =
     (case guard_search page of Some r \<Rightarrow> r
      | None \<Rightarrow> (let bs = v1_bindings sha fsqrt ws query_text page
                in if bs = [] then missing_relevant else relevant_resolution bs))"

definition v1_resolve ::
    "(string \<Rightarrow> string) \<Rightarrow> (nat \<Rightarrow> decimal) \<Rightarrow> (decimal list \<Rightarrow> decimal list \<Rightarrow> decimal) \<Rightarrow> string
     \<Rightarrow> (string \<Rightarrow> decimal list) \<Rightarrow> actor_context \<Rightarrow> case_workspace \<Rightarrow> timestamp \<Rightarrow> database
     \<Rightarrow> error + retrieval_resolution" where
  "v1_resolve sha fsqrt distance embedding_version embed_text actor ws as_of db =
     (let query_text = cs_issue (ws_case ws) @ '' '' @ crq_summary (ws_request ws) in
      bindE (search_retrieval_candidates distance (actor_organization_id actor) (case_context ws) as_of
               (embed_text query_text) embedding_version 64 db) (\<lambda>page.
      Inr (v1_rank sha fsqrt ws query_text page)))"

definition rrf_algorithm_version :: string where
  "rrf_algorithm_version = ''policy-hybrid-rrf-v2''"

definition v2_binding ::
    "(string \<Rightarrow> string) \<Rightarrow> case_workspace \<Rightarrow> string \<Rightarrow> string \<Rightarrow> string \<Rightarrow> ranked_clause \<Rightarrow> policy_binding" where
  "v2_binding sha ws profile_key query_fingerprint correlation_id item =
     (let c = rk_candidate item; label = context_label (case_context ws) (gpv_decision_scope (pc_version c)) in
      \<lparr>pbd_policy = pc_policy c, pbd_version = pc_version c, pbd_clause = first_clause c,
       pbd_retrieval_score = rk_fused_score item, pbd_applicability = label,
       pbd_fingerprint = sha (str_join ''|''
         [cs_public_id (ws_case ws), pol_public_id (pc_policy c), gpv_content_hash (pc_version c),
          gpc_content_hash (first_clause c), label, profile_key, rrf_algorithm_version, query_fingerprint]),
       pbd_embedding_profile_key = Some profile_key,
       pbd_retrieval_algorithm_version = Some rrf_algorithm_version,
       pbd_query_fingerprint = Some query_fingerprint, pbd_dense_rank = rk_dense_rank item,
       pbd_lexical_rank = rk_lexical_rank item, pbd_fused_retrieval_score = Some (rk_fused_score item),
       pbd_retrieval_run_correlation_id = Some correlation_id\<rparr>)"

definition v2_rank ::
    "(string \<Rightarrow> string) \<Rightarrow> case_workspace \<Rightarrow> string \<Rightarrow> string \<Rightarrow> string \<Rightarrow> hybrid_page \<Rightarrow> error + retrieval_resolution" where
  "v2_rank sha ws profile_key query_fingerprint correlation_id search =
     (case guard_scope search of Some r \<Rightarrow> Inr r
      | None \<Rightarrow>
      bindE (fuse_rankings (hy_dense search) (hy_lexical search)) (\<lambda>fused.
      bindE (select_diverse 3 2 fused) (\<lambda>ranked.
      Inr (if ranked = [] then missing_relevant
           else relevant_resolution
             (map (v2_binding sha ws profile_key query_fingerprint correlation_id) ranked)))))"

text \<open>\<open>minimize\<close> is the query that \<open>build_policy_query\<close> makes of the workspace, with its fingerprint.\<close>

definition v2_resolve ::
    "(string \<Rightarrow> string) \<Rightarrow> (decimal list \<Rightarrow> decimal list \<Rightarrow> decimal) \<Rightarrow> (string \<Rightarrow> string \<Rightarrow> bool)
     \<Rightarrow> (string \<Rightarrow> string \<Rightarrow> decimal) \<Rightarrow> (case_workspace \<Rightarrow> error + string \<times> string) \<Rightarrow> (string \<Rightarrow> decimal list)
     \<Rightarrow> string \<Rightarrow> actor_context \<Rightarrow> case_workspace \<Rightarrow> timestamp \<Rightarrow> string \<Rightarrow> database
     \<Rightarrow> error + retrieval_resolution" where
  "v2_resolve sha distance matches rank minimize embed_text profile_key actor ws as_of correlation_id db =
     (let x = case_context ws; org_pid = actor_organization_id actor in
      bindE (inspect_hybrid_scope org_pid profile_key x as_of db) (\<lambda>scope.
      case guard_scope scope of Some r \<Rightarrow> Inr r
      | None \<Rightarrow>
      bindE (minimize ws) (\<lambda>(query_text, query_fingerprint).
      bindE (search_hybrid_candidates distance matches rank org_pid profile_key x as_of query_text
               (embed_text query_text) 32 db) (\<lambda>search.
      v2_rank sha ws profile_key query_fingerprint correlation_id search))))"

datatype retrieval_mode = MODE_V1 | MODE_V2_SHADOW | MODE_V2

text \<open>The facade; in the shadow mode the second version only leaves log records.\<close>

definition facade_resolve ::
    "retrieval_mode \<Rightarrow> error + retrieval_resolution \<Rightarrow> (error + retrieval_resolution) option
     \<Rightarrow> error + retrieval_resolution" where
  "facade_resolve mode v1 v2 =
     bindE (requireE (\<not> (mode \<noteq> MODE_V1 \<and> v2 = None))
              (ValueError ''RAG V2 mode requires a V2 retrieval implementation.'')) (\<lambda>_.
     case (mode, v2) of (MODE_V2, Some r) \<Rightarrow> r | _ \<Rightarrow> v1)"

end
