(* ===== verification/Policy_Evidence.thy ===== *)
theory Policy_Evidence
  imports Policy_Retrieval Cases
begin

text \<open>
  Binding of the retrieved clauses to a case: \<open>persistence/policies/evidence.py\<close>,
  \<open>list_evidence_for_case\<close> of \<open>queries.py\<close> and \<open>services/policy_evidence_service.py\<close>. The parameters of
  the retrieval are collected in a record; the clock readings, primary keys and random codes of the
  rows of a binding are indexed by its position.
\<close>

section \<open>Rows\<close>

definition policy_evidence_checks :: "policy_evidence \<Rightarrow> bool" where
  "policy_evidence_checks e \<longleftrightarrow> - 1 \<le> cpe_retrieval_score e \<and> cpe_retrieval_score e \<le> 1
     \<and> (case cpe_fused_retrieval_score e of None \<Rightarrow> True | Some s \<Rightarrow> 0 \<le> s)"

definition policy_evidence_clash :: "policy_evidence \<Rightarrow> policy_evidence \<Rightarrow> bool" where
  "policy_evidence_clash a b \<longleftrightarrow> cpe_organization_id a = cpe_organization_id b
     \<and> (cpe_public_id a = cpe_public_id b
        \<or> (cpe_case_id a = cpe_case_id b \<and> cpe_fingerprint a = cpe_fingerprint b))"

definition insert_policy_evidence :: "policy_evidence \<Rightarrow> database \<Rightarrow> error + database" where
  "insert_policy_evidence r db =
     bindE (insert_row cpe_id policy_evidence_checks policy_evidence_clash ''case_policy_evidence'' r
              (policy_evidence_rows db))
       (\<lambda>rows. Inr (db\<lparr>policy_evidence_rows := rows\<rparr>))"

record evidence_ids =
  ei_row :: "nat \<Rightarrow> uuid"
  ei_code :: "nat \<Rightarrow> string"
  ei_now :: "nat \<Rightarrow> timestamp"
  ei_audit :: uuid
  ei_audit_now :: timestamp

definition new_evidence :: "evidence_ids \<Rightarrow> nat \<Rightarrow> case_row \<Rightarrow> policy_binding \<Rightarrow> policy_evidence" where
  "new_evidence ids i c b =
     \<lparr>cpe_id = ei_row ids i, cpe_public_id = ''EVD-'' @ ei_code ids i,
      cpe_organization_id = cs_organization_id c, cpe_case_id = cs_id c,
      cpe_policy_id = pol_id (pbd_policy b), cpe_policy_version_id = gpv_id (pbd_version b),
      cpe_clause_id = gpc_id (pbd_clause b),
      cpe_citation = pol_title (pbd_policy b) @ '', '' @ gpc_heading (pbd_clause b),
      cpe_excerpt = gpc_text (pbd_clause b), cpe_applicability = pbd_applicability b,
      cpe_fingerprint = pbd_fingerprint b, cpe_freshness = EF_CURRENT, cpe_conflict_state = CF_NONE,
      cpe_retrieval_score = pbd_retrieval_score b,
      cpe_policy_content_hash = gpv_content_hash (pbd_version b),
      cpe_clause_content_hash = gpc_content_hash (pbd_clause b),
      cpe_effective_from = gpv_effective_from (pbd_version b),
      cpe_effective_to = gpv_effective_to (pbd_version b),
      cpe_corpus_version = ''governed-policy-corpus-v1'',
      cpe_chunking_version = gpc_chunking_version (pbd_clause b),
      cpe_embedding_version = gpc_embedding_version (pbd_clause b),
      cpe_index_version = gpc_index_version (pbd_clause b),
      cpe_embedding_profile_key = pbd_embedding_profile_key b,
      cpe_retrieval_algorithm_version = pbd_retrieval_algorithm_version b,
      cpe_query_fingerprint = pbd_query_fingerprint b, cpe_dense_rank = pbd_dense_rank b,
      cpe_lexical_rank = pbd_lexical_rank b, cpe_fused_retrieval_score = pbd_fused_retrieval_score b,
      cpe_retrieval_run_correlation_id = pbd_retrieval_run_correlation_id b,
      cpe_recorded_at = ei_now ids i\<rparr>"

section \<open>The repository\<close>

definition policy_required_case :: "string \<Rightarrow> string \<Rightarrow> database \<Rightarrow> error + case_row" where
  "policy_required_case org_pid case_pid db =
     someE (find (\<lambda>c. cs_public_id c = case_pid
                   \<and> list_ex (\<lambda>g. org_id g = cs_organization_id c \<and> org_public_id g = org_pid)
                       (organizations db)) (cases db))
       (PolicyNotFound ''The case was not found.'')"

definition binding_is_current :: "case_row \<Rightarrow> policy_binding \<Rightarrow> policy_version \<Rightarrow> bool" where
  "binding_is_current c b v \<longleftrightarrow> gpv_id v = gpv_id (pbd_version b)
     \<and> gpv_organization_id v = cs_organization_id c \<and> gpv_policy_id v = pol_id (pbd_policy b)
     \<and> gpv_record_version v = gpv_record_version (pbd_version b) \<and> active_version v"

text \<open>The insertion does nothing when the case holds evidence with the fingerprint already.\<close>

definition bind_one ::
    "evidence_ids \<Rightarrow> case_row \<Rightarrow> nat \<times> policy_binding \<Rightarrow> evidence_bundle list \<times> database
     \<Rightarrow> error + evidence_bundle list \<times> database" where
  "bind_one ids c = (\<lambda>(i, b) (bundles, db).
     bindE (if list_ex (binding_is_current c b) (policy_versions db) then Inr ()
            else Inl (PolicyVersionConcurrencyConflict (gpv_record_version (pbd_version b))
              (case find (\<lambda>v. gpv_id v = gpv_id (pbd_version b) \<and> gpv_organization_id v = cs_organization_id c)
                     (policy_versions db) of
                 None \<Rightarrow> 1 | Some v \<Rightarrow> if gpv_record_version v = 0 then 1 else gpv_record_version v))) (\<lambda>_.
     bindE (case find (\<lambda>e. cpe_organization_id e = cs_organization_id c \<and> cpe_case_id e = cs_id c
                         \<and> cpe_fingerprint e = pbd_fingerprint b) (policy_evidence_rows db) of
              Some e \<Rightarrow> Inr (e, db)
            | None \<Rightarrow> bindE (insert_policy_evidence (new_evidence ids i c b) db)
                (\<lambda>db1. Inr (new_evidence ids i c b, db1))) (\<lambda>(e, db1).
     Inr (bundles @ [\<lparr>eb_evidence = e, eb_policy = pbd_policy b, eb_version = pbd_version b,
                      eb_clause = pbd_clause b\<rparr>], db1))))"

definition bind_evidence ::
    "evidence_ids \<Rightarrow> string \<Rightarrow> string \<Rightarrow> string \<Rightarrow> string \<Rightarrow> policy_binding list \<Rightarrow> string \<Rightarrow> database
     \<Rightarrow> error + evidence_bundle list \<times> database" where
  "bind_evidence ids org_pid case_pid actor actor_type bindings correlation_id db =
     bindE (policy_required_case org_pid case_pid db) (\<lambda>c.
     bindE (foldE (bind_one ids c) (zip [0..<length bindings] bindings) ([], db)) (\<lambda>(bundles, db1).
     if bindings = [] then Inr (bundles, db1)
     else
     bindE (insert_audit
       \<lparr>au_id = ei_audit ids, au_organization_id = Some (cs_organization_id c), au_task_id = None,
        au_run_id = None, au_event_type = ''case.policy_evidence_recorded'', au_actor_type = actor_type,
        au_actor_id = Some actor, au_subject_type = Some ''case'', au_subject_id = Some (cs_public_id c),
        au_summary = Some ''Applicable policy evidence recorded.'',
        au_data = JObj [(''fingerprints'', JList (map (\<lambda>b. JStr (pbd_fingerprint b)) bindings))],
        au_correlation_id = correlation_id, au_occurred_at = ei_audit_now ids\<rparr> db1) (\<lambda>db2.
     Inr (bundles, db2))))"

definition list_evidence_for_case :: "string \<Rightarrow> string \<Rightarrow> database \<Rightarrow> evidence_bundle list" where
  "list_evidence_for_case org_pid case_pid db =
     [\<lparr>eb_evidence = e, eb_policy = p, eb_version = v, eb_clause = k\<rparr>.
        e \<leftarrow> sort_key cpe_recorded_at (sort_key cpe_public_id (policy_evidence_rows db)),
        p \<leftarrow> policies db, v \<leftarrow> policy_versions db, k \<leftarrow> policy_clauses db, c \<leftarrow> cases db,
        pol_organization_id p = cpe_organization_id e \<and> pol_id p = cpe_policy_id e
        \<and> gpv_organization_id v = cpe_organization_id e \<and> gpv_id v = cpe_policy_version_id e
        \<and> gpc_organization_id k = cpe_organization_id e \<and> gpc_id k = cpe_clause_id e
        \<and> cs_organization_id c = cpe_organization_id e \<and> cs_id c = cpe_case_id e
        \<and> cs_public_id c = case_pid
        \<and> list_ex (\<lambda>g. org_id g = cs_organization_id c \<and> org_public_id g = org_pid) (organizations db)]"

section \<open>The service\<close>

record retrieval_setup =
  rt_mode :: retrieval_mode
  rt_has_v2 :: bool
  rt_sha :: "string \<Rightarrow> string"
  rt_sqrt :: "nat \<Rightarrow> decimal"
  rt_distance :: "decimal list \<Rightarrow> decimal list \<Rightarrow> decimal"
  rt_matches :: "string \<Rightarrow> string \<Rightarrow> bool"
  rt_rank :: "string \<Rightarrow> string \<Rightarrow> decimal"
  rt_minimize :: "case_workspace \<Rightarrow> error + string \<times> string"
  rt_v1_version :: string
  rt_v1_embed :: "string \<Rightarrow> decimal list"
  rt_v2_embed :: "string \<Rightarrow> decimal list"
  rt_profile_key :: string

definition resolve_bindings ::
    "retrieval_setup \<Rightarrow> actor_context \<Rightarrow> case_workspace \<Rightarrow> timestamp \<Rightarrow> string \<Rightarrow> database
     \<Rightarrow> error + retrieval_resolution" where
  "resolve_bindings rt actor ws as_of correlation_id db =
     facade_resolve (rt_mode rt)
       (v1_resolve (rt_sha rt) (rt_sqrt rt) (rt_distance rt) (rt_v1_version rt) (rt_v1_embed rt) actor ws as_of db)
       (if rt_has_v2 rt
        then Some (v2_resolve (rt_sha rt) (rt_distance rt) (rt_matches rt) (rt_rank rt) (rt_minimize rt)
                     (rt_v2_embed rt) (rt_profile_key rt) actor ws as_of correlation_id db)
        else None)"

definition evidence_workspace :: "actor_context \<Rightarrow> string \<Rightarrow> database \<Rightarrow> error + case_workspace" where
  "evidence_workspace actor case_id db =
     bindE (get_workspace (actor_organization_id actor) case_id db) (\<lambda>w.
     someE w (PolicyNotFound ''The case was not found.''))"

definition service_list_evidence :: "actor_context \<Rightarrow> string \<Rightarrow> database \<Rightarrow> error + evidence_bundle list" where
  "service_list_evidence actor case_id db =
     bindE (require_permission actor CASE_READ) (\<lambda>_.
     bindE (require_permission actor POLICY_READ) (\<lambda>_.
     Inr (list_evidence_for_case (actor_organization_id actor) case_id db)))"

definition refresh_for_case ::
    "retrieval_setup \<Rightarrow> evidence_ids \<Rightarrow> actor_context \<Rightarrow> string \<Rightarrow> string \<Rightarrow> timestamp \<Rightarrow> database
     \<Rightarrow> error + evidence_result \<times> database" where
  "refresh_for_case rt ids actor case_id correlation_id as_of db =
     bindE (require_permission actor CASE_MANAGE) (\<lambda>_.
     bindE (require_permission actor POLICY_READ) (\<lambda>_.
     bindE (evidence_workspace actor case_id db) (\<lambda>ws.
     bindE (resolve_bindings rt actor ws as_of correlation_id db) (\<lambda>r.
     if rr2_status r \<noteq> ER_RELEVANT
     then Inr (\<lparr>er_status = rr2_status r, er_reason = rr2_reason r, er_evidence = []\<rparr>, db)
     else
     bindE (bind_evidence ids (actor_organization_id actor) case_id (actor_id actor)
              (actor_kind_value (actor_kind actor)) (rr2_bindings r) correlation_id db) (\<lambda>(bundles, db1).
     Inr (\<lparr>er_status = ER_RELEVANT, er_reason = rr2_reason r, er_evidence = bundles\<rparr>, db1))))))"

definition evidence_snapshot :: "evidence_bundle list \<Rightarrow> (string list) list" where
  "evidence_snapshot bs =
     map (\<lambda>b. [pol_public_id (eb_policy b), gpv_public_id (eb_version b), gpv_content_hash (eb_version b),
               gpc_public_id (eb_clause b), gpc_content_hash (eb_clause b), cpe_fingerprint (eb_evidence b)]) bs"

definition binding_snapshot :: "policy_binding list \<Rightarrow> (string list) list" where
  "binding_snapshot bs =
     map (\<lambda>b. [pol_public_id (pbd_policy b), gpv_public_id (pbd_version b), gpv_content_hash (pbd_version b),
               gpc_public_id (pbd_clause b), gpc_content_hash (pbd_clause b), pbd_fingerprint b]) bs"

definition is_current_for_case ::
    "retrieval_setup \<Rightarrow> actor_context \<Rightarrow> string \<Rightarrow> evidence_result \<Rightarrow> timestamp \<Rightarrow> database \<Rightarrow> error + bool" where
  "is_current_for_case rt actor case_id expected now db =
     bindE (require_permission actor CASE_MANAGE) (\<lambda>_.
     bindE (require_permission actor POLICY_READ) (\<lambda>_.
     bindE (evidence_workspace actor case_id db) (\<lambda>ws.
     bindE (resolve_bindings rt actor ws now ''freshness-check'' db) (\<lambda>r.
     Inr (if rr2_status r \<noteq> er_status expected then False
          else if rr2_status r \<noteq> ER_RELEVANT then er_evidence expected = []
          else set (binding_snapshot (rr2_bindings r)) = set (evidence_snapshot (er_evidence expected)))))))"

end
