(* ===== verification/Policy_Service.thy ===== *)
theory Policy_Service
  imports Policies
begin

text \<open>
  The commands of \<open>services/policy_service.py\<close>: permissions, the parsing and indexing of sources, the
  transitions a status allows and the check for overlapping authority before an activation.
\<close>

section \<open>Overlapping authority\<close>

definition datetime_min :: timestamp where
  "datetime_min = seconds (- 62135596800)"

definition datetime_max :: timestamp where
  "datetime_max = seconds 253402300800 - 1"

definition dimensions_overlap :: "string list \<Rightarrow> string list \<Rightarrow> bool" where
  "dimensions_overlap left right \<longleftrightarrow>
     ''all'' \<in> set left \<or> ''all'' \<in> set right \<or> list_ex (\<lambda>x. x \<in> set right) left"

definition time_windows_overlap ::
    "timestamp option \<Rightarrow> timestamp option \<Rightarrow> timestamp option \<Rightarrow> timestamp option \<Rightarrow> bool" where
  "time_windows_overlap left_from left_to right_from right_to \<longleftrightarrow>
     (let from = (\<lambda>t. case t of None \<Rightarrow> datetime_min | Some x \<Rightarrow> x);
          upto = (\<lambda>t. case t of None \<Rightarrow> datetime_max | Some x \<Rightarrow> x)
      in max (from left_from) (from right_from) < min (upto left_to) (upto right_to))"

definition find_conflicts ::
    "policy_version \<Rightarrow> string \<Rightarrow> timestamp \<Rightarrow> policy_candidate list \<Rightarrow> string list" where
  "find_conflicts v policy_pid effective_from candidates =
     sort (remdups (map (\<lambda>c. pol_public_id (pc_policy c))
       (filter (\<lambda>c. let w = pc_version c in
            pol_public_id (pc_policy c) \<noteq> policy_pid
            \<and> gpv_decision_scope w = gpv_decision_scope v
            \<and> dimensions_overlap (gpv_case_categories v) (gpv_case_categories w)
            \<and> dimensions_overlap (gpv_products v) (gpv_products w)
            \<and> dimensions_overlap (gpv_regions v) (gpv_regions w)
            \<and> dimensions_overlap (gpv_channels v) (gpv_channels w)
            \<and> dimensions_overlap (gpv_customer_tiers v) (gpv_customer_tiers w)
            \<and> time_windows_overlap (Some effective_from) (gpv_effective_to v)
                (gpv_effective_from w) (gpv_effective_to w)) candidates)))"

section \<open>Sources\<close>

record embedder =
  emb_version :: string
  emb_embed :: "string \<Rightarrow> decimal list"

definition prepare_source ::
    "(error \<Rightarrow> string) \<Rightarrow> string option \<Rightarrow> policy_applicability option \<Rightarrow> timestamp option \<Rightarrow> timestamp option
     \<Rightarrow> error + policy_draft_content option \<times> parsed_clause list \<times> string option" where
  "prepare_source describe source_text applicability effective_from effective_to =
     (case (source_text, applicability) of
        (None, _) \<Rightarrow> Inr (None, [], Some ''Source text is not available.'')
      | (Some _, None) \<Rightarrow> Inr (None, [], Some ''Policy applicability is not available.'')
      | (Some s, Some a) \<Rightarrow>
          (case bindE (valid_draft_content \<lparr>dc_source_text = s, dc_applicability = a,
                         dc_effective_from = effective_from, dc_effective_to = effective_to\<rparr>) (\<lambda>content.
                 bindE (parse_policy_source s a) (\<lambda>clauses. Inr (content, clauses))) of
             Inr (content, clauses) \<Rightarrow> Inr (Some content, clauses, None)
           | Inl (PolicySourceParseError m) \<Rightarrow> Inr (None, [], Some (describe (PolicySourceParseError m)))
           | Inl (ValueError m) \<Rightarrow> Inr (None, [], Some (describe (ValueError m)))
           | Inl e \<Rightarrow> Inl e))"

definition index_clause :: "embedder \<Rightarrow> parsed_clause \<Rightarrow> error + indexed_clause" where
  "index_clause emb c =
     bindE (requireE (1 \<le> length (emb_version emb) \<and> length (emb_version emb) \<le> 64
                    \<and> length (emb_embed emb (pcl_text c)) = 32) (ValueError ''IndexedPolicyClause'')) (\<lambda>_.
     Inr \<lparr>icl_clause = c, icl_embedding_version = emb_version emb,
          icl_embedding = emb_embed emb (pcl_text c)\<rparr>)"

section \<open>Commands\<close>

definition service_get_policy :: "actor_context \<Rightarrow> string \<Rightarrow> database \<Rightarrow> error + policy_workspace" where
  "service_get_policy actor policy_id db =
     bindE (require_permission actor POLICY_READ) (\<lambda>_.
     required_policy_workspace (actor_organization_id actor) policy_id db)"

definition required_current_version :: "policy_workspace \<Rightarrow> int \<Rightarrow> error + policy_bundle" where
  "required_current_version w n =
     bindE (requireE (pol_current_version (pw_policy w) = n)
              (InvalidPolicyTransition ''Only the current policy version can use this command.'')) (\<lambda>_.
     someE (find (\<lambda>b. gpv_version (pb_version b) = n) (pw_versions w))
       (PolicyNotFound ''The policy version was not found.''))"

definition service_create_policy ::
    "(string \<Rightarrow> string) \<Rightarrow> (string \<Rightarrow> string) \<Rightarrow> (error \<Rightarrow> string) \<Rightarrow> embedder \<Rightarrow> policy_run \<Rightarrow> actor_context
     \<Rightarrow> string \<Rightarrow> string \<Rightarrow> policy_source_kind \<Rightarrow> string \<Rightarrow> string option \<Rightarrow> policy_applicability option
     \<Rightarrow> timestamp option \<Rightarrow> timestamp option \<Rightarrow> string option \<Rightarrow> string \<Rightarrow> database
     \<Rightarrow> error + policy_workspace \<times> database" where
  "service_create_policy sha tsv describe emb run actor title description source_kind source_name source_text
       applicability effective_from effective_to public_id correlation_id db =
     bindE (require_permission actor POLICY_MANAGE) (\<lambda>_.
     bindE (prepare_source describe source_text applicability effective_from effective_to)
       (\<lambda>(content, parsed, source_error).
     bindE (mapE (index_clause emb) parsed) (\<lambda>clauses.
     bindE (valid_policy_create
              \<lparr>pcr_public_id = (case public_id of None \<Rightarrow> ''POL-'' @ pr_code run
                                | Some s \<Rightarrow> if s = [] then ''POL-'' @ pr_code run else s),
               pcr_title = title, pcr_description = description, pcr_source_kind = source_kind,
               pcr_source_name = source_name, pcr_content = content\<rparr>) (\<lambda>command.
     create_policy sha tsv run (actor_organization_id actor) (actor_id actor)
       (actor_kind_value (actor_kind actor)) command clauses source_error correlation_id db))))"

definition service_create_draft ::
    "(string \<Rightarrow> string) \<Rightarrow> (string \<Rightarrow> string) \<Rightarrow> embedder \<Rightarrow> policy_run \<Rightarrow> actor_context \<Rightarrow> string \<Rightarrow> int
     \<Rightarrow> policy_draft_content \<Rightarrow> string \<Rightarrow> database \<Rightarrow> error + policy_workspace \<times> database" where
  "service_create_draft sha tsv emb run actor policy_id expected content correlation_id db =
     bindE (require_permission actor POLICY_MANAGE) (\<lambda>_.
     bindE (parse_policy_source (dc_source_text content) (dc_applicability content)) (\<lambda>parsed.
     bindE (mapE (index_clause emb) parsed) (\<lambda>clauses.
     bindE (service_get_policy actor policy_id db) (\<lambda>w.
     bindE (requireE (pol_status (pw_policy w) \<notin> {PL_DRAFT, PL_IN_REVIEW, PL_PARSING_FAILED})
              (InvalidPolicyTransition
                 ''Finish or recover the current policy version before creating another draft.'')) (\<lambda>_.
     create_draft sha tsv run (actor_organization_id actor) policy_id (actor_id actor)
       (actor_kind_value (actor_kind actor)) expected content clauses correlation_id db)))))"

definition service_retry_source ::
    "(string \<Rightarrow> string) \<Rightarrow> (string \<Rightarrow> string) \<Rightarrow> embedder \<Rightarrow> policy_run \<Rightarrow> actor_context \<Rightarrow> string \<Rightarrow> int
     \<Rightarrow> policy_draft_content \<Rightarrow> string \<Rightarrow> database \<Rightarrow> error + policy_workspace \<times> database" where
  "service_retry_source sha tsv emb run actor policy_id expected content correlation_id db =
     bindE (require_permission actor POLICY_MANAGE) (\<lambda>_.
     bindE (parse_policy_source (dc_source_text content) (dc_applicability content)) (\<lambda>parsed.
     bindE (mapE (index_clause emb) parsed) (\<lambda>clauses.
     bindE (service_get_policy actor policy_id db) (\<lambda>w.
     bindE (requireE (pol_status (pw_policy w) = PL_PARSING_FAILED \<and> pol_current_version (pw_policy w) = 0)
              (InvalidPolicyTransition ''Only a failed source can be retried.'')) (\<lambda>_.
     retry_source sha tsv run (actor_organization_id actor) policy_id (actor_id actor)
       (actor_kind_value (actor_kind actor)) expected content clauses correlation_id db)))))"

definition service_submit_policy_review ::
    "policy_run \<Rightarrow> actor_context \<Rightarrow> string \<Rightarrow> int \<Rightarrow> int \<Rightarrow> int \<Rightarrow> string \<Rightarrow> database
     \<Rightarrow> error + policy_workspace \<times> database" where
  "service_submit_policy_review run actor policy_id n expected_policy expected correlation_id db =
     bindE (require_permission actor POLICY_MANAGE) (\<lambda>_.
     bindE (service_get_policy actor policy_id db) (\<lambda>w.
     bindE (required_current_version w n) (\<lambda>b.
     bindE (requireE (gpv_status (pb_version b) = PV_DRAFT)
              (InvalidPolicyTransition ''Only a draft policy version can enter review.'')) (\<lambda>_.
     submit_policy_review run (actor_organization_id actor) policy_id n (actor_id actor)
       (actor_kind_value (actor_kind actor)) expected_policy expected correlation_id db))))"

definition service_activate ::
    "policy_run \<Rightarrow> actor_context \<Rightarrow> string \<Rightarrow> int \<Rightarrow> int \<Rightarrow> int \<Rightarrow> timestamp option \<Rightarrow> policy_version_status
     \<Rightarrow> timestamp \<Rightarrow> string \<Rightarrow> database \<Rightarrow> error + policy_workspace \<times> database" where
  "service_activate run actor policy_id n expected_policy expected requested target current_time
       correlation_id db =
     bindE (require_permission actor POLICY_MANAGE) (\<lambda>_.
     bindE (service_get_policy actor policy_id db) (\<lambda>w.
     bindE (required_current_version w n) (\<lambda>b.
     let v = pb_version b;
         effective_from = (case requested of Some t \<Rightarrow> t
                           | None \<Rightarrow> (case gpv_effective_from v of Some t \<Rightarrow> t | None \<Rightarrow> current_time))
     in
     bindE (requireE (gpv_status v = PV_IN_REVIEW)
              (InvalidPolicyTransition ''Only an in-review policy version can be activated.'')) (\<lambda>_.
     bindE (requireE (\<not> (target = PV_PUBLISHED \<and> effective_from > current_time))
              (InvalidPolicyTransition ''Use schedule for a future effective date.'')) (\<lambda>_.
     bindE (requireE (\<not> (target = PV_SCHEDULED \<and> effective_from \<le> current_time))
              (InvalidPolicyTransition ''A scheduled policy needs a future effective date.'')) (\<lambda>_.
     bindE (requireE (case gpv_effective_to v of None \<Rightarrow> True | Some t \<Rightarrow> t > effective_from)
              (InvalidPolicyTransition ''The effective date is outside the policy window.'')) (\<lambda>_.
     bindE (list_candidates (actor_organization_id actor) db) (\<lambda>candidates.
     let conflicts = find_conflicts v (pol_public_id (pw_policy w)) effective_from candidates in
     if conflicts \<noteq> []
     then mark_conflicting run (actor_organization_id actor) policy_id n (actor_id actor)
            (actor_kind_value (actor_kind actor)) expected_policy expected conflicts correlation_id db
     else activate_version run (actor_organization_id actor) policy_id n (actor_id actor)
            (actor_kind_value (actor_kind actor)) expected_policy expected target effective_from
            correlation_id db))))))))"

definition service_publish ::
    "policy_run \<Rightarrow> actor_context \<Rightarrow> string \<Rightarrow> int \<Rightarrow> int \<Rightarrow> int \<Rightarrow> timestamp option \<Rightarrow> timestamp \<Rightarrow> string
     \<Rightarrow> database \<Rightarrow> error + policy_workspace \<times> database" where
  "service_publish run actor policy_id n expected_policy expected effective_from current_time correlation_id db =
     service_activate run actor policy_id n expected_policy expected effective_from PV_PUBLISHED current_time
       correlation_id db"

definition service_schedule ::
    "policy_run \<Rightarrow> actor_context \<Rightarrow> string \<Rightarrow> int \<Rightarrow> int \<Rightarrow> int \<Rightarrow> timestamp \<Rightarrow> timestamp \<Rightarrow> string
     \<Rightarrow> database \<Rightarrow> error + policy_workspace \<times> database" where
  "service_schedule run actor policy_id n expected_policy expected effective_from current_time correlation_id db =
     service_activate run actor policy_id n expected_policy expected (Some effective_from) PV_SCHEDULED
       current_time correlation_id db"

definition service_retire ::
    "policy_run \<Rightarrow> actor_context \<Rightarrow> string \<Rightarrow> int \<Rightarrow> int \<Rightarrow> int \<Rightarrow> string \<Rightarrow> database
     \<Rightarrow> error + policy_workspace \<times> database" where
  "service_retire run actor policy_id n expected_policy expected correlation_id db =
     bindE (require_permission actor POLICY_MANAGE) (\<lambda>_.
     bindE (service_get_policy actor policy_id db) (\<lambda>w.
     bindE (required_current_version w n) (\<lambda>b.
     bindE (requireE (gpv_status (pb_version b) \<in> {PV_PUBLISHED, PV_SCHEDULED})
              (InvalidPolicyTransition ''Only a published or scheduled policy can be retired.'')) (\<lambda>_.
     retire_version run (actor_organization_id actor) policy_id n (actor_id actor)
       (actor_kind_value (actor_kind actor)) expected_policy expected correlation_id db))))"

end
