(* ===== verification/Policy_System.thy ===== *)
theory Policy_System
  imports Policy_Service
begin

text \<open>
  The authority of policies along every run of the policy commands: active versions are immutable,
  a policy has at most one published version, and two active versions of different policies that
  decide the same scope for overlapping dimensions have disjoint windows.
\<close>

section \<open>The system and its invariant\<close>

inductive policy_step :: "database \<Rightarrow> database \<Rightarrow> bool" where
  create: "service_create_policy sha tsv describe emb run actor title description source_kind source_name
      source_text applicability effective_from effective_to public_id correlation_id db = Inr (w, db')
    \<Longrightarrow> policy_step db db'"
| draft: "service_create_draft sha tsv emb run actor policy_id expected content correlation_id db = Inr (w, db')
    \<Longrightarrow> policy_step db db'"
| retry: "service_retry_source sha tsv emb run actor policy_id expected content correlation_id db = Inr (w, db')
    \<Longrightarrow> policy_step db db'"
| submit: "service_submit_policy_review run actor policy_id n expected_policy expected correlation_id db
      = Inr (w, db') \<Longrightarrow> policy_step db db'"
| publish: "service_publish run actor policy_id n expected_policy expected effective_from current_time
      correlation_id db = Inr (w, db') \<Longrightarrow> policy_step db db'"
| schedule: "service_schedule run actor policy_id n expected_policy expected effective current_time
      correlation_id db = Inr (w, db') \<Longrightarrow> policy_step db db'"
| retire: "service_retire run actor policy_id n expected_policy expected correlation_id db = Inr (w, db')
    \<Longrightarrow> policy_step db db'"
| other: "policies db' = policies db \<Longrightarrow> policy_versions db' = policy_versions db
    \<Longrightarrow> distinct (map org_public_id (organizations db')) \<Longrightarrow> policy_step db db'"

definition active_status :: "policy_version \<Rightarrow> bool" where
  "active_status v \<longleftrightarrow> gpv_status v \<in> {PV_PUBLISHED, PV_SCHEDULED}"

definition same_authority :: "policy_version \<Rightarrow> policy_version \<Rightarrow> bool" where
  "same_authority v w \<longleftrightarrow> gpv_decision_scope v = gpv_decision_scope w
     \<and> dimensions_overlap (gpv_case_categories v) (gpv_case_categories w)
     \<and> dimensions_overlap (gpv_products v) (gpv_products w)
     \<and> dimensions_overlap (gpv_regions v) (gpv_regions w)
     \<and> dimensions_overlap (gpv_channels v) (gpv_channels w)
     \<and> dimensions_overlap (gpv_customer_tiers v) (gpv_customer_tiers w)
     \<and> time_windows_overlap (gpv_effective_from v) (gpv_effective_to v)
         (gpv_effective_from w) (gpv_effective_to w)"

definition version_key :: "policy_version \<Rightarrow> uuid \<times> uuid \<times> int" where
  "version_key v = (gpv_organization_id v, gpv_policy_id v, gpv_version v)"

definition pol_ident :: "policy_record \<Rightarrow> uuid \<times> uuid \<times> string" where
  "pol_ident p = (pol_id p, pol_organization_id p, pol_public_id p)"

abbreviation idents :: "database \<Rightarrow> (uuid \<times> uuid \<times> string) list" where
  "idents db \<equiv> map pol_ident (policies db)"

definition ids_ok :: "(uuid \<times> uuid \<times> string) list \<Rightarrow> policy_version list \<Rightarrow> bool" where
  "ids_ok ids vs \<longleftrightarrow> distinct (map fst ids) \<and> distinct (map snd ids)
     \<and> distinct (map gpv_id vs) \<and> distinct (map version_key vs)
     \<and> (\<forall>v\<in>set vs. \<exists>pid. (gpv_policy_id v, gpv_organization_id v, pid) \<in> set ids)"

definition authority_ok :: "policy_version list \<Rightarrow> bool" where
  "authority_ok vs \<longleftrightarrow> (\<forall>v\<in>set vs. active_status v \<longrightarrow> gpv_immutable v)
     \<and> (\<forall>v\<in>set vs. \<forall>w\<in>set vs. gpv_status v = PV_PUBLISHED \<and> gpv_status w = PV_PUBLISHED
          \<and> gpv_policy_id v = gpv_policy_id w \<longrightarrow> v = w)
     \<and> (\<forall>v\<in>set vs. \<forall>w\<in>set vs. active_status v \<and> active_status w
          \<and> gpv_organization_id v = gpv_organization_id w \<and> gpv_policy_id v \<noteq> gpv_policy_id w
          \<longrightarrow> \<not> same_authority v w)"

definition policy_inv :: "database \<Rightarrow> bool" where
  "policy_inv db \<longleftrightarrow> distinct (map org_public_id (organizations db))
     \<and> ids_ok (idents db) (policy_versions db) \<and> authority_ok (policy_versions db)"

text \<open>What no command changes of a version.\<close>

definition same_row :: "policy_version \<Rightarrow> policy_version \<Rightarrow> bool" where
  "same_row v w \<longleftrightarrow> gpv_id v = gpv_id w \<and> version_key v = version_key w"

section \<open>Preservation on the tables\<close>

lemma dimensions_overlap_sym: "dimensions_overlap a b = dimensions_overlap b a"
  by (auto simp: dimensions_overlap_def list_ex_iff)

lemma same_authority_sym: "same_authority v w = same_authority w v"
  by (auto simp: same_authority_def dimensions_overlap_sym time_windows_overlap_def Let_def
      max.commute min.commute)

lemma version_keyD:
  assumes "version_key v = version_key w"
  shows "gpv_organization_id v = gpv_organization_id w" "gpv_policy_id v = gpv_policy_id w"
    "gpv_version v = gpv_version w"
  using assms by (simp_all add: version_key_def)

lemma ids_ok_map:
  assumes "ids_ok ids vs" and "\<And>r. r \<in> set vs \<Longrightarrow> same_row (g r) r"
  shows "ids_ok ids (map g vs)"
proof -
  have "map gpv_id (map g vs) = map gpv_id vs" "map version_key (map g vs) = map version_key vs"
    using assms(2) by (simp_all add: same_row_def)
  moreover have "\<forall>v\<in>set (map g vs). \<exists>pid. (gpv_policy_id v, gpv_organization_id v, pid) \<in> set ids"
    using assms by (auto simp: ids_ok_def same_row_def version_key_def)
  ultimately show ?thesis using assms(1) by (simp add: ids_ok_def del: map_map)
qed

lemma authority_ok_map:
  assumes "authority_ok vs" and "\<And>r. r \<in> set vs \<Longrightarrow> g r = r \<or> \<not> active_status (g r)"
  shows "authority_ok (map g vs)"
proof -
  have g: "r \<in> set vs \<Longrightarrow> active_status (g r) \<Longrightarrow> g r = r" for r using assms(2) by blast
  have p: "gpv_status v = PV_PUBLISHED \<Longrightarrow> active_status v" for v by (simp add: active_status_def)
  show ?thesis
    unfolding authority_ok_def set_map
  proof (intro conjI ballI impI; elim imageE conjE)
    fix v r assume "v = g r" "r \<in> set vs" "active_status v"
    then show "gpv_immutable v" using g [of r] assms(1) by (auto simp: authority_ok_def)
  next
    fix v w r s
    assume "gpv_status v = PV_PUBLISHED" "gpv_status w = PV_PUBLISHED" "gpv_policy_id v = gpv_policy_id w"
      "v = g r" "r \<in> set vs" "w = g s" "s \<in> set vs"
    then show "v = w" using g [of r] g [of s] p [of v] p [of w] assms(1)
      unfolding authority_ok_def by metis
  next
    fix v w r s
    assume "active_status v" "active_status w" "gpv_organization_id v = gpv_organization_id w"
      "gpv_policy_id v \<noteq> gpv_policy_id w" "v = g r" "r \<in> set vs" "w = g s" "s \<in> set vs"
    then show "\<not> same_authority v w" using g [of r] g [of s] assms(1)
      unfolding authority_ok_def by metis
  qed
qed

lemma authority_ok_put:
  assumes ok: "authority_ok vs" and imm: "gpv_immutable v'"
    and pub: "\<And>w. gpv_status v' = PV_PUBLISHED \<Longrightarrow> w \<in> set vs \<Longrightarrow> gpv_id w \<noteq> gpv_id v'
      \<Longrightarrow> gpv_policy_id w = gpv_policy_id v' \<Longrightarrow> gpv_status w \<noteq> PV_PUBLISHED"
    and auth: "\<And>w. w \<in> set vs \<Longrightarrow> active_status w \<Longrightarrow> gpv_organization_id w = gpv_organization_id v'
      \<Longrightarrow> gpv_policy_id w \<noteq> gpv_policy_id v' \<Longrightarrow> \<not> same_authority v' w"
  shows "authority_ok (row_put gpv_id v' vs)"
proof -
  have rows: "x \<in> set (row_put gpv_id v' vs) \<Longrightarrow> x = v' \<or> x \<in> set vs \<and> gpv_id x \<noteq> gpv_id v'" for x
    by (auto simp: set_row_put split: if_splits)
  show ?thesis
    unfolding authority_ok_def
  proof (intro conjI ballI impI; (elim conjE)?)
    fix v assume "v \<in> set (row_put gpv_id v' vs)" "active_status v"
    then show "gpv_immutable v" using rows [of v] ok imm by (auto simp: authority_ok_def)
  next
    fix v w
    assume vw: "v \<in> set (row_put gpv_id v' vs)" "w \<in> set (row_put gpv_id v' vs)"
      and st: "gpv_status v = PV_PUBLISHED" "gpv_status w = PV_PUBLISHED" "gpv_policy_id v = gpv_policy_id w"
    show "v = w"
      using rows [OF vw(1)] rows [OF vw(2)] st pub [of v] pub [of w] ok unfolding authority_ok_def by metis
  next
    fix v w
    assume vw: "v \<in> set (row_put gpv_id v' vs)" "w \<in> set (row_put gpv_id v' vs)"
      and st: "active_status v" "active_status w" "gpv_organization_id v = gpv_organization_id w"
      "gpv_policy_id v \<noteq> gpv_policy_id w"
    show "\<not> same_authority v w"
      using rows [OF vw(1)] rows [OF vw(2)] st auth [of v] auth [of w] ok same_authority_sym
      unfolding authority_ok_def by metis
  qed
qed

lemma ids_ok_unique:
  assumes "ids_ok ids vs" "v \<in> set vs" "w \<in> set vs" "gpv_id v = gpv_id w"
  shows "v = w"
  using assms by (auto simp: ids_ok_def distinct_map dest: inj_onD)

lemma ids_ok_key:
  assumes "ids_ok ids vs" "v \<in> set vs" "w \<in> set vs" "version_key v = version_key w"
  shows "v = w"
  using assms by (auto simp: ids_ok_def distinct_map dest: inj_onD)

lemma row_put_as_map: "row_put key r rows = map (\<lambda>x. if key x = key r then r else x) rows"
  by (simp add: row_put_def)

lemma ids_ok_put:
  assumes "ids_ok ids vs" "v \<in> set vs" "same_row v' v"
  shows "ids_ok ids (row_put gpv_id v' vs)"
  unfolding row_put_as_map
proof (rule ids_ok_map [OF assms(1)])
  fix r assume "r \<in> set vs"
  then show "same_row (if gpv_id r = gpv_id v' then v' else r) r"
    using ids_ok_unique [OF assms(1) _ assms(2)] assms(3) by (auto simp: same_row_def)
qed

lemma authority_ok_put_inactive:
  "authority_ok vs \<Longrightarrow> \<not> active_status v' \<Longrightarrow> authority_ok (row_put gpv_id v' vs)"
  unfolding row_put_as_map by (rule authority_ok_map) auto

lemma authority_ok_append:
  "authority_ok vs \<Longrightarrow> \<not> active_status v \<Longrightarrow> authority_ok (vs @ [v])"
  unfolding authority_ok_def by (auto simp: active_status_def)

lemma ids_ok_append:
  assumes "ids_ok ids vs" and "row_get gpv_id (gpv_id v) vs = None"
    and "\<not> (\<exists>x\<in>set vs. policy_version_clash v x)"
    and "(gpv_policy_id v, gpv_organization_id v, pid) \<in> set ids"
  shows "ids_ok ids (vs @ [v])"
  using assms
  by (auto simp: ids_ok_def row_get_None policy_version_clash_def version_key_def image_iff)

lemma ids_ok_policy:
  assumes "ids_ok ids vs" and "fst i \<notin> fst ` set ids" and "snd i \<notin> snd ` set ids"
  shows "ids_ok (ids @ [i]) vs"
  using assms by (auto simp: ids_ok_def image_iff)

section \<open>What the commands write\<close>

text \<open>The tables a write leaves alone.\<close>

definition same_policies :: "database \<Rightarrow> database \<Rightarrow> bool" where
  "same_policies db db' \<longleftrightarrow> organizations db' = organizations db \<and> idents db' = idents db"

definition same_versions :: "database \<Rightarrow> database \<Rightarrow> bool" where
  "same_versions db db' \<longleftrightarrow> policy_versions db' = policy_versions db"

lemmas frame_defs = same_policies_def same_versions_def

lemma policy_audit_frame:
  "policy_audit run p a t e s d c db = Inr db' \<Longrightarrow> same_policies db db' \<and> same_versions db db'"
  by (auto simp: policy_audit_def insert_audit_def run_simps frame_defs)

lemma insert_clauses_frame:
  assumes "foldE insert_policy_clause cs db = Inr db'"
  shows "same_policies db db' \<and> same_versions db db'"
  by (rule foldE_invariant [OF assms, of "\<lambda>d. same_policies db d \<and> same_versions db d"])
     (auto simp: frame_defs insert_policy_clause_def run_simps)

lemma row_put_idents:
  assumes "distinct (map pol_id rows)" "r \<in> set rows" "pol_ident r' = pol_ident r"
  shows "map pol_ident (row_put pol_id r' rows) = map pol_ident rows"
proof -
  have "x = r" if "x \<in> set rows" "pol_id x = pol_id r'" for x
    using that assms by (auto simp: distinct_map pol_ident_def dest: inj_onD)
  then show ?thesis using assms(3) by (auto simp: row_put_def)
qed

lemma ids_ok_pol_id: "ids_ok (idents db) vs \<Longrightarrow> distinct (map pol_id (policies db))"
  by (simp add: ids_ok_def pol_ident_def comp_def)

lemma update_policy_frame:
  assumes "update_policy now p e f db = Inr (p', db')" and "ids_ok (idents db) vs"
    and "p \<in> set (policies db)" and "\<And>r. pol_ident (f r) = pol_ident r"
  shows "same_policies db db' \<and> same_versions db db' \<and> pol_ident p' = pol_ident p"
proof -
  from assms(1) obtain r where r: "r \<in> set (policies db)" "pol_id r = pol_id p"
    and p': "p' = (f r)\<lparr>pol_version := pol_version r + 1, pol_updated_at := now\<rparr>"
    and db': "db' = put_policy p' db"
    by (auto simp: update_policy_def Let_def split: option.splits dest!: find_SomeD)
  note d = ids_ok_pol_id [OF assms(2)]
  have "r = p" using d r assms(3) by (auto simp: distinct_map dest: inj_onD)
  moreover have "pol_ident p' = pol_ident (f r)" by (simp add: p' pol_ident_def)
  ultimately show ?thesis
    using row_put_idents [OF d r(1)] db' assms(4) by (simp add: frame_defs put_policy_def)
qed

lemma update_version_writes:
  assumes "update_version v e f db = Inr db'" and "ids_ok ids (policy_versions db)"
    and "v \<in> set (policy_versions db)"
  shows "same_policies db db' \<and> policy_versions db'
    = row_put gpv_id ((f v)\<lparr>gpv_record_version := gpv_record_version v + 1\<rparr>) (policy_versions db)"
proof -
  from assms(1) obtain r where r: "r \<in> set (policy_versions db)" "gpv_id r = gpv_id v"
    and put: "put_version ((f r)\<lparr>gpv_record_version := gpv_record_version r + 1\<rparr>) db = Inr db'"
    by (auto simp: update_version_def Let_def split: option.splits dest!: find_SomeD)
  have "r = v" using ids_ok_unique [OF assms(2) r(1) assms(3) r(2)] .
  with put show ?thesis by (auto simp: put_version_def run_simps frame_defs)
qed

text \<open>Retiring a set of versions, one update each.\<close>

lemma put_versions_map:
  assumes "foldE put_version (map f xs) db = Inr db'" and "distinct (map gpv_id (policy_versions db))"
    and "set xs \<subseteq> set (policy_versions db)" and "distinct (map gpv_id xs)" and "\<And>x. gpv_id (f x) = gpv_id x"
  shows "policies db' = policies db \<and> organizations db' = organizations db \<and> policy_versions db'
    = map (\<lambda>r. if gpv_id r \<in> gpv_id ` set xs then f r else r) (policy_versions db)"
  using assms(1-4)
proof (induction xs arbitrary: db)
  case Nil
  then show ?case by simp
next
  case (Cons x xs)
  let ?rows = "policy_versions db"
  from Cons.prems(1) obtain db1 where put: "put_version (f x) db = Inr db1"
    and rest: "foldE put_version (map f xs) db1 = Inr db'" by (auto simp: run_simps)
  from put have sp: "policies db1 = policies db" "organizations db1 = organizations db" and rows1: "policy_versions db1 = row_put gpv_id (f x) ?rows"
    by (auto simp: run_simps put_version_def)
  have eq: "r = x" if "r \<in> set ?rows" "gpv_id r = gpv_id x" for r
    using that Cons.prems(2,3) by (auto simp: distinct_map dest: inj_onD)
  have "set xs \<subseteq> set (policy_versions db1)"
  proof
    fix y assume y: "y \<in> set xs"
    then have "gpv_id y \<noteq> gpv_id x" using Cons.prems(4) by (auto simp: image_iff)
    then show "y \<in> set (policy_versions db1)"
      using y Cons.prems(3) assms(5) by (auto simp: rows1 row_put_def image_iff)
  qed
  moreover have "distinct (map gpv_id (policy_versions db1))"
    using Cons.prems(2) by (simp add: rows1)
  ultimately have "policies db' = policies db1 \<and> organizations db' = organizations db1 \<and> policy_versions db'
      = map (\<lambda>r. if gpv_id r \<in> gpv_id ` set xs then f r else r) (policy_versions db1)"
    using Cons.IH [OF rest] Cons.prems(4) by simp
  moreover have "gpv_id x \<notin> gpv_id ` set xs" using Cons.prems(4) by simp
  ultimately show ?case
    using sp eq assms(5) by (auto simp: rows1 row_put_def)
qed

lemma find_policy_in:
  assumes "find_policy org_pid pid db = Some p"
  shows "p \<in> set (policies db)" "pol_public_id p = pid"
    "\<exists>g\<in>set (organizations db). org_id g = pol_organization_id p \<and> org_public_id g = org_pid"
  using assms by (auto simp: find_policy_def list_ex_iff dest!: find_SomeD)

lemma required_version_in:
  assumes "required_version p n db = Inr v"
  shows "v \<in> set (policy_versions db)"
    "version_key v = (pol_organization_id p, pol_id p, n)"
  using assms by (auto simp: required_version_def run_simps versions_of_def version_key_def dest!: find_SomeD)

section \<open>Every command keeps the invariant\<close>

lemma policy_inv_frame:
  assumes "policy_inv db" "same_policies db db'" "ids_ok (idents db) (policy_versions db')"
    "authority_ok (policy_versions db')"
  shows "policy_inv db'"
  using assms by (simp add: policy_inv_def same_policies_def)

lemma policy_inv_same:
  "policy_inv db \<Longrightarrow> same_policies db db' \<Longrightarrow> same_versions db db' \<Longrightarrow> policy_inv db'"
  by (simp add: policy_inv_def frame_defs)

lemma add_version_inv:
  assumes inv: "policy_inv db" and p: "pol_ident p \<in> set (idents db)"
    and add: "add_version sha tsv run p n a content cs db = Inr db'"
  shows "policy_inv db'"
proof -
  let ?v = "new_version sha run p n a content"
  from add obtain db1 where ins: "insert_policy_version ?v db = Inr db1"
    and cl: "same_policies db1 db' \<and> same_versions db1 db'"
    by (auto simp: add_version_def run_simps dest: insert_clauses_frame)
  from ins have rows: "policy_versions db1 = policy_versions db @ [?v]" "same_policies db db1"
    and fresh: "row_get gpv_id (gpv_id ?v) (policy_versions db) = None"
    "\<not> (\<exists>x\<in>set (policy_versions db). policy_version_clash ?v x)"
    by (auto simp: insert_policy_version_def run_simps frame_defs)
  have "(gpv_policy_id ?v, gpv_organization_id ?v, pol_public_id p) \<in> set (idents db)"
    using p by (simp add: new_version_def pol_ident_def)
  then have "ids_ok (idents db) (policy_versions db1)"
    using inv fresh ids_ok_append by (auto simp: rows policy_inv_def)
  moreover have "authority_ok (policy_versions db1)"
    using inv authority_ok_append by (simp add: rows policy_inv_def new_version_def active_status_def)
  ultimately have "policy_inv db1" using policy_inv_frame [OF inv rows(2)] by simp
  then show ?thesis using cl policy_inv_same by blast
qed

text \<open>A command that updates the policy, then one of its versions, and leaves an audit event.\<close>

lemma update_pair_inv:
  assumes inv: "policy_inv db" and p: "p \<in> set (policies db)" and v: "v \<in> set (policy_versions db)"
    and up: "update_policy now p e f db = Inr (p', db1)" and f: "\<And>r. pol_ident (f r) = pol_ident r"
    and uv: "update_version v e' h db1 = Inr db2" and h: "same_row (h v) v"
    and au: "policy_audit run p' a t ev sm d c db2 = Inr db3"
    and auth: "authority_ok (row_put gpv_id ((h v)\<lparr>gpv_record_version := gpv_record_version v + 1\<rparr>)
      (policy_versions db))"
  shows "policy_inv db3"
proof -
  have ids: "ids_ok (idents db) (policy_versions db)" using inv by (simp add: policy_inv_def)
  have db1: "same_policies db db1" "same_versions db db1"
    using update_policy_frame [OF up ids p f] by simp_all
  let ?v = "(h v)\<lparr>gpv_record_version := gpv_record_version v + 1\<rparr>"
  have db2: "same_policies db1 db2" "policy_versions db2 = row_put gpv_id ?v (policy_versions db)"
    using update_version_writes [OF uv, of "idents db"] ids v db1(2) by (simp_all add: same_versions_def)
  have row: "same_row ?v v" using h by (simp add: same_row_def version_key_def)
  have "policy_inv db2"
    using policy_inv_frame [OF inv, of db2] db1(1) db2 ids_ok_put [OF ids v row] auth
    by (simp add: same_policies_def)
  then show ?thesis using policy_audit_frame [OF au] policy_inv_same by blast
qed

lemma update_pair_inactive:
  assumes "policy_inv db" and "p \<in> set (policies db)" and "v \<in> set (policy_versions db)"
    and "update_policy now p e f db = Inr (p', db1)" and "\<And>r. pol_ident (f r) = pol_ident r"
    and "update_version v e' h db1 = Inr db2" and "same_row (h v) v" and "\<not> active_status (h v)"
    and "policy_audit run p' a t ev sm d c db2 = Inr db3"
  shows "policy_inv db3"
  using assms(1,8) authority_ok_put_inactive
  by (intro update_pair_inv [OF assms(1-7,9)]) (simp add: policy_inv_def active_status_def)

lemma new_policy_ident [simp]:
  "pol_ident (new_policy run organization_id owner command err)
     = (pr_policy_id run, organization_id, pcr_public_id command)"
  by (simp add: new_policy_def pol_ident_def Let_def)

lemma create_policy_inv:
  assumes inv: "policy_inv db"
    and run: "create_policy sha tsv run org_pid actor t command cs err c db = Inr (w, db')"
  shows "policy_inv db'"
proof -
  from run obtain g :: organization and owner db1 db2 where
    new: "\<not> list_ex (\<lambda>q. pol_organization_id q = org_id g \<and> pol_public_id q = pcr_public_id command) (policies db)"
    and ins: "insert_policy (new_policy run (org_id g) owner command err) db = Inr db1"
    and add: "(case pcr_content command of None \<Rightarrow> Inr db1 | Some content \<Rightarrow>
        add_version sha tsv run (new_policy run (org_id g) owner command err) 1 actor content cs db1) = Inr db2"
    and fr: "same_policies db2 db' \<and> same_versions db2 db'"
    unfolding create_policy_def Let_def
    by (auto simp: run_simps dest!: policy_audit_frame)
  define p where "p = new_policy run (org_id g) owner command err"
  note ins = ins [folded p_def] and add = add [folded p_def]
  have pid: "pol_ident p = (pr_policy_id run, org_id g, pcr_public_id command)" by (simp add: p_def)
  from ins have rows: "policies db1 = policies db @ [p]" "policy_versions db1 = policy_versions db"
    "organizations db1 = organizations db" and fresh: "row_get pol_id (pol_id p) (policies db) = None"
    by (auto simp: insert_policy_def run_simps)
  have "fst (pol_ident p) \<notin> fst ` set (idents db)" "snd (pol_ident p) \<notin> snd ` set (idents db)"
    using fresh new pid by (auto simp: row_get_None pol_ident_def list_ex_iff image_iff)
  then have "policy_inv db1"
    using inv ids_ok_policy by (simp add: policy_inv_def rows)
  then have "policy_inv db2"
    using add add_version_inv [of db1 p] rows(1) by (auto split: option.splits)
  then show ?thesis using fr policy_inv_same by blast
qed

text \<open>The two commands that add a draft to a policy.\<close>

lemma add_draft_inv:
  assumes inv: "policy_inv db" and p: "required_policy org_pid pid db = Inr p"
    and up: "update_policy now p e f db = Inr (p', db1)" and f: "\<And>r. pol_ident (f r) = pol_ident r"
    and add: "add_version sha tsv run p' n a content cs db1 = Inr db2"
    and au: "policy_audit run p' a t ev sm d c db2 = Inr db3"
  shows "policy_inv db3"
proof -
  have pin: "p \<in> set (policies db)"
    using p find_policy_in(1) by (auto simp: required_policy_def run_simps)
  have ids: "ids_ok (idents db) (policy_versions db)" using inv by (simp add: policy_inv_def)
  note db1 = update_policy_frame [OF up ids pin f]
  have "policy_inv db1" using db1 policy_inv_same [OF inv] by blast
  moreover have "pol_ident p' \<in> set (idents db1)"
    using db1 pin by (metis (no_types, lifting) image_eqI list.set_map same_policies_def)
  ultimately have "policy_inv db2" using add_version_inv [OF _ _ add] by blast
  then show ?thesis using policy_audit_frame [OF au] policy_inv_same by blast
qed

lemma create_draft_inv:
  assumes "policy_inv db" and "create_draft sha tsv run o' pid a t e content cs c db = Inr (w, db')"
  shows "policy_inv db'"
  using assms unfolding create_draft_def Let_def
  by (auto simp: run_simps pol_ident_def intro: add_draft_inv)

lemma retry_source_inv:
  assumes "policy_inv db" and "retry_source sha tsv run o' pid a t e content cs c db = Inr (w, db')"
  shows "policy_inv db'"
  using assms unfolding retry_source_def
  by (auto simp: run_simps pol_ident_def intro: add_draft_inv)

lemma required_policy_in: "required_policy org_pid pid db = Inr p \<Longrightarrow> p \<in> set (policies db)"
  using find_policy_in(1) by (auto simp: required_policy_def run_simps)

lemma submit_review_inv:
  assumes inv: "policy_inv db" and run: "submit_policy_review run o' pid n a t e e' c db = Inr (w, db')"
  shows "policy_inv db'"
proof -
  from run obtain p v p' db1 db2 where p: "required_policy o' pid db = Inr p" and v: "required_version p n db = Inr v"
    and up: "update_policy (pr_update_now run) p e (\<lambda>r. r\<lparr>pol_status := PL_IN_REVIEW\<rparr>) db = Inr (p', db1)"
    and uv: "update_version v e' (\<lambda>r. r\<lparr>gpv_status := PV_IN_REVIEW, gpv_submitted_at := Some (pr_now run)\<rparr>) db1 = Inr db2"
    and au: "policy_audit run p' a t ''policy.review_submitted''
      (''Policy version '' @ int_str n @ '' submitted for review.'') (JObj [(''policy_version'', JInt n)]) c db2 = Inr db'"
    by (auto simp: submit_policy_review_def run_simps)
  show ?thesis
    by (rule update_pair_inactive [OF inv required_policy_in [OF p] required_version_in(1) [OF v] up _ uv _ _ au])
       (simp_all add: pol_ident_def same_row_def version_key_def active_status_def)
qed

lemma mark_conflicting_inv:
  assumes inv: "policy_inv db" and run: "mark_conflicting run o' pid n a t e e' cf c db = Inr (w, db')"
    and st: "\<And>p v. required_policy o' pid db = Inr p \<Longrightarrow> required_version p n db = Inr v \<Longrightarrow> \<not> active_status v"
  shows "policy_inv db'"
proof -
  from run obtain p v p' db1 db2 where p: "required_policy o' pid db = Inr p" and v: "required_version p n db = Inr v"
    and up: "update_policy (pr_update_now run) p e (\<lambda>r. r\<lparr>pol_status := PL_CONFLICTING\<rparr>) db = Inr (p', db1)"
    and uv: "update_version v e' (\<lambda>r. r) db1 = Inr db2"
    and au: "policy_audit run p' a t ''policy.conflict_detected''
      ''Policy publication blocked by overlapping authority.''
      (JObj [(''conflicting_policy_ids'', JList (map JStr cf))]) c db2 = Inr db'"
    by (auto simp: mark_conflicting_def run_simps)
  show ?thesis
    by (rule update_pair_inactive [OF inv required_policy_in [OF p] required_version_in(1) [OF v] up _ uv _ _ au])
       (use st [OF p v] in \<open>simp_all add: pol_ident_def same_row_def\<close>)
qed

lemma retire_version_inv:
  assumes inv: "policy_inv db" and run: "retire_version run o' pid n a t e e' c db = Inr (w, db')"
  shows "policy_inv db'"
proof -
  from run obtain p v p' db1 db2 d where p: "required_policy o' pid db = Inr p" and v: "required_version p n db = Inr v"
    and up: "update_policy (pr_update_now run) p e
      (\<lambda>r. case restorable_version (pr_now run) p v db of None \<Rightarrow> r\<lparr>pol_status := PL_RETIRED\<rparr>
           | Some w \<Rightarrow> r\<lparr>pol_status := PL_PUBLISHED, pol_current_version := gpv_version w\<rparr>) db = Inr (p', db1)"
    and uv: "update_version v e' (retired_version (pr_now run) v) db1 = Inr db2"
    and au: "policy_audit run p' a t ''policy.retired'' (''Policy version '' @ int_str n @ '' retired.'') d c db2
      = Inr db'"
    by (auto simp: retire_version_def Let_def run_simps)
  show ?thesis
    by (rule update_pair_inactive [OF inv required_policy_in [OF p] required_version_in(1) [OF v] up _ uv _ _ au])
       (simp_all add: pol_ident_def same_row_def version_key_def active_status_def retired_version_def Let_def
          split: option.splits)
qed

end
