(* ===== verification/Policy_Authority.thy ===== *)
theory Policy_Authority
  imports Policy_System
begin

text \<open>
  Activation of a policy version, the last command that touches the authority of policies, and
  the properties of every run: no two policies decide the same case at the same time.
\<close>

section \<open>Activation\<close>

definition activated :: "policy_run \<Rightarrow> policy_version_status \<Rightarrow> timestamp \<Rightarrow> policy_version \<Rightarrow> policy_version" where
  "activated run target eff r = r\<lparr>gpv_status := target, gpv_immutable := True, gpv_effective_from := Some eff,
     gpv_published_at := Some (pr_now run)\<rparr>"

lemma ids_ok_org:
  assumes "ids_ok ids vs" "v \<in> set vs" "w \<in> set vs" "gpv_policy_id v = gpv_policy_id w"
  shows "gpv_organization_id v = gpv_organization_id w"
proof -
  obtain i j where "(gpv_policy_id v, gpv_organization_id v, i) \<in> set ids"
    "(gpv_policy_id w, gpv_organization_id w, j) \<in> set ids"
    using assms(1-3) unfolding ids_ok_def by blast
  moreover have "inj_on fst (set ids)" using assms(1) by (simp add: ids_ok_def distinct_map)
  ultimately show ?thesis using assms(4) by (metis Pair_inject fst_conv inj_onD)
qed

text \<open>The state in which the previous versions are retired.\<close>

lemma retire_previous_inv:
  assumes inv: "policy_inv db" and v: "v \<in> set (policy_versions db)" "version_key v = (pol_organization_id p, pol_id p, n)"
    and ret: "foldE put_version (map (retired_previous now eff) (previous_versions p v db)) db = Inr db1"
  shows "policy_inv db1" "policies db1 = policies db" "v \<in> set (policy_versions db1)"
    "\<And>w. w \<in> set (policy_versions db1) \<Longrightarrow> active_status w \<Longrightarrow> w \<in> set (policy_versions db)"
    "\<And>w. w \<in> set (policy_versions db1) \<Longrightarrow> gpv_id w \<noteq> gpv_id v \<Longrightarrow> gpv_policy_id w = gpv_policy_id v
      \<Longrightarrow> gpv_status w \<noteq> PV_PUBLISHED"
proof -
  let ?prev = "previous_versions p v db"
  define g where "g = (\<lambda>r. if gpv_id r \<in> gpv_id ` set ?prev then retired_previous now eff r else r)"
  have ids: "ids_ok (idents db) (policy_versions db)" using inv by (simp add: policy_inv_def)
  have keep: "gpv_id (retired_previous now eff x) = gpv_id x" for x by (simp add: retired_previous_def)
  have "policies db1 = policies db \<and> organizations db1 = organizations db
      \<and> policy_versions db1 = map g (policy_versions db)"
    unfolding g_def using ids
    by (intro put_versions_map [OF ret _ _ _ keep])
       (auto simp: ids_ok_def previous_versions_def versions_of_def distinct_map intro: inj_on_subset)
  then have pol: "policies db1 = policies db" and org: "organizations db1 = organizations db"
    and rows: "policy_versions db1 = map g (policy_versions db)" by simp_all
  have row: "same_row (g r) r" for r
    by (simp add: g_def same_row_def version_key_def retired_previous_def)
  have inact: "g r = r \<or> \<not> active_status (g r)" for r
    by (simp add: g_def active_status_def retired_previous_def)
  show "policy_inv db1"
    using inv pol org ids_ok_map [OF ids row] authority_ok_map [of _ g] inact
    by (simp add: policy_inv_def rows)
  show "policies db1 = policies db" by (rule pol)
  have "g v = v" by (auto simp: g_def previous_versions_def)
  then show "v \<in> set (policy_versions db1)" using v(1) rows by (metis image_eqI list.set_map)
  show "w \<in> set (policy_versions db)" if w: "w \<in> set (policy_versions db1)" "active_status w" for w
  proof -
    from w(1) obtain r where "r \<in> set (policy_versions db)" "w = g r" by (auto simp: rows)
    then show ?thesis using inact [of r] w(2) by auto
  qed
  show "gpv_status w \<noteq> PV_PUBLISHED"
    if w: "w \<in> set (policy_versions db1)" "gpv_id w \<noteq> gpv_id v" "gpv_policy_id w = gpv_policy_id v" for w
  proof
    assume pub: "gpv_status w = PV_PUBLISHED"
    from w(1) obtain r where r: "r \<in> set (policy_versions db)" "w = g r" by (auto simp: rows)
    then have wr: "w = r" using inact [of r] pub by (auto simp: active_status_def)
    then have "gpv_organization_id r = gpv_organization_id v" using ids_ok_org [OF ids r(1) v(1)] w(3) by simp
    then have "r \<in> set ?prev"
      using r(1) wr w(2,3) pub v(2) by (simp add: previous_versions_def versions_of_def version_key_def)
    then show False using r(2) pub by (auto simp: g_def retired_previous_def)
  qed
qed

lemma activate_version_inv:
  assumes inv: "policy_inv db" and run: "activate_version run o' pid n a t e e' target eff c db = Inr (w, db')"
    and conf: "\<And>p v x. required_policy o' pid db = Inr p \<Longrightarrow> required_version p n db = Inr v
      \<Longrightarrow> x \<in> set (policy_versions db) \<Longrightarrow> active_status x \<Longrightarrow> gpv_organization_id x = gpv_organization_id v
      \<Longrightarrow> gpv_policy_id x \<noteq> gpv_policy_id v \<Longrightarrow> \<not> same_authority (v\<lparr>gpv_effective_from := Some eff\<rparr>) x"
  shows "policy_inv db'"
proof -
  from run obtain p v db1 p' db2 db3 ev where p: "required_policy o' pid db = Inr p"
    and v: "required_version p n db = Inr v"
    and ret: "(if target = PV_PUBLISHED
        then foldE put_version (map (retired_previous (pr_now run) eff) (previous_versions p v db)) db
        else Inr db) = Inr db1"
    and up: "update_policy (pr_update_now run) p e (\<lambda>r. r\<lparr>pol_status := target_status target\<rparr>) db1 = Inr (p', db2)"
    and uv: "update_version v e' (activated run target eff) db2 = Inr db3"
    and au: "policy_audit run p' a t ev
      (''Policy version '' @ int_str n @ '' '' @ policy_version_status_value target @ ''.'')
      (JObj [(''policy_version'', JInt n), (''effective_from'', JStr (isoformat eff))]) c db3 = Inr db'"
    by (auto simp: activate_version_def run_simps activated_def [abs_def])
  note vin = required_version_in [OF v]
  have db1: "policy_inv db1 \<and> policies db1 = policies db \<and> v \<in> set (policy_versions db1)
      \<and> (\<forall>x\<in>set (policy_versions db1). active_status x \<longrightarrow> x \<in> set (policy_versions db))
      \<and> (target = PV_PUBLISHED \<longrightarrow> (\<forall>x\<in>set (policy_versions db1). gpv_id x \<noteq> gpv_id v
          \<and> gpv_policy_id x = gpv_policy_id v \<longrightarrow> gpv_status x \<noteq> PV_PUBLISHED))"
  proof (cases "target = PV_PUBLISHED")
    case True
    then show ?thesis using retire_previous_inv [OF inv vin] ret by simp
  next
    case False
    then show ?thesis using inv vin ret by simp
  qed
  have "\<not> same_authority ((activated run target eff v)\<lparr>gpv_record_version := gpv_record_version v + 1\<rparr>) x"
    if "x \<in> set (policy_versions db1)" "active_status x" "gpv_organization_id x = gpv_organization_id v"
      "gpv_policy_id x \<noteq> gpv_policy_id v" for x
    using conf [OF p v _ that(2-4)] that(1,2) db1 by (simp add: same_authority_def activated_def)
  then have "authority_ok (row_put gpv_id ((activated run target eff v)\<lparr>gpv_record_version := gpv_record_version v + 1\<rparr>)
      (policy_versions db1))"
    using db1 by (intro authority_ok_put) (auto simp: policy_inv_def activated_def)
  then show ?thesis
    using db1 required_policy_in [OF p]
    by (intro update_pair_inv [OF _ _ _ up _ uv _ au])
       (simp_all add: pol_ident_def same_row_def version_key_def activated_def)
qed

section \<open>The commands of the service\<close>

lemma service_get_policy_in:
  assumes "service_get_policy actor pid db = Inr w"
  shows "find_policy (actor_organization_id actor) pid db = Some (pw_policy w)"
    "pw_versions w = map (\<lambda>v. version_bundle (pw_policy w) v db)
       (rev (sort_key gpv_version (versions_of (pw_policy w) db)))"
  using assms
  by (auto simp: service_get_policy_def required_policy_workspace_def policy_workspace_of_def run_simps
      split: option.splits)

text \<open>The version the service judged is the one the repository changes.\<close>

lemma judged_version:
  assumes inv: "policy_inv db" and w: "service_get_policy actor pid db = Inr w"
    and b: "required_current_version w n = Inr b"
    and p: "required_policy (actor_organization_id actor) pid db = Inr p" and v: "required_version p n db = Inr v"
  shows "pw_policy w = p" "pb_version b = v"
proof -
  show p': "pw_policy w = p"
    using service_get_policy_in(1) [OF w] p by (simp add: required_policy_def run_simps)
  have "b \<in> set (pw_versions w)" "gpv_version (pb_version b) = n"
    using b by (auto simp: required_current_version_def run_simps dest!: find_SomeD)
  then have "pb_version b \<in> set (versions_of p db)" "gpv_version (pb_version b) = n"
    using service_get_policy_in(2) [OF w] p' by (auto simp: version_bundle_def)
  then have "pb_version b \<in> set (policy_versions db)" "version_key (pb_version b) = version_key v"
    using required_version_in(2) [OF v] by (auto simp: versions_of_def version_key_def)
  then show "pb_version b = v"
    using ids_ok_key required_version_in(1) [OF v] inv by (auto simp: policy_inv_def)
qed

lemma sort_Nil_iff: "sort xs = [] \<longleftrightarrow> xs = []"
  by (metis set_empty set_sort)

lemma no_conflict_disjoint:
  assumes inv: "policy_inv db" and p: "find_policy org_pid pid db = Some p"
    and cs: "list_candidates org_pid db = Inr candidates"
    and none: "find_conflicts v pid eff candidates = []"
    and v: "gpv_organization_id v = pol_organization_id p" "gpv_policy_id v = pol_id p"
    and x: "x \<in> set (policy_versions db)" "active_status x" "gpv_organization_id x = gpv_organization_id v"
      "gpv_policy_id x \<noteq> gpv_policy_id v"
  shows "\<not> same_authority (v\<lparr>gpv_effective_from := Some eff\<rparr>) x"
proof -
  from cs obtain g where g: "organization_of org_pid db = Some g"
    and candidates: "candidates = [\<lparr>pc_policy = p, pc_version = v, pc_clauses = clause_records p v db\<rparr>.
      p \<leftarrow> policies_of (org_id g) db, v \<leftarrow> versions_of p db, active_version v]"
    by (auto simp: list_candidates_def run_simps)
  have d: "distinct (map org_public_id (organizations db))" using inv by (simp add: policy_inv_def)
  have "org_id g = pol_organization_id p"
    using find_policy_in(3) [OF p] g d
    by (auto simp: organization_of_def distinct_map dest!: find_SomeD dest: inj_onD)
  moreover obtain q where q: "q \<in> set (policies db)" "pol_id q = gpv_policy_id x"
    "pol_organization_id q = gpv_organization_id x"
    using inv x(1) by (fastforce simp: policy_inv_def ids_ok_def pol_ident_def)
  moreover have "active_version x"
    using inv x(1,2) by (auto simp: policy_inv_def authority_ok_def active_version_def active_status_def)
  ultimately have "\<lparr>pc_policy = q, pc_version = x, pc_clauses = clause_records q x db\<rparr> \<in> set candidates"
    using x(1,3) v(1) by (auto simp: candidates policies_of_def versions_of_def)
  moreover have "pol_public_id q \<noteq> pid"
  proof
    assume "pol_public_id q = pid"
    then have "snd (pol_ident q) = snd (pol_ident p)"
      using find_policy_in(2) [OF p] q(3) x(3) v(1) by (simp add: pol_ident_def)
    moreover have "inj_on (snd \<circ> pol_ident) (set (policies db))"
      using inv by (simp add: policy_inv_def ids_ok_def distinct_map)
    ultimately have "q = p"
      using q(1) find_policy_in(1) [OF p] by (simp add: inj_on_def)
    then show False using q(2) v(2) x(4) by (simp add: pol_ident_def)
  qed
  ultimately show ?thesis
    using none by (auto simp: find_conflicts_def sort_Nil_iff filter_empty_conv same_authority_def Let_def)
qed

lemma service_activate_inv:
  assumes inv: "policy_inv db"
    and run: "service_activate run actor pid n e e' req target now c db = Inr (w', db')"
  shows "policy_inv db'"
proof -
  from run obtain w b eff candidates where w: "service_get_policy actor pid db = Inr w"
    and b: "required_current_version w n = Inr b" and st: "gpv_status (pb_version b) = PV_IN_REVIEW"
    and cs: "list_candidates (actor_organization_id actor) db = Inr candidates"
    and res: "(if find_conflicts (pb_version b) (pol_public_id (pw_policy w)) eff candidates \<noteq> []
      then mark_conflicting run (actor_organization_id actor) pid n (actor_id actor)
        (actor_kind_value (actor_kind actor)) e e'
        (find_conflicts (pb_version b) (pol_public_id (pw_policy w)) eff candidates) c db
      else activate_version run (actor_organization_id actor) pid n (actor_id actor)
        (actor_kind_value (actor_kind actor)) e e' target eff c db) = Inr (w', db')"
    unfolding service_activate_def Let_def by (simp only: run_simps) blast
  note j = judged_version [OF inv w b]
  note fp = service_get_policy_in(1) [OF w]
  show ?thesis
  proof (cases "find_conflicts (pb_version b) (pol_public_id (pw_policy w)) eff candidates = []")
    case False
    show ?thesis
      by (rule mark_conflicting_inv [OF inv])
         (use res False j(2) st in \<open>auto simp: active_status_def\<close>)
  next
    case True
    then have none: "find_conflicts (pb_version b) pid eff candidates = []"
      using find_policy_in(2) [OF fp] by simp
    show ?thesis
    proof (rule activate_version_inv [OF inv])
      show "activate_version run (actor_organization_id actor) pid n (actor_id actor)
        (actor_kind_value (actor_kind actor)) e e' target eff c db = Inr (w', db')" using res True by simp
    next
      fix p v x
      assume pv: "required_policy (actor_organization_id actor) pid db = Inr p" "required_version p n db = Inr v"
        and x: "x \<in> set (policy_versions db)" "active_status x"
          "gpv_organization_id x = gpv_organization_id v" "gpv_policy_id x \<noteq> gpv_policy_id v"
      have "gpv_organization_id v = pol_organization_id p" "gpv_policy_id v = pol_id p"
        using required_version_in(2) [OF pv(2)] by (simp_all add: version_key_def)
      then show "\<not> same_authority (v\<lparr>gpv_effective_from := Some eff\<rparr>) x"
        using no_conflict_disjoint [OF inv _ cs _ _ _ x] fp none j [OF pv] by simp
    qed
  qed
qed

interpretation policy_sys: step_invariant policy_step policy_inv
proof
  fix s t :: database
  assume "policy_step s t" and inv: "policy_inv s"
  then show "policy_inv t"
  proof cases
    case create
    then show ?thesis using create_policy_inv [OF inv]
      by (auto simp: service_create_policy_def run_simps split: prod.splits)
  next
    case draft
    then show ?thesis using create_draft_inv [OF inv] by (auto simp: service_create_draft_def run_simps)
  next
    case retry
    then show ?thesis using retry_source_inv [OF inv] by (auto simp: service_retry_source_def run_simps)
  next
    case submit
    then show ?thesis using submit_review_inv [OF inv] by (auto simp: service_submit_policy_review_def run_simps)
  next
    case publish
    then show ?thesis using service_activate_inv [OF inv] by (auto simp: service_publish_def)
  next
    case schedule
    then show ?thesis using service_activate_inv [OF inv] by (auto simp: service_schedule_def)
  next
    case retire
    then show ?thesis using retire_version_inv [OF inv] by (auto simp: service_retire_def run_simps)
  next
    case other
    then show ?thesis using inv by (simp add: policy_inv_def)
  qed
qed

lemma empty_policy_inv:
  "policies db = [] \<Longrightarrow> policy_versions db = [] \<Longrightarrow> distinct (map org_public_id (organizations db)) \<Longrightarrow> policy_inv db"
  by (simp add: policy_inv_def ids_ok_def authority_ok_def)

section \<open>Properties\<close>

text \<open>C10. Along every run of the policy commands from empty policy tables, an active version (published or
  scheduled) is immutable, a policy has at most one published version, and two active versions of
  different policies of an organization that decide the same scope for overlapping categories,
  products, regions, channels and tiers are never in force at the same time.\<close>

theorem active_policies_disjoint:
  assumes "policy_step\<^sup>*\<^sup>* db db'" and "policies db = []" and "policy_versions db = []"
    and "distinct (map org_public_id (organizations db))"
    and "v \<in> set (policy_versions db')" and "w \<in> set (policy_versions db')"
    and "active_status v" and "active_status w" and "gpv_organization_id v = gpv_organization_id w"
  shows "gpv_immutable v
    \<and> (gpv_policy_id v = gpv_policy_id w \<and> gpv_status v = PV_PUBLISHED \<and> gpv_status w = PV_PUBLISHED \<longrightarrow> v = w)
    \<and> (gpv_policy_id v \<noteq> gpv_policy_id w \<longrightarrow> \<not> same_authority v w)"
proof -
  have "policy_inv db'" using policy_sys.along_run [OF assms(1)] empty_policy_inv assms(2-4) by blast
  then have "authority_ok (policy_versions db')" by (simp add: policy_inv_def)
  then show ?thesis using assms(5-9) unfolding authority_ok_def by metis
qed

lemma put_version_error: "put_version v db = Inl e \<Longrightarrow> e = IntegrityError ''governed_policy_versions''"
  by (auto simp: put_version_def bindE_Inl_iff run_simps)

lemma foldE_fails:
  assumes "x \<in> set xs" and "\<And>s. \<exists>e. f x s = Inl e" and "\<And>y s e. f y s = Inl e \<Longrightarrow> e = err"
  shows "foldE f xs s = Inl err"
  using assms(1)
proof (induction xs arbitrary: s)
  case (Cons y ys)
  then show ?case
    using assms(2,3) by (cases "f y s") (auto, metis Inl_Inr_False)
qed simp

text \<open>C18. A version cannot be published while another version of the policy is scheduled for a later
  date: the window of the scheduled version would end before it starts, which the database refuses,
  so the command raises \<open>IntegrityError\<close> and changes nothing.\<close>

theorem publish_over_scheduled_refused:
  assumes "required_policy org_pid policy_pid db = Inr p" and "required_version p n db = Inr v"
    and "x \<in> set (versions_of p db)" and "gpv_id x \<noteq> gpv_id v" and "gpv_status x = PV_SCHEDULED"
    and "gpv_effective_from x = Some t" and "effective_from \<le> t"
  shows "activate_version run org_pid policy_pid n actor actor_type expected_policy expected PV_PUBLISHED
      effective_from correlation_id db = Inl (IntegrityError ''governed_policy_versions'')"
proof -
  let ?f = "retired_previous (pr_now run) effective_from"
  have "x \<in> set (previous_versions p v db)" using assms(3-5) by (simp add: previous_versions_def)
  then have "?f x \<in> set (map ?f (previous_versions p v db))" by simp
  moreover have "\<not> policy_version_checks (?f x)"
    using assms(6,7) by (auto simp: policy_version_checks_def retired_previous_def split: option.splits)
  then have "\<And>s. \<exists>e. put_version (?f x) s = Inl e" by (simp add: put_version_def)
  ultimately have "foldE put_version (map ?f (previous_versions p v db)) db
      = Inl (IntegrityError ''governed_policy_versions'')"
    by (rule foldE_fails) (rule put_version_error)
  then show ?thesis using assms(1,2) by (simp add: activate_version_def)
qed

end
