(* ===== verification/Policy_Evidence_Props.thy ===== *)
theory Policy_Evidence_Props
  imports Policy_Evidence Policy_Authority
begin

text \<open>
  What the retrieval promises the decision: evidence is bound only from clauses of versions that are
  active, apply to the case and are in force, no scope is decided by two policies, and the policies
  that the lifecycle lets become active never conflict on a case with one product.
\<close>

section \<open>Candidates\<close>

lemma set_rank_rows: "set (rank_rows keys rows) = set (zip keys rows)"
  by (simp add: rank_rows_def)

definition admissible ::
    "uuid \<Rightarrow> retrieval_context \<Rightarrow> timestamp \<Rightarrow> database \<Rightarrow> policy_candidate \<Rightarrow> bool" where
  "admissible org x as_of db c \<longleftrightarrow> c \<in> candidate_of ` set (active_clauses org x as_of db)"

lemma ranked_admissible:
  assumes "set rows \<subseteq> set (active_clauses org x as_of db)" and "(k, r) \<in> set (take n (rank_rows keys rows))"
  shows "admissible org x as_of db (candidate_of r)"
  using assms set_take_subset [of n "rank_rows keys rows"]
  by (auto simp: admissible_def set_rank_rows dest!: set_zip_rightD)

lemma search_admissible:
  assumes "search_retrieval_candidates distance org_pid x as_of q ev n db = Inr page"
  shows "\<exists>g. organization_of org_pid db = Some g \<and> rp_conflicting_scopes page = conflicting_scopes (org_id g) x as_of db
    \<and> (\<forall>c\<in>fst ` set (rp_candidates page). admissible (org_id g) x as_of db c)"
proof -
  from assms obtain g where g: "organization_of org_pid db = Some g"
    by (auto simp: search_retrieval_candidates_def run_simps)
  obtain a b c where counts: "retrieval_counts (org_id g) x as_of db = (a, b, c)" by (metis prod_cases3)
  let ?rows = "filter (\<lambda>(p, v, c). gpc_embedding_version c = ev) (active_clauses (org_id g) x as_of db)"
  have "set ?rows \<subseteq> set (active_clauses (org_id g) x as_of db)" by auto
  note adm = ranked_admissible [OF this]
  show ?thesis
    using assms g counts adm
    by (auto simp: search_retrieval_candidates_def Let_def run_simps split: if_splits)
qed

lemma indexed_rows_subset:
  "fst ` set (indexed_rows org x as_of i db) \<subseteq> set (active_clauses org x as_of db)"
  by (auto simp: indexed_rows_def)

lemma dense_admissible:
  assumes "c \<in> set (dense_candidates distance q n (indexed_rows org x as_of i db))"
  shows "admissible org x as_of db c"
proof -
  let ?near = "filter (\<lambda>(r, e). distance (ce_embedding e) q \<le> 55 / 100) (indexed_rows org x as_of i db)"
  have sub: "set (map fst ?near) \<subseteq> set (active_clauses org x as_of db)"
    using indexed_rows_subset [of org x as_of i db] by force
  obtain k r where kr: "(k, r) \<in> set (take n (rank_rows
      (map (\<lambda>(r, e). distance (ce_embedding e) q) ?near) (map fst ?near)))" "c = candidate_of r"
    using assms by (auto simp: dense_candidates_def Let_def)
  show ?thesis using ranked_admissible [OF sub kr(1)] kr(2) by (simp only:)
qed

lemma lexical_admissible:
  assumes "c \<in> set (lexical_candidates matches rank q n (indexed_rows org x as_of i db))"
  shows "admissible org x as_of db c"
proof -
  let ?found = "filter (\<lambda>(p, v, c). matches (gpc_search_vector c) q \<and> rank (gpc_search_vector c) q > 5 / 100)
    (map fst (indexed_rows org x as_of i db))"
  have sub: "set ?found \<subseteq> set (active_clauses org x as_of db)"
    using indexed_rows_subset [of org x as_of i db] by auto
  obtain k r where kr: "(k, r) \<in> set (take n (rank_rows
      (map (\<lambda>(p, v, c). - rank (gpc_search_vector c) q) ?found) ?found))" "c = candidate_of r"
    using assms by (auto simp: lexical_candidates_def Let_def)
  show ?thesis using ranked_admissible [OF sub kr(1)] kr(2) by (simp only:)
qed

lemma hybrid_admissible:
  assumes "search_hybrid_candidates distance matches rank org_pid key x as_of qt q n db = Inr page"
  shows "\<exists>g. organization_of org_pid db = Some g \<and> hy_conflicting_scopes page = conflicting_scopes (org_id g) x as_of db
    \<and> (\<forall>c\<in>set (hy_dense page) \<union> set (hy_lexical page). admissible (org_id g) x as_of db c)"
  using assms
  by (auto simp: search_hybrid_candidates_def Let_def run_simps plain_page_def split: prod.splits if_splits option.splits
      intro: dense_admissible lexical_admissible)

section \<open>Fusion and selection\<close>

lemma accumulate_candidates:
  assumes "accumulate source ranking t = Inr t'" and "rk_candidate ` set t \<subseteq> S" and "set ranking \<subseteq> S"
  shows "rk_candidate ` set t' \<subseteq> S"
  using assms(1) [unfolded accumulate_def] assms(2)
proof (rule foldE_invariant [where P = "\<lambda>t. rk_candidate ` set t \<subseteq> S"])
  fix x t u
  assume "x \<in> set (zip (map int [1..<Suc (length ranking)]) ranking)" "accumulate_one source x t = Inr u"
    "rk_candidate ` set t \<subseteq> S"
  moreover then have "snd x \<in> S" using assms(3) by (metis prod.collapse set_zip_rightD subsetD)
  moreover have "rk_candidate (add_rank source k r) = rk_candidate r" for k r
    by (simp add: add_rank_def Let_def)
  ultimately show "rk_candidate ` set u \<subseteq> S"
    by (auto simp: accumulate_one_def run_simps Let_def image_subset_iff split: prod.splits if_splits)
qed

lemma fused_candidates:
  assumes "fuse_rankings dense lexical = Inr ranked"
  shows "rk_candidate ` set ranked \<subseteq> set dense \<union> set lexical"
proof -
  from assms obtain t u where t: "accumulate DENSE dense [] = Inr t" and u: "accumulate LEXICAL lexical t = Inr u"
    and ranked: "set ranked = set u"
    by (auto simp: fuse_rankings_def run_simps)
  have "rk_candidate ` set t \<subseteq> set dense \<union> set lexical"
    by (rule accumulate_candidates [OF t]) auto
  then show ?thesis using accumulate_candidates [OF u] ranked by auto
qed

lemma select_loop_subset: "set (select_loop n k acc rs) \<subseteq> set acc \<union> set rs"
  by (induction n k acc rs rule: select_loop.induct) (auto simp: Let_def split: if_splits)

lemma select_diverse_subset: "select_diverse n k rs = Inr ss \<Longrightarrow> set ss \<subseteq> set rs"
  using select_loop_subset [of n _ "[]" rs] by (auto simp: select_diverse_def run_simps Let_def split: if_splits)

section \<open>Resolutions\<close>

definition admissible_binding ::
    "uuid \<Rightarrow> retrieval_context \<Rightarrow> timestamp \<Rightarrow> database \<Rightarrow> policy_binding \<Rightarrow> bool" where
  "admissible_binding org x as_of db b \<longleftrightarrow>
     (pbd_policy b, pbd_version b, pbd_clause b) \<in> set (active_clauses org x as_of db)"

definition sound_resolution ::
    "string \<Rightarrow> retrieval_context \<Rightarrow> timestamp \<Rightarrow> database \<Rightarrow> retrieval_resolution \<Rightarrow> bool" where
  "sound_resolution org_pid x as_of db r \<longleftrightarrow>
     (rr2_status r = ER_RELEVANT \<longrightarrow> rr2_bindings r \<noteq> [] \<and> (\<exists>g. organization_of org_pid db = Some g
        \<and> conflicting_scopes (org_id g) x as_of db = []
        \<and> (\<forall>b\<in>set (rr2_bindings r). admissible_binding (org_id g) x as_of db b)))"

lemma first_state_status:
  "first_state states = Some r \<Longrightarrow> \<forall>(b, st, m)\<in>set states. st \<noteq> ER_RELEVANT \<Longrightarrow> rr2_status r \<noteq> ER_RELEVANT"
  by (auto simp: first_state_def dest!: find_SomeD)

lemma first_state_None: "first_state states = None \<longleftrightarrow> (\<forall>(b, st)\<in>set states. \<not> b)"
  by (auto simp: first_state_def find_None_iff)

lemma guard_search_status:
  assumes "guard_search p = Some r"
  shows "rr2_status r \<noteq> ER_RELEVANT"
  by (rule first_state_status [OF assms [unfolded guard_search_def]]) simp

lemma guard_scope_status:
  assumes "guard_scope p = Some r"
  shows "rr2_status r \<noteq> ER_RELEVANT"
  by (rule first_state_status [OF assms [unfolded guard_scope_def]]) simp

lemma guard_scope_case:
  assumes "(case guard_scope p of Some s \<Rightarrow> Inr s | None \<Rightarrow> m) = Inr r" and "rr2_status r = ER_RELEVANT"
  shows "guard_scope p = None" "m = Inr r"
  using assms guard_scope_status by (auto split: option.splits)

lemma keep_preferred_set: "set (keep_preferred x ys) \<subseteq> insert x (set ys)"
  by (induction ys) auto

lemma fold_keep_set: "set (fold (\<lambda>r. keep_preferred (f r)) rs acc) \<subseteq> f ` set rs \<union> set acc"
proof (induction rs arbitrary: acc)
  case (Cons r rs)
  show ?case using Cons.IH [of "keep_preferred (f r) acc"] keep_preferred_set [of "f r" acc] by auto
qed simp

lemma v1_bindings_from:
  assumes "b \<in> set (v1_bindings sha fsqrt ws q page)"
  shows "\<exists>r\<in>set (rp_candidates page). b = v1_binding sha fsqrt ws q r"
proof -
  let ?f = "\<lambda>r. (v1_preference fsqrt q r, v1_binding sha fsqrt ws q r)"
  let ?scored = "filter (\<lambda>r. \<not> v1_score fsqrt q r < 15 / 100) (rp_candidates page)"
  have "b \<in> snd ` set (fold (\<lambda>r. keep_preferred (?f r)) ?scored [])"
    using assms by (simp add: v1_bindings_def Let_def)
  then have "b \<in> snd ` ?f ` set ?scored" using fold_keep_set [of ?f ?scored "[]"] by fastforce
  then show ?thesis by auto
qed

lemma v1_sound:
  assumes "v1_resolve sha fsqrt distance ev emb actor ws as_of db = Inr r"
  shows "sound_resolution (actor_organization_id actor) (case_context ws) as_of db r"
proof -
  let ?q = "cs_issue (ws_case ws) @ '' '' @ crq_summary (ws_request ws)"
  from assms obtain page where page: "search_retrieval_candidates distance (actor_organization_id actor)
      (case_context ws) as_of (emb ?q) ev 64 db = Inr page"
    and r: "r = v1_rank sha fsqrt ws ?q page"
    by (auto simp: v1_resolve_def Let_def run_simps)
  from search_admissible [OF page] obtain g where g: "organization_of (actor_organization_id actor) db = Some g"
    "rp_conflicting_scopes page = conflicting_scopes (org_id g) (case_context ws) as_of db"
    "\<And>c. c \<in> set (rp_candidates page) \<Longrightarrow> admissible (org_id g) (case_context ws) as_of db (fst c)" by blast
  have adm: "admissible_binding (org_id g) (case_context ws) as_of db b"
    if "b \<in> set (v1_bindings sha fsqrt ws ?q page)" for b
    using v1_bindings_from [OF that] g(3)
    by (fastforce simp: admissible_def admissible_binding_def v1_binding_def Let_def candidate_of_def first_clause_def)
  show ?thesis
  proof (cases "guard_search page")
    case None
    then have "conflicting_scopes (org_id g) (case_context ws) as_of db = []"
      using g(2) by (simp add: guard_search_def first_state_None)
    then show ?thesis
      using r None g(1) adm
      by (auto simp: v1_rank_def Let_def sound_resolution_def missing_relevant_def relevant_resolution_def)
  next
    case (Some s)
    then have "rr2_status r \<noteq> ER_RELEVANT" using r guard_search_status by (simp add: v1_rank_def)
    then show ?thesis by (simp add: sound_resolution_def)
  qed
qed

lemma v2_sound:
  assumes "v2_resolve sha distance matches rank minimize emb key actor ws as_of c db = Inr r"
  shows "sound_resolution (actor_organization_id actor) (case_context ws) as_of db r"
proof (cases "rr2_status r = ER_RELEVANT")
  case False
  then show ?thesis by (simp add: sound_resolution_def)
next
  case True
  let ?x = "case_context ws" and ?o = "actor_organization_id actor"
  from assms obtain scope where "(case guard_scope scope of Some r \<Rightarrow> Inr r | None \<Rightarrow>
      bindE (minimize ws) (\<lambda>(qt, qf). bindE (search_hybrid_candidates distance matches rank ?o key ?x as_of qt
        (emb qt) 32 db) (v2_rank sha ws key qf c))) = Inr r"
    by (auto simp: v2_resolve_def Let_def bindE_Inr_iff)
  from guard_scope_case(2) [OF this True] obtain qt qf search where
    search: "search_hybrid_candidates distance matches rank ?o key ?x as_of qt (emb qt) 32 db = Inr search"
    and rank: "v2_rank sha ws key qf c search = Inr r" by (auto simp: run_simps)
  note v2 = guard_scope_case [OF rank [unfolded v2_rank_def] True]
  from v2(2) obtain fused ranked where
    fused: "fuse_rankings (hy_dense search) (hy_lexical search) = Inr fused"
    and sel: "select_diverse 3 2 fused = Inr ranked"
    and r: "r = (if ranked = [] then missing_relevant else relevant_resolution (map (v2_binding sha ws key qf c) ranked))"
    by (auto simp: bindE_Inr_iff)
  from hybrid_admissible [OF search] obtain g where g: "organization_of ?o db = Some g"
    "hy_conflicting_scopes search = conflicting_scopes (org_id g) ?x as_of db"
    "\<forall>c\<in>set (hy_dense search) \<union> set (hy_lexical search). admissible (org_id g) ?x as_of db c" by blast
  have "conflicting_scopes (org_id g) ?x as_of db = []"
    using v2(1) g(2) by (simp add: guard_scope_def first_state_None)
  moreover have "admissible_binding (org_id g) ?x as_of db (v2_binding sha ws key qf c item)"
    if "item \<in> set ranked" for item
  proof -
    have "rk_candidate item \<in> set (hy_dense search) \<union> set (hy_lexical search)"
      using that select_diverse_subset [OF sel] fused_candidates [OF fused] by blast
    then have "admissible (org_id g) ?x as_of db (rk_candidate item)" using g(3) by blast
    then show ?thesis
      by (auto simp: admissible_def admissible_binding_def v2_binding_def Let_def candidate_of_def first_clause_def)
  qed
  ultimately show ?thesis
    using r True g(1) by (auto simp: sound_resolution_def missing_relevant_def relevant_resolution_def)
qed

lemma resolve_sound:
  assumes "resolve_bindings rt actor ws as_of c db = Inr r"
  shows "sound_resolution (actor_organization_id actor) (case_context ws) as_of db r"
  using assms v1_sound v2_sound
  by (auto simp: resolve_bindings_def facade_resolve_def run_simps split: retrieval_mode.splits if_splits option.splits)

section \<open>Binding\<close>

definition bundle_of :: "policy_binding \<Rightarrow> evidence_bundle \<Rightarrow> bool" where
  "bundle_of b e \<longleftrightarrow> eb_policy e = pbd_policy b \<and> eb_version e = pbd_version b \<and> eb_clause e = pbd_clause b
     \<and> cpe_fingerprint (eb_evidence e) = pbd_fingerprint b"

lemma bind_one_bundles:
  assumes "bind_one ids c (i, b) (es, db) = Inr (es', db')"
  shows "\<exists>e. es' = es @ [e] \<and> bundle_of b e"
  using assms
  by (auto simp: bind_one_def run_simps bundle_of_def new_evidence_def split: if_splits option.splits dest!: find_SomeD)

lemma bind_fold_bundles:
  assumes "foldE (bind_one ids c) (zip ns bs) (es, db) = Inr (es', db')" and "length ns = length bs"
  shows "\<exists>fs. es' = es @ fs \<and> list_all2 bundle_of bs fs"
  using assms
proof (induction bs arbitrary: ns es db)
  case Nil
  then show ?case by simp
next
  case (Cons b bs)
  then obtain i ms where ns: "ns = i # ms" "length ms = length bs" by (cases ns) auto
  with Cons.prems(1) obtain es1 db1 where one: "bind_one ids c (i, b) (es, db) = Inr (es1, db1)"
    and rest: "foldE (bind_one ids c) (zip ms bs) (es1, db1) = Inr (es', db')" by (auto simp: run_simps)
  from bind_one_bundles [OF one] obtain e where e: "es1 = es @ [e]" "bundle_of b e" by blast
  from Cons.IH [OF rest ns(2)] obtain fs where "es' = es1 @ fs" "list_all2 bundle_of bs fs" by blast
  then show ?case using e by (intro exI [of _ "e # fs"]) simp
qed

lemma bind_evidence_bundles:
  assumes "bind_evidence ids org_pid case_pid a t bs c db = Inr (es, db')"
  shows "list_all2 bundle_of bs es"
  using assms bind_fold_bundles [of ids _ "[0..<length bs]" bs "[]" db]
  by (auto simp: bind_evidence_def run_simps split: if_splits)

section \<open>Properties\<close>

lemma count_policies_le1:
  "count_policies vs \<le> 1 \<longleftrightarrow> (\<forall>v\<in>set vs. \<forall>w\<in>set vs. gpv_policy_id v = gpv_policy_id w)"
proof -
  have "count_policies vs \<le> 1 \<longleftrightarrow> card (gpv_policy_id ` set vs) \<le> Suc 0"
    by (simp add: count_policies_def length_remdups_card_conv)
  also have "\<dots> \<longleftrightarrow> (\<forall>a\<in>gpv_policy_id ` set vs. \<forall>b\<in>gpv_policy_id ` set vs. a = b)"
    by (rule card_le_Suc0_iff_eq) simp
  finally show ?thesis by simp
qed

lemma conflicting_scopes_empty:
  "conflicting_scopes org x as_of db = [] \<longleftrightarrow>
     (\<forall>v\<in>set (active_versions org x as_of db). \<forall>w\<in>set (active_versions org x as_of db).
        gpv_decision_scope v = gpv_decision_scope w \<longrightarrow> gpv_policy_id v = gpv_policy_id w)"
proof -
  let ?vs = "active_versions org x as_of db"
  have "conflicting_scopes org x as_of db = [] \<longleftrightarrow>
      (\<forall>s\<in>gpv_decision_scope ` set ?vs. count_policies (filter (\<lambda>v. gpv_decision_scope v = s) ?vs) \<le> 1)"
    unfolding conflicting_scopes_def Let_def filter_empty_conv set_sort set_remdups set_map not_less ..
  also have "\<dots> \<longleftrightarrow> (\<forall>s\<in>gpv_decision_scope ` set ?vs. \<forall>v\<in>set ?vs. \<forall>w\<in>set ?vs.
      gpv_decision_scope v = s \<and> gpv_decision_scope w = s \<longrightarrow> gpv_policy_id v = gpv_policy_id w)"
    unfolding count_policies_le1 set_filter by blast
  finally show ?thesis by (metis image_eqI)
qed

text \<open>C11. Refreshing the policy evidence of a case with either retrieval version binds, when it reports the
  evidence as relevant, at least one clause; every clause belongs to a version of the actor's
  organization that is active, applies to the context of the case and is in force at the time of the
  retrieval, and no decision scope is answered by the versions of two policies.\<close>

theorem bound_evidence_applicable:
  assumes "refresh_for_case rt ids actor case_id correlation_id as_of db = Inr (result, db')"
    and "er_status result = ER_RELEVANT"
  shows "er_evidence result \<noteq> [] \<and> (\<exists>ws g. get_workspace (actor_organization_id actor) case_id db = Inr (Some ws)
    \<and> organization_of (actor_organization_id actor) db = Some g
    \<and> (\<forall>a\<in>set (er_evidence result). eb_version a \<in> set (active_versions (org_id g) (case_context ws) as_of db)
        \<and> gpc_policy_version_id (eb_clause a) = gpv_id (eb_version a)
        \<and> (\<forall>b\<in>set (er_evidence result). gpv_decision_scope (eb_version a) = gpv_decision_scope (eb_version b)
              \<longrightarrow> gpv_policy_id (eb_version a) = gpv_policy_id (eb_version b))))"
proof -
  from assms obtain ws r where ws: "get_workspace (actor_organization_id actor) case_id db = Inr (Some ws)"
    and r: "resolve_bindings rt actor ws as_of correlation_id db = Inr r" and st: "rr2_status r = ER_RELEVANT"
    and bind: "bind_evidence ids (actor_organization_id actor) case_id (actor_id actor)
      (actor_kind_value (actor_kind actor)) (rr2_bindings r) correlation_id db = Inr (er_evidence result, db')"
    by (auto simp: refresh_for_case_def evidence_workspace_def run_simps split: if_splits prod.splits)
  let ?x = "case_context ws"
  from resolve_sound [OF r] st obtain g where ne: "rr2_bindings r \<noteq> []"
    and g: "organization_of (actor_organization_id actor) db = Some g"
    and none: "conflicting_scopes (org_id g) ?x as_of db = []"
    and adm: "\<And>b. b \<in> set (rr2_bindings r) \<Longrightarrow> admissible_binding (org_id g) ?x as_of db b"
    unfolding sound_resolution_def by blast
  note l2 = bind_evidence_bundles [OF bind]
  have "eb_version a \<in> set (active_versions (org_id g) ?x as_of db)
      \<and> gpc_policy_version_id (eb_clause a) = gpv_id (eb_version a)" if "a \<in> set (er_evidence result)" for a
  proof -
    from that l2 obtain b where "b \<in> set (rr2_bindings r)" "bundle_of b a"
      by (metis in_set_conv_nth list_all2_conv_all_nth)
    then show ?thesis using adm [of b] by (auto simp: admissible_binding_def bundle_of_def active_clauses_def)
  qed
  moreover from this have "gpv_policy_id (eb_version a) = gpv_policy_id (eb_version b)"
    if "a \<in> set (er_evidence result)" "b \<in> set (er_evidence result)"
      "gpv_decision_scope (eb_version a) = gpv_decision_scope (eb_version b)" for a b
    using none [unfolded conflicting_scopes_empty] that by blast
  moreover have "er_evidence result \<noteq> []" using l2 ne by auto
  ultimately show ?thesis using ws g by blast
qed

lemma match_overlap:
  "json_dimension_match a [x] \<Longrightarrow> json_dimension_match b [x] \<Longrightarrow> dimensions_overlap a b"
  by (auto simp: json_dimension_match_def dimensions_overlap_def list_ex_iff)

lemma effective_overlap:
  assumes "effective_match t v" "effective_match t w" "datetime_min \<le> t" "t < datetime_max"
  shows "time_windows_overlap (gpv_effective_from v) (gpv_effective_to v) (gpv_effective_from w) (gpv_effective_to w)"
  using assms
  by (auto simp: effective_match_def time_windows_overlap_def Let_def split: option.splits)

text \<open>C12. The lifecycle and the retrieval agree: after every run of the policy commands from empty policy
  tables, a case with a single product is never answered by two policies in the same decision scope,
  so its retrieval is never reported as conflicting.\<close>

theorem single_product_no_conflict:
  assumes "policy_step\<^sup>*\<^sup>* db db'" and "policies db = []" and "policy_versions db = []"
    and "distinct (map org_public_id (organizations db))"
    and "rx_products x = [product]" and "datetime_min \<le> as_of" and "as_of < datetime_max"
  shows "conflicting_scopes organization_id x as_of db' = []"
proof -
  have "policy_inv db'" using policy_sys.along_run [OF assms(1)] empty_policy_inv assms(2-4) by blast
  then have ok: "authority_ok (policy_versions db')" by (simp add: policy_inv_def)
  let ?vs = "active_versions organization_id x as_of db'"
  have same: "gpv_policy_id v = gpv_policy_id w"
    if "v \<in> set ?vs" "w \<in> set ?vs" "gpv_decision_scope v = gpv_decision_scope w" for v w
  proof (rule ccontr)
    assume diff: "gpv_policy_id v \<noteq> gpv_policy_id w"
    have m: "active_match x as_of v" "active_match x as_of w" "active_status v" "active_status w"
      "v \<in> set (policy_versions db')" "w \<in> set (policy_versions db')"
      "gpv_organization_id v = gpv_organization_id w"
      using that by (auto simp: active_versions_def base_versions_def active_version_def active_status_def)
    then have "same_authority v w"
      using that(3) assms(5-7)
      by (auto simp: same_authority_def active_match_def applicable_match_def category_match_def
          intro: match_overlap effective_overlap)
    then show False using ok m(3-7) diff unfolding authority_ok_def by blast
  qed
  then show ?thesis unfolding conflicting_scopes_empty by blast
qed

end
