(* ===== verification/Policy_Indexing.thy ===== *)
theory Policy_Indexing
  imports Policy_Retrieval
begin

text \<open>
  The index of policy clauses: \<open>persistence/policy_indexing/job_queue.py\<close>, \<open>job_results.py\<close>,
  \<open>profile_counts.py\<close> and \<open>services/policy_indexing.py\<close>. Transactions run one after the other, so no row
  is skipped as locked. The clock readings, the primary keys and the digest are arguments, as are the
  embedding of a text and the check that a vector is finite (a rational always is).
\<close>

section \<open>Profiles\<close>

definition put_profile :: "embedding_profile \<Rightarrow> database \<Rightarrow> database" where
  "put_profile p db = db\<lparr>embedding_profiles := row_put ep_id p (embedding_profiles db)\<rparr>"

definition required_profile :: "string \<Rightarrow> database \<Rightarrow> error + embedding_profile" where
  "required_profile profile_key db =
     someE (find (\<lambda>p. ep_profile_key p = profile_key \<and> ep_status p \<notin> {EP_RETIRED, EP_FAILED})
              (embedding_profiles db))
       (LookupError ''The policy embedding profile is not available.'')"

definition live_clauses :: "database \<Rightarrow> policy_clause list" where
  "live_clauses db =
     [c. v \<leftarrow> policy_versions db, c \<leftarrow> policy_clauses db,
        active_version v \<and> gpc_organization_id c = gpv_organization_id v
        \<and> gpc_policy_id c = gpv_policy_id v \<and> gpc_policy_version_id c = gpv_id v]"

definition refreshed_profile :: "timestamp \<Rightarrow> embedding_profile \<Rightarrow> database \<Rightarrow> embedding_profile" where
  "refreshed_profile now p db =
     (let expected = length (live_clauses db);
          indexed = length (concat (map (\<lambda>c. clause_embeddings_of (ep_id p) c db) (live_clauses db)));
          p1 = p\<lparr>ep_expected_clause_count := int expected, ep_indexed_clause_count := int indexed\<rparr>
      in
      if expected > 0 \<and> indexed = expected
      then (if ep_status p \<notin> {EP_ACTIVE, EP_RETIRED}
            then p1\<lparr>ep_status := EP_READY,
                    ep_ready_at := (if ep_status p \<noteq> EP_READY then Some now else ep_ready_at p)\<rparr>
            else p1)
      else if ep_status p \<notin> {EP_RETIRED, EP_FAILED}
      then p1\<lparr>ep_status := EP_BUILDING, ep_ready_at := None\<rparr>
      else p1)"

definition refresh_profile_counts :: "timestamp \<Rightarrow> embedding_profile \<Rightarrow> database \<Rightarrow> database" where
  "refresh_profile_counts now p db = put_profile (refreshed_profile now p db) db"

section \<open>The queue\<close>

definition put_job :: "policy_index_job \<Rightarrow> database \<Rightarrow> database" where
  "put_job j db = db\<lparr>index_jobs := row_put ij_id j (index_jobs db)\<rparr>"

record enqueue_ids =
  eq_id :: "nat \<Rightarrow> uuid"
  eq_now :: "nat \<Rightarrow> timestamp"
  eq_uuid_text :: "uuid \<Rightarrow> string"
  eq_ready_now :: timestamp

definition unindexed_versions :: "embedding_profile \<Rightarrow> nat \<Rightarrow> database \<Rightarrow> policy_version list" where
  "unindexed_versions p limit db =
     take limit (sort_key gpv_created_at (sort_key gpv_id
       (filter (\<lambda>v. active_version v
          \<and> \<not> list_ex (\<lambda>j. ij_profile_id j = ep_id p \<and> ij_policy_version_id j = gpv_id v
                        \<and> ij_source_content_fingerprint j = gpv_content_hash v) (index_jobs db))
         (policy_versions db))))"

definition new_job ::
    "(string \<Rightarrow> string) \<Rightarrow> enqueue_ids \<Rightarrow> nat \<Rightarrow> embedding_profile \<Rightarrow> int \<Rightarrow> policy_version \<Rightarrow> policy_index_job" where
  "new_job sha ids i p page_budget v =
     (let key = sha (ep_profile_key p @ ''|'' @ eq_uuid_text ids (gpv_id v) @ ''|'' @ gpv_content_hash v) in
      \<lparr>ij_id = eq_id ids i, ij_public_id = ''PIJ-'' @ str_upper (take 16 key),
       ij_organization_id = gpv_organization_id v, ij_policy_id = gpv_policy_id v,
       ij_policy_version_id = gpv_id v, ij_profile_id = ep_id p,
       ij_source_content_fingerprint = gpv_content_hash v, ij_job_key = key, ij_status = IJ_PENDING,
       ij_page_budget = min page_budget 32, ij_attempt_count = 0, ij_available_at = eq_now ids i,
       ij_lease_owner = None, ij_lease_expires_at = None, ij_last_error_code = None,
       ij_indexed_clause_count = 0, ij_skipped_clause_count = 0, ij_completed_at = None,
       ij_created_at = eq_now ids i, ij_updated_at = eq_now ids i\<rparr>)"

text \<open>A conflict on the key of the job does nothing; every other violation raises.\<close>

definition enqueue_one ::
    "(string \<Rightarrow> string) \<Rightarrow> enqueue_ids \<Rightarrow> embedding_profile \<Rightarrow> int \<Rightarrow> nat \<times> policy_version \<Rightarrow> int \<times> database
     \<Rightarrow> error + int \<times> database" where
  "enqueue_one sha ids p page_budget = (\<lambda>(i, v) (created, db).
     let j = new_job sha ids i p page_budget v in
     if list_ex (\<lambda>k. ij_job_key k = ij_job_key j) (index_jobs db) then Inr (created, db)
     else bindE (insert_row ij_id index_job_checks index_job_clash ''policy_index_jobs'' j (index_jobs db))
            (\<lambda>rows. Inr (created + 1, db\<lparr>index_jobs := rows\<rparr>)))"

definition enqueue_missing ::
    "(string \<Rightarrow> string) \<Rightarrow> enqueue_ids \<Rightarrow> string \<Rightarrow> int \<Rightarrow> int \<Rightarrow> database \<Rightarrow> error + int \<times> database" where
  "enqueue_missing sha ids profile_key job_limit page_budget db =
     bindE (requireE (1 \<le> job_limit \<and> 1 \<le> page_budget)
              (ValueError ''Policy index job limits must be positive.'')) (\<lambda>_.
     bindE (required_profile profile_key db) (\<lambda>p.
     let vs = unindexed_versions p (nat job_limit) db in
     bindE (foldE (enqueue_one sha ids p page_budget) (zip [0..<length vs] vs) (0, db)) (\<lambda>(created, db1).
     Inr (created, refresh_profile_counts (eq_ready_now ids) p db1))))"

record index_work =
  iw_job :: policy_index_job
  iw_profile :: embedding_profile
  iw_clauses :: "policy_clause list"
  iw_lease_expires_at :: timestamp

definition embedding_current :: "uuid \<Rightarrow> policy_clause \<Rightarrow> database \<Rightarrow> bool" where
  "embedding_current profile_id c db \<longleftrightarrow> clause_embeddings_of profile_id c db \<noteq> []"

text \<open>The clauses of the version of a job without an embedding of their current content. The
  embeddings of a clause are unique per profile, so a clause is joined with at most one.\<close>

definition missing_clauses :: "policy_index_job \<Rightarrow> database \<Rightarrow> policy_clause list" where
  "missing_clauses j db =
     filter (\<lambda>c. gpc_organization_id c = ij_organization_id j
               \<and> gpc_policy_version_id c = ij_policy_version_id j
               \<and> \<not> embedding_current (ij_profile_id j) c db) (policy_clauses db)"

definition pending_clauses :: "policy_index_job \<Rightarrow> database \<Rightarrow> policy_clause list" where
  "pending_clauses j db = take (nat (ij_page_budget j)) (sort_key gpc_sequence (missing_clauses j db))"

definition exhausted_job :: "embedding_profile \<Rightarrow> timestamp \<Rightarrow> int \<Rightarrow> database \<Rightarrow> policy_index_job option" where
  "exhausted_job p now max_attempts db =
     (case sort_key (\<lambda>j. case ij_lease_expires_at j of None \<Rightarrow> 0 | Some t \<Rightarrow> t)
             (filter (\<lambda>j. ij_profile_id j = ep_id p \<and> ij_status j = IJ_RUNNING
                        \<and> (case ij_lease_expires_at j of None \<Rightarrow> False | Some t \<Rightarrow> t < now)
                        \<and> ij_attempt_count j \<ge> max_attempts) (index_jobs db)) of
        [] \<Rightarrow> None | j # _ \<Rightarrow> Some j)"

definition dead_job :: "timestamp \<Rightarrow> policy_index_job \<Rightarrow> policy_index_job" where
  "dead_job now j =
     j\<lparr>ij_status := IJ_DEAD, ij_last_error_code := Some ''worker_lost'', ij_lease_owner := None,
       ij_lease_expires_at := None, ij_updated_at := now\<rparr>"

definition bury_exhausted ::
    "timestamp \<Rightarrow> embedding_profile \<Rightarrow> timestamp \<Rightarrow> int \<Rightarrow> database \<Rightarrow> embedding_profile \<times> database" where
  "bury_exhausted ready_now p now max_attempts db =
     (case exhausted_job p now max_attempts db of None \<Rightarrow> (p, db)
      | Some j \<Rightarrow> (let db1 = put_job (dead_job now j) db
                  in (refreshed_profile ready_now p db1, refresh_profile_counts ready_now p db1)))"

definition claimable :: "embedding_profile \<Rightarrow> timestamp \<Rightarrow> int \<Rightarrow> policy_index_job \<Rightarrow> bool" where
  "claimable p now max_attempts j \<longleftrightarrow> ij_profile_id j = ep_id p \<and> ij_available_at j \<le> now
     \<and> ij_attempt_count j < max_attempts
     \<and> (ij_status j \<in> {IJ_PENDING, IJ_FAILED}
        \<or> (ij_status j = IJ_RUNNING
           \<and> (case ij_lease_expires_at j of None \<Rightarrow> False | Some t \<Rightarrow> t < now)))"

definition next_job :: "embedding_profile \<Rightarrow> timestamp \<Rightarrow> int \<Rightarrow> database \<Rightarrow> policy_index_job option" where
  "next_job p now max_attempts db =
     (case sort_key ij_available_at (sort_key ij_created_at (filter (claimable p now max_attempts) (index_jobs db))) of
        [] \<Rightarrow> None | j # _ \<Rightarrow> Some j)"

definition claimed_job :: "string \<Rightarrow> timestamp \<Rightarrow> timestamp \<Rightarrow> policy_index_job \<Rightarrow> policy_index_job" where
  "claimed_job worker_id expires write_now j =
     j\<lparr>ij_status := IJ_RUNNING, ij_attempt_count := ij_attempt_count j + 1, ij_lease_owner := Some worker_id,
       ij_lease_expires_at := Some expires, ij_updated_at := write_now\<rparr>"

definition index_claim ::
    "timestamp \<Rightarrow> timestamp \<Rightarrow> string \<Rightarrow> string \<Rightarrow> timestamp \<Rightarrow> int \<Rightarrow> int \<Rightarrow> database
     \<Rightarrow> error + index_work option \<times> database" where
  "index_claim ready_now write_now profile_key worker_id now lease_seconds max_attempts db =
     bindE (required_profile profile_key db) (\<lambda>p.
     let (p1, db1) = bury_exhausted ready_now p now max_attempts db in
     case next_job p now max_attempts db1 of None \<Rightarrow> Inr (None, db1)
     | Some j \<Rightarrow>
         let j' = claimed_job worker_id (now + seconds lease_seconds) write_now j; db2 = put_job j' db1 in
         Inr (Some \<lparr>iw_job = j', iw_profile = p1, iw_clauses = pending_clauses j' db2,
                    iw_lease_expires_at = now + seconds lease_seconds\<rparr>, db2))"

definition find_job :: "string \<Rightarrow> string \<Rightarrow> database \<Rightarrow> policy_index_job option" where
  "find_job org_pid job_pid db =
     find (\<lambda>j. ij_public_id j = job_pid
             \<and> list_ex (\<lambda>g. org_id g = ij_organization_id j \<and> org_public_id g = org_pid) (organizations db))
       (index_jobs db)"

definition reprocess ::
    "timestamp \<Rightarrow> string \<Rightarrow> string \<Rightarrow> database \<Rightarrow> error + policy_index_job \<times> database" where
  "reprocess now org_pid job_pid db =
     bindE (someE (find_job org_pid job_pid db) (LookupError ''The policy index job was not found.'')) (\<lambda>j.
     if ij_status j \<noteq> IJ_DEAD then Inr (j, db)
     else
       let j' = j\<lparr>ij_status := IJ_PENDING, ij_attempt_count := 0, ij_available_at := now, ij_lease_owner := None,
                  ij_lease_expires_at := None, ij_completed_at := None, ij_updated_at := now\<rparr>
       in Inr (j', put_job j' db))"

section \<open>Results\<close>

definition leased_job :: "index_work \<Rightarrow> timestamp \<Rightarrow> database \<Rightarrow> error + policy_index_job" where
  "leased_job work now db =
     someE (find (\<lambda>j. ij_id j = ij_id (iw_job work) \<and> ij_profile_id j = ep_id (iw_profile work)
                   \<and> ij_status j = IJ_RUNNING
                   \<and> ij_lease_owner j = ij_lease_owner (iw_job work)
                   \<and> ij_attempt_count j = ij_attempt_count (iw_job work)
                   \<and> (case ij_lease_expires_at j of None \<Rightarrow> False | Some t \<Rightarrow> t > now)) (index_jobs db))
       (RuntimeError ''The policy index lease is no longer current.'')"

definition upsert_embedding ::
    "(string \<Rightarrow> string) \<Rightarrow> uuid \<Rightarrow> index_work \<Rightarrow> policy_clause \<Rightarrow> decimal list \<Rightarrow> timestamp \<Rightarrow> database
     \<Rightarrow> error + database" where
  "upsert_embedding sha new_id work c vector now db =
     (let fp = sha (ep_profile_key (iw_profile work) @ ''|'' @ gpc_content_hash c);
          same = (\<lambda>e. ce_organization_id e = gpc_organization_id c \<and> ce_clause_id e = gpc_id c
                    \<and> ce_profile_id e = ep_id (iw_profile work))
      in
      if list_ex same (clause_embeddings db)
      then Inr (db\<lparr>clause_embeddings := map (\<lambda>e. if same e
             then e\<lparr>ce_source_content_hash := gpc_content_hash c, ce_embedding := vector,
                    ce_provider_request_fingerprint := fp, ce_indexed_at := now\<rparr> else e) (clause_embeddings db)\<rparr>)
      else bindE (insert_row ce_id (\<lambda>_. True) (\<lambda>_ _. False) ''governed_policy_clause_embeddings_v2''
             \<lparr>ce_id = new_id, ce_organization_id = gpc_organization_id c, ce_policy_id = gpc_policy_id c,
              ce_policy_version_id = gpc_policy_version_id c, ce_clause_id = gpc_id c,
              ce_profile_id = ep_id (iw_profile work), ce_source_content_hash = gpc_content_hash c,
              ce_embedding = vector, ce_provider_request_fingerprint = fp, ce_indexed_at = now\<rparr>
             (clause_embeddings db)) (\<lambda>rows. Inr (db\<lparr>clause_embeddings := rows\<rparr>)))"

definition persist_one ::
    "(string \<Rightarrow> string) \<Rightarrow> (nat \<Rightarrow> uuid) \<Rightarrow> index_work \<Rightarrow> timestamp \<Rightarrow> nat \<times> policy_clause \<times> decimal list
     \<Rightarrow> int \<times> int \<times> database \<Rightarrow> error + int \<times> int \<times> database" where
  "persist_one sha new_ids work now = (\<lambda>(i, c, vector) (indexed, skipped, db).
     bindE (requireE (int (length vector) = ep_dimensions (iw_profile work))
              (ValueError ''The embedding provider returned an invalid policy vector.'')) (\<lambda>_.
     if list_ex (\<lambda>k. gpc_id k = gpc_id c \<and> gpc_organization_id k = gpc_organization_id c
                   \<and> gpc_policy_version_id k = gpc_policy_version_id c
                   \<and> gpc_content_hash k = gpc_content_hash c) (policy_clauses db)
     then bindE (upsert_embedding sha (new_ids i) work c vector now db) (\<lambda>db1. Inr (indexed + 1, skipped, db1))
     else Inr (indexed, skipped + 1, db)))"

definition finished_job :: "int \<Rightarrow> int \<Rightarrow> bool \<Rightarrow> timestamp \<Rightarrow> timestamp \<Rightarrow> policy_index_job \<Rightarrow> policy_index_job" where
  "finished_job indexed skipped all_indexed now write_now j =
     (let j1 = j\<lparr>ij_indexed_clause_count := ij_indexed_clause_count j + indexed,
                 ij_skipped_clause_count := ij_skipped_clause_count j + skipped,
                 ij_lease_owner := None, ij_lease_expires_at := None, ij_updated_at := write_now\<rparr>
      in if all_indexed
         then j1\<lparr>ij_status := IJ_COMPLETED, ij_completed_at := Some now, ij_last_error_code := None\<rparr>
         else j1\<lparr>ij_status := IJ_PENDING, ij_available_at := now\<rparr>)"

definition finish_page ::
    "timestamp \<Rightarrow> timestamp \<Rightarrow> policy_index_job \<Rightarrow> index_work \<Rightarrow> int \<Rightarrow> int \<Rightarrow> timestamp \<Rightarrow> database
     \<Rightarrow> error + policy_index_job \<times> database" where
  "finish_page ready_now write_now j work indexed skipped now db =
     (let j' = finished_job indexed skipped (missing_clauses j db = []) now write_now j; db1 = put_job j' db in
      bindE (someE (row_get ep_id (ep_id (iw_profile work)) (embedding_profiles db1))
               (RuntimeError ''The policy embedding profile was removed.'')) (\<lambda>p.
      Inr (j', refresh_profile_counts ready_now p db1)))"

definition persist_page ::
    "(string \<Rightarrow> string) \<Rightarrow> (nat \<Rightarrow> uuid) \<Rightarrow> timestamp \<Rightarrow> timestamp \<Rightarrow> index_work \<Rightarrow> decimal list list \<Rightarrow> timestamp
     \<Rightarrow> database \<Rightarrow> error + policy_index_job \<times> database" where
  "persist_page sha new_ids ready_now write_now work vectors now db =
     bindE (requireE (length vectors = length (iw_clauses work))
              (ValueError ''The embedding response count does not match the clause page.'')) (\<lambda>_.
     bindE (leased_job work now db) (\<lambda>j.
     bindE (foldE (persist_one sha new_ids work now)
              (zip [0..<length vectors] (zip (iw_clauses work) vectors)) (0, 0, db)) (\<lambda>(indexed, skipped, db1).
     finish_page ready_now write_now j work indexed skipped now db1)))"

definition backoff_minutes :: "int \<Rightarrow> int" where
  "backoff_minutes n = min (2 ^ nat n) 60"

definition fail_job :: "string \<Rightarrow> timestamp \<Rightarrow> timestamp \<Rightarrow> int \<Rightarrow> policy_index_job \<Rightarrow> policy_index_job" where
  "fail_job error_code now write_now max_attempts j =
     j\<lparr>ij_status := (if ij_attempt_count j \<ge> max_attempts then IJ_DEAD else IJ_FAILED),
       ij_last_error_code := Some (take 100 error_code),
       ij_available_at := now + minutes (backoff_minutes (ij_attempt_count j)), ij_lease_owner := None,
       ij_lease_expires_at := None, ij_updated_at := write_now\<rparr>"

definition index_fail ::
    "timestamp \<Rightarrow> index_work \<Rightarrow> string \<Rightarrow> timestamp \<Rightarrow> int \<Rightarrow> database \<Rightarrow> error + policy_index_job \<times> database" where
  "index_fail write_now work error_code now max_attempts db =
     bindE (leased_job work now db) (\<lambda>j.
     let j' = fail_job error_code now write_now max_attempts j in
     Inr (j', put_job j' db))"

section \<open>The service\<close>

definition policy_index_max_attempts :: int where
  "policy_index_max_attempts = 3"

record drain_result =
  dr_claimed :: int
  dr_completed :: int
  dr_failed :: int
  dr_indexed :: int
  dr_skipped :: int

text \<open>One round of the loop of \<open>drain\<close>: its clock readings, its keys, and what the provider answers for
  the page of clauses (an exception with its class name, or the vectors).\<close>

record drain_round =
  rd_claim_now :: timestamp
  rd_claim_ready :: timestamp
  rd_claim_write :: timestamp
  rd_vectors :: "policy_clause list \<Rightarrow> string + decimal list list"
  rd_new_ids :: "nat \<Rightarrow> uuid"
  rd_persist_now :: timestamp
  rd_persist_ready :: timestamp
  rd_persist_write :: timestamp
  rd_fail_now :: timestamp
  rd_fail_write :: timestamp

text \<open>The class name of an exception that \<open>persist_page\<close> raises; the others do not occur there.\<close>

definition error_type :: "error \<Rightarrow> string" where
  "error_type e = (case e of ValueError _ \<Rightarrow> ''ValueError'' | RuntimeError _ \<Rightarrow> ''RuntimeError''
     | IntegrityError _ \<Rightarrow> ''IntegrityError'' | _ \<Rightarrow> ''Exception'')"

definition drain_page ::
    "(string \<Rightarrow> string) \<Rightarrow> drain_round \<Rightarrow> index_work \<Rightarrow> drain_result \<Rightarrow> database \<Rightarrow> error + drain_result \<times> database" where
  "drain_page sha rd work res db =
     (let attempt = (case rd_vectors rd (iw_clauses work) of
            Inl name \<Rightarrow> Inl name
          | Inr vectors \<Rightarrow>
              (case persist_page sha (rd_new_ids rd) (rd_persist_ready rd) (rd_persist_write rd) work vectors
                      (rd_persist_now rd) db of Inl e \<Rightarrow> Inl (error_type e) | Inr r \<Rightarrow> Inr r))
      in case attempt of
        Inr (j, db1) \<Rightarrow>
          Inr (res\<lparr>dr_indexed := dr_indexed res + ij_indexed_clause_count j - ij_indexed_clause_count (iw_job work),
                   dr_skipped := dr_skipped res + ij_skipped_clause_count j - ij_skipped_clause_count (iw_job work),
                   dr_completed := dr_completed res + (if ij_status j = IJ_COMPLETED then 1 else 0)\<rparr>, db1)
      | Inl name \<Rightarrow>
          bindE (index_fail (rd_fail_write rd) work name (rd_fail_now rd) policy_index_max_attempts db) (\<lambda>(j, db1).
          Inr (res\<lparr>dr_failed := dr_failed res + 1\<rparr>, db1)))"

fun drain_loop ::
    "(string \<Rightarrow> string) \<Rightarrow> string \<Rightarrow> string \<Rightarrow> int \<Rightarrow> drain_round list \<Rightarrow> drain_result \<Rightarrow> database
     \<Rightarrow> error + drain_result \<times> database" where
  "drain_loop sha profile_key worker_id lease_seconds [] res db = Inr (res, db)"
| "drain_loop sha profile_key worker_id lease_seconds (rd # rds) res db =
     bindE (index_claim (rd_claim_ready rd) (rd_claim_write rd) profile_key worker_id (rd_claim_now rd)
              lease_seconds policy_index_max_attempts db) (\<lambda>(work, db1).
     case work of None \<Rightarrow> Inr (res, db1)
     | Some w \<Rightarrow>
         bindE (drain_page sha rd w (res\<lparr>dr_claimed := dr_claimed res + 1\<rparr>) db1) (\<lambda>(res1, db2).
         drain_loop sha profile_key worker_id lease_seconds rds res1 db2))"

text \<open>The loop runs once for each job of the limit; \<open>rounds\<close> holds what the i-th round reads.\<close>

definition drain ::
    "(string \<Rightarrow> string) \<Rightarrow> enqueue_ids \<Rightarrow> (nat \<Rightarrow> drain_round) \<Rightarrow> string \<Rightarrow> string \<Rightarrow> int \<Rightarrow> int \<Rightarrow> int \<Rightarrow> database
     \<Rightarrow> error + drain_result \<times> database" where
  "drain sha ids rounds profile_key worker_id job_limit page_budget lease_seconds db =
     bindE (enqueue_missing sha ids profile_key job_limit page_budget db) (\<lambda>(created, db1).
     drain_loop sha profile_key worker_id lease_seconds (map rounds [0..<nat job_limit])
       \<lparr>dr_claimed = 0, dr_completed = 0, dr_failed = 0, dr_indexed = 0, dr_skipped = 0\<rparr> db1)"

end
