(* ===== verification/Policy_Indexing_Props.thy ===== *)
theory Policy_Indexing_Props
  imports Policy_Indexing
begin

text \<open>
  What a completed index job means, and the job that no operation takes up again: a page counts as an
  attempt, and the attempts of a job that makes progress are never reset.
\<close>

section \<open>The system of index jobs\<close>

inductive index_step :: "database \<Rightarrow> database \<Rightarrow> bool" where
  enqueue: "enqueue_missing sha ids key limit budget db = Inr (n, db') \<Longrightarrow> index_step db db'"
| claim: "index_claim ready wr key worker now secs policy_index_max_attempts db = Inr (w, db')
    \<Longrightarrow> index_step db db'"
| persist: "persist_page sha new_ids ready wr work vectors now db = Inr (j, db') \<Longrightarrow> index_step db db'"
| fail: "index_fail wr work code now policy_index_max_attempts db = Inr (j, db') \<Longrightarrow> index_step db db'"
| again: "reprocess now org_pid job_pid db = Inr (j, db') \<Longrightarrow> index_step db db'"
| other: "index_jobs db' = index_jobs db \<Longrightarrow> index_step db db'"

definition spent :: "policy_index_job \<Rightarrow> bool" where
  "spent j \<longleftrightarrow> ij_status j = IJ_PENDING \<and> policy_index_max_attempts \<le> ij_attempt_count j"

definition keeps_job :: "policy_index_job \<Rightarrow> database \<Rightarrow> bool" where
  "keeps_job j db \<longleftrightarrow> unique_keys ij_id (index_jobs db) \<and> j \<in> set (index_jobs db) \<and> spent j"

section \<open>What the operations write to the jobs\<close>

lemma refresh_jobs [simp]: "index_jobs (refresh_profile_counts now p db) = index_jobs db"
  by (simp add: refresh_profile_counts_def put_profile_def)

lemma put_job_jobs [simp]: "index_jobs (put_job j db) = row_put ij_id j (index_jobs db)"
  by (simp add: put_job_def)

lemma keeps_put:
  assumes "keeps_job j db" and "k \<in> set (index_jobs db)" and "\<not> spent k" and "ij_id k' = ij_id k"
    and "index_jobs db' = row_put ij_id k' (index_jobs db)"
  shows "keeps_job j db'"
proof -
  have "ij_id k \<noteq> ij_id j"
  proof
    assume "ij_id k = ij_id j"
    then have "k = j"
      using assms(1,2) row_get_unique by (metis keeps_job_def option.inject)
    then show False using assms(1,3) by (simp add: keeps_job_def)
  qed
  then show ?thesis using assms(1,4,5) by (auto simp: keeps_job_def set_row_put)
qed

lemma enqueue_one_keeps:
  assumes "enqueue_one sha ids p b x (n, db) = Inr (n', db')" and "keeps_job j db"
  shows "keeps_job j db'"
  using assms
  by (auto simp: enqueue_one_def Let_def run_simps keeps_job_def unique_keys_append split: prod.splits if_splits)

lemma enqueue_keeps:
  assumes "enqueue_missing sha ids key limit budget db = Inr (n, db')" and "keeps_job j db"
  shows "keeps_job j db'"
proof -
  from assms(1) obtain p n1 db1 where
    fold: "foldE (enqueue_one sha ids p budget) (zip [0..<length (unindexed_versions p (nat limit) db)]
      (unindexed_versions p (nat limit) db)) (0, db) = Inr (n1, db1)"
    and db': "db' = refresh_profile_counts (eq_ready_now ids) p db1"
    by (auto simp: enqueue_missing_def Let_def run_simps)
  have "keeps_job j (snd (n1, db1))"
    by (rule foldE_invariant [OF fold, of "\<lambda>s. keeps_job j (snd s)"])
       (use assms(2) enqueue_one_keeps in auto)
  then show ?thesis by (simp add: db' keeps_job_def)
qed

lemma case_head: "(case xs of [] \<Rightarrow> None | x # _ \<Rightarrow> Some x) = Some y \<Longrightarrow> y \<in> set xs"
  by (cases xs) auto

lemma next_job_in:
  assumes "next_job p now n db = Some j"
  shows "j \<in> set (index_jobs db)" "claimable p now n j"
  using case_head [OF assms [unfolded next_job_def]] by simp_all

lemma exhausted_job_in:
  assumes "exhausted_job p now n db = Some j"
  shows "j \<in> set (index_jobs db)" "ij_status j = IJ_RUNNING"
  using case_head [OF assms [unfolded exhausted_job_def]] by simp_all

lemma bury_keeps:
  assumes "bury_exhausted ready p now n db = (p1, db1)" and inv: "keeps_job j db"
  shows "keeps_job j db1"
proof (cases "exhausted_job p now n db")
  case (Some k)
  show ?thesis
    by (rule keeps_put [OF inv exhausted_job_in(1) [OF Some], where k' = "dead_job now k"])
       (use exhausted_job_in(2) [OF Some] assms(1) Some in
          \<open>auto simp: spent_def dead_job_def bury_exhausted_def Let_def\<close>)
qed (use assms in \<open>simp add: bury_exhausted_def\<close>)

lemma claim_keeps:
  assumes "index_claim ready wr key worker now secs policy_index_max_attempts db = Inr (w, db')"
    and inv: "keeps_job j db"
  shows "keeps_job j db'"
proof -
  let ?n = policy_index_max_attempts
  from assms(1) obtain p where p: "required_profile key db = Inr p" by (auto simp: index_claim_def run_simps)
  obtain p1 db1 where b: "bury_exhausted ready p now ?n db = (p1, db1)" by fastforce
  note k1 = bury_keeps [OF b inv]
  show ?thesis
  proof (cases "next_job p now ?n db1")
    case None
    then show ?thesis using assms(1) p b k1 by (simp add: index_claim_def)
  next
    case (Some k)
    then have "db' = put_job (claimed_job worker (now + seconds secs) wr k) db1"
      using assms(1) p b by (simp add: index_claim_def Let_def)
    then show ?thesis
      using next_job_in(2) [OF Some]
      by (intro keeps_put [OF k1 next_job_in(1) [OF Some]]) (auto simp: spent_def claimable_def claimed_job_def)
  qed
qed

lemma leased_job_in:
  assumes "leased_job work now db = Inr k"
  shows "k \<in> set (index_jobs db)" "ij_status k = IJ_RUNNING"
  using assms by (auto simp: leased_job_def run_simps dest!: find_SomeD)

lemma persist_fold_frame:
  assumes "foldE (persist_one sha new_ids work now) xs (0, 0, db) = Inr (i, s, db1)"
  shows "index_jobs db1 = index_jobs db \<and> policy_clauses db1 = policy_clauses db
    \<and> embedding_profiles db1 = embedding_profiles db"
proof -
  let ?P = "\<lambda>(a, b, d). index_jobs d = index_jobs db \<and> policy_clauses d = policy_clauses db
    \<and> embedding_profiles d = embedding_profiles db"
  have "?P (i, s, db1)"
    by (rule foldE_invariant [OF assms, of ?P])
       (auto simp: persist_one_def upsert_embedding_def Let_def run_simps split: if_splits prod.splits)
  then show ?thesis by simp
qed

text \<open>A persisted page, taken apart.\<close>

lemma persist_page_parts:
  assumes "persist_page sha new_ids ready wr work vectors now db = Inr (j, db')"
  shows "\<exists>k db1 i s p. leased_job work now db = Inr k \<and> index_jobs db1 = index_jobs db
    \<and> j = finished_job i s (missing_clauses k db1 = []) now wr k
    \<and> db' = refresh_profile_counts ready p (put_job j db1)"
  using assms persist_fold_frame
  by (fastforce simp: persist_page_def finish_page_def Let_def run_simps)

lemma finished_job_id [simp]: "ij_id (finished_job i s b now wr k) = ij_id k"
  by (simp add: finished_job_def Let_def)

interpretation index_sys: step_invariant index_step "keeps_job j" for j
proof
  fix s t :: database
  assume "index_step s t" and inv: "keeps_job j s"
  then show "keeps_job j t"
  proof cases
    case enqueue
    then show ?thesis using enqueue_keeps inv by blast
  next
    case claim
    then show ?thesis using claim_keeps inv by blast
  next
    case (persist sha new_ids ready wr work vectors now k)
    from persist_page_parts [OF persist] obtain l db1 i n p where l: "leased_job work now s = Inr l"
      and "index_jobs db1 = index_jobs s" "k = finished_job i n (missing_clauses l db1 = []) now wr l"
      "t = refresh_profile_counts ready p (put_job k db1)" by blast
    then show ?thesis
      using leased_job_in(2) [OF l] by (intro keeps_put [OF inv leased_job_in(1) [OF l]]) (auto simp: spent_def)
  next
    case (fail wr work code now k)
    then obtain l where l: "leased_job work now s = Inr l"
      and "k = fail_job code now wr policy_index_max_attempts l" "t = put_job k s"
      by (auto simp: index_fail_def Let_def run_simps)
    then show ?thesis
      using leased_job_in(2) [OF l]
      by (intro keeps_put [OF inv leased_job_in(1) [OF l]]) (auto simp: spent_def fail_job_def)
  next
    case (again now org_pid job_pid k)
    then obtain l where l: "find_job org_pid job_pid s = Some l" by (auto simp: reprocess_def run_simps)
    show ?thesis
    proof (cases "ij_status l = IJ_DEAD")
      case True
      then show ?thesis
        using again l find_SomeD [OF l [unfolded find_job_def]]
        by (intro keeps_put [OF inv, of l k t]) (auto simp: reprocess_def Let_def spent_def)
    next
      case False
      then show ?thesis using again l inv by (simp add: reprocess_def)
    qed
  next
    case other
    then show ?thesis using inv by (simp add: keeps_job_def)
  qed
qed

section \<open>Properties\<close>

text \<open>C15. A job is completed only when every clause of its policy version has an embedding, under the
  profile of the job, of exactly the content the clause has.\<close>

theorem completed_job_indexed:
  assumes "persist_page sha new_ids ready wr work vectors now db = Inr (j, db')"
    and "ij_status j = IJ_COMPLETED"
  shows "\<forall>c\<in>set (policy_clauses db'). gpc_organization_id c = ij_organization_id j
      \<and> gpc_policy_version_id c = ij_policy_version_id j
    \<longrightarrow> (\<exists>e\<in>set (clause_embeddings db'). ce_organization_id e = gpc_organization_id c
          \<and> ce_clause_id e = gpc_id c \<and> ce_profile_id e = ij_profile_id j
          \<and> ce_source_content_hash e = gpc_content_hash c)"
proof -
  from persist_page_parts [OF assms(1)] obtain k db1 i s p where
    j: "j = finished_job i s (missing_clauses k db1 = []) now wr k"
    and db': "db' = refresh_profile_counts ready p (put_job j db1)" by blast
  have same: "policy_clauses db' = policy_clauses db1" "clause_embeddings db' = clause_embeddings db1"
    by (simp_all add: db' refresh_profile_counts_def put_profile_def put_job_def)
  have keys: "ij_organization_id j = ij_organization_id k" "ij_policy_version_id j = ij_policy_version_id k"
    "ij_profile_id j = ij_profile_id k"
    by (simp_all add: j finished_job_def Let_def)
  have "missing_clauses k db1 = []"
    using assms(2) by (simp add: j finished_job_def Let_def split: if_splits)
  then show ?thesis
    by (auto simp: same keys missing_clauses_def filter_empty_conv embedding_current_def clause_embeddings_of_def)
qed

text \<open>C16. A job that waits for its next page with three attempts used, one for each page before, is left as
  it is by every run of the index operations: it is neither claimed nor failed nor accepted for
  reprocessing, so its version is never indexed to the end.\<close>

theorem spent_job_stuck:
  assumes "index_step\<^sup>*\<^sup>* db db'" and "unique_keys ij_id (index_jobs db)" and "j \<in> set (index_jobs db)"
    and "ij_status j = IJ_PENDING" and "3 \<le> ij_attempt_count j"
  shows "j \<in> set (index_jobs db')"
proof -
  have "keeps_job j db" using assms(2-5) by (simp add: keeps_job_def spent_def policy_index_max_attempts_def)
  then have "keeps_job j db'" using index_sys.along_run [OF assms(1)] by blast
  then show ?thesis by (simp add: keeps_job_def)
qed

end
