(* ===== verification/Policy_Witness.thy ===== *)
theory Policy_Witness
  imports Policy_Evidence_Props Policy_Indexing_Props Demo
begin

text \<open>
  The properties of policies at a concrete run: an administrator creates a policy, submits it for review
  and publishes it; its clauses are indexed one page at a time and bound to a case.
\<close>

section \<open>A published policy\<close>

definition pdemo_owner :: membership where
  "pdemo_owner = demo_member\<lparr>mem_role := ADMINISTRATOR\<rparr>"

definition pdemo_actor :: actor_context where
  "pdemo_actor = \<lparr>actor_id = ''MEM'', actor_organization_id = ''ORG'', actor_name = ''Sam'', actor_kind = AK_MEMBER,
     actor_role = Some ADMINISTRATOR, actor_permissions = all_permissions, actor_authentication_mode = PROVIDER\<rparr>"

definition pdemo_db :: database where
  "pdemo_db = demo_db\<lparr>memberships := [pdemo_owner]\<rparr>"

definition pdemo_run :: "nat \<Rightarrow> policy_run" where
  "pdemo_run i = \<lparr>pr_now = 10, pr_update_now = 10, pr_policy_id = 20 + i, pr_version_id = 30 + i,
     pr_clause_ids = (\<lambda>n. 10 + n), pr_audit_id = 2 + i, pr_audit_now = 10, pr_code = ''A''\<rparr>"

definition pdemo_source :: string where
  "pdemo_source = ''Refund a double charge.''"

definition pdemo_scope :: policy_applicability where
  "pdemo_scope = \<lparr>pap_decision_scope = ''refund'', pap_case_categories = [''all''], pap_products = [''all''],
     pap_regions = [''all''], pap_channels = [''all''], pap_customer_tiers = [''all'']\<rparr>"

definition pdemo_embedder :: embedder where
  "pdemo_embedder = \<lparr>emb_version = ''e1'', emb_embed = (\<lambda>s. replicate 32 0)\<rparr>"

definition pdemo_create :: "error + policy_workspace \<times> database" where
  "pdemo_create = service_create_policy (\<lambda>s. ''h'') (\<lambda>s. ''t'') (\<lambda>e. ''error'') pdemo_embedder (pdemo_run 0) pdemo_actor ''Refunds''
     ''Refund policy'' PSK_MANUAL ''manual'' (Some pdemo_source) (Some pdemo_scope) None None (Some ''POL-1'') ''c'' pdemo_db"

definition pdemo_submit :: "error + policy_workspace \<times> database" where
  "pdemo_submit = service_submit_policy_review (pdemo_run 1) pdemo_actor ''POL-1'' 1 1 1 ''c'' (snd (projr pdemo_create))"

definition pdemo_publish :: "error + policy_workspace \<times> database" where
  "pdemo_publish = service_publish (pdemo_run 2) pdemo_actor ''POL-1'' 1 2 2 (Some 5) 10 ''c'' (snd (projr pdemo_submit))"

definition pdemo_live :: database where
  "pdemo_live = snd (projr pdemo_publish)"

definition pdemo_version :: policy_version where
  "pdemo_version = hd (policy_versions pdemo_live)"

lemma result_parts: "\<not> isl x \<Longrightarrow> x = Inr (fst (projr x), snd (projr x))"
  by (cases x) simp_all

lemma pdemo_prepared:
  "prepare_source (\<lambda>e. ''error'') (Some pdemo_source) (Some pdemo_scope) None None
     = Inr (Some \<lparr>dc_source_text = pdemo_source, dc_applicability = pdemo_scope, dc_effective_from = None,
              dc_effective_to = None\<rparr>,
            [\<lparr>pcl_heading = ''Policy clause'', pcl_text = pdemo_source,
               pcl_applies_when = ''Scope refund; categories all; products all; regions all; ''
                 @ ''channels all; customer tiers all.''\<rparr>], None)"
  by code_simp

lemmas pdemo_prepared_source = pdemo_prepared [unfolded pdemo_source_def pdemo_scope_def]

lemmas policy_code =
  organization_of_def demo_case_def demo_connection_def demo_db_def demo_decision_def demo_member_def
  demo_organization_def demo_proposal_def demo_proposed_action_def demo_review_def demo_snapshot_def
  demo_version_def all_permissions_def can_def require_permission_def activate_version_def
  active_version_def add_version_def clause_records_def create_policy_def find_policy_def
  list_candidates_def mark_conflicting_def new_clause_def new_policy_def new_version_def policies_of_def
  policy_audit_def policy_public_id_ok_def policy_workspace_of_def previous_versions_def put_policy_def
  put_version_def required_member_def required_policy_def required_policy_workspace_def required_version_def
  retired_previous_def submit_policy_review_def target_status_def update_policy_def update_version_def
  valid_policy_create_def version_bundle_def versions_of_def activated_def valid_draft_content_def
  datetime_max_def datetime_min_def dimensions_overlap_def find_conflicts_def index_clause_def
  required_current_version_def service_activate_def service_create_policy_def service_get_policy_def
  service_publish_def service_submit_policy_review_def time_windows_overlap_def pdemo_actor_def
  pdemo_create_def pdemo_db_def pdemo_embedder_def pdemo_live_def pdemo_owner_def pdemo_publish_def
  pdemo_run_def pdemo_scope_def pdemo_source_def pdemo_submit_def pdemo_version_def row_get_def row_put_def
  seconds_def insert_audit_def insert_policy_def insert_policy_clause_def insert_policy_version_def
  insert_row_def policy_clash_def policy_clause_clash_def policy_version_checks_def policy_version_clash_def
  Let_def pdemo_prepared_source

lemma pdemo_ok: "\<not> isl pdemo_create" "\<not> isl pdemo_submit" "\<not> isl pdemo_publish"
  by (simp_all add: policy_code cong: bindE_first)

lemma pdemo_start: "policies pdemo_db = []" "policy_versions pdemo_db = []"
  "distinct (map org_public_id (organizations pdemo_db))"
  by code_simp+

lemma pdemo_active: "policy_versions pdemo_live \<noteq> []" "active_status pdemo_version"
  by (simp_all add: policy_code active_status_def cong: bindE_first)

lemma pdemo_runs: "policy_step\<^sup>*\<^sup>* pdemo_db pdemo_live"
proof -
  have "policy_step pdemo_db (snd (projr pdemo_create))"
    using policy_step.create [OF result_parts [OF pdemo_ok(1), unfolded pdemo_create_def]]
    by (simp add: pdemo_create_def)
  moreover have "policy_step (snd (projr pdemo_create)) (snd (projr pdemo_submit))"
    using policy_step.submit [OF result_parts [OF pdemo_ok(2), unfolded pdemo_submit_def]]
    by (simp add: pdemo_submit_def)
  moreover have "policy_step (snd (projr pdemo_submit)) pdemo_live"
    using policy_step.publish [OF result_parts [OF pdemo_ok(3), unfolded pdemo_publish_def]]
    by (simp add: pdemo_publish_def pdemo_live_def)
  ultimately show ?thesis by (meson converse_rtranclp_into_rtranclp rtranclp.rtrancl_refl)
qed

lemma pdemo_version_in: "pdemo_version \<in> set (policy_versions pdemo_live)"
  using pdemo_active(1) by (simp add: pdemo_version_def)

theorem active_policies_disjoint_witness: "gpv_immutable pdemo_version"
  using active_policies_disjoint [OF pdemo_runs pdemo_start pdemo_version_in pdemo_version_in
      pdemo_active(2) pdemo_active(2)] by simp

definition pdemo_context :: retrieval_context where
  "pdemo_context = \<lparr>rx_category = ''refund_request'', rx_products = [''pro''], rx_region = ''us'',
     rx_channel = ''email'', rx_tier = ''vip''\<rparr>"

theorem single_product_no_conflict_witness: "conflicting_scopes 1 pdemo_context 20 pdemo_live = []"
  by (rule single_product_no_conflict [OF pdemo_runs pdemo_start, of pdemo_context "''pro''"])
     (simp_all add: pdemo_context_def datetime_min_def datetime_max_def seconds_def)

theorem parsed_clauses_ok_witness:
  "list_all (clause_ok pdemo_scope) (projr (parse_policy_source pdemo_source pdemo_scope))"
proof -
  have "\<not> isl (parse_policy_source pdemo_source pdemo_scope)" by code_simp
  then have "parse_policy_source pdemo_source pdemo_scope
      = Inr (projr (parse_policy_source pdemo_source pdemo_scope))"
    by (cases "parse_policy_source pdemo_source pdemo_scope") simp_all
  from parsed_clauses_ok [OF this] show ?thesis by simp
qed

section \<open>Rows\<close>

definition row_policy :: policy_record where
  "row_policy = \<lparr>pol_id = 1, pol_public_id = ''POL'', pol_organization_id = 1, pol_title = ''Refunds'',
     pol_description = ''d'', pol_status = PL_PUBLISHED, pol_owner_id = 2, pol_source_kind = PSK_MANUAL,
     pol_source_name = ''m'', pol_source_error = None, pol_current_version = 1, pol_version = 3, pol_created_at = 0,
     pol_updated_at = 0\<rparr>"

definition row_version :: policy_version where
  "row_version = \<lparr>gpv_id = 1, gpv_public_id = ''PV1'', gpv_organization_id = 1, gpv_policy_id = 1,
     gpv_legacy_policy_version_id = None, gpv_version = 1, gpv_record_version = 3, gpv_status = PV_PUBLISHED,
     gpv_immutable = True, gpv_source_text = ''s'', gpv_content_hash = ''h'', gpv_decision_scope = ''refund'',
     gpv_case_categories = [''all''], gpv_products = [''all''], gpv_regions = [''all''], gpv_channels = [''all''],
     gpv_customer_tiers = [''all''], gpv_effective_from = Some 5, gpv_effective_to = None, gpv_created_by = ''MEM'',
     gpv_created_at = 0, gpv_submitted_at = None, gpv_published_at = Some 5, gpv_retired_at = None\<rparr>"

definition row_clause :: "nat \<Rightarrow> policy_clause" where
  "row_clause i = \<lparr>gpc_id = i, gpc_public_id = ''C'', gpc_organization_id = 1, gpc_policy_id = 1,
     gpc_policy_version_id = 1, gpc_sequence = int i, gpc_heading = ''Refunds'', gpc_text = ''double charge'',
     gpc_applies_when = ''a'', gpc_content_hash = ''h'', gpc_chunking_version = ''c'', gpc_embedding_version = ''e1'',
     gpc_index_version = ''i'', gpc_embedding = [], gpc_search_vector = ''t''\<rparr>"

lemmas row_defs = row_policy_def row_version_def row_clause_def

section \<open>A scheduled version in the way\<close>

definition sdemo_scheduled :: policy_version where
  "sdemo_scheduled = row_version\<lparr>gpv_id := 2, gpv_public_id := ''PV2'', gpv_version := 2, gpv_status := PV_SCHEDULED,
     gpv_effective_from := Some 500\<rparr>"

definition sdemo_review :: policy_version where
  "sdemo_review = row_version\<lparr>gpv_id := 3, gpv_public_id := ''PV3'', gpv_version := 3, gpv_status := PV_IN_REVIEW,
     gpv_immutable := False\<rparr>"

definition sdemo_db :: database where
  "sdemo_db = pdemo_db\<lparr>policies := [row_policy], policy_versions := [row_version, sdemo_scheduled, sdemo_review]\<rparr>"

lemma sdemo_rows: "required_policy ''ORG'' ''POL'' sdemo_db = Inr row_policy"
  "required_version row_policy 3 sdemo_db = Inr sdemo_review"
  "versions_of row_policy sdemo_db = [row_version, sdemo_scheduled, sdemo_review]"
  by (simp_all add: required_policy_def find_policy_def required_version_def versions_of_def sdemo_db_def
      pdemo_db_def demo_db_def demo_organization_def row_defs sdemo_scheduled_def sdemo_review_def)

theorem publish_over_scheduled_refused_witness:
  "activate_version (pdemo_run 5) ''ORG'' ''POL'' 3 ''MEM'' ''member'' 3 1 PV_PUBLISHED 100 ''c'' sdemo_db
     = Inl (IntegrityError ''governed_policy_versions'')"
  by (rule publish_over_scheduled_refused [OF sdemo_rows(1,2), of sdemo_scheduled 500])
     (simp_all add: sdemo_rows(3), simp_all add: sdemo_scheduled_def sdemo_review_def)

section \<open>Evidence of a case\<close>

definition edemo_db :: database where
  "edemo_db = pdemo_db\<lparr>policies := [row_policy], policy_versions := [row_version], policy_clauses := [row_clause 1],
     case_requests := [\<lparr>crq_id = 1, crq_public_id = ''R'', crq_organization_id = 1, crq_case_id = 3,
       crq_channel = RQ_EMAIL, crq_customer_message = ''m'', crq_summary = ''charge'', crq_received_at = 0\<rparr>],
     case_customers := [\<lparr>cc_id = 1, cc_organization_id = 1, cc_case_id = 3, cc_customer_id = ''c'', cc_name = ''n'',
       cc_tier = TIER_VIP, cc_locale = ''en-US'', cc_contact = ''c'', cc_captured_at = 0\<rparr>],
     threads := [\<lparr>th_id = 1, th_public_id = ''T'', th_organization_id = 1, th_case_id = 3, th_version = 1,
       th_updated_at = 0\<rparr>]\<rparr>"

definition edemo_setup :: retrieval_setup where
  "edemo_setup = \<lparr>rt_mode = MODE_V1, rt_has_v2 = False, rt_sha = (\<lambda>s. ''f''), rt_sqrt = (\<lambda>n. 2),
     rt_distance = (\<lambda>a b. 0), rt_matches = (\<lambda>a b. True), rt_rank = (\<lambda>a b. 1),
     rt_minimize = (\<lambda>w. Inr (''q'', ''f'')), rt_v1_version = ''e1'', rt_v1_embed = (\<lambda>s. []),
     rt_v2_embed = (\<lambda>s. []), rt_profile_key = ''p''\<rparr>"

definition edemo_ids :: evidence_ids where
  "edemo_ids = \<lparr>ei_row = (\<lambda>i. 1 + i), ei_code = (\<lambda>i. ''X''), ei_now = (\<lambda>i. 20), ei_audit = 1, ei_audit_now = 20\<rparr>"

definition edemo_refresh :: "error + evidence_result \<times> database" where
  "edemo_refresh = refresh_for_case edemo_setup edemo_ids pdemo_actor ''CASE'' ''c'' 20 edemo_db"

text \<open>The stages of the refresh, each on the result of the one before.\<close>

definition edemo_workspace :: case_workspace where
  "edemo_workspace = the (projr (get_workspace ''ORG'' ''CASE'' edemo_db))"

definition edemo_resolved :: "error + retrieval_resolution" where
  "edemo_resolved = resolve_bindings edemo_setup pdemo_actor edemo_workspace 20 ''c'' edemo_db"

definition edemo_bound :: "error + evidence_bundle list \<times> database" where
  "edemo_bound = bind_evidence edemo_ids ''ORG'' ''CASE'' ''MEM'' ''member''
     (rr2_bindings (projr edemo_resolved)) ''c'' edemo_db"

lemma edemo_stages: "\<not> isl (get_workspace ''ORG'' ''CASE'' edemo_db)"
  "projr (get_workspace ''ORG'' ''CASE'' edemo_db) \<noteq> None" "\<not> isl edemo_resolved"
  "rr2_status (projr edemo_resolved) = ER_RELEVANT" "\<not> isl edemo_bound"
  by code_simp+

lemma edemo_permitted: "require_permission pdemo_actor CASE_MANAGE = Inr ()"
  "require_permission pdemo_actor POLICY_READ = Inr ()"
  by code_simp+

lemma pdemo_fields: "actor_organization_id pdemo_actor = ''ORG''" "actor_id pdemo_actor = ''MEM''"
  "actor_kind_value (actor_kind pdemo_actor) = ''member''"
  by (simp_all add: pdemo_actor_def)

lemma edemo_results: "get_workspace ''ORG'' ''CASE'' edemo_db = Inr (Some edemo_workspace)"
  "resolve_bindings edemo_setup pdemo_actor edemo_workspace 20 ''c'' edemo_db = Inr (projr edemo_resolved)"
  "bind_evidence edemo_ids ''ORG'' ''CASE'' ''MEM'' ''member'' (rr2_bindings (projr edemo_resolved)) ''c'' edemo_db
     = Inr (projr edemo_bound)"
  using edemo_stages by (simp_all add: edemo_workspace_def edemo_bound_def edemo_resolved_def)

lemma edemo_ok: "\<not> isl edemo_refresh" "er_status (fst (projr edemo_refresh)) = ER_RELEVANT"
  by (simp_all add: edemo_refresh_def refresh_for_case_def edemo_permitted evidence_workspace_def
      edemo_results pdemo_fields edemo_stages(4) split: prod.split)

theorem bound_evidence_applicable_witness: "er_evidence (fst (projr edemo_refresh)) \<noteq> []"
  using bound_evidence_applicable [OF result_parts [OF edemo_ok(1), unfolded edemo_refresh_def]] edemo_ok(2)
  by (simp add: edemo_refresh_def)

section \<open>Indexing\<close>

definition xdemo_profile :: embedding_profile where
  "xdemo_profile = \<lparr>ep_id = 1, ep_profile_key = ''p'', ep_environment = ''e'', ep_provider = ''v'', ep_model = ''m'',
     ep_dimensions = 1, ep_normalization_version = ''n'', ep_chunking_version = ''c'', ep_index_version = ''i'',
     ep_status = EP_BUILDING, ep_expected_clause_count = 0, ep_indexed_clause_count = 0, ep_build_fingerprint = ''b'',
     ep_created_at = 0, ep_ready_at = None, ep_activated_by = None, ep_retired_at = None\<rparr>"

definition xdemo_db :: "nat list \<Rightarrow> database" where
  "xdemo_db ns = pdemo_db\<lparr>policies := [row_policy], policy_versions := [row_version],
     policy_clauses := map row_clause ns, embedding_profiles := [xdemo_profile]\<rparr>"

definition xdemo_ids :: enqueue_ids where
  "xdemo_ids = \<lparr>eq_id = (\<lambda>i. 1), eq_now = (\<lambda>i. 0), eq_uuid_text = (\<lambda>i. ''u''), eq_ready_now = 0\<rparr>"

definition xdemo_round :: "nat \<Rightarrow> drain_round" where
  "xdemo_round i = \<lparr>rd_claim_now = 10, rd_claim_ready = 10, rd_claim_write = 10,
     rd_vectors = (\<lambda>cs. Inr (map (\<lambda>c. [1]) cs)), rd_new_ids = (\<lambda>n. 1 + i + n), rd_persist_now = 10,
     rd_persist_ready = 10, rd_persist_write = 10, rd_fail_now = 10, rd_fail_write = 10\<rparr>"

text \<open>The worker drains a version of four clauses in pages of one clause.\<close>

definition xdemo_drained :: "error + drain_result \<times> database" where
  "xdemo_drained = drain (\<lambda>s. ''k'') xdemo_ids xdemo_round ''p'' ''w'' 5 1 90 (xdemo_db [1, 2, 3, 4])"

definition xdemo_job :: policy_index_job where
  "xdemo_job = hd (index_jobs (snd (projr xdemo_drained)))"

definition xdemo_stuck :: database where
  "xdemo_stuck = (xdemo_db [1, 2, 3, 4])\<lparr>index_jobs := [xdemo_job]\<rparr>"

text \<open>All three attempts succeeded, and the fourth clause has no embedding.\<close>

lemma xdemo_left: "index_jobs (snd (projr xdemo_drained)) \<noteq> []"
  "ij_status xdemo_job = IJ_PENDING \<and> ij_attempt_count xdemo_job = 3 \<and> ij_indexed_clause_count xdemo_job = 3"
  "dr_failed (fst (projr xdemo_drained)) = 0"
  by code_simp+

definition xdemo_claim :: "error + index_work option \<times> database" where
  "xdemo_claim = index_claim 20 20 ''p'' ''w'' 20 90 policy_index_max_attempts xdemo_stuck"

lemma xdemo_claim_ok: "\<not> isl xdemo_claim"
  by code_simp

lemma xdemo_stuck_jobs: "index_jobs xdemo_stuck = [xdemo_job]"
  by (simp add: xdemo_stuck_def)

lemma xdemo_step: "index_step\<^sup>*\<^sup>* xdemo_stuck (snd (projr xdemo_claim))"
  using index_step.claim [OF result_parts [OF xdemo_claim_ok, unfolded xdemo_claim_def]]
  by (simp add: xdemo_claim_def)

theorem spent_job_stuck_witness: "xdemo_job \<in> set (index_jobs (snd (projr xdemo_claim)))"
  by (rule spent_job_stuck [OF xdemo_step])
     (use xdemo_left(2) in \<open>simp_all add: xdemo_stuck_jobs unique_keys_def\<close>)

text \<open>A version of one clause is indexed with its first page.\<close>

definition ydemo_claim :: "error + index_work option \<times> database" where
  "ydemo_claim = index_claim 10 10 ''p'' ''w'' 10 90 policy_index_max_attempts
     (snd (projr (enqueue_missing (\<lambda>s. ''k'') xdemo_ids ''p'' 1 1 (xdemo_db [1]))))"

definition ydemo_persist :: "error + policy_index_job \<times> database" where
  "ydemo_persist = persist_page (\<lambda>s. ''k'') (\<lambda>n. 1 + n) 10 10 (the (fst (projr ydemo_claim))) [[1]] 10
     (snd (projr ydemo_claim))"

lemma ydemo_ok: "\<not> isl ydemo_persist" "ij_status (fst (projr ydemo_persist)) = IJ_COMPLETED"
  "policy_clauses (snd (projr ydemo_persist)) = [row_clause 1]"
  "ij_organization_id (fst (projr ydemo_persist)) = 1" "ij_policy_version_id (fst (projr ydemo_persist)) = 1"
  by code_simp+

theorem completed_job_indexed_witness:
  "\<exists>e\<in>set (clause_embeddings (snd (projr ydemo_persist))). ce_clause_id e = 1 \<and> ce_source_content_hash e = ''h''"
  using completed_job_indexed [OF result_parts [OF ydemo_ok(1), unfolded ydemo_persist_def],
      folded ydemo_persist_def, OF ydemo_ok(2)]
  by (auto simp: ydemo_ok row_clause_def)

end
