(* ===== verification/Decision_Briefs.thy ===== *)
theory Decision_Briefs
  imports Reviews Decision_Engine
begin

text \<open>
  Stored decision briefs: the reads of \<open>persistence/decision_brief_queries.py\<close> and the writer
  \<open>persistence/decision_brief_writer.py\<close> with \<open>decision_brief_helpers.py\<close>. A brief is put together
  from the rows of a proposal version: its run, its drafted actions and response, the checkpoints
  and the public ids of the evidence and context records bound to it. Primary keys and clock readings
  are arguments. Rows that wait in the session are written before the next statement.
\<close>

section \<open>Reading\<close>

definition find_proposal :: "case_row \<Rightarrow> database \<Rightarrow> case_proposal option" where
  "find_proposal c db =
     find (\<lambda>p. prop_organization_id p = cs_organization_id c \<and> prop_case_id p = cs_id c) (proposals db)"

definition brief_actions :: "case_proposal \<Rightarrow> proposal_version \<Rightarrow> database \<Rightarrow> proposed_action list" where
  "brief_actions p v db =
     sort_key pa_public_id
       (filter (\<lambda>a. pa_organization_id a = prop_organization_id p \<and> pa_case_id a = prop_case_id p
                  \<and> pa_proposal_version_id a = pv_id v) (proposed_actions db))"

definition brief_checkpoints :: "case_proposal \<Rightarrow> analysis_run \<Rightarrow> database \<Rightarrow> analysis_checkpoint list" where
  "brief_checkpoints p run db =
     sort_key ck_sequence
       (filter (\<lambda>k. ck_organization_id k = prop_organization_id p \<and> ck_case_id k = prop_case_id p
                  \<and> ck_analysis_run_id k = ar_id run) (checkpoints db))"

definition brief_evidence_ids :: "case_proposal \<Rightarrow> proposal_version \<Rightarrow> database \<Rightarrow> string list" where
  "brief_evidence_ids p v db =
     sort [cpe_public_id e. e \<leftarrow> policy_evidence_rows db, b \<leftarrow> evidence_bindings db,
        peb_organization_id b = cpe_organization_id e \<and> peb_case_id b = cpe_case_id e
        \<and> peb_evidence_id b = cpe_id e
        \<and> peb_organization_id b = prop_organization_id p \<and> peb_case_id b = prop_case_id p
        \<and> peb_proposal_version_id b = pv_id v]"

definition brief_context_ids :: "case_proposal \<Rightarrow> proposal_version \<Rightarrow> database \<Rightarrow> string list" where
  "brief_context_ids p v db =
     sort [bo_public_id o'. o' \<leftarrow> business_objects db, b \<leftarrow> context_bindings db,
        pcb_organization_id b = bo_organization_id o' \<and> pcb_case_id b = bo_case_id o'
        \<and> pcb_context_id b = bo_id o'
        \<and> pcb_organization_id b = prop_organization_id p \<and> pcb_case_id b = prop_case_id p
        \<and> pcb_proposal_version_id b = pv_id v]"

definition version_record :: "proposal_version \<Rightarrow> string list \<Rightarrow> string list \<Rightarrow> proposal_version_record" where
  "version_record v evidence_ids context_ids =
     proposal_version.extend v (proposal_version_record.fields evidence_ids context_ids)"

definition assemble_brief ::
    "case_proposal \<Rightarrow> proposal_version \<Rightarrow> analysis_run \<Rightarrow> proposal_response_draft \<Rightarrow> database
     \<Rightarrow> decision_brief" where
  "assemble_brief p v run draft db =
     \<lparr>br_run = run, br_proposal = p,
      br_version = version_record v (brief_evidence_ids p v db) (brief_context_ids p v db),
      br_proposed_actions = brief_actions p v db, br_response_draft = draft,
      br_checkpoints = brief_checkpoints p run db\<rparr>"

definition find_version :: "case_proposal \<Rightarrow> int \<Rightarrow> database \<Rightarrow> proposal_version option" where
  "find_version p n db =
     find (\<lambda>v. pv_organization_id v = prop_organization_id p \<and> pv_case_id v = prop_case_id p
             \<and> pv_proposal_id v = prop_id p \<and> pv_version v = n) (proposal_versions db)"

definition version_run :: "proposal_version \<Rightarrow> database \<Rightarrow> analysis_run option" where
  "version_run v db =
     find (\<lambda>r. ar_organization_id r = pv_organization_id v \<and> ar_case_id r = pv_case_id v
             \<and> ar_id r = pv_analysis_run_id v) (analysis_runs db)"

definition version_draft :: "proposal_version \<Rightarrow> database \<Rightarrow> proposal_response_draft option" where
  "version_draft v db =
     find (\<lambda>d. prd_organization_id d = pv_organization_id v \<and> prd_case_id d = pv_case_id v
             \<and> prd_proposal_version_id d = pv_id v) (proposal_response_drafts db)"

definition load_brief :: "case_proposal \<Rightarrow> int \<Rightarrow> database \<Rightarrow> error + decision_brief" where
  "load_brief p n db =
     bindE (someE (find_version p n db)
              (ProposalSnapshotMismatch ''The proposal version snapshot is missing.'')) (\<lambda>v.
     case (version_run v db, version_draft v db) of
       (Some run, Some draft) \<Rightarrow> Inr (assemble_brief p v run draft db)
     | _ \<Rightarrow> Inl (ProposalSnapshotMismatch ''The decision brief snapshot is incomplete.''))"

definition brief_get_latest :: "string \<Rightarrow> string \<Rightarrow> database \<Rightarrow> error + decision_brief option" where
  "brief_get_latest org_pid case_pid db =
     (case scoped_case org_pid case_pid db of None \<Rightarrow> Inr None
      | Some (_, c) \<Rightarrow>
     (case find_proposal c db of None \<Rightarrow> Inr None
      | Some p \<Rightarrow>
          let incomplete = ProposalSnapshotMismatch ''The latest decision brief snapshot is incomplete.'' in
          bindE (someE (find_version p (prop_current_version p) db) incomplete) (\<lambda>v.
          case (version_run v db, version_draft v db) of
            (Some run, Some draft) \<Rightarrow> Inr (Some (assemble_brief p v run draft db))
          | _ \<Rightarrow> Inl incomplete)))"

definition brief_get_version :: "string \<Rightarrow> string \<Rightarrow> int \<Rightarrow> database \<Rightarrow> error + decision_brief option" where
  "brief_get_version org_pid case_pid n db =
     (case scoped_case org_pid case_pid db of None \<Rightarrow> Inr None
      | Some (_, c) \<Rightarrow>
     (case find_proposal c db of None \<Rightarrow> Inr None
      | Some p \<Rightarrow>
          if list_ex (\<lambda>v. pv_organization_id v = cs_organization_id c \<and> pv_case_id v = cs_id c
                       \<and> pv_proposal_id v = prop_id p \<and> pv_version v = n) (proposal_versions db)
          then bindE (load_brief p n db) (\<lambda>b. Inr (Some b)) else Inr None))"

definition load_by_input_fingerprint ::
    "case_row \<Rightarrow> string \<Rightarrow> database \<Rightarrow> error + decision_brief option" where
  "load_by_input_fingerprint c fingerprint db =
     (case find (\<lambda>r. ar_organization_id r = cs_organization_id c \<and> ar_case_id r = cs_id c
                   \<and> ar_input_fingerprint r = fingerprint) (analysis_runs db) of
        None \<Rightarrow> Inr None
      | Some run \<Rightarrow>
          bindE (someE (find (\<lambda>v. pv_organization_id v = cs_organization_id c \<and> pv_case_id v = cs_id c
                               \<and> pv_analysis_run_id v = ar_id run) (proposal_versions db))
                   (ProposalSnapshotMismatch
                      ''The analysis run exists without its immutable proposal snapshot.'')) (\<lambda>v.
          case row_get prop_id (pv_proposal_id v) (proposals db) of
            Some p \<Rightarrow>
              if prop_organization_id p = cs_organization_id c
              then bindE (load_brief p (pv_version v) db) (\<lambda>b. Inr (Some b))
              else Inl (ProposalSnapshotMismatch ''The proposal root for this analysis is missing.'')
          | None \<Rightarrow> Inl (ProposalSnapshotMismatch ''The proposal root for this analysis is missing.'')))"

definition get_by_input_fingerprint ::
    "string \<Rightarrow> string \<Rightarrow> string \<Rightarrow> database \<Rightarrow> error + decision_brief option" where
  "get_by_input_fingerprint org_pid case_pid fingerprint db =
     (case scoped_case org_pid case_pid db of None \<Rightarrow> Inr None
      | Some (_, c) \<Rightarrow> load_by_input_fingerprint c fingerprint db)"

section \<open>Writing\<close>

record context_reference =
  cref_public_id :: string
  cref_version :: int
  cref_fingerprint :: string

record brief_create =
  bc_expected_case_version :: int
  bc_input_fingerprint :: string
  bc_context_fingerprint :: string
  bc_evidence_fingerprint :: string
  bc_analysis :: decision_analysis
  bc_evidence :: "(string \<times> string) list"
  bc_contexts :: "context_reference list"

definition valid_brief_create :: "brief_create \<Rightarrow> error + brief_create" where
  "valid_brief_create d =
     bindE (requireE (1 \<le> bc_expected_case_version d \<and> len_ok 64 64 (bc_input_fingerprint d)
               \<and> len_ok 64 64 (bc_context_fingerprint d) \<and> len_ok 64 64 (bc_evidence_fingerprint d)
               \<and> list_all (\<lambda>(pid, fp). len_ok 1 64 pid \<and> len_ok 64 64 fp) (bc_evidence d)
               \<and> list_all (\<lambda>r. len_ok 1 64 (cref_public_id r) \<and> 1 \<le> cref_version r
                             \<and> len_ok 64 64 (cref_fingerprint r)) (bc_contexts d))
              (ValueError ''DecisionBriefCreate'')) (\<lambda>_. Inr d)"

record brief_ids =
  bi_now :: timestamp
  bi_run :: uuid
  bi_proposal :: uuid
  bi_version :: uuid
  bi_evidence :: "nat \<Rightarrow> uuid"
  bi_context :: "nat \<Rightarrow> uuid"
  bi_action :: "nat \<Rightarrow> uuid"
  bi_draft :: uuid
  bi_checkpoint :: "nat \<Rightarrow> uuid"
  bi_audit :: uuid
  bi_audit_now :: timestamp

definition audit_details :: "decision_analysis \<Rightarrow> string \<times> string" where
  "audit_details a =
     (if da_status a = AN_ABSTAINED
      then (''Decision brief paused because usable policy guidance was not available.'', ''abstained'')
      else case find (\<lambda>k. cd_step k = ''ai_narrative'') (da_checkpoints a) of
        None \<Rightarrow> (''Decision brief prepared from current facts and policy evidence.'', ''rules_only'')
      | Some k \<Rightarrow>
          if cd_status k = CK_COMPLETED
          then (''Decision brief prepared with AI-assisted wording.'', ''ai_assisted'')
          else (''Decision brief prepared with the built-in backup draft.'', ''verified_fallback''))"

definition new_run ::
    "(string \<Rightarrow> string) \<Rightarrow> brief_ids \<Rightarrow> case_row \<Rightarrow> string \<Rightarrow> brief_create \<Rightarrow> analysis_run" where
  "new_run sha ids c actor cmd =
     \<lparr>ar_id = bi_run ids,
      ar_public_id = stable_public_id sha ''ANL'' [cs_public_id c, bc_input_fingerprint cmd],
      ar_organization_id = cs_organization_id c, ar_case_id = cs_id c,
      ar_status = da_status (bc_analysis cmd), ar_policy_status = da_policy_status (bc_analysis cmd),
      ar_case_version = bc_expected_case_version cmd, ar_input_fingerprint = bc_input_fingerprint cmd,
      ar_context_fingerprint = bc_context_fingerprint cmd,
      ar_evidence_fingerprint = bc_evidence_fingerprint cmd, ar_initiated_by = actor,
      ar_model_version = da_model_version (bc_analysis cmd),
      ar_prompt_version = da_prompt_version (bc_analysis cmd),
      ar_graph_version = da_graph_version (bc_analysis cmd),
      ar_risk_rule_version = da_risk_rule_version (bc_analysis cmd),
      ar_started_at = bi_now ids, ar_completed_at = bi_now ids\<rparr>"

definition new_proposal ::
    "(string \<Rightarrow> string) \<Rightarrow> brief_ids \<Rightarrow> string \<Rightarrow> case_row \<Rightarrow> decision_proposal_state \<Rightarrow> case_proposal" where
  "new_proposal sha ids org_pid c state =
     \<lparr>prop_id = bi_proposal ids, prop_public_id = stable_public_id sha ''PRP'' [org_pid, cs_public_id c],
      prop_organization_id = cs_organization_id c, prop_case_id = cs_id c, prop_current_version = 1,
      prop_state = state, prop_version = 1, prop_created_at = bi_now ids, prop_updated_at = bi_now ids\<rparr>"

definition latest_version :: "case_row \<Rightarrow> case_proposal \<Rightarrow> database \<Rightarrow> int" where
  "latest_version c p db =
     foldr max (map pv_version (filter (\<lambda>v. pv_organization_id v = cs_organization_id c
       \<and> pv_case_id v = cs_id c \<and> pv_proposal_id v = prop_id p) (proposal_versions db))) 0"

definition advanced_proposal :: "timestamp \<Rightarrow> int \<Rightarrow> decision_proposal_state \<Rightarrow> case_proposal \<Rightarrow> case_proposal" where
  "advanced_proposal now n state p =
     p\<lparr>prop_current_version := n, prop_state := state, prop_version := prop_version p + 1,
       prop_updated_at := now\<rparr>"

text \<open>The root row is read and updated in one transaction, so its version is the one just read.\<close>

definition next_proposal ::
    "(string \<Rightarrow> string) \<Rightarrow> brief_ids \<Rightarrow> string \<Rightarrow> case_row \<Rightarrow> decision_proposal_state \<Rightarrow> database
     \<Rightarrow> error + (case_proposal \<times> int) \<times> database" where
  "next_proposal sha ids org_pid c state db =
     (case find_proposal c db of
        None \<Rightarrow> (let p = new_proposal sha ids org_pid c state in
                bindE (insert_proposal p db) (\<lambda>db1. Inr ((p, 1), db1)))
      | Some p \<Rightarrow> (let n = latest_version c p db + 1; p' = advanced_proposal (bi_now ids) n state p
                  in Inr ((p', n), put_proposal p' db)))"

definition new_proposal_version ::
    "(string \<Rightarrow> string) \<Rightarrow> brief_ids \<Rightarrow> case_row \<Rightarrow> case_proposal \<Rightarrow> int \<Rightarrow> brief_create \<Rightarrow> proposal_version" where
  "new_proposal_version sha ids c p n cmd =
     (let a = bc_analysis cmd in
      \<lparr>pv_id = bi_version ids, pv_public_id = stable_public_id sha ''PRPV'' [prop_public_id p, int_str n],
       pv_organization_id = cs_organization_id c, pv_case_id = cs_id c, pv_proposal_id = prop_id p,
       pv_analysis_run_id = bi_run ids, pv_legacy_proposal_version_id = None, pv_version = n,
       pv_immutable = True, pv_outcome = da_outcome a, pv_impact_amount = da_impact_amount a,
       pv_impact_currency = da_impact_currency a, pv_confidence = da_confidence a,
       pv_uncertainty = da_uncertainty a, pv_rationale = da_rationale a, pv_state = da_state a,
       pv_facts = da_facts a, pv_missing_information = da_missing_information a, pv_risks = da_risks a,
       pv_evidence_fingerprint = bc_evidence_fingerprint cmd,
       pv_context_fingerprint = bc_context_fingerprint cmd,
       pv_risk_fingerprint = hash_json sha (JList (map risk_json (da_risks a))),
       pv_risk_rule_version = da_risk_rule_version a, pv_model_version = da_model_version a,
       pv_prompt_version = da_prompt_version a, pv_graph_version = da_graph_version a,
       pv_created_at = bi_now ids\<rparr>)"

definition find_evidence :: "case_row \<Rightarrow> string \<times> string \<Rightarrow> database \<Rightarrow> policy_evidence option" where
  "find_evidence c ref db =
     find (\<lambda>e. cpe_organization_id e = cs_organization_id c \<and> cpe_case_id e = cs_id c
             \<and> cpe_public_id e = fst ref \<and> cpe_fingerprint e = snd ref) (policy_evidence_rows db)"

definition bind_proposal_evidence ::
    "brief_ids \<Rightarrow> case_row \<Rightarrow> case_proposal \<Rightarrow> nat \<times> string \<times> string \<Rightarrow> database \<Rightarrow> error + database" where
  "bind_proposal_evidence ids c p = (\<lambda>(i, ref) db.
     bindE (someE (find_evidence c ref db) (ProposalSnapshotMismatch
              (''Policy evidence '' @ fst ref @ '' changed before proposal persistence.''))) (\<lambda>e.
     insert_evidence_binding
       \<lparr>peb_id = bi_evidence ids i, peb_organization_id = cs_organization_id c, peb_case_id = cs_id c,
        peb_proposal_id = prop_id p, peb_proposal_version_id = bi_version ids, peb_evidence_id = cpe_id e,
        peb_evidence_fingerprint = cpe_fingerprint e\<rparr> db))"

definition find_context :: "case_row \<Rightarrow> context_reference \<Rightarrow> database \<Rightarrow> business_object_snapshot option" where
  "find_context c ref db =
     find (\<lambda>b. bo_organization_id b = cs_organization_id c \<and> bo_case_id b = cs_id c
             \<and> bo_public_id b = cref_public_id ref \<and> bo_version b = cref_version ref) (business_objects db)"

definition bind_proposal_context ::
    "brief_ids \<Rightarrow> case_row \<Rightarrow> case_proposal \<Rightarrow> nat \<times> context_reference \<Rightarrow> database \<Rightarrow> error + database" where
  "bind_proposal_context ids c p = (\<lambda>(i, ref) db.
     bindE (someE (find_context c ref db) (ProposalSnapshotMismatch
              (''Business context '' @ cref_public_id ref @ '' changed before proposal persistence.''))) (\<lambda>b.
     insert_context_binding
       \<lparr>pcb_id = bi_context ids i, pcb_organization_id = cs_organization_id c, pcb_case_id = cs_id c,
        pcb_proposal_id = prop_id p, pcb_proposal_version_id = bi_version ids, pcb_context_id = bo_id b,
        pcb_snapshot_version = bo_version b, pcb_context_fingerprint = cref_fingerprint ref\<rparr> db))"

definition new_proposed_action ::
    "(string \<Rightarrow> string) \<Rightarrow> brief_ids \<Rightarrow> case_row \<Rightarrow> case_proposal \<Rightarrow> int \<Rightarrow> nat \<times> proposed_action_draft
     \<Rightarrow> proposed_action" where
  "new_proposed_action sha ids c p n = (\<lambda>(i, a).
     \<lparr>pa_id = bi_action ids i,
      pa_public_id = stable_public_id sha ''PRA'' [prop_public_id p, int_str n, nat_str i],
      pa_organization_id = cs_organization_id c, pa_case_id = cs_id c, pa_proposal_id = prop_id p,
      pa_proposal_version_id = bi_version ids, pa_type = pad_type a, pa_label = pad_label a,
      pa_parameters = pad_parameters a, pa_impact_amount = pad_impact_amount a,
      pa_impact_currency = pad_impact_currency a, pa_expected_outcome = pad_expected_outcome a,
      pa_review_required = pad_review_required a, pa_created_at = bi_now ids\<rparr>)"

definition new_proposal_draft ::
    "(string \<Rightarrow> string) \<Rightarrow> brief_ids \<Rightarrow> case_row \<Rightarrow> case_proposal \<Rightarrow> int \<Rightarrow> suggested_response
     \<Rightarrow> proposal_response_draft" where
  "new_proposal_draft sha ids c p n r =
     \<lparr>prd_id = bi_draft ids, prd_public_id = stable_public_id sha ''DRF'' [prop_public_id p, int_str n],
      prd_organization_id = cs_organization_id c, prd_case_id = cs_id c, prd_proposal_id = prop_id p,
      prd_proposal_version_id = bi_version ids, prd_subject = sr_subject r, prd_body = sr_body r,
      prd_status = sr_status r, prd_version = 1, prd_created_at = bi_now ids\<rparr>"

definition new_checkpoint ::
    "(string \<Rightarrow> string) \<Rightarrow> brief_ids \<Rightarrow> case_row \<Rightarrow> analysis_run \<Rightarrow> nat \<times> checkpoint_draft
     \<Rightarrow> analysis_checkpoint" where
  "new_checkpoint sha ids c run = (\<lambda>(i, k).
     \<lparr>ck_id = bi_checkpoint ids i,
      ck_public_id = stable_public_id sha ''CHK'' [ar_public_id run, int_str (cd_sequence k)],
      ck_organization_id = cs_organization_id c, ck_case_id = cs_id c, ck_analysis_run_id = ar_id run,
      ck_sequence = cd_sequence k, ck_step = cd_step k, ck_status = cd_status k, ck_summary = cd_summary k,
      ck_input_fingerprint = cd_input_fingerprint k, ck_output_fingerprint = cd_output_fingerprint k,
      ck_created_at = bi_now ids\<rparr>)"

definition brief_audit ::
    "brief_ids \<Rightarrow> case_row \<Rightarrow> case_proposal \<Rightarrow> int \<Rightarrow> analysis_run \<Rightarrow> string \<Rightarrow> string \<Rightarrow> brief_create \<Rightarrow> string
     \<Rightarrow> audit_event" where
  "brief_audit ids c p n run actor actor_type cmd correlation_id =
     \<lparr>au_id = bi_audit ids, au_organization_id = Some (cs_organization_id c), au_task_id = None,
      au_run_id = None, au_event_type = ''case.decision_brief_generated'', au_actor_type = actor_type,
      au_actor_id = Some actor, au_subject_type = Some ''case'', au_subject_id = Some (cs_public_id c),
      au_summary = Some (fst (audit_details (bc_analysis cmd))),
      au_data = JObj [(''proposal_id'', JStr (prop_public_id p)), (''proposal_version'', JInt n),
        (''analysis_run_id'', JStr (ar_public_id run)),
        (''input_fingerprint'', JStr (bc_input_fingerprint cmd)),
        (''policy_status'', JStr (retrieval_status_value (da_policy_status (bc_analysis cmd)))),
        (''drafting_mode'', JStr (snd (audit_details (bc_analysis cmd)))),
        (''model_version'', JStr (da_model_version (bc_analysis cmd)))],
      au_correlation_id = correlation_id, au_occurred_at = bi_audit_now ids\<rparr>"

definition numbered :: "nat \<Rightarrow> 'a list \<Rightarrow> (nat \<times> 'a) list" where
  "numbered start xs = zip [start..<start + length xs] xs"

definition write_parts ::
    "(string \<Rightarrow> string) \<Rightarrow> brief_ids \<Rightarrow> case_row \<Rightarrow> case_proposal \<Rightarrow> int \<Rightarrow> analysis_run \<Rightarrow> brief_create
     \<Rightarrow> database \<Rightarrow> error + database" where
  "write_parts sha ids c p n run cmd db =
     bindE (insert_proposal_version (new_proposal_version sha ids c p n cmd) db) (\<lambda>db1.
     bindE (foldE (bind_proposal_evidence ids c p) (numbered 0 (bc_evidence cmd)) db1) (\<lambda>db2.
     bindE (foldE (bind_proposal_context ids c p) (numbered 0 (bc_contexts cmd)) db2) (\<lambda>db3.
     bindE (foldE insert_proposed_action
              (map (new_proposed_action sha ids c p n) (numbered 1 (da_proposed_actions (bc_analysis cmd)))) db3)
       (\<lambda>db4.
     bindE (insert_proposal_draft (new_proposal_draft sha ids c p n (da_response_draft (bc_analysis cmd))) db4)
       (\<lambda>db5.
     foldE insert_checkpoint
       (map (new_checkpoint sha ids c run) (numbered 0 (da_checkpoints (bc_analysis cmd)))) db5)))))"

definition create_brief ::
    "(string \<Rightarrow> string) \<Rightarrow> brief_ids \<Rightarrow> string \<Rightarrow> case_row \<Rightarrow> string \<Rightarrow> string \<Rightarrow> brief_create \<Rightarrow> string
     \<Rightarrow> database \<Rightarrow> error + decision_brief \<times> database" where
  "create_brief sha ids org_pid c actor actor_type cmd correlation_id db =
     (let run = new_run sha ids c actor cmd in
      bindE (insert_analysis_run run db) (\<lambda>db1.
      bindE (next_proposal sha ids org_pid c (da_state (bc_analysis cmd)) db1) (\<lambda>((p, n), db2).
      bindE (write_parts sha ids c p n run cmd db2) (\<lambda>db3.
      bindE (insert_audit (brief_audit ids c p n run actor actor_type cmd correlation_id) db3) (\<lambda>db4.
      bindE (load_brief p n db4) (\<lambda>b. Inr (b, db4)))))))"

definition create_or_get ::
    "(string \<Rightarrow> string) \<Rightarrow> brief_ids \<Rightarrow> string \<Rightarrow> string \<Rightarrow> string \<Rightarrow> string \<Rightarrow> brief_create \<Rightarrow> string
     \<Rightarrow> database \<Rightarrow> error + decision_brief \<times> database" where
  "create_or_get sha ids org_pid case_pid actor actor_type cmd correlation_id db =
     bindE (someE (scoped_case org_pid case_pid db) (ProposalNotFound ''The case was not found.'')) (\<lambda>(_, c).
     bindE (requireE (cs_version c = bc_expected_case_version cmd)
              (CaseConcurrencyConflict (bc_expected_case_version cmd) (cs_version c))) (\<lambda>_.
     bindE (load_by_input_fingerprint c (bc_input_fingerprint cmd) db) (\<lambda>existing.
     case existing of Some b \<Rightarrow> Inr (b, db)
     | None \<Rightarrow> create_brief sha ids org_pid c actor actor_type cmd correlation_id db)))"

end
