(* ===== verification/Brief_Service.thy ===== *)
theory Brief_Service
  imports Decision_Briefs Generation Policy_Evidence Narrative
begin

text \<open>
  Generation of decision briefs: \<open>services/decision_brief_service.py\<close> and the transactions in which
  \<open>generate_decision_brief\<close> of \<open>api/routes/decision_briefs.py\<close> runs it. The engine is a record: the
  analysis function and its versions; both engines of the repository are given as such records.
\<close>

section \<open>Engines\<close>

record decision_engine =
  en_analyze :: "case_workspace \<Rightarrow> evidence_result \<Rightarrow> string \<Rightarrow> error + decision_analysis"
  en_model_version :: string
  en_prompt_version :: string
  en_graph_version :: string
  en_risk_rule_version :: string

definition deterministic_engine :: "(string \<Rightarrow> string) \<Rightarrow> decision_engine" where
  "deterministic_engine sha =
     \<lparr>en_analyze = analyze sha, en_model_version = decision_model_version,
      en_prompt_version = decision_prompt_version, en_graph_version = decision_graph_version,
      en_risk_rule_version = decision_risk_rule_version\<rparr>"

definition assisted_engine :: "(string \<Rightarrow> string) \<Rightarrow> narrative_gateway \<Rightarrow> decision_engine" where
  "assisted_engine sha gw =
     \<lparr>en_analyze = assisted_analyze sha gw, en_model_version = assisted_model_version gw,
      en_prompt_version = ai_decision_prompt_version, en_graph_version = decision_graph_version,
      en_risk_rule_version = decision_risk_rule_version\<rparr>"

section \<open>Preparing\<close>

definition decision_generation_lease_seconds :: int where
  "decision_generation_lease_seconds = 60"

definition max_decision_generation_attempts :: int where
  "max_decision_generation_attempts = 3"

definition max_input_fingerprint_retries :: nat where
  "max_input_fingerprint_retries = 3"

record generation_plan =
  gp_workspace :: case_workspace
  gp_evidence :: evidence_result
  gp_expected_case_version :: int
  gp_input_fingerprint :: string
  gp_context_fingerprint :: string
  gp_evidence_fingerprint :: string
  gp_lease :: generation_lease

datatype prepared = Plan generation_plan | Ready decision_brief

definition can_reuse :: "decision_brief \<Rightarrow> string \<Rightarrow> bool" where
  "can_reuse b model_version \<longleftrightarrow> ar_status (br_run b) = AN_ABSTAINED \<or> ar_model_version (br_run b) = model_version"

definition retry_input_fingerprint :: "(string \<Rightarrow> string) \<Rightarrow> string \<Rightarrow> nat \<Rightarrow> string" where
  "retry_input_fingerprint sha base n = sha (base @ '':ai-retry:'' @ nat_str n)"

text \<open>The loop over the retries: the rounds left, the number of the next one, and the fingerprint. It
  ends with a brief that can be reused or with a fingerprint no brief has.\<close>

fun choose_input ::
    "(string \<Rightarrow> string) \<Rightarrow> string \<Rightarrow> string \<Rightarrow> string \<Rightarrow> string \<Rightarrow> nat \<Rightarrow> nat \<Rightarrow> string \<Rightarrow> database
     \<Rightarrow> error + (decision_brief + string)" where
  "choose_input sha org_pid case_pid model_version base 0 n fingerprint db =
     Inl (DecisionFingerprintRetryExhausted ''Decision brief retry fingerprints are exhausted for this snapshot.'')"
| "choose_input sha org_pid case_pid model_version base (Suc left) n fingerprint db =
     bindE (get_by_input_fingerprint org_pid case_pid fingerprint db) (\<lambda>existing.
     case existing of None \<Rightarrow> Inr (Inr fingerprint)
     | Some b \<Rightarrow>
         if can_reuse b model_version then Inr (Inl b)
         else choose_input sha org_pid case_pid model_version base left (Suc n)
                (retry_input_fingerprint sha base n) db)"

definition engine_input_fingerprint ::
    "(string \<Rightarrow> string) \<Rightarrow> decision_engine \<Rightarrow> case_workspace \<Rightarrow> evidence_result \<Rightarrow> string" where
  "engine_input_fingerprint sha en ws ev =
     decision_input_fingerprint sha ws ev (combined_context_fingerprint sha ws)
       (combined_evidence_fingerprint sha ev) (en_model_version en) (en_prompt_version en)
       (en_graph_version en) (en_risk_rule_version en)"

record prepare_ids =
  pi_evidence :: evidence_ids
  pi_as_of :: timestamp
  pi_acquire :: acquire_ids

definition reserve_generation ::
    "acquire_ids \<Rightarrow> string \<Rightarrow> string \<Rightarrow> string \<Rightarrow> generation_plan \<Rightarrow> database \<Rightarrow> error + prepared \<times> database" where
  "reserve_generation ids org_pid case_pid fingerprint plan db =
     bindE (generation_acquire ids org_pid case_pid fingerprint decision_generation_lease_seconds
              max_decision_generation_attempts db) (\<lambda>(r, db1).
     case r of
       Leased lease \<Rightarrow> Inr (Plan (plan\<lparr>gp_lease := lease\<rparr>), db1)
     | Completed fp run_id \<Rightarrow>
         bindE (get_by_input_fingerprint org_pid case_pid fp db1) (\<lambda>b.
         case b of
           Some brief \<Rightarrow>
             if ar_id (br_run brief) \<noteq> run_id
             then Inl (ProposalSnapshotMismatch
                    ''The completed generation is missing its immutable decision brief.'')
             else Inr (Ready brief, db1)
         | None \<Rightarrow> Inl (ProposalSnapshotMismatch
                    ''The completed generation is missing its immutable decision brief.'')))"

text \<open>A lease stands in the plan before one is acquired; \<open>reserve_generation\<close> replaces it.\<close>

definition no_lease :: generation_lease where
  "no_lease = \<lparr>gl_input_fingerprint = [], gl_owner_token = 0, gl_fence_token = 0, gl_attempt = 0,
     gl_expires_at = 0\<rparr>"

definition prepare_generation ::
    "(string \<Rightarrow> string) \<Rightarrow> retrieval_setup \<Rightarrow> decision_engine \<Rightarrow> prepare_ids \<Rightarrow> actor_context \<Rightarrow> string \<Rightarrow> int
     \<Rightarrow> string \<Rightarrow> database \<Rightarrow> error + prepared \<times> database" where
  "prepare_generation sha rt en ids actor case_id expected correlation_id db =
     bindE (require_permission actor CASE_MANAGE) (\<lambda>_.
     bindE (require_permission actor POLICY_READ) (\<lambda>_.
     bindE (get_workspace (actor_organization_id actor) case_id db) (\<lambda>w.
     bindE (someE w (ProposalNotFound ''The case was not found.'')) (\<lambda>ws.
     bindE (requireE (cs_version (ws_case ws) = expected)
              (CaseConcurrencyConflict expected (cs_version (ws_case ws)))) (\<lambda>_.
     bindE (requireE (cs_status (ws_case ws) \<noteq> CS_COMPLETED)
              (ProposalGenerationNotAllowed
                 ''A completed case must be reopened before its decision brief can be revised.'')) (\<lambda>_.
     bindE (refresh_for_case rt (pi_evidence ids) actor case_id correlation_id (pi_as_of ids) db) (\<lambda>(ev, db1).
     bindE (choose_input sha (actor_organization_id actor) case_id (en_model_version en)
              (engine_input_fingerprint sha en ws ev) (Suc max_input_fingerprint_retries) 1
              (engine_input_fingerprint sha en ws ev) db1) (\<lambda>choice.
     case choice of Inl b \<Rightarrow> Inr (Ready b, db1)
     | Inr fingerprint \<Rightarrow>
         reserve_generation (pi_acquire ids) (actor_organization_id actor) case_id fingerprint
           \<lparr>gp_workspace = ws, gp_evidence = ev, gp_expected_case_version = expected,
            gp_input_fingerprint = fingerprint, gp_context_fingerprint = combined_context_fingerprint sha ws,
            gp_evidence_fingerprint = combined_evidence_fingerprint sha ev, gp_lease = no_lease\<rparr> db1))))))))"

section \<open>Persisting\<close>

definition brief_command :: "(string \<Rightarrow> string) \<Rightarrow> generation_plan \<Rightarrow> decision_analysis \<Rightarrow> brief_create" where
  "brief_command sha plan analysis =
     \<lparr>bc_expected_case_version = gp_expected_case_version plan,
      bc_input_fingerprint = gp_input_fingerprint plan,
      bc_context_fingerprint = gp_context_fingerprint plan,
      bc_evidence_fingerprint = gp_evidence_fingerprint plan, bc_analysis = analysis,
      bc_evidence = map (\<lambda>b. (cpe_public_id (eb_evidence b), cpe_fingerprint (eb_evidence b)))
        (er_evidence (gp_evidence plan)),
      bc_contexts = map (\<lambda>c. \<lparr>cref_public_id = bo_public_id c, cref_version = bo_version c,
          cref_fingerprint = context_snapshot_fingerprint sha c\<rparr>) (ws_business_contexts (gp_workspace plan))\<rparr>"

record persist_ids =
  pe_check_now :: timestamp
  pe_brief :: brief_ids
  pe_complete_now :: timestamp

definition persist_generation ::
    "(string \<Rightarrow> string) \<Rightarrow> retrieval_setup \<Rightarrow> persist_ids \<Rightarrow> actor_context \<Rightarrow> string \<Rightarrow> generation_plan
     \<Rightarrow> decision_analysis \<Rightarrow> string \<Rightarrow> database \<Rightarrow> error + decision_brief \<times> database" where
  "persist_generation sha rt ids actor case_id plan analysis correlation_id db =
     bindE (require_permission actor CASE_MANAGE) (\<lambda>_.
     bindE (require_permission actor POLICY_READ) (\<lambda>_.
     bindE (is_current_for_case rt actor case_id (gp_evidence plan) (pe_check_now ids) db) (\<lambda>current.
     bindE (requireE current (ProposalSnapshotMismatch
              ''Applicable policy evidence changed while the decision brief was generated.'')) (\<lambda>_.
     bindE (valid_brief_create (brief_command sha plan analysis)) (\<lambda>cmd.
     bindE (create_or_get sha (pe_brief ids) (actor_organization_id actor) case_id (actor_id actor)
              (actor_kind_value (actor_kind actor)) cmd correlation_id db) (\<lambda>(b, db1).
     bindE (generation_complete (pe_complete_now ids) (actor_organization_id actor) case_id (gp_lease plan)
              (ar_id (br_run b)) db1) (\<lambda>(_, db2).
     Inr (b, db2))))))))"

definition release_generation ::
    "timestamp \<Rightarrow> actor_context \<Rightarrow> string \<Rightarrow> generation_plan \<Rightarrow> string \<Rightarrow> database \<Rightarrow> error + bool \<times> database" where
  "release_generation now actor case_id plan error_code db =
     generation_fail now (actor_organization_id actor) case_id (gp_lease plan) error_code db"

section \<open>The route\<close>

text \<open>One transaction prepares, the engine runs outside of any, a second transaction persists; when the
  engine or the second transaction raises, a third one releases the lease and what it raises is only
  logged. Other sessions can commit in between: \<open>between\<close> gives the database the second transaction
  finds, \<open>later\<close> the one the third finds.
  \<open>error_name\<close> is the class name of an exception.\<close>

definition generate_decision_brief ::
    "(string \<Rightarrow> string) \<Rightarrow> (error \<Rightarrow> string) \<Rightarrow> retrieval_setup \<Rightarrow> decision_engine \<Rightarrow> prepare_ids \<Rightarrow> persist_ids
     \<Rightarrow> timestamp \<Rightarrow> actor_context \<Rightarrow> string \<Rightarrow> int \<Rightarrow> string \<Rightarrow> (database \<Rightarrow> database)
     \<Rightarrow> (database \<Rightarrow> database) \<Rightarrow> database \<Rightarrow> (error + decision_brief) \<times> database" where
  "generate_decision_brief sha error_name rt en pids sids release_now actor case_id expected correlation_id
       between later db =
     (case prepare_generation sha rt en pids actor case_id expected correlation_id db of
        Inl e \<Rightarrow> (Inl e, db)
      | Inr (Ready b, db1) \<Rightarrow> (Inr b, db1)
      | Inr (Plan plan, db1) \<Rightarrow>
          (let attempt = bindE (en_analyze en (gp_workspace plan) (gp_evidence plan) (gp_input_fingerprint plan))
                 (\<lambda>analysis. persist_generation sha rt sids actor case_id plan analysis correlation_id (between db1))
           in case attempt of
             Inr (b, db2) \<Rightarrow> (Inr b, db2)
           | Inl e \<Rightarrow>
               (Inl e, case release_generation release_now actor case_id plan (error_name e) (later (between db1)) of
                         Inl _ \<Rightarrow> later (between db1) | Inr (_, db3) \<Rightarrow> db3)))"

section \<open>Reading\<close>

definition service_get_latest_brief :: "actor_context \<Rightarrow> string \<Rightarrow> database \<Rightarrow> error + decision_brief" where
  "service_get_latest_brief actor case_id db =
     bindE (require_permission actor CASE_READ) (\<lambda>_.
     bindE (brief_get_latest (actor_organization_id actor) case_id db) (\<lambda>b.
     someE b (ProposalNotFound ''No decision brief has been generated for this case.'')))"

definition service_get_brief_version :: "actor_context \<Rightarrow> string \<Rightarrow> int \<Rightarrow> database \<Rightarrow> error + decision_brief" where
  "service_get_brief_version actor case_id n db =
     bindE (require_permission actor CASE_READ) (\<lambda>_.
     bindE (brief_get_version (actor_organization_id actor) case_id n db) (\<lambda>b.
     someE b (ProposalNotFound ''The proposal version was not found.'')))"

end
