(* ===== verification/Brief_Props.thy ===== *)
theory Brief_Props
  imports Brief_Service "HOL-Library.Multiset"
begin

text \<open>
  What is promised of stored decision briefs: a brief is read back as the analysis it was written from,
  under every way of reading it; a brief is persisted only against the case and the policy evidence it
  was made from, and completes the lease of its generation; a generation that fails leaves no brief
  behind and gives its lease back.
\<close>

section \<open>The rows of a brief\<close>

text \<open>The parts of the schema the reads rely on: primary keys are unique, and the rows that belong to a
  proposal version or to an analysis run refer to an existing one.\<close>

definition brief_store_ok :: "database \<Rightarrow> bool" where
  "brief_store_ok db \<longleftrightarrow>
     unique_keys prop_id (proposals db) \<and> unique_keys cpe_id (policy_evidence_rows db)
     \<and> unique_keys bo_id (business_objects db) \<and> unique_keys ar_id (analysis_runs db)
     \<and> list_all (\<lambda>b. peb_proposal_version_id b \<in> pv_id ` set (proposal_versions db)) (evidence_bindings db)
     \<and> list_all (\<lambda>b. pcb_proposal_version_id b \<in> pv_id ` set (proposal_versions db)) (context_bindings db)
     \<and> list_all (\<lambda>a. pa_proposal_version_id a \<in> pv_id ` set (proposal_versions db)) (proposed_actions db)
     \<and> list_all (\<lambda>k. ck_analysis_run_id k \<in> ar_id ` set (analysis_runs db)) (checkpoints db)"

text \<open>The analysis a stored brief stands for.\<close>

definition action_draft_of :: "proposed_action \<Rightarrow> proposed_action_draft" where
  "action_draft_of a =
     \<lparr>pad_type = pa_type a, pad_label = pa_label a, pad_parameters = pa_parameters a,
      pad_impact_amount = pa_impact_amount a, pad_impact_currency = pa_impact_currency a,
      pad_expected_outcome = pa_expected_outcome a, pad_review_required = pa_review_required a\<rparr>"

definition checkpoint_draft_of :: "analysis_checkpoint \<Rightarrow> checkpoint_draft" where
  "checkpoint_draft_of k =
     \<lparr>cd_sequence = ck_sequence k, cd_step = ck_step k, cd_status = ck_status k, cd_summary = ck_summary k,
      cd_input_fingerprint = ck_input_fingerprint k, cd_output_fingerprint = ck_output_fingerprint k\<rparr>"

definition analysis_of_brief :: "decision_brief \<Rightarrow> decision_analysis" where
  "analysis_of_brief b =
     (let run = br_run b; v = br_version b; draft = br_response_draft b in
      \<lparr>da_status = ar_status run, da_policy_status = ar_policy_status run, da_facts = pv_facts v,
       da_missing_information = pv_missing_information v, da_risks = pv_risks v, da_outcome = pv_outcome v,
       da_impact_amount = pv_impact_amount v, da_impact_currency = pv_impact_currency v,
       da_confidence = pv_confidence v, da_uncertainty = pv_uncertainty v, da_rationale = pv_rationale v,
       da_state = pv_state v, da_proposed_actions = map action_draft_of (br_proposed_actions b),
       da_response_draft = \<lparr>sr_subject = prd_subject draft, sr_body = prd_body draft, sr_status = prd_status draft\<rparr>,
       da_checkpoints = map checkpoint_draft_of (br_checkpoints b),
       da_risk_rule_version = pv_risk_rule_version v, da_model_version = pv_model_version v,
       da_prompt_version = pv_prompt_version v, da_graph_version = pv_graph_version v\<rparr>)"

section \<open>Lists and tables\<close>

lemma find_skip: "(\<And>x. x \<in> set xs \<Longrightarrow> \<not> P x) \<Longrightarrow> find P (xs @ ys) = find P ys"
  by (induction xs) auto

lemma find_row_put_hit:
  assumes "unique_keys key rows" and "find P rows = Some x" and "key r = key x" and "P r"
  shows "find P (row_put key r rows) = Some r"
  using assms
proof (induction rows)
  case (Cons y ys)
  show ?case
  proof (cases "P y")
    case False
    then have "x \<in> set ys" using Cons.prems(2) find_SomeD by fastforce
    then have "key y \<noteq> key r" using Cons.prems(1,3) by (auto simp: unique_keys_def)
    then show ?thesis using Cons False by (simp add: row_put_def unique_keys_def)
  qed (use Cons.prems in \<open>auto simp: row_put_def\<close>)
qed simp

lemma filter_own_key:
  assumes "unique_keys key rows" and "x \<in> set rows"
  shows "filter (\<lambda>r. key r = key x) rows = [x]"
  using assms
proof (induction rows)
  case (Cons y ys)
  have none: "filter (\<lambda>r. key r = key y) ys = []"
    using Cons.prems(1) by (auto simp: unique_keys_def filter_empty_conv image_iff)
  show ?case
  proof (cases "x = y")
    case False
    then have "x \<in> set ys" using Cons.prems(2) by simp
    moreover have "key y \<noteq> key x" using Cons.prems(1) \<open>x \<in> set ys\<close> by (auto simp: unique_keys_def)
    ultimately show ?thesis using Cons by (simp add: unique_keys_def)
  qed (simp add: none)
qed simp

lemma join_swap:
  "mset [f x. x \<leftarrow> xs, y \<leftarrow> ys, P x y] = mset [f x. y \<leftarrow> ys, x \<leftarrow> xs, P x y]"
proof (induction xs)
  case (Cons x xs)
  have "mset [f x'. y \<leftarrow> ys, x' \<leftarrow> x # xs, P x' y]
      = mset [f x. y \<leftarrow> ys, P x y] + mset [f x'. y \<leftarrow> ys, x' \<leftarrow> xs, P x' y]"
    by (induction ys) auto
  then show ?case using Cons.IH by simp
qed (induction ys; simp)

text \<open>Joining rows with references to them, each reference naming exactly one row.\<close>

lemma join_references:
  assumes "\<And>y. y \<in> set ys \<Longrightarrow> filter (\<lambda>x. P x y) xs = [g y]"
  shows "mset [f x. x \<leftarrow> xs, y \<leftarrow> ys, P x y] = mset (map (f \<circ> g) ys)"
proof -
  have one: "[f x. x \<leftarrow> xs, P x y] = map f (filter (\<lambda>x. P x y) xs)" for y by (induction xs) auto
  have "mset [f x. y \<leftarrow> ys, x \<leftarrow> xs, P x y] = mset (map (f \<circ> g) ys)"
    using assms by (induction ys) (auto simp: one)
  then show ?thesis by (simp add: join_swap)
qed

lemma unique_keys_inj: "unique_keys key rows \<Longrightarrow> x \<in> set rows \<Longrightarrow> y \<in> set rows \<Longrightarrow> key x = key y \<Longrightarrow> x = y"
  unfolding unique_keys_def by (meson distinct_map inj_onD)

lemma map_insort_key: "map f (insort_key (\<lambda>x. k (f x)) x xs) = insort_key k (f x) (map f xs)"
  by (induction xs) auto

lemma map_sort_key: "map f (sort_key (\<lambda>x. k (f x)) xs) = sort_key k (map f xs)"
  by (induction xs) (simp_all add: map_insort_key)

lemma sort_mset_eq: "mset xs = mset ys \<Longrightarrow> sort xs = sort ys"
  by (metis properties_for_sort mset_sort sorted_sort)

lemma sort_join_references:
  assumes "unique_keys key rows" and "\<And>x y. y \<in> set old \<Longrightarrow> \<not> P x y"
    and "\<And>r. r \<in> set refs \<Longrightarrow> g r \<in> set rows \<and> P (g r) (h r)"
    and "\<And>x r. r \<in> set refs \<Longrightarrow> P x (h r) \<Longrightarrow> key x = key (g r)"
  shows "sort [f x. x \<leftarrow> rows, y \<leftarrow> old @ map h refs, P x y] = sort (map (f \<circ> g) refs)"
proof (rule sort_mset_eq)
  have old: "[f x. y \<leftarrow> old, P x y] = []" for x using assms(2) by simp
  have "[f x. x \<leftarrow> rows, y \<leftarrow> old @ map h refs, P x y] = [f x. x \<leftarrow> rows, r \<leftarrow> refs, P x (h r)]"
    by (simp add: old comp_def)
  moreover have "filter (\<lambda>x. P x (h r)) rows = [g r]" if "r \<in> set refs" for r
  proof -
    have "filter (\<lambda>x. P x (h r)) rows = filter (\<lambda>x. key x = key (g r)) rows"
      using assms(3,4) [OF that] unique_keys_inj [OF assms(1)] by (intro filter_cong) blast+
    then show ?thesis using filter_own_key [OF assms(1)] assms(3) [OF that] by simp
  qed
  ultimately show "mset [f x. x \<leftarrow> rows, y \<leftarrow> old @ map h refs, P x y] = mset (map (f \<circ> g) refs)"
    using join_references [of refs "\<lambda>x r. P x (h r)" rows g f] by simp
qed

lemma foldE_inserts:
  assumes "foldE ins rs db = Inr db'"
    and "\<And>r db db'. ins r db = Inr db' \<Longrightarrow> db' = upd (\<lambda>rows. rows @ [r]) db"
    and "\<And>f g db. upd f (upd g db) = upd (f \<circ> g) db" and "\<And>db. upd (\<lambda>rows. rows) db = db"
  shows "db' = upd (\<lambda>rows. rows @ rs) db"
  using assms(1)
proof (induction rs arbitrary: db)
  case Nil
  then show ?case using assms(4) by simp
next
  case (Cons r rs)
  then obtain db1 where "ins r db = Inr db1" and "foldE ins rs db1 = Inr db'" by (auto simp: run_simps)
  then have "db' = upd (\<lambda>rows. rows @ rs) (upd (\<lambda>rows. rows @ [r]) db)" using Cons.IH assms(2) by blast
  then show ?case using assms(3) by (simp add: comp_def)
qed

section \<open>What the writer stores\<close>

lemma insert_proposed_action_eq:
  "insert_proposed_action r db = Inr db' \<Longrightarrow> db' = proposed_actions_update (\<lambda>rows. rows @ [r]) db"
  by (auto simp: insert_proposed_action_def run_simps)

lemma insert_checkpoint_eq:
  "insert_checkpoint r db = Inr db' \<Longrightarrow> db' = checkpoints_update (\<lambda>rows. rows @ [r]) db"
  by (auto simp: insert_checkpoint_def run_simps)

lemma add_actions_effect:
  "foldE insert_proposed_action rs db = Inr db' \<Longrightarrow> db' = db\<lparr>proposed_actions := proposed_actions db @ rs\<rparr>"
  by (drule foldE_inserts [where upd = proposed_actions_update]) (auto dest: insert_proposed_action_eq)

lemma add_checkpoints_effect:
  "foldE insert_checkpoint rs db = Inr db' \<Longrightarrow> db' = db\<lparr>checkpoints := checkpoints db @ rs\<rparr>"
  by (drule foldE_inserts [where upd = checkpoints_update]) (auto dest: insert_checkpoint_eq)

definition evidence_binding_for ::
    "brief_ids \<Rightarrow> case_row \<Rightarrow> case_proposal \<Rightarrow> database \<Rightarrow> nat \<times> string \<times> string \<Rightarrow> evidence_binding" where
  "evidence_binding_for ids c p db = (\<lambda>(i, ref).
     \<lparr>peb_id = bi_evidence ids i, peb_organization_id = cs_organization_id c, peb_case_id = cs_id c,
      peb_proposal_id = prop_id p, peb_proposal_version_id = bi_version ids,
      peb_evidence_id = cpe_id (the (find_evidence c ref db)),
      peb_evidence_fingerprint = cpe_fingerprint (the (find_evidence c ref db))\<rparr>)"

definition context_binding_for ::
    "brief_ids \<Rightarrow> case_row \<Rightarrow> case_proposal \<Rightarrow> database \<Rightarrow> nat \<times> context_reference \<Rightarrow> context_binding" where
  "context_binding_for ids c p db = (\<lambda>(i, ref).
     \<lparr>pcb_id = bi_context ids i, pcb_organization_id = cs_organization_id c, pcb_case_id = cs_id c,
      pcb_proposal_id = prop_id p, pcb_proposal_version_id = bi_version ids,
      pcb_context_id = bo_id (the (find_context c ref db)),
      pcb_snapshot_version = bo_version (the (find_context c ref db)),
      pcb_context_fingerprint = cref_fingerprint ref\<rparr>)"

lemma bind_evidence_effect:
  assumes "foldE (bind_proposal_evidence ids c p) refs db = Inr db'"
  shows "db' = db\<lparr>evidence_bindings := evidence_bindings db @ map (evidence_binding_for ids c p db) refs\<rparr>
    \<and> (\<forall>r\<in>set refs. find_evidence c (snd r) db \<noteq> None)"
  using assms
proof (induction refs arbitrary: db)
  case (Cons r refs)
  then obtain db1 where one: "bind_proposal_evidence ids c p r db = Inr db1"
    and rest: "foldE (bind_proposal_evidence ids c p) refs db1 = Inr db'" by (auto simp: run_simps)
  have db1: "db1 = db\<lparr>evidence_bindings := evidence_bindings db @ [evidence_binding_for ids c p db r]\<rparr>
      \<and> find_evidence c (snd r) db \<noteq> None"
    using one by (auto simp: bind_proposal_evidence_def insert_evidence_binding_def run_simps
        evidence_binding_for_def split: prod.splits)
  then have "find_evidence c ref db1 = find_evidence c ref db" for ref by (simp add: find_evidence_def)
  then have "evidence_binding_for ids c p db1 = evidence_binding_for ids c p db"
    by (simp add: evidence_binding_for_def)
  then show ?case using Cons.IH [OF rest] db1 by (simp add: find_evidence_def)
qed simp

lemma bind_context_effect:
  assumes "foldE (bind_proposal_context ids c p) refs db = Inr db'"
  shows "db' = db\<lparr>context_bindings := context_bindings db @ map (context_binding_for ids c p db) refs\<rparr>
    \<and> (\<forall>r\<in>set refs. find_context c (snd r) db \<noteq> None)"
  using assms
proof (induction refs arbitrary: db)
  case (Cons r refs)
  then obtain db1 where one: "bind_proposal_context ids c p r db = Inr db1"
    and rest: "foldE (bind_proposal_context ids c p) refs db1 = Inr db'" by (auto simp: run_simps)
  have db1: "db1 = db\<lparr>context_bindings := context_bindings db @ [context_binding_for ids c p db r]\<rparr>
      \<and> find_context c (snd r) db \<noteq> None"
    using one by (auto simp: bind_proposal_context_def insert_context_binding_def run_simps
        context_binding_for_def split: prod.splits)
  then have "find_context c ref db1 = find_context c ref db" for ref by (simp add: find_context_def)
  then have "context_binding_for ids c p db1 = context_binding_for ids c p db"
    by (simp add: context_binding_for_def)
  then show ?case using Cons.IH [OF rest] db1 by (simp add: find_context_def)
qed simp

text \<open>The tables after the parts of a version are written.\<close>

lemma write_parts_effect:
  assumes "write_parts sha ids c p n run cmd db = Inr db'"
  shows "db' = db\<lparr>
      proposal_versions := proposal_versions db @ [new_proposal_version sha ids c p n cmd],
      evidence_bindings := evidence_bindings db
        @ map (evidence_binding_for ids c p db) (numbered 0 (bc_evidence cmd)),
      context_bindings := context_bindings db
        @ map (context_binding_for ids c p db) (numbered 0 (bc_contexts cmd)),
      proposed_actions := proposed_actions db
        @ map (new_proposed_action sha ids c p n) (numbered 1 (da_proposed_actions (bc_analysis cmd))),
      proposal_response_drafts := proposal_response_drafts db
        @ [new_proposal_draft sha ids c p n (da_response_draft (bc_analysis cmd))],
      checkpoints := checkpoints db
        @ map (new_checkpoint sha ids c run) (numbered 0 (da_checkpoints (bc_analysis cmd)))\<rparr>" (is ?tables)
    and "row_get pv_id (bi_version ids) (proposal_versions db) = None"
    and "\<forall>x\<in>set (proposal_versions db). \<not> proposal_version_clash (new_proposal_version sha ids c p n cmd) x"
    and "\<forall>x\<in>set (proposal_response_drafts db).
      \<not> proposal_draft_clash (new_proposal_draft sha ids c p n (da_response_draft (bc_analysis cmd))) x"
    and "\<forall>r\<in>set (numbered 0 (bc_evidence cmd)). find_evidence c (snd r) db \<noteq> None"
    and "\<forall>r\<in>set (numbered 0 (bc_contexts cmd)). find_context c (snd r) db \<noteq> None"
proof -
  obtain db1 db2 db3 db4 db5 where
    s1: "insert_proposal_version (new_proposal_version sha ids c p n cmd) db = Inr db1" and
    s2: "foldE (bind_proposal_evidence ids c p) (numbered 0 (bc_evidence cmd)) db1 = Inr db2" and
    s3: "foldE (bind_proposal_context ids c p) (numbered 0 (bc_contexts cmd)) db2 = Inr db3" and
    s4: "foldE insert_proposed_action
      (map (new_proposed_action sha ids c p n) (numbered 1 (da_proposed_actions (bc_analysis cmd)))) db3 = Inr db4" and
    s5: "insert_proposal_draft (new_proposal_draft sha ids c p n (da_response_draft (bc_analysis cmd))) db4 = Inr db5" and
    s6: "foldE insert_checkpoint
      (map (new_checkpoint sha ids c run) (numbered 0 (da_checkpoints (bc_analysis cmd)))) db5 = Inr db'"
    using assms by (auto simp: write_parts_def run_simps)
  have e1: "db1 = db\<lparr>proposal_versions := proposal_versions db @ [new_proposal_version sha ids c p n cmd]\<rparr>"
    and v: "row_get pv_id (pv_id (new_proposal_version sha ids c p n cmd)) (proposal_versions db) = None"
      "\<forall>x\<in>set (proposal_versions db). \<not> proposal_version_clash (new_proposal_version sha ids c p n cmd) x"
    using s1 by (auto simp: insert_proposal_version_def run_simps)
  have e5: "db5 = db4\<lparr>proposal_response_drafts := proposal_response_drafts db4
        @ [new_proposal_draft sha ids c p n (da_response_draft (bc_analysis cmd))]\<rparr>"
    and d: "\<forall>x\<in>set (proposal_response_drafts db4).
      \<not> proposal_draft_clash (new_proposal_draft sha ids c p n (da_response_draft (bc_analysis cmd))) x"
    using s5 by (auto simp: insert_proposal_draft_def run_simps)
  note e2 = bind_evidence_effect [OF s2] and e3 = bind_context_effect [OF s3]
    and e4 = add_actions_effect [OF s4] and e6 = add_checkpoints_effect [OF s6]
  have ev: "find_evidence c ref db1 = find_evidence c ref db" for ref using e1 by (simp add: find_evidence_def)
  have ct: "find_context c ref db2 = find_context c ref db" for ref using e1 e2 by (simp add: find_context_def)
  have evf: "evidence_binding_for ids c p db1 = evidence_binding_for ids c p db"
    by (simp add: evidence_binding_for_def ev)
  have ctf: "context_binding_for ids c p db2 = context_binding_for ids c p db"
    by (simp add: context_binding_for_def ct)
  show ?tables unfolding e6 e5 e4 e3 [THEN conjunct1, unfolded ctf] e2 [THEN conjunct1, unfolded evf] e1 by simp
  show "row_get pv_id (bi_version ids) (proposal_versions db) = None"
    using v(1) by (simp add: new_proposal_version_def Let_def)
  show "\<forall>x\<in>set (proposal_versions db). \<not> proposal_version_clash (new_proposal_version sha ids c p n cmd) x"
    by (rule v(2))
  show "\<forall>x\<in>set (proposal_response_drafts db).
      \<not> proposal_draft_clash (new_proposal_draft sha ids c p n (da_response_draft (bc_analysis cmd))) x"
    using d unfolding e4 e3 [THEN conjunct1] e2 [THEN conjunct1] e1 by simp
  show "\<forall>r\<in>set (numbered 0 (bc_evidence cmd)). find_evidence c (snd r) db \<noteq> None"
    using e2 [THEN conjunct2, unfolded ev] .
  show "\<forall>r\<in>set (numbered 0 (bc_contexts cmd)). find_context c (snd r) db \<noteq> None"
    using e3 [THEN conjunct2, unfolded ct] .
qed

lemma next_proposal_effect:
  assumes "next_proposal sha ids org_pid c state db = Inr ((p, n), db')"
    and "unique_keys prop_id (proposals db)"
  shows "\<exists>ps. db' = db\<lparr>proposals := ps\<rparr> \<and> unique_keys prop_id ps" (is ?root)
    and "find_proposal c db' = Some p" and "row_get prop_id (prop_id p) (proposals db') = Some p"
    and "prop_organization_id p = cs_organization_id c" and "prop_case_id p = cs_id c"
    and "prop_current_version p = n"
proof -
  have "?root \<and> find_proposal c db' = Some p \<and> row_get prop_id (prop_id p) (proposals db') = Some p
      \<and> prop_organization_id p = cs_organization_id c \<and> prop_case_id p = cs_id c \<and> prop_current_version p = n"
  proof (cases "find_proposal c db")
    case None
    then have p: "p = new_proposal sha ids org_pid c state" "n = 1" and ins: "insert_proposal p db = Inr db'"
      using assms(1) by (auto simp: next_proposal_def Let_def run_simps)
    have db': "db' = db\<lparr>proposals := proposals db @ [p]\<rparr>" and key: "row_get prop_id (prop_id p) (proposals db) = None"
      using ins by (auto simp: insert_proposal_def run_simps)
    have "unique_keys prop_id (proposals db @ [p])" using assms(2) key by (simp add: unique_keys_append)
    moreover have "find_proposal c db' = Some p"
      using None by (simp add: find_proposal_def find_None_iff db' p find_skip) (simp add: new_proposal_def)
    ultimately show ?thesis using key by (auto simp: db' row_get_append p new_proposal_def)
  next
    case (Some q)
    then have p: "p = advanced_proposal (bi_now ids) n state q" and db': "db' = put_proposal p db"
      using assms(1) by (auto simp: next_proposal_def Let_def)
    have q: "q \<in> set (proposals db)" "prop_organization_id q = cs_organization_id c" "prop_case_id q = cs_id c"
      using find_SomeD [OF Some [unfolded find_proposal_def]] by auto
    have same: "prop_id p = prop_id q" "prop_organization_id p = cs_organization_id c" "prop_case_id p = cs_id c"
        "prop_current_version p = n" using q by (simp_all add: p advanced_proposal_def)
    have "find_proposal c db' = Some p"
      using find_row_put_hit [OF assms(2) Some [unfolded find_proposal_def] same(1)] same
      by (simp add: find_proposal_def db' put_proposal_def)
    moreover have "row_get prop_id (prop_id p) (proposals db') = Some p"
      using row_get_unique [OF assms(2) q(1)] same(1) by (simp add: db' put_proposal_def row_get_put)
    ultimately show ?thesis using same assms(2) by (auto simp: db' put_proposal_def)
  qed
  then show ?root "find_proposal c db' = Some p" "row_get prop_id (prop_id p) (proposals db') = Some p"
    "prop_organization_id p = cs_organization_id c" "prop_case_id p = cs_id c" "prop_current_version p = n"
    by blast+
qed

section \<open>Reading back what was written\<close>

lemma new_proposal_version_sel [simp]:
  "pv_id (new_proposal_version sha ids c p n cmd) = bi_version ids"
  "pv_organization_id (new_proposal_version sha ids c p n cmd) = cs_organization_id c"
  "pv_case_id (new_proposal_version sha ids c p n cmd) = cs_id c"
  "pv_proposal_id (new_proposal_version sha ids c p n cmd) = prop_id p"
  "pv_analysis_run_id (new_proposal_version sha ids c p n cmd) = bi_run ids"
  "pv_version (new_proposal_version sha ids c p n cmd) = n"
  by (simp_all add: new_proposal_version_def Let_def)

lemma version_record_sel [simp]:
  "pv_evidence_ids (version_record v e x) = e" "pv_context_snapshot_ids (version_record v e x) = x"
  "pv_version (version_record v e x) = pv_version v"
  by (simp_all add: version_record_def proposal_version.defs proposal_version_record.defs)

lemma new_run_sel [simp]:
  "ar_id (new_run sha ids c actor cmd) = bi_run ids"
  "ar_organization_id (new_run sha ids c actor cmd) = cs_organization_id c"
  "ar_case_id (new_run sha ids c actor cmd) = cs_id c"
  "ar_input_fingerprint (new_run sha ids c actor cmd) = bc_input_fingerprint cmd"
  by (simp_all add: new_run_def)

lemma snd_numbered [simp]: "map snd (numbered k xs) = xs"
  by (simp add: numbered_def)

lemma map_numbered: "map (\<lambda>r. f (snd r)) (numbered k xs) = map f xs"
  using snd_numbered [of k xs] map_map [of f snd "numbered k xs"] by (simp add: comp_def)

lemma evidence_binding_for_sel [simp]:
  "peb_organization_id (evidence_binding_for ids c p db r) = cs_organization_id c"
  "peb_case_id (evidence_binding_for ids c p db r) = cs_id c"
  "peb_proposal_version_id (evidence_binding_for ids c p db r) = bi_version ids"
  "peb_evidence_id (evidence_binding_for ids c p db r) = cpe_id (the (find_evidence c (snd r) db))"
  by (simp_all add: evidence_binding_for_def split: prod.split)

lemma context_binding_for_sel [simp]:
  "pcb_organization_id (context_binding_for ids c p db r) = cs_organization_id c"
  "pcb_case_id (context_binding_for ids c p db r) = cs_id c"
  "pcb_proposal_version_id (context_binding_for ids c p db r) = bi_version ids"
  "pcb_context_id (context_binding_for ids c p db r) = bo_id (the (find_context c (snd r) db))"
  by (simp_all add: context_binding_for_def split: prod.split)

lemma evidence_ids_written:
  assumes "unique_keys cpe_id (policy_evidence_rows db)" and "policy_evidence_rows db' = policy_evidence_rows db"
    and "evidence_bindings db' = old @ map (evidence_binding_for ids c p db) (numbered 0 refs)"
    and found: "\<forall>r\<in>set (numbered 0 refs). find_evidence c (snd r) db \<noteq> None"
    and "\<forall>b\<in>set old. peb_proposal_version_id b \<noteq> bi_version ids"
    and "prop_organization_id p = cs_organization_id c" "prop_case_id p = cs_id c" "pv_id v = bi_version ids"
  shows "brief_evidence_ids p v db' = sort (map fst refs)"
proof -
  let ?row = "\<lambda>r. the (find_evidence c (snd r) db)"
  have row: "?row r \<in> set (policy_evidence_rows db) \<and> cpe_organization_id (?row r) = cs_organization_id c
      \<and> cpe_case_id (?row r) = cs_id c \<and> cpe_public_id (?row r) = fst (snd r)"
    if r: "r \<in> set (numbered 0 refs)" for r
  proof -
    obtain e where e: "find_evidence c (snd r) db = Some e" using found r by blast
    show ?thesis using find_SomeD [OF e [unfolded find_evidence_def]] by (simp add: e)
  qed
  have "brief_evidence_ids p v db' = sort (map (cpe_public_id \<circ> ?row) (numbered 0 refs))"
    unfolding brief_evidence_ids_def assms(2,3)
    by (rule sort_join_references [where key = cpe_id and old = old and g = ?row
          and h = "evidence_binding_for ids c p db", OF assms(1)]) (use assms(5-8) row in auto)
  also have "map (cpe_public_id \<circ> ?row) (numbered 0 refs) = map (\<lambda>r. fst (snd r)) (numbered 0 refs)"
    using row by simp
  finally show ?thesis by (simp add: map_numbered)
qed

lemma context_ids_written:
  assumes "unique_keys bo_id (business_objects db)" and "business_objects db' = business_objects db"
    and "context_bindings db' = old @ map (context_binding_for ids c p db) (numbered 0 refs)"
    and found: "\<forall>r\<in>set (numbered 0 refs). find_context c (snd r) db \<noteq> None"
    and "\<forall>b\<in>set old. pcb_proposal_version_id b \<noteq> bi_version ids"
    and "prop_organization_id p = cs_organization_id c" "prop_case_id p = cs_id c" "pv_id v = bi_version ids"
  shows "brief_context_ids p v db' = sort (map cref_public_id refs)"
proof -
  let ?row = "\<lambda>r. the (find_context c (snd r) db)"
  have row: "?row r \<in> set (business_objects db) \<and> bo_organization_id (?row r) = cs_organization_id c
      \<and> bo_case_id (?row r) = cs_id c \<and> bo_public_id (?row r) = cref_public_id (snd r)"
    if r: "r \<in> set (numbered 0 refs)" for r
  proof -
    obtain e where e: "find_context c (snd r) db = Some e" using found r by blast
    show ?thesis using find_SomeD [OF e [unfolded find_context_def]] by (simp add: e)
  qed
  have "brief_context_ids p v db' = sort (map (bo_public_id \<circ> ?row) (numbered 0 refs))"
    unfolding brief_context_ids_def assms(2,3)
    by (rule sort_join_references [where key = bo_id and old = old and g = ?row
          and h = "context_binding_for ids c p db", OF assms(1)]) (use assms(5-8) row in auto)
  also have "map (bo_public_id \<circ> ?row) (numbered 0 refs) = map (\<lambda>r. cref_public_id (snd r)) (numbered 0 refs)"
    using row by simp
  finally show ?thesis by (simp add: map_numbered)
qed

lemma brief_actions_written:
  assumes "proposed_actions db' = old @ map (new_proposed_action sha ids c p n) (numbered 1 drafts)"
    and "\<forall>a\<in>set old. pa_proposal_version_id a \<noteq> bi_version ids"
    and "prop_organization_id p = cs_organization_id c" "prop_case_id p = cs_id c" "pv_id v = bi_version ids"
  shows "mset (map action_draft_of (brief_actions p v db')) = mset drafts"
proof -
  have "filter (\<lambda>a. pa_organization_id a = prop_organization_id p \<and> pa_case_id a = prop_case_id p
      \<and> pa_proposal_version_id a = pv_id v) (proposed_actions db')
    = map (new_proposed_action sha ids c p n) (numbered 1 drafts)"
    using assms by (auto simp: filter_empty_conv filter_id_conv new_proposed_action_def)
  moreover have "action_draft_of (new_proposed_action sha ids c p n r) = snd r" for r
    by (simp add: action_draft_of_def new_proposed_action_def split: prod.split)
  ultimately show ?thesis
    by (simp add: brief_actions_def mset_map comp_def del: map_map) (simp add: image_mset.compositionality comp_def flip: mset_map)
qed

lemma brief_checkpoints_written:
  assumes "checkpoints db' = old @ map (new_checkpoint sha ids c run) (numbered 0 drafts)"
    and "\<forall>k\<in>set old. ck_analysis_run_id k \<noteq> ar_id run"
    and "prop_organization_id p = cs_organization_id c" "prop_case_id p = cs_id c"
  shows "map checkpoint_draft_of (brief_checkpoints p run db') = sort_key cd_sequence drafts"
proof -
  have "filter (\<lambda>k. ck_organization_id k = prop_organization_id p \<and> ck_case_id k = prop_case_id p
      \<and> ck_analysis_run_id k = ar_id run) (checkpoints db')
    = map (new_checkpoint sha ids c run) (numbered 0 drafts)"
    using assms by (auto simp: filter_empty_conv filter_id_conv new_checkpoint_def)
  moreover have "checkpoint_draft_of (new_checkpoint sha ids c run r) = snd r" for r
    by (simp add: checkpoint_draft_of_def new_checkpoint_def split: prod.split)
  moreover have "sort_key ck_sequence xs = sort_key (\<lambda>k. cd_sequence (checkpoint_draft_of k)) xs" for xs
    by (simp add: checkpoint_draft_of_def)
  ultimately show ?thesis
    by (simp add: brief_checkpoints_def map_sort_key comp_def)
qed

text \<open>The tables after a brief is written: \<open>p\<close> is its root, \<open>n\<close> its version number.\<close>

lemma create_brief_effect:
  assumes "create_brief sha ids org_pid c actor actor_type cmd corr db = Inr (b, db')"
    and "unique_keys prop_id (proposals db)"
  obtains p n where
    "find_proposal c db' = Some p" "row_get prop_id (prop_id p) (proposals db') = Some p"
    "prop_organization_id p = cs_organization_id c" "prop_case_id p = cs_id c" "prop_current_version p = n"
    "unique_keys prop_id (proposals db')" "load_brief p n db' = Inr b"
    "analysis_runs db' = analysis_runs db @ [new_run sha ids c actor cmd]"
    "row_get ar_id (bi_run ids) (analysis_runs db) = None"
    "proposal_versions db' = proposal_versions db @ [new_proposal_version sha ids c p n cmd]"
    "row_get pv_id (bi_version ids) (proposal_versions db) = None"
    "\<forall>x\<in>set (proposal_versions db). \<not> proposal_version_clash (new_proposal_version sha ids c p n cmd) x"
    "proposal_response_drafts db' = proposal_response_drafts db
        @ [new_proposal_draft sha ids c p n (da_response_draft (bc_analysis cmd))]"
    "\<forall>x\<in>set (proposal_response_drafts db).
      \<not> proposal_draft_clash (new_proposal_draft sha ids c p n (da_response_draft (bc_analysis cmd))) x"
    "evidence_bindings db' = evidence_bindings db
        @ map (evidence_binding_for ids c p db) (numbered 0 (bc_evidence cmd))"
    "\<forall>r\<in>set (numbered 0 (bc_evidence cmd)). find_evidence c (snd r) db \<noteq> None"
    "context_bindings db' = context_bindings db
        @ map (context_binding_for ids c p db) (numbered 0 (bc_contexts cmd))"
    "\<forall>r\<in>set (numbered 0 (bc_contexts cmd)). find_context c (snd r) db \<noteq> None"
    "proposed_actions db' = proposed_actions db
        @ map (new_proposed_action sha ids c p n) (numbered 1 (da_proposed_actions (bc_analysis cmd)))"
    "checkpoints db' = checkpoints db @ map (new_checkpoint sha ids c (new_run sha ids c actor cmd))
        (numbered 0 (da_checkpoints (bc_analysis cmd)))"
    "policy_evidence_rows db' = policy_evidence_rows db" "business_objects db' = business_objects db"
    "organizations db' = organizations db" "cases db' = cases db"
proof -
  let ?run = "new_run sha ids c actor cmd"
  obtain db1 p n db2 db3 where
    s1: "insert_analysis_run ?run db = Inr db1" and
    s2: "next_proposal sha ids org_pid c (da_state (bc_analysis cmd)) db1 = Inr ((p, n), db2)" and
    s3: "write_parts sha ids c p n ?run cmd db2 = Inr db3" and
    s4: "insert_audit (brief_audit ids c p n ?run actor actor_type cmd corr) db3 = Inr db'" and
    s5: "load_brief p n db' = Inr b"
    using assms(1) by (auto simp: create_brief_def Let_def run_simps)
  have e1: "db1 = db\<lparr>analysis_runs := analysis_runs db @ [?run]\<rparr>"
    and fresh: "row_get ar_id (ar_id ?run) (analysis_runs db) = None"
    using s1 by (auto simp: insert_analysis_run_def run_simps)
  have "unique_keys prop_id (proposals db1)" using assms(2) by (simp add: e1)
  note root = next_proposal_effect [OF s2 this]
  then obtain ps where e2: "db2 = db1\<lparr>proposals := ps\<rparr>" and ps: "unique_keys prop_id ps" by blast
  note parts = write_parts_effect [OF s3]
  obtain es where e4: "db' = db3\<lparr>audit_events := es\<rparr>" using s4 by (auto simp: insert_audit_def run_simps)
  have f: "find_evidence c ref db2 = find_evidence c ref db" "find_context c ref' db2 = find_context c ref' db" for ref ref'
    by (simp_all add: e1 e2 find_evidence_def find_context_def)
  have b: "evidence_binding_for ids c p db2 = evidence_binding_for ids c p db"
      "context_binding_for ids c p db2 = context_binding_for ids c p db"
    by (simp_all add: evidence_binding_for_def context_binding_for_def f)
  note tables = parts(1) [unfolded b]
  show ?thesis
  proof (rule that)
    show "find_proposal c db' = Some p" using root(2) by (simp add: e4 tables find_proposal_def)
    show "row_get prop_id (prop_id p) (proposals db') = Some p" using root(3) by (simp add: e4 tables)
    show "unique_keys prop_id (proposals db')" using ps by (simp add: e4 tables e2)
    show "\<forall>r\<in>set (numbered 0 (bc_evidence cmd)). find_evidence c (snd r) db \<noteq> None"
      using parts(5) [unfolded f] .
    show "\<forall>r\<in>set (numbered 0 (bc_contexts cmd)). find_context c (snd r) db \<noteq> None"
      using parts(6) [unfolded f] .
    show "load_brief p n db' = Inr b" by (rule s5)
    show "row_get ar_id (bi_run ids) (analysis_runs db) = None" using fresh by simp
  qed (use root(4-6) parts(2-4) in \<open>simp_all add: e4 tables e2 e1\<close>)
qed

lemma written_version_found:
  assumes "proposal_versions db' = proposal_versions db @ [new_proposal_version sha ids c p n cmd]"
    and "\<forall>x\<in>set (proposal_versions db). \<not> proposal_version_clash (new_proposal_version sha ids c p n cmd) x"
    and "prop_organization_id p = cs_organization_id c" "prop_case_id p = cs_id c"
  shows "find_version p n db' = Some (new_proposal_version sha ids c p n cmd)"
    and "find (\<lambda>v. pv_organization_id v = cs_organization_id c \<and> pv_case_id v = cs_id c
           \<and> pv_analysis_run_id v = bi_run ids) (proposal_versions db')
         = Some (new_proposal_version sha ids c p n cmd)"
proof -
  have "\<not> (pv_organization_id v = cs_organization_id c \<and> pv_case_id v = cs_id c \<and> pv_proposal_id v = prop_id p
      \<and> pv_version v = n)" "pv_analysis_run_id v \<noteq> bi_run ids" if "v \<in> set (proposal_versions db)" for v
    using bspec [OF assms(2) that] by (auto simp: proposal_version_clash_def)
  then show "find_version p n db' = Some (new_proposal_version sha ids c p n cmd)"
    and "find (\<lambda>v. pv_organization_id v = cs_organization_id c \<and> pv_case_id v = cs_id c
           \<and> pv_analysis_run_id v = bi_run ids) (proposal_versions db')
         = Some (new_proposal_version sha ids c p n cmd)"
    by (simp_all add: find_version_def assms find_skip)
qed

lemma written_run_found:
  assumes "analysis_runs db' = analysis_runs db @ [new_run sha ids c actor cmd]"
    and "row_get ar_id (bi_run ids) (analysis_runs db) = None"
  shows "version_run (new_proposal_version sha ids c p n cmd) db' = Some (new_run sha ids c actor cmd)"
proof -
  have "ar_id r \<noteq> bi_run ids" if "r \<in> set (analysis_runs db)" for r using assms(2) that by (metis row_get_None imageI)
  then show ?thesis by (simp add: version_run_def assms(1) find_skip)
qed

lemma written_draft_found:
  assumes "proposal_response_drafts db' = proposal_response_drafts db @ [new_proposal_draft sha ids c p n r]"
    and "\<forall>x\<in>set (proposal_response_drafts db). \<not> proposal_draft_clash (new_proposal_draft sha ids c p n r) x"
  shows "version_draft (new_proposal_version sha ids c p n cmd) db' = Some (new_proposal_draft sha ids c p n r)"
proof -
  have "\<not> (prd_organization_id d = cs_organization_id c \<and> prd_case_id d = cs_id c
      \<and> prd_proposal_version_id d = bi_version ids)" if "d \<in> set (proposal_response_drafts db)" for d
    using bspec [OF assms(2) that] by (auto simp: proposal_draft_clash_def new_proposal_draft_def)
  then show ?thesis by (simp add: version_draft_def assms(1) find_skip) (simp add: new_proposal_draft_def)
qed

lemma brief_store_kept:
  assumes "create_brief sha ids org_pid c actor actor_type cmd corr db = Inr (b, db')" and "brief_store_ok db"
  shows "brief_store_ok db'"
proof -
  have u: "unique_keys prop_id (proposals db)" using assms(2) by (simp add: brief_store_ok_def)
  show ?thesis
    by (rule create_brief_effect [OF assms(1) u])
      (use assms(2) in \<open>auto simp: brief_store_ok_def list_all_iff new_proposed_action_def new_checkpoint_def
        unique_keys_append\<close>)
qed

lemma scoped_case_cong:
  "organizations db' = organizations db \<Longrightarrow> cases db' = cases db
   \<Longrightarrow> scoped_case org_pid case_pid db' = scoped_case org_pid case_pid db"
  by (simp add: scoped_case_def cong: option.case_cong)

text \<open>A brief just written is the assembly of its own rows.\<close>

lemma written_brief_assembled:
  assumes run: "create_brief sha ids org_pid c actor actor_type cmd corr db = Inr (b, db')"
    and ok: "brief_store_ok db"
    and new: "\<forall>r\<in>set (analysis_runs db). \<not> (ar_organization_id r = cs_organization_id c \<and> ar_case_id r = cs_id c
      \<and> ar_input_fingerprint r = bc_input_fingerprint cmd)"
  obtains p n where "find_proposal c db' = Some p" "prop_current_version p = n"
    "b = assemble_brief p (new_proposal_version sha ids c p n cmd) (new_run sha ids c actor cmd)
           (new_proposal_draft sha ids c p n (da_response_draft (bc_analysis cmd))) db'"
    "load_brief p n db' = Inr b" "find_version p n db' = Some (new_proposal_version sha ids c p n cmd)"
    "load_by_input_fingerprint c (bc_input_fingerprint cmd) db' = Inr (Some b)"
    "mset (map action_draft_of (br_proposed_actions b)) = mset (da_proposed_actions (bc_analysis cmd))"
    "map checkpoint_draft_of (br_checkpoints b) = sort_key cd_sequence (da_checkpoints (bc_analysis cmd))"
    "pv_evidence_ids (br_version b) = sort (map fst (bc_evidence cmd))"
    "pv_context_snapshot_ids (br_version b) = sort (map cref_public_id (bc_contexts cmd))"
    "organizations db' = organizations db" "cases db' = cases db"
    "prop_organization_id p = cs_organization_id c" "prop_case_id p = cs_id c"
proof (rule create_brief_effect [OF run])
  show "unique_keys prop_id (proposals db)" using ok by (simp add: brief_store_ok_def)
next
  fix p n
  let ?v = "new_proposal_version sha ids c p n cmd" and ?run = "new_run sha ids c actor cmd"
    and ?a = "bc_analysis cmd"
  let ?d = "new_proposal_draft sha ids c p n (da_response_draft ?a)"
  assume root: "find_proposal c db' = Some p" "row_get prop_id (prop_id p) (proposals db') = Some p"
    and own: "prop_organization_id p = cs_organization_id c" "prop_case_id p = cs_id c" and n: "prop_current_version p = n"
    and load: "load_brief p n db' = Inr b"
    and runs: "analysis_runs db' = analysis_runs db @ [?run]" "row_get ar_id (bi_run ids) (analysis_runs db) = None"
    and versions: "proposal_versions db' = proposal_versions db @ [?v]"
      "row_get pv_id (bi_version ids) (proposal_versions db) = None"
      "\<forall>x\<in>set (proposal_versions db). \<not> proposal_version_clash ?v x"
    and drafts: "proposal_response_drafts db' = proposal_response_drafts db @ [?d]"
      "\<forall>x\<in>set (proposal_response_drafts db). \<not> proposal_draft_clash ?d x"
    and evidence: "evidence_bindings db' = evidence_bindings db
        @ map (evidence_binding_for ids c p db) (numbered 0 (bc_evidence cmd))"
      "\<forall>r\<in>set (numbered 0 (bc_evidence cmd)). find_evidence c (snd r) db \<noteq> None"
      "policy_evidence_rows db' = policy_evidence_rows db"
    and contexts: "context_bindings db' = context_bindings db
        @ map (context_binding_for ids c p db) (numbered 0 (bc_contexts cmd))"
      "\<forall>r\<in>set (numbered 0 (bc_contexts cmd)). find_context c (snd r) db \<noteq> None"
      "business_objects db' = business_objects db"
    and acts: "proposed_actions db' = proposed_actions db
        @ map (new_proposed_action sha ids c p n) (numbered 1 (da_proposed_actions ?a))"
    and checks: "checkpoints db' = checkpoints db @ map (new_checkpoint sha ids c ?run) (numbered 0 (da_checkpoints ?a))"
    and frame: "organizations db' = organizations db" "cases db' = cases db"
  have free: "\<forall>b\<in>set (evidence_bindings db). peb_proposal_version_id b \<noteq> bi_version ids"
      "\<forall>b\<in>set (context_bindings db). pcb_proposal_version_id b \<noteq> bi_version ids"
      "\<forall>a\<in>set (proposed_actions db). pa_proposal_version_id a \<noteq> bi_version ids"
      "\<forall>k\<in>set (checkpoints db). ck_analysis_run_id k \<noteq> bi_run ids"
    using ok versions(2) runs(2) unfolding brief_store_ok_def list_all_iff row_get_None by metis+
  have u: "unique_keys cpe_id (policy_evidence_rows db)" "unique_keys bo_id (business_objects db)"
    using ok by (simp_all add: brief_store_ok_def)
  note found = written_version_found [OF versions(1,3) own] written_run_found [OF runs] written_draft_found [OF drafts]
  have b: "b = assemble_brief p ?v ?run ?d db'" using load by (simp add: load_brief_def found)
  have "find (\<lambda>r. ar_organization_id r = cs_organization_id c \<and> ar_case_id r = cs_id c
      \<and> ar_input_fingerprint r = bc_input_fingerprint cmd) (analysis_runs db') = Some ?run"
    using new by (simp add: runs(1) find_skip)
  then have fp: "load_by_input_fingerprint c (bc_input_fingerprint cmd) db' = Inr (Some b)"
    using load own by (simp add: load_by_input_fingerprint_def found root(2))
  show thesis
  proof (rule that [OF root(1) n b load found(1) fp])
    show "mset (map action_draft_of (br_proposed_actions b)) = mset (da_proposed_actions ?a)"
      using brief_actions_written [OF acts free(3) own] by (simp add: b assemble_brief_def)
    show "map checkpoint_draft_of (br_checkpoints b) = sort_key cd_sequence (da_checkpoints ?a)"
      using brief_checkpoints_written [OF checks _ own] free(4) by (simp add: b assemble_brief_def)
    show "pv_evidence_ids (br_version b) = sort (map fst (bc_evidence cmd))"
      using evidence_ids_written [OF u(1) evidence(3,1,2) free(1) own]
      by (simp add: b assemble_brief_def)
    show "pv_context_snapshot_ids (br_version b) = sort (map cref_public_id (bc_contexts cmd))"
      using context_ids_written [OF u(2) contexts(3,1,2) free(2) own]
      by (simp add: b assemble_brief_def)
  qed (use frame own in simp_all)
qed

section \<open>A stored brief\<close>

lemma stored_brief:
  assumes run: "create_or_get sha ids org_pid case_pid actor actor_type cmd corr db = Inr (b, db')"
    and new: "get_by_input_fingerprint org_pid case_pid (bc_input_fingerprint cmd) db = Inr None"
    and ok: "brief_store_ok db"
  shows "(\<exists>acts. mset acts = mset (da_proposed_actions (bc_analysis cmd))
      \<and> analysis_of_brief b = (bc_analysis cmd)\<lparr>da_proposed_actions := acts,
          da_checkpoints := sort_key cd_sequence (da_checkpoints (bc_analysis cmd))\<rparr>)
    \<and> pv_evidence_ids (br_version b) = sort (map fst (bc_evidence cmd))
    \<and> pv_context_snapshot_ids (br_version b) = sort (map cref_public_id (bc_contexts cmd))
    \<and> brief_get_latest org_pid case_pid db' = Inr (Some b)
    \<and> brief_get_version org_pid case_pid (pv_version (br_version b)) db' = Inr (Some b)
    \<and> get_by_input_fingerprint org_pid case_pid (bc_input_fingerprint cmd) db' = Inr (Some b)
    \<and> create_or_get sha ids2 org_pid case_pid actor2 actor_type2 cmd corr2 db' = Inr (b, db')
    \<and> brief_store_ok db'"
proof -
  obtain g c where sc: "scoped_case org_pid case_pid db = Some (g, c)"
    and version: "cs_version c = bc_expected_case_version cmd"
    using run by (auto simp: create_or_get_def run_simps)
  have none: "load_by_input_fingerprint c (bc_input_fingerprint cmd) db = Inr None"
    using new by (simp add: get_by_input_fingerprint_def sc)
  have create: "create_brief sha ids org_pid c actor actor_type cmd corr db = Inr (b, db')"
    using run by (simp add: create_or_get_def sc version none)
  have unseen: "\<forall>r\<in>set (analysis_runs db). \<not> (ar_organization_id r = cs_organization_id c \<and> ar_case_id r = cs_id c
      \<and> ar_input_fingerprint r = bc_input_fingerprint cmd)"
    using none by (auto simp: load_by_input_fingerprint_def find_None_iff run_simps split: option.splits if_splits)
  show ?thesis
  proof (rule written_brief_assembled [OF create ok unseen])
    fix p n
    assume p: "find_proposal c db' = Some p" "prop_current_version p = n"
      and b: "b = assemble_brief p (new_proposal_version sha ids c p n cmd) (new_run sha ids c actor cmd)
           (new_proposal_draft sha ids c p n (da_response_draft (bc_analysis cmd))) db'"
      and load: "load_brief p n db' = Inr b" "find_version p n db' = Some (new_proposal_version sha ids c p n cmd)"
        "load_by_input_fingerprint c (bc_input_fingerprint cmd) db' = Inr (Some b)"
      and view: "mset (map action_draft_of (br_proposed_actions b)) = mset (da_proposed_actions (bc_analysis cmd))"
        "map checkpoint_draft_of (br_checkpoints b) = sort_key cd_sequence (da_checkpoints (bc_analysis cmd))"
        "pv_evidence_ids (br_version b) = sort (map fst (bc_evidence cmd))"
        "pv_context_snapshot_ids (br_version b) = sort (map cref_public_id (bc_contexts cmd))"
      and frame: "organizations db' = organizations db" "cases db' = cases db"
      and own: "prop_organization_id p = cs_organization_id c" "prop_case_id p = cs_id c"
    note sc' = scoped_case_cong [OF frame, of org_pid case_pid, unfolded sc]
    have v: "pv_version (br_version b) = n" by (simp add: b assemble_brief_def)
    have "list_ex (\<lambda>v. pv_organization_id v = cs_organization_id c \<and> pv_case_id v = cs_id c
        \<and> pv_proposal_id v = prop_id p \<and> pv_version v = n) (proposal_versions db')"
      using find_SomeD [OF load(2) [unfolded find_version_def]] own unfolding list_ex_iff by (intro bexI [OF _ conjunct1]) auto
    then have "brief_get_version org_pid case_pid n db' = Inr (Some b)"
      by (simp add: brief_get_version_def sc' p load(1))
    moreover have "brief_get_latest org_pid case_pid db' = Inr (Some b)"
      using load(1) by (auto simp: brief_get_latest_def load_brief_def sc' p load(2) split: option.splits)
    moreover have "analysis_of_brief b = (bc_analysis cmd)\<lparr>da_proposed_actions := map action_draft_of (br_proposed_actions b),
          da_checkpoints := sort_key cd_sequence (da_checkpoints (bc_analysis cmd))\<rparr>"
      unfolding analysis_of_brief_def Let_def view(2)
      by (simp add: b assemble_brief_def version_record_def new_proposal_version_def new_run_def
          new_proposal_draft_def proposal_version.defs Let_def)
    then have "\<exists>acts. mset acts = mset (da_proposed_actions (bc_analysis cmd))
        \<and> analysis_of_brief b = (bc_analysis cmd)\<lparr>da_proposed_actions := acts,
          da_checkpoints := sort_key cd_sequence (da_checkpoints (bc_analysis cmd))\<rparr>"
      using view(1) by blast
    ultimately show ?thesis
      using view v load(3) version brief_store_kept [OF create ok]
      by (auto simp: get_by_input_fingerprint_def create_or_get_def sc')
  qed
qed

text \<open>C26. A decision brief is stored as it was made: when the writer stores a new brief, the brief it
  returns stands for the analysis it was given (the actions up to their order, the checkpoints by
  sequence), names exactly the evidence and the context records of the command, and reading the latest
  brief, its version, or the brief of the input fingerprint gives that same brief; writing the same command
  again, whatever keys and clock it draws, stores nothing and returns it too. The store keeps its unique
  keys and references.\<close>

theorem written_brief_faithful:
  assumes run: "create_or_get sha ids org_pid case_pid actor actor_type cmd corr db = Inr (b, db')"
    and new: "get_by_input_fingerprint org_pid case_pid (bc_input_fingerprint cmd) db = Inr None"
    and ok: "brief_store_ok db"
  shows "(\<exists>acts. mset acts = mset (da_proposed_actions (bc_analysis cmd))
      \<and> analysis_of_brief b = (bc_analysis cmd)\<lparr>da_proposed_actions := acts,
          da_checkpoints := sort_key cd_sequence (da_checkpoints (bc_analysis cmd))\<rparr>)
    \<and> pv_evidence_ids (br_version b) = sort (map fst (bc_evidence cmd))
    \<and> pv_context_snapshot_ids (br_version b) = sort (map cref_public_id (bc_contexts cmd))
    \<and> brief_get_latest org_pid case_pid db' = Inr (Some b)
    \<and> brief_get_version org_pid case_pid (pv_version (br_version b)) db' = Inr (Some b)
    \<and> get_by_input_fingerprint org_pid case_pid (bc_input_fingerprint cmd) db' = Inr (Some b)
    \<and> create_or_get sha ids2 org_pid case_pid actor2 actor_type2 cmd corr2 db' = Inr (b, db')
    \<and> brief_store_ok db'"
  by (rule stored_brief [OF assms])

section \<open>Generating a brief\<close>

definition brief_tables where
  "brief_tables db = (analysis_runs db, checkpoints db, proposals db, proposal_versions db,
     evidence_bindings db, context_bindings db, proposed_actions db, proposal_response_drafts db)"

lemma create_brief_frame:
  assumes "create_brief sha ids org_pid c actor actor_type cmd corr db = Inr (b, db')"
  shows "organizations db' = organizations db \<and> cases db' = cases db \<and> generations db' = generations db"
  using assms
  by (auto simp: create_brief_def Let_def run_simps next_proposal_def insert_analysis_run_def insert_proposal_def
      put_proposal_def insert_audit_def dest!: write_parts_effect(1) split: option.splits)

lemma create_or_get_frame:
  assumes "create_or_get sha ids org_pid case_pid actor actor_type cmd corr db = Inr (b, db')"
  shows "organizations db' = organizations db \<and> cases db' = cases db \<and> generations db' = generations db"
  using assms by (auto simp: create_or_get_def run_simps dest: create_brief_frame split: option.splits)

lemma generation_scope_cong:
  "organizations db' = organizations db \<Longrightarrow> cases db' = cases db
   \<Longrightarrow> generation_scope_ids org_pid case_pid db' = generation_scope_ids org_pid case_pid db"
  by (simp add: generation_scope_ids_def)

lemma settled_released:
  "filter (holds_lease o' c' l) (map (\<lambda>g. if holds_lease o' c' l g then completed_generation now run g else g) gs) = []"
  "filter (holds_lease o' c' l) (map (\<lambda>g. if holds_lease o' c' l g then failed_generation now code g else g) gs) = []"
  by (induction gs) (auto simp: holds_lease_def completed_generation_def failed_generation_def)

lemma generation_complete_effect:
  assumes "generation_complete now org_pid case_pid l run db = Inr (u, db')"
  obtains o' c' row where "generation_scope_ids org_pid case_pid db = Inr (o', c')"
    and "filter (holds_lease o' c' l) (generations db) = [row]"
    and "completed_generation now run row \<in> set (generations db')"
    and "filter (holds_lease o' c' l) (generations db') = []"
proof (cases "generation_scope_ids org_pid case_pid db")
  case (Inr oc)
  obtain o' c' where oc: "oc = (o', c')" by (cases oc)
  let ?P = "holds_lease o' c' l"
  have one: "length (filter ?P (generations db)) = 1" and db': "generations db'
      = map (\<lambda>g. if ?P g then completed_generation now run g else g) (generations db)"
    using assms by (auto simp: generation_complete_def Inr oc Let_def update_generations_def run_simps)
  obtain row where row: "filter ?P (generations db) = [row]" using one by (cases "filter ?P (generations db)") simp_all
  then have "row \<in> set (filter ?P (generations db))" by simp
  then have "row \<in> set (generations db)" "?P row" by simp_all
  then have "completed_generation now run row \<in> set (generations db')" unfolding db' set_map
    by (intro image_eqI [of _ _ row]) simp_all
  then show thesis using that Inr oc row settled_released(1) unfolding db' by blast
qed (use assms in \<open>simp add: generation_complete_def\<close>)

lemma persist_generation_effect:
  assumes "persist_generation sha rt ids actor case_id plan analysis corr db = Inr (b, db')"
  shows "is_current_for_case rt actor case_id (gp_evidence plan) (pe_check_now ids) db = Inr True"
    and "\<exists>g c. scoped_case (actor_organization_id actor) case_id db = Some (g, c)
      \<and> cs_version c = gp_expected_case_version plan"
    and "\<exists>o' c' row. generation_scope_ids (actor_organization_id actor) case_id db = Inr (o', c')
      \<and> filter (holds_lease o' c' (gp_lease plan)) (generations db) = [row]
      \<and> completed_generation (pe_complete_now ids) (ar_id (br_run b)) row \<in> set (generations db')
      \<and> filter (holds_lease o' c' (gp_lease plan)) (generations db') = []"
proof -
  let ?org = "actor_organization_id actor"
  obtain db1 where cur: "is_current_for_case rt actor case_id (gp_evidence plan) (pe_check_now ids) db = Inr True"
    and create: "create_or_get sha (pe_brief ids) ?org case_id (actor_id actor)
      (actor_kind_value (actor_kind actor)) (brief_command sha plan analysis) corr db = Inr (b, db1)"
    and complete: "generation_complete (pe_complete_now ids) ?org case_id (gp_lease plan) (ar_id (br_run b)) db1
      = Inr ((), db')"
    using assms by (auto simp: persist_generation_def valid_brief_create_def run_simps)
  show "is_current_for_case rt actor case_id (gp_evidence plan) (pe_check_now ids) db = Inr True" by (rule cur)
  show "\<exists>g c. scoped_case ?org case_id db = Some (g, c) \<and> cs_version c = gp_expected_case_version plan"
    using create by (auto simp: create_or_get_def brief_command_def run_simps)
  note same = create_or_get_frame [OF create]
  then have scope: "generation_scope_ids ?org case_id db1 = generation_scope_ids ?org case_id db"
    using generation_scope_cong by blast
  show "\<exists>o' c' row. generation_scope_ids ?org case_id db = Inr (o', c')
      \<and> filter (holds_lease o' c' (gp_lease plan)) (generations db) = [row]
      \<and> completed_generation (pe_complete_now ids) (ar_id (br_run b)) row \<in> set (generations db')
      \<and> filter (holds_lease o' c' (gp_lease plan)) (generations db') = []"
    by (rule generation_complete_effect [OF complete]) (use scope same in auto)
qed

lemma release_generation_effect:
  assumes "release_generation now actor case_id plan code db = Inr (f, db')"
    and "generation_scope_ids (actor_organization_id actor) case_id db = Inr (o', c')"
  shows "brief_tables db' = brief_tables db \<and> filter (holds_lease o' c' (gp_lease plan)) (generations db') = []"
proof -
  have "db' = db\<lparr>generations := map (\<lambda>g. if holds_lease o' c' (gp_lease plan) g
      then failed_generation now code g else g) (generations db)\<rparr>"
    using assms by (simp add: release_generation_def generation_fail_def Let_def update_generations_def)
  then show ?thesis by (simp add: brief_tables_def settled_released(2) del: filter_map map_map)
qed

lemma reserve_generation_plan:
  assumes "reserve_generation ids org_pid case_pid fp plan db = Inr (Plan plan', db')"
  shows "\<exists>l. plan' = plan\<lparr>gp_lease := l\<rparr>"
proof -
  obtain r db1 where r: "generation_acquire ids org_pid case_pid fp decision_generation_lease_seconds
      max_decision_generation_attempts db = Inr (r, db1)"
    using assms by (auto simp: reserve_generation_def run_simps)
  show ?thesis
  proof (cases r)
    case (Completed fp' run)
    then show ?thesis using assms r
      by (cases "get_by_input_fingerprint org_pid case_pid fp' db1")
        (auto simp: reserve_generation_def split: option.splits if_splits)
  qed (use assms r in \<open>auto simp: reserve_generation_def\<close>)
qed

lemma prepared_plan_version:
  assumes "prepare_generation sha rt en ids actor case_id expected corr db = Inr (Plan plan, db')"
  shows "gp_expected_case_version plan = expected"
proof -
  obtain ws ev db1 choice where "(case choice of Inl b \<Rightarrow> Inr (Ready b, db1)
     | Inr fingerprint \<Rightarrow>
         reserve_generation (pi_acquire ids) (actor_organization_id actor) case_id fingerprint
           \<lparr>gp_workspace = ws, gp_evidence = ev, gp_expected_case_version = expected,
            gp_input_fingerprint = fingerprint, gp_context_fingerprint = combined_context_fingerprint sha ws,
            gp_evidence_fingerprint = combined_evidence_fingerprint sha ev, gp_lease = no_lease\<rparr> db1)
     = Inr (Plan plan, db')"
    using assms by (auto simp: prepare_generation_def run_simps simp del: choose_input.simps)
  then show ?thesis by (cases choice) (auto dest!: reserve_generation_plan)
qed

text \<open>What the persisting transaction leaves in the brief tables.\<close>

lemma load_brief_generations: "load_brief p n (db\<lparr>generations := gs\<rparr>) = load_brief p n db"
  by (simp add: load_brief_def find_version_def version_run_def version_draft_def assemble_brief_def
      brief_evidence_ids_def brief_context_ids_def brief_actions_def brief_checkpoints_def
      cong: option.case_cong)

lemma fingerprint_cong:
  "get_by_input_fingerprint org_pid case_pid fp (db\<lparr>generations := gs\<rparr>) = get_by_input_fingerprint org_pid case_pid fp db"
  "brief_get_latest org_pid case_pid (db\<lparr>generations := gs\<rparr>) = brief_get_latest org_pid case_pid db"
  "brief_tables (db\<lparr>generations := gs\<rparr>) = brief_tables db"
proof -
  have sc: "scoped_case org_pid case_pid (db\<lparr>generations := gs\<rparr>) = scoped_case org_pid case_pid db"
    by (rule scoped_case_cong) simp_all
  have tables: "analysis_runs (db\<lparr>generations := gs\<rparr>) = analysis_runs db"
    "proposal_versions (db\<lparr>generations := gs\<rparr>) = proposal_versions db"
    "proposals (db\<lparr>generations := gs\<rparr>) = proposals db" by simp_all
  show "get_by_input_fingerprint org_pid case_pid fp (db\<lparr>generations := gs\<rparr>) = get_by_input_fingerprint org_pid case_pid fp db"
    unfolding get_by_input_fingerprint_def sc load_by_input_fingerprint_def load_brief_generations tables ..
  show "brief_get_latest org_pid case_pid (db\<lparr>generations := gs\<rparr>) = brief_get_latest org_pid case_pid db"
    unfolding brief_get_latest_def sc find_proposal_def find_version_def version_run_def version_draft_def
      assemble_brief_def brief_evidence_ids_def brief_context_ids_def brief_actions_def brief_checkpoints_def
    by (simp cong: option.case_cong)
qed (simp add: brief_tables_def)

lemma generation_complete_only:
  assumes "generation_complete now org_pid case_pid l run db = Inr (u, db')"
  shows "\<exists>gs. db' = db\<lparr>generations := gs\<rparr>"
  using assms by (auto simp: generation_complete_def Let_def update_generations_def run_simps split: prod.splits)

lemma persist_generation_stored:
  assumes run: "persist_generation sha rt ids actor case_id plan analysis corr db = Inr (b, db')"
    and ok: "brief_store_ok db"
  shows "get_by_input_fingerprint (actor_organization_id actor) case_id (gp_input_fingerprint plan) db' = Inr (Some b)"
    and "case get_by_input_fingerprint (actor_organization_id actor) case_id (gp_input_fingerprint plan) db of
        Inl e \<Rightarrow> False
      | Inr (Some stored) \<Rightarrow> b = stored \<and> brief_tables db' = brief_tables db
      | Inr None \<Rightarrow> brief_get_latest (actor_organization_id actor) case_id db' = Inr (Some b)
          \<and> (\<exists>acts. mset acts = mset (da_proposed_actions analysis)
              \<and> analysis_of_brief b = analysis\<lparr>da_proposed_actions := acts,
                  da_checkpoints := sort_key cd_sequence (da_checkpoints analysis)\<rparr>)"
proof -
  let ?org = "actor_organization_id actor" and ?fp = "gp_input_fingerprint plan"
  let ?cmd = "brief_command sha plan analysis"
  obtain db1 where
    create: "create_or_get sha (pe_brief ids) ?org case_id (actor_id actor)
      (actor_kind_value (actor_kind actor)) ?cmd corr db = Inr (b, db1)"
    and complete: "generation_complete (pe_complete_now ids) ?org case_id (gp_lease plan) (ar_id (br_run b)) db1
      = Inr ((), db')"
    using run by (auto simp: persist_generation_def valid_brief_create_def run_simps)
  obtain gs where db': "db' = db1\<lparr>generations := gs\<rparr>" using generation_complete_only [OF complete] by blast
  have fp: "bc_input_fingerprint ?cmd = ?fp" and an: "bc_analysis ?cmd = analysis" by (simp_all add: brief_command_def)
  obtain g c where sc: "scoped_case ?org case_id db = Some (g, c)"
    using create by (auto simp: create_or_get_def run_simps)
  have get: "get_by_input_fingerprint ?org case_id ?fp db = load_by_input_fingerprint c ?fp db"
    by (simp add: get_by_input_fingerprint_def sc)
  obtain found where found: "load_by_input_fingerprint c ?fp db = Inr found"
    using create by (auto simp: create_or_get_def run_simps sc fp)
  have "get_by_input_fingerprint ?org case_id ?fp db1 = Inr (Some b)
    \<and> (case found of
        Some stored \<Rightarrow> b = stored \<and> brief_tables db1 = brief_tables db
      | None \<Rightarrow> brief_get_latest ?org case_id db1 = Inr (Some b)
          \<and> (\<exists>acts. mset acts = mset (da_proposed_actions analysis)
              \<and> analysis_of_brief b = analysis\<lparr>da_proposed_actions := acts,
                  da_checkpoints := sort_key cd_sequence (da_checkpoints analysis)\<rparr>))"
  proof (cases found)
    case None
    then have "get_by_input_fingerprint ?org case_id (bc_input_fingerprint ?cmd) db = Inr None"
      using get found fp by simp
    from stored_brief [OF create this ok] show ?thesis using None fp an by simp
  next
    case (Some stored)
    then have "b = stored" "db1 = db"
      using create found by (auto simp: create_or_get_def run_simps sc fp)
    then show ?thesis using Some get found by simp
  qed
  then show "get_by_input_fingerprint ?org case_id ?fp db' = Inr (Some b)"
    and "case get_by_input_fingerprint ?org case_id ?fp db of
        Inl e \<Rightarrow> False
      | Inr (Some stored) \<Rightarrow> b = stored \<and> brief_tables db' = brief_tables db
      | Inr None \<Rightarrow> brief_get_latest ?org case_id db' = Inr (Some b)
          \<and> (\<exists>acts. mset acts = mset (da_proposed_actions analysis)
              \<and> analysis_of_brief b = analysis\<lparr>da_proposed_actions := acts,
                  da_checkpoints := sort_key cd_sequence (da_checkpoints analysis)\<rparr>)"
    using get found unfolding db' by (auto simp: fingerprint_cong split: option.splits)
qed

text \<open>C27. A generation that got its lease ends in one of two ways, whatever other sessions committed
  while the engine ran and before the lease was released. It returns a brief, and that brief is stored:
  reading the input fingerprint gives it back. When the fingerprint was new, it is the latest brief of
  the case and stands for the analysis the engine made of the planned workspace and evidence; when
  another session had stored a brief of the same fingerprint, that one is returned and no brief is
  added. At the time it was stored the case had the version and the policies gave the evidence the brief
  was made from, the lease was still held by exactly one row of the generation table, and that row is
  completed with the run of the brief. Or it fails: then no row of any brief was added or changed, and
  the lease is given back, so that it holds no row any more.\<close>

theorem generation_all_or_nothing:
  assumes "prepare_generation sha rt en pids actor case_id expected corr db = Inr (Plan plan, db1)"
    and "generate_decision_brief sha error_name rt en pids sids release_now actor case_id expected corr between
      later db = (r, db')"
    and "brief_store_ok (between db1)"
    and "generation_scope_ids (actor_organization_id actor) case_id (between db1) = Inr (o', c')"
    and "generation_scope_ids (actor_organization_id actor) case_id (later (between db1)) = Inr (o', c')"
  shows "case r of
      Inr b \<Rightarrow> get_by_input_fingerprint (actor_organization_id actor) case_id (gp_input_fingerprint plan) db'
            = Inr (Some b)
        \<and> (case get_by_input_fingerprint (actor_organization_id actor) case_id (gp_input_fingerprint plan)
              (between db1) of
            Inl e \<Rightarrow> False
          | Inr (Some stored) \<Rightarrow> b = stored \<and> brief_tables db' = brief_tables (between db1)
          | Inr None \<Rightarrow> brief_get_latest (actor_organization_id actor) case_id db' = Inr (Some b)
              \<and> (\<exists>analysis acts.
                  en_analyze en (gp_workspace plan) (gp_evidence plan) (gp_input_fingerprint plan) = Inr analysis
                  \<and> mset acts = mset (da_proposed_actions analysis)
                  \<and> analysis_of_brief b = analysis\<lparr>da_proposed_actions := acts,
                      da_checkpoints := sort_key cd_sequence (da_checkpoints analysis)\<rparr>))
        \<and> is_current_for_case rt actor case_id (gp_evidence plan) (pe_check_now sids) (between db1) = Inr True
        \<and> (\<exists>g c. scoped_case (actor_organization_id actor) case_id (between db1) = Some (g, c)
            \<and> cs_version c = expected)
        \<and> (\<exists>row. filter (holds_lease o' c' (gp_lease plan)) (generations (between db1)) = [row]
            \<and> completed_generation (pe_complete_now sids) (ar_id (br_run b)) row \<in> set (generations db')
            \<and> filter (holds_lease o' c' (gp_lease plan)) (generations db') = [])
    | Inl e \<Rightarrow> brief_tables db' = brief_tables (later (between db1))
        \<and> filter (holds_lease o' c' (gp_lease plan)) (generations db') = []"
proof -
  note plan = prepared_plan_version [OF assms(1)]
  show ?thesis
  proof (cases "bindE (en_analyze en (gp_workspace plan) (gp_evidence plan) (gp_input_fingerprint plan))
      (\<lambda>a. persist_generation sha rt sids actor case_id plan a corr (between db1))")
    case (Inl e)
    then obtain x db3 where rel: "release_generation release_now actor case_id plan (error_name e)
        (later (between db1)) = Inr (x, db3)"
      using assms(5) by (auto simp: release_generation_def generation_fail_def Let_def split_beta)
    then show ?thesis using release_generation_effect [OF rel assms(5)] assms(1,2) Inl
      by (auto simp: generate_decision_brief_def Let_def)
  next
    case (Inr br)
    obtain b db2 where br: "br = (b, db2)" by (cases br)
    then obtain a where an: "en_analyze en (gp_workspace plan) (gp_evidence plan) (gp_input_fingerprint plan) = Inr a"
      and run: "persist_generation sha rt sids actor case_id plan a corr (between db1) = Inr (b, db2)"
      using Inr by (auto simp: run_simps)
    note eff = persist_generation_effect [OF run]
    note st = persist_generation_stored [OF run assms(3)]
    have r: "r = Inr b" "db' = db2" using assms(1,2) Inr br by (auto simp: generate_decision_brief_def Let_def)
    have "case get_by_input_fingerprint (actor_organization_id actor) case_id (gp_input_fingerprint plan)
          (between db1) of
        Inl e \<Rightarrow> False
      | Inr (Some stored) \<Rightarrow> b = stored \<and> brief_tables db' = brief_tables (between db1)
      | Inr None \<Rightarrow> brief_get_latest (actor_organization_id actor) case_id db' = Inr (Some b)
          \<and> (\<exists>analysis acts.
              en_analyze en (gp_workspace plan) (gp_evidence plan) (gp_input_fingerprint plan) = Inr analysis
              \<and> mset acts = mset (da_proposed_actions analysis)
              \<and> analysis_of_brief b = analysis\<lparr>da_proposed_actions := acts,
                  da_checkpoints := sort_key cd_sequence (da_checkpoints analysis)\<rparr>)"
      using st(2) an r(2) by (auto split: sum.splits option.splits)
    then show ?thesis using st(1) eff assms(4) plan r by auto
  qed
qed

end
