(* ===== verification/Review_Service.thy ===== *)
theory Review_Service
  imports Review_Workflow Brief_Service Materialization
begin

text \<open>
  Reviews from the service's side: \<open>services/review_service.py\<close>, with the approval settings of
  \<open>persistence/settings_repository.py\<close>. A call is one transaction; the service is the one
  the routes build, with the materializer and the settings. The rendering of a brief to JSON
  values and the parsing of stored settings are pydantic's: they are the parameters \<open>dump\<close> and
  \<open>parse_limits\<close>. The paged list only forwards and is left out.
\<close>

section \<open>Fingerprints\<close>

record brief_dump =
  bd_version :: "proposal_version_record \<Rightarrow> json"
  bd_action :: "proposed_action \<Rightarrow> json"
  bd_draft :: "proposal_response_draft \<Rightarrow> json"

definition proposal_snapshot_fingerprint :: "(string \<Rightarrow> string) \<Rightarrow> brief_dump \<Rightarrow> decision_brief \<Rightarrow> string" where
  "proposal_snapshot_fingerprint sha dump b = hash_json sha
     (JObj [(''run_input_fingerprint'', JStr (ar_input_fingerprint (br_run b))),
            (''version'', bd_version dump (br_version b)),
            (''actions'', JList (map (bd_action dump) (br_proposed_actions b))),
            (''response_draft'', bd_draft dump (br_response_draft b))])"

definition review_snapshot_fingerprint ::
    "(string \<Rightarrow> string) \<Rightarrow> string \<Rightarrow> int \<Rightarrow> decision_brief \<Rightarrow> string \<Rightarrow> string \<Rightarrow> int \<Rightarrow> string" where
  "review_snapshot_fingerprint sha case_id case_version b proposal_fingerprint rule_id rule_ver = hash_json sha
     (JObj [(''case_id'', JStr case_id), (''case_version'', JInt case_version),
            (''proposal_id'', JStr (prop_public_id (br_proposal b))),
            (''proposal_version'', JInt (pv_version (br_version b))),
            (''proposal_fingerprint'', JStr proposal_fingerprint),
            (''context_fingerprint'', JStr (pv_context_fingerprint (br_version b))),
            (''evidence_fingerprint'', JStr (pv_evidence_fingerprint (br_version b))),
            (''risk_fingerprint'', JStr (pv_risk_fingerprint (br_version b))),
            (''risk_rule_version'', JStr (pv_risk_rule_version (br_version b))),
            (''approval_rule_id'', JStr rule_id), (''approval_rule_version'', JInt rule_ver)])"

section \<open>Approval settings\<close>

definition approval_values ::
    "(json \<Rightarrow> financial_limits option) \<Rightarrow> string \<Rightarrow> database \<Rightarrow> error + financial_limits \<times> int" where
  "approval_values parse_limits org_pid db =
     bindE (someE (organization_of org_pid db)
              (SettingsConflict ''The organization settings are unavailable.'')) (\<lambda>g.
     case find (\<lambda>s. st_organization_id s = org_id g \<and> st_section s = SET_APPROVALS) (settings db) of
       None \<Rightarrow> Inr (default_administrator_financial_limits, 1)
     | Some s \<Rightarrow>
         bindE (someE (parse_limits (st_configuration s))
                  (SettingsConflict ''The stored approvals settings are invalid.'')) (\<lambda>limits.
         Inr (limits, st_version s)))"

section \<open>The detail of a review\<close>

record review_detail =
  rvw_bundle :: review_bundle
  rvw_brief :: decision_brief
  rvw_business_contexts :: "business_object_snapshot list"
  rvw_evidence :: "evidence_bundle list"
  rvw_freshness :: review_freshness_record
  rvw_available_decisions :: "review_decision list"

record service_env =
  se_sha :: "string \<Rightarrow> string"
  se_dump :: brief_dump
  se_limits :: "json \<Rightarrow> financial_limits option"
  se_retrieval :: retrieval_setup
  se_now :: timestamp

definition base_freshness ::
    "service_env \<Rightarrow> string \<Rightarrow> review_bundle \<Rightarrow> decision_brief \<Rightarrow> business_object_snapshot list
     \<Rightarrow> evidence_bundle list \<Rightarrow> database \<Rightarrow> error + review_freshness_record" where
  "base_freshness env org_pid bundle b contexts evidence db =
     (if length contexts \<noteq> card (set (pv_context_snapshot_ids (br_version b)))
         \<or> length evidence \<noteq> card (set (pv_evidence_ids (br_version b)))
      then Inr (stale (se_now env) ''One or more reviewed source records are unavailable.'')
      else if proposal_snapshot_fingerprint (se_sha env) (se_dump env) b
                \<noteq> rs_proposal_fingerprint (rb_snapshot bundle)
      then Inr (stale (se_now env) ''The reviewed resolution no longer matches its snapshot.'')
      else review_freshness_at (se_sha env) (se_now env) org_pid (rv_public_id (rb_review bundle)) db)"

definition rule_freshness ::
    "service_env \<Rightarrow> review_bundle \<Rightarrow> int \<Rightarrow> review_freshness_record \<Rightarrow> review_freshness_record" where
  "rule_freshness env bundle current_rule f =
     (if fr_status f = RF_CURRENT \<and> \<not> terminal_review_status (rv_status (rb_review bundle))
         \<and> rs_approval_rule_id (rb_snapshot bundle) \<noteq> ''APR-LEGACY''
         \<and> rs_approval_rule_version (rb_snapshot bundle) \<noteq> current_rule
      then stale (se_now env) (''Approval rules changed after this review was submitted. ''
             @ ''Prepare a new resolution review.'')
      else f)"

definition review_detail_of ::
    "service_env \<Rightarrow> actor_context \<Rightarrow> review_bundle \<Rightarrow> database \<Rightarrow> error + review_detail" where
  "review_detail_of env actor bundle db =
     (let org_pid = actor_organization_id actor; case_pid = rb_case_public_id bundle;
          missing = ReviewNotFound ''The reviewed resolution snapshot is unavailable.''
      in
      bindE (brief_get_version org_pid case_pid (rs_proposal_version (rb_snapshot bundle)) db) (\<lambda>b0.
      bindE (get_workspace org_pid case_pid db) (\<lambda>w0.
      bindE (someE b0 missing) (\<lambda>b.
      bindE (someE w0 missing) (\<lambda>ws.
      let contexts = filter (\<lambda>o'. bo_public_id o' \<in> set (pv_context_snapshot_ids (br_version b)))
            (ws_business_contexts ws);
          evidence = filter (\<lambda>e. cpe_public_id (eb_evidence e) \<in> set (pv_evidence_ids (br_version b)))
            (list_evidence_for_case org_pid case_pid db)
      in
      bindE (base_freshness env org_pid bundle b contexts evidence db) (\<lambda>f0.
      bindE (approval_values (se_limits env) org_pid db) (\<lambda>(limits, current_rule).
      let f = rule_freshness env bundle current_rule f0 in
      Inr \<lparr>rvw_bundle = bundle, rvw_brief = b, rvw_business_contexts = contexts, rvw_evidence = evidence,
           rvw_freshness = f,
           rvw_available_decisions =
             (if fr_status f = RF_CURRENT \<and> \<not> terminal_review_status (rv_status (rb_review bundle))
                 \<and> can actor REVIEW_DECIDE
              then allowed_decisions b (actor_role actor) (rs_required_role (rb_snapshot bundle)) else [])\<rparr>)))))))"

definition require_current :: "review_detail \<Rightarrow> error + unit" where
  "require_current d =
     requireE (fr_status (rvw_freshness d) \<noteq> RF_STALE)
       (ReviewSnapshotStale (case fr_reason (rvw_freshness d) of
          Some reason \<Rightarrow> if reason = [] then ''The review snapshot is stale and cannot be decided.'' else reason
        | None \<Rightarrow> ''The review snapshot is stale and cannot be decided.''))"

section \<open>Submitting\<close>

definition fingerprint_ok :: "string \<Rightarrow> bool" where
  "fingerprint_ok s \<longleftrightarrow> len_ok 64 64 s"

definition valid_submission :: "review_submission \<Rightarrow> error + review_submission" where
  "valid_submission s =
     bindE (requireE (1 \<le> sub_expected_case_version s \<and> 1 \<le> sub_proposal_version s
               \<and> len_ok 1 2000 (sub_review_reason s)
               \<and> impact_ok (sub_impact_amount s) (sub_impact_currency s)
               \<and> fingerprint_ok (sub_proposal_fingerprint s) \<and> fingerprint_ok (sub_context_fingerprint s)
               \<and> fingerprint_ok (sub_evidence_fingerprint s) \<and> fingerprint_ok (sub_risk_fingerprint s)
               \<and> len_ok 1 100 (sub_risk_rule_version s) \<and> fingerprint_ok (sub_snapshot_fingerprint s))
              (ValueError ''ReviewSubmission'')) (\<lambda>_. Inr s)"

definition submission_of ::
    "service_env \<Rightarrow> string \<Rightarrow> int \<Rightarrow> int \<Rightarrow> decision_brief \<Rightarrow> financial_limits \<Rightarrow> int \<Rightarrow> review_submission" where
  "submission_of env case_id expected n b limits current_rule =
     (let rule = assess_review_rule b (Some limits) current_rule;
          fp = proposal_snapshot_fingerprint (se_sha env) (se_dump env) b
      in
      \<lparr>sub_expected_case_version = expected, sub_proposal_version = n,
       sub_review_reason = rule_explanation rule, sub_policy_state = review_policy_state_of b,
       sub_uncertainty = review_uncertainty_of b, sub_impact_amount = pv_impact_amount (br_version b),
       sub_impact_currency = pv_impact_currency (br_version b), sub_proposal_fingerprint = fp,
       sub_context_fingerprint = pv_context_fingerprint (br_version b),
       sub_evidence_fingerprint = pv_evidence_fingerprint (br_version b),
       sub_risk_fingerprint = pv_risk_fingerprint (br_version b),
       sub_risk_rule_version = pv_risk_rule_version (br_version b),
       sub_snapshot_fingerprint = review_snapshot_fingerprint (se_sha env) case_id (expected + 1) b fp
         (rule_public_id rule) (rule_version rule),
       sub_approval_rule = rule,
       sub_execution_eligible = (review_policy_state_of b = PS_SUPPORTED \<and> approval_is_safe b
         \<and> list_ex pa_review_required (br_proposed_actions b))\<rparr>)"

text \<open>The guards before the evidence is refreshed; what passes them are the workspace and the brief.\<close>

definition submission_guard ::
    "string \<Rightarrow> string \<Rightarrow> int \<Rightarrow> int \<Rightarrow> database \<Rightarrow> error + case_workspace \<times> decision_brief" where
  "submission_guard org_pid case_id n expected db =
     bindE (get_workspace org_pid case_id db) (\<lambda>w.
     bindE (someE w (ReviewNotFound ''The case was not found.'')) (\<lambda>ws.
     bindE (requireE (cs_version (ws_case ws) = expected)
              (CaseConcurrencyConflict expected (cs_version (ws_case ws)))) (\<lambda>_.
     bindE (requireE (cs_status (ws_case ws) \<noteq> CS_COMPLETED)
              (ReviewConflict ''A completed case cannot be submitted for review.'')) (\<lambda>_.
     bindE (requireE (cs_status (ws_case ws) \<in> {CS_INVESTIGATING, CS_IN_PROGRESS})
              (ReviewSubmissionNotAllowed
                 ''Move this case into investigation before submitting it for review.'')) (\<lambda>_.
     bindE (brief_get_version org_pid case_id n db) (\<lambda>b0.
     bindE (someE b0 (ReviewNotFound ''The proposal version was not found.'')) (\<lambda>b.
     bindE (requireE (prop_current_version (br_proposal b) = n)
              (ReviewSnapshotStale
                 ''A newer resolution exists. Submit the current resolution for review.'')) (\<lambda>_.
     bindE (requireE (ar_case_version (br_run b) = expected)
              (ReviewSnapshotStale
                 (''The case changed after this resolution was prepared. '' @ ''Revise the resolution first.''))) (\<lambda>_.
     bindE (require_review_submission b) (\<lambda>_.
     Inr (ws, b)))))))))))"

record submit_run =
  sr_read_now :: timestamp
  sr_read_now2 :: timestamp
  sr_expiry :: "uuid \<Rightarrow> uuid"
  sr_evidence_ids :: evidence_ids
  sr_as_of :: timestamp
  sr_submit_now :: timestamp
  sr_ids :: submit_ids

definition service_submit_review ::
    "service_env \<Rightarrow> submit_run \<Rightarrow> actor_context \<Rightarrow> string \<Rightarrow> int \<Rightarrow> int \<Rightarrow> string \<Rightarrow> database
     \<Rightarrow> error + review_detail \<times> database" where
  "service_submit_review env run actor case_id n expected correlation_id db =
     (let org_pid = actor_organization_id actor; sha = se_sha env in
      bindE (require_permission actor CASE_MANAGE) (\<lambda>_.
      bindE (require_permission actor REVIEW_READ) (\<lambda>_.
      bindE (review_get_for_proposal (sr_read_now run) (sr_read_now2 run) (sr_expiry run) org_pid case_id n db)
        (\<lambda>(existing, db1).
      case existing of
        Some bundle \<Rightarrow> bindE (review_detail_of env actor bundle db1) (\<lambda>d. Inr (d, db1))
      | None \<Rightarrow>
      bindE (submission_guard org_pid case_id n expected db1) (\<lambda>(ws, b).
      bindE (refresh_for_case (se_retrieval env) (sr_evidence_ids run) actor case_id correlation_id
               (sr_as_of run) db1) (\<lambda>(ev, db2).
      bindE (requireE (combined_context_fingerprint sha ws = pv_context_fingerprint (br_version b))
               (ReviewSnapshotStale ''Business context changed after this resolution was prepared.'')) (\<lambda>_.
      bindE (requireE (combined_evidence_fingerprint sha ev = pv_evidence_fingerprint (br_version b)
                       \<and> er_status ev = ar_policy_status (br_run b))
               (ReviewSnapshotStale ''Policy support changed after this resolution was prepared.'')) (\<lambda>_.
      bindE (approval_values (se_limits env) org_pid db2) (\<lambda>(limits, current_rule).
      bindE (valid_submission (submission_of env case_id expected n b limits current_rule)) (\<lambda>cmd.
      bindE (review_submit sha (sr_submit_now run) (sr_ids run) org_pid case_id (actor_id actor) cmd
               correlation_id db2) (\<lambda>(bundle, db3).
      bindE (review_detail_of env actor bundle db3) (\<lambda>d. Inr (d, db3)))))))))))))"

section \<open>Reading, reserving, deciding\<close>

definition service_get_review ::
    "service_env \<Rightarrow> timestamp \<Rightarrow> (uuid \<Rightarrow> uuid) \<Rightarrow> actor_context \<Rightarrow> string \<Rightarrow> database
     \<Rightarrow> error + review_detail \<times> database" where
  "service_get_review env now expiry actor review_id db =
     bindE (require_permission actor REVIEW_READ) (\<lambda>_.
     bindE (review_get now expiry (actor_organization_id actor) review_id db) (\<lambda>(found, db1).
     bindE (someE found (ReviewNotFound ''The review was not found.'')) (\<lambda>bundle.
     bindE (review_detail_of env actor bundle db1) (\<lambda>d. Inr (d, db1)))))"

record reserve_run =
  rn_read_now :: timestamp
  rn_read_expiry :: "uuid \<Rightarrow> uuid"
  rn_now :: timestamp
  rn_id :: uuid
  rn_nonce :: string
  rn_audit :: uuid
  rn_expiry :: "uuid \<Rightarrow> uuid"

definition service_reserve_review ::
    "service_env \<Rightarrow> reserve_run \<Rightarrow> actor_context \<Rightarrow> string \<Rightarrow> int \<Rightarrow> string \<Rightarrow> database
     \<Rightarrow> error + review_detail \<times> database" where
  "service_reserve_review env run actor review_id expected correlation_id db =
     bindE (require_permission actor REVIEW_RESERVE) (\<lambda>_.
     bindE (service_get_review env (rn_read_now run) (rn_read_expiry run) actor review_id db) (\<lambda>(current, db1).
     bindE (require_current current) (\<lambda>_.
     bindE (requireE (role_satisfies (actor_role actor) (rs_required_role (rb_snapshot (rvw_bundle current))))
              (ReviewAuthorityDenied ''Your role does not have authority to reserve this review.'')) (\<lambda>_.
     bindE (review_reserve (se_sha env) (rn_now run) (rn_id run) (rn_nonce run) (rn_audit run) (rn_expiry run)
              (actor_organization_id actor) review_id (actor_id actor) expected correlation_id db1) (\<lambda>(bundle, db2).
     bindE (review_detail_of env actor bundle db2) (\<lambda>d. Inr (d, db2)))))))"

record decide_run =
  dn_read_now :: timestamp
  dn_read_expiry :: "uuid \<Rightarrow> uuid"
  dn_now :: timestamp
  dn_ids :: decide_ids
  dn_materialize_now :: timestamp
  dn_fresh :: "uuid \<Rightarrow> materialize_ids"

definition service_decide_review ::
    "service_env \<Rightarrow> decide_run \<Rightarrow> actor_context \<Rightarrow> string \<Rightarrow> int \<Rightarrow> string \<Rightarrow> review_decision \<Rightarrow> string \<Rightarrow> string
     \<Rightarrow> database \<Rightarrow> error + review_detail \<times> database" where
  "service_decide_review env run actor review_id expected fingerprint decision reason correlation_id db =
     (let org_pid = actor_organization_id actor; sha = se_sha env in
      bindE (require_permission actor REVIEW_DECIDE) (\<lambda>_.
      bindE (service_get_review env (dn_read_now run) (dn_read_expiry run) actor review_id db) (\<lambda>(current, db1).
      bindE (require_current current) (\<lambda>_.
      let snapshot = rb_snapshot (rvw_bundle current) in
      bindE (requireE (rs_snapshot_fingerprint snapshot = fingerprint)
               (ReviewConflict ''The decision does not match this review snapshot.'')) (\<lambda>_.
      bindE (requireE (role_satisfies (actor_role actor) (rs_required_role snapshot))
               (ReviewAuthorityDenied ''Your role does not have authority to decide this review.'')) (\<lambda>_.
      bindE (require_decision_allowed decision
               (allowed_decisions (rvw_brief current) (actor_role actor) (rs_required_role snapshot))) (\<lambda>_.
      bindE (review_decide sha (dn_now run) (dn_ids run) org_pid review_id (actor_id actor) expected fingerprint
               decision reason correlation_id db1) (\<lambda>(bundle, db2).
      bindE (if decision = RD_APPROVE
             then bindE (materialize_approved_review sha (dn_materialize_now run) (dn_fresh run) org_pid
                           (rv_public_id (rb_review bundle)) correlation_id db2) (\<lambda>(_, db3). Inr db3)
             else Inr db2) (\<lambda>db3.
      bindE (review_detail_of env actor bundle db3) (\<lambda>d. Inr (d, db3)))))))))))"

end
