(* ===== verification/Service_Safety.thy ===== *)
theory Service_Safety
  imports Review_Service Materialization_Props
begin

text \<open>
  What the review service adds to the review repository: a review is submitted only for the current
  resolution of an open case whose business context and policy support are unchanged, and it is bound to
  the approval rule the current settings give; an approval through the service has every check behind it
  and leaves an action for every proposed action under review.
\<close>

section \<open>What the steps keep\<close>

lemma insert_policy_evidence_reviews:
  "insert_policy_evidence e db = Inr db' \<Longrightarrow> review_tables db' = review_tables db"
  by (auto simp: insert_policy_evidence_def run_simps review_tables_def)

lemma bind_one_reviews:
  assumes "bind_one ids c ib bd = Inr bd'"
  shows "review_tables (snd bd') = review_tables (snd bd)"
proof -
  obtain i b bundles db where args: "ib = (i, b)" "bd = (bundles, db)" by (cases ib; cases bd) blast
  show ?thesis
    using assms unfolding args
    by (cases "find (\<lambda>e. cpe_organization_id e = cs_organization_id c \<and> cpe_case_id e = cs_id c
          \<and> cpe_fingerprint e = pbd_fingerprint b) (policy_evidence_rows db)")
      (auto simp: bind_one_def run_simps dest: insert_policy_evidence_reviews split: if_splits)
qed

lemma bind_all_reviews:
  "foldE (bind_one ids c) bs bd = Inr bd' \<Longrightarrow> review_tables (snd bd') = review_tables (snd bd)"
  by (rule foldE_invariant [where P = "\<lambda>x. review_tables (snd x) = review_tables (snd bd)"])
    (auto dest: bind_one_reviews)

lemma bind_evidence_reviews:
  assumes "bind_evidence ids org_pid case_pid actor actor_type bs corr db = Inr (r, db')"
  shows "review_tables db' = review_tables db"
proof -
  obtain c bundles db1 where f: "foldE (bind_one ids c) (zip [0..<length bs] bs) ([], db) = Inr (bundles, db1)"
    and "review_tables db' = review_tables db1"
    using assms by (auto simp: bind_evidence_def run_simps insert_audit_def review_tables_def split: if_splits)
  then show ?thesis using bind_all_reviews [OF f] by simp
qed

lemma refresh_for_case_reviews:
  "refresh_for_case rt ids actor case_id corr as_of db = Inr (ev, db') \<Longrightarrow> review_tables db' = review_tables db"
  by (auto simp: refresh_for_case_def run_simps dest: bind_evidence_reviews split: if_splits)

lemma review_load_bundle_review: "review_load_bundle r now db = Inr b \<Longrightarrow> rb_review b = r"
  by (auto simp: review_load_bundle_def run_simps option_case_Inr)

lemma refresh_review_id: "rv_id (refresh_review r db) = rv_id r"
  by (auto simp: refresh_review_def dest: row_get_Some split: option.split)

lemma get_for_proposal_known:
  assumes "review_get_for_proposal now now2 expiry org_pid case_pid n db = Inr (Some b, db')"
  shows "rv_id (rb_review b) \<in> rv_id ` set (reviews db)"
  using assms
  by (auto simp: review_get_for_proposal_def run_simps refresh_review_id dest!: review_load_bundle_review find_SomeD
      split: option.splits)

lemma get_for_proposal_none:
  "review_get_for_proposal now now2 expiry org_pid case_pid n db = Inr (None, db') \<Longrightarrow> db' = db"
  by (auto simp: review_get_for_proposal_def run_simps split: option.splits)

lemma review_detail_bundle: "review_detail_of env actor bundle db = Inr d \<Longrightarrow> rvw_bundle d = bundle"
  by (auto simp: review_detail_of_def run_simps Let_def)

lemma submit_new_snapshot:
  assumes "submit_new sha now ids org_pid actor cmd corr c p v db = Inr (b, db')"
  obtains m r s where "r = new_review sha now (si_review ids) org_pid c p v m cmd"
    and "s = new_snapshot sha now (si_snapshot ids) c p v r cmd"
    and "reviews db' = reviews db @ [r]" and "review_snapshots db' = review_snapshots db @ [s]"
    and "rb_review b = r" and "rb_snapshot b = s" and "review_member (cs_organization_id c) actor db = Inr m"
proof -
  obtain m db1 db2 db3 where m: "review_member (cs_organization_id c) actor db = Inr m"
    and i1: "insert_review (new_review sha now (si_review ids) org_pid c p v m cmd)
      (put_case (submitted_case now c) db) = Inr db1"
    and i2: "insert_review_snapshot (new_snapshot sha now (si_snapshot ids) c p v
      (new_review sha now (si_review ids) org_pid c p v m cmd) cmd) db1 = Inr db2"
    and t: "review_tables db' = review_tables db2"
    and load: "review_load_bundle (new_review sha now (si_review ids) org_pid c p v m cmd) now db' = Inr b"
    using assms by (auto simp: submit_new_def run_simps Let_def dest!: add_review_audit_frame)
  let ?r = "new_review sha now (si_review ids) org_pid c p v m cmd"
  let ?s = "new_snapshot sha now (si_snapshot ids) c p v ?r cmd"
  have tables: "reviews db' = reviews db @ [?r]" "review_snapshots db' = review_snapshots db @ [?s]"
    and clash: "\<forall>x\<in>set (review_snapshots db). \<not> review_snapshot_clash ?s x"
    using i1 i2 t by (auto simp: insert_review_def insert_review_snapshot_def run_simps review_tables_def put_case_def)
  have "required_snapshot ?r db' = Inr ?s"
  proof -
    have "find (\<lambda>s. rs_organization_id s = rv_organization_id ?r \<and> rs_case_id s = rv_case_id ?r
        \<and> rs_review_id s = rv_id ?r) (review_snapshots db) = None"
      using clash by (auto simp: find_None_iff review_snapshot_clash_def)
    then show ?thesis by (simp add: required_snapshot_def tables(2) find_append_new)
  qed
  then have "rb_snapshot b = ?s" using load by (auto simp: review_load_bundle_def split: option.splits)
  then show thesis using that [OF refl refl tables review_load_bundle_review [OF load] _ m] by blast
qed

section \<open>Submitting\<close>

lemma review_submit_split:
  assumes "review_submit sha now ids org_pid case_pid actor cmd corr db = Inr (b, db')"
  shows "rb_review b \<in> set (reviews db) \<or> (\<exists>c p v. submit_new sha now ids org_pid actor cmd corr c p v db = Inr (b, db'))"
proof -
  obtain g c p v where *: "(case find (\<lambda>r. rv_organization_id r = cs_organization_id c \<and> rv_case_id r = cs_id c
        \<and> rv_proposal_version_id r = pv_id v) (reviews db) of
      Some existing \<Rightarrow> bindE (review_load_bundle existing now db) (\<lambda>b. Inr (b, db))
    | None \<Rightarrow> submit_new sha now ids org_pid actor cmd corr c p v db) = Inr (b, db')"
    using assms by (auto simp: review_submit_def run_simps)
  show ?thesis
  proof (cases "find (\<lambda>r. rv_organization_id r = cs_organization_id c \<and> rv_case_id r = cs_id c
        \<and> rv_proposal_version_id r = pv_id v) (reviews db)")
    case (Some r)
    then have "rb_review b = r" using * by (auto simp: run_simps dest: review_load_bundle_review)
    then show ?thesis using find_SomeD [OF Some] by simp
  qed (use * in auto)
qed

lemma submit_new_version:
  "submit_new sha now ids org_pid actor cmd corr c p v db = Inr (b, db')
   \<Longrightarrow> cs_version c = sub_expected_case_version cmd"
  by (auto simp: submit_new_def run_simps)

lemma submission_guard_facts:
  assumes "submission_guard org_pid case_id n expected db = Inr (ws, b)"
  shows "get_workspace org_pid case_id db = Inr (Some ws)" "cs_version (ws_case ws) = expected"
    "cs_status (ws_case ws) \<in> {CS_INVESTIGATING, CS_IN_PROGRESS}"
    "brief_get_version org_pid case_id n db = Inr (Some b)" "prop_current_version (br_proposal b) = n"
    "ar_case_version (br_run b) = expected" "require_review_submission b = Inr ()"
  using assms by (auto simp: submission_guard_def run_simps)

lemma submission_of_sel [simp]:
  "sub_context_fingerprint (submission_of env case_id expected n b limits v) = pv_context_fingerprint (br_version b)"
  "sub_evidence_fingerprint (submission_of env case_id expected n b limits v) = pv_evidence_fingerprint (br_version b)"
  "sub_proposal_fingerprint (submission_of env case_id expected n b limits v)
    = proposal_snapshot_fingerprint (se_sha env) (se_dump env) b"
  "sub_approval_rule (submission_of env case_id expected n b limits v) = assess_review_rule b (Some limits) v"
  "sub_proposal_version (submission_of env case_id expected n b limits v) = n"
  "sub_expected_case_version (submission_of env case_id expected n b limits v) = expected"
  by (simp_all add: submission_of_def Let_def)

text \<open>The steps of a submission that made a new review.\<close>

lemma service_submit_run:
  assumes "service_submit_review env run actor case_id n expected corr db = Inr (d, db')"
    and new: "rv_id (rb_review (rvw_bundle d)) \<notin> rv_id ` set (reviews db)"
  obtains ws b ev db2 limits v where
    "submission_guard (actor_organization_id actor) case_id n expected db = Inr (ws, b)"
    "refresh_for_case (se_retrieval env) (sr_evidence_ids run) actor case_id corr (sr_as_of run) db = Inr (ev, db2)"
    "combined_context_fingerprint (se_sha env) ws = pv_context_fingerprint (br_version b)"
    "combined_evidence_fingerprint (se_sha env) ev = pv_evidence_fingerprint (br_version b)"
    "er_status ev = ar_policy_status (br_run b)"
    "approval_values (se_limits env) (actor_organization_id actor) db2 = Inr (limits, v)"
    "review_submit (se_sha env) (sr_submit_now run) (sr_ids run) (actor_organization_id actor) case_id
       (actor_id actor) (submission_of env case_id expected n b limits v) corr db2 = Inr (rvw_bundle d, db')"
proof -
  let ?org = "actor_organization_id actor"
  obtain existing db1 where g: "review_get_for_proposal (sr_read_now run) (sr_read_now2 run) (sr_expiry run)
      ?org case_id n db = Inr (existing, db1)"
    using assms(1) by (auto simp: service_submit_review_def Let_def run_simps)
  have none: "existing = None"
  proof (rule ccontr)
    assume "existing \<noteq> None"
    then obtain rb where ex: "existing = Some rb" by blast
    then have "review_detail_of env actor rb db1 = Inr d"
      using assms(1) g by (auto simp: service_submit_review_def Let_def run_simps)
    then show False using new get_for_proposal_known [OF g [unfolded ex]] review_detail_bundle by metis
  qed
  note db1 = get_for_proposal_none [OF g [unfolded none]]
  show thesis
    using assms(1) g none db1 that
    by (auto simp: service_submit_review_def Let_def run_simps valid_submission_def dest: review_detail_bundle)
qed

text \<open>C25. A review that the service creates is about the present: it is for the current resolution of an
  open case, prepared at the version the case still has, whose business context is unchanged and whose
  policies, looked up again, give the same evidence and the same outcome. Exactly one review and one
  snapshot are stored; the snapshot records these fingerprints, the version the case gets by the submission,
  and the role and rule version that the approval settings in force ask for.\<close>

theorem submitted_review_current:
  assumes "service_submit_review env run actor case_id n expected corr db = Inr (d, db')"
    and "rv_id (rb_review (rvw_bundle d)) \<notin> rv_id ` set (reviews db)"
  shows "\<exists>ws b ev db2 limits v s.
      get_workspace (actor_organization_id actor) case_id db = Inr (Some ws)
    \<and> cs_version (ws_case ws) = expected \<and> cs_status (ws_case ws) \<in> {CS_INVESTIGATING, CS_IN_PROGRESS}
    \<and> brief_get_version (actor_organization_id actor) case_id n db = Inr (Some b)
    \<and> prop_current_version (br_proposal b) = n \<and> ar_case_version (br_run b) = expected
    \<and> refresh_for_case (se_retrieval env) (sr_evidence_ids run) actor case_id corr (sr_as_of run) db = Inr (ev, db2)
    \<and> er_status ev = ar_policy_status (br_run b)
    \<and> approval_values (se_limits env) (actor_organization_id actor) db2 = Inr (limits, v)
    \<and> rb_snapshot (rvw_bundle d) = s
    \<and> reviews db' = reviews db @ [rb_review (rvw_bundle d)] \<and> review_snapshots db' = review_snapshots db @ [s]
    \<and> rs_case_version s = expected + 1 \<and> rs_proposal_version s = n
    \<and> rs_context_fingerprint s = combined_context_fingerprint (se_sha env) ws
    \<and> rs_evidence_fingerprint s = combined_evidence_fingerprint (se_sha env) ev
    \<and> rs_proposal_fingerprint s = proposal_snapshot_fingerprint (se_sha env) (se_dump env) b
    \<and> rs_required_role s = rule_required_role (assess_review_rule b (Some limits) v)
    \<and> rs_approval_rule_version s = rule_version (assess_review_rule b (Some limits) v)"
proof (rule service_submit_run [OF assms])
  fix ws b ev db2 limits v
  let ?cmd = "submission_of env case_id expected n b limits v"
  assume guard: "submission_guard (actor_organization_id actor) case_id n expected db = Inr (ws, b)"
    and refresh: "refresh_for_case (se_retrieval env) (sr_evidence_ids run) actor case_id corr (sr_as_of run) db
      = Inr (ev, db2)"
    and fps: "combined_context_fingerprint (se_sha env) ws = pv_context_fingerprint (br_version b)"
      "combined_evidence_fingerprint (se_sha env) ev = pv_evidence_fingerprint (br_version b)"
      "er_status ev = ar_policy_status (br_run b)"
    and rule: "approval_values (se_limits env) (actor_organization_id actor) db2 = Inr (limits, v)"
    and submit: "review_submit (se_sha env) (sr_submit_now run) (sr_ids run) (actor_organization_id actor) case_id
       (actor_id actor) ?cmd corr db2 = Inr (rvw_bundle d, db')"
  have same: "reviews db2 = reviews db" "review_snapshots db2 = review_snapshots db"
    using refresh_for_case_reviews [OF refresh] by (simp_all add: review_tables_def)
  obtain c p pv where new: "submit_new (se_sha env) (sr_submit_now run) (sr_ids run) (actor_organization_id actor)
      (actor_id actor) ?cmd corr c p pv db2 = Inr (rvw_bundle d, db')" and version: "cs_version c = expected"
    using review_submit_split [OF submit] assms(2) submit_new_version by (fastforce simp: same)
  show ?thesis
    by (rule submit_new_snapshot [OF new])
      (use submission_guard_facts [OF guard] refresh fps rule version in \<open>simp add: same new_snapshot_def\<close>)
qed

section \<open>Approving\<close>

lemma allowed_approval: "RD_APPROVE \<in> set (allowed_decisions b role required) \<Longrightarrow> approval_is_safe b"
  by (simp add: allowed_decisions_def Let_def split: if_splits)

text \<open>C24. An approval through the service has every check behind it and is carried out: the reviewer
  is shown a detail that is current, whose snapshot has the fingerprint the reviewer sent and whose brief is
  safe to approve; the reviewer's role satisfies the required one both in the session and in the membership
  row read again with the decision; and when the call returns, the review is approved, its approval lineage
  is complete, and every proposed action under review has its action.\<close>

theorem service_approval_safe:
  assumes "service_decide_review env run actor review_id expected fp RD_APPROVE reason corr db = Inr (d, db')"
  shows "\<exists>cur db1 r s m ap.
      service_get_review env (dn_read_now run) (dn_read_expiry run) actor review_id db = Inr (cur, db1)
    \<and> fr_status (rvw_freshness cur) = RF_CURRENT \<and> approval_is_safe (rvw_brief cur)
    \<and> rs_snapshot_fingerprint (rb_snapshot (rvw_bundle cur)) = fp
    \<and> role_satisfies (actor_role actor) (rs_required_role (rb_snapshot (rvw_bundle cur)))
    \<and> scoped_review (actor_organization_id actor) review_id db1 = Some r \<and> rv_version r = expected
    \<and> required_snapshot r db1 = Inr s \<and> rs_snapshot_fingerprint s = fp
    \<and> review_member (rv_organization_id r) (actor_id actor) db1 = Inr m
    \<and> role_satisfies (Some (mem_role m)) (rs_required_role s)
    \<and> rv_id (rb_review (rvw_bundle d)) = rv_id r \<and> rv_status (rb_review (rvw_bundle d)) = RS_APPROVED
    \<and> approved_lineage (actor_organization_id actor) (rv_public_id r) db' = Inr ap
    \<and> (\<forall>p\<in>set (reviewed_actions (ap_review ap) db'). existing_action (ap_review ap) p db' \<noteq> None)"
proof -
  let ?org = "actor_organization_id actor" and ?sha = "se_sha env"
  obtain cur db1 rb db2 bundles u1 u2 where
    get: "service_get_review env (dn_read_now run) (dn_read_expiry run) actor review_id db = Inr (cur, db1)" and
    fresh: "require_current cur = Inr u1" and
    fp: "rs_snapshot_fingerprint (rb_snapshot (rvw_bundle cur)) = fp" and
    role: "role_satisfies (actor_role actor) (rs_required_role (rb_snapshot (rvw_bundle cur)))" and
    allowed: "require_decision_allowed RD_APPROVE
      (allowed_decisions (rvw_brief cur) (actor_role actor) (rs_required_role (rb_snapshot (rvw_bundle cur)))) = Inr u2" and
    decide: "review_decide ?sha (dn_now run) (dn_ids run) ?org review_id (actor_id actor) expected fp RD_APPROVE reason
      corr db1 = Inr (rb, db2)" and
    mat: "materialize_approved_review ?sha (dn_materialize_now run) (dn_fresh run) ?org (rv_public_id (rb_review rb))
      corr db2 = Inr (bundles, db')" and
    detail: "review_detail_of env actor rb db' = Inr d"
    using assms by (auto simp: service_decide_review_def Let_def run_simps)
  obtain r s x m where g: "decide_guard ?sha (dn_now run) ?org review_id (actor_id actor) expected fp db1 = Inr (r, s, x, m)"
    using decide by (auto simp: review_decide_def run_simps)
  note f = decide_guard_facts [OF g]
  have rb: "rb_review (rvw_bundle d) = decided_review (dn_now run) RD_APPROVE r"
      "rb_review rb = decided_review (dn_now run) RD_APPROVE r"
    using review_detail_bundle [OF detail] review_decide_bundle [OF decide g] by simp_all
  obtain ap owner created where ap: "approved_lineage ?org (rv_public_id (rb_review rb)) db2 = Inr ap"
    and fold: "foldE (materialize_one ?sha (dn_materialize_now run) (dn_fresh run) ?org corr ap owner)
      (reviewed_actions (ap_review ap) db2) ([], db2) = Inr (created, db')"
    using materialize_split [OF mat] by metis
  note loop = materialize_loop [OF fold]
  note reads = only_queue_reads [OF loop [THEN conjunct1]]
  have "fr_status (rvw_freshness cur) = RF_CURRENT"
    using fresh by (cases "fr_status (rvw_freshness cur)") (simp_all add: require_current_def run_simps)
  moreover have "approval_is_safe (rvw_brief cur)"
    using allowed allowed_approval by (auto simp: require_decision_allowed_def run_simps)
  moreover have "approved_lineage ?org (rv_public_id r) db' = Inr ap"
    using ap rb(2) by (simp add: reads decided_review_def)
  moreover have "rv_id (rb_review (rvw_bundle d)) = rv_id r" "rv_status (rb_review (rvw_bundle d)) = RS_APPROVED"
    by (simp_all add: rb decided_review_def)
  ultimately show ?thesis using get fp role f(1,2,4,5,9,10) loop reads(2) by metis
qed

end
