(* ===== verification/Brief_Witness.thy ===== *)
theory Brief_Witness
  imports Brief_Props Service_Safety Demo
begin

text \<open>
  The properties of decision briefs and of the review service at concrete runs: a brief is generated for
  a case no policy covers and submitted for review; an approved refund goes through the service.
\<close>

section \<open>A case no policy covers\<close>

definition bsha :: "string \<Rightarrow> string" where
  "bsha s = replicate 64 (CHR ''7'')"

lemma length_bsha [simp]: "length (bsha s) = 64"
  by (simp add: bsha_def)

lemma hash_bsha [simp]: "hash_json bsha v = bsha []"
  by (simp add: hash_json_def bsha_def)

lemma stable_bsha [simp]: "stable_public_id bsha prefix parts = prefix @ ''-'' @ str_upper (take 16 (bsha []))"
  by (simp add: stable_public_id_def bsha_def)

definition bdemo_actor :: actor_context where
  "bdemo_actor = \<lparr>actor_id = ''MEM'', actor_organization_id = ''ORG'', actor_name = ''Sam'', actor_kind = AK_MEMBER,
     actor_role = Some SUPERVISOR, actor_permissions = all_permissions, actor_authentication_mode = PROVIDER\<rparr>"

definition bdemo_case :: case_row where
  "bdemo_case = demo_case\<lparr>cs_status := CS_INVESTIGATING, cs_version := 3\<rparr>"

definition ademo_context :: business_object_snapshot where
  "ademo_context = \<lparr>bo_id = 1, bo_public_id = ''BO'', bo_organization_id = 1, bo_case_id = 3,
     bo_object_type = BO_PAYMENT, bo_label = ''Payment'', bo_source = ''billing'', bo_source_reference = ''PAY-1'',
     bo_status = ''settled'', bo_fields = JObj [], bo_captured_at = 0, bo_source_freshness = SF_CURRENT,
     bo_source_checked_at = None, bo_version = 1\<rparr>"

definition bdemo_db :: database where
  "bdemo_db = demo_db\<lparr>cases := [bdemo_case], proposals := [], proposal_versions := [], proposed_actions := [],
     reviews := [], review_snapshots := [], review_decisions := [], business_objects := [ademo_context],
     case_requests := [\<lparr>crq_id = 1, crq_public_id = ''R'', crq_organization_id = 1, crq_case_id = 3,
       crq_channel = RQ_EMAIL, crq_customer_message = ''m'', crq_summary = ''charge'', crq_received_at = 0\<rparr>],
     case_customers := [\<lparr>cc_id = 1, cc_organization_id = 1, cc_case_id = 3, cc_customer_id = ''c'', cc_name = ''n'',
       cc_tier = TIER_VIP, cc_locale = ''en-US'', cc_contact = ''c'', cc_captured_at = 0\<rparr>],
     threads := [\<lparr>th_id = 1, th_public_id = ''T'', th_organization_id = 1, th_case_id = 3, th_version = 1,
       th_updated_at = 0\<rparr>]\<rparr>"

definition bdemo_setup :: retrieval_setup where
  "bdemo_setup = \<lparr>rt_mode = MODE_V1, rt_has_v2 = False, rt_sha = bsha, rt_sqrt = (\<lambda>n. 2),
     rt_distance = (\<lambda>a b. 0), rt_matches = (\<lambda>a b. True), rt_rank = (\<lambda>a b. 1),
     rt_minimize = (\<lambda>w. Inr (''q'', ''f'')), rt_v1_version = ''e1'', rt_v1_embed = (\<lambda>s. []),
     rt_v2_embed = (\<lambda>s. []), rt_profile_key = ''p''\<rparr>"

definition bdemo_ids :: brief_ids where
  "bdemo_ids = \<lparr>bi_now = 10, bi_run = 1, bi_proposal = 1, bi_version = 1, bi_evidence = (\<lambda>i. 1 + i),
     bi_context = (\<lambda>i. 1 + i), bi_action = (\<lambda>i. i), bi_draft = 1, bi_checkpoint = (\<lambda>i. 1 + i), bi_audit = 1,
     bi_audit_now = 10\<rparr>"

definition bdemo_analysis :: decision_analysis where
  "bdemo_analysis = \<lparr>da_status = AN_ABSTAINED, da_policy_status = ER_MISSING, da_facts = [],
     da_missing_information = [], da_risks = [], da_outcome = ''wait'', da_impact_amount = None,
     da_impact_currency = None, da_confidence = CONF_LOW, da_uncertainty = ''u'', da_rationale = ''r'',
     da_state = DP_INFORMATION_NEEDED,
     da_proposed_actions = [\<lparr>pad_type = ''escalate'', pad_label = ''Escalate'', pad_parameters = [],
       pad_impact_amount = None, pad_impact_currency = None, pad_expected_outcome = ''o'', pad_review_required = True\<rparr>],
     da_response_draft = \<lparr>sr_subject = ''s'', sr_body = ''b'', sr_status = RSP_BLOCKED\<rparr>,
     da_checkpoints = [\<lparr>cd_sequence = 1, cd_step = ''facts'', cd_status = CK_COMPLETED, cd_summary = ''s'',
       cd_input_fingerprint = bsha [], cd_output_fingerprint = bsha []\<rparr>],
     da_risk_rule_version = ''v'', da_model_version = ''m'', da_prompt_version = ''p'', da_graph_version = ''g''\<rparr>"

definition bdemo_engine :: decision_engine where
  "bdemo_engine = \<lparr>en_analyze = (\<lambda>_ _ _. Inr bdemo_analysis), en_model_version = ''m'', en_prompt_version = ''p'',
     en_graph_version = ''g'', en_risk_rule_version = ''v''\<rparr>"

definition bdemo_prepare_ids :: prepare_ids where
  "bdemo_prepare_ids = \<lparr>pi_evidence = \<lparr>ei_row = (\<lambda>i. 1 + i), ei_code = (\<lambda>i. ''X''), ei_now = (\<lambda>i. 20), ei_audit = 2,
       ei_audit_now = 20\<rparr>, pi_as_of = 20,
     pi_acquire = \<lparr>aq_id = 1, aq_owner = 7, aq_now = 20, aq_created = 20, aq_retry_now = 20\<rparr>\<rparr>"

definition bdemo_prepared :: "error + prepared \<times> database" where
  "bdemo_prepared = prepare_generation bsha bdemo_setup bdemo_engine bdemo_prepare_ids bdemo_actor ''CASE'' 3 ''c'' bdemo_db"


definition bdemo_plan :: generation_plan where
  "bdemo_plan = (case fst (projr bdemo_prepared) of Plan p \<Rightarrow> p)"

definition bdemo_persist_ids :: persist_ids where
  "bdemo_persist_ids = \<lparr>pe_check_now = 30, pe_brief = bdemo_ids, pe_complete_now = 40\<rparr>"

definition bdemo_generated :: "(error + decision_brief) \<times> database" where
  "bdemo_generated = generate_decision_brief bsha (\<lambda>e. ''e'') bdemo_setup bdemo_engine bdemo_prepare_ids bdemo_persist_ids
     50 bdemo_actor ''CASE'' 3 ''c'' id id bdemo_db"

definition bdemo_command :: brief_create where
  "bdemo_command = \<lparr>bc_expected_case_version = 3, bc_input_fingerprint = bsha [], bc_context_fingerprint = bsha [],
     bc_evidence_fingerprint = bsha [], bc_analysis = bdemo_analysis, bc_evidence = [],
     bc_contexts = [\<lparr>cref_public_id = ''BO'', cref_version = 1, cref_fingerprint = bsha []\<rparr>]\<rparr>"

definition bdemo_created :: "error + decision_brief \<times> database" where
  "bdemo_created = create_or_get bsha bdemo_ids ''ORG'' ''CASE'' ''MEM'' ''member'' bdemo_command ''c'' bdemo_db"

definition bdemo_env :: service_env where
  "bdemo_env = \<lparr>se_sha = bsha, se_dump = \<lparr>bd_version = (\<lambda>_. JNull), bd_action = (\<lambda>_. JNull), bd_draft = (\<lambda>_. JNull)\<rparr>,
     se_limits = (\<lambda>_. None), se_retrieval = bdemo_setup, se_now = 60\<rparr>"

definition bdemo_submit_run :: submit_run where
  "bdemo_submit_run = \<lparr>sr_read_now = 60, sr_read_now2 = 60, sr_expiry = (\<lambda>i. 90 + i),
     sr_evidence_ids = pi_evidence bdemo_prepare_ids, sr_as_of = 60, sr_submit_now = 60,
     sr_ids = \<lparr>si_review = 1, si_snapshot = 1, si_audit = 3\<rparr>\<rparr>"

definition bdemo_submitted :: "error + review_detail \<times> database" where
  "bdemo_submitted = service_submit_review bdemo_env bdemo_submit_run bdemo_actor ''CASE'' 1 3 ''c''
     (snd (projr bdemo_created))"

section \<open>An approved refund\<close>

definition ademo_policy :: policy_record where
  "ademo_policy = \<lparr>pol_id = 1, pol_public_id = ''POL'', pol_organization_id = 1, pol_title = ''Refunds'',
     pol_description = ''d'', pol_status = PL_PUBLISHED, pol_owner_id = 2, pol_source_kind = PSK_MANUAL,
     pol_source_name = ''m'', pol_source_error = None, pol_current_version = 1, pol_version = 3, pol_created_at = 0,
     pol_updated_at = 0\<rparr>"

definition ademo_policy_version :: policy_version where
  "ademo_policy_version = \<lparr>gpv_id = 1, gpv_public_id = ''PV1'', gpv_organization_id = 1, gpv_policy_id = 1,
     gpv_legacy_policy_version_id = None, gpv_version = 1, gpv_record_version = 3, gpv_status = PV_PUBLISHED,
     gpv_immutable = True, gpv_source_text = ''s'', gpv_content_hash = ''h'', gpv_decision_scope = ''refund'',
     gpv_case_categories = [''all''], gpv_products = [''all''], gpv_regions = [''all''], gpv_channels = [''all''],
     gpv_customer_tiers = [''all''], gpv_effective_from = Some 5, gpv_effective_to = None, gpv_created_by = ''MEM'',
     gpv_created_at = 0, gpv_submitted_at = None, gpv_published_at = Some 5, gpv_retired_at = None\<rparr>"

definition ademo_clause :: policy_clause where
  "ademo_clause = \<lparr>gpc_id = 1, gpc_public_id = ''C'', gpc_organization_id = 1, gpc_policy_id = 1,
     gpc_policy_version_id = 1, gpc_sequence = 1, gpc_heading = ''Refunds'', gpc_text = ''double charge'',
     gpc_applies_when = ''a'', gpc_content_hash = ''c'', gpc_chunking_version = ''1'', gpc_embedding_version = ''1'',
     gpc_index_version = ''i'', gpc_embedding = [], gpc_search_vector = ''t''\<rparr>"

definition ademo_evidence :: policy_evidence where
  "ademo_evidence = \<lparr>cpe_id = 1, cpe_public_id = ''CPE'', cpe_organization_id = 1, cpe_case_id = 3,
     cpe_policy_id = 1, cpe_policy_version_id = 1, cpe_clause_id = 1, cpe_citation = ''1'', cpe_excerpt = ''e'',
     cpe_applicability = ''applies'', cpe_fingerprint = ''ef'', cpe_freshness = EF_CURRENT,
     cpe_conflict_state = CF_NONE, cpe_retrieval_score = 1, cpe_policy_content_hash = ''h'',
     cpe_clause_content_hash = ''c'', cpe_effective_from = Some 5, cpe_effective_to = None, cpe_corpus_version = ''1'',
     cpe_chunking_version = ''1'', cpe_embedding_version = ''1'', cpe_index_version = ''1'',
     cpe_embedding_profile_key = None, cpe_retrieval_algorithm_version = None, cpe_query_fingerprint = None,
     cpe_dense_rank = None, cpe_lexical_rank = None, cpe_fused_retrieval_score = None,
     cpe_retrieval_run_correlation_id = None, cpe_recorded_at = 0\<rparr>"

definition ademo_run :: analysis_run where
  "ademo_run = \<lparr>ar_id = 9, ar_public_id = ''ANL'', ar_organization_id = 1, ar_case_id = 3, ar_status = AN_COMPLETED,
     ar_policy_status = ER_RELEVANT, ar_case_version = 3, ar_input_fingerprint = ''i'', ar_context_fingerprint = bsha [],
     ar_evidence_fingerprint = bsha [], ar_initiated_by = ''SPEC'', ar_model_version = ''x'', ar_prompt_version = ''x'',
     ar_graph_version = ''x'', ar_risk_rule_version = ''x'', ar_started_at = 0, ar_completed_at = 0\<rparr>"

definition ademo_reviewer :: membership where
  "ademo_reviewer = demo_member\<lparr>mem_id := 14, mem_public_id := ''SUP'', mem_subject_id := ''sup''\<rparr>"

definition ademo_reservation :: review_reservation where
  "ademo_reservation = \<lparr>rr_id = 11, rr_public_id = ''RR'', rr_organization_id = 1, rr_case_id = 3, rr_review_id = 7, rr_snapshot_id = 8,
     rr_reviewer_id = Some 14, rr_legacy_reservation_id = None, rr_reviewer_public_id = ''SUP'', rr_reviewer_name = ''Sam'', rr_reviewer_role = SUPERVISOR,
     rr_snapshot_fingerprint = ''fp'', rr_status = RR_ACTIVE, rr_reserved_at = 0, rr_expires_at = 1000,
     rr_consumed_at = None\<rparr>"

text \<open>The refund of the demonstration, under review and reserved.\<close>

definition ademo_db :: database where
  "ademo_db = bdemo_db\<lparr>cases := [demo_case], memberships := [demo_member, ademo_reviewer],
     proposals := [demo_proposal\<lparr>prop_state := DP_READY_FOR_REVIEW\<rparr>],
     proposal_versions := [demo_version\<lparr>pv_context_fingerprint := bsha [], pv_evidence_fingerprint := bsha []\<rparr>],
     proposed_actions := [demo_proposed_action], analysis_runs := [ademo_run],
     proposal_response_drafts := [\<lparr>prd_id = 1, prd_public_id = ''PRD'', prd_organization_id = 1, prd_case_id = 3,
       prd_proposal_id = 4, prd_proposal_version_id = 5, prd_subject = ''s'', prd_body = ''b'', prd_status = RSP_READY,
       prd_version = 1, prd_created_at = 0\<rparr>],
     context_bindings := [\<lparr>pcb_id = 1, pcb_organization_id = 1, pcb_case_id = 3, pcb_proposal_id = 4,
       pcb_proposal_version_id = 5, pcb_context_id = 1, pcb_snapshot_version = 1, pcb_context_fingerprint = bsha []\<rparr>],
     policies := [ademo_policy], policy_versions := [ademo_policy_version], policy_clauses := [ademo_clause],
     policy_evidence_rows := [ademo_evidence],
     evidence_bindings := [\<lparr>peb_id = 1, peb_organization_id = 1, peb_case_id = 3, peb_proposal_id = 4,
       peb_proposal_version_id = 5, peb_evidence_id = 1, peb_evidence_fingerprint = ''ef''\<rparr>],
     reviews := [demo_review\<lparr>rv_status := RS_RESERVED\<rparr>],
     review_snapshots := [demo_snapshot\<lparr>rs_proposal_fingerprint := bsha [], rs_context_fingerprint := bsha [],
       rs_evidence_fingerprint := bsha []\<rparr>],
     reservations := [ademo_reservation]\<rparr>"

definition ademo_actor :: actor_context where
  "ademo_actor = bdemo_actor\<lparr>actor_id := ''SUP''\<rparr>"

definition ademo_decide :: decide_run where
  "ademo_decide = \<lparr>dn_read_now = 60, dn_read_expiry = (\<lambda>i. 90 + i), dn_now = 60,
     dn_ids = \<lparr>di_decision = 10, di_draft = 1, di_audit = 1\<rparr>, dn_materialize_now = 60,
     dn_fresh = (\<lambda>i. \<lparr>mi_action = 20, mi_audit = 21, mi_connection = 22, mi_connection_now = 60\<rparr>)\<rparr>"

definition ademo_decided :: "error + review_detail \<times> database" where
  "ademo_decided = service_decide_review bdemo_env ademo_decide ademo_actor ''RV'' 1 ''fp'' RD_APPROVE ''ok'' ''c'' ademo_db"

section \<open>Evaluation\<close>

lemma choose_input_four:
  "choose_input sha org_pid case_pid m base 4 n fp db =
     bindE (get_by_input_fingerprint org_pid case_pid fp db) (\<lambda>existing.
     case existing of None \<Rightarrow> Inr (Inr fp)
     | Some b \<Rightarrow> if can_reuse b m then Inr (Inl b)
         else choose_input sha org_pid case_pid m base 3 (Suc n) (retry_input_fingerprint sha base n) db)"
  using choose_input.simps(2) [of sha org_pid case_pid m base 3] by simp

lemmas brief_code =
  organization_of_def brief_store_ok_def brief_command_def decision_generation_lease_seconds_def
  engine_input_fingerprint_def generate_decision_brief_def max_decision_generation_attempts_def
  max_input_fingerprint_retries_def no_lease_def persist_generation_def prepare_generation_def
  release_generation_def reserve_generation_def activity_of_def activity_page_of_def before_message_def
  case_contexts_def case_events_def case_messages_def case_workspace_activity_limit_def
  case_workspace_business_context_limit_def case_workspace_message_limit_def conversation_page_def
  get_workspace_def newest_first_def owner_record_def workspace_row_def advanced_proposal_def
  assemble_brief_def audit_details_def bind_proposal_context_def bind_proposal_evidence_def
  brief_actions_def brief_audit_def brief_checkpoints_def brief_context_ids_def brief_evidence_ids_def
  create_brief_def create_or_get_def find_context_def find_evidence_def find_proposal_def find_version_def
  get_by_input_fingerprint_def latest_version_def load_brief_def load_by_input_fingerprint_def
  new_checkpoint_def new_proposal_def new_proposal_draft_def new_proposal_version_def
  new_proposed_action_def new_run_def next_proposal_def numbered_def valid_brief_create_def
  version_draft_def version_record_def version_run_def write_parts_def combined_context_fingerprint_def
  combined_evidence_fingerprint_def context_snapshot_fingerprint_def decision_input_fingerprint_def
  risk_json_def can_def require_permission_def acquire_existing_def ceil_seconds_def
  completed_generation_def failed_generation_def generation_acquire_def generation_complete_def
  generation_fail_def generation_scope_ids_def holds_lease_def lease_of_def new_generation_def
  put_generation_def retaken_generation_def update_generations_def active_version_def bind_evidence_def
  bind_one_def binding_snapshot_def evidence_snapshot_def evidence_workspace_def insert_policy_evidence_def
  is_current_for_case_def new_evidence_def policy_evidence_checks_def policy_evidence_clash_def
  policy_required_case_def refresh_for_case_def resolve_bindings_def active_clauses_def active_match_def
  active_versions_def applicable_match_def base_versions_def candidate_of_def category_match_def
  conflicting_scopes_def count_policies_def effective_match_def facade_resolve_def first_state_def
  guard_search_def json_dimension_match_def missing_relevant_def rank_rows_def relevant_resolution_def
  retrieval_counts_def search_retrieval_candidates_def v1_rank_def v1_resolve_def json_opt_def row_get_def
  row_put_def seconds_def unique_keys_def put_proposal_def scoped_case_def analysis_generation_checks_def
  analysis_generation_clash_def analysis_run_clash_def check_passes_def checkpoint_clash_def
  context_binding_clash_def evidence_binding_clash_def impact_pair_check_def insert_analysis_run_def
  insert_audit_def insert_checkpoint_def insert_context_binding_def insert_evidence_binding_def
  insert_generation_def insert_proposal_def insert_proposal_draft_def insert_proposal_version_def
  insert_proposed_action_def insert_row_def proposal_clash_def proposal_draft_clash_def
  proposal_version_checks_def proposal_version_clash_def proposed_action_clash_def sql_and_def sql_or_def
  len_ok_def validate_window_def choose_input_four unique_keys_def Let_def

lemmas service_code =
  action_authorization_hours_def action_target_def action_target_keys_def add_action_audit_def
  attempts_of_def connection_health_max_age_minutes_def connection_is_eligible_def load_bundle_def
  materialization_blocker_def put_case_def receipt_of_def reconciliations_of_def
  required_review_snapshot_def brief_get_version_def role_satisfies_def approved_lineage_def
  ensure_unconfigured_connection_def existing_action_def materialize_approved_review_def materialize_one_def
  new_action_def provider_by_action_def provider_label_def put_connection_def rank_connections_def
  resolve_for_action_def reviewed_actions_def list_evidence_for_case_def hours_def minutes_def
  allowed_decisions_def approval_is_safe_def assess_review_rule_def
  default_administrator_financial_limits_def financial_admin_required_def require_decision_allowed_def
  require_review_submission_def review_policy_state_of_def review_reason_def review_uncertainty_of_def
  approval_values_def base_freshness_def fingerprint_ok_def proposal_snapshot_fingerprint_def
  require_current_def review_detail_of_def review_snapshot_fingerprint_def rule_freshness_def
  service_decide_review_def service_get_review_def service_submit_review_def submission_guard_def
  submission_of_def valid_submission_def advance_case_after_decision_def consumed_reservation_def
  decide_guard_def decided_review_def new_decision_def new_review_def new_snapshot_def
  publish_approved_response_draft_def review_decide_def review_get_def review_get_for_proposal_def
  review_submit_def submit_new_def submitted_case_def active_reservation_def add_review_audit_def
  context_fingerprint_of_def context_material_def context_rows_def context_unchanged_def
  evidence_material_def evidence_rows_def evidence_staleness_def expire_reservation_def
  expired_reservations_def freshness_of_def open_proposal_state_def put_reservation_def
  put_response_draft_def put_review_def reconcile_expired_def refresh_review_def reopened_review_def
  require_approval_rule_version_def required_review_def required_snapshot_def reservation_of_review_def
  review_freshness_at_def review_load_bundle_def review_member_def scoped_review_def set_proposal_state_def
  stale_def staleness_def terminal_review_status_def case_action_checks_def case_action_clash_def
  case_review_checks_def case_review_clash_def connection_clash_def insert_action_def insert_connection_def
  insert_response_draft_def insert_review_def insert_review_decision_def insert_review_snapshot_def
  response_draft_clash_def review_decision_checks_def review_decision_clash_def review_snapshot_checks_def
  review_snapshot_clash_def currency_ok_def impact_ok_def policy_in_force_def evidence_unchanged_def
  proposal_version.defs proposal_version_record.defs

lemmas bdemo_rows = bdemo_db_def bdemo_case_def demo_db_def demo_case_def demo_organization_def bdemo_ids_def
  bdemo_analysis_def bdemo_setup_def bdemo_engine_def bdemo_prepare_ids_def bdemo_persist_ids_def bdemo_actor_def
  ademo_context_def all_permissions_def bdemo_command_def

lemmas ademo_rows = bdemo_rows ademo_db_def ademo_policy_def ademo_policy_version_def ademo_clause_def ademo_evidence_def
  ademo_run_def ademo_reviewer_def ademo_reservation_def ademo_actor_def ademo_decide_def demo_proposal_def
  demo_version_def demo_proposed_action_def demo_review_def demo_snapshot_def demo_connection_def demo_member_def
  bdemo_env_def bdemo_submit_run_def

lemma result_pair: "\<not> isl x \<Longrightarrow> x = Inr (fst (projr x), snd (projr x))"
  by (cases x) simp_all

lemma bdemo_planned: "\<exists>p. bdemo_prepared = Inr (Plan p, snd (projr bdemo_prepared))"
  "generation_scope_ids ''ORG'' ''CASE'' (snd (projr bdemo_prepared)) = Inr (1, 3)"
  "brief_store_ok (snd (projr bdemo_prepared))"
  by (simp_all add: brief_code bdemo_rows bdemo_prepared_def cong: bindE_first)

lemma bdemo_stored: "\<not> isl (fst bdemo_generated)"
  by (simp add: brief_code bdemo_rows bdemo_generated_def cong: bindE_first)

lemma bdemo_new: "get_by_input_fingerprint ''ORG'' ''CASE'' (bc_input_fingerprint bdemo_command) bdemo_db = Inr None"
  "brief_store_ok bdemo_db" "\<not> isl bdemo_created"
  by (simp_all add: brief_code bdemo_rows bdemo_created_def cong: bindE_first)

lemma bdemo_unreviewed: "reviews (snd (projr bdemo_created)) = []"
  by (simp add: brief_code bdemo_rows bdemo_created_def cong: bindE_first)

lemma bdemo_submits: "\<not> isl bdemo_submitted"
  by (simp add: brief_code service_code ademo_rows bdemo_submitted_def bdemo_created_def cong: bindE_first)

lemma ademo_approved: "\<not> isl ademo_decided"
  by (simp add: brief_code service_code ademo_rows ademo_decided_def cong: bindE_first)

section \<open>Witnesses\<close>

theorem written_brief_faithful_witness:
  "brief_get_latest ''ORG'' ''CASE'' (snd (projr bdemo_created)) = Inr (Some (fst (projr bdemo_created)))"
  using written_brief_faithful [OF result_pair [OF bdemo_new(3), unfolded bdemo_created_def] bdemo_new(1,2)]
  by (simp add: bdemo_created_def)

theorem generation_all_or_nothing_witness:
  "\<exists>b fp. fst bdemo_generated = Inr b
     \<and> get_by_input_fingerprint ''ORG'' ''CASE'' fp (snd bdemo_generated) = Inr (Some b)
     \<and> (\<exists>row\<in>set (generations (snd bdemo_generated)). gen_status row = GEN_COMPLETED)"
proof -
  obtain p where p: "prepare_generation bsha bdemo_setup bdemo_engine bdemo_prepare_ids bdemo_actor ''CASE'' 3 ''c''
      bdemo_db = Inr (Plan p, snd (projr bdemo_prepared))"
    using bdemo_planned(1) unfolding bdemo_prepared_def by blast
  obtain b where b: "fst bdemo_generated = Inr b" using bdemo_stored by (cases "fst bdemo_generated") simp_all
  have gen: "generate_decision_brief bsha (\<lambda>e. ''e'') bdemo_setup bdemo_engine bdemo_prepare_ids bdemo_persist_ids
     50 bdemo_actor ''CASE'' 3 ''c'' id id bdemo_db = (Inr b, snd bdemo_generated)"
    unfolding b [symmetric] by (simp add: bdemo_generated_def)
  have scope: "generation_scope_ids (actor_organization_id bdemo_actor) ''CASE'' (id (snd (projr bdemo_prepared))) = Inr (1, 3)"
    using bdemo_planned(2) by (simp add: bdemo_actor_def)
  have later: "generation_scope_ids (actor_organization_id bdemo_actor) ''CASE'' (id (id (snd (projr bdemo_prepared)))) = Inr (1, 3)"
    using scope by simp
  have ok: "brief_store_ok (id (snd (projr bdemo_prepared)))" using bdemo_planned(3) by simp
  obtain row where "completed_generation (pe_complete_now bdemo_persist_ids) (ar_id (br_run b)) row
      \<in> set (generations (snd bdemo_generated))"
    using generation_all_or_nothing [OF p gen ok scope later] by auto
  then have "\<exists>row\<in>set (generations (snd bdemo_generated)). gen_status row = GEN_COMPLETED"
    by (rule bexI [rotated]) (simp add: completed_generation_def)
  moreover have "get_by_input_fingerprint ''ORG'' ''CASE'' (gp_input_fingerprint p) (snd bdemo_generated) = Inr (Some b)"
    using generation_all_or_nothing [OF p gen ok scope later] by (simp add: bdemo_actor_def)
  ultimately show ?thesis using b by blast
qed

theorem submitted_review_current_witness:
  "length (reviews (snd (projr bdemo_submitted))) = 1"
  using submitted_review_current [OF result_pair [OF bdemo_submits, unfolded bdemo_submitted_def]] bdemo_unreviewed
  by (auto simp: bdemo_submitted_def)

theorem service_approval_safe_witness: "rv_status (rb_review (rvw_bundle (fst (projr ademo_decided)))) = RS_APPROVED"
  using service_approval_safe [OF result_pair [OF ademo_approved, unfolded ademo_decided_def]]
  by (auto simp: ademo_decided_def)

end
