(* ===== verification/Spec2Isabelle.thy ===== *)
theory Spec2Isabelle
  imports Action_Witness System_Witness Engine_Witness Generation_Witness Case_Witness Identity_Witness Policy_Witness
    Brief_Witness
begin

text \<open>
  A verification development for the case resolution copilot (\<open>backend/app\<close> of the repository).

  \<^bold>\<open>The program.\<close> Members of an organization work on support cases. The clauses of the
  organization's policies that apply to a case are retrieved and bound to it as evidence; a decision
  engine turns the case and its evidence into an analysis with a proposed resolution, which is stored
  as a versioned decision brief. A specialist
  submits the resolution for review; a supervisor or an administrator reserves the review and decides
  it; an approval is materialized into actions; an action is executed against an external target
  (a billing system, an identity provider) through a gateway, and its outcome is recorded,
  reconciled when it is in doubt, or taken over by a person. Every command is one transaction on
  a relational store.

  \<^bold>\<open>How the state is modelled.\<close> \<open>Schema\<close> has a record per table row (\<open>persistence/models\<close>)
  and \<open>database\<close>, the record of the tables; \<open>Store\<close> has the unique and CHECK constraints of
  the tables the modelled commands insert into, with SQL's three-valued logic. A command is a
  function from a database to \<open>error + result \<times> database\<close>: an exception is \<open>Inl\<close> and rolls the
  transaction back, a commit is \<open>Inr\<close> of the new state. Transactions are serial, as the row
  locks make them for the rows of one aggregate. A call that is made of several transactions with an
  external call between them (executing or checking an action, generating a brief) takes what other
  sessions commit in between as an argument, so that its properties hold for every interleaving. Primary keys, random identifiers and clock
  readings are arguments, SHA-256 is a parameter \<open>sha\<close> of every definition that hashes, and a
  gateway, an embedding provider or a language model that is not in the repository is a function
  argument; so are the vector distance and the text search of the database. Versions and amounts
  are Python's unbounded integers and decimals; time is an integer number of microseconds since the
  epoch in UTC; strings are lists of characters, and letters are folded within ASCII.

  \<^bold>\<open>Theories.\<close>
  \<^item> \<open>Prelude\<close>: the result type and its combinators, keyed rows, strings, JSON, dates, hashes.
  \<^item> \<open>Domain\<close>: the enumerations, errors, roles and permissions of \<open>domain/\<close>.
  \<^item> \<open>Schema\<close>, \<open>Store\<close>: the tables and their constraints.
  \<^item> \<open>Gateway\<close>: \<open>integrations/action_gateway.py\<close>, the router and the deterministic adapter.
  \<^item> \<open>Actions_Base\<close>, \<open>Actions_Exec\<close>, \<open>Materialization\<close>: \<open>persistence/actions\<close>, with the choice
    of a connection from \<open>persistence/connection_repository.py\<close>.
  \<^item> \<open>Action_Service\<close>: \<open>services/action_service.py\<close>.
  \<^item> \<open>Action_Invariant\<close>, \<open>Recovery_Invariant\<close>, \<open>Action_System\<close>, \<open>Lifecycle\<close>,
    \<open>Action_Safety\<close>: the invariant of the action tables, the step relation of the action
    component, its functional refinement of a state machine per action (each labelled transaction is
    exactly the events it stands for) with the transactions of other calls, and the service-level
    guarantees.
    \<open>Demo\<close> and \<open>Action_Witness\<close> hold a concrete run.
  \<^item> \<open>Review_Authority\<close>: \<open>security/review_authority.py\<close>.
  \<^item> \<open>Reviews\<close>, \<open>Review_Workflow\<close>: \<open>persistence/reviews\<close> (shared reads, expiry, freshness;
    submit, reserve, decide, get).
  \<^item> \<open>Review_Invariant\<close>, \<open>Review_System\<close>, \<open>Review_Safety\<close>, \<open>Review_Witness\<close>: the invariant of
    the review tables, the step relation, the properties and a concrete run.
  \<^item> \<open>System\<close>, \<open>Materialization_Props\<close>, \<open>System_Witness\<close>: actions and reviews together.
  \<^item> \<open>Workspace\<close>, \<open>Response_Drafting\<close>, \<open>Decision_Engine\<close>: the records of an analysis and the
    deterministic engine (\<open>analysis/deterministic_decision_engine.py\<close>,
    \<open>customer_response_drafting.py\<close>); \<open>Regex\<close>, \<open>Narrative\<close>: the wording filters
    (\<open>analysis/action_claim_safety.py\<close>, \<open>customer_response_safety.py\<close>) and the engine assisted by a
    language model (\<open>ai_assisted_decision_engine.py\<close>); \<open>Engine_Props\<close>, \<open>Engine_Bounds\<close>,
    \<open>Engine_Witness\<close>: their properties.
  \<^item> \<open>Generation\<close>, \<open>Generation_Witness\<close>: the fenced leases of
    \<open>persistence/decision_generation_repository.py\<close>.
  \<^item> \<open>Cases\<close>: \<open>persistence/case_persistence\<close> and \<open>services/case_service.py\<close>; \<open>Paging\<close>: keyset
    pagination; \<open>Case_Queue\<close>, \<open>Case_Pages\<close>, \<open>Case_Cursor\<close>, \<open>Case_Witness\<close>: the queue, its
    pages and its cursor tokens.
  \<^item> \<open>Identity\<close>, \<open>Identity_Props\<close>, \<open>Identity_Witness\<close>: members and invitations
    (\<open>persistence/identity_repository.py\<close>, \<open>services/organization_service.py\<close>).
  \<^item> \<open>Policy_Parser\<close>, \<open>Policies\<close>, \<open>Policy_Service\<close>: policy sources, versions and their
    lifecycle (\<open>retrieval/policy_parser.py\<close>, \<open>persistence/policies\<close>, \<open>services/policy_service.py\<close>);
    \<open>Policy_System\<close>, \<open>Policy_Authority\<close>: the step relation, its invariant and the properties.
  \<^item> \<open>Policy_Retrieval\<close>, \<open>Policy_Evidence\<close>, \<open>Policy_Evidence_Props\<close>: which clauses apply to a case,
    both retrieval versions, and their binding (\<open>retrieval\<close>, \<open>persistence/policies\<close>,
    \<open>services/policy_evidence_service.py\<close>).
  \<^item> \<open>Policy_Indexing\<close>, \<open>Policy_Indexing_Props\<close>: the index jobs
    (\<open>persistence/policy_indexing\<close>, \<open>services/policy_indexing.py\<close>). \<open>Policy_Witness\<close> holds a run of
    the policy components.
  \<^item> \<open>Decision_Briefs\<close>, \<open>Brief_Service\<close>, \<open>Brief_Props\<close>: stored decision briefs
    (\<open>persistence/decision_brief_writer.py\<close>, \<open>decision_brief_queries.py\<close>,
    \<open>decision_brief_helpers.py\<close>), their generation (\<open>services/decision_brief_service.py\<close>, the
    transactions of \<open>api/routes/decision_briefs.py\<close>) and the properties of both.
  \<^item> \<open>Review_Service\<close>, \<open>Service_Safety\<close>: \<open>services/review_service.py\<close>, which puts briefs, evidence,
    settings, reviews and actions together, and its properties. \<open>Brief_Witness\<close> holds runs of the
    brief and review services.

  \<^bold>\<open>Interfaces.\<close> \<open>step_invariant\<close> (a step relation keeps an invariant along every run) is
  interpreted for the actions, the reviews, the system composed of both, the generations, the
  members, the policies and the index jobs; \<open>version_guarded\<close> (a command that carries the version
  it read is accepted at most once) for the commands of an action and for the decision of a
  review; \<open>action_gateway\<close> (what a receipt and an error say about the target) for the
  deterministic adapter behind the router; \<open>paged_listing\<close> (what a page read by position has to
  contain) for the conversation of a case and for the case queue.

  \<^bold>\<open>What is shown.\<close> Every state reachable from a store without reviews and actions satisfies
  the invariants of both components. On top of them: a write is leased only on a standing
  approval by a second person with the required role, at the version the caller read, and two writes
  of one action are separated by a recorded proof that the earlier one changed nothing; what a call
  records and reports is true of the target, whatever other calls do meanwhile; receipts
  and decisions are final; reservations exclude each other; an approval is carried out in full,
  once, and with the reviewed text. The engine calls a resolution ready exactly when policy,
  context, sources and records support it, proposes nothing otherwise, and a language model cannot
  change its controls. A stored brief is read back as the analysis it was made from; a generation
  either returns a brief that is stored, against the unchanged case and evidence, or stores none and
  gives its lease back, and a worker that lost its lease cannot publish a brief. A review is submitted only for the
  current brief under the current approval rule. Page by page every
  message and every case is shown once. An organization keeps an administrator, and a membership
  is granted only by an invitation. Active policies of one scope never overlap, and the evidence of
  a case consists of clauses in force that apply to it. Some theorems state what the code does
  against its intent; they are listed as findings in the manifest.

  \<^bold>\<open>Bounds.\<close> Every definition is total: the loops of the code run over lists and texts that become
  shorter. A brief is looked for under at most four input fingerprints, as in the code. The only fuel is the number of requests of the reader in
  \<open>Paging\<close>; the theorems show that one request more than there are rows is enough. The drain of the
  index runs \<open>job_limit\<close> rounds, as in the code. \<open>Engine_Bounds\<close> states the lengths of the columns
  within which an analysis cannot fail.

  \<^bold>\<open>Not modelled.\<close> Foreign keys and cascading deletes, lock waits and concurrent interleavings
  inside a transaction, the validation of request lengths and formats, the cursors of the lists other
  than the case queue, the query minimisation of the second retrieval version (a parameter), the
  HTTP layer (apart from the transactions of the brief generation) and presenters, connection
  administration, settings (apart from the approval limits the review service reads), the JSON
  rendering of a brief and the parsing of stored settings (parameters), notifications, the inbox, mail and webhook adapters, language model adapters,
  evaluation and benchmark code, migrations.
\<close>

end
